(* ===== verification/Prelude.thy ===== *)
theory Prelude
  imports Complex_Main "HOL-Library.AList"
begin

text \<open>
  Shared vocabulary of the development: the Python values and string operations the modelled
  modules use, errors as values, and database tables.

  \<^item> Strings are HOL strings read as ASCII text. \<open>py_strip\<close>, \<open>py_lower\<close>, \<open>py_upper\<close>,
    \<open>py_words\<close> follow the methods \<open>strip\<close>, \<open>lower\<close>, \<open>upper\<close>, \<open>split\<close> of \<open>str\<close> on ASCII.
  \<^item> \<open>pyval\<close> is the JSON-shaped part of Python's values (a float is kept as its \<open>repr\<close>).
  \<^item> A table is the list of its rows, in insertion order. \<open>sql_update\<close> is
    \<open>UPDATE .. SET .. WHERE ..\<close> with its \<open>rowcount\<close>, \<open>sql_insert\<close> is \<open>INSERT\<close> under the table's
    uniqueness constraints (\<open>None\<close> is the integrity error), \<open>row_by\<close> is \<open>SELECT .. WHERE key = ..\<close>
    followed by \<open>fetchone\<close>.
  \<^item> A raise is \<open>Inl\<close> of its code, a return is \<open>Inr\<close>.
\<close>

named_theorems table_simps \<open>rewriting rules for table operations\<close>
named_theorems py_defs \<open>unfolding rules for the Python helpers\<close>

section \<open>Strings\<close>

definition py_space :: "char \<Rightarrow> bool" where
  "py_space c = (let n = (of_char c :: nat) in (9 \<le> n \<and> n \<le> 13) \<or> (28 \<le> n \<and> n \<le> 32))"

definition py_lstrip :: "string \<Rightarrow> string" where
  "py_lstrip s = dropWhile py_space s"

definition py_strip :: "string \<Rightarrow> string" where
  "py_strip s = rev (dropWhile py_space (rev (py_lstrip s)))"

definition py_lower_char :: "char \<Rightarrow> char" where
  "py_lower_char c = (let n = (of_char c :: nat) in if 65 \<le> n \<and> n \<le> 90 then char_of (n + 32) else c)"

definition py_upper_char :: "char \<Rightarrow> char" where
  "py_upper_char c = (let n = (of_char c :: nat) in if 97 \<le> n \<and> n \<le> 122 then char_of (n - 32) else c)"

definition py_lower :: "string \<Rightarrow> string" where
  "py_lower s = map py_lower_char s"

definition py_upper :: "string \<Rightarrow> string" where
  "py_upper s = map py_upper_char s"

definition py_startswith :: "string \<Rightarrow> string \<Rightarrow> bool" where
  "py_startswith s p = (take (length p) s = p)"

text \<open>\<open>str.split()\<close> without argument: the maximal runs of non-space characters.\<close>

fun py_words :: "string \<Rightarrow> string \<Rightarrow> string list" where
  "py_words cur [] = (if cur = [] then [] else [rev cur])"
| "py_words cur (c # cs) =
     (if py_space c then (if cur = [] then py_words [] cs else rev cur # py_words [] cs)
      else py_words (c # cur) cs)"

fun py_join :: "string \<Rightarrow> string list \<Rightarrow> string" where
  "py_join sep [] = []"
| "py_join sep [x] = x"
| "py_join sep (x # y # xs) = x @ sep @ py_join sep (y # xs)"

text \<open>\<open>" ".join(str(reason or "").split())\<close>, the clean-up used by the audited operations.\<close>

definition collapse_spaces :: "string \<Rightarrow> string" where
  "collapse_spaces s = py_join '' '' (py_words [] s)"

section \<open>Decimal digits\<close>

definition is_digit :: "char \<Rightarrow> bool" where
  "is_digit c = (let n = (of_char c :: nat) in 48 \<le> n \<and> n \<le> 57)"

definition digit_char :: "nat \<Rightarrow> char" where
  "digit_char d = char_of (48 + d)"

definition digit_val :: "char \<Rightarrow> nat" where
  "digit_val c = of_char c - 48"

definition nat_of_digits :: "string \<Rightarrow> nat" where
  "nat_of_digits s = foldl (\<lambda>a c. 10 * a + digit_val c) 0 s"

fun string_of_nat :: "nat \<Rightarrow> string" where
  "string_of_nat n = (if n < 10 then [digit_char n] else string_of_nat (n div 10) @ [digit_char (n mod 10)])"

declare string_of_nat.simps [simp del]

definition string_of_int :: "int \<Rightarrow> string" where
  "string_of_int i = (if i < 0 then CHR ''-'' # string_of_nat (nat (- i)) else string_of_nat (nat i))"

text \<open>\<open>int(text)\<close> on base-10 text; \<open>None\<close> is \<open>ValueError\<close>. Digits may be grouped by single underscores.\<close>

fun digit_groups :: "string \<Rightarrow> bool" where
  "digit_groups [] = False"
| "digit_groups [c] = is_digit c"
| "digit_groups (c # d # cs) =
     (is_digit c \<and> (if d = CHR ''_'' then digit_groups cs else digit_groups (d # cs)))"

definition py_int_of_string :: "string \<Rightarrow> int option" where
  "py_int_of_string s =
     (let t = py_strip s;
          (neg, u) = (case t of c # cs \<Rightarrow>
                        if c = CHR ''-'' then (True, cs) else if c = CHR ''+'' then (False, cs) else (False, t)
                      | [] \<Rightarrow> (False, []))
      in if digit_groups u
         then Some ((if neg then - 1 else 1) * int (nat_of_digits (filter (\<lambda>c. c \<noteq> CHR ''_'') u)))
         else None)"

text \<open>
  The bounded integer settings (\<open>_int_env\<close> of the delivery queue, \<open>_bounded_env\<close> of the wallet
  identity): a missing variable is its default, text that is no integer is its default, and the
  result is clamped. An environment is the function \<open>os.getenv\<close>.
\<close>

type_synonym env = "string \<Rightarrow> string option"

definition clamp_int :: "int \<Rightarrow> int \<Rightarrow> int \<Rightarrow> int" where
  "clamp_int lo hi x = max lo (min x hi)"

definition env_int :: "env \<Rightarrow> string \<Rightarrow> int \<Rightarrow> int" where
  "env_int env name dflt =
     (case env name of None \<Rightarrow> dflt
      | Some s \<Rightarrow> (case py_int_of_string s of None \<Rightarrow> dflt | Some v \<Rightarrow> v))"

section \<open>Python values\<close>

datatype pyval =
    PNone
  | PBool bool
  | PInt int
  | PFloat string
  | PStr string
  | PList "pyval list"
  | PDict "(string \<times> pyval) list"

type_synonym pydict = "(string \<times> pyval) list"

fun truthy :: "pyval \<Rightarrow> bool" where
  "truthy PNone = False"
| "truthy (PBool b) = b"
| "truthy (PInt i) = (i \<noteq> 0)"
| "truthy (PFloat r) = (r \<noteq> ''0.0'' \<and> r \<noteq> ''-0.0'')"
| "truthy (PStr s) = (s \<noteq> [])"
| "truthy (PList xs) = (xs \<noteq> [])"
| "truthy (PDict d) = (d \<noteq> [])"

text \<open>\<open>d.get(k)\<close>, \<open>d[k] = v\<close>, \<open>{**d, ..}\<close>: a new key goes last, an old one keeps its place.\<close>

definition dget :: "pydict \<Rightarrow> string \<Rightarrow> pyval" where
  "dget d k = (case map_of d k of None \<Rightarrow> PNone | Some v \<Rightarrow> v)"

definition dset :: "pydict \<Rightarrow> string \<Rightarrow> pyval \<Rightarrow> pydict" where
  "dset d k v = AList.update k v d"

definition as_dict :: "pyval \<Rightarrow> pydict" where
  "as_dict v = (case v of PDict d \<Rightarrow> d | _ \<Rightarrow> [])"

definition py_or :: "pyval \<Rightarrow> pyval \<Rightarrow> pyval" where
  "py_or a b = (if truthy a then a else b)"

definition is_dict :: "pyval \<Rightarrow> bool" where
  "is_dict v = (case v of PDict _ \<Rightarrow> True | _ \<Rightarrow> False)"

definition pstr_opt :: "string option \<Rightarrow> pyval" where
  "pstr_opt o_s = (case o_s of None \<Rightarrow> PNone | Some s \<Rightarrow> PStr s)"

definition pint_opt :: "int option \<Rightarrow> pyval" where
  "pint_opt o_i = (case o_i of None \<Rightarrow> PNone | Some i \<Rightarrow> PInt i)"

text \<open>
  \<open>str(v)\<close>. For a list or a dict Python prints the \<open>repr\<close> of the parts; \<open>py_repr\<close> writes it for
  text without quotes, backslashes and control characters.
\<close>

fun py_repr :: "pyval \<Rightarrow> string" where
  "py_repr PNone = ''None''"
| "py_repr (PBool b) = (if b then ''True'' else ''False'')"
| "py_repr (PInt i) = string_of_int i"
| "py_repr (PFloat r) = r"
| "py_repr (PStr s) = [CHR 0x27] @ s @ [CHR 0x27]"
| "py_repr (PList xs) = ''['' @ py_join '', '' (map py_repr xs) @ '']''"
| "py_repr (PDict d) =
     ''{'' @ py_join '', '' (map (\<lambda>(k, v). [CHR 0x27] @ k @ [CHR 0x27] @ '': '' @ py_repr v) d) @ ''}''"

definition py_str :: "pyval \<Rightarrow> string" where
  "py_str v = (case v of PStr s \<Rightarrow> s | _ \<Rightarrow> py_repr v)"

text \<open>\<open>str(v or "")\<close>.\<close>

definition str_or_empty :: "pyval \<Rightarrow> string" where
  "str_or_empty v = (if truthy v then py_str v else [])"

text \<open>\<open>d.get(k, default)\<close>, and the text that a TEXT column keeps of a value.\<close>

definition dget_or :: "pydict \<Rightarrow> string \<Rightarrow> pyval \<Rightarrow> pyval" where
  "dget_or d k v = (case map_of d k of None \<Rightarrow> v | Some w \<Rightarrow> w)"

definition text_col :: "pyval \<Rightarrow> string option" where
  "text_col v = (case v of PNone \<Rightarrow> None | _ \<Rightarrow> Some (py_str v))"

text \<open>
  The exceptions of the handlers: those of Python, the asserted invariants, and the integrity errors
  of the database.
\<close>

datatype py_error = ValueError string | KeyError | TypeError | NoAttribute | AssertionFailed | IntegrityViolation

text \<open>A call whose raise is passed on to the caller.\<close>

definition sum_bind :: "'e + 'a \<Rightarrow> ('a \<Rightarrow> 'e + 'b) \<Rightarrow> 'e + 'b" where
  "sum_bind m f = (case m of Inl e \<Rightarrow> Inl e | Inr x \<Rightarrow> f x)"

lemma sum_bind_simps [simp]: "sum_bind (Inl e) f = Inl e" "sum_bind (Inr x) f = f x"
  by (simp_all add: sum_bind_def)

lemma sum_bind_Inr: "sum_bind m f = Inr y \<longleftrightarrow> (\<exists>x. m = Inr x \<and> f x = Inr y)"
  by (cases m) auto

text \<open>
  \<open>ends Q m\<close>: the database an operation leaves satisfies \<open>Q\<close>, whatever it answers. The rules follow the
  control structure of a handler, so that a frame property is proved by \<open>intro ends_rules\<close> down to the
  updates it makes.
\<close>

definition ends :: "('db \<Rightarrow> bool) \<Rightarrow> 'a \<times> 'db \<Rightarrow> bool" where
  "ends Q m = Q (snd m)"

lemma ends_pair: "Q db \<Longrightarrow> ends Q (a, db)"
  by (simp add: ends_def)

lemma ends_if: "(c \<Longrightarrow> ends Q m) \<Longrightarrow> (\<not> c \<Longrightarrow> ends Q n) \<Longrightarrow> ends Q (if c then m else n)"
  by simp

lemma ends_let: "(\<And>y. y = x \<Longrightarrow> ends Q (f y)) \<Longrightarrow> ends Q (let y = x in f y)"
  by simp

lemma ends_prod: "(\<And>a b. p = (a, b) \<Longrightarrow> ends Q (f a b)) \<Longrightarrow> ends Q (case p of (a, b) \<Rightarrow> f a b)"
  by (cases p) simp

lemma ends_option:
  "(v = None \<Longrightarrow> ends Q m) \<Longrightarrow> (\<And>x. v = Some x \<Longrightarrow> ends Q (f x)) \<Longrightarrow>
   ends Q (case v of None \<Rightarrow> m | Some x \<Rightarrow> f x)"
  by (cases v) simp_all

lemma ends_sum:
  "(\<And>e. v = Inl e \<Longrightarrow> ends Q (g e)) \<Longrightarrow> (\<And>x. v = Inr x \<Longrightarrow> ends Q (f x)) \<Longrightarrow>
   ends Q (case v of Inl e \<Rightarrow> g e | Inr x \<Rightarrow> f x)"
  by (cases v) simp_all

lemma ends_list:
  "(v = [] \<Longrightarrow> ends Q m) \<Longrightarrow> (\<And>x xs. v = x # xs \<Longrightarrow> ends Q (f x xs)) \<Longrightarrow>
   ends Q (case v of [] \<Rightarrow> m | x # xs \<Rightarrow> f x xs)"
  by (cases v) simp_all

lemmas ends_rules = ends_if ends_let ends_prod ends_option ends_sum

lemma endsD: "ends Q m \<Longrightarrow> m = (a, db) \<Longrightarrow> Q db"
  by (simp add: ends_def)

text \<open>\<open>outcome Q m\<close>: the same for a property of answer and database together.\<close>

definition outcome :: "('m \<Rightarrow> bool) \<Rightarrow> 'm \<Rightarrow> bool" where
  "outcome Q m = Q m"

lemma outcome_if: "(c \<Longrightarrow> outcome Q m) \<Longrightarrow> (\<not> c \<Longrightarrow> outcome Q n) \<Longrightarrow> outcome Q (if c then m else n)"
  by simp

lemma outcome_let: "(\<And>y. y = x \<Longrightarrow> outcome Q (f y)) \<Longrightarrow> outcome Q (let y = x in f y)"
  by simp

lemma outcome_prod: "(\<And>a b. p = (a, b) \<Longrightarrow> outcome Q (f a b)) \<Longrightarrow> outcome Q (case p of (a, b) \<Rightarrow> f a b)"
  by (cases p) simp

lemma outcome_option:
  "(v = None \<Longrightarrow> outcome Q m) \<Longrightarrow> (\<And>x. v = Some x \<Longrightarrow> outcome Q (f x)) \<Longrightarrow>
   outcome Q (case v of None \<Rightarrow> m | Some x \<Rightarrow> f x)"
  by (cases v) simp_all

lemma outcome_sum:
  "(\<And>e. v = Inl e \<Longrightarrow> outcome Q (g e)) \<Longrightarrow> (\<And>x. v = Inr x \<Longrightarrow> outcome Q (f x)) \<Longrightarrow>
   outcome Q (case v of Inl e \<Rightarrow> g e | Inr x \<Rightarrow> f x)"
  by (cases v) simp_all

lemma outcome_list:
  "(v = [] \<Longrightarrow> outcome Q m) \<Longrightarrow> (\<And>x xs. v = x # xs \<Longrightarrow> outcome Q (f x xs)) \<Longrightarrow>
   outcome Q (case v of [] \<Rightarrow> m | x # xs \<Rightarrow> f x xs)"
  by (cases v) simp_all

lemmas outcome_rules = outcome_if outcome_let outcome_prod outcome_option outcome_sum

lemma outcomeI: "Q m \<Longrightarrow> outcome Q m"
  by (simp add: outcome_def)

section \<open>Tables\<close>

definition row_by :: "('r \<Rightarrow> 'k) \<Rightarrow> 'k \<Rightarrow> 'r list \<Rightarrow> 'r option" where
  "row_by key k t = find (\<lambda>r. key r = k) t"

definition sql_update :: "('r \<Rightarrow> bool) \<Rightarrow> ('r \<Rightarrow> 'r) \<Rightarrow> 'r list \<Rightarrow> 'r list \<times> nat" where
  "sql_update P f t = (map (\<lambda>r. if P r then f r else r) t, length (filter P t))"

definition sql_insert :: "('r \<Rightarrow> 'r \<Rightarrow> bool) \<Rightarrow> 'r \<Rightarrow> 'r list \<Rightarrow> 'r list option" where
  "sql_insert clash r t = (if list_ex (clash r) t then None else Some (t @ [r]))"

text \<open>\<open>ORDER BY .. LIMIT n\<close> for a non-negative limit; rows with equal keys keep insertion order.\<close>

definition sql_order_limit :: "('r \<Rightarrow> int) \<Rightarrow> nat \<Rightarrow> 'r list \<Rightarrow> 'r list" where
  "sql_order_limit k n t = take n (sort_key k t)"

definition unique_by :: "('r \<Rightarrow> 'k) \<Rightarrow> 'r list \<Rightarrow> bool" where
  "unique_by key t = distinct (map key t)"

section \<open>Facts about tables\<close>

lemma row_by_SomeD: "row_by key k t = Some r \<Longrightarrow> key r = k \<and> r \<in> set t"
  by (auto simp: row_by_def find_Some_iff)

lemma row_by_None_iff: "row_by key k t = None \<longleftrightarrow> k \<notin> key ` set t"
  by (auto simp: row_by_def find_None_iff)

lemma row_by_Nil [simp]: "row_by key k [] = None"
  by (simp add: row_by_def)

lemma row_by_Cons: "row_by key k (r # t) = (if key r = k then Some r else row_by key k t)"
  by (simp add: row_by_def)

lemma row_by_append:
  "row_by key k (t @ u) = (case row_by key k t of Some r \<Rightarrow> Some r | None \<Rightarrow> row_by key k u)"
  by (induction t) (auto simp: row_by_Cons)

lemma row_by_update [table_simps]:
  "(\<And>r. P r \<Longrightarrow> key (f r) = key r) \<Longrightarrow>
   row_by key k (fst (sql_update P f t)) = map_option (\<lambda>r. if P r then f r else r) (row_by key k t)"
  by (induction t) (auto simp: row_by_Cons sql_update_def)

lemma map_key_update:
  "(\<And>r. P r \<Longrightarrow> key (f r) = key r) \<Longrightarrow> map key (fst (sql_update P f t)) = map key t"
  by (induction t) (auto simp: sql_update_def)

lemma unique_by_update [table_simps]:
  "(\<And>r. P r \<Longrightarrow> key (f r) = key r) \<Longrightarrow> unique_by key (fst (sql_update P f t)) = unique_by key t"
  by (simp add: unique_by_def map_key_update)

lemma unique_by_Nil [simp]: "unique_by key []"
  by (simp add: unique_by_def)

lemma unique_by_Cons: "unique_by key (r # t) \<longleftrightarrow> row_by key (key r) t = None \<and> unique_by key t"
  by (auto simp: unique_by_def row_by_None_iff)

lemma unique_by_snoc [table_simps]:
  "unique_by key (t @ [r]) \<longleftrightarrow> row_by key (key r) t = None \<and> unique_by key t"
  by (auto simp: unique_by_def row_by_None_iff)

lemma unique_by_inj: "unique_by key t \<Longrightarrow> r \<in> set t \<Longrightarrow> s \<in> set t \<Longrightarrow> key r = key s \<Longrightarrow> r = s"
  by (auto simp: unique_by_def distinct_map inj_on_def)

lemma row_by_memI: "unique_by key t \<Longrightarrow> r \<in> set t \<Longrightarrow> row_by key (key r) t = Some r"
  by (induction t) (auto simp: unique_by_Cons row_by_Cons row_by_None_iff)

lemma row_by_eq_SomeI: "unique_by key t \<Longrightarrow> r \<in> set t \<Longrightarrow> key r = k \<Longrightarrow> row_by key k t = Some r"
  by (auto dest: row_by_memI)

lemma rowcount_unique:
  assumes "unique_by key t" and "\<And>r. P r \<Longrightarrow> key r = k"
  shows "snd (sql_update P f t) =
    (case row_by key k t of Some r \<Rightarrow> (if P r then 1 else 0) | None \<Rightarrow> 0)"
  using assms
proof (induction t)
  case Nil
  then show ?case by (simp add: sql_update_def)
next
  case (Cons r t)
  have none: "filter P t = []" if "key r = k"
    using Cons.prems(1) Cons.prems(2) that
    by (auto simp: filter_empty_conv unique_by_Cons row_by_None_iff) (metis image_eqI)
  with Cons show ?case
    by (cases "key r = k") (auto simp: sql_update_def row_by_Cons unique_by_Cons)
qed

lemma sql_update_none: "(\<And>r. r \<in> set t \<Longrightarrow> \<not> P r) \<Longrightarrow> sql_update P f t = (t, 0)"
  by (induction t) (auto simp: sql_update_def)

lemma rowcount_0_same: "snd (sql_update P f t) = 0 \<Longrightarrow> fst (sql_update P f t) = t"
  by (simp add: sql_update_def filter_empty_conv map_idI)

lemma snd_sql_update: "snd (sql_update P f t) = length (filter P t)"
  by (simp add: sql_update_def)

lemma set_sql_update: "set (fst (sql_update P f t)) = (\<lambda>r. if P r then f r else r) ` set t"
  by (simp add: sql_update_def)

lemma sql_insert_Some:
  "sql_insert clash r t = Some u \<longleftrightarrow> (\<forall>x \<in> set t. \<not> clash r x) \<and> u = t @ [r]"
  by (auto simp: sql_insert_def list_ex_iff)

lemma sql_insert_None: "sql_insert clash r t = None \<longleftrightarrow> (\<exists>x \<in> set t. clash r x)"
  by (auto simp: sql_insert_def list_ex_iff)

lemma set_sql_order_limit: "set (sql_order_limit k n t) \<subseteq> set t"
  by (auto simp: sql_order_limit_def dest: in_set_takeD)

lemma set_sql_order_limit_all: "length t \<le> n \<Longrightarrow> set (sql_order_limit k n t) = set t"
  by (simp add: sql_order_limit_def)

section \<open>Facts about values and bounds\<close>

lemma clamp_int_bounds: "lo \<le> hi \<Longrightarrow> lo \<le> clamp_int lo hi x \<and> clamp_int lo hi x \<le> hi"
  by (auto simp: clamp_int_def)

lemma dget_dset [simp]: "dget (dset d k v) k' = (if k' = k then v else dget d k')"
  by (simp add: dget_def dset_def update_conv')

lemma dget_Nil [simp]: "dget [] k = PNone"
  by (simp add: dget_def)

lemma dget_Cons [simp]: "dget ((k, v) # d) k' = (if k = k' then v else dget d k')"
  by (simp add: dget_def)

lemma as_dict_PDict [simp]: "as_dict (PDict d) = d"
  by (simp add: as_dict_def)

section \<open>Facts about digits\<close>

lemma digit_char_props:
  "d < 10 \<Longrightarrow> is_digit (digit_char d) \<and> digit_val (digit_char d) = d"
  by (simp add: is_digit_def digit_char_def digit_val_def)

lemma nat_of_digits_snoc [simp]: "nat_of_digits (s @ [c]) = 10 * nat_of_digits s + digit_val c"
  by (simp add: nat_of_digits_def)

lemma nat_of_digits_Nil [simp]: "nat_of_digits [] = 0"
  by (simp add: nat_of_digits_def)

lemma string_of_nat_digits: "\<forall>c \<in> set (string_of_nat n). is_digit c"
proof (induction n rule: string_of_nat.induct)
  case (1 n)
  then show ?case
    by (subst string_of_nat.simps) (auto simp: digit_char_props)
qed

lemma nat_of_string_of_nat [simp]: "nat_of_digits (string_of_nat n) = n"
proof (induction n rule: string_of_nat.induct)
  case (1 n)
  show ?case
  proof (cases "n < 10")
    case True
    then show ?thesis
      by (subst string_of_nat.simps) (simp add: nat_of_digits_def digit_char_props)
  next
    case False
    with 1 show ?thesis
      by (subst string_of_nat.simps) (simp add: digit_char_props)
  qed
qed

lemma string_of_nat_nonempty [simp]: "string_of_nat n \<noteq> []"
  by (subst string_of_nat.simps) simp

lemma digit_not_special:
  "is_digit c \<Longrightarrow> \<not> py_space c \<and> c \<noteq> CHR ''_'' \<and> c \<noteq> CHR ''-'' \<and> c \<noteq> CHR ''+'' \<and> c \<noteq> CHR ''.''"
  by (auto simp: is_digit_def py_space_def Let_def)

lemma py_strip_id: "(\<And>c. c \<in> set s \<Longrightarrow> \<not> py_space c) \<Longrightarrow> py_strip s = s"
proof -
  assume *: "\<And>c. c \<in> set s \<Longrightarrow> \<not> py_space c"
  then have "py_lstrip s = s" by (cases s) (auto simp: py_lstrip_def)
  moreover have "dropWhile py_space (rev s) = rev s" using * by (cases s rule: rev_cases) auto
  ultimately show ?thesis by (simp add: py_strip_def)
qed

lemma py_strip_Cons_ne: "\<not> py_space c \<Longrightarrow> py_strip (c # s) \<noteq> []"
  by (simp add: py_strip_def py_lstrip_def dropWhile_eq_Nil_conv)

lemma nat_of_digits_zeros: "nat_of_digits (replicate k (CHR ''0'') @ s) = nat_of_digits s"
  by (induction k) (simp_all add: nat_of_digits_def digit_val_def)

lemma inj_string_of_nat: "string_of_nat m = string_of_nat n \<longleftrightarrow> m = n"
  by (metis nat_of_string_of_nat)

section \<open>HTTP answers\<close>

text \<open>An \<open>HTTPException\<close> with its status and detail, a violated constraint, another exception.\<close>

datatype http_error = Http int pyval | Violation | Unhandled

definition refuse :: "int \<Rightarrow> string \<Rightarrow> http_error + 'a" where
  "refuse status detail = Inl (Http status (PStr detail))"

text \<open>\<open>secrets.compare_digest\<close> of two texts: it raises unless both are ASCII.\<close>

definition is_ascii :: "string \<Rightarrow> bool" where
  "is_ascii s = list_all (\<lambda>c. (of_char c :: nat) < 128) s"

definition compare_digest :: "string \<Rightarrow> string \<Rightarrow> http_error + bool" where
  "compare_digest a b = (if is_ascii a \<and> is_ascii b then Inr (a = b) else Inl Unhandled)"

text \<open>A SHA-256 digest in lower-case hexadecimal.\<close>

definition hex64 :: "string \<Rightarrow> bool" where
  "hex64 s = (length s = 64 \<and> list_all (\<lambda>c. let n = (of_char c :: nat) in (48 \<le> n \<and> n \<le> 57) \<or> (97 \<le> n \<and> n \<le> 102)) s)"

end
