(* ===== verification/PyDecimal.thy ===== *)
theory PyDecimal
  imports Prelude
begin

text \<open>
  Python's \<open>decimal.Decimal\<close> under the default context, as the money code uses it: precision 28,
  \<open>ROUND_HALF_EVEN\<close>, exponents between -999999 and 999999, traps on invalid operations, division
  by zero and overflow. A finite number is its sign, coefficient and exponent, exactly as Python
  keeps it, so that rounding to 28 digits, the ideal exponent of a quotient and the digit limit of
  \<open>quantize\<close> are visible. The operations follow the General Decimal Arithmetic steps of the
  standard library's \<open>_pydecimal\<close>. Exponents beyond the C implementation's hard limits
  (about 10 to the 18) are not modelled.
\<close>

section \<open>Numbers and signals\<close>

datatype fdec = Dec (dsign: bool) (dcoef: nat) (dexp: int)

datatype pydec = DFin fdec | DInf bool | DNaN

datatype dec_error = InvalidOperation | DivisionByZero | DecOverflow

definition dec_val :: "fdec \<Rightarrow> rat" where
  "dec_val d = (if dsign d then - 1 else 1) * of_nat (dcoef d) * (10 powi dexp d)"

definition dec_of_int :: "int \<Rightarrow> fdec" where
  "dec_of_int i = Dec (i < 0) (nat \<bar>i\<bar>) 0"

definition dec_prec :: nat where "dec_prec = 28"
definition dec_emax :: int where "dec_emax = 999999"
definition dec_etiny :: int where "dec_etiny = - 999999 - 28 + 1"
definition dec_etop :: int where "dec_etop = 999999 - 28 + 1"

lemmas dec_limits = dec_prec_def dec_emax_def dec_etiny_def dec_etop_def

fun ndigits :: "nat \<Rightarrow> nat" where
  "ndigits n = (if n < 10 then 1 else Suc (ndigits (n div 10)))"

declare ndigits.simps [simp del]

section \<open>Rounding\<close>

datatype rmode = HalfUp | HalfEven | RoundUp | RoundDown

definition round_quot :: "rmode \<Rightarrow> nat \<Rightarrow> nat \<Rightarrow> nat" where
  "round_quot m n k =
     (let p = 10 ^ k; q = n div p; r = n mod p in
      case m of
        HalfUp \<Rightarrow> if 2 * r \<ge> p then q + 1 else q
      | HalfEven \<Rightarrow> if 2 * r > p \<or> (2 * r = p \<and> odd q) then q + 1 else q
      | RoundUp \<Rightarrow> if r > 0 then q + 1 else q
      | RoundDown \<Rightarrow> q)"

text \<open>\<open>_fix\<close>: bring a result to at most 28 digits and the exponent range.\<close>

definition dec_fix :: "fdec \<Rightarrow> dec_error + fdec" where
  "dec_fix d =
     (let s = dsign d; n = dcoef d; e = dexp d in
      if n = 0 then Inr (Dec s 0 (min (max e dec_etiny) dec_emax))
      else
        let em0 = int (ndigits n) + e - int dec_prec in
        if em0 > dec_etop then Inl DecOverflow
        else
          let em = max em0 dec_etiny in
          if e < em then
            let c = round_quot HalfEven n (nat (em - e));
                (c', em') = (if ndigits c > dec_prec then (c div 10, em + 1) else (c, em))
            in if em' > dec_etop then Inl DecOverflow else Inr (Dec s c' em')
          else Inr (Dec s n e))"

text \<open>\<open>_rescale\<close>: the same value at another exponent, rounded when digits are lost.\<close>

definition dec_rescale :: "rmode \<Rightarrow> fdec \<Rightarrow> int \<Rightarrow> fdec" where
  "dec_rescale m d e' =
     (if dcoef d = 0 then Dec (dsign d) 0 e'
      else if e' \<le> dexp d then Dec (dsign d) (dcoef d * 10 ^ nat (dexp d - e')) e'
      else Dec (dsign d) (round_quot m (dcoef d) (nat (e' - dexp d))) e')"

definition dec_adjusted :: "fdec \<Rightarrow> int" where
  "dec_adjusted d = dexp d + int (ndigits (dcoef d)) - 1"

text \<open>\<open>d.quantize(Decimal(1) at exponent e, rounding)\<close>.\<close>

definition dec_quantize :: "rmode \<Rightarrow> fdec \<Rightarrow> int \<Rightarrow> dec_error + fdec" where
  "dec_quantize m d e =
     (if \<not> (dec_etiny \<le> e \<and> e \<le> dec_emax) then Inl InvalidOperation
      else if dcoef d = 0 then dec_fix (Dec (dsign d) 0 e)
      else if dec_adjusted d > dec_emax then Inl InvalidOperation
      else if dec_adjusted d - e + 1 > int dec_prec then Inl InvalidOperation
      else
        let a = dec_rescale m d e in
        if dec_adjusted a > dec_emax then Inl InvalidOperation
        else if ndigits (dcoef a) > dec_prec then Inl InvalidOperation
        else dec_fix a)"

section \<open>Arithmetic\<close>

definition dec_mul :: "fdec \<Rightarrow> fdec \<Rightarrow> dec_error + fdec" where
  "dec_mul a b = dec_fix (Dec (dsign a \<noteq> dsign b) (dcoef a * dcoef b) (dexp a + dexp b))"

text \<open>The signed coefficient of a number at an exponent not above its own.\<close>

definition dec_at :: "fdec \<Rightarrow> int \<Rightarrow> int" where
  "dec_at d e = (if dsign d then - 1 else 1) * int (dcoef d) * 10 ^ nat (dexp d - e)"

definition dec_add :: "fdec \<Rightarrow> fdec \<Rightarrow> dec_error + fdec" where
  "dec_add a b =
     (let e = min (dexp a) (dexp b); v = dec_at a e + dec_at b e in
      dec_fix (Dec (if v = 0 then dsign a \<and> dsign b else v < 0) (nat \<bar>v\<bar>) e))"

definition dec_neg :: "fdec \<Rightarrow> fdec" where
  "dec_neg d = Dec (\<not> dsign d) (dcoef d) (dexp d)"

definition dec_abs :: "fdec \<Rightarrow> fdec" where
  "dec_abs d = Dec False (dcoef d) (dexp d)"

definition dec_sub :: "fdec \<Rightarrow> fdec \<Rightarrow> dec_error + fdec" where
  "dec_sub a b = dec_add a (dec_neg b)"

text \<open>The trailing zeros of an exact quotient are removed towards the ideal exponent.\<close>

fun strip_zeros :: "nat \<Rightarrow> nat \<Rightarrow> int \<Rightarrow> nat \<times> int" where
  "strip_zeros 0 c e = (c, e)"
| "strip_zeros (Suc k) c e = (if c mod 10 = 0 then strip_zeros k (c div 10) (e + 1) else (c, e))"

definition dec_div :: "fdec \<Rightarrow> fdec \<Rightarrow> dec_error + fdec" where
  "dec_div a b =
     (if dcoef b = 0 then Inl (if dcoef a = 0 then InvalidOperation else DivisionByZero)
      else
        let s = (dsign a \<noteq> dsign b); ideal = dexp a - dexp b in
        if dcoef a = 0 then dec_fix (Dec s 0 ideal)
        else
          let shift = int (ndigits (dcoef b)) - int (ndigits (dcoef a)) + int dec_prec + 1;
              e = ideal - shift;
              num = (if shift \<ge> 0 then dcoef a * 10 ^ nat shift else dcoef a);
              den = (if shift \<ge> 0 then dcoef b else dcoef b * 10 ^ nat (- shift));
              c = num div den
          in if num mod den \<noteq> 0
             then dec_fix (Dec s (if c mod 5 = 0 then c + 1 else c) e)
             else (case strip_zeros (nat (ideal - e)) c e of (c', e') \<Rightarrow> dec_fix (Dec s c' e')))"

section \<open>Comparison and conversion\<close>

definition dec_cmp :: "fdec \<Rightarrow> fdec \<Rightarrow> int" where
  "dec_cmp a b = (let e = min (dexp a) (dexp b) in dec_at a e - dec_at b e)"

definition dec_lt :: "fdec \<Rightarrow> fdec \<Rightarrow> bool" where "dec_lt a b = (dec_cmp a b < 0)"
definition dec_le :: "fdec \<Rightarrow> fdec \<Rightarrow> bool" where "dec_le a b = (dec_cmp a b \<le> 0)"

definition dec_zero :: fdec where "dec_zero = Dec False 0 0"

text \<open>\<open>int(d)\<close> truncates towards zero.\<close>

definition dec_to_int :: "fdec \<Rightarrow> int" where
  "dec_to_int d =
     (if dsign d then - 1 else 1) *
     int (if dexp d \<ge> 0 then dcoef d * 10 ^ nat (dexp d) else dcoef d div 10 ^ nat (- dexp d))"

section \<open>Parsing and printing\<close>

definition take_sign :: "string \<Rightarrow> bool \<times> string" where
  "take_sign s =
     (case s of c # cs \<Rightarrow>
        if c = CHR ''-'' then (True, cs) else if c = CHR ''+'' then (False, cs) else (False, s)
      | [] \<Rightarrow> (False, []))"

definition parse_exponent :: "string \<Rightarrow> int option" where
  "parse_exponent s =
     (case s of
        [] \<Rightarrow> Some 0
      | c # cs \<Rightarrow>
          if c = CHR ''e'' \<or> c = CHR ''E'' then
            (case take_sign cs of (neg, ds) \<Rightarrow>
               if ds \<noteq> [] \<and> list_all is_digit ds
               then Some ((if neg then - 1 else 1) * int (nat_of_digits ds)) else None)
          else None)"

definition parse_special :: "bool \<Rightarrow> string \<Rightarrow> pydec option" where
  "parse_special neg u =
     (let l = py_lower u in
      if l = ''inf'' \<or> l = ''infinity'' then Some (DInf neg)
      else if py_startswith l ''nan'' \<and> list_all is_digit (drop 3 l) then Some DNaN
      else if py_startswith l ''snan'' \<and> list_all is_digit (drop 4 l) then Some DNaN
      else None)"

text \<open>\<open>Decimal(text)\<close>; \<open>None\<close> is the conversion's \<open>InvalidOperation\<close>.\<close>

definition dec_of_string :: "string \<Rightarrow> pydec option" where
  "dec_of_string s =
     (let (neg, u) = take_sign (filter (\<lambda>c. c \<noteq> CHR ''_'') (py_strip s));
          ip = takeWhile is_digit u;
          rest = dropWhile is_digit u;
          (fp, ex) = (case rest of c # cs \<Rightarrow>
                        if c = CHR ''.'' then (takeWhile is_digit cs, dropWhile is_digit cs)
                        else ([], rest)
                      | [] \<Rightarrow> ([], []))
      in if ip @ fp = [] then parse_special neg u
         else (case parse_exponent ex of None \<Rightarrow> None
               | Some x \<Rightarrow> Some (DFin (Dec neg (nat_of_digits (ip @ fp)) (x - int (length fp))))))"

text \<open>\<open>f"{d:.pf}"\<close>: fixed point with \<open>p\<close> decimals.\<close>

definition pad_zeros :: "nat \<Rightarrow> string \<Rightarrow> string" where
  "pad_zeros w s = replicate (w - length s) (CHR ''0'') @ s"

definition dec_format :: "nat \<Rightarrow> fdec \<Rightarrow> string" where
  "dec_format p d =
     (let c = dcoef (dec_rescale HalfEven d (- int p));
          ds = pad_zeros (p + 1) (string_of_nat c);
          k = length ds - p
      in (if dsign d then ''-'' else []) @ take k ds @ (if p = 0 then [] else ''.'' @ drop k ds))"

section \<open>Facts about digits and rounding\<close>

lemma ndigits_ge1 [simp]: "Suc 0 \<le> ndigits n"
  by (subst ndigits.simps) simp

lemma ndigits_le_iff: "0 < k \<Longrightarrow> ndigits n \<le> k \<longleftrightarrow> n < 10 ^ k"
proof (induction n arbitrary: k rule: ndigits.induct)
  case (1 n)
  show ?case
  proof (cases "n < 10")
    case True
    have "(10::nat) \<le> 10 ^ k" using \<open>0 < k\<close> by (cases k) auto
    with True \<open>0 < k\<close> show ?thesis by (subst ndigits.simps) auto
  next
    case False
    then have step: "ndigits n = Suc (ndigits (n div 10))" by (subst ndigits.simps) simp
    obtain j where k: "k = Suc j" using \<open>0 < k\<close> by (cases k) auto
    show ?thesis
    proof (cases "j = 0")
      case True
      have "\<not> ndigits (n div 10) \<le> 0" using ndigits_ge1 [of "n div 10"] by linarith
      with True False step k show ?thesis by simp
    next
      case nz: False
      then have "ndigits (n div 10) \<le> j \<longleftrightarrow> n div 10 < 10 ^ j" using 1 False by simp
      also have "\<dots> \<longleftrightarrow> n < 10 ^ k" by (simp add: k less_mult_imp_div_less div_less_iff_less_mult mult.commute)
      finally show ?thesis using step k by simp
    qed
  qed
qed

lemma ndigits_mono: "m \<le> n \<Longrightarrow> ndigits m \<le> ndigits n"
  using ndigits_le_iff [of "ndigits n" m] ndigits_le_iff [of "ndigits n" n] ndigits_ge1 [of n]
  by linarith

lemma ndigits_lower: "n \<noteq> 0 \<Longrightarrow> 10 ^ (ndigits n - 1) \<le> n"
proof (cases "ndigits n = 1")
  case False
  moreover have "Suc 0 \<le> ndigits n" by simp
  ultimately have "0 < ndigits n - 1" by linarith
  then have "\<not> n < 10 ^ (ndigits n - 1)"
    using ndigits_le_iff [of "ndigits n - 1" n] by linarith
  then show ?thesis by simp
qed simp

lemma round_quot_0 [simp]: "round_quot m n 0 = n"
  by (cases m) (simp_all add: round_quot_def)

lemma round_quot_exact: "10 ^ k dvd n \<Longrightarrow> round_quot m n k = n div 10 ^ k"
  by (cases m) (auto simp: round_quot_def Let_def)

lemma round_up_nat: "(r::nat) < p \<Longrightarrow> q * p + r \<le> (if r > 0 then q + 1 else q) * p"
  by (auto simp: algebra_simps)

lemma round_half_nat:
  "(r::nat) < p \<Longrightarrow> 2 * (q * p + r) \<le> 2 * ((if 2 * r \<ge> p then q + 1 else q) * p) + p \<and>
   2 * ((if 2 * r \<ge> p then q + 1 else q) * p) \<le> 2 * (q * p + r) + p"
  by (auto simp: algebra_simps)

lemma round_up_ge: "n \<le> round_quot RoundUp n k * 10 ^ k"
  using round_up_nat [of "n mod 10 ^ k" "10 ^ k" "n div 10 ^ k"]
  by (simp only: round_quot_def Let_def rmode.case div_mult_mod_eq mod_less_divisor simp_thms zero_less_power zero_less_numeral)

lemma round_half_up_nearest:
  "2 * n \<le> 2 * (round_quot HalfUp n k * 10 ^ k) + 10 ^ k \<and>
   2 * (round_quot HalfUp n k * 10 ^ k) \<le> 2 * n + 10 ^ k"
  using round_half_nat [of "n mod 10 ^ k" "10 ^ k" "n div 10 ^ k"]
  by (simp only: round_quot_def Let_def rmode.case div_mult_mod_eq mod_less_divisor simp_thms zero_less_power zero_less_numeral)

lemma round_down_le: "round_quot RoundDown n k * 10 ^ k \<le> n"
  by (simp add: round_quot_def Let_def div_times_less_eq_dividend)

section \<open>Facts about exactness\<close>

lemma dec_fix_exact:
  assumes "ndigits (dcoef d) \<le> 28" and "- 1000026 \<le> dexp d" and "dexp d \<le> 999972"
  shows "dec_fix d = Inr d"
proof (cases "dcoef d = 0")
  case True
  with assms show ?thesis by (cases d) (simp add: dec_fix_def dec_limits)
next
  case False
  have "int (ndigits (dcoef d)) + dexp d - 28 \<le> dexp d" using assms(1) by simp
  with assms False show ?thesis by (cases d) (auto simp: dec_fix_def dec_limits Let_def)
qed

lemma dec_fix_digits: "dec_fix d = Inr r \<Longrightarrow> dcoef r = 0 \<longleftrightarrow> dcoef d = 0 \<or> dcoef r = 0"
  by (auto simp: dec_fix_def Let_def split: if_splits)

lemma dec_fix_sign: "dec_fix d = Inr r \<Longrightarrow> dsign r = dsign d"
  by (auto simp: dec_fix_def Let_def split: if_splits prod.splits)

lemma dec_rescale_sign [simp]: "dsign (dec_rescale m d e) = dsign d"
  by (simp add: dec_rescale_def)

lemma dec_rescale_exp [simp]: "dexp (dec_rescale m d e) = e"
  by (simp add: dec_rescale_def)

section \<open>Values\<close>

lemma powi_split: "e \<le> x \<Longrightarrow> (10::rat) powi x = 10 ^ nat (x - e) * 10 powi e"
proof -
  assume "e \<le> x"
  then have "(10::rat) powi (int (nat (x - e)) + e) = 10 powi x" by simp
  moreover have "(10::rat) powi (int (nat (x - e)) + e) = 10 powi (int (nat (x - e))) * 10 powi e"
    by (rule power_int_add) simp
  ultimately show ?thesis by (simp only: power_int_of_nat)
qed

lemma dec_at_val: "e \<le> dexp d \<Longrightarrow> of_int (dec_at d e) * 10 powi e = dec_val d"
  by (simp add: dec_at_def dec_val_def powi_split [of e "dexp d"])

lemma dec_cmp_val:
  "of_int (dec_cmp a b) * 10 powi (min (dexp a) (dexp b)) = dec_val a - dec_val b"
  by (simp add: dec_cmp_def Let_def left_diff_distrib dec_at_val)

lemma dec_lt_iff: "dec_lt a b \<longleftrightarrow> dec_val a < dec_val b"
proof -
  have pos: "(0::rat) < 10 powi (min (dexp a) (dexp b))" by (simp add: zero_less_power_int)
  have "dec_cmp a b < 0 \<longleftrightarrow> of_int (dec_cmp a b) * (10::rat) powi (min (dexp a) (dexp b)) < 0"
    using mult_less_cancel_right_pos [OF pos, of "of_int (dec_cmp a b)" 0] by simp
  then show ?thesis by (simp add: dec_lt_def dec_cmp_val)
qed

lemma dec_le_iff: "dec_le a b \<longleftrightarrow> dec_val a \<le> dec_val b"
proof -
  have pos: "(0::rat) < 10 powi (min (dexp a) (dexp b))" by (simp add: zero_less_power_int)
  have "dec_cmp a b \<le> 0 \<longleftrightarrow> of_int (dec_cmp a b) * (10::rat) powi (min (dexp a) (dexp b)) \<le> 0"
    using mult_le_cancel_right_pos [OF pos, of "of_int (dec_cmp a b)" 0] by simp
  then show ?thesis by (simp add: dec_le_def dec_cmp_val)
qed

lemma dec_val_zero [simp]: "dec_val dec_zero = 0"
  by (simp add: dec_val_def dec_zero_def)

lemma dec_val_of_int [simp]: "dec_val (dec_of_int i) = of_int i"
  by (simp add: dec_val_def dec_of_int_def)

lemma dec_val_sign: "dec_val d < 0 \<longleftrightarrow> dsign d \<and> dcoef d \<noteq> 0"
proof -
  have pos: "(0::rat) < 10 powi dexp d" by (simp add: zero_less_power_int)
  show ?thesis
    using mult_less_cancel_right_pos [OF pos, of "(if dsign d then - 1 else 1) * of_nat (dcoef d)" 0]
    by (simp add: dec_val_def)
qed

lemma dec_val_nonneg: "\<not> dsign d \<Longrightarrow> 0 \<le> dec_val d"
  using dec_val_sign [of d] by auto

lemma dec_add_val:
  assumes "dec_add a b = Inr r" and "ndigits (nat \<bar>dec_at a m + dec_at b m\<bar>) \<le> 28"
    and "m = min (dexp a) (dexp b)" and "- 1000026 \<le> m" and "m \<le> 999972"
  shows "dec_val r = dec_val a + dec_val b"
proof -
  have "r = Dec (if dec_at a m + dec_at b m = 0 then dsign a \<and> dsign b else dec_at a m + dec_at b m < 0)
             (nat \<bar>dec_at a m + dec_at b m\<bar>) m"
    using assms(1,2,4,5) dec_fix_exact [of "Dec (if dec_at a m + dec_at b m = 0 then dsign a \<and> dsign b
      else dec_at a m + dec_at b m < 0) (nat \<bar>dec_at a m + dec_at b m\<bar>) m"]
    unfolding dec_add_def Let_def assms(3) [symmetric] by (simp only: fdec.sel sum.inject)
  then have "dec_val r = of_int (dec_at a m + dec_at b m) * 10 powi m"
    by (auto simp: dec_val_def)
  also have "\<dots> = dec_val a + dec_val b"
    using assms(3) by (simp add: distrib_right dec_at_val)
  finally show ?thesis .
qed

lemma dec_nonneg_iff: "dec_lt d dec_zero \<longleftrightarrow> dsign d \<and> dcoef d \<noteq> 0"
  by (auto simp: dec_lt_def dec_cmp_def dec_at_def dec_zero_def Let_def mult_less_0_iff)

section \<open>Facts about decimal text\<close>

lemma pad_zeros_digits: "list_all is_digit (pad_zeros w (string_of_nat n))"
  using string_of_nat_digits [of n]
  by (auto simp: pad_zeros_def list_all_iff is_digit_def)

lemma pad_zeros_length: "w \<le> length (pad_zeros w s)"
  by (simp add: pad_zeros_def)

lemma pad_zeros_value [simp]: "nat_of_digits (pad_zeros w s) = nat_of_digits s"
  by (simp add: pad_zeros_def nat_of_digits_zeros)

lemma dec_of_point_text:
  assumes "list_all is_digit ip" and "list_all is_digit fp" and "ip \<noteq> []"
  shows "dec_of_string (ip @ ''.'' @ fp) =
    Some (DFin (Dec False (nat_of_digits (ip @ fp)) (- int (length fp))))"
proof -
  let ?t = "ip @ ''.'' @ fp"
  have digits: "\<forall>c \<in> set ip. is_digit c" "\<forall>c \<in> set fp. is_digit c"
    using assms(1,2) by (auto simp: list_all_iff)
  then have chars: "\<forall>c \<in> set ?t. \<not> py_space c \<and> c \<noteq> CHR ''_''"
    using digit_not_special by (auto simp: py_space_def)
  have 1: "py_strip ?t = ?t" using chars by (intro py_strip_id) blast
  have 2: "filter (\<lambda>c. c \<noteq> CHR ''_'') ?t = ?t" using chars by (intro filter_True) blast
  obtain c cs where ip: "ip = c # cs" using assms(3) by (cases ip) auto
  then have "c \<noteq> CHR ''-'' \<and> c \<noteq> CHR ''+''" using digits digit_not_special [of c] by simp
  then have 3: "take_sign ?t = (False, ?t)" unfolding ip take_sign_def by simp
  have 4: "takeWhile is_digit ?t = ip" "dropWhile is_digit ?t = CHR ''.'' # fp"
    using digits by (auto simp: takeWhile_append dropWhile_append is_digit_def)
  have 5: "takeWhile is_digit fp = fp" "dropWhile is_digit fp = []"
    using digits by (simp_all add: takeWhile_eq_all_conv dropWhile_eq_Nil_conv)
  show ?thesis
    unfolding dec_of_string_def Let_def 1 2 3 using assms(3)
    by (simp add: 4 [simplified] 5 parse_exponent_def)
qed

lemma dec_of_fixed_text:
  assumes "list_all is_digit ds" and "p < length ds"
  shows "dec_of_string (take (length ds - p) ds @ ''.'' @ drop (length ds - p) ds) =
    Some (DFin (Dec False (nat_of_digits ds) (- int p)))"
proof -
  have "list_all is_digit (take (length ds - p) ds)" "list_all is_digit (drop (length ds - p) ds)"
    using assms(1) by (auto simp: list_all_iff dest: in_set_takeD in_set_dropD)
  moreover have "take (length ds - p) ds \<noteq> []" using assms(2) by (cases ds) auto
  ultimately show ?thesis using dec_of_point_text assms(2) by simp
qed

end
