(* ===== verification/Json.thy ===== *)
theory Json
  imports Prelude "HOL-Library.List_Lexorder" "HOL-Library.Char_ord"
begin

text \<open>
  The canonical JSON text that the protocol hashes: \<open>json.dumps\<close> with sorted keys, the separators
  \<open>","\<close> and \<open>":"\<close>, and \<open>ensure_ascii\<close> as a flag. The main fact is that the text determines the
  value: two well-formed values with the same text are equal, so two payloads that differ are told
  apart before any digest is taken. A float is printed by its \<open>repr\<close> and is left out of that fact.
\<close>

section \<open>Encoding\<close>

definition hex_digit :: "nat \<Rightarrow> char" where
  "hex_digit n = (if n < 10 then char_of (48 + n) else char_of (87 + n))"

definition json_escape_char :: "bool \<Rightarrow> char \<Rightarrow> string" where
  "json_escape_char ascii c =
     (let n = (of_char c :: nat) in
      if n = 34 then [CHR 0x5C, CHR 0x22]
      else if n = 92 then [CHR 0x5C, CHR 0x5C]
      else if n = 10 then [CHR 0x5C, CHR ''n'']
      else if n = 13 then [CHR 0x5C, CHR ''r'']
      else if n = 9 then [CHR 0x5C, CHR ''t'']
      else if n = 12 then [CHR 0x5C, CHR ''f'']
      else if n = 8 then [CHR 0x5C, CHR ''b'']
      else if n < 32 \<or> (ascii \<and> n > 126)
        then [CHR 0x5C, CHR ''u'', CHR ''0'', CHR ''0'', hex_digit (n div 16), hex_digit (n mod 16)]
      else [c])"

definition json_string :: "bool \<Rightarrow> string \<Rightarrow> string" where
  "json_string ascii s = [CHR 0x22] @ concat (map (json_escape_char ascii) s) @ [CHR 0x22]"

fun json_dumps :: "bool \<Rightarrow> pyval \<Rightarrow> string" where
  "json_dumps a PNone = ''null''"
| "json_dumps a (PBool b) = (if b then ''true'' else ''false'')"
| "json_dumps a (PInt i) = string_of_int i"
| "json_dumps a (PFloat r) = r"
| "json_dumps a (PStr s) = json_string a s"
| "json_dumps a (PList xs) = ''['' @ py_join '','' (map (json_dumps a) xs) @ '']''"
| "json_dumps a (PDict d) =
     ''{'' @ py_join '','' (map (\<lambda>(k, t). json_string a k @ '':'' @ t)
               (sort_key fst (map (\<lambda>(k, v). (k, json_dumps a v)) d))) @ ''}''"

text \<open>Values whose text is read back uniquely: no floats, and the keys of every dict strictly sorted.\<close>

fun json_wf :: "pyval \<Rightarrow> bool" where
  "json_wf (PFloat r) = False"
| "json_wf (PList xs) = (\<forall>x \<in> set xs. json_wf x)"
| "json_wf (PDict d) = (sorted_wrt (<) (map fst d) \<and> (\<forall>(k, v) \<in> set d. json_wf v))"
| "json_wf _ = True"

section \<open>Strings are read back uniquely\<close>

definition unhex :: "char \<Rightarrow> nat" where
  "unhex c = (let n = (of_char c :: nat) in if n < 58 then n - 48 else n - 87)"

definition unescape :: "string \<Rightarrow> (char \<times> string) option" where
  "unescape s =
     (case s of
        [] \<Rightarrow> None
      | c # r \<Rightarrow>
          if c \<noteq> CHR 0x5C then Some (c, r)
          else (case r of
                  [] \<Rightarrow> None
                | d # r' \<Rightarrow>
                    if d = CHR ''n'' then Some (CHR 0x0A, r')
                    else if d = CHR ''r'' then Some (CHR 0x0D, r')
                    else if d = CHR ''t'' then Some (CHR 0x09, r')
                    else if d = CHR ''f'' then Some (CHR 0x0C, r')
                    else if d = CHR ''b'' then Some (CHR 0x08, r')
                    else if d = CHR ''u'' then Some (char_of (16 * unhex (r' ! 2) + unhex (r' ! 3)), drop 4 r')
                    else Some (d, r')))"

lemma unhex_hex: "n < 16 \<Longrightarrow> unhex (hex_digit n) = n"
  by (auto simp: unhex_def hex_digit_def)

lemma code_char: "(of_char c :: nat) = n \<Longrightarrow> n = of_char d \<Longrightarrow> c = d"
  by (simp only: of_char_eq_iff)

lemma code_chars:
  "(of_char c :: nat) = 34 \<Longrightarrow> c = CHR 0x22" "(of_char c :: nat) = 92 \<Longrightarrow> c = CHR 0x5C"
  "(of_char c :: nat) = 10 \<Longrightarrow> c = CHR 0x0A" "(of_char c :: nat) = 13 \<Longrightarrow> c = CHR 0x0D"
  "(of_char c :: nat) = 9 \<Longrightarrow> c = CHR 0x09" "(of_char c :: nat) = 12 \<Longrightarrow> c = CHR 0x0C"
  "(of_char c :: nat) = 8 \<Longrightarrow> c = CHR 0x08"
  by (erule code_char, simp)+

text \<open>The shapes an escaped character can have.\<close>

lemma escape_cases:
  obtains (quote) "c = CHR 0x22" "json_escape_char a c = [CHR 0x5C, CHR 0x22]"
  | (bslash) "c = CHR 0x5C" "json_escape_char a c = [CHR 0x5C, CHR 0x5C]"
  | (nl) "c = CHR 0x0A" "json_escape_char a c = [CHR 0x5C, CHR ''n'']"
  | (cr) "c = CHR 0x0D" "json_escape_char a c = [CHR 0x5C, CHR ''r'']"
  | (tab) "c = CHR 0x09" "json_escape_char a c = [CHR 0x5C, CHR ''t'']"
  | (ff) "c = CHR 0x0C" "json_escape_char a c = [CHR 0x5C, CHR ''f'']"
  | (bs) "c = CHR 0x08" "json_escape_char a c = [CHR 0x5C, CHR ''b'']"
  | (hex) "json_escape_char a c =
      [CHR 0x5C, CHR ''u'', CHR ''0'', CHR ''0'', hex_digit (of_char c div 16), hex_digit (of_char c mod 16)]"
  | (plain) "c \<noteq> CHR 0x5C" "c \<noteq> CHR 0x22" "json_escape_char a c = [c]"
proof -
  let ?n = "of_char c :: nat" and ?S = "{34, 92, 10, 13, 9, 12, 8} :: nat set"
  consider "?n = 34" | "?n = 92" | "?n = 10" | "?n = 13" | "?n = 9" | "?n = 12" | "?n = 8"
    | "?n \<notin> ?S" "?n < 32 \<or> (a \<and> ?n > 126)" | "?n \<notin> ?S" "\<not> (?n < 32 \<or> (a \<and> ?n > 126))"
    by auto
  then show thesis
  proof cases
    case 1 then show thesis by (intro quote) (auto simp: json_escape_char_def dest: code_chars)
  next
    case 2 then show thesis by (intro bslash) (auto simp: json_escape_char_def dest: code_chars)
  next
    case 3 then show thesis by (intro nl) (auto simp: json_escape_char_def dest: code_chars)
  next
    case 4 then show thesis by (intro cr) (auto simp: json_escape_char_def dest: code_chars)
  next
    case 5 then show thesis by (intro tab) (auto simp: json_escape_char_def dest: code_chars)
  next
    case 6 then show thesis by (intro ff) (auto simp: json_escape_char_def dest: code_chars)
  next
    case 7 then show thesis by (intro bs) (auto simp: json_escape_char_def dest: code_chars)
  next
    case 8 then show thesis by (intro hex) (simp add: json_escape_char_def Let_def)
  next
    case 9
    moreover from this have "c \<noteq> CHR 0x5C" "c \<noteq> CHR 0x22" by auto
    ultimately show thesis by (intro plain) (auto simp: json_escape_char_def Let_def)
  qed
qed

lemma unescape_escape: "unescape (json_escape_char a c @ x) = Some (c, x)"
proof (cases rule: escape_cases [of c a])
  case hex
  have "unhex (hex_digit (of_char c div 16)) = of_char c div 16"
    "unhex (hex_digit (of_char c mod 16)) = of_char c mod 16"
    using nat_of_char_less_256 [of c] by (auto intro!: unhex_hex less_mult_imp_div_less)
  then have "char_of (16 * unhex (hex_digit (of_char c div 16)) + unhex (hex_digit (of_char c mod 16))) = c"
    by (simp only: mult_div_mod_eq char_of_char)
  then show ?thesis by (simp add: hex unescape_def)
qed (simp_all add: unescape_def)

lemma escape_inject:
  "json_escape_char a c @ x = json_escape_char a d @ y \<Longrightarrow> c = d \<and> x = y"
  by (metis unescape_escape option.inject prod.inject)

lemma escape_no_quote: "json_escape_char a c @ x \<noteq> CHR 0x22 # y"
  by (cases rule: escape_cases [of c a]) auto

lemma string_body_inject:
  "concat (map (json_escape_char a) s) @ CHR 0x22 # x = concat (map (json_escape_char a) t) @ CHR 0x22 # y \<Longrightarrow>
   s = t \<and> x = y"
proof (induction s arbitrary: t)
  case Nil
  then show ?case using escape_no_quote [symmetric] by (cases t) auto
next
  case (Cons c s)
  then obtain d u where t: "t = d # u" using escape_no_quote by (cases t) auto
  with Cons.prems have "c = d \<and> concat (map (json_escape_char a) s) @ CHR 0x22 # x =
      concat (map (json_escape_char a) u) @ CHR 0x22 # y"
    using escape_inject [of a c _ d] by auto
  with Cons.IH t show ?case by blast
qed

lemma json_string_inject: "json_string a s @ x = json_string a t @ y \<Longrightarrow> s = t \<and> x = y"
  by (rule string_body_inject) (simp add: json_string_def)

section \<open>Numbers are read back uniquely\<close>

text \<open>What can follow a value inside canonical text.\<close>

definition json_delim :: "string \<Rightarrow> bool" where
  "json_delim r = (r = [] \<or> hd r \<in> {CHR '','', CHR '']'', CHR ''}''})"

lemma json_delim_simps [simp]:
  "json_delim []" "json_delim (CHR '','' # r)" "json_delim (CHR '']'' # r)" "json_delim (CHR ''}'' # r)"
  by (simp_all add: json_delim_def)

lemma digits_then_delim:
  assumes "\<forall>c \<in> set s. is_digit c" and "json_delim r"
  shows "takeWhile is_digit (s @ r) = s \<and> dropWhile is_digit (s @ r) = r"
proof -
  have "takeWhile is_digit r = [] \<and> dropWhile is_digit r = r"
    using assms(2) by (cases r) (auto simp: json_delim_def is_digit_def)
  with assms(1) show ?thesis by (simp add: takeWhile_append2 dropWhile_append2)
qed

lemma nat_text_inject:
  "json_delim x \<Longrightarrow> json_delim y \<Longrightarrow> string_of_nat m @ x = string_of_nat n @ y \<Longrightarrow> m = n \<and> x = y"
  by (metis digits_then_delim string_of_nat_digits inj_string_of_nat)

lemma hd_string_of_nat: "is_digit (hd (string_of_nat n))"
  using string_of_nat_digits [of n] by (simp add: list.set_sel(1))

lemma string_of_nat_no_minus: "string_of_nat n @ x \<noteq> CHR ''-'' # y"
proof
  assume "string_of_nat n @ x = CHR ''-'' # y"
  then have "hd (string_of_nat n) = CHR ''-''" by (metis hd_append2 list.sel(1) string_of_nat_nonempty)
  with hd_string_of_nat [of n] show False by (simp add: is_digit_def)
qed

lemma int_text_inject:
  assumes "json_delim x" and "json_delim y" and eq: "string_of_int i @ x = string_of_int j @ y"
  shows "i = j \<and> x = y"
proof (cases "i < 0")
  case True
  with eq have "j < 0"
    using string_of_nat_no_minus [of "nat j" y, symmetric] by (auto simp: string_of_int_def split: if_splits)
  with True eq have "string_of_nat (nat (- i)) @ x = string_of_nat (nat (- j)) @ y"
    by (simp add: string_of_int_def)
  then have "nat (- i) = nat (- j) \<and> x = y" by (rule nat_text_inject [OF assms(1,2)])
  with True \<open>j < 0\<close> show ?thesis by (auto simp: nat_eq_iff)
next
  case False
  with eq have "\<not> j < 0"
    using string_of_nat_no_minus [of "nat i" x] by (auto simp: string_of_int_def split: if_splits)
  with False eq have "string_of_nat (nat i) @ x = string_of_nat (nat j) @ y"
    by (simp add: string_of_int_def)
  then have "nat i = nat j \<and> x = y" by (rule nat_text_inject [OF assms(1,2)])
  with False \<open>\<not> j < 0\<close> show ?thesis by (auto simp: nat_eq_iff)
qed

lemma hd_string_of_int: "is_digit (hd (string_of_int i)) \<or> hd (string_of_int i) = CHR ''-''"
  using hd_string_of_nat by (auto simp: string_of_int_def)

lemma string_of_int_nonempty [simp]: "string_of_int i \<noteq> []"
  by (simp add: string_of_int_def)

section \<open>Values are read back uniquely\<close>

text \<open>The first character of a value's text tells its constructor.\<close>

fun pyval_kind :: "pyval \<Rightarrow> nat" where
  "pyval_kind PNone = 0"
| "pyval_kind (PBool b) = (if b then 1 else 2)"
| "pyval_kind (PInt i) = 3"
| "pyval_kind (PFloat r) = 4"
| "pyval_kind (PStr s) = 5"
| "pyval_kind (PList xs) = 6"
| "pyval_kind (PDict d) = 7"

definition head_kind :: "char \<Rightarrow> nat" where
  "head_kind c =
     (if c = CHR ''n'' then 0 else if c = CHR ''t'' then 1 else if c = CHR ''f'' then 2
      else if is_digit c \<or> c = CHR ''-'' then 3
      else if c = CHR 0x22 then 5 else if c = CHR ''['' then 6 else if c = CHR ''{'' then 7 else 8)"

lemma json_head_kind:
  assumes "json_wf v"
  shows "json_dumps a v \<noteq> [] \<and> head_kind (hd (json_dumps a v @ x)) = pyval_kind v"
proof (cases v)
  case (PInt i)
  then show ?thesis
    using hd_string_of_int [of i] by (auto simp: head_kind_def is_digit_def)
qed (use assms in \<open>auto simp: head_kind_def is_digit_def json_string_def\<close>)

lemma json_same_kind:
  assumes "json_wf v" and "json_wf w" and "json_dumps a v @ x = json_dumps a w @ y"
  shows "pyval_kind v = pyval_kind w"
  using json_head_kind [OF assms(1), of a x] json_head_kind [OF assms(2), of a y]
  by (simp only: assms(3))

lemma py_join_Cons: "py_join sep (p # ps) = p @ concat (map (\<lambda>q. sep @ q) ps)"
  by (induction ps arbitrary: p) auto

lemma items_tail_inject:
  assumes "z \<in> {CHR '']'', CHR ''}''}"
    and "\<And>p q u v. p \<in> set xs \<Longrightarrow> q \<in> set ys \<Longrightarrow> json_delim u \<Longrightarrow> json_delim v \<Longrightarrow>
           d p @ u = d q @ v \<Longrightarrow> p = q \<and> u = v"
    and "concat (map (\<lambda>q. '','' @ d q) xs) @ z # x = concat (map (\<lambda>q. '','' @ d q) ys) @ z # y"
  shows "xs = ys \<and> x = y"
  using assms(2,3)
proof (induction xs arbitrary: ys)
  case Nil
  then show ?case using assms(1) by (cases ys) auto
next
  case (Cons p ps)
  from Cons.prems(2) assms(1) obtain q qs where ys: "ys = q # qs" by (cases ys) auto
  have delim: "json_delim (concat (map (\<lambda>q. '','' @ d q) rs) @ z # w)" for rs w
    using assms(1) by (cases rs) auto
  from Cons.prems(2) ys have
    "d p @ concat (map (\<lambda>q. '','' @ d q) ps) @ z # x = d q @ concat (map (\<lambda>q. '','' @ d q) qs) @ z # y"
    by simp
  then have pq: "p = q \<and> concat (map (\<lambda>q. '','' @ d q) ps) @ z # x = concat (map (\<lambda>q. '','' @ d q) qs) @ z # y"
    using ys delim by (intro Cons.prems(1)) auto
  have "ps = qs \<and> x = y"
    by (rule Cons.IH) (use Cons.prems(1) ys pq in auto)
  with pq ys show ?case by simp
qed

lemma items_inject:
  assumes z: "z \<in> {CHR '']'', CHR ''}''}"
    and hds: "\<And>p. p \<in> set xs \<union> set ys \<Longrightarrow> d p \<noteq> [] \<and> hd (d p) \<noteq> z"
    and inj: "\<And>p q u v. p \<in> set xs \<Longrightarrow> q \<in> set ys \<Longrightarrow> json_delim u \<Longrightarrow> json_delim v \<Longrightarrow>
           d p @ u = d q @ v \<Longrightarrow> p = q \<and> u = v"
    and eq: "py_join '','' (map d xs) @ z # x = py_join '','' (map d ys) @ z # y"
  shows "xs = ys \<and> x = y"
proof (cases xs)
  case Nil
  have "ys = []"
  proof (rule ccontr)
    assume "ys \<noteq> []"
    then obtain q qs where ys: "ys = q # qs" by (cases ys) auto
    with eq Nil have "hd (d q) = z" using hds [of q] by (cases "d q") (auto simp: py_join_Cons)
    with hds [of q] ys show False by simp
  qed
  with Nil eq show ?thesis by simp
next
  case (Cons p ps)
  have "ys \<noteq> []"
  proof
    assume "ys = []"
    with eq Cons have "hd (d p) = z" using hds [of p] by (cases "d p") (auto simp: py_join_Cons)
    with hds [of p] Cons show False by simp
  qed
  then obtain q qs where ys: "ys = q # qs" by (cases ys) auto
  have delim: "json_delim (concat (map (\<lambda>q. '','' @ d q) rs) @ z # w)" for rs w
    using z by (cases rs) auto
  from eq Cons ys have
    "d p @ concat (map (\<lambda>q. '','' @ d q) ps) @ z # x = d q @ concat (map (\<lambda>q. '','' @ d q) qs) @ z # y"
    by (simp add: py_join_Cons comp_def)
  then have pq: "p = q \<and> concat (map (\<lambda>q. '','' @ d q) ps) @ z # x = concat (map (\<lambda>q. '','' @ d q) qs) @ z # y"
    using ys Cons delim by (intro inj) auto
  have "ps = qs \<and> x = y"
    by (rule items_tail_inject [OF z, of _ _ d]) (use inj Cons ys pq in auto)
  with pq Cons ys show ?thesis by simp
qed

definition json_pair :: "bool \<Rightarrow> string \<times> pyval \<Rightarrow> string" where
  "json_pair a p = json_string a (fst p) @ '':'' @ json_dumps a (snd p)"

lemma json_dumps_dict:
  assumes "sorted_wrt (<) (map fst d)"
  shows "json_dumps a (PDict d) = ''{'' @ py_join '','' (map (json_pair a) d) @ ''}''"
proof -
  let ?m = "map (\<lambda>(k, v). (k, json_dumps a v)) d"
  have "map fst ?m = map fst d" by (induction d) auto
  then have "sorted (map fst ?m)" using assms by (simp only: strict_sorted_imp_sorted)
  then have "sort_key fst ?m = ?m" by (rule sort_key_id_if_sorted)
  moreover have "map (\<lambda>(k, t). json_string a k @ '':'' @ t) ?m = map (json_pair a) d"
    by (induction d) (auto simp: json_pair_def)
  ultimately show ?thesis by (simp only: json_dumps.simps)
qed

lemma json_dumps_inject_delim:
  "json_wf v \<Longrightarrow> json_wf w \<Longrightarrow> json_delim x \<Longrightarrow> json_delim y \<Longrightarrow>
   json_dumps a v @ x = json_dumps a w @ y \<Longrightarrow> v = w \<and> x = y"
proof (induction v arbitrary: w x y)
  case (PInt i)
  have "pyval_kind w = 3" using json_same_kind [OF PInt.prems(1,2,5)] by simp
  then obtain j where w: "w = PInt j" by (cases w) (auto split: if_splits)
  with PInt.prems have "i = j \<and> x = y" by (intro int_text_inject) simp_all
  with w show ?case by simp
next
  case (PStr s)
  have "pyval_kind w = 5" using json_same_kind [OF PStr.prems(1,2,5)] by simp
  then obtain t where w: "w = PStr t" by (cases w) (auto split: if_splits)
  with PStr.prems have "s = t \<and> x = y" by (intro json_string_inject [of a]) simp_all
  with w show ?case by simp
next
  case (PList xs)
  have "pyval_kind w = 6" using json_same_kind [OF PList.prems(1,2,5)] by simp
  then obtain ys where w: "w = PList ys" by (cases w) (auto split: if_splits)
  have hds: "json_dumps a p \<noteq> [] \<and> hd (json_dumps a p) \<noteq> CHR '']''" if "p \<in> set xs \<union> set ys" for p
  proof -
    have "json_wf p" using that PList.prems w by auto
    with json_head_kind [of p a "[]"] have "json_dumps a p \<noteq> [] \<and> head_kind (hd (json_dumps a p)) = pyval_kind p"
      by simp
    moreover have "pyval_kind p \<noteq> 8" by (cases p) auto
    ultimately show ?thesis by (auto simp: head_kind_def is_digit_def)
  qed
  have "xs = ys \<and> x = y"
    by (rule items_inject [of "CHR '']''" xs ys "json_dumps a" x y])
       (use PList w hds in auto)
  with w show ?case by simp
next
  case (PDict d)
  have "pyval_kind w = 7" using json_same_kind [OF PDict.prems(1,2,5)] by simp
  then obtain e where w: "w = PDict e" by (cases w) (auto split: if_splits)
  have inj: "p = q \<and> u = v" if "p \<in> set d" "q \<in> set e" "json_delim u" "json_delim v"
    "json_pair a p @ u = json_pair a q @ v" for p q u v
  proof -
    have "fst p = fst q \<and> '':'' @ json_dumps a (snd p) @ u = '':'' @ json_dumps a (snd q) @ v"
      using that(5) by (intro json_string_inject [of a]) (simp add: json_pair_def)
    moreover have "json_wf (snd p)" "json_wf (snd q)" using that PDict.prems w by auto
    ultimately show ?thesis
      using PDict.IH [of p "snd p" "snd q" u v] that by (auto simp: prod_eq_iff snds.simps)
  qed
  have "d = e \<and> x = y"
    by (rule items_inject [of "CHR ''}''" d e "json_pair a" x y])
       (use PDict.prems w inj in \<open>auto simp: json_dumps_dict json_pair_def json_string_def simp del: json_dumps.simps\<close>)
  with w show ?case by simp
next
  case PNone
  have "pyval_kind w = 0" using json_same_kind [OF PNone(1,2,5)] by simp
  with PNone show ?case by (cases w) (auto split: if_splits)
next
  case (PBool b)
  have "pyval_kind w = pyval_kind (PBool b)" using json_same_kind [OF PBool(1,2,5)] by simp
  with PBool show ?case by (cases w) (auto split: if_splits)
next
  case (PFloat r)
  then show ?case by simp
qed

theorem json_dumps_inject:
  "json_wf v \<Longrightarrow> json_wf w \<Longrightarrow> json_dumps a v = json_dumps a w \<Longrightarrow> v = w"
  using json_dumps_inject_delim [of v w "[]" "[]" a] by simp

end
