(* ===== verification/Ledger.thy ===== *)
theory Ledger
  imports PyDecimal Json
begin

text \<open>
  Exact monetary primitives and double-entry invariants (\<open>iat/ledger.py\<close>): IAT amounts as 64-bit
  minor units, their decimal text, the journal validator and the journal of a settlement
  allocation. An entry is the dict the code passes. The SHA-256 hex digest is the argument \<open>sha\<close>.
\<close>

datatype ledger_error = LedgerValidation string | DecimalSignal dec_error

definition ledger_version :: string where "ledger_version = ''iat_double_entry_ledger_v1''"
definition iat_scale :: int where "iat_scale = 10 ^ 8"
definition max_iat_minor :: int where "max_iat_minor = 2 ^ 63 - 1"

section \<open>Minor units\<close>

definition iat_to_minor :: "pyval \<Rightarrow> ledger_error + int" where
  "iat_to_minor v =
     (case dec_of_string (py_str v) of
        None \<Rightarrow> Inl (LedgerValidation ''amount_must_be_decimal'')
      | Some (DFin d) \<Rightarrow>
          if dec_lt d dec_zero then Inl (LedgerValidation ''amount_out_of_range'')
          else (case dec_mul d (dec_of_int iat_scale) of
                  Inl e \<Rightarrow> Inl (DecimalSignal e)
                | Inr m \<Rightarrow>
                    (case dec_quantize HalfUp m 0 of
                       Inl e \<Rightarrow> Inl (DecimalSignal e)
                     | Inr q \<Rightarrow>
                         if dec_to_int q > max_iat_minor
                         then Inl (LedgerValidation ''amount_out_of_range'')
                         else Inr (dec_to_int q)))
      | Some _ \<Rightarrow> Inl (LedgerValidation ''amount_out_of_range''))"

definition minor_to_iat :: "pyval \<Rightarrow> ledger_error + string" where
  "minor_to_iat v =
     (case v of
        PInt i \<Rightarrow>
          if \<bar>i\<bar> > max_iat_minor then Inl (LedgerValidation ''minor_amount_out_of_range'')
          else (case dec_div (dec_of_int i) (dec_of_int iat_scale) of
                  Inl e \<Rightarrow> Inl (DecimalSignal e)
                | Inr d \<Rightarrow> Inr (dec_format 8 d))
      | _ \<Rightarrow> Inl (LedgerValidation ''minor_amount_must_be_integer''))"

definition canonical_hash :: "(string \<Rightarrow> string) \<Rightarrow> pydict \<Rightarrow> string" where
  "canonical_hash sha payload = sha (json_dumps True (PDict payload))"

section \<open>Journals\<close>

text \<open>One turn of the loop over the entries: the side (debit or not) and the amount it adds.\<close>

definition check_entry :: "pydict \<Rightarrow> ledger_error + bool \<times> int" where
  "check_entry entry =
     (let direction = py_lower (str_or_empty (dget entry ''direction''));
          currency = py_upper (str_or_empty (dget entry ''currency''));
          amount_minor = dget entry ''amount_minor'';
          account_id = py_strip (str_or_empty (dget entry ''account_id''))
      in if direction \<notin> {''debit'', ''credit''} then Inl (LedgerValidation ''entry_direction_invalid'')
         else if currency \<noteq> ''IAT'' then Inl (LedgerValidation ''entry_currency_invalid'')
         else (case amount_minor of
                 PInt a \<Rightarrow>
                   if a \<le> 0 \<or> a > max_iat_minor then Inl (LedgerValidation ''entry_amount_out_of_range'')
                   else if account_id = [] then Inl (LedgerValidation ''entry_account_required'')
                   else Inr (direction = ''debit'', a)
               | _ \<Rightarrow> Inl (LedgerValidation ''entry_amount_must_be_integer'')))"

text \<open>The totals of the only accepted currency, as a pair of debits and credits.\<close>

fun journal_totals :: "pydict list \<Rightarrow> int \<times> int \<Rightarrow> ledger_error + int \<times> int" where
  "journal_totals [] t = Inr t"
| "journal_totals (e # es) (d, c) =
     (case check_entry e of
        Inl x \<Rightarrow> Inl x
      | Inr (debit, a) \<Rightarrow> journal_totals es (if debit then (d + a, c) else (d, c + a)))"

record journal_invariant =
  inv_entry_count :: nat
  inv_debit :: int
  inv_credit :: int

definition validate_journal :: "pydict list \<Rightarrow> ledger_error + journal_invariant" where
  "validate_journal entries =
     (if length entries < 2 then Inl (LedgerValidation ''journal_requires_at_least_two_entries'')
      else (case journal_totals entries (0, 0) of
              Inl e \<Rightarrow> Inl e
            | Inr (d, c) \<Rightarrow>
                if d \<noteq> c then Inl (LedgerValidation ''journal_not_balanced'')
                else Inr \<lparr> inv_entry_count = length entries, inv_debit = d, inv_credit = c \<rparr>))"

definition ledger_entry_dict :: "string \<Rightarrow> string \<Rightarrow> int \<Rightarrow> string \<Rightarrow> pydict" where
  "ledger_entry_dict account_id direction amount_minor currency =
     [(''account_id'', PStr account_id), (''direction'', PStr direction),
      (''amount_minor'', PInt amount_minor), (''currency'', PStr currency)]"

record allocation_journal =
  aj_idempotency_key :: string
  aj_event_type :: string
  aj_payload :: pydict
  aj_payload_hash :: string
  aj_entries :: "pydict list"
  aj_invariant :: journal_invariant

definition allocation_key :: "string \<Rightarrow> string" where
  "allocation_key settlement_id = ''settlement-allocation:'' @ settlement_id @ '':v1''"

definition allocation_payload :: "string \<Rightarrow> int \<Rightarrow> int \<Rightarrow> int \<Rightarrow> string option \<Rightarrow> pydict" where
  "allocation_payload settlement_id gross commission payout seller_id =
     [(''ledger_version'', PStr ledger_version),
      (''event_type'', PStr ''settlement_allocated''),
      (''settlement_id'', PStr settlement_id),
      (''gross_amount_minor'', PInt gross),
      (''commission_amount_minor'', PInt commission),
      (''seller_payout_amount_minor'', PInt payout),
      (''seller_id'', pstr_opt seller_id)]"

definition seller_or_unknown :: "string option \<Rightarrow> string" where
  "seller_or_unknown seller_id =
     (case seller_id of None \<Rightarrow> ''unknown'' | Some s \<Rightarrow> if s = [] then ''unknown'' else s)"

definition allocation_entries :: "int \<Rightarrow> int \<Rightarrow> int \<Rightarrow> string option \<Rightarrow> pydict list" where
  "allocation_entries gross commission payout seller_id =
     [ledger_entry_dict ''iat:settlement_clearing'' ''debit'' gross ''IAT''] @
     (if payout \<noteq> 0
      then [ledger_entry_dict (''iat:seller_payable:'' @ seller_or_unknown seller_id) ''credit'' payout ''IAT'']
      else []) @
     (if commission \<noteq> 0
      then [ledger_entry_dict ''iat:protocol_commission_revenue'' ''credit'' commission ''IAT'']
      else [])"

definition build_settlement_allocation_journal ::
  "(string \<Rightarrow> string) \<Rightarrow> string \<Rightarrow> pyval \<Rightarrow> pyval \<Rightarrow> pyval \<Rightarrow> string option \<Rightarrow> ledger_error + allocation_journal" where
  "build_settlement_allocation_journal sha settlement_id gross_iat commission_iat payout_iat seller_id =
     (case iat_to_minor gross_iat of Inl e \<Rightarrow> Inl e | Inr gross \<Rightarrow>
      case iat_to_minor commission_iat of Inl e \<Rightarrow> Inl e | Inr commission \<Rightarrow>
      case iat_to_minor payout_iat of Inl e \<Rightarrow> Inl e | Inr payout \<Rightarrow>
      if gross \<le> 0 then Inl (LedgerValidation ''settlement_gross_must_be_positive'')
      else if commission + payout \<noteq> gross
        then Inl (LedgerValidation ''settlement_split_does_not_equal_gross'')
      else
        let entries = allocation_entries gross commission payout seller_id;
            payload = allocation_payload settlement_id gross commission payout seller_id
        in (case validate_journal entries of
              Inl e \<Rightarrow> Inl e
            | Inr invariant \<Rightarrow>
                Inr \<lparr> aj_idempotency_key = allocation_key settlement_id,
                      aj_event_type = ''settlement_allocated'',
                      aj_payload = payload, aj_payload_hash = canonical_hash sha payload,
                      aj_entries = entries, aj_invariant = invariant \<rparr>))"

section \<open>Exact decimal text\<close>

lemma strip_zeros_value:
  "strip_zeros k c e = (c', e') \<Longrightarrow> e \<le> e' \<and> e' \<le> e + int k \<and> c = c' * 10 ^ nat (e' - e)"
proof (induction k arbitrary: c e)
  case (Suc k)
  show ?case
  proof (cases "c mod 10 = 0")
    case True
    with Suc have "e + 1 \<le> e'" "e' \<le> e + 1 + int k" "c div 10 = c' * 10 ^ nat (e' - (e + 1))" by auto
    moreover from this have "nat (e' - e) = Suc (nat (e' - (e + 1)))" by simp
    ultimately show ?thesis using True by (auto elim!: dvdE simp: mod_eq_0_iff_dvd)
  qed (use Suc in auto)
qed simp

lemma strip_zeros_all:
  "m \<le> k \<Longrightarrow> strip_zeros k (n * 10 ^ m) e = strip_zeros (k - m) n (e + int m)"
proof (induction m arbitrary: k e)
  case (Suc m)
  then obtain j where k: "k = Suc j" by (cases k) auto
  have "n * 10 ^ Suc m = 10 * (n * 10 ^ m)" by simp
  with Suc k show ?case by (simp only: strip_zeros.simps) (simp add: algebra_simps)
qed simp

lemma div_by_scale:
  assumes "0 \<le> i" and "i \<le> max_iat_minor"
  obtains c e where "dec_div (dec_of_int i) (dec_of_int iat_scale) = Inr (Dec False c e)"
    and "- 8 \<le> e" and "e \<le> 0" and "nat i = c * 10 ^ nat (e + 8)"
proof (cases "i = 0")
  case True
  then show thesis
    by (intro that [of 0 0]) (simp_all add: dec_div_def dec_of_int_def iat_scale_def dec_fix_def dec_limits)
next
  case False
  define n where "n = nat i"
  have n: "0 < n" "n < 10 ^ 19" using assms False by (auto simp: n_def max_iat_minor_def)
  then have nd: "ndigits n \<le> 19" by (simp add: ndigits_le_iff)
  have nd8: "ndigits 100000000 = 9" by (simp add: ndigits.simps)
  define k where "k = 38 - ndigits n"
  have k: "int k = 9 - int (ndigits n) + 28 + 1" "19 \<le> k" using nd by (auto simp: k_def)
  obtain c e where ce: "strip_zeros 8 n (- 8) = (c, e)" by (cases "strip_zeros 8 n (- 8)") auto
  have e: "- 8 \<le> e" "e \<le> 0" "n = c * 10 ^ nat (e + 8)" using strip_zeros_value [OF ce] by auto
  have "c \<le> n" using e(3) by simp
  then have cd: "ndigits c \<le> 28" using ndigits_mono [of c n] nd by simp
  have split: "n * 10 ^ k = n * 10 ^ (k - 8) * 100000000"
  proof -
    have "k = (k - 8) + 8" using k(2) by simp
    then have "(10::nat) ^ k = 10 ^ (k - 8) * 10 ^ 8" by (metis power_add)
    then show ?thesis by simp
  qed
  have quot: "n * 10 ^ k div 100000000 = n * 10 ^ (k - 8)" "n * 10 ^ k mod 100000000 = 0"
    by (simp_all add: split)
  have strip: "strip_zeros k (n * 10 ^ (k - 8)) (- int k) = (c, e)"
    using strip_zeros_all [of "k - 8" k n "- int k"] ce k(2) by simp
  have fx: "dec_fix (Dec False c e) = Inr (Dec False c e)"
    by (rule dec_fix_exact) (use cd e in auto)
  have "dec_div (Dec False n 0) (Dec False 100000000 0) = Inr (Dec False c e)"
    using n(1) quot strip fx k(1) [symmetric] nd8
    by (simp add: dec_div_def dec_limits Let_def)
  moreover have "dec_of_int i = Dec False n 0" "dec_of_int iat_scale = Dec False 100000000 0"
    using assms by (auto simp: dec_of_int_def n_def iat_scale_def)
  ultimately show thesis using that [of c e] e by (simp add: n_def)
qed

lemma minor_to_iat_text:
  assumes "0 \<le> i" and "i \<le> max_iat_minor"
  shows "minor_to_iat (PInt i) = Inr (let ds = pad_zeros 9 (string_of_nat (nat i)); k = length ds - 8
     in take k ds @ ''.'' @ drop k ds)"
proof -
  obtain c e where div: "dec_div (dec_of_int i) (dec_of_int iat_scale) = Inr (Dec False c e)"
    and e: "- 8 \<le> e" "e \<le> 0" and i: "nat i = c * 10 ^ nat (e + 8)"
    using div_by_scale [OF assms] by metis
  have "dcoef (dec_rescale HalfEven (Dec False c e) (- 8)) = nat i"
    using e i by (cases "c = 0") (simp_all add: dec_rescale_def)
  with div assms show ?thesis by (simp add: minor_to_iat_def dec_format_def Let_def)
qed

lemma iat_to_minor_fixed:
  assumes ds: "list_all is_digit ds" "8 < length ds" "nat_of_digits ds \<le> nat max_iat_minor"
  shows "iat_to_minor (PStr (take (length ds - 8) ds @ ''.'' @ drop (length ds - 8) ds)) =
    Inr (int (nat_of_digits ds))"
proof -
  let ?n = "nat_of_digits ds"
  let ?t = "take (length ds - 8) ds @ ''.'' @ drop (length ds - 8) ds"
  have parsed: "dec_of_string ?t = Some (DFin (Dec False ?n (- 8)))"
    using dec_of_fixed_text [of ds 8] ds by simp
  have n: "?n < 10 ^ 19" using ds(3) by (auto simp: max_iat_minor_def)
  then have nd: "ndigits (?n * 100000000) \<le> 27" by (simp add: ndigits_le_iff)
  have mul: "dec_mul (Dec False ?n (- 8)) (dec_of_int iat_scale) = Inr (Dec False (?n * 100000000) (- 8))"
    using nd by (simp add: dec_mul_def dec_of_int_def iat_scale_def dec_fix_exact)
  have quot: "round_quot HalfUp (?n * 100000000) 8 = ?n"
    using round_quot_exact [of 8 "?n * 100000000" HalfUp] by simp
  have "ndigits ?n \<le> 28" using n by (simp add: ndigits_le_iff)
  then have fx: "dec_fix (Dec False ?n 0) = Inr (Dec False ?n 0)" by (intro dec_fix_exact) auto
  have rescale: "dec_rescale HalfUp (Dec False (?n * 100000000) (- 8)) 0 = Dec False ?n 0"
    by (simp add: dec_rescale_def quot)
  have quant: "dec_quantize HalfUp (Dec False (?n * 100000000) (- 8)) 0 = Inr (Dec False ?n 0)"
  proof (cases "?n = 0")
    case True
    then show ?thesis by (simp add: dec_quantize_def dec_limits dec_fix_def)
  next
    case False
    then show ?thesis using nd fx \<open>ndigits ?n \<le> 28\<close>
      by (simp add: dec_quantize_def dec_limits dec_adjusted_def rescale Let_def)
  qed
  have "\<not> dec_lt (Dec False ?n (- 8)) dec_zero"
    by (simp add: dec_lt_def dec_cmp_def dec_at_def dec_zero_def Let_def)
  moreover have "\<not> max_iat_minor < int ?n" using ds(3) by (simp add: max_iat_minor_def)
  ultimately show ?thesis using parsed mul quant
    by (simp add: iat_to_minor_def py_str_def dec_to_int_def)
qed

text \<open>C26: printing a minor amount and reading the text back gives the amount.\<close>

theorem minor_text_roundtrip:
  assumes "0 \<le> i" and "i \<le> max_iat_minor"
  shows "\<exists>s. minor_to_iat (PInt i) = Inr s \<and> iat_to_minor (PStr s) = Inr i"
proof -
  let ?ds = "pad_zeros 9 (string_of_nat (nat i))"
  have "list_all is_digit ?ds" "nat_of_digits ?ds = nat i"
    by (simp_all add: pad_zeros_digits pad_zeros_value)
  moreover have "8 < length ?ds" using pad_zeros_length [of 9 "string_of_nat (nat i)"] by linarith
  ultimately show ?thesis using iat_to_minor_fixed [of ?ds] minor_to_iat_text [OF assms] assms
    by (simp add: Let_def nat_mono)
qed

theorem minor_text_roundtrip_witness:
  "\<exists>s. minor_to_iat (PInt 123456789) = Inr s \<and> iat_to_minor (PStr s) = Inr 123456789"
  by (rule minor_text_roundtrip) (simp_all add: max_iat_minor_def)

section \<open>Rounding of amounts\<close>

lemma quantize_whole: "dec_quantize m d 0 = Inr q \<Longrightarrow> q = dec_rescale m d 0"
proof (cases "dcoef d = 0")
  case False
  assume q: "dec_quantize m d 0 = Inr q"
  with False have "ndigits (dcoef (dec_rescale m d 0)) \<le> 28" and fx: "dec_fix (dec_rescale m d 0) = Inr q"
    by (auto simp: dec_quantize_def dec_limits Let_def split: if_splits)
  then show ?thesis using dec_fix_exact [of "dec_rescale m d 0"] by simp
qed (simp add: dec_quantize_def dec_limits dec_fix_def dec_rescale_def)

lemma half_up_value:
  assumes "e < 0"
  shows "2 * \<bar>of_nat (round_quot HalfUp n (nat (- e))) - of_nat n * (10::rat) powi e\<bar> \<le> 1"
proof -
  let ?k = "nat (- e)"
  let ?q = "round_quot HalfUp n ?k"
  have p: "(10::rat) powi e = 1 / 10 ^ ?k" using assms by (simp add: power_int_def field_simps)
  have "2 * n \<le> 2 * (?q * 10 ^ ?k) + 10 ^ ?k" "2 * (?q * 10 ^ ?k) \<le> 2 * n + 10 ^ ?k"
    using round_half_up_nearest [of n ?k] by auto
  then have "of_nat (2 * n) \<le> (of_nat (2 * (?q * 10 ^ ?k) + 10 ^ ?k) :: rat)"
    "of_nat (2 * (?q * 10 ^ ?k)) \<le> (of_nat (2 * n + 10 ^ ?k) :: rat)"
    by (simp_all only: of_nat_le_iff)
  then have "2 * of_nat n \<le> (2 * of_nat ?q + 1) * (10::rat) ^ ?k"
    "(2 * of_nat ?q - 1) * (10::rat) ^ ?k \<le> 2 * of_nat n"
    by (simp_all add: algebra_simps)
  then have "2 * of_nat n / (10::rat) ^ ?k \<le> 2 * of_nat ?q + 1"
    "2 * of_nat ?q - 1 \<le> 2 * of_nat n / (10::rat) ^ ?k"
    by (simp_all add: field_simps)
  then show ?thesis unfolding p by (simp add: abs_if)
qed

text \<open>
  An amount of at most twenty significant digits is stored as the nearest number of minor
  units, never further than half a unit away.
\<close>

theorem iat_to_minor_nearest:
  assumes d: "dec_of_string (py_str v) = Some (DFin d)" "dcoef d < 10 ^ 20"
    and e: "- 1000026 \<le> dexp d" "dexp d \<le> 999972"
    and n: "iat_to_minor v = Inr n"
  shows "2 * \<bar>of_int n - dec_val d * 10 ^ 8\<bar> \<le> 1 \<and> 0 \<le> n \<and> n \<le> max_iat_minor"
proof -
  let ?N = "dcoef d * 100000000"
  have "ndigits ?N \<le> 28" using d(2) by (simp add: ndigits_le_iff)
  then have mul: "dec_mul d (dec_of_int iat_scale) = Inr (Dec (dsign d) ?N (dexp d))"
    using e by (simp add: dec_mul_def dec_of_int_def iat_scale_def dec_fix_exact)
  have nonneg: "\<not> dec_val d < 0" using d(1) n
    by (auto simp: iat_to_minor_def dec_lt_iff dec_val_zero split: if_splits)
  have n': "n = dec_to_int (dec_rescale HalfUp (Dec (dsign d) ?N (dexp d)) 0)" "n \<le> max_iat_minor"
    using d(1) n mul
    by (auto simp: iat_to_minor_def dest: quantize_whole split: if_splits sum.splits)
  show ?thesis
  proof (cases "dcoef d = 0")
    case True
    with n' show ?thesis by (simp add: dec_rescale_def dec_to_int_def dec_val_def)
  next
    case False
    with nonneg have s: "\<not> dsign d" by (auto simp: dec_val_def zero_less_mult_iff)
    show ?thesis
    proof (cases "dexp d < 0")
      case True
      then have "n = int (round_quot HalfUp ?N (nat (- dexp d)))"
        using n' s False by (simp add: dec_rescale_def dec_to_int_def)
      with half_up_value [OF True, of ?N] n'(2) s show ?thesis
        by (simp add: dec_val_def mult_ac)
    next
      case nn: False
      then have "n = int (?N * 10 ^ nat (dexp d))"
        using n' s False by (simp add: dec_rescale_def dec_to_int_def)
      moreover have "(10::rat) powi dexp d = 10 ^ nat (dexp d)" using nn by (simp add: power_int_def)
      ultimately show ?thesis using n'(2) s by (simp add: dec_val_def)
    qed
  qed
qed

lemmas dec_eval =
  iat_to_minor_def dec_of_string_def py_str_def py_strip_def py_lstrip_def py_space_def
  take_sign_def is_digit_def parse_exponent_def nat_of_digits_def digit_val_def
  dec_lt_def dec_cmp_def dec_at_def dec_zero_def dec_mul_def dec_of_int_def dec_fix_def dec_limits
  dec_quantize_def dec_rescale_def dec_adjusted_def dec_to_int_def round_quot_def ndigits.simps
  iat_scale_def max_iat_minor_def

theorem iat_to_minor_nearest_witness:
  "2 * \<bar>of_int 1 - dec_val (Dec False 5 (- 9)) * 10 ^ 8\<bar> \<le> 1 \<and> 0 \<le> (1::int) \<and> 1 \<le> max_iat_minor"
proof (rule iat_to_minor_nearest [of "PStr ''0.000000005''"])
  show "dec_of_string (py_str (PStr ''0.000000005'')) = Some (DFin (Dec False 5 (- 9)))"
    by (simp add: dec_eval)
  show "iat_to_minor (PStr ''0.000000005'') = Inr 1"
    by (simp add: dec_eval)
qed simp_all

lemma ndigits_times: "n \<noteq> 0 \<Longrightarrow> ndigits (n * 10 ^ k) = ndigits n + k"
proof (induction k)
  case (Suc k)
  have "ndigits (n * 10 ^ Suc k) = Suc (ndigits (n * 10 ^ k))"
    using Suc.prems by (subst ndigits.simps) (simp add: mult_ac)
  with Suc show ?case by simp
qed simp

text \<open>
  An amount that is far out of range, from 10 ^ 20 on, is not refused as out of range: the
  rounding to whole minor units needs more than 28 digits and raises \<open>decimal.InvalidOperation\<close>, which
  the function does not translate.
\<close>

theorem iat_to_minor_signals:
  assumes d: "dec_of_string (py_str v) = Some (DFin d)" "dcoef d < 10 ^ 20" "dcoef d \<noteq> 0" "\<not> dsign d"
    and e: "- 1000026 \<le> dexp d" "dexp d \<le> 999900" "21 \<le> int (ndigits (dcoef d)) + dexp d"
  shows "iat_to_minor v = Inl (DecimalSignal InvalidOperation)"
proof -
  let ?N = "dcoef d * 100000000"
  have "ndigits ?N \<le> 28" using d(2) by (simp add: ndigits_le_iff)
  then have mul: "dec_mul d (dec_of_int iat_scale) = Inr (Dec False ?N (dexp d))"
    using d e by (simp add: dec_mul_def dec_of_int_def iat_scale_def dec_fix_exact)
  have nd: "ndigits ?N = ndigits (dcoef d) + 8" using ndigits_times [of "dcoef d" 8] d(3) by simp
  have "ndigits (dcoef d) \<le> 20" using d(2) by (simp add: ndigits_le_iff)
  then have "dec_quantize HalfUp (Dec False ?N (dexp d)) 0 = Inl InvalidOperation"
    using d(3) e by (simp add: dec_quantize_def dec_limits dec_adjusted_def nd)
  moreover have "\<not> dec_lt d dec_zero" using d(4) by (simp add: dec_nonneg_iff)
  ultimately show ?thesis using d(1) mul by (simp add: iat_to_minor_def)
qed

theorem iat_to_minor_signals_witness:
  "iat_to_minor (PStr ''1e21'') = Inl (DecimalSignal InvalidOperation)"
proof (rule iat_to_minor_signals)
  show "dec_of_string (py_str (PStr ''1e21'')) = Some (DFin (Dec False 1 21))"
    by (simp add: dec_eval)
qed (simp_all add: ndigits.simps)

section \<open>Balanced journals\<close>

definition entry_debit :: "pydict \<Rightarrow> int" where
  "entry_debit e = (case check_entry e of Inr (True, a) \<Rightarrow> a | _ \<Rightarrow> 0)"

definition entry_credit :: "pydict \<Rightarrow> int" where
  "entry_credit e = (case check_entry e of Inr (False, a) \<Rightarrow> a | _ \<Rightarrow> 0)"

definition entry_valid :: "pydict \<Rightarrow> bool" where
  "entry_valid e = (\<not> isl (check_entry e))"

lemma journal_totals_Inr:
  "journal_totals es (d, c) = Inr t \<longleftrightarrow>
     list_all entry_valid es \<and> t = (d + sum_list (map entry_debit es), c + sum_list (map entry_credit es))"
  by (induction es "(d, c)" arbitrary: d c rule: journal_totals.induct)
     (auto simp: entry_debit_def entry_credit_def entry_valid_def split: sum.splits prod.splits bool.splits)

text \<open>
  The validator accepts exactly the journals with at least two entries, every entry valid on
  its own, and equal sums of debits and credits; it reports those sums.
\<close>

theorem validate_journal_iff:
  "validate_journal es = Inr j \<longleftrightarrow>
     2 \<le> length es \<and> list_all entry_valid es \<and>
     sum_list (map entry_debit es) = sum_list (map entry_credit es) \<and>
     j = \<lparr> inv_entry_count = length es, inv_debit = sum_list (map entry_debit es),
           inv_credit = sum_list (map entry_credit es) \<rparr>"
proof (cases "journal_totals es (0, 0)")
  case (Inl x)
  then have "\<not> list_all entry_valid es"
    using journal_totals_Inr [of es 0 0] by (metis Inl_Inr_False)
  then show ?thesis using Inl by (auto simp: validate_journal_def)
next
  case (Inr t)
  then show ?thesis using journal_totals_Inr [of es 0 0 t] by (auto simp: validate_journal_def)
qed

lemma fix_nonneg: "dec_fix d = Inr r \<Longrightarrow> \<not> dsign d \<or> dcoef d = 0 \<Longrightarrow> \<not> dsign r \<or> dcoef r = 0"
  by (auto simp: dec_fix_def Let_def split: if_splits)

lemma iat_to_minor_range: "iat_to_minor v = Inr n \<Longrightarrow> 0 \<le> n \<and> n \<le> max_iat_minor"
proof -
  assume n: "iat_to_minor v = Inr n"
  then obtain d m q where d: "dec_of_string (py_str v) = Some (DFin d)" "\<not> dec_lt d dec_zero"
    and m: "dec_mul d (dec_of_int iat_scale) = Inr m" and q: "dec_quantize HalfUp m 0 = Inr q"
    and n': "n = dec_to_int q" "n \<le> max_iat_minor"
    by (auto simp: iat_to_minor_def split: option.splits pydec.splits sum.splits if_splits)
  have "\<not> dsign d \<or> dcoef d = 0" using d(2) by (simp add: dec_nonneg_iff)
  then have "\<not> dsign m \<or> dcoef m = 0"
    using fix_nonneg [OF m [unfolded dec_mul_def]] by (simp add: dec_of_int_def iat_scale_def)
  then have "\<not> dsign q \<or> dcoef q = 0"
    using quantize_whole [OF q] by (auto simp: dec_rescale_def)
  then show ?thesis using n' by (auto simp: dec_to_int_def)
qed

lemma check_allocation_entry:
  assumes "\<not> py_space (hd acc)" and "acc \<noteq> []" and "0 < a" and "a \<le> max_iat_minor"
  shows "check_entry (ledger_entry_dict acc ''debit'' a ''IAT'') = Inr (True, a)"
    and "check_entry (ledger_entry_dict acc ''credit'' a ''IAT'') = Inr (False, a)"
proof -
  have "py_strip acc \<noteq> []" using assms(1,2) by (cases acc) (auto simp: py_strip_Cons_ne)
  then show "check_entry (ledger_entry_dict acc ''debit'' a ''IAT'') = Inr (True, a)"
    "check_entry (ledger_entry_dict acc ''credit'' a ''IAT'') = Inr (False, a)"
    using assms(2-4)
    by (simp_all add: check_entry_def ledger_entry_dict_def dget_def str_or_empty_def py_str_def
        py_lower_def py_lower_char_def py_upper_def py_upper_char_def)
qed

lemma allocation_entries_valid:
  assumes "0 < g" "0 \<le> c" "0 \<le> p" "g \<le> max_iat_minor" "c + p = g"
  shows "validate_journal (allocation_entries g c p seller) =
    Inr \<lparr> inv_entry_count = length (allocation_entries g c p seller), inv_debit = g, inv_credit = g \<rparr>"
proof -
  have "\<not> py_space (CHR ''i'')" by (simp add: py_space_def)
  then have ok: "check_entry (ledger_entry_dict (CHR ''i'' # s) ''debit'' a ''IAT'') = Inr (True, a)"
    "check_entry (ledger_entry_dict (CHR ''i'' # s) ''credit'' a ''IAT'') = Inr (False, a)"
    if "0 < a" "a \<le> g" for s a
    using that assms(4) by (auto intro!: check_allocation_entry)
  from assms consider "p = 0" "c = g" | "c = 0" "p = g" | "0 < p" "0 < c" "p \<le> g" "c \<le> g" by linarith
  then show ?thesis
    by cases (use assms in \<open>simp_all add: allocation_entries_def validate_journal_def ok\<close>)
qed

lemma allocation_journal_decides:
  "build_settlement_allocation_journal sha sid gv cv pv seller = Inr j \<longleftrightarrow>
     (\<exists>g c p. iat_to_minor gv = Inr g \<and> iat_to_minor cv = Inr c \<and> iat_to_minor pv = Inr p \<and>
        0 < g \<and> c + p = g \<and>
        j = \<lparr> aj_idempotency_key = allocation_key sid, aj_event_type = ''settlement_allocated'',
              aj_payload = allocation_payload sid g c p seller,
              aj_payload_hash = canonical_hash sha (allocation_payload sid g c p seller),
              aj_entries = allocation_entries g c p seller,
              aj_invariant = \<lparr> inv_entry_count = length (allocation_entries g c p seller),
                               inv_debit = g, inv_credit = g \<rparr> \<rparr>)"
  (is "?build = Inr j \<longleftrightarrow> ?rhs")
proof
  assume "?build = Inr j"
  then obtain g c p where amounts: "iat_to_minor gv = Inr g" "iat_to_minor cv = Inr c"
      "iat_to_minor pv = Inr p" and gcp: "0 < g" "c + p = g"
    by (auto simp: build_settlement_allocation_journal_def split: sum.splits if_splits)
  with iat_to_minor_range have "0 \<le> c" "0 \<le> p" "g \<le> max_iat_minor" by blast+
  with allocation_entries_valid amounts gcp \<open>?build = Inr j\<close> show ?rhs
    by (auto simp: build_settlement_allocation_journal_def Let_def)
next
  assume ?rhs
  then obtain g c p where amounts: "iat_to_minor gv = Inr g" "iat_to_minor cv = Inr c"
      "iat_to_minor pv = Inr p" and gcp: "0 < g" "c + p = g" and
    j: "j = \<lparr> aj_idempotency_key = allocation_key sid, aj_event_type = ''settlement_allocated'',
              aj_payload = allocation_payload sid g c p seller,
              aj_payload_hash = canonical_hash sha (allocation_payload sid g c p seller),
              aj_entries = allocation_entries g c p seller,
              aj_invariant = \<lparr> inv_entry_count = length (allocation_entries g c p seller),
                               inv_debit = g, inv_credit = g \<rparr> \<rparr>" by blast
  with iat_to_minor_range have "0 \<le> c" "0 \<le> p" "g \<le> max_iat_minor" by blast+
  with allocation_entries_valid amounts gcp j show "?build = Inr j"
    by (auto simp: build_settlement_allocation_journal_def Let_def)
qed

text \<open>
  An allocation journal is built exactly when the three amounts can be read, the gross is
  positive and the commission and the payout add up to it; the journal then balances at the gross.
\<close>

theorem allocation_journal_iff:
  "build_settlement_allocation_journal sha sid gv cv pv seller = Inr j \<longleftrightarrow>
     (\<exists>g c p. iat_to_minor gv = Inr g \<and> iat_to_minor cv = Inr c \<and> iat_to_minor pv = Inr p \<and>
        0 < g \<and> c + p = g \<and>
        j = \<lparr> aj_idempotency_key = allocation_key sid, aj_event_type = ''settlement_allocated'',
              aj_payload = allocation_payload sid g c p seller,
              aj_payload_hash = canonical_hash sha (allocation_payload sid g c p seller),
              aj_entries = allocation_entries g c p seller,
              aj_invariant = \<lparr> inv_entry_count = length (allocation_entries g c p seller),
                               inv_debit = g, inv_credit = g \<rparr> \<rparr>)"
  (is "?build = Inr j \<longleftrightarrow> ?rhs")
  by (rule allocation_journal_decides)

end
