(* ===== verification/SettlementTables.thy ===== *)
theory SettlementTables
  imports Ledger
begin

text \<open>
  The tables behind a settlement: \<open>settlements\<close> and its guard columns (\<open>iat/api/db.py\<close>,
  \<open>init_settlements_table\<close>), the execution permits (\<open>iat/api/protocol_evidence.py\<close>) and the three
  ledger tables (\<open>iat/api/ledger_db.py\<close>, \<open>init_ledger_tables\<close>), with the two lookups of a settlement.
  A nullable column is an option; the JSON text of \<open>settlement_payload\<close> is kept as the decoded value
  (\<open>PNone\<close> for NULL and for text that does not decode).
\<close>

record settlement =
  st_settlement_id :: string
  st_order_id :: string
  st_winner_id :: "string option"
  st_winner_wallet :: "string option"
  st_treasury_wallet :: "string option"
  st_gross_amount_iat :: pyval
  st_commission_rate :: pyval
  st_commission_amount_iat :: pyval
  st_payout_amount_iat :: pyval
  st_settlement_status :: "string option"
  st_winner_payment_status :: "string option"
  st_onchain_enabled :: bool
  st_commission_tx :: "string option"
  st_payout_tx :: "string option"
  st_payload :: pyval
  st_created_at :: int
  st_updated_at :: int
  st_claim_status :: "string option"
  st_claim_token :: "string option"
  st_claimed_at :: "int option"
  st_broadcast_at :: "int option"
  st_last_error :: "string option"
  st_gross_minor :: "int option"
  st_commission_minor :: "int option"
  st_payout_minor :: "int option"

record permit =
  pm_permit_id :: string
  pm_simulation_id :: string
  pm_authorization_id :: string
  pm_plan_id :: string
  pm_settlement_id :: string
  pm_order_id :: string
  pm_cluster :: string
  pm_genesis_hash :: string
  pm_mint :: string
  pm_transaction_sha :: string
  pm_gross_minor :: int
  pm_commission_minor :: int
  pm_payout_minor :: int
  pm_state :: string
  pm_policy_version :: string
  pm_permit_sha :: string
  pm_issued_at :: int
  pm_expires_at :: int
  pm_claim_id :: "string option"
  pm_claimed_by :: "string option"
  pm_claimed_at :: "int option"

record ledger_account =
  ac_account_id :: string
  ac_account_type :: string
  ac_owner_id :: "string option"
  ac_currency :: string
  ac_normal_balance :: string
  ac_created_at :: int

record ledger_tx =
  tx_transaction_id :: string
  tx_idempotency_key :: string
  tx_settlement_id :: string
  tx_order_id :: string
  tx_event_type :: string
  tx_status :: string
  tx_payload_hash :: string
  tx_metadata :: pyval
  tx_created_at :: int

record ledger_entry =
  en_entry_id :: string
  en_transaction_id :: string
  en_sequence :: nat
  en_account_id :: string
  en_direction :: string
  en_amount_minor :: int
  en_currency :: string
  en_created_at :: int

record pdb =
  settlements :: "settlement list"
  permits :: "permit list"
  accounts :: "ledger_account list"
  txs :: "ledger_tx list"
  entries :: "ledger_entry list"

text \<open>The uniqueness constraints of the tables, as the test that a new row clashes with an old one.\<close>

definition settlement_clash :: "settlement \<Rightarrow> settlement \<Rightarrow> bool" where
  "settlement_clash r x =
     (st_settlement_id r = st_settlement_id x \<or> st_order_id r = st_order_id x)"

definition tx_clash :: "ledger_tx \<Rightarrow> ledger_tx \<Rightarrow> bool" where
  "tx_clash r x =
     (tx_transaction_id r = tx_transaction_id x \<or> tx_idempotency_key r = tx_idempotency_key x)"

definition entry_clash :: "ledger_entry \<Rightarrow> ledger_entry \<Rightarrow> bool" where
  "entry_clash r x =
     (en_entry_id r = en_entry_id x \<or>
      (en_transaction_id r = en_transaction_id x \<and> en_sequence r = en_sequence x))"

definition account_clash :: "ledger_account \<Rightarrow> ledger_account \<Rightarrow> bool" where
  "account_clash r x = (ac_account_id r = ac_account_id x)"

text \<open>Both lookups decode the payload; the lookup by identifier also replaces a non-dict by \<open>{}\<close>.\<close>

definition decode_payload :: "pyval \<Rightarrow> pyval" where
  "decode_payload v = PDict (as_dict v)"

definition get_settlement_by_order_id_db :: "pdb \<Rightarrow> string \<Rightarrow> settlement option" where
  "get_settlement_by_order_id_db db order_id =
     (if order_id = [] then None
      else (case sql_order_limit (\<lambda>s. - st_created_at s) 1
                   (filter (\<lambda>s. st_order_id s = order_id) (settlements db)) of
              [] \<Rightarrow> None
            | row # _ \<Rightarrow> Some (if st_payload row = PNone then row \<lparr> st_payload := PDict [] \<rparr> else row)))"

definition get_settlement_by_id_db :: "pdb \<Rightarrow> string \<Rightarrow> settlement option" where
  "get_settlement_by_id_db db settlement_id =
     (if settlement_id = [] then None
      else map_option (\<lambda>row. row \<lparr> st_payload := decode_payload (st_payload row) \<rparr>)
             (row_by st_settlement_id settlement_id (settlements db)))"

definition upd_settlements :: "(settlement list \<Rightarrow> settlement list) \<Rightarrow> pdb \<Rightarrow> pdb" where
  "upd_settlements f db = db \<lparr> settlements := f (settlements db) \<rparr>"

definition find_settlement :: "string \<Rightarrow> pdb \<Rightarrow> settlement option" where
  "find_settlement k db = row_by st_settlement_id k (settlements db)"

definition settlements_wf :: "pdb \<Rightarrow> bool" where
  "settlements_wf db = (unique_by st_settlement_id (settlements db) \<and> unique_by st_order_id (settlements db))"

text \<open>A row for the witnesses.\<close>

definition sample_settlement :: settlement where
  "sample_settlement =
     \<lparr> st_settlement_id = ''s1'', st_order_id = ''o1'', st_winner_id = Some ''w'', st_winner_wallet = Some ''W'',
       st_treasury_wallet = Some ''T'', st_gross_amount_iat = PStr ''5'', st_commission_rate = PStr ''0.2'',
       st_commission_amount_iat = PStr ''1'', st_payout_amount_iat = PStr ''4'',
       st_settlement_status = Some ''created'', st_winner_payment_status = None, st_onchain_enabled = True,
       st_commission_tx = None, st_payout_tx = None, st_payload = PDict [], st_created_at = 1,
       st_updated_at = 1, st_claim_status = Some ''unclaimed'', st_claim_token = None, st_claimed_at = None,
       st_broadcast_at = None, st_last_error = None, st_gross_minor = Some 500000000,
       st_commission_minor = Some 100000000, st_payout_minor = Some 400000000 \<rparr>"

definition sample_pdb :: pdb where
  "sample_pdb = \<lparr> settlements = [sample_settlement], permits = [], accounts = [], txs = [], entries = [] \<rparr>"

end
