(* ===== verification/Interfaces.thy ===== *)
theory Interfaces
  imports Prelude
begin

text \<open>
  Two contracts that several stores of the protocol keep.

  \<^item> \<open>idempotent_recorder\<close>: recording a request under a key that is already present changes nothing,
    recording under a new key either fails without effect or stores one row, and no other key is
    touched. The first row stored under a key therefore stays whatever is recorded afterwards.
  \<^item> \<open>lease_store\<close>: work on a key is done by the holder of a token; a claim hands the token over, a
    finish succeeds exactly for the current holder and releases it. A finish with a token that was
    released or superseded is refused, so that a claimed piece of work is finished at most once.
\<close>

section \<open>Recording once\<close>

locale idempotent_recorder =
  fixes recordr :: "'req \<Rightarrow> 'db \<Rightarrow> 'db"
    and lookup :: "'key \<Rightarrow> 'db \<Rightarrow> 'row option"
    and key :: "'req \<Rightarrow> 'key"
    and row :: "'req \<Rightarrow> 'row"
  assumes replay: "lookup (key r) db = Some x \<Longrightarrow> recordr r db = db"
    and fresh: "lookup (key r) db = None \<Longrightarrow> recordr r db = db \<or> lookup (key r) (recordr r db) = Some (row r)"
    and others: "k \<noteq> key r \<Longrightarrow> lookup k (recordr r db) = lookup k db"
begin

lemma kept: "lookup k db = Some x \<Longrightarrow> lookup k (recordr r db) = Some x"
  by (cases "k = key r") (auto simp: replay others)

lemma first_write_wins: "lookup k db = Some x \<Longrightarrow> lookup k (fold recordr rs db) = Some x"
  by (induction rs arbitrary: db) (auto simp: kept)

lemma record_twice: "recordr r (recordr r db) = recordr r db"
proof (cases "lookup (key r) db")
  case None
  then show ?thesis using fresh [OF None] by (auto simp: replay)
qed (simp add: replay)

lemma record_replayed: "recordr r (fold recordr rs (recordr r db)) = fold recordr rs (recordr r db)"
  if "recordr r db \<noteq> db \<or> lookup (key r) db \<noteq> None"
proof -
  have "\<exists>x. lookup (key r) (recordr r db) = Some x"
    using that fresh [of r db] by (cases "lookup (key r) db") (auto simp: replay)
  then show ?thesis using first_write_wins replay by blast
qed

lemma run_source:
  "lookup k (fold recordr rs db) = Some x \<Longrightarrow> lookup k db = Some x \<or> (\<exists>r \<in> set rs. key r = k \<and> x = row r)"
proof (induction rs arbitrary: db)
  case (Cons r rs)
  then consider "lookup k (recordr r db) = Some x" | "\<exists>r \<in> set rs. key r = k \<and> x = row r" by fastforce
  then show ?case
  proof cases
    case 1
    show ?thesis
    proof (cases "k = key r")
      case True
      then show ?thesis using 1 fresh [of r db] replay [of r db]
        by (cases "lookup (key r) db") auto
    qed (use 1 others in auto)
  qed auto
qed simp

end

section \<open>Leases\<close>

datatype ('key, 'tok, 'c, 'f) lease_op = Claim 'key 'tok 'c | Finish 'key 'tok 'f

locale lease_store =
  fixes claim :: "'key \<Rightarrow> 'tok \<Rightarrow> 'c \<Rightarrow> 'db \<Rightarrow> bool \<times> 'db"
    and finish :: "'key \<Rightarrow> 'tok \<Rightarrow> 'f \<Rightarrow> 'db \<Rightarrow> bool \<times> 'db"
    and holder :: "'key \<Rightarrow> 'db \<Rightarrow> 'tok option"
    and inv :: "'db \<Rightarrow> bool"
  assumes claim_inv: "inv db \<Longrightarrow> inv (snd (claim k t c db))"
    and finish_inv: "inv db \<Longrightarrow> inv (snd (finish k t f db))"
    and claim_ok: "inv db \<Longrightarrow> fst (claim k t c db) \<Longrightarrow> holder k (snd (claim k t c db)) = Some t"
    and claim_no: "inv db \<Longrightarrow> \<not> fst (claim k t c db) \<Longrightarrow> holder k (snd (claim k t c db)) = holder k db"
    and claim_others: "inv db \<Longrightarrow> k' \<noteq> k \<Longrightarrow> holder k' (snd (claim k t c db)) = holder k' db"
    and finish_iff: "inv db \<Longrightarrow> fst (finish k t f db) \<longleftrightarrow> holder k db = Some t"
    and finish_ok: "inv db \<Longrightarrow> fst (finish k t f db) \<Longrightarrow> holder k (snd (finish k t f db)) = None"
    and finish_no: "inv db \<Longrightarrow> \<not> fst (finish k t f db) \<Longrightarrow> snd (finish k t f db) = db"
    and finish_others: "inv db \<Longrightarrow> k' \<noteq> k \<Longrightarrow> holder k' (snd (finish k t f db)) = holder k' db"
begin

fun lease_run :: "('key, 'tok, 'c, 'f) lease_op \<Rightarrow> 'db \<Rightarrow> bool \<times> 'db" where
  "lease_run (Claim k t c) db = claim k t c db"
| "lease_run (Finish k t f) db = finish k t f db"

text \<open>How many of a run's finishes of one key with one token succeed.\<close>

fun finishes :: "'key \<Rightarrow> 'tok \<Rightarrow> ('key, 'tok, 'c, 'f) lease_op list \<Rightarrow> 'db \<Rightarrow> nat" where
  "finishes k t [] db = 0"
| "finishes k t (x # xs) db =
     (case lease_run x db of (ok, db') \<Rightarrow>
        (case x of Finish k' t' f \<Rightarrow> (if ok \<and> k' = k \<and> t' = t then 1 else 0) | Claim _ _ _ \<Rightarrow> 0)
        + finishes k t xs db')"

fun claims :: "'key \<Rightarrow> 'tok \<Rightarrow> ('key, 'tok, 'c, 'f) lease_op \<Rightarrow> bool" where
  "claims k t (Claim k' t' c) = (k' = k \<and> t' = t)"
| "claims k t (Finish k' t' f) = False"

lemma run_inv: "inv db \<Longrightarrow> inv (snd (lease_run x db))"
  by (cases x) (simp_all add: claim_inv finish_inv)

lemma holder_step:
  "inv db \<Longrightarrow> \<not> claims k t x \<Longrightarrow> holder k db \<noteq> Some t \<Longrightarrow> holder k (snd (lease_run x db)) \<noteq> Some t"
proof (cases x)
  case (Claim k' t' c)
  assume "inv db" "\<not> claims k t x" "holder k db \<noteq> Some t"
  with Claim show ?thesis
    using claim_others [of db k k' t' c] claim_ok [of db k t' c] claim_no [of db k t' c]
    by (cases "k' = k"; cases "fst (claim k t' c db)") auto
next
  case (Finish k' t' f)
  assume "inv db" "\<not> claims k t x" "holder k db \<noteq> Some t"
  with Finish show ?thesis
    using finish_others [of db k k' t' f] finish_ok [of db k t' f] finish_no [of db k t' f]
    by (cases "k' = k"; cases "fst (finish k t' f db)") auto
qed

lemma no_finish_without_claim:
  "inv db \<Longrightarrow> \<forall>x \<in> set xs. \<not> claims k t x \<Longrightarrow> holder k db \<noteq> Some t \<Longrightarrow> finishes k t xs db = 0"
proof (induction xs arbitrary: db)
  case (Cons x xs)
  have "finishes k t xs (snd (lease_run x db)) = 0"
    using Cons holder_step [of db k t x] run_inv [of db x] by simp
  then show ?case using Cons.prems finish_iff [of db k t]
    by (cases x) (auto simp: case_prod_beta)
qed simp

lemma finished_at_most_once:
  "inv db \<Longrightarrow> \<forall>x \<in> set xs. \<not> claims k t x \<Longrightarrow> finishes k t xs db \<le> 1"
proof (induction xs arbitrary: db)
  case (Cons x xs)
  let ?db = "snd (lease_run x db)"
  have inv': "inv ?db" using Cons.prems run_inv by blast
  have IH: "finishes k t xs ?db \<le> 1" using Cons inv' by simp
  show ?case
  proof (cases x)
    case (Finish k' t' f)
    show ?thesis
    proof (cases "k' = k \<and> t' = t \<and> fst (finish k t f db)")
      case True
      then have "holder k ?db = None" using Finish Cons.prems(1) finish_ok by simp
      then have "finishes k t xs ?db = 0"
        using no_finish_without_claim [OF inv'] Cons.prems(2) by simp
      then show ?thesis using Finish True by (simp add: case_prod_beta)
    qed (use IH Finish in \<open>auto simp: case_prod_beta\<close>)
  qed (use IH in \<open>simp add: case_prod_beta\<close>)
qed simp

lemma stale_finish_refused:
  "inv db \<Longrightarrow> fst (claim k t' c db) \<Longrightarrow> t \<noteq> t' \<Longrightarrow>
   finish k t f (snd (claim k t' c db)) = (False, snd (claim k t' c db))"
  using claim_ok [of db k t' c] claim_inv [of db k t' c]
    finish_iff [of "snd (claim k t' c db)" k t f] finish_no [of "snd (claim k t' c db)" k t f]
  by (cases "finish k t f (snd (claim k t' c db))") auto

lemma second_finish_refused:
  "inv db \<Longrightarrow> fst (finish k t f db) \<Longrightarrow>
   finish k t' g (snd (finish k t f db)) = (False, snd (finish k t f db))"
  using finish_ok [of db k t f] finish_inv [of db k t f]
    finish_iff [of "snd (finish k t f db)" k t' g] finish_no [of "snd (finish k t f db)" k t' g]
  by (cases "finish k t' g (snd (finish k t f db))") auto

end

end
