(* ===== verification/LedgerDb.thy ===== *)
theory LedgerDb
  imports SettlementTables Interfaces
begin

text \<open>
  The persistent double-entry ledger (\<open>iat/api/ledger_db.py\<close>): posting an allocation inside the
  caller's transaction, reading a transaction back, reconciliation against the settlements and the
  backfill of legacy settlements. A function returns its result and the database it leaves; the
  caller's rollback is taken by whoever discards the second component. The clock is the argument
  \<open>now\<close>, the draws of \<open>uuid4\<close> are the argument \<open>uuid\<close>, indexed by the order of the draws.
\<close>

datatype db_error = LedgerFailure ledger_error | IntegrityError | ConversionError

section \<open>Posting\<close>

definition invariant_dict :: "journal_invariant \<Rightarrow> pyval" where
  "invariant_dict i = PDict
     [(''status'', PStr ''balanced''), (''ledger'', PStr ledger_version),
      (''entry_count'', PInt (int (inv_entry_count i))),
      (''currencies'', PDict [(''IAT'', PDict [(''debit'', PInt (inv_debit i)), (''credit'', PInt (inv_credit i))])]),
      (''imbalances'', PDict [])]"

definition ensure_account :: "string \<Rightarrow> string option \<Rightarrow> int \<Rightarrow> pdb \<Rightarrow> pdb" where
  "ensure_account account_id seller_id now db =
     (let (account_type, owner_id, normal_balance) =
            (if py_startswith account_id ''iat:seller_payable:'' then (''liability'', seller_id, ''credit'')
             else if account_id = ''iat:protocol_commission_revenue''
               then (''revenue'', Some ''iat_protocol'', ''credit'')
             else (''clearing'', None, ''debit''));
          row = \<lparr> ac_account_id = account_id, ac_account_type = account_type, ac_owner_id = owner_id,
                  ac_currency = ''IAT'', ac_normal_balance = normal_balance, ac_created_at = now \<rparr>
      in case sql_insert account_clash row (accounts db) of
           None \<Rightarrow> db
         | Some t \<Rightarrow> db \<lparr> accounts := t \<rparr>)"

record posting =
  po_status :: string
  po_transaction_id :: string
  po_idempotent :: bool
  po_invariant :: "journal_invariant option"

definition entry_row :: "string \<Rightarrow> string \<Rightarrow> nat \<Rightarrow> pydict \<Rightarrow> int \<Rightarrow> ledger_entry" where
  "entry_row entry_id transaction_id sequence entry now =
     \<lparr> en_entry_id = entry_id, en_transaction_id = transaction_id, en_sequence = sequence,
       en_account_id = py_str (dget entry ''account_id''), en_direction = py_str (dget entry ''direction''),
       en_amount_minor = (case dget entry ''amount_minor'' of PInt a \<Rightarrow> a | _ \<Rightarrow> 0),
       en_currency = py_str (dget entry ''currency''), en_created_at = now \<rparr>"

fun insert_entries ::
  "(nat \<Rightarrow> string) \<Rightarrow> string \<Rightarrow> string option \<Rightarrow> int \<Rightarrow> nat \<Rightarrow> pydict list \<Rightarrow> pdb \<Rightarrow> bool \<times> pdb" where
  "insert_entries uuid transaction_id seller_id now sequence [] db = (True, db)"
| "insert_entries uuid transaction_id seller_id now sequence (entry # rest) db =
     (let db1 = ensure_account (py_str (dget entry ''account_id'')) seller_id now db;
          row = entry_row (''ldg_ent_'' @ uuid sequence) transaction_id sequence entry now
      in case sql_insert entry_clash row (entries db1) of
           None \<Rightarrow> (False, db1)
         | Some t \<Rightarrow>
             insert_entries uuid transaction_id seller_id now (Suc sequence) rest (db1 \<lparr> entries := t \<rparr>))"

definition post_settlement_allocation_conn ::
  "(string \<Rightarrow> string) \<Rightarrow> (nat \<Rightarrow> string) \<Rightarrow> int \<Rightarrow> string \<Rightarrow> string \<Rightarrow> string option \<Rightarrow>
   pyval \<Rightarrow> pyval \<Rightarrow> pyval \<Rightarrow> pdb \<Rightarrow> (db_error + posting) \<times> pdb" where
  "post_settlement_allocation_conn sha uuid now settlement_id order_id seller_id gross commission payout db =
     (case build_settlement_allocation_journal sha settlement_id gross commission payout seller_id of
        Inl e \<Rightarrow> (Inl (LedgerFailure e), db)
      | Inr journal \<Rightarrow>
          (case row_by tx_idempotency_key (aj_idempotency_key journal) (txs db) of
             Some existing \<Rightarrow>
               if tx_payload_hash existing \<noteq> aj_payload_hash journal
               then (Inl (LedgerFailure (LedgerValidation ''ledger_idempotency_payload_conflict'')), db)
               else (Inr \<lparr> po_status = ''already_posted'', po_transaction_id = tx_transaction_id existing,
                           po_idempotent = True, po_invariant = None \<rparr>, db)
           | None \<Rightarrow>
               let transaction_id = ''ldg_tx_'' @ uuid 0;
                   metadata = PDict [(''ledger_version'', PStr ledger_version),
                                     (''journal_payload'', PDict (aj_payload journal)),
                                     (''invariant'', invariant_dict (aj_invariant journal))];
                   row = \<lparr> tx_transaction_id = transaction_id,
                           tx_idempotency_key = aj_idempotency_key journal,
                           tx_settlement_id = settlement_id, tx_order_id = order_id,
                           tx_event_type = aj_event_type journal, tx_status = ''posted'',
                           tx_payload_hash = aj_payload_hash journal, tx_metadata = metadata,
                           tx_created_at = now \<rparr>
               in (case sql_insert tx_clash row (txs db) of
                     None \<Rightarrow> (Inl IntegrityError, db)
                   | Some t \<Rightarrow>
                       (case insert_entries uuid transaction_id seller_id now 1 (aj_entries journal)
                               (db \<lparr> txs := t \<rparr>) of
                          (False, db') \<Rightarrow> (Inl IntegrityError, db')
                        | (True, db') \<Rightarrow>
                            (Inr \<lparr> po_status = ''posted'', po_transaction_id = transaction_id,
                                   po_idempotent = False, po_invariant = Some (aj_invariant journal) \<rparr>, db')))))"

section \<open>Reading back\<close>

definition entry_row_dict :: "ledger_entry \<Rightarrow> pydict" where
  "entry_row_dict r = ledger_entry_dict (en_account_id r) (en_direction r) (en_amount_minor r) (en_currency r)"

definition transaction_entries :: "pdb \<Rightarrow> string \<Rightarrow> ledger_entry list" where
  "transaction_entries db transaction_id =
     sort_key en_sequence (filter (\<lambda>e. en_transaction_id e = transaction_id) (entries db))"

record ledger_view =
  lv_transaction :: ledger_tx
  lv_entries :: "ledger_entry list"
  lv_invariant :: journal_invariant

definition get_ledger_transaction :: "pdb \<Rightarrow> string \<Rightarrow> ledger_error + ledger_view option" where
  "get_ledger_transaction db transaction_id =
     (case row_by tx_transaction_id transaction_id (txs db) of
        None \<Rightarrow> Inr None
      | Some row \<Rightarrow>
          let es = transaction_entries db transaction_id in
          (case validate_journal (map entry_row_dict es) of
             Inl e \<Rightarrow> Inl e
           | Inr i \<Rightarrow> Inr (Some \<lparr> lv_transaction = row, lv_entries = es, lv_invariant = i \<rparr>)))"

section \<open>Reconciliation\<close>

record amounts_text =
  at_gross :: string
  at_commission :: string
  at_payout :: string

datatype issue =
    UnbalancedJournal string ledger_error
  | SettlementMissing string string
  | SettlementAmountMismatch string string amounts_text amounts_text
  | LedgerAllocationMissing string string

definition amounts_to_text :: "int \<Rightarrow> int \<Rightarrow> int \<Rightarrow> ledger_error + amounts_text" where
  "amounts_to_text gross commission payout =
     sum_bind (minor_to_iat (PInt gross)) (\<lambda>g.
     sum_bind (minor_to_iat (PInt commission)) (\<lambda>c.
     sum_bind (minor_to_iat (PInt payout)) (\<lambda>p.
       Inr \<lparr> at_gross = g, at_commission = c, at_payout = p \<rparr>)))"

definition expected_minor :: "int option \<Rightarrow> pyval \<Rightarrow> ledger_error + int" where
  "expected_minor minor iat = (case minor of Some m \<Rightarrow> Inr m | None \<Rightarrow> iat_to_minor iat)"

text \<open>The dict comprehension over the credit entries: a later entry of an account replaces an earlier one.\<close>

definition credit_map :: "ledger_entry list \<Rightarrow> (string \<times> int) list" where
  "credit_map es =
     fold (\<lambda>e m. if en_direction e = ''credit'' then AList.update (en_account_id e) (en_amount_minor e) m else m)
       es []"

definition reconcile_settlement ::
  "pdb \<Rightarrow> ledger_tx \<Rightarrow> ledger_entry list \<Rightarrow> ledger_error + issue option" where
  "reconcile_settlement db tx es =
     (case row_by st_settlement_id (tx_settlement_id tx) (settlements db) of
        None \<Rightarrow> Inr (Some (SettlementMissing (tx_transaction_id tx) (tx_settlement_id tx)))
      | Some s \<Rightarrow>
          let debits = sum_list (map en_amount_minor (filter (\<lambda>e. en_direction e = ''debit'') es));
              credits = credit_map es
          in sum_bind (expected_minor (st_gross_minor s) (st_gross_amount_iat s)) (\<lambda>gross.
             sum_bind (expected_minor (st_commission_minor s) (st_commission_amount_iat s)) (\<lambda>commission.
             sum_bind (expected_minor (st_payout_minor s) (st_payout_amount_iat s)) (\<lambda>payout.
               let actual_commission =
                     (case map_of credits ''iat:protocol_commission_revenue'' of None \<Rightarrow> 0 | Some v \<Rightarrow> v);
                   actual_payout =
                     sum_list (map snd (filter (\<lambda>(a, v). py_startswith a ''iat:seller_payable:'') credits))
               in if (debits, actual_commission, actual_payout) \<noteq> (gross, commission, payout)
                  then sum_bind (amounts_to_text gross commission payout) (\<lambda>expected.
                       sum_bind (amounts_to_text debits actual_commission actual_payout) (\<lambda>actual.
                         Inr (Some (SettlementAmountMismatch (tx_transaction_id tx) (tx_settlement_id tx)
                                      expected actual))))
                  else Inr None))))"

fun reconcile_loop ::
  "pdb \<Rightarrow> ledger_tx list \<Rightarrow> issue list \<Rightarrow> nat \<Rightarrow> ledger_error + issue list \<times> nat" where
  "reconcile_loop db [] issues checked = Inr (issues, checked)"
| "reconcile_loop db (tx # rest) issues checked =
     (let es = transaction_entries db (tx_transaction_id tx); checked' = checked + length es in
      case validate_journal (map entry_row_dict es) of
        Inl e \<Rightarrow> reconcile_loop db rest (issues @ [UnbalancedJournal (tx_transaction_id tx) e]) checked'
      | Inr _ \<Rightarrow>
          if tx_event_type tx = ''settlement_allocated''
          then sum_bind (reconcile_settlement db tx es) (\<lambda>issue.
                 reconcile_loop db rest (case issue of None \<Rightarrow> issues | Some i \<Rightarrow> issues @ [i]) checked')
          else reconcile_loop db rest issues checked')"

definition has_allocation :: "pdb \<Rightarrow> settlement \<Rightarrow> bool" where
  "has_allocation db s =
     list_ex (\<lambda>t. tx_settlement_id t = st_settlement_id s \<and> tx_event_type t = ''settlement_allocated'') (txs db)"

record reconciliation =
  rc_status :: string
  rc_transactions_checked :: nat
  rc_entries_checked :: nat
  rc_without_allocation :: nat
  rc_issue_count :: nat
  rc_issues :: "issue list"
  rc_healthy :: bool

definition bounded_limit :: "int \<Rightarrow> nat" where
  "bounded_limit limit = nat (clamp_int 1 10000 limit)"

definition reconcile_ledger :: "int \<Rightarrow> pdb \<Rightarrow> ledger_error + reconciliation" where
  "reconcile_ledger limit db =
     (let transactions = sql_order_limit (\<lambda>t. - tx_created_at t) (bounded_limit limit)
                           (filter (\<lambda>t. tx_status t = ''posted'') (txs db));
          missing = sql_order_limit (\<lambda>s. - st_created_at s) (bounded_limit limit)
                      (filter (\<lambda>s. \<not> has_allocation db s) (settlements db))
      in sum_bind (reconcile_loop db transactions [] 0) (\<lambda>(issues0, checked).
           let issues = issues0 @ map (\<lambda>s. LedgerAllocationMissing (st_settlement_id s) (st_order_id s)) missing
           in Inr \<lparr> rc_status = (if issues = [] then ''reconciled'' else ''reconciliation_failed''),
                    rc_transactions_checked = length transactions, rc_entries_checked = checked,
                    rc_without_allocation = length missing, rc_issue_count = length issues,
                    rc_issues = issues, rc_healthy = (issues = []) \<rparr>))"

section \<open>Backfill\<close>

record backfill_state =
  bf_db :: pdb
  bf_planned :: "(string \<times> string \<times> string) list"
  bf_posted :: "(string \<times> string \<times> string) list"
  bf_errors :: "(string \<times> string \<times> db_error) list"

definition backfill_one ::
  "(string \<Rightarrow> string) \<Rightarrow> (nat \<Rightarrow> string) \<Rightarrow> int \<Rightarrow> bool \<Rightarrow> settlement \<Rightarrow> backfill_state \<Rightarrow> backfill_state" where
  "backfill_one sha uuid now dry_run s b =
     (let failed = (\<lambda>e b. b \<lparr> bf_errors := bf_errors b @ [(st_settlement_id s, st_order_id s, e)] \<rparr>) in
      case build_settlement_allocation_journal sha (st_settlement_id s) (st_gross_amount_iat s)
             (st_commission_amount_iat s) (st_payout_amount_iat s) (st_winner_id s) of
        Inl e \<Rightarrow> failed (LedgerFailure e) b
      | Inr journal \<Rightarrow>
          let b1 = b \<lparr> bf_planned := bf_planned b @
                       [(st_settlement_id s, st_order_id s, aj_payload_hash journal)] \<rparr> in
          if dry_run then b1
          else (case post_settlement_allocation_conn sha uuid now (st_settlement_id s) (st_order_id s)
                       (st_winner_id s) (st_gross_amount_iat s) (st_commission_amount_iat s)
                       (st_payout_amount_iat s) (bf_db b1) of
                  (Inl e, db') \<Rightarrow> failed e (b1 \<lparr> bf_db := db' \<rparr>)
                | (Inr p, db') \<Rightarrow>
                    b1 \<lparr> bf_db := db', bf_posted := bf_posted b1 @
                         [(st_settlement_id s, po_transaction_id p, po_status p)] \<rparr>))"

fun backfill_loop ::
  "(string \<Rightarrow> string) \<Rightarrow> (nat \<Rightarrow> nat \<Rightarrow> string) \<Rightarrow> int \<Rightarrow> bool \<Rightarrow> nat \<Rightarrow> settlement list \<Rightarrow>
   backfill_state \<Rightarrow> backfill_state" where
  "backfill_loop sha uuid now dry_run i [] b = b"
| "backfill_loop sha uuid now dry_run i (s # rest) b =
     backfill_loop sha uuid now dry_run (Suc i) rest (backfill_one sha (uuid i) now dry_run s b)"

record backfill_result =
  br_status :: string
  br_candidate_count :: nat
  br_planned :: "(string \<times> string \<times> string) list"
  br_posted :: "(string \<times> string \<times> string) list"
  br_errors :: "(string \<times> string \<times> db_error) list"
  br_atomic_apply :: bool

definition backfill_candidates :: "int \<Rightarrow> pdb \<Rightarrow> settlement list" where
  "backfill_candidates limit db =
     sql_order_limit st_created_at (bounded_limit limit)
       (filter (\<lambda>s. \<not> has_allocation db s) (settlements db))"

definition backfill_settlement_allocations ::
  "(string \<Rightarrow> string) \<Rightarrow> (nat \<Rightarrow> nat \<Rightarrow> string) \<Rightarrow> int \<Rightarrow> bool \<Rightarrow> int \<Rightarrow> pdb \<Rightarrow> backfill_result \<times> pdb" where
  "backfill_settlement_allocations sha uuid now dry_run limit db =
     (let candidates = backfill_candidates limit db;
          b = backfill_loop sha uuid now dry_run 0 candidates
                \<lparr> bf_db = db, bf_planned = [], bf_posted = [], bf_errors = [] \<rparr>;
          rolled_back = (dry_run \<or> bf_errors b \<noteq> [])
      in (\<lparr> br_status = (if dry_run \<and> bf_errors b = [] then ''backfill_plan_ready''
                        else if \<not> dry_run \<and> bf_errors b = [] then ''backfill_completed''
                        else ''backfill_validation_failed''),
            br_candidate_count = length candidates, br_planned = bf_planned b,
            br_posted = (if rolled_back then [] else bf_posted b), br_errors = bf_errors b,
            br_atomic_apply = (\<not> dry_run) \<rparr>,
          if rolled_back then db else bf_db b))"

section \<open>What a posting stores\<close>

definition entry_rows :: "(nat \<Rightarrow> string) \<Rightarrow> string \<Rightarrow> int \<Rightarrow> nat \<Rightarrow> pydict list \<Rightarrow> ledger_entry list" where
  "entry_rows uuid tid now n es =
     map (\<lambda>(i, e). entry_row (''ldg_ent_'' @ uuid i) tid i e now) (enumerate n es)"

lemma entry_rows_simps [simp]:
  "entry_rows uuid tid now n [] = []"
  "entry_rows uuid tid now n (e # es) =
     entry_row (''ldg_ent_'' @ uuid n) tid n e now # entry_rows uuid tid now (Suc n) es"
  by (simp_all add: entry_rows_def)

lemma entry_row_simps [simp]:
  "en_transaction_id (entry_row eid tid n e now) = tid" "en_sequence (entry_row eid tid n e now) = n"
  by (simp_all add: entry_row_def)

lemma ensure_account_simps [simp]:
  "settlements (ensure_account a sel now db) = settlements db" "permits (ensure_account a sel now db) = permits db"
  "txs (ensure_account a sel now db) = txs db" "entries (ensure_account a sel now db) = entries db"
  by (simp_all add: ensure_account_def Let_def split: option.splits)

lemma insert_entries_frame:
  "insert_entries uuid tid sel now n es db = (ok, db') \<Longrightarrow>
   settlements db' = settlements db \<and> permits db' = permits db \<and> txs db' = txs db \<and>
   (ok \<longrightarrow> entries db' = entries db @ entry_rows uuid tid now n es)"
  by (induction es arbitrary: n db)
     (auto simp: Let_def sql_insert_Some split: option.splits)

lemma entry_rows_dict:
  "list_all (\<lambda>e. \<exists>a d m c. e = ledger_entry_dict a d m c) es \<Longrightarrow>
   map entry_row_dict (entry_rows uuid tid now n es) = es"
  by (induction es arbitrary: n)
     (auto simp: entry_row_def entry_row_dict_def ledger_entry_dict_def dget_def py_str_def)

lemma entry_rows_sorted:
  "sorted (map en_sequence (entry_rows uuid tid now n es)) \<and>
   (\<forall>x \<in> set (entry_rows uuid tid now n es). n \<le> en_sequence x \<and> en_transaction_id x = tid)"
proof (induction es arbitrary: n)
  case (Cons e es)
  from Cons [of "Suc n"] show ?case by fastforce
qed simp

lemma allocation_entries_dicts:
  "list_all (\<lambda>e. \<exists>a d m c. e = ledger_entry_dict a d m c) (allocation_entries g c p seller)"
  by (auto simp: allocation_entries_def)

text \<open>The row a first posting adds, and everything it leaves alone.\<close>

definition posted_as ::
  "(string \<Rightarrow> string) \<Rightarrow> string \<Rightarrow> string \<Rightarrow> string option \<Rightarrow> int \<Rightarrow> int \<Rightarrow> int \<Rightarrow> string \<Rightarrow> pdb \<Rightarrow> pdb \<Rightarrow> bool" where
  "posted_as sha sid oid seller g c p tid db db' \<longleftrightarrow>
     (\<exists>t rows. txs db' = txs db @ [t] \<and> entries db' = entries db @ rows \<and>
        settlements db' = settlements db \<and> permits db' = permits db \<and>
        tid \<notin> tx_transaction_id ` set (txs db) \<and> allocation_key sid \<notin> tx_idempotency_key ` set (txs db) \<and>
        tx_transaction_id t = tid \<and> tx_idempotency_key t = allocation_key sid \<and>
        tx_settlement_id t = sid \<and> tx_order_id t = oid \<and> tx_event_type t = ''settlement_allocated'' \<and>
        tx_status t = ''posted'' \<and>
        tx_payload_hash t = canonical_hash sha (allocation_payload sid g c p seller) \<and>
        map entry_row_dict rows = allocation_entries g c p seller \<and>
        sorted (map en_sequence rows) \<and> (\<forall>x \<in> set rows. en_transaction_id x = tid))"

lemma post_cases:
  assumes "post_settlement_allocation_conn sha uuid now sid oid seller gv cv pv db = (res, db')"
  obtains (failed) e where "res = Inl e" "settlements db' = settlements db" "permits db' = permits db"
  | (old) t g c p where "db' = db" "row_by tx_idempotency_key (allocation_key sid) (txs db) = Some t"
      "iat_to_minor gv = Inr g" "iat_to_minor cv = Inr c" "iat_to_minor pv = Inr p" "0 < g" "c + p = g"
      "tx_payload_hash t = canonical_hash sha (allocation_payload sid g c p seller)"
      "res = Inr \<lparr> po_status = ''already_posted'', po_transaction_id = tx_transaction_id t,
                   po_idempotent = True, po_invariant = None \<rparr>"
  | (new) po g c p where "res = Inr po" "po_status po = ''posted''" "\<not> po_idempotent po"
      "iat_to_minor gv = Inr g" "iat_to_minor cv = Inr c" "iat_to_minor pv = Inr p" "0 < g" "c + p = g"
      "posted_as sha sid oid seller g c p (po_transaction_id po) db db'"
proof (cases "build_settlement_allocation_journal sha sid gv cv pv seller")
  case (Inl e)
  with assms failed show thesis by (auto simp: post_settlement_allocation_conn_def)
next
  case (Inr j)
  then obtain g c p where amounts: "iat_to_minor gv = Inr g" "iat_to_minor cv = Inr c"
      "iat_to_minor pv = Inr p" "0 < g" "c + p = g"
    and j: "aj_idempotency_key j = allocation_key sid" "aj_event_type j = ''settlement_allocated''"
      "aj_payload_hash j = canonical_hash sha (allocation_payload sid g c p seller)"
      "aj_entries j = allocation_entries g c p seller"
    by (auto simp: allocation_journal_decides)
  show thesis
  proof (cases "row_by tx_idempotency_key (allocation_key sid) (txs db)")
    case (Some t)
    with assms Inr j amounts failed old [of t g c p] show thesis
      by (auto simp: post_settlement_allocation_conn_def split: if_splits)
  next
    case None
    let ?tid = "''ldg_tx_'' @ uuid 0"
    define t where "t = \<lparr> tx_transaction_id = ?tid, tx_idempotency_key = aj_idempotency_key j,
        tx_settlement_id = sid, tx_order_id = oid, tx_event_type = aj_event_type j, tx_status = ''posted'',
        tx_payload_hash = aj_payload_hash j,
        tx_metadata = PDict [(''ledger_version'', PStr ledger_version), (''journal_payload'', PDict (aj_payload j)),
                             (''invariant'', invariant_dict (aj_invariant j))],
        tx_created_at = now \<rparr>"
    have t: "tx_transaction_id t = ?tid" "tx_idempotency_key t = allocation_key sid"
        "tx_settlement_id t = sid" "tx_order_id t = oid" "tx_event_type t = ''settlement_allocated''"
        "tx_status t = ''posted''" "tx_payload_hash t = canonical_hash sha (allocation_payload sid g c p seller)"
      using j by (simp_all add: t_def)
    have eq: "post_settlement_allocation_conn sha uuid now sid oid seller gv cv pv db =
        (case sql_insert tx_clash t (txs db) of
           None \<Rightarrow> (Inl IntegrityError, db)
         | Some u \<Rightarrow>
            (case insert_entries uuid ?tid seller now 1 (aj_entries j) (db \<lparr> txs := u \<rparr>) of
               (False, db') \<Rightarrow> (Inl IntegrityError, db')
             | (True, db') \<Rightarrow> (Inr \<lparr> po_status = ''posted'', po_transaction_id = ?tid,
                 po_idempotent = False, po_invariant = Some (aj_invariant j) \<rparr>, db')))"
      unfolding post_settlement_allocation_conn_def Let_def t_def
      by (simp only: Inr sum.case j(1) None option.case)
    show thesis
    proof (cases "sql_insert tx_clash t (txs db)")
      case (Some u)
      then have u: "u = txs db @ [t]" and fresh: "?tid \<notin> tx_transaction_id ` set (txs db)"
          "allocation_key sid \<notin> tx_idempotency_key ` set (txs db)"
        using t by (auto simp: sql_insert_Some tx_clash_def)
      obtain ok db1 where ins:
          "insert_entries uuid ?tid seller now 1 (allocation_entries g c p seller) (db \<lparr> txs := u \<rparr>) = (ok, db1)"
        by (cases "insert_entries uuid ?tid seller now 1 (allocation_entries g c p seller) (db \<lparr> txs := u \<rparr>)")
      note frame = insert_entries_frame [OF ins]
      show thesis
      proof (cases ok)
        case True
        let ?rows = "entry_rows uuid ?tid now 1 (allocation_entries g c p seller)"
        have "posted_as sha sid oid seller g c p ?tid db db1"
          unfolding posted_as_def
          using frame True u fresh t entry_rows_sorted [of uuid ?tid now 1 "allocation_entries g c p seller"]
            entry_rows_dict [OF allocation_entries_dicts]
          by (intro exI [of _ t] exI [of _ ?rows]) simp
        with True assms eq Some ins amounts new j(4) show thesis by auto
      qed (use assms eq Some ins frame failed j(4) in auto)
    qed (use assms eq failed in auto)
  qed
qed

section \<open>The ledger invariant\<close>

definition transaction_ok :: "pdb \<Rightarrow> string \<Rightarrow> bool" where
  "transaction_ok db tid = (\<not> isl (validate_journal (map entry_row_dict (transaction_entries db tid))))"

definition signed_amount :: "ledger_entry \<Rightarrow> int" where
  "signed_amount e = (if en_direction e = ''debit'' then en_amount_minor e else - en_amount_minor e)"

definition ledger_wf :: "pdb \<Rightarrow> bool" where
  "ledger_wf db =
     (unique_by tx_transaction_id (txs db) \<and> unique_by tx_idempotency_key (txs db) \<and>
      list_all (\<lambda>e. en_transaction_id e \<in> tx_transaction_id ` set (txs db)) (entries db) \<and>
      list_all (\<lambda>t. transaction_ok db (tx_transaction_id t)) (txs db) \<and>
      sum_list (map signed_amount (entries db)) = 0)"

lemma transaction_entries_new:
  assumes "entries db' = entries db @ rows" and "\<forall>x \<in> set rows. en_transaction_id x = tid"
  shows "k \<noteq> tid \<Longrightarrow> transaction_entries db' k = transaction_entries db k"
    and "sorted (map en_sequence rows) \<Longrightarrow> \<forall>e \<in> set (entries db). en_transaction_id e \<noteq> tid \<Longrightarrow>
         transaction_entries db' tid = rows"
proof -
  assume "k \<noteq> tid"
  with assms have "filter (\<lambda>e. en_transaction_id e = k) rows = []" by (auto simp: filter_empty_conv)
  with assms(1) show "transaction_entries db' k = transaction_entries db k"
    by (simp add: transaction_entries_def)
next
  assume "sorted (map en_sequence rows)" "\<forall>e \<in> set (entries db). en_transaction_id e \<noteq> tid"
  moreover from this have "filter (\<lambda>e. en_transaction_id e = tid) (entries db) = []"
    by (auto simp: filter_empty_conv)
  moreover have "filter (\<lambda>e. en_transaction_id e = tid) rows = rows" using assms(2) by simp
  ultimately show "transaction_entries db' tid = rows"
    using assms(1) by (simp add: transaction_entries_def sort_key_id_if_sorted)
qed

lemma row_dict_inject:
  "entry_row_dict r = ledger_entry_dict a d m c \<longleftrightarrow>
     en_account_id r = a \<and> en_direction r = d \<and> en_amount_minor r = m \<and> en_currency r = c"
  by (auto simp: entry_row_dict_def ledger_entry_dict_def)

lemma allocation_rows_signed:
  assumes "map entry_row_dict rows = allocation_entries g c p seller" and "c + p = g"
  shows "sum_list (map signed_amount rows) = 0"
proof -
  have "map signed_amount rows = map (\<lambda>e. (if dget e ''direction'' = PStr ''debit'' then 1 else - 1) *
      (case dget e ''amount_minor'' of PInt a \<Rightarrow> a | _ \<Rightarrow> 0)) (map entry_row_dict rows)"
    by (induction rows) (auto simp: signed_amount_def entry_row_dict_def ledger_entry_dict_def dget_def)
  also have "sum_list \<dots> = 0"
    using assms by (auto simp: allocation_entries_def ledger_entry_dict_def dget_def)
  finally show ?thesis .
qed

lemma posted_keeps_wf:
  assumes wf: "ledger_wf db" and post: "posted_as sha sid oid seller g c p tid db db'"
    and amounts: "0 < g" "0 \<le> c" "0 \<le> p" "g \<le> max_iat_minor" "c + p = g"
  shows "ledger_wf db'"
proof -
  from post obtain t rows where db': "txs db' = txs db @ [t]" "entries db' = entries db @ rows"
    and fresh: "tid \<notin> tx_transaction_id ` set (txs db)" "allocation_key sid \<notin> tx_idempotency_key ` set (txs db)"
    and t: "tx_transaction_id t = tid" "tx_idempotency_key t = allocation_key sid"
    and rows: "map entry_row_dict rows = allocation_entries g c p seller" "sorted (map en_sequence rows)"
      "\<forall>x \<in> set rows. en_transaction_id x = tid"
    unfolding posted_as_def by blast
  have old: "\<forall>e \<in> set (entries db). en_transaction_id e \<noteq> tid"
    using wf fresh(1) unfolding ledger_wf_def list_all_iff by metis
  have te: "transaction_entries db' k = transaction_entries db k" if "k \<noteq> tid" for k
    using transaction_entries_new(1) [OF db'(2) rows(3) that] .
  have new: "transaction_entries db' tid = rows"
    using transaction_entries_new(2) [OF db'(2) rows(3,2) old] .
  have ok: "transaction_ok db' tid"
    using allocation_entries_valid [of g c p seller] amounts by (simp add: transaction_ok_def new rows(1))
  have olds: "transaction_ok db' (tx_transaction_id u)" if "u \<in> set (txs db)" for u
  proof -
    have "tx_transaction_id u \<noteq> tid" using that fresh(1) by auto
    then show ?thesis using te wf that by (simp add: transaction_ok_def ledger_wf_def list_all_iff)
  qed
  show ?thesis
    using wf db' t fresh rows(3) ok olds allocation_rows_signed [OF rows(1) amounts(5)]
    by (auto simp: ledger_wf_def list_all_iff table_simps row_by_None_iff)
qed

lemma ledger_kept:
  assumes "ledger_wf db"
    and "post_settlement_allocation_conn sha uuid now sid oid seller gv cv pv db = (Inr res, db')"
  shows "ledger_wf db'"
  using assms(2)
proof (cases rule: post_cases)
  case (new po g c p)
  then show ?thesis using iat_to_minor_range posted_keeps_wf [OF assms(1) new(9)] by blast
qed (use assms in auto)

text \<open>
  C15: a posting that succeeds keeps the ledger invariant: transaction identifiers and idempotency
  keys stay unique, every entry belongs to a transaction, the entries of every transaction are a
  balanced journal, and the signed sum of all entries stays zero.
\<close>

theorem posting_keeps_ledger:
  assumes "ledger_wf db"
    and "post_settlement_allocation_conn sha uuid now sid oid seller gv cv pv db = (Inr res, db')"
  shows "ledger_wf db'"
  using assms by (rule ledger_kept)

definition empty_pdb :: pdb where
  "empty_pdb = \<lparr> settlements = [], permits = [], accounts = [], txs = [], entries = [] \<rparr>"

definition uuid_of :: "nat \<Rightarrow> string" where
  "uuid_of n = replicate n (CHR ''u'')"

lemma example_amounts:
  "iat_to_minor (PStr ''5'') = Inr 500000000" "iat_to_minor (PStr ''1'') = Inr 100000000"
  "iat_to_minor (PStr ''4'') = Inr 400000000" "iat_to_minor (PStr ''2'') = Inr 200000000"
  "iat_to_minor (PStr ''3'') = Inr 300000000"
  by (simp_all add: dec_eval)

lemma post_example:
  "\<exists>po. fst (post_settlement_allocation_conn (\<lambda>s. s) uuid_of 7 ''s1'' ''o1'' (Some ''w'')
      (PStr ''5'') (PStr ''1'') (PStr ''4'') empty_pdb) = Inr po \<and> po_status po = ''posted''"
  using allocation_entries_valid [of 500000000 100000000 400000000 "Some ''w''"]
  by (simp add: post_settlement_allocation_conn_def build_settlement_allocation_journal_def example_amounts
      max_iat_minor_def sql_insert_def empty_pdb_def allocation_entries_def ensure_account_def account_clash_def
      entry_clash_def entry_row_def ledger_entry_dict_def dget_def py_str_def uuid_of_def py_startswith_def Let_def)

theorem posting_keeps_ledger_witness:
  "ledger_wf (snd (post_settlement_allocation_conn (\<lambda>s. s) uuid_of 7 ''s1'' ''o1'' (Some ''w'')
      (PStr ''5'') (PStr ''1'') (PStr ''4'') empty_pdb))"
proof (rule posting_keeps_ledger [of empty_pdb])
  show "ledger_wf empty_pdb" by (simp add: ledger_wf_def empty_pdb_def)
  show "post_settlement_allocation_conn (\<lambda>s. s) uuid_of 7 ''s1'' ''o1'' (Some ''w'')
      (PStr ''5'') (PStr ''1'') (PStr ''4'') empty_pdb = (Inr (projr (fst (post_settlement_allocation_conn (\<lambda>s. s) uuid_of 7 ''s1'' ''o1'' (Some ''w'')
      (PStr ''5'') (PStr ''1'') (PStr ''4'') empty_pdb))), snd (post_settlement_allocation_conn (\<lambda>s. s) uuid_of 7 ''s1'' ''o1'' (Some ''w'')
      (PStr ''5'') (PStr ''1'') (PStr ''4'') empty_pdb))"
    using post_example by (auto simp: prod_eq_iff)
qed

section \<open>Replays and conflicts\<close>

text \<open>
  Posting the same allocation again, whatever the clock and the draws, whatever order number
  comes with it, answers \<open>already_posted\<close> with the first transaction and changes nothing.
\<close>

theorem posting_replay:
  assumes "post_settlement_allocation_conn sha uuid now sid oid seller gv cv pv db = (Inr res, db1)"
  shows "\<exists>res'. post_settlement_allocation_conn sha uuid' now' sid oid' seller gv cv pv db1 = (Inr res', db1) \<and>
           po_status res' = ''already_posted'' \<and> po_transaction_id res' = po_transaction_id res"
  using assms
proof (cases rule: post_cases)
  case (old t g c p)
  then obtain j where j: "build_settlement_allocation_journal sha sid gv cv pv seller = Inr j"
      "aj_idempotency_key j = allocation_key sid"
      "aj_payload_hash j = canonical_hash sha (allocation_payload sid g c p seller)"
    by (simp add: allocation_journal_decides)
  with old show ?thesis by (simp add: post_settlement_allocation_conn_def)
next
  case (new po g c p)
  then obtain j where j: "build_settlement_allocation_journal sha sid gv cv pv seller = Inr j"
      "aj_idempotency_key j = allocation_key sid"
      "aj_payload_hash j = canonical_hash sha (allocation_payload sid g c p seller)"
    by (simp add: allocation_journal_decides)
  from new(9) obtain t where t: "txs db1 = txs db @ [t]" "allocation_key sid \<notin> tx_idempotency_key ` set (txs db)"
      "tx_idempotency_key t = allocation_key sid" "tx_transaction_id t = po_transaction_id po"
      "tx_payload_hash t = canonical_hash sha (allocation_payload sid g c p seller)"
    unfolding posted_as_def by blast
  then have "row_by tx_idempotency_key (allocation_key sid) (txs db1) = Some t"
    by (simp add: row_by_append row_by_Cons row_by_None_iff [THEN iffD2])
  with j t new(1) show ?thesis by (simp add: post_settlement_allocation_conn_def)
qed simp

theorem posting_replay_witness:
  "\<exists>res'. post_settlement_allocation_conn (\<lambda>s. s) uuid_of 9 ''s1'' ''o2'' (Some ''w'') (PStr ''5'') (PStr ''1'') (PStr ''4'')
       (snd (post_settlement_allocation_conn (\<lambda>s. s) uuid_of 7 ''s1'' ''o1'' (Some ''w'') (PStr ''5'') (PStr ''1'') (PStr ''4'') empty_pdb)) =
     (Inr res', snd (post_settlement_allocation_conn (\<lambda>s. s) uuid_of 7 ''s1'' ''o1'' (Some ''w'') (PStr ''5'') (PStr ''1'') (PStr ''4'') empty_pdb)) \<and>
     po_status res' = ''already_posted'' \<and>
     po_transaction_id res' = po_transaction_id (projr (fst (post_settlement_allocation_conn (\<lambda>s. s) uuid_of 7 ''s1'' ''o1'' (Some ''w'') (PStr ''5'') (PStr ''1'') (PStr ''4'') empty_pdb)))"
  by (rule posting_replay [where oid = "''o1''" and db = empty_pdb and now = 7 and uuid = uuid_of])
     (use post_example in \<open>auto simp: prod_eq_iff\<close>)

text \<open>The payload with its keys in the order in which they are printed.\<close>

definition sorted_payload :: "string \<Rightarrow> int \<Rightarrow> int \<Rightarrow> int \<Rightarrow> string option \<Rightarrow> pydict" where
  "sorted_payload sid g c p seller =
     [(''commission_amount_minor'', PInt c), (''event_type'', PStr ''settlement_allocated''),
      (''gross_amount_minor'', PInt g), (''ledger_version'', PStr ledger_version),
      (''seller_id'', pstr_opt seller), (''seller_payout_amount_minor'', PInt p), (''settlement_id'', PStr sid)]"

lemma payload_text:
  "json_dumps a (PDict (allocation_payload sid g c p seller)) = json_dumps a (PDict (sorted_payload sid g c p seller))"
  by (simp add: allocation_payload_def sorted_payload_def less_list_code less_char_def)

lemma sorted_payload_wf: "json_wf (PDict (sorted_payload sid g c p seller))"
  by (simp add: sorted_payload_def pstr_opt_def less_list_code less_char_def split: option.splits)

lemma payload_text_inject:
  assumes "json_dumps a (PDict (allocation_payload sid g c p seller)) =
           json_dumps a (PDict (allocation_payload sid' g' c' p' seller'))"
  shows "sid = sid' \<and> g = g' \<and> c = c' \<and> p = p' \<and> seller = seller'"
proof -
  have "PDict (sorted_payload sid g c p seller) = PDict (sorted_payload sid' g' c' p' seller')"
    using json_dumps_inject [OF sorted_payload_wf sorted_payload_wf] assms by (simp only: payload_text)
  then show ?thesis by (simp add: sorted_payload_def pstr_opt_def split: option.splits)
qed

text \<open>
  Once an allocation of a settlement is posted, posting other minor amounts or another seller
  under the same settlement is refused as a conflict and leaves the ledger as it is, provided the
  digest does not collide on the two payload texts.
\<close>

theorem posting_conflict:
  assumes first: "post_settlement_allocation_conn sha uuid now sid oid seller gv cv pv db = (Inr res, db1)"
    and old: "iat_to_minor gv = Inr g" "iat_to_minor cv = Inr c" "iat_to_minor pv = Inr p"
    and new: "iat_to_minor gv' = Inr g'" "iat_to_minor cv' = Inr c'" "iat_to_minor pv' = Inr p'"
      "0 < g'" "c' + p' = g'"
    and differ: "(g', c', p', seller') \<noteq> (g, c, p, seller)"
    and no_collision: "canonical_hash sha (allocation_payload sid g c p seller) =
        canonical_hash sha (allocation_payload sid g' c' p' seller') \<Longrightarrow>
      json_dumps True (PDict (allocation_payload sid g c p seller)) =
        json_dumps True (PDict (allocation_payload sid g' c' p' seller'))"
  shows "post_settlement_allocation_conn sha uuid' now' sid oid' seller' gv' cv' pv' db1 =
    (Inl (LedgerFailure (LedgerValidation ''ledger_idempotency_payload_conflict'')), db1)"
proof -
  have "\<exists>t. row_by tx_idempotency_key (allocation_key sid) (txs db1) = Some t \<and>
      tx_payload_hash t = canonical_hash sha (allocation_payload sid g c p seller)"
    using first
  proof (cases rule: post_cases)
    case (new po g1 c1 p1)
    then obtain t where "txs db1 = txs db @ [t]" "allocation_key sid \<notin> tx_idempotency_key ` set (txs db)"
        "tx_idempotency_key t = allocation_key sid"
        "tx_payload_hash t = canonical_hash sha (allocation_payload sid g c p seller)"
      using old unfolding posted_as_def by auto
    then show ?thesis by (simp add: row_by_append row_by_Cons row_by_None_iff [THEN iffD2])
  qed (use old in auto)
  then obtain t where t: "row_by tx_idempotency_key (allocation_key sid) (txs db1) = Some t"
      "tx_payload_hash t = canonical_hash sha (allocation_payload sid g c p seller)" by blast
  from new obtain j where j: "build_settlement_allocation_journal sha sid gv' cv' pv' seller' = Inr j"
      "aj_idempotency_key j = allocation_key sid"
      "aj_payload_hash j = canonical_hash sha (allocation_payload sid g' c' p' seller')"
    by (simp add: allocation_journal_decides)
  have "tx_payload_hash t \<noteq> aj_payload_hash j"
    using no_collision payload_text_inject [of True sid g c p seller sid g' c' p' seller'] differ t(2) j(3)
    by auto
  with t j show ?thesis by (simp add: post_settlement_allocation_conn_def)
qed

theorem posting_conflict_witness:
  "post_settlement_allocation_conn (\<lambda>s. s) uuid_of 9 ''s1'' ''o1'' (Some ''w'') (PStr ''5'') (PStr ''2'') (PStr ''3'')
     (snd (post_settlement_allocation_conn (\<lambda>s. s) uuid_of 7 ''s1'' ''o1'' (Some ''w'') (PStr ''5'') (PStr ''1'') (PStr ''4'') empty_pdb)) =
   (Inl (LedgerFailure (LedgerValidation ''ledger_idempotency_payload_conflict'')),
    snd (post_settlement_allocation_conn (\<lambda>s. s) uuid_of 7 ''s1'' ''o1'' (Some ''w'') (PStr ''5'') (PStr ''1'') (PStr ''4'') empty_pdb))"
proof (rule posting_conflict [where db = empty_pdb and g = 500000000 and c = 100000000 and p = 400000000
     and g' = 500000000 and c' = 200000000 and p' = 300000000])
  show "post_settlement_allocation_conn (\<lambda>s. s) uuid_of 7 ''s1'' ''o1'' (Some ''w'') (PStr ''5'') (PStr ''1'') (PStr ''4'') empty_pdb =
    (Inr (projr (fst (post_settlement_allocation_conn (\<lambda>s. s) uuid_of 7 ''s1'' ''o1'' (Some ''w'') (PStr ''5'') (PStr ''1'') (PStr ''4'') empty_pdb))),
     snd (post_settlement_allocation_conn (\<lambda>s. s) uuid_of 7 ''s1'' ''o1'' (Some ''w'') (PStr ''5'') (PStr ''1'') (PStr ''4'') empty_pdb))"
    using post_example by (auto simp: prod_eq_iff)
qed (simp_all add: example_amounts canonical_hash_def del: json_dumps.simps)

section \<open>What reconciliation decides\<close>

definition tx_clean :: "pdb \<Rightarrow> ledger_tx \<Rightarrow> bool" where
  "tx_clean db t =
     (transaction_ok db (tx_transaction_id t) \<and>
      (tx_event_type t = ''settlement_allocated'' \<longrightarrow>
       reconcile_settlement db t (transaction_entries db (tx_transaction_id t)) = Inr None))"

definition ledger_clean :: "pdb \<Rightarrow> bool" where
  "ledger_clean db = (list_all (tx_clean db) (txs db) \<and> list_all (has_allocation db) (settlements db))"

lemma reconcile_loop_clean:
  "list_all (tx_clean db) ts \<Longrightarrow> \<exists>k. reconcile_loop db ts is n = Inr (is, k)"
  by (induction ts arbitrary: n)
     (auto simp: tx_clean_def transaction_ok_def Let_def split: sum.splits)

lemma reconcile_loop_grows:
  "reconcile_loop db ts is n = Inr (is', k) \<Longrightarrow>
   (\<exists>new. is' = is @ new) \<and> (is' = [] \<longrightarrow> list_all (tx_clean db) ts)"
proof (induction ts arbitrary: "is" n)
  case (Cons t ts)
  let ?es = "transaction_entries db (tx_transaction_id t)"
  show ?case
  proof (cases "validate_journal (map entry_row_dict ?es)")
    case (Inl e)
    with Cons show ?thesis by (fastforce simp: Let_def)
  next
    case (Inr j)
    then have ok: "transaction_ok db (tx_transaction_id t)" by (simp add: transaction_ok_def)
    show ?thesis
    proof (cases "tx_event_type t = ''settlement_allocated''")
      case True
      with Cons.prems Inr obtain i where i: "reconcile_settlement db t ?es = Inr i"
        and rest: "reconcile_loop db ts (case i of None \<Rightarrow> is | Some x \<Rightarrow> is @ [x]) (n + length ?es) = Inr (is', k)"
        by (auto simp: Let_def sum_bind_Inr)
      from Cons.IH [OF rest] show ?thesis using i ok by (auto simp: tx_clean_def split: option.splits)
    next
      case False
      with Cons Inr ok show ?thesis by (auto simp: Let_def tx_clean_def)
    qed
  qed
qed simp

lemma reconcile_iff_clean:
  assumes "list_all (\<lambda>t. tx_status t = ''posted'') (txs db)"
    and "length (txs db) \<le> bounded_limit limit" and "length (settlements db) \<le> bounded_limit limit"
  shows "(\<exists>r. reconcile_ledger limit db = Inr r \<and> rc_healthy r \<and> rc_status r = ''reconciled'') \<longleftrightarrow> ledger_clean db"
proof -
  let ?ts = "sql_order_limit (\<lambda>t. - tx_created_at t) (bounded_limit limit) (filter (\<lambda>t. tx_status t = ''posted'') (txs db))"
  let ?ms = "sql_order_limit (\<lambda>s. - st_created_at s) (bounded_limit limit) (filter (\<lambda>s. \<not> has_allocation db s) (settlements db))"
  have posted: "filter (\<lambda>t. tx_status t = ''posted'') (txs db) = txs db"
    using assms(1) by (simp add: list_all_iff)
  have ts: "set ?ts = set (txs db)" using assms(2) by (simp only: posted set_sql_order_limit_all)
  have "set ?ms = set (filter (\<lambda>s. \<not> has_allocation db s) (settlements db))"
    by (rule set_sql_order_limit_all) (use assms(3) length_filter_le le_trans in blast)
  then have ms: "?ms = [] \<longleftrightarrow> list_all (has_allocation db) (settlements db)"
    by (metis (no_types, lifting) filter_False filter_empty_conv list_all_iff set_empty)
  have cleans: "list_all (tx_clean db) ?ts = list_all (tx_clean db) (txs db)" by (simp only: list_all_iff ts)
  show ?thesis
  proof
    assume "\<exists>r. reconcile_ledger limit db = Inr r \<and> rc_healthy r \<and> rc_status r = ''reconciled''"
    then obtain is0 k where loop: "reconcile_loop db ?ts [] 0 = Inr (is0, k)" and "is0 = []" "?ms = []"
      by (auto simp: reconcile_ledger_def Let_def sum_bind_Inr)
    with reconcile_loop_grows [OF loop] cleans ms show "ledger_clean db" by (simp add: ledger_clean_def)
  next
    assume "ledger_clean db"
    with cleans ms have "list_all (tx_clean db) ?ts" "?ms = []" by (simp_all add: ledger_clean_def)
    with reconcile_loop_clean [of db ?ts "[]" 0]
    show "\<exists>r. reconcile_ledger limit db = Inr r \<and> rc_healthy r \<and> rc_status r = ''reconciled''"
      by (auto simp: reconcile_ledger_def Let_def)
  qed
qed

lemma reconcile_clean:
  assumes "list_all (\<lambda>t. tx_status t = ''posted'') (txs db)"
    and "length (txs db) \<le> bounded_limit limit" and "length (settlements db) \<le> bounded_limit limit"
    and "ledger_clean db"
  shows "\<exists>r. reconcile_ledger limit db = Inr r \<and> rc_healthy r"
  using reconcile_iff_clean [OF assms(1-3)] assms(4) by blast

text \<open>
  With a limit that covers both tables, reconciliation reports a healthy ledger exactly when
  every transaction is a balanced journal, every allocation shows the gross, commission and payout
  of its settlement, and every settlement has an allocation. A clean ledger always gets its report.
\<close>

theorem reconcile_decides:
  assumes "list_all (\<lambda>t. tx_status t = ''posted'') (txs db)"
    and "length (txs db) \<le> bounded_limit limit" and "length (settlements db) \<le> bounded_limit limit"
  shows "(\<exists>r. reconcile_ledger limit db = Inr r \<and> rc_healthy r \<and> rc_status r = ''reconciled'') \<longleftrightarrow> ledger_clean db"
  using assms by (rule reconcile_iff_clean)

theorem reconcile_decides_witness:
  "(\<exists>r. reconcile_ledger 10 empty_pdb = Inr r \<and> rc_healthy r \<and> rc_status r = ''reconciled'') \<longleftrightarrow> ledger_clean empty_pdb"
  by (rule reconcile_decides) (simp_all add: empty_pdb_def)

lemma payable_prefix:
  "py_startswith (''iat:seller_payable:'' @ x) ''iat:seller_payable:''"
  "\<not> py_startswith ''iat:protocol_commission_revenue'' ''iat:seller_payable:''"
  by (simp_all add: py_startswith_def)

lemma reconcile_allocation:
  assumes s: "row_by st_settlement_id (tx_settlement_id t) (settlements db) = Some s"
    and minors: "st_gross_minor s = Some g" "st_commission_minor s = Some c" "st_payout_minor s = Some p"
    and rows: "map entry_row_dict rows = allocation_entries g c p seller"
  shows "reconcile_settlement db t rows = Inr None"
proof -
  let ?acc = "''iat:seller_payable:'' @ seller_or_unknown seller"
  have fields: "map (\<lambda>r. (en_account_id r, en_direction r, en_amount_minor r)) rows =
      [(''iat:settlement_clearing'', ''debit'', g)] @
      (if p \<noteq> 0 then [(?acc, ''credit'', p)] else []) @
      (if c \<noteq> 0 then [(''iat:protocol_commission_revenue'', ''credit'', c)] else [])"
  proof -
    have "map (\<lambda>r. (en_account_id r, en_direction r, en_amount_minor r)) rows =
        map (\<lambda>d. (py_str (dget d ''account_id''), py_str (dget d ''direction''),
               (case dget d ''amount_minor'' of PInt a \<Rightarrow> a | _ \<Rightarrow> 0))) (map entry_row_dict rows)"
      by (induction rows) (auto simp: entry_row_dict_def ledger_entry_dict_def dget_def py_str_def)
    then show ?thesis
      by (simp add: rows allocation_entries_def ledger_entry_dict_def dget_def py_str_def)
  qed
  have debits: "sum_list (map en_amount_minor (filter (\<lambda>e. en_direction e = ''debit'') es)) =
      sum_list (map (\<lambda>(a, d, m). m) (filter (\<lambda>(a, d, m). d = ''debit'') (map (\<lambda>r. (en_account_id r, en_direction r, en_amount_minor r)) es)))" for es
    by (induction es) auto
  have credits: "fold (\<lambda>e m. if en_direction e = ''credit'' then AList.update (en_account_id e) (en_amount_minor e) m else m) es m0 =
      fold (\<lambda>(a, d, m) acc. if d = ''credit'' then AList.update a m acc else acc)
        (map (\<lambda>r. (en_account_id r, en_direction r, en_amount_minor r)) es) m0" for es m0
    by (induction es arbitrary: m0) auto
  show ?thesis
    unfolding reconcile_settlement_def credit_map_def debits credits fields s expected_minor_def Let_def
    by (simp add: minors payable_prefix [simplified])
qed

lemma posted_keeps_clean:
  assumes wf: "ledger_wf db" and post: "posted_as sha sid oid seller g c p tid db db'"
    and amounts: "0 < g" "0 \<le> c" "0 \<le> p" "g \<le> max_iat_minor" "c + p = g"
    and s: "row_by st_settlement_id sid (settlements db) = Some s"
      "st_gross_minor s = Some g" "st_commission_minor s = Some c" "st_payout_minor s = Some p"
    and clean: "list_all (tx_clean db) (txs db)"
  shows "list_all (tx_clean db') (txs db')"
proof -
  from post obtain t rows where db': "txs db' = txs db @ [t]" "entries db' = entries db @ rows"
      "settlements db' = settlements db"
    and fresh: "tid \<notin> tx_transaction_id ` set (txs db)"
    and t: "tx_transaction_id t = tid" "tx_settlement_id t = sid"
    and rows: "map entry_row_dict rows = allocation_entries g c p seller" "sorted (map en_sequence rows)"
      "\<forall>x \<in> set rows. en_transaction_id x = tid"
    unfolding posted_as_def by blast
  have old: "\<forall>e \<in> set (entries db). en_transaction_id e \<noteq> tid"
    using wf fresh unfolding ledger_wf_def list_all_iff by metis
  have new: "transaction_entries db' tid = rows"
    using transaction_entries_new(2) [OF db'(2) rows(3,2) old] .
  have "reconcile_settlement db' t rows = Inr None"
    using reconcile_allocation [of t db' s g c p rows seller] s rows(1) t(2) db'(3) by simp
  moreover have "transaction_ok db' tid"
    using allocation_entries_valid [of g c p seller] amounts by (simp add: transaction_ok_def new rows(1))
  moreover have "tx_clean db' u" if "u \<in> set (txs db)" for u
  proof -
    have "tx_transaction_id u \<noteq> tid" using that fresh by auto
    then have "transaction_entries db' (tx_transaction_id u) = transaction_entries db (tx_transaction_id u)"
      by (rule transaction_entries_new(1) [OF db'(2) rows(3)])
    then show ?thesis using that clean db'(3)
      by (simp add: tx_clean_def transaction_ok_def list_all_iff reconcile_settlement_def)
  qed
  ultimately show ?thesis using db'(1) t new by (simp add: list_all_iff tx_clean_def)
qed

section \<open>Backfill is all or nothing\<close>

lemma backfill_one_errors:
  "bf_errors (backfill_one sha uuid now dry s b) = [] \<Longrightarrow> bf_errors b = []"
  by (auto simp: backfill_one_def Let_def split: sum.splits prod.splits if_splits)

lemma backfill_loop_errors:
  "bf_errors (backfill_loop sha uuid now dry i ss b) = [] \<Longrightarrow> bf_errors b = []"
  by (induction ss arbitrary: i b) (auto dest: backfill_one_errors)

lemma backfill_one_posts:
  assumes "bf_errors (backfill_one sha uuid now False s b) = []"
  shows "has_allocation (bf_db (backfill_one sha uuid now False s b)) s \<or>
     row_by tx_idempotency_key (allocation_key (st_settlement_id s)) (txs (bf_db b)) \<noteq> None"
    and "set (txs (bf_db b)) \<subseteq> set (txs (bf_db (backfill_one sha uuid now False s b)))"
    and "settlements (bf_db (backfill_one sha uuid now False s b)) = settlements (bf_db b)"
    and "ledger_wf (bf_db b) \<Longrightarrow> ledger_wf (bf_db (backfill_one sha uuid now False s b))"
    and "length (bf_posted (backfill_one sha uuid now False s b)) = Suc (length (bf_posted b))"
proof -
  obtain j where j: "build_settlement_allocation_journal sha (st_settlement_id s) (st_gross_amount_iat s)
       (st_commission_amount_iat s) (st_payout_amount_iat s) (st_winner_id s) = Inr j"
    using assms by (auto simp: backfill_one_def Let_def split: sum.splits)
  obtain res db' where post: "post_settlement_allocation_conn sha uuid now (st_settlement_id s) (st_order_id s)
     (st_winner_id s) (st_gross_amount_iat s) (st_commission_amount_iat s) (st_payout_amount_iat s) (bf_db b) = (res, db')"
    by (cases "post_settlement_allocation_conn sha uuid now (st_settlement_id s) (st_order_id s)
     (st_winner_id s) (st_gross_amount_iat s) (st_commission_amount_iat s) (st_payout_amount_iat s) (bf_db b)")
  with assms j obtain po where res: "res = Inr po" and db: "bf_db (backfill_one sha uuid now False s b) = db'"
    and "length (bf_posted (backfill_one sha uuid now False s b)) = Suc (length (bf_posted b))"
    by (cases res) (auto simp: backfill_one_def Let_def)
  then show "length (bf_posted (backfill_one sha uuid now False s b)) = Suc (length (bf_posted b))" by simp
  show "ledger_wf (bf_db (backfill_one sha uuid now False s b))" if "ledger_wf (bf_db b)"
    unfolding db by (rule ledger_kept [OF that post [unfolded res]])
  from post show "has_allocation (bf_db (backfill_one sha uuid now False s b)) s \<or>
       row_by tx_idempotency_key (allocation_key (st_settlement_id s)) (txs (bf_db b)) \<noteq> None"
    and "set (txs (bf_db b)) \<subseteq> set (txs (bf_db (backfill_one sha uuid now False s b)))"
    and "settlements (bf_db (backfill_one sha uuid now False s b)) = settlements (bf_db b)"
    unfolding db by (cases rule: post_cases; auto simp: res posted_as_def has_allocation_def)+
qed

text \<open>
  A backfill is all or nothing. A dry run, and a run with any error, leaves the database as it
  was and reports no posting; a run without error reports one posting per candidate and keeps the
  ledger invariant and the settlements.
\<close>

theorem backfill_all_or_nothing:
  assumes wf: "ledger_wf db"
    and run: "backfill_settlement_allocations sha uuid now dry_run limit db = (r, db')"
  shows "(if dry_run \<or> br_errors r \<noteq> [] then db' = db \<and> br_posted r = []
          else br_status r = ''backfill_completed'' \<and> length (br_posted r) = br_candidate_count r \<and>
               ledger_wf db' \<and> settlements db' = settlements db)"
proof -
  have loop: "bf_errors (backfill_loop sha uuid now False i ss b) = [] \<Longrightarrow>
      (ledger_wf (bf_db b) \<longrightarrow> ledger_wf (bf_db (backfill_loop sha uuid now False i ss b))) \<and>
      settlements (bf_db (backfill_loop sha uuid now False i ss b)) = settlements (bf_db b) \<and>
      length (bf_posted (backfill_loop sha uuid now False i ss b)) = length (bf_posted b) + length ss" for i ss b
  proof (induction ss arbitrary: i b)
    case (Cons s ss)
    let ?b = "backfill_one sha (uuid i) now False s b"
    from Cons.prems have "bf_errors ?b = []" using backfill_loop_errors by fastforce
    note one = backfill_one_posts [OF this]
    from Cons.IH [of "Suc i" ?b] Cons.prems one show ?case by simp
  qed simp
  show ?thesis
  proof (cases "dry_run \<or> br_errors r \<noteq> []")
    case True
    with run show ?thesis by (auto simp: backfill_settlement_allocations_def Let_def)
  next
    case False
    with run wf loop [of 0 "backfill_candidates limit db" "\<lparr> bf_db = db, bf_planned = [], bf_posted = [], bf_errors = [] \<rparr>"]
    show ?thesis by (auto simp: backfill_settlement_allocations_def Let_def)
  qed
qed

theorem backfill_all_or_nothing_witness:
  "case backfill_settlement_allocations (\<lambda>s. s) (\<lambda>i. uuid_of) 7 False 10 sample_pdb of (r, db') \<Rightarrow>
     (if False \<or> br_errors r \<noteq> [] then db' = sample_pdb \<and> br_posted r = []
      else br_status r = ''backfill_completed'' \<and> length (br_posted r) = br_candidate_count r \<and>
           ledger_wf db' \<and> settlements db' = settlements sample_pdb)"
proof -
  have "ledger_wf sample_pdb" by (simp add: ledger_wf_def sample_pdb_def)
  then show ?thesis
    by (cases "backfill_settlement_allocations (\<lambda>s. s) (\<lambda>i. uuid_of) 7 False 10 sample_pdb")
       (use backfill_all_or_nothing in fastforce)
qed

end
