(* ===== verification/Settlements.thy ===== *)
theory Settlements
  imports LedgerDb
begin

text \<open>
  Settlement records (\<open>iat/api/db.py\<close>, from \<open>record_settlement_db\<close> to \<open>update_settlement_payload_db\<close>):
  recording with the ledger posting in one transaction, the status machine, the execution guard that
  allows one broadcast per settlement, wallet recovery and payload patches.

  An operation that first reads rows and then updates them takes two databases: \<open>snap\<close> is what its
  \<open>SELECT\<close>s see, \<open>db\<close> is what its \<open>UPDATE\<close>s meet, so that another session may have written in between.
  With \<open>snap = db\<close> it is the operation run alone. Result dicts are kept as the dicts the code returns.
\<close>

section \<open>Recording a settlement\<close>

datatype record_result =
    RecordSkipped
  | SettlementRecorded string string posting
  | SettlementAlreadyRecorded string settlement

text \<open>\<open>fl\<close> is \<open>float(..)\<close>, \<open>None\<close> where it raises; \<open>sid\<close> is the new UUID.\<close>

definition record_settlement_db ::
  "(string \<Rightarrow> string) \<Rightarrow> (pyval \<Rightarrow> pyval option) \<Rightarrow> (nat \<Rightarrow> string) \<Rightarrow> string \<Rightarrow> int \<Rightarrow> string \<Rightarrow> pyval \<Rightarrow> pdb \<Rightarrow>
   (db_error + record_result) \<times> pdb" where
  "record_settlement_db sha fl uuid sid now order_id settlement_arg db =
     (if order_id = [] \<or> \<not> is_dict settlement_arg then (Inr RecordSkipped, db)
      else
        let settlement = as_dict settlement_arg;
            execution = as_dict (dget settlement ''settlement_execution'');
            gross_amount = py_or (dget settlement ''gross_amount_iat'') (PInt 0);
            commission_amount = py_or (dget settlement ''protocol_commission_amount_iat'') (PInt 0);
            payout_amount = py_or (dget settlement ''seller_payout_amount_iat'') (PInt 0);
            recover = (\<lambda>e. case get_settlement_by_order_id_db db order_id of
                             Some existing \<Rightarrow> (Inr (SettlementAlreadyRecorded order_id existing), db)
                           | None \<Rightarrow> (Inl e, db))
        in case iat_to_minor gross_amount of Inl e \<Rightarrow> (Inl (LedgerFailure e), db) | Inr gross_minor \<Rightarrow>
           case iat_to_minor commission_amount of Inl e \<Rightarrow> (Inl (LedgerFailure e), db) | Inr commission_minor \<Rightarrow>
           case iat_to_minor payout_amount of Inl e \<Rightarrow> (Inl (LedgerFailure e), db) | Inr payout_minor \<Rightarrow>
           case (fl gross_amount, fl (py_or (dget settlement ''protocol_commission_rate'') (PInt 0)),
                 fl commission_amount, fl payout_amount) of
             (Some gross_real, Some rate_real, Some commission_real, Some payout_real) \<Rightarrow>
               let row = \<lparr> st_settlement_id = sid, st_order_id = order_id,
                           st_winner_id = text_col (dget settlement ''winner_id''),
                           st_winner_wallet = text_col (dget settlement ''winner_wallet''),
                           st_treasury_wallet = text_col (py_or (dget settlement ''protocol_treasury_wallet'')
                                                                (dget execution ''treasury_wallet'')),
                           st_gross_amount_iat = gross_real, st_commission_rate = rate_real,
                           st_commission_amount_iat = commission_real, st_payout_amount_iat = payout_real,
                           st_settlement_status = text_col (py_or (dget execution ''status'')
                             (py_or (dget settlement ''winner_payment_status'') (PStr ''created''))),
                           st_winner_payment_status = text_col (dget settlement ''winner_payment_status''),
                           st_onchain_enabled = truthy (dget execution ''onchain_settlement_enabled''),
                           st_commission_tx = text_col (dget execution ''commission_tx_signature''),
                           st_payout_tx = text_col (dget execution ''seller_payout_tx_signature''),
                           st_payload = PDict settlement, st_created_at = now, st_updated_at = now,
                           st_claim_status = Some ''unclaimed'', st_claim_token = None,
                           st_claimed_at = None, st_broadcast_at = None, st_last_error = None,
                           st_gross_minor = Some gross_minor, st_commission_minor = Some commission_minor,
                           st_payout_minor = Some payout_minor \<rparr>
               in (case sql_insert settlement_clash row (settlements db) of
                     None \<Rightarrow> recover IntegrityError
                   | Some t \<Rightarrow>
                       (case post_settlement_allocation_conn sha uuid now sid order_id
                               (text_col (dget settlement ''winner_id'')) gross_amount commission_amount
                               payout_amount (db \<lparr> settlements := t \<rparr>) of
                          (Inl e, _) \<Rightarrow> recover e
                        | (Inr ledger, db') \<Rightarrow> (Inr (SettlementRecorded sid order_id ledger), db')))
           | _ \<Rightarrow> recover ConversionError)"

section \<open>The status machine\<close>

definition settlement_allowed_transitions :: "(string \<times> string list) list" where
  "settlement_allowed_transitions =
     [(''created'', [''foundation_review'', ''authorized'', ''blocked'', ''dry_run_ready'',
                     ''direct_payment_mode_no_escrow_release'']),
      (''foundation_review'', [''risk_review'', ''manual_review'', ''blocked'']),
      (''risk_review'', [''policy_review'', ''manual_review'', ''blocked'']),
      (''policy_review'', [''authorized'', ''manual_review'', ''blocked'']),
      (''manual_review'', [''authorized'', ''blocked'']),
      (''dry_run_ready'', [''authorized'', ''ready_for_release'', ''blocked'']),
      (''authorized'', [''ready_for_release'', ''manual_review'', ''blocked'']),
      (''ready_for_release'', [''release_submitted'', ''blocked'']),
      (''release_submitted'', [''release_confirmed'', ''release_failed'']),
      (''release_confirmed'', [''settled'']),
      (''release_failed'', [''blocked'', ''ready_for_release'']),
      (''blocked'', [''foundation_review'', ''authorized'']),
      (''blocked_invalid_winner_wallet'', [''foundation_review'', ''authorized'', ''blocked'']),
      (''blocked_no_winner_wallet'', [''foundation_review'', ''authorized'', ''blocked'']),
      (''blocked_invalid_treasury_wallet'', [''foundation_review'', ''authorized'', ''blocked'']),
      (''direct_payment_mode_no_escrow_release'', [''blocked'']),
      (''settled'', [])]"

definition allowed_next :: "string \<Rightarrow> string list" where
  "allowed_next current =
     (case map_of settlement_allowed_transitions current of None \<Rightarrow> [] | Some ns \<Rightarrow> ns)"

definition or_text :: "string option \<Rightarrow> string \<Rightarrow> string" where
  "or_text v d = (case v of None \<Rightarrow> d | Some s \<Rightarrow> if s = [] then d else s)"

definition validate_settlement_transition :: "string \<Rightarrow> string \<Rightarrow> pydict" where
  "validate_settlement_transition current next_status =
     (let current_status = or_text (Some current) ''created''; allowed = allowed_next current_status;
          ok = (next_status \<in> set allowed)
      in [(''status'', PStr (if ok then ''ok'' else ''rejected'')), (''current_status'', PStr current_status),
          (''next_status'', PStr next_status), (''allowed_next_statuses'', PList (map PStr allowed)),
          (''transition_allowed'', PBool ok)])"

definition as_list :: "pyval \<Rightarrow> pyval list" where
  "as_list v = (case v of PList xs \<Rightarrow> xs | _ \<Rightarrow> [])"

definition coalesce :: "'a option \<Rightarrow> 'a option \<Rightarrow> 'a option" where
  "coalesce a b = (case a of None \<Rightarrow> b | Some _ \<Rightarrow> a)"

definition some_text :: "string option \<Rightarrow> bool" where
  "some_text v = (v \<noteq> None \<and> v \<noteq> Some [])"

definition transition_event ::
  "string \<Rightarrow> string \<Rightarrow> string \<Rightarrow> int \<Rightarrow> string option \<Rightarrow> string option \<Rightarrow> pyval \<Rightarrow> pydict" where
  "transition_event current next_status reason now commission_tx payout_tx metadata =
     [(''from'', PStr current), (''to'', PStr next_status), (''reason'', PStr reason), (''timestamp'', PInt now),
      (''transition_allowed'', PBool True), (''commission_tx_signature_present'', PBool (some_text commission_tx)),
      (''seller_payout_tx_signature_present'', PBool (some_text payout_tx))] @
     (if is_dict metadata then [(''transition_metadata'', metadata)] else [])"

definition add_transition :: "pydict \<Rightarrow> pydict \<Rightarrow> pydict" where
  "add_transition payload event =
     (let history = as_list (dget payload ''state_history'') @ [PDict event] in
      dset (dset (dset payload ''state_history'' (PList history)) ''last_state_transition'' (PDict event))
        ''state_machine_version'' (PStr ''settlement_state_machine_v2''))"

definition update_settlement_status_db ::
  "int \<Rightarrow> string \<Rightarrow> string \<Rightarrow> string \<Rightarrow> string option \<Rightarrow> string option \<Rightarrow> pyval \<Rightarrow> pdb \<Rightarrow> pdb \<Rightarrow> pydict \<times> pdb" where
  "update_settlement_status_db now sid next_status reason commission_tx payout_tx metadata snap db =
     (if sid = [] \<or> next_status = []
      then ([(''status'', PStr ''error''), (''message'', PStr ''settlement_id_and_next_status_required'')], db)
      else (case find_settlement sid snap of
              None \<Rightarrow> ([(''status'', PStr ''not_found''), (''settlement_id'', PStr sid)], db)
            | Some item \<Rightarrow>
                let current = or_text (st_settlement_status item) ''created'';
                    transition = validate_settlement_transition current next_status
                in if \<not> truthy (dget transition ''transition_allowed'')
                   then ([(''status'', PStr ''transition_rejected''), (''settlement_id'', PStr sid),
                          (''transition'', PDict transition), (''reason'', PStr reason)], db)
                   else
                     let event = transition_event current next_status reason now commission_tx payout_tx metadata;
                         payload = add_transition (as_dict (st_payload item)) event;
                         (t, n) = sql_update
                           (\<lambda>r. st_settlement_id r = sid \<and> st_settlement_status r = Some current)
                           (\<lambda>r. r \<lparr> st_settlement_status := Some next_status,
                                    st_commission_tx := coalesce commission_tx (st_commission_tx r),
                                    st_payout_tx := coalesce payout_tx (st_payout_tx r),
                                    st_payload := PDict payload, st_updated_at := now \<rparr>)
                           (settlements db)
                     in if n \<noteq> 1
                        then ([(''status'', PStr ''transition_conflict''), (''settlement_id'', PStr sid),
                               (''previous_status'', PStr current), (''next_status'', PStr next_status),
                               (''reason'', PStr ''settlement_state_changed_concurrently'')], db)
                        else ([(''status'', PStr ''settlement_status_updated''), (''settlement_id'', PStr sid),
                               (''previous_status'', PStr current), (''next_status'', PStr next_status),
                               (''transition'', PDict transition), (''reason'', PStr reason)],
                              db \<lparr> settlements := t \<rparr>)))"

section \<open>Wallet recovery\<close>

definition wallet_recoverable :: "string list" where
  "wallet_recoverable =
     [''blocked_invalid_winner_wallet'', ''blocked_no_winner_wallet'', ''blocked_invalid_treasury_wallet'',
      ''manual_review'']"

definition recovery_event_dict ::
  "settlement \<Rightarrow> string \<Rightarrow> pyval \<Rightarrow> string \<Rightarrow> string \<Rightarrow> pyval \<Rightarrow> int \<Rightarrow> pydict" where
  "recovery_event_dict item current winner_id winner_wallet treasury_wallet metadata now =
     [(''recovery_type'', PStr ''wallet_configuration_recovery''), (''previous_status'', PStr current),
      (''previous_winner_id'', pstr_opt (st_winner_id item)),
      (''previous_winner_wallet'', pstr_opt (st_winner_wallet item)),
      (''previous_treasury_wallet'', pstr_opt (st_treasury_wallet item)),
      (''resolved_winner_id'', winner_id), (''resolved_winner_wallet'', PStr winner_wallet),
      (''resolved_treasury_wallet'', PStr treasury_wallet), (''recovery_metadata'', py_or metadata (PDict [])),
      (''recovered_at'', PInt now)]"

definition recovered_row ::
  "int \<Rightarrow> pyval \<Rightarrow> string \<Rightarrow> string \<Rightarrow> string \<Rightarrow> pydict \<Rightarrow> settlement \<Rightarrow> settlement" where
  "recovered_row now winner_id winner_wallet treasury_wallet next_status payload r =
     r \<lparr> st_winner_id := text_col winner_id, st_winner_wallet := Some winner_wallet,
         st_treasury_wallet := Some treasury_wallet,
         st_winner_payment_status := Some
           (if next_status = ''authorized'' then ''wallet_configuration_recovered''
            else ''wallet_configuration_recovered_manual_review_required''),
         st_payload := PDict payload, st_updated_at := now \<rparr>"

definition recovery_transition ::
  "int \<Rightarrow> string \<Rightarrow> string \<Rightarrow> string \<Rightarrow> string \<Rightarrow> string \<Rightarrow> pdb \<Rightarrow> pydict \<times> pdb" where
  "recovery_transition now sid current next_status winner_wallet treasury_wallet db =
     (if current = next_status
      then ([(''status'', PStr ''settlement_status_unchanged''), (''settlement_id'', PStr sid),
             (''previous_status'', PStr current), (''next_status'', PStr next_status),
             (''reason'', PStr ''wallet_configuration_recovered_review_hold_preserved'')], db)
      else update_settlement_status_db now sid next_status
             (if next_status = ''authorized'' then ''foundation_authorized_wallet_configuration_recovery''
              else ''wallet_configuration_recovered_pending_manual_review'')
             None None
             (PDict [(''recovery_engine'', PStr ''settlement_wallet_recovery_v1''),
                     (''previous_status'', PStr current), (''winner_wallet'', PStr winner_wallet),
                     (''treasury_wallet'', PStr treasury_wallet)])
             db db)"

definition recover_settlement_wallet_configuration_db ::
  "int \<Rightarrow> string \<Rightarrow> pyval \<Rightarrow> string \<Rightarrow> string \<Rightarrow> pyval \<Rightarrow> string \<Rightarrow> pdb \<Rightarrow> pdb \<Rightarrow> pydict \<times> pdb" where
  "recover_settlement_wallet_configuration_db now sid winner_id winner_wallet treasury_wallet metadata
     next_status snap db =
     (if sid = [] then ([(''status'', PStr ''error''), (''reason'', PStr ''settlement_id_required'')], db)
      else if winner_wallet = [] \<or> treasury_wallet = []
        then ([(''status'', PStr ''error''), (''reason'', PStr ''resolved_wallets_required'')], db)
      else if next_status \<noteq> ''authorized'' \<and> next_status \<noteq> ''manual_review''
        then ([(''status'', PStr ''error''), (''reason'', PStr ''invalid_wallet_recovery_next_status''),
              (''allowed_next_statuses'', PList [PStr ''authorized'', PStr ''manual_review''])], db)
      else (case get_settlement_by_id_db snap sid of
              None \<Rightarrow> ([(''status'', PStr ''not_found''), (''settlement_id'', PStr sid)], db)
            | Some item \<Rightarrow>
                let current = or_text (st_settlement_status item) ''created'' in
                if current \<notin> set wallet_recoverable
                then ([(''status'', PStr ''recovery_rejected''),
                       (''reason'', PStr ''settlement_status_not_recoverable''),
                       (''settlement_id'', PStr sid), (''current_status'', PStr current),
                       (''recoverable_statuses'',
                          PList (map PStr [''blocked_invalid_treasury_wallet'', ''blocked_invalid_winner_wallet'',
                                           ''blocked_no_winner_wallet'', ''manual_review'']))], db)
                else
                  let payload = as_dict (st_payload item);
                      event = PDict (recovery_event_dict item current winner_id winner_wallet treasury_wallet metadata now);
                      events = as_list (dget payload ''recovery_events'') @ [event];
                      payload' = dset (dset payload ''recovery_events'' (PList events)) ''latest_recovery'' event;
                      db1 = db \<lparr> settlements := fst (sql_update (\<lambda>r. st_settlement_id r = sid)
                                (recovered_row now winner_id winner_wallet treasury_wallet next_status payload')
                                (settlements db)) \<rparr>;
                      (transition, db2) =
                        recovery_transition now sid current next_status winner_wallet treasury_wallet db1;
                      moved = (dget transition ''status'' \<in>
                                 {PStr ''settlement_status_updated'', PStr ''settlement_status_unchanged''})
                  in ([(''status'', PStr (if moved
                          then (if next_status = ''authorized'' then ''settlement_recovered''
                                else ''settlement_recovered_manual_review_required'')
                          else ''recovery_transition_failed'')),
                       (''settlement_id'', PStr sid), (''previous_status'', PStr current),
                       (''next_status'', PStr next_status), (''winner_id'', winner_id),
                       (''winner_wallet'', PStr winner_wallet), (''treasury_wallet'', PStr treasury_wallet),
                       (''recovery_event'', event), (''transition'', PDict transition)], db2)))"

section \<open>The execution guard\<close>

text \<open>The permit found by its identifier is accepted for this settlement, now.\<close>

definition permit_matches :: "permit \<Rightarrow> string \<Rightarrow> settlement \<Rightarrow> bool" where
  "permit_matches p sid s =
     (let minor = (\<lambda>m. case m of None \<Rightarrow> 0 | Some i \<Rightarrow> i) in
      pm_settlement_id p = sid \<and> pm_order_id p = st_order_id s \<and>
      pm_gross_minor p = minor (st_gross_minor s) \<and>
      pm_commission_minor p = minor (st_commission_minor s) \<and>
      pm_payout_minor p = minor (st_payout_minor s))"

definition guard_refusal :: "string \<Rightarrow> string \<Rightarrow> string \<Rightarrow> pydict" where
  "guard_refusal status reason sid =
     [(''status'', PStr status), (''reason'', PStr reason), (''settlement_id'', PStr sid),
      (''claimed'', PBool False), (''broadcast_allowed'', PBool False)]"

definition claim_permit ::
  "(string \<Rightarrow> string) \<Rightarrow> string \<Rightarrow> int \<Rightarrow> string \<Rightarrow> string \<Rightarrow> settlement \<Rightarrow> pdb \<Rightarrow> pdb \<Rightarrow> pydict + pydict \<times> pdb" where
  "claim_permit sha token now permit_id sid s snap db =
     (case row_by pm_permit_id permit_id (permits snap) of
        None \<Rightarrow> Inl (guard_refusal ''execution_permit_not_found'' ''settlement_execution_permit_not_found'' sid)
      | Some p \<Rightarrow>
          if \<not> permit_matches p sid s
          then Inl (guard_refusal ''execution_permit_mismatch'' ''settlement_execution_permit_mismatch'' sid)
          else if pm_expires_at p < now
          then Inl (guard_refusal ''execution_permit_expired'' ''settlement_execution_permit_expired'' sid)
          else if pm_state p \<noteq> ''issued''
          then Inl (guard_refusal ''execution_permit_already_consumed''
                      ''settlement_execution_permit_already_claimed'' sid @ [(''idempotent'', PBool True)])
          else
            let claim_id = ''pec_'' @ take 24 (sha (permit_id @ '':'' @ token @ '':'' @ string_of_int now));
                (t, n) = sql_update
                  (\<lambda>r. pm_permit_id r = permit_id \<and> pm_settlement_id r = sid \<and> pm_state r = ''issued'' \<and>
                       pm_expires_at r \<ge> now)
                  (\<lambda>r. r \<lparr> pm_state := ''claimed'', pm_claim_id := Some claim_id,
                           pm_claimed_by := Some ''settlement_execution_guard_v2'', pm_claimed_at := Some now \<rparr>)
                  (permits db)
            in if n \<noteq> 1
               then Inl (guard_refusal ''execution_permit_claim_conflict''
                           ''atomic_execution_permit_claim_not_acquired'' sid @ [(''idempotent'', PBool True)])
               else Inr ([(''permit_id'', PStr permit_id), (''claim_id'', PStr claim_id), (''claimed_at'', PInt now),
                          (''expires_at'', PInt (pm_expires_at p)), (''state'', PStr ''claimed''),
                          (''settlement_id'', PStr sid), (''order_id'', PStr (st_order_id s))],
                         db \<lparr> permits := t \<rparr>))"

definition claimable :: "string \<Rightarrow> settlement \<Rightarrow> bool" where
  "claimable sid r =
     (st_settlement_id r = sid \<and> coalesce (st_claim_status r) (Some ''unclaimed'') = Some ''unclaimed'' \<and>
      st_commission_tx r = None \<and> st_payout_tx r = None)"

definition claimed_row :: "string \<Rightarrow> int \<Rightarrow> settlement \<Rightarrow> settlement" where
  "claimed_row token now r =
     r \<lparr> st_claim_status := Some ''claimed'', st_claim_token := Some token,
         st_claimed_at := Some now, st_last_error := None, st_updated_at := now \<rparr>"

definition claim_settlement_execution_db ::
  "(string \<Rightarrow> string) \<Rightarrow> string \<Rightarrow> int \<Rightarrow> string \<Rightarrow> string \<Rightarrow> pdb \<Rightarrow> pdb \<Rightarrow> pydict \<times> pdb" where
  "claim_settlement_execution_db sha token now permit_id sid snap db =
     (if sid = []
      then ([(''status'', PStr ''claim_rejected''), (''reason'', PStr ''settlement_id_required''),
             (''claimed'', PBool False), (''broadcast_allowed'', PBool False)], db)
      else (case find_settlement sid snap of
              None \<Rightarrow> (guard_refusal ''settlement_not_found''
                         ''settlement_record_required_before_onchain_release'' sid, db)
            | Some s \<Rightarrow>
                if some_text (st_commission_tx s) \<or> some_text (st_payout_tx s)
                then (guard_refusal ''settlement_already_submitted''
                        ''existing_settlement_transaction_signature'' sid @
                      [(''idempotent'', PBool True),
                       (''atomic_tx_signature'',
                          if some_text (st_commission_tx s) then pstr_opt (st_commission_tx s)
                          else pstr_opt (st_payout_tx s)),
                       (''commission_tx_signature'', pstr_opt (st_commission_tx s)),
                       (''seller_payout_tx_signature'', pstr_opt (st_payout_tx s)),
                       (''execution_claim_status'', pstr_opt (st_claim_status s))], db)
                else if or_text (st_claim_status s) ''unclaimed'' \<noteq> ''unclaimed''
                then (guard_refusal ''settlement_execution_already_claimed''
                        ''existing_execution_claim_requires_resolution'' sid @
                      [(''idempotent'', PBool True), (''execution_claim_status'', pstr_opt (st_claim_status s)),
                       (''execution_claim_token'', pstr_opt (st_claim_token s)),
                       (''execution_claimed_at'', pint_opt (st_claimed_at s)),
                       (''execution_broadcast_at'', pint_opt (st_broadcast_at s)),
                       (''execution_last_error'', pstr_opt (st_last_error s))], db)
                else
                  (case (if permit_id = [] then Inr (PNone, db)
                         else (case claim_permit sha token now permit_id sid s snap db of
                                 Inl refusal \<Rightarrow> Inl refusal
                               | Inr (claim, db1) \<Rightarrow> Inr (PDict claim, db1))) of
                     Inl refusal \<Rightarrow> (refusal, db)
                   | Inr (permit_claim, db1) \<Rightarrow>
                       let (t, n) = sql_update (claimable sid) (claimed_row token now) (settlements db1)
                       in if n \<noteq> 1
                          then (guard_refusal ''settlement_execution_claim_conflict''
                                  ''atomic_execution_claim_not_acquired'' sid @ [(''idempotent'', PBool True)], db)
                          else ([(''status'', PStr ''settlement_execution_claimed''),
                                 (''reason'', PStr ''atomic_execution_claim_acquired''),
                                 (''settlement_id'', PStr sid), (''claim_token'', PStr token),
                                 (''claimed'', PBool True), (''broadcast_allowed'', PBool True),
                                 (''claimed_at'', PInt now), (''execution_permit'', permit_claim)],
                                db1 \<lparr> settlements := t \<rparr>))))"

definition record_settlement_broadcast_db ::
  "int \<Rightarrow> string \<Rightarrow> string \<Rightarrow> string \<Rightarrow> pdb \<Rightarrow> pydict \<times> pdb" where
  "record_settlement_broadcast_db now sid token signature db =
     (if sid = [] \<or> token = [] \<or> signature = []
      then ([(''status'', PStr ''broadcast_record_rejected''),
             (''reason'', PStr ''settlement_id_claim_token_and_signature_required''),
             (''recorded'', PBool False)], db)
      else
        let (t, n) = sql_update
              (\<lambda>r. st_settlement_id r = sid \<and> st_claim_token r = Some token \<and>
                   st_claim_status r = Some ''claimed'' \<and> st_commission_tx r = None \<and> st_payout_tx r = None)
              (\<lambda>r. r \<lparr> st_claim_status := Some ''broadcast_submitted'', st_broadcast_at := Some now,
                       st_commission_tx := coalesce (st_commission_tx r) (Some signature),
                       st_payout_tx := coalesce (st_payout_tx r) (Some signature),
                       st_last_error := None, st_updated_at := now \<rparr>)
              (settlements db)
        in if n \<noteq> 1
           then ([(''status'', PStr ''broadcast_record_conflict''),
                  (''reason'', PStr ''claim_token_or_settlement_state_mismatch''), (''settlement_id'', PStr sid),
                  (''recorded'', PBool False),
                  (''atomic_tx_signature'',
                     case find_settlement sid db of None \<Rightarrow> PNone
                     | Some r \<Rightarrow> if some_text (st_commission_tx r) then pstr_opt (st_commission_tx r)
                                 else pstr_opt (st_payout_tx r)),
                  (''execution_claim_status'',
                     case find_settlement sid db of None \<Rightarrow> PNone | Some r \<Rightarrow> pstr_opt (st_claim_status r))], db)
           else ([(''status'', PStr ''settlement_broadcast_recorded''),
                  (''reason'', PStr ''atomic_transaction_signature_persisted''), (''settlement_id'', PStr sid),
                  (''claim_token'', PStr token), (''atomic_tx_signature'', PStr signature),
                  (''commission_tx_signature'', PStr signature), (''seller_payout_tx_signature'', PStr signature),
                  (''broadcast_at'', PInt now), (''recorded'', PBool True)], db \<lparr> settlements := t \<rparr>))"

definition mark_settlement_execution_error_db ::
  "int \<Rightarrow> string \<Rightarrow> string \<Rightarrow> string \<Rightarrow> string \<Rightarrow> pdb \<Rightarrow> pydict \<times> pdb" where
  "mark_settlement_execution_error_db now sid token err broadcast_state db =
     (if sid = [] \<or> token = []
      then ([(''status'', PStr ''execution_error_record_rejected''),
             (''reason'', PStr ''settlement_id_and_claim_token_required''), (''recorded'', PBool False)], db)
      else
        let claim_status = (if broadcast_state = ''unknown'' then ''broadcast_unknown'' else ''execution_failed_locked'');
            (t, n) = sql_update
              (\<lambda>r. st_settlement_id r = sid \<and> st_claim_token r = Some token \<and> st_claim_status r = Some ''claimed'')
              (\<lambda>r. r \<lparr> st_claim_status := Some claim_status,
                       st_last_error := Some (if err = [] then ''unknown_settlement_execution_error'' else err),
                       st_updated_at := now \<rparr>)
              (settlements db)
        in ([(''status'', PStr (if n = 1 then ''execution_error_recorded'' else ''execution_error_record_not_applied'')),
             (''reason'', PStr claim_status), (''settlement_id'', PStr sid),
             (''execution_claim_status'', PStr claim_status), (''recorded'', PBool (n = 1))],
            db \<lparr> settlements := t \<rparr>))"

definition record_recovered_settlement_broadcast_db ::
  "int \<Rightarrow> string \<Rightarrow> string \<Rightarrow> string \<Rightarrow> pdb \<Rightarrow> pydict \<times> pdb" where
  "record_recovered_settlement_broadcast_db now sid token signature db =
     (if sid = [] \<or> token = [] \<or> signature = []
      then ([(''status'', PStr ''recovered_broadcast_record_rejected''),
             (''reason'', PStr ''settlement_id_claim_token_and_signature_required''),
             (''recorded'', PBool False)], db)
      else
        let (t, n) = sql_update
              (\<lambda>r. st_settlement_id r = sid \<and> st_claim_token r = Some token \<and>
                   st_claim_status r = Some ''broadcast_unknown'' \<and> st_commission_tx r = None \<and>
                   st_payout_tx r = None)
              (\<lambda>r. r \<lparr> st_claim_status := Some ''broadcast_submitted'',
                       st_broadcast_at := coalesce (st_broadcast_at r) (Some now),
                       st_commission_tx := coalesce (st_commission_tx r) (Some signature),
                       st_payout_tx := coalesce (st_payout_tx r) (Some signature),
                       st_last_error := None, st_updated_at := now \<rparr>)
              (settlements db)
        in if n \<noteq> 1
           then ([(''status'', PStr ''recovered_broadcast_record_conflict''),
                  (''reason'', PStr ''unknown_broadcast_claim_state_mismatch''), (''settlement_id'', PStr sid),
                  (''recorded'', PBool False)], db)
           else ([(''status'', PStr ''recovered_broadcast_recorded''),
                  (''reason'', PStr ''onchain_signature_recovered_and_persisted''), (''settlement_id'', PStr sid),
                  (''claim_token'', PStr token), (''atomic_tx_signature'', PStr signature),
                  (''commission_tx_signature'', PStr signature), (''seller_payout_tx_signature'', PStr signature),
                  (''recorded'', PBool True), (''recovered_at'', PInt now)], db \<lparr> settlements := t \<rparr>))"

section \<open>Payload patches\<close>

definition update_settlement_payload_db ::
  "int \<Rightarrow> string \<Rightarrow> pyval \<Rightarrow> string \<Rightarrow> pdb \<Rightarrow> pdb \<Rightarrow> pydict \<times> pdb" where
  "update_settlement_payload_db now sid patch patch_reason snap db =
     (if sid = [] then ([(''status'', PStr ''error''), (''message'', PStr ''settlement_id_required'')], db)
      else (case patch of
              PDict patches \<Rightarrow>
                (case find_settlement sid snap of
                   None \<Rightarrow> ([(''status'', PStr ''not_found''), (''settlement_id'', PStr sid)], db)
                 | Some item \<Rightarrow>
                     let payload = fold (\<lambda>(k, v) d. dset d k v) patches (as_dict (st_payload item));
                         patched_keys = PList (map PStr (sort (map fst patches)));
                         update = PDict [(''patch_reason'', PStr patch_reason), (''keys'', patched_keys),
                                         (''timestamp'', PInt now)];
                         updates = as_list (dget payload ''payload_updates'') @ [update];
                         payload' = dset (dset payload ''payload_updates'' (PList updates)) ''last_payload_update'' update
                     in ([(''status'', PStr ''settlement_payload_updated''), (''settlement_id'', PStr sid),
                          (''updated_keys'', patched_keys), (''patch_reason'', PStr patch_reason),
                          (''updated_at'', PInt now)],
                         db \<lparr> settlements := fst (sql_update (\<lambda>r. st_settlement_id r = sid)
                                (\<lambda>r. r \<lparr> st_payload := PDict payload', st_updated_at := now \<rparr>)
                                (settlements db)) \<rparr>))
            | _ \<Rightarrow> ([(''status'', PStr ''error''), (''message'', PStr ''payload_patch_must_be_dict'')], db)))"

section \<open>How a row evolves\<close>

definition claim_open :: "settlement \<Rightarrow> bool" where
  "claim_open r = (coalesce (st_claim_status r) (Some ''unclaimed'') = Some ''unclaimed'')"

definition same_guard :: "settlement \<Rightarrow> settlement \<Rightarrow> bool" where
  "same_guard r r' =
     (st_settlement_id r' = st_settlement_id r \<and> st_order_id r' = st_order_id r \<and>
      st_settlement_status r' = st_settlement_status r \<and> st_claim_status r' = st_claim_status r \<and>
      st_claim_token r' = st_claim_token r \<and> st_commission_tx r' = st_commission_tx r \<and>
      st_payout_tx r' = st_payout_tx r)"

definition status_moves :: "settlement \<Rightarrow> settlement \<Rightarrow> bool" where
  "status_moves r r' =
     (case (st_settlement_status r, st_settlement_status r') of
        (Some s, Some n) \<Rightarrow> n \<in> set (allowed_next s)
      | _ \<Rightarrow> False)"

definition claim_moves :: "settlement \<Rightarrow> settlement \<Rightarrow> bool" where
  "claim_moves r r' =
     ((claim_open r \<and> st_claim_status r' = Some ''claimed'' \<and> st_commission_tx r = None \<and> st_payout_tx r = None) \<or>
      (st_claim_token r' = st_claim_token r \<and>
       ((st_claim_status r = Some ''claimed'' \<and>
           st_claim_status r' \<in> {Some ''broadcast_submitted'', Some ''broadcast_unknown'', Some ''execution_failed_locked''}) \<or>
        (st_claim_status r = Some ''broadcast_unknown'' \<and> st_claim_status r' = Some ''broadcast_submitted''))))"

definition row_evolves :: "settlement \<Rightarrow> settlement \<Rightarrow> bool" where
  "row_evolves r r' =
     (st_settlement_id r' = st_settlement_id r \<and> st_order_id r' = st_order_id r \<and>
      (st_settlement_status r' = st_settlement_status r \<or> status_moves r r') \<and>
      ((st_claim_status r' = st_claim_status r \<and> st_claim_token r' = st_claim_token r) \<or> claim_moves r r') \<and>
      (st_commission_tx r \<noteq> None \<longrightarrow> st_commission_tx r' \<noteq> None) \<and>
      (st_payout_tx r \<noteq> None \<longrightarrow> st_payout_tx r' \<noteq> None))"

definition rows_evolve :: "pdb \<Rightarrow> pdb \<Rightarrow> bool" where
  "rows_evolve db db' =
     (settlements_wf db' \<and>
      (\<forall>k r. find_settlement k db = Some r \<longrightarrow> (\<exists>r'. find_settlement k db' = Some r' \<and> row_evolves r r')))"

lemma row_evolves_refl [simp]: "row_evolves r r"
  by (simp add: row_evolves_def)

lemma same_guard_evolves: "same_guard r r1 \<Longrightarrow> row_evolves r1 r2 \<Longrightarrow> row_evolves r r2"
  by (simp add: same_guard_def row_evolves_def status_moves_def claim_moves_def claim_open_def)

lemma rows_evolve_refl: "settlements_wf db \<Longrightarrow> rows_evolve db db"
  by (auto simp: rows_evolve_def)

lemma rows_evolve_update:
  assumes wf: "settlements_wf db" and upd: "settlements db' = fst (sql_update P f (settlements db))"
    and step: "\<And>r. P r \<Longrightarrow> row_evolves r (f r)"
  shows "rows_evolve db db'"
proof -
  have keys: "P r \<Longrightarrow> st_settlement_id (f r) = st_settlement_id r" "P r \<Longrightarrow> st_order_id (f r) = st_order_id r" for r
    using step by (auto simp: row_evolves_def)
  have "find_settlement k db' = map_option (\<lambda>r. if P r then f r else r) (find_settlement k db)" for k
    unfolding find_settlement_def upd by (rule row_by_update) (rule keys)
  moreover have "settlements_wf db'"
    using wf unfolding settlements_wf_def upd by (simp add: unique_by_update keys)
  ultimately show ?thesis using step by (auto simp: rows_evolve_def)
qed

lemma rows_evolve_guard:
  assumes wf: "settlements_wf db" and upd: "settlements db1 = fst (sql_update P f (settlements db))"
    and same: "\<And>r. P r \<Longrightarrow> same_guard r (f r)" and rest: "settlements_wf db1 \<Longrightarrow> rows_evolve db1 db2"
  shows "rows_evolve db db2"
proof -
  have keys: "P r \<Longrightarrow> st_settlement_id (f r) = st_settlement_id r" "P r \<Longrightarrow> st_order_id (f r) = st_order_id r" for r
    using same by (auto simp: same_guard_def)
  have find: "find_settlement k db1 = map_option (\<lambda>r. if P r then f r else r) (find_settlement k db)" for k
    unfolding find_settlement_def upd by (rule row_by_update) (rule keys)
  have wf1: "settlements_wf db1"
    using wf unfolding settlements_wf_def upd by (simp add: unique_by_update keys)
  have refl: "same_guard r r" for r by (simp add: same_guard_def)
  have "\<exists>r'. find_settlement k db2 = Some r' \<and> row_evolves r r'" if "find_settlement k db = Some r" for k r
  proof -
    let ?r1 = "if P r then f r else r"
    have "find_settlement k db1 = Some ?r1" using that find by simp
    then obtain r' where "find_settlement k db2 = Some r'" "row_evolves ?r1 r'"
      using rest [OF wf1] unfolding rows_evolve_def by blast
    moreover have "same_guard r ?r1" using same refl by simp
    ultimately show ?thesis using same_guard_evolves by blast
  qed
  then show ?thesis using rest [OF wf1] by (simp add: rows_evolve_def)
qed

lemma update_pair: "sql_update P f t = (u, n) \<Longrightarrow> u = fst (sql_update P f t)"
  by simp

lemma allowed_in_transition:
  "truthy (dget (validate_settlement_transition s n) ''transition_allowed'') \<longleftrightarrow>
   n \<in> set (allowed_next (or_text (Some s) ''created''))"
  by (simp add: validate_settlement_transition_def dget_def Let_def)

lemma or_text_again: "or_text (Some (or_text v ''created'')) ''created'' = or_text v ''created''"
  by (simp add: or_text_def split: option.splits)

lemma status_update_cases:
  assumes "update_settlement_status_db now sid next reason ctx ptx meta snap db = (res, db')"
  obtains (same) "db' = db" "dget res ''status'' \<noteq> PStr ''settlement_status_updated''"
  | (moved) item payload where "find_settlement sid snap = Some item"
      "next \<in> set (allowed_next (or_text (st_settlement_status item) ''created''))"
      "length (filter (\<lambda>r. st_settlement_id r = sid \<and>
              st_settlement_status r = Some (or_text (st_settlement_status item) ''created'')) (settlements db)) = 1"
      "db' = db \<lparr> settlements := fst (sql_update
          (\<lambda>r. st_settlement_id r = sid \<and> st_settlement_status r = Some (or_text (st_settlement_status item) ''created''))
          (\<lambda>r. r \<lparr> st_settlement_status := Some next, st_commission_tx := coalesce ctx (st_commission_tx r),
                   st_payout_tx := coalesce ptx (st_payout_tx r), st_payload := payload, st_updated_at := now \<rparr>)
          (settlements db)) \<rparr>"
      "dget res ''status'' = PStr ''settlement_status_updated''"
proof (cases "find_settlement sid snap")
  case None
  with assms same show thesis
    by (auto simp: update_settlement_status_db_def split: if_splits)
next
  case (Some item)
  show thesis
  proof (cases "sid = [] \<or> next = [] \<or> next \<notin> set (allowed_next (or_text (st_settlement_status item) ''created''))")
    case True
    with assms Some show thesis
      by (intro same) (auto simp: update_settlement_status_db_def allowed_in_transition or_text_again Let_def split: if_splits)
  next
    case False
    let ?P = "\<lambda>r. st_settlement_id r = sid \<and> st_settlement_status r = Some (or_text (st_settlement_status item) ''created'')"
    show thesis
    proof (cases "length (filter ?P (settlements db)) = 1")
      case True
      with assms Some False show thesis
        by (intro moved [of item]) (auto simp: update_settlement_status_db_def allowed_in_transition or_text_again
            case_prod_beta snd_sql_update Let_def)
    next
      case n: False
      with assms Some False show thesis
        by (intro same) (auto simp: update_settlement_status_db_def allowed_in_transition or_text_again
            case_prod_beta snd_sql_update Let_def)
    qed
  qed
qed

lemma status_update_evolves:
  assumes wf: "settlements_wf db"
    and run: "update_settlement_status_db now sid next reason ctx ptx meta snap db = (res, db')"
  shows "rows_evolve db db' \<and> permits db' = permits db"
  using run
proof (cases rule: status_update_cases)
  case (moved item payload)
  have "settlements db' = fst (sql_update
          (\<lambda>r. st_settlement_id r = sid \<and> st_settlement_status r = Some (or_text (st_settlement_status item) ''created''))
          (\<lambda>r. r \<lparr> st_settlement_status := Some next, st_commission_tx := coalesce ctx (st_commission_tx r),
                   st_payout_tx := coalesce ptx (st_payout_tx r), st_payload := payload, st_updated_at := now \<rparr>)
          (settlements db))" using moved(4) by simp
  from rows_evolve_update [OF wf this] moved(2,4) show ?thesis
    by (auto simp: row_evolves_def status_moves_def coalesce_def split: option.splits)
qed (use wf rows_evolve_refl in auto)

lemma recovery_transition_evolves:
  "settlements_wf db \<Longrightarrow> rows_evolve db (snd (recovery_transition now sid current next ww tw db)) \<and>
     permits (snd (recovery_transition now sid current next ww tw db)) = permits db"
  by (auto simp: recovery_transition_def rows_evolve_refl status_update_evolves [OF _ prod.collapse [symmetric]])

lemma recovered_row_guard: "same_guard r (recovered_row now wid ww tw next payload r)"
  by (simp add: same_guard_def recovered_row_def)

lemma recover_cases:
  assumes "recover_settlement_wallet_configuration_db now sid wid ww tw meta next snap db = (res, db')"
  obtains (same) "db' = db"
  | (recovered) item payload where "get_settlement_by_id_db snap sid = Some item"
      "or_text (st_settlement_status item) ''created'' \<in> set wallet_recoverable"
      "next = ''authorized'' \<or> next = ''manual_review''"
      "db' = snd (recovery_transition now sid (or_text (st_settlement_status item) ''created'') next ww tw
         (db \<lparr> settlements := fst (sql_update (\<lambda>r. st_settlement_id r = sid)
                 (recovered_row now wid ww tw next payload) (settlements db)) \<rparr>))"
      "dget res ''transition'' = PDict (fst (recovery_transition now sid
         (or_text (st_settlement_status item) ''created'') next ww tw
         (db \<lparr> settlements := fst (sql_update (\<lambda>r. st_settlement_id r = sid)
                 (recovered_row now wid ww tw next payload) (settlements db)) \<rparr>)))"
proof (cases "get_settlement_by_id_db snap sid")
  case None
  with assms show thesis
    by (intro same) (simp add: recover_settlement_wallet_configuration_db_def split: if_splits)
next
  case (Some item)
  let ?current = "or_text (st_settlement_status item) ''created''"
  show thesis
  proof (cases "sid = [] \<or> ww = [] \<or> tw = [] \<or> (next \<noteq> ''authorized'' \<and> next \<noteq> ''manual_review'') \<or>
      ?current \<notin> set wallet_recoverable")
    case True
    with assms Some show thesis
      by (intro same) (auto simp: recover_settlement_wallet_configuration_db_def split: if_splits)
  next
    case False
    with assms Some show thesis
      by (intro recovered [of item])
         (auto simp: recover_settlement_wallet_configuration_db_def Let_def case_prod_beta)
  qed
qed

lemma recover_evolves:
  assumes wf: "settlements_wf db"
    and run: "recover_settlement_wallet_configuration_db now sid wid ww tw meta next snap db = (res, db')"
  shows "rows_evolve db db' \<and> permits db' = permits db"
  using run
proof (cases rule: recover_cases)
  case (recovered item payload)
  let ?db1 = "db \<lparr> settlements := fst (sql_update (\<lambda>r. st_settlement_id r = sid)
                 (recovered_row now wid ww tw next payload) (settlements db)) \<rparr>"
  have "settlements_wf ?db1"
    using wf by (simp add: settlements_wf_def unique_by_update recovered_row_def)
  moreover have "settlements ?db1 = fst (sql_update (\<lambda>r. st_settlement_id r = sid)
                 (recovered_row now wid ww tw next payload) (settlements db))" by simp
  from rows_evolve_guard [OF wf this recovered_row_guard] have "rows_evolve db db'"
    if "settlements_wf ?db1 \<Longrightarrow> rows_evolve ?db1 db'" using that .
  ultimately show ?thesis using recovery_transition_evolves recovered(4) by simp
qed (use wf rows_evolve_refl in auto)

definition permit_open :: "string \<Rightarrow> string \<Rightarrow> int \<Rightarrow> permit \<Rightarrow> bool" where
  "permit_open permit_id sid now r =
     (pm_permit_id r = permit_id \<and> pm_settlement_id r = sid \<and> pm_state r = ''issued'' \<and> pm_expires_at r \<ge> now)"

lemma claim_permit_Inl:
  "claim_permit sha token now pid sid s snap db = Inl refusal \<Longrightarrow>
   dget refusal ''claimed'' = PBool False \<and> dget refusal ''broadcast_allowed'' = PBool False"
  by (auto simp: claim_permit_def guard_refusal_def Let_def case_prod_beta split: option.splits if_splits)

lemma claim_permit_Inr:
  assumes "claim_permit sha token now pid sid s snap db = Inr (claim, db1)"
  obtains p claim_id where "row_by pm_permit_id pid (permits snap) = Some p" "permit_matches p sid s"
    "now \<le> pm_expires_at p" "pm_state p = ''issued''"
    "length (filter (permit_open pid sid now) (permits db)) = 1"
    "db1 = db \<lparr> permits := fst (sql_update (permit_open pid sid now)
       (\<lambda>r. r \<lparr> pm_state := ''claimed'', pm_claim_id := Some claim_id,
                pm_claimed_by := Some ''settlement_execution_guard_v2'', pm_claimed_at := Some now \<rparr>)
       (permits db)) \<rparr>"
  using assms unfolding claim_permit_def permit_open_def [abs_def]
  by (auto simp: Let_def case_prod_beta snd_sql_update split: option.splits if_splits)

lemma claim_cases:
  assumes "claim_settlement_execution_db sha token now pid sid snap db = (res, db')"
  obtains (refused) "db' = db" "dget res ''claimed'' = PBool False" "dget res ''broadcast_allowed'' = PBool False"
  | (granted) s db1 where "sid \<noteq> []" "dget res ''claimed'' = PBool True"
      "dget res ''broadcast_allowed'' = PBool True" "find_settlement sid snap = Some s"
      "length (filter (claimable sid) (settlements db)) = 1"
      "db' = db1 \<lparr> settlements := fst (sql_update (claimable sid) (claimed_row token now) (settlements db)) \<rparr>"
      "(pid = [] \<and> db1 = db) \<or>
       (pid \<noteq> [] \<and> settlements db1 = settlements db \<and>
        (\<exists>claim. claim_permit sha token now pid sid s snap db = Inr (claim, db1)))"
proof (cases "find_settlement sid snap")
  case None
  with assms show thesis
    by (intro refused) (auto simp: claim_settlement_execution_db_def guard_refusal_def split: if_splits)
next
  case (Some s)
  let ?pre = "sid = [] \<or> some_text (st_commission_tx s) \<or> some_text (st_payout_tx s) \<or>
      or_text (st_claim_status s) ''unclaimed'' \<noteq> ''unclaimed''"
  show thesis
  proof (cases ?pre)
    case True
    with assms Some show thesis
      by (intro refused) (auto simp: claim_settlement_execution_db_def guard_refusal_def split: if_splits)
  next
    case False
    define step where "step = (if pid = [] then Inr (PNone, db)
        else (case claim_permit sha token now pid sid s snap db of
                Inl refusal \<Rightarrow> Inl refusal | Inr (claim, db1) \<Rightarrow> Inr (PDict claim, db1)))"
    have run: "(res, db') = (case step of Inl refusal \<Rightarrow> (refusal, db)
        | Inr (permit_claim, db1) \<Rightarrow>
            let (t, n) = sql_update (claimable sid) (claimed_row token now) (settlements db1)
            in if n \<noteq> 1
               then (guard_refusal ''settlement_execution_claim_conflict''
                       ''atomic_execution_claim_not_acquired'' sid @ [(''idempotent'', PBool True)], db)
               else ([(''status'', PStr ''settlement_execution_claimed''),
                      (''reason'', PStr ''atomic_execution_claim_acquired''),
                      (''settlement_id'', PStr sid), (''claim_token'', PStr token),
                      (''claimed'', PBool True), (''broadcast_allowed'', PBool True),
                      (''claimed_at'', PInt now), (''execution_permit'', permit_claim)],
                     db1 \<lparr> settlements := t \<rparr>))"
      using assms Some False unfolding claim_settlement_execution_db_def step_def by simp
    show thesis
    proof (cases step)
      case (Inl refusal)
      then have "dget refusal ''claimed'' = PBool False \<and> dget refusal ''broadcast_allowed'' = PBool False"
        using claim_permit_Inl by (auto simp: step_def split: if_splits sum.splits)
      with run Inl show thesis by (intro refused) auto
    next
      case (Inr q)
      obtain permit_claim db1 where q: "q = (permit_claim, db1)" by (cases q)
      with Inr have db1: "(pid = [] \<and> db1 = db) \<or>
       (pid \<noteq> [] \<and> settlements db1 = settlements db \<and>
        (\<exists>claim. claim_permit sha token now pid sid s snap db = Inr (claim, db1)))"
        by (auto simp: step_def split: if_splits sum.splits elim: claim_permit_Inr)
      then have eq: "settlements db1 = settlements db" by auto
      show thesis
      proof (cases "length (filter (claimable sid) (settlements db)) = 1")
        case True
        with run Inr q eq False Some db1 show thesis
          by (intro granted [of s db1]) (auto simp: case_prod_beta snd_sql_update)
      next
        case n: False
        with run Inr q eq show thesis
          by (intro refused) (auto simp: case_prod_beta snd_sql_update guard_refusal_def)
      qed
    qed
  qed
qed

lemma claim_evolves:
  assumes wf: "settlements_wf db"
    and run: "claim_settlement_execution_db sha token now pid sid snap db = (res, db')"
  shows "rows_evolve db db'"
  using run
proof (cases rule: claim_cases)
  case (granted s db1)
  then have "settlements db' = fst (sql_update (claimable sid) (claimed_row token now) (settlements db))" by simp
  from rows_evolve_update [OF wf this] show ?thesis
    by (auto simp: claimable_def claimed_row_def row_evolves_def claim_moves_def claim_open_def)
qed (use wf rows_evolve_refl in auto)

definition broadcastable :: "string \<Rightarrow> string \<Rightarrow> string \<Rightarrow> settlement \<Rightarrow> bool" where
  "broadcastable state sid token r =
     (st_settlement_id r = sid \<and> st_claim_token r = Some token \<and> st_claim_status r = Some state \<and>
      st_commission_tx r = None \<and> st_payout_tx r = None)"

lemma broadcast_cases:
  assumes "record_settlement_broadcast_db now sid token signature db = (res, db')"
  obtains (refused) "db' = db" "dget res ''recorded'' = PBool False"
      "sid = [] \<or> token = [] \<or> signature = [] \<or> length (filter (broadcastable ''claimed'' sid token) (settlements db)) \<noteq> 1"
  | (recorded) "sid \<noteq> []" "token \<noteq> []" "signature \<noteq> []" "dget res ''recorded'' = PBool True"
      "length (filter (broadcastable ''claimed'' sid token) (settlements db)) = 1"
      "db' = db \<lparr> settlements := fst (sql_update (broadcastable ''claimed'' sid token)
        (\<lambda>r. r \<lparr> st_claim_status := Some ''broadcast_submitted'', st_broadcast_at := Some now,
                 st_commission_tx := coalesce (st_commission_tx r) (Some signature),
                 st_payout_tx := coalesce (st_payout_tx r) (Some signature),
                 st_last_error := None, st_updated_at := now \<rparr>) (settlements db)) \<rparr>"
proof (cases "sid = [] \<or> token = [] \<or> signature = [] \<or>
    length (filter (broadcastable ''claimed'' sid token) (settlements db)) \<noteq> 1")
  case True
  with assms show thesis
    by (intro refused)
       (auto simp: record_settlement_broadcast_db_def broadcastable_def [abs_def] Let_def case_prod_beta
          snd_sql_update split: if_splits)
next
  case False
  with assms show thesis
    by (intro recorded)
       (auto simp: record_settlement_broadcast_db_def broadcastable_def [abs_def] Let_def case_prod_beta
          snd_sql_update)
qed

lemma broadcast_evolves:
  assumes wf: "settlements_wf db" and run: "record_settlement_broadcast_db now sid token signature db = (res, db')"
  shows "rows_evolve db db' \<and> permits db' = permits db"
  using run
proof (cases rule: broadcast_cases)
  case recorded
  from recorded(6) have "settlements db' = fst (sql_update (broadcastable ''claimed'' sid token)
        (\<lambda>r. r \<lparr> st_claim_status := Some ''broadcast_submitted'', st_broadcast_at := Some now,
                 st_commission_tx := coalesce (st_commission_tx r) (Some signature),
                 st_payout_tx := coalesce (st_payout_tx r) (Some signature),
                 st_last_error := None, st_updated_at := now \<rparr>) (settlements db))" by simp
  from rows_evolve_update [OF wf this] recorded(6) show ?thesis
    by (auto simp: row_evolves_def claim_moves_def broadcastable_def)
qed (use wf rows_evolve_refl in auto)

lemma recovered_broadcast_evolves:
  assumes wf: "settlements_wf db"
    and run: "record_recovered_settlement_broadcast_db now sid token signature db = (res, db')"
  shows "rows_evolve db db' \<and> permits db' = permits db"
proof (cases "db' = db")
  case False
  with run have db': "db' = db \<lparr> settlements := fst (sql_update (broadcastable ''broadcast_unknown'' sid token)
        (\<lambda>r. r \<lparr> st_claim_status := Some ''broadcast_submitted'',
                 st_broadcast_at := coalesce (st_broadcast_at r) (Some now),
                 st_commission_tx := coalesce (st_commission_tx r) (Some signature),
                 st_payout_tx := coalesce (st_payout_tx r) (Some signature),
                 st_last_error := None, st_updated_at := now \<rparr>) (settlements db)) \<rparr>"
    unfolding record_recovered_settlement_broadcast_db_def broadcastable_def [abs_def]
    by (auto simp: Let_def case_prod_beta split: if_splits)
  then have "settlements db' = fst (sql_update (broadcastable ''broadcast_unknown'' sid token)
        (\<lambda>r. r \<lparr> st_claim_status := Some ''broadcast_submitted'',
                 st_broadcast_at := coalesce (st_broadcast_at r) (Some now),
                 st_commission_tx := coalesce (st_commission_tx r) (Some signature),
                 st_payout_tx := coalesce (st_payout_tx r) (Some signature),
                 st_last_error := None, st_updated_at := now \<rparr>) (settlements db))" by simp
  from rows_evolve_update [OF wf this] db' show ?thesis
    by (auto simp: row_evolves_def claim_moves_def broadcastable_def)
qed (use wf rows_evolve_refl in auto)

lemma error_evolves:
  assumes wf: "settlements_wf db"
    and run: "mark_settlement_execution_error_db now sid token err bstate db = (res, db')"
  shows "rows_evolve db db' \<and> permits db' = permits db"
proof (cases "sid = [] \<or> token = []")
  case False
  let ?P = "\<lambda>r. st_settlement_id r = sid \<and> st_claim_token r = Some token \<and> st_claim_status r = Some ''claimed''"
  let ?f = "\<lambda>r. r \<lparr> st_claim_status := Some (if bstate = ''unknown'' then ''broadcast_unknown'' else ''execution_failed_locked''),
                       st_last_error := Some (if err = [] then ''unknown_settlement_execution_error'' else err),
                       st_updated_at := now \<rparr>"
  from run False have db': "db' = db \<lparr> settlements := fst (sql_update ?P ?f (settlements db)) \<rparr>"
    by (auto simp: mark_settlement_execution_error_db_def Let_def case_prod_beta)
  then have "settlements db' = fst (sql_update ?P ?f (settlements db))" by simp
  from rows_evolve_update [OF wf this] db' show ?thesis
    by (auto simp: row_evolves_def claim_moves_def)
qed (use run wf rows_evolve_refl in \<open>auto simp: mark_settlement_execution_error_db_def\<close>)

lemma payload_evolves:
  assumes wf: "settlements_wf db" and run: "update_settlement_payload_db now sid patch reason snap db = (res, db')"
  shows "rows_evolve db db' \<and> permits db' = permits db"
proof (cases "db' = db")
  case False
  with run obtain p where db': "db' = db \<lparr> settlements := fst (sql_update (\<lambda>r. st_settlement_id r = sid)
      (\<lambda>r. r \<lparr> st_payload := PDict p, st_updated_at := now \<rparr>) (settlements db)) \<rparr>"
    unfolding update_settlement_payload_db_def
    by (auto simp: Let_def split: if_splits pyval.splits option.splits)
  then have "settlements db' = fst (sql_update (\<lambda>r. st_settlement_id r = sid)
      (\<lambda>r. r \<lparr> st_payload := PDict p, st_updated_at := now \<rparr>) (settlements db))" by simp
  from rows_evolve_update [OF wf this] db' show ?thesis by (auto simp: row_evolves_def)
qed (use wf rows_evolve_refl in auto)

section \<open>Runs of operations\<close>

text \<open>
  A run is a list of operations, each with the database its \<open>SELECT\<close>s saw; that database is arbitrary,
  so a run covers every interleaving of sessions that read before others wrote.
\<close>

datatype settlement_op =
    RecordSettlement "pyval \<Rightarrow> pyval option" "nat \<Rightarrow> string" string int string pyval
  | SetStatus int string string string "string option" "string option" pyval
  | RecoverWallets int string pyval string string pyval string
  | ClaimExecution string int string string
  | RecordBroadcast int string string string
  | MarkError int string string string string
  | RecordRecovered int string string string
  | PatchPayload int string pyval string

fun run_op :: "(string \<Rightarrow> string) \<Rightarrow> settlement_op \<Rightarrow> pdb \<Rightarrow> pdb \<Rightarrow> pdb" where
  "run_op sha (RecordSettlement fl uuid sid now oid arg) snap db = snd (record_settlement_db sha fl uuid sid now oid arg db)"
| "run_op sha (SetStatus now sid next reason ctx ptx meta) snap db =
     snd (update_settlement_status_db now sid next reason ctx ptx meta snap db)"
| "run_op sha (RecoverWallets now sid wid ww tw meta next) snap db =
     snd (recover_settlement_wallet_configuration_db now sid wid ww tw meta next snap db)"
| "run_op sha (ClaimExecution token now pid sid) snap db =
     snd (claim_settlement_execution_db sha token now pid sid snap db)"
| "run_op sha (RecordBroadcast now sid token signature) snap db =
     snd (record_settlement_broadcast_db now sid token signature db)"
| "run_op sha (MarkError now sid token err bstate) snap db =
     snd (mark_settlement_execution_error_db now sid token err bstate db)"
| "run_op sha (RecordRecovered now sid token signature) snap db =
     snd (record_recovered_settlement_broadcast_db now sid token signature db)"
| "run_op sha (PatchPayload now sid patch reason) snap db =
     snd (update_settlement_payload_db now sid patch reason snap db)"

definition claim_grant :: "(string \<Rightarrow> string) \<Rightarrow> settlement_op \<Rightarrow> pdb \<Rightarrow> pdb \<Rightarrow> (string \<times> string) list" where
  "claim_grant sha op snap db =
     (case op of
        ClaimExecution token now pid sid \<Rightarrow>
          if dget (fst (claim_settlement_execution_db sha token now pid sid snap db)) ''broadcast_allowed'' = PBool True
          then [(sid, pid)] else []
      | _ \<Rightarrow> [])"

fun run_ops :: "(string \<Rightarrow> string) \<Rightarrow> (settlement_op \<times> pdb) list \<Rightarrow> pdb \<Rightarrow> pdb" where
  "run_ops sha [] db = db"
| "run_ops sha ((op, snap) # rest) db = run_ops sha rest (run_op sha op snap db)"

text \<open>The settlements (with the permit used) for which a broadcast was allowed along a run.\<close>

fun grants :: "(string \<Rightarrow> string) \<Rightarrow> (settlement_op \<times> pdb) list \<Rightarrow> pdb \<Rightarrow> (string \<times> string) list" where
  "grants sha [] db = []"
| "grants sha ((op, snap) # rest) db = claim_grant sha op snap db @ grants sha rest (run_op sha op snap db)"

definition settlement_status_of :: "string \<Rightarrow> pdb \<Rightarrow> string option" where
  "settlement_status_of k db =
     (case find_settlement k db of None \<Rightarrow> None | Some r \<Rightarrow> st_settlement_status r)"

fun statuses_along :: "(string \<Rightarrow> string) \<Rightarrow> string \<Rightarrow> (settlement_op \<times> pdb) list \<Rightarrow> pdb \<Rightarrow> string option list" where
  "statuses_along sha k [] db = [settlement_status_of k db]"
| "statuses_along sha k ((op, snap) # rest) db =
     settlement_status_of k db # statuses_along sha k rest (run_op sha op snap db)"

lemma record_cases:
  assumes "record_settlement_db sha fl uuid sid now oid arg db = (res, db')"
  obtains (same) "db' = db"
  | (recorded) row g c p gv cv pv po seller where "list_all (\<lambda>x. \<not> settlement_clash row x) (settlements db)"
      "st_settlement_id row = sid" "st_order_id row = oid" "st_claim_status row = Some ''unclaimed''"
      "st_gross_minor row = Some g" "st_commission_minor row = Some c" "st_payout_minor row = Some p"
      "iat_to_minor gv = Inr g" "iat_to_minor cv = Inr c" "iat_to_minor pv = Inr p"
      "res = Inr (SettlementRecorded sid oid po)"
      "post_settlement_allocation_conn sha uuid now sid oid seller gv cv pv
         (db \<lparr> settlements := settlements db @ [row] \<rparr>) = (Inr po, db')"
  using assms unfolding record_settlement_db_def
  by (auto simp: Let_def list_all_iff sql_insert_Some split: if_splits sum.splits option.splits prod.splits)

lemma post_settlements:
  "post_settlement_allocation_conn sha uuid now sid oid seller gv cv pv db = (res, db') \<Longrightarrow>
   settlements db' = settlements db \<and> permits db' = permits db"
  by (erule post_cases) (auto simp: posted_as_def)

lemma record_rows:
  assumes "record_settlement_db sha fl uuid sid now oid arg db = (res, db')"
  shows "permits db' = permits db \<and> (settlements db' = settlements db \<or>
    (\<exists>row. settlements db' = settlements db @ [row] \<and> list_all (\<lambda>x. \<not> settlement_clash row x) (settlements db) \<and>
       st_settlement_id row = sid \<and> st_order_id row = oid \<and> st_claim_status row = Some ''unclaimed''))"
  using assms
proof (cases rule: record_cases)
  case (recorded row g c p gv cv pv po seller)
  from post_settlements [OF recorded(12)] recorded show ?thesis by auto
qed simp

lemma append_evolves:
  assumes "settlements_wf db" and "settlements db' = settlements db @ [row]"
    and "list_all (\<lambda>x. \<not> settlement_clash row x) (settlements db)"
  shows "rows_evolve db db'"
  using assms
  by (auto simp: rows_evolve_def settlements_wf_def find_settlement_def table_simps row_by_append
      row_by_None_iff list_all_iff settlement_clash_def)

lemma rows_evolve_same: "settlements_wf db \<Longrightarrow> settlements db' = settlements db \<Longrightarrow> rows_evolve db db'"
  by (auto simp: rows_evolve_def find_settlement_def settlements_wf_def)

lemma run_op_evolves: "settlements_wf db \<Longrightarrow> rows_evolve db (run_op sha op snap db)"
proof (cases op)
  case (RecordSettlement fl uuid sid now oid arg)
  assume wf: "settlements_wf db"
  from record_rows [OF prod.collapse [symmetric], of sha fl uuid sid now oid arg db]
  show ?thesis using append_evolves [OF wf] rows_evolve_same [OF wf] RecordSettlement by auto
next
  case (RecoverWallets now sid wid ww tw meta nxt)
  then show "settlements_wf db \<Longrightarrow> ?thesis" using recover_evolves [OF _ prod.collapse [symmetric]] by simp
next
  case (SetStatus now sid nxt reason ctx ptx meta)
  then show "settlements_wf db \<Longrightarrow> ?thesis" using status_update_evolves [OF _ prod.collapse [symmetric]] by simp
next
  case (ClaimExecution token now pid sid)
  then show "settlements_wf db \<Longrightarrow> ?thesis" using claim_evolves [OF _ prod.collapse [symmetric]] by simp
next
  case (RecordBroadcast now sid token signature)
  then show "settlements_wf db \<Longrightarrow> ?thesis" using broadcast_evolves [OF _ prod.collapse [symmetric]] by simp
next
  case (MarkError now sid token err bstate)
  then show "settlements_wf db \<Longrightarrow> ?thesis" using error_evolves [OF _ prod.collapse [symmetric]] by simp
next
  case (RecordRecovered now sid token signature)
  then show "settlements_wf db \<Longrightarrow> ?thesis" using recovered_broadcast_evolves [OF _ prod.collapse [symmetric]] by simp
next
  case (PatchPayload now sid patch reason)
  then show "settlements_wf db \<Longrightarrow> ?thesis" using payload_evolves [OF _ prod.collapse [symmetric]] by simp
qed

lemma run_op_wf: "settlements_wf db \<Longrightarrow> settlements_wf (run_op sha op snap db)"
  using run_op_evolves by (auto simp: rows_evolve_def)

lemma run_op_row:
  assumes "settlements_wf db" and "find_settlement k db = Some r"
  obtains r' where "find_settlement k (run_op sha op snap db) = Some r'" and "row_evolves r r'"
  using run_op_evolves [OF assms(1), of sha op snap] assms(2) unfolding rows_evolve_def by blast

lemma run_op_permits:
  "(\<forall>token now pid sid. op \<noteq> ClaimExecution token now pid sid) \<Longrightarrow> settlements_wf db \<Longrightarrow>
   permits (run_op sha op snap db) = permits db"
proof (cases op)
  case (RecordSettlement fl uuid sid now oid arg)
  then show ?thesis using record_rows [OF prod.collapse [symmetric]] by simp
next
  case (RecoverWallets now sid wid ww tw meta nxt)
  then show "settlements_wf db \<Longrightarrow> ?thesis" using recover_evolves [OF _ prod.collapse [symmetric]] by simp
next
  case (SetStatus now sid nxt reason ctx ptx meta)
  then show "settlements_wf db \<Longrightarrow> ?thesis" using status_update_evolves [OF _ prod.collapse [symmetric]] by simp
next
  case (RecordBroadcast now sid token signature)
  then show "settlements_wf db \<Longrightarrow> ?thesis" using broadcast_evolves [OF _ prod.collapse [symmetric]] by simp
next
  case (MarkError now sid token err bstate)
  then show "settlements_wf db \<Longrightarrow> ?thesis" using error_evolves [OF _ prod.collapse [symmetric]] by simp
next
  case (RecordRecovered now sid token signature)
  then show "settlements_wf db \<Longrightarrow> ?thesis" using recovered_broadcast_evolves [OF _ prod.collapse [symmetric]] by simp
next
  case (PatchPayload now sid patch reason)
  then show "settlements_wf db \<Longrightarrow> ?thesis" using payload_evolves [OF _ prod.collapse [symmetric]] by simp
qed simp

section \<open>One broadcast per settlement\<close>

lemma unique_filter_one:
  assumes "unique_by key t" and "\<And>r. P r \<Longrightarrow> key r = k" and "length (filter P t) = 1"
  shows "\<exists>r. row_by key k t = Some r \<and> P r"
  using rowcount_unique [OF assms(1,2), where f = id] assms(3)
  by (auto simp: snd_sql_update split: option.splits if_splits)

lemma grant_inv:
  assumes "(sid, pid) \<in> set (claim_grant sha op snap db)"
  obtains token now s db1 db' where "op = ClaimExecution token now pid sid" "run_op sha op snap db = db'"
      "length (filter (claimable sid) (settlements db)) = 1"
      "db' = db1 \<lparr> settlements := fst (sql_update (claimable sid) (claimed_row token now) (settlements db)) \<rparr>"
      "(pid = [] \<and> db1 = db) \<or>
       (pid \<noteq> [] \<and> (\<exists>claim. claim_permit sha token now pid sid s snap db = Inr (claim, db1)))"
proof -
  from assms obtain token now where op: "op = ClaimExecution token now pid sid"
      and allowed: "dget (fst (claim_settlement_execution_db sha token now pid sid snap db)) ''broadcast_allowed'' = PBool True"
    unfolding claim_grant_def by (cases op) (auto split: if_splits)
  obtain res db' where run: "claim_settlement_execution_db sha token now pid sid snap db = (res, db')"
    by (cases "claim_settlement_execution_db sha token now pid sid snap db")
  from run show thesis
  proof (cases rule: claim_cases)
    case refused
    with allowed run show thesis by simp
  next
    case (granted s db1)
    show thesis
      by (rule that [of token now db' db1 s]) (use op run granted in auto)
  qed
qed

lemma grant_effect:
  assumes wf: "settlements_wf db" and "(sid, pid) \<in> set (claim_grant sha op snap db)"
  obtains r r' where "find_settlement sid db = Some r" "claim_open r"
    "find_settlement sid (run_op sha op snap db) = Some r'" "\<not> claim_open r'"
  using assms(2)
proof (cases rule: grant_inv)
  case (1 token now s db1 db')
  obtain r where r: "find_settlement sid db = Some r" "claimable sid r"
    using unique_filter_one [of st_settlement_id "settlements db" "claimable sid" sid] wf 1(3)
    by (auto simp: settlements_wf_def claimable_def find_settlement_def)
  have "settlements db' = fst (sql_update (claimable sid) (claimed_row token now) (settlements db))"
    using 1(4) by simp
  then have "find_settlement sid db' = Some (claimed_row token now r)"
    using r by (simp add: find_settlement_def row_by_update claimed_row_def)
  then show thesis
    using r that [of r "claimed_row token now r"] 1(2)
    by (simp add: claim_open_def claimable_def claimed_row_def coalesce_def)
qed

lemma claim_stays_closed: "row_evolves r r' \<Longrightarrow> \<not> claim_open r \<Longrightarrow> \<not> claim_open r'"
proof -
  assume "row_evolves r r'" and closed: "\<not> claim_open r"
  then consider "st_claim_status r' = st_claim_status r"
    | "st_claim_status r' = Some ''broadcast_submitted''" | "st_claim_status r' = Some ''broadcast_unknown''"
    | "st_claim_status r' = Some ''execution_failed_locked''"
    unfolding row_evolves_def claim_moves_def by blast
  then show ?thesis by cases (use closed in \<open>simp_all add: claim_open_def coalesce_def\<close>)
qed

lemma closed_no_grants:
  "settlements_wf db \<Longrightarrow> find_settlement sid db = Some r \<Longrightarrow> \<not> claim_open r \<Longrightarrow>
   filter (\<lambda>(s, p). s = sid) (grants sha ops db) = []"
proof (induction ops arbitrary: db r)
  case (Cons x ops)
  obtain op snap where x: "x = (op, snap)" by (cases x)
  obtain r' where r': "find_settlement sid (run_op sha op snap db) = Some r'" "row_evolves r r'"
    using run_op_row [OF Cons.prems(1,2)] .
  have "(sid, p) \<notin> set (claim_grant sha op snap db)" for p
    using grant_effect [OF Cons.prems(1), of sid p sha op snap] Cons.prems(2,3) by auto
  then have "filter (\<lambda>(s, p). s = sid) (claim_grant sha op snap db) = []"
    by (auto simp: filter_empty_conv)
  moreover have "filter (\<lambda>(s, p). s = sid) (grants sha ops (run_op sha op snap db)) = []"
    using Cons.IH [OF run_op_wf r'(1)] claim_stays_closed [OF r'(2)] Cons.prems by blast
  ultimately show ?case using x by simp
qed simp

lemma grant_short: "length (claim_grant sha op snap db) \<le> 1"
  by (simp add: claim_grant_def split: settlement_op.splits)

text \<open>
  C1: along any run of settlement operations, with sessions reading arbitrarily old data, a
  broadcast is allowed at most once for each settlement.
\<close>

theorem broadcast_allowed_once:
  assumes "settlements_wf db"
  shows "length (filter (\<lambda>(s, p). s = sid) (grants sha ops db)) \<le> 1"
  using assms
proof (induction ops arbitrary: db)
  case (Cons x ops)
  obtain op snap where x: "x = (op, snap)" by (cases x)
  have IH: "length (filter (\<lambda>(s, p). s = sid) (grants sha ops (run_op sha op snap db))) \<le> 1"
    using Cons run_op_wf by blast
  show ?case
  proof (cases "\<exists>p. (sid, p) \<in> set (claim_grant sha op snap db)")
    case True
    then obtain p where "(sid, p) \<in> set (claim_grant sha op snap db)" by blast
    then obtain r' where "find_settlement sid (run_op sha op snap db) = Some r'" "\<not> claim_open r'"
      using grant_effect [OF Cons.prems] by metis
    then have "filter (\<lambda>(s, p). s = sid) (grants sha ops (run_op sha op snap db)) = []"
      using closed_no_grants run_op_wf [OF Cons.prems] by blast
    moreover have "length (filter (\<lambda>(s, p). s = sid) (claim_grant sha op snap db)) \<le> 1"
      using grant_short [of sha op snap db] length_filter_le le_trans by blast
    ultimately show ?thesis using x by simp
  next
    case False
    then have "filter (\<lambda>(s, p). s = sid) (claim_grant sha op snap db) = []"
      by (auto simp: filter_empty_conv)
    with IH x show ?thesis by simp
  qed
qed simp

theorem broadcast_allowed_once_witness:
  "length (filter (\<lambda>(s, p). s = ''s1'') (grants (\<lambda>s. s)
     [(ClaimExecution ''t1'' 5 [] ''s1'', sample_pdb), (ClaimExecution ''t2'' 5 [] ''s1'', sample_pdb)] sample_pdb)) \<le> 1"
  by (rule broadcast_allowed_once) (simp add: settlements_wf_def sample_pdb_def unique_by_def)

section \<open>Permits, statuses and signatures along a run\<close>

definition permit_used :: "string \<Rightarrow> pdb \<Rightarrow> bool" where
  "permit_used pid db =
     (\<forall>p. row_by pm_permit_id pid (permits db) = Some p \<longrightarrow> pm_state p \<noteq> ''issued'')"

text \<open>Permits that differ in the claim columns only.\<close>

definition same_permit :: "permit \<Rightarrow> permit \<Rightarrow> bool" where
  "same_permit p q =
     (q = p \<lparr> pm_state := pm_state q, pm_claim_id := pm_claim_id q, pm_claimed_by := pm_claimed_by q,
              pm_claimed_at := pm_claimed_at q \<rparr>)"

lemma permits_step:
  assumes wf: "settlements_wf db"
  shows "permits (run_op sha op snap db) = permits db \<or>
    (\<exists>pid sid now f. permits (run_op sha op snap db) = fst (sql_update (permit_open pid sid now) f (permits db)) \<and>
       (\<forall>r. pm_permit_id (f r) = pm_permit_id r \<and> pm_state (f r) = ''claimed'' \<and> same_permit r (f r)))"
proof (cases "\<exists>token now pid sid. op = ClaimExecution token now pid sid")
  case True
  then obtain token now pid sid where op: "op = ClaimExecution token now pid sid" by blast
  obtain res db' where run: "claim_settlement_execution_db sha token now pid sid snap db = (res, db')"
    by (cases "claim_settlement_execution_db sha token now pid sid snap db")
  have ro: "run_op sha op snap db = db'" by (simp add: op run)
  from run show ?thesis
  proof (cases rule: claim_cases)
    case (granted s db1)
    from granted(7) show ?thesis
    proof
      assume "pid \<noteq> [] \<and> settlements db1 = settlements db \<and>
        (\<exists>claim. claim_permit sha token now pid sid s snap db = Inr (claim, db1))"
      then obtain claim where "claim_permit sha token now pid sid s snap db = Inr (claim, db1)" by blast
      then show ?thesis
      proof (cases rule: claim_permit_Inr)
        case (1 p claim_id)
        show ?thesis
          by (rule disjI2, rule exI [of _ pid], rule exI [of _ sid], rule exI [of _ now],
              rule exI [of _ "\<lambda>r. r \<lparr> pm_state := ''claimed'', pm_claim_id := Some claim_id,
                pm_claimed_by := Some ''settlement_execution_guard_v2'', pm_claimed_at := Some now \<rparr>"])
             (simp add: ro granted(6) 1(6) same_permit_def)
      qed
    qed (simp add: ro granted(6))
  qed (simp add: ro)
qed (use run_op_permits [OF _ wf] in blast)

lemma permits_step_keeps:
  assumes "settlements_wf db"
  shows "unique_by pm_permit_id (permits db) \<Longrightarrow> unique_by pm_permit_id (permits (run_op sha op snap db))"
    and "permit_used k db \<Longrightarrow> permit_used k (run_op sha op snap db)"
  using permits_step [OF assms, of sha op snap]
  by (auto simp: unique_by_update permit_used_def row_by_update split: if_splits)

lemma permit_grant_effect:
  assumes wf: "unique_by pm_permit_id (permits db)" and pid: "pid \<noteq> []"
    and grant: "(sid, pid) \<in> set (claim_grant sha op snap db)"
  shows "\<not> permit_used pid db \<and> permit_used pid (run_op sha op snap db)"
  using grant
proof (cases rule: grant_inv)
  case (1 token now s db1 db')
  with pid obtain claim where "claim_permit sha token now pid sid s snap db = Inr (claim, db1)" by blast
  then show ?thesis
  proof (cases rule: claim_permit_Inr)
    case (1 p claim_id)
    obtain r where r: "row_by pm_permit_id pid (permits db) = Some r" "permit_open pid sid now r"
      using unique_filter_one [of pm_permit_id "permits db" "permit_open pid sid now" pid] wf 1(5)
      by (auto simp: permit_open_def)
    let ?f = "\<lambda>r. r \<lparr> pm_state := ''claimed'', pm_claim_id := Some claim_id,
                pm_claimed_by := Some ''settlement_execution_guard_v2'', pm_claimed_at := Some now \<rparr>"
    have "permits (run_op sha op snap db) = fst (sql_update (permit_open pid sid now) ?f (permits db))"
      using \<open>run_op sha op snap db = db'\<close> \<open>db' = _\<close> 1(6) by simp
    with r show ?thesis by (simp add: permit_used_def row_by_update) (simp add: permit_open_def)
  qed
qed

lemma used_permit_no_grants:
  "settlements_wf db \<Longrightarrow> unique_by pm_permit_id (permits db) \<Longrightarrow> pid \<noteq> [] \<Longrightarrow> permit_used pid db \<Longrightarrow>
   filter (\<lambda>(s, p). p = pid) (grants sha ops db) = []"
proof (induction ops arbitrary: db)
  case (Cons x ops)
  obtain op snap where x: "x = (op, snap)" by (cases x)
  have "(s, pid) \<notin> set (claim_grant sha op snap db)" for s
    using permit_grant_effect [OF Cons.prems(2,3)] Cons.prems(4) by blast
  then have "filter (\<lambda>(s, p). p = pid) (claim_grant sha op snap db) = []"
    by (auto simp: filter_empty_conv)
  moreover have "filter (\<lambda>(s, p). p = pid) (grants sha ops (run_op sha op snap db)) = []"
    using Cons.IH run_op_wf permits_step_keeps Cons.prems by blast
  ultimately show ?case using x by simp
qed simp

text \<open>
  An execution permit allows at most one broadcast, whichever settlements it is presented for
  and however the sessions interleave.
\<close>

theorem permit_allows_once:
  assumes "settlements_wf db" and "unique_by pm_permit_id (permits db)" and "pid \<noteq> []"
  shows "length (filter (\<lambda>(s, p). p = pid) (grants sha ops db)) \<le> 1"
  using assms(1,2)
proof (induction ops arbitrary: db)
  case (Cons x ops)
  obtain op snap where x: "x = (op, snap)" by (cases x)
  let ?db = "run_op sha op snap db"
  have wf: "settlements_wf ?db" "unique_by pm_permit_id (permits ?db)"
    using Cons.prems run_op_wf permits_step_keeps by blast+
  have IH: "length (filter (\<lambda>(s, p). p = pid) (grants sha ops ?db)) \<le> 1" using Cons.IH wf by blast
  show ?case
  proof (cases "\<exists>s. (s, pid) \<in> set (claim_grant sha op snap db)")
    case True
    then have "filter (\<lambda>(s, p). p = pid) (grants sha ops ?db) = []"
      using permit_grant_effect [OF Cons.prems(2) assms(3)] used_permit_no_grants wf assms(3) by blast
    moreover have "length (filter (\<lambda>(s, p). p = pid) (claim_grant sha op snap db)) \<le> 1"
      using grant_short [of sha op snap db] length_filter_le le_trans by blast
    ultimately show ?thesis using x by simp
  next
    case False
    then have "filter (\<lambda>(s, p). p = pid) (claim_grant sha op snap db) = []"
      by (auto simp: filter_empty_conv)
    with IH x show ?thesis by simp
  qed
qed simp

definition sample_permit :: permit where
  "sample_permit =
     \<lparr> pm_permit_id = ''p1'', pm_simulation_id = ''sim1'', pm_authorization_id = ''a1'', pm_plan_id = ''pl1'',
       pm_settlement_id = ''s1'', pm_order_id = ''o1'', pm_cluster = ''solana-devnet'', pm_genesis_hash = ''g'',
       pm_mint = ''m'', pm_transaction_sha = ''t'', pm_gross_minor = 500000000, pm_commission_minor = 100000000,
       pm_payout_minor = 400000000, pm_state = ''issued'', pm_policy_version = ''v1'', pm_permit_sha = ''d'', pm_issued_at = 1, pm_expires_at = 100, pm_claim_id = None,
       pm_claimed_by = None, pm_claimed_at = None \<rparr>"

theorem permit_allows_once_witness:
  "length (filter (\<lambda>(s, p). p = ''p1'') (grants (\<lambda>s. s)
     [(ClaimExecution ''t1'' 5 ''p1'' ''s1'', sample_pdb \<lparr> permits := [sample_permit] \<rparr>)]
     (sample_pdb \<lparr> permits := [sample_permit] \<rparr>))) \<le> 1"
  by (rule permit_allows_once) (simp_all add: settlements_wf_def sample_pdb_def unique_by_def)

section \<open>Statuses along a run\<close>

lemma status_step:
  assumes "settlements_wf db" and "find_settlement k db \<noteq> None"
  shows "settlement_status_of k (run_op sha op snap db) = settlement_status_of k db \<or>
    (\<exists>s n. settlement_status_of k db = Some s \<and> settlement_status_of k (run_op sha op snap db) = Some n \<and>
       n \<in> set (allowed_next s))"
    and "find_settlement k (run_op sha op snap db) \<noteq> None"
proof -
  from assms obtain r where r: "find_settlement k db = Some r" by blast
  obtain r' where r': "find_settlement k (run_op sha op snap db) = Some r'" "row_evolves r r'"
    using run_op_row [OF assms(1) r] .
  then show "find_settlement k (run_op sha op snap db) \<noteq> None" by simp
  show "settlement_status_of k (run_op sha op snap db) = settlement_status_of k db \<or>
    (\<exists>s n. settlement_status_of k db = Some s \<and> settlement_status_of k (run_op sha op snap db) = Some n \<and>
       n \<in> set (allowed_next s))"
    using r r' by (auto simp: settlement_status_of_def row_evolves_def status_moves_def split: option.splits)
qed

lemma allowed_next_members:
  "''settled'' \<in> set (allowed_next s) \<longleftrightarrow> s = ''release_confirmed''"
  "''release_confirmed'' \<in> set (allowed_next s) \<longleftrightarrow> s = ''release_submitted''"
  "allowed_next ''settled'' = []"
  by (auto simp: allowed_next_def settlement_allowed_transitions_def)

lemma reached_by_transition:
  "settlements_wf db \<Longrightarrow> find_settlement k db \<noteq> None \<Longrightarrow> settlement_status_of k db \<noteq> Some x \<Longrightarrow>
   Some x \<in> set (statuses_along sha k ops db) \<Longrightarrow>
   \<exists>s. Some s \<in> set (statuses_along sha k ops db) \<and> x \<in> set (allowed_next s)"
proof (induction ops arbitrary: db)
  case (Cons y ops)
  obtain op snap where y: "y = (op, snap)" by (cases y)
  let ?db = "run_op sha op snap db"
  have later: "Some x \<in> set (statuses_along sha k ops ?db)" using Cons.prems(3,4) y by auto
  have wf: "settlements_wf ?db" "find_settlement k ?db \<noteq> None"
    using run_op_wf status_step(2) Cons.prems by blast+
  show ?case
  proof (cases "settlement_status_of k ?db = Some x")
    case True
    then show ?thesis using status_step(1) [OF Cons.prems(1,2), of sha op snap] Cons.prems(3) y by auto
  next
    case False
    then show ?thesis using Cons.IH [OF wf False later] y by auto
  qed
qed simp

lemma last_status: "settlement_status_of k (run_ops sha ops db) \<in> set (statuses_along sha k ops db)"
  by (induction ops arbitrary: db) auto

text \<open>
  However the operations are ordered and interleaved, a settlement that starts outside the
  release phase and ends \<open>settled\<close> went through \<open>release_submitted\<close> and \<open>release_confirmed\<close>.
\<close>

theorem settled_needs_release:
  assumes "settlements_wf db" and "find_settlement k db \<noteq> None"
    and start: "settlement_status_of k db \<notin> {Some ''release_submitted'', Some ''release_confirmed'', Some ''settled''}"
    and final: "settlement_status_of k (run_ops sha ops db) = Some ''settled''"
  shows "Some ''release_submitted'' \<in> set (statuses_along sha k ops db) \<and>
         Some ''release_confirmed'' \<in> set (statuses_along sha k ops db)"
proof -
  have "Some ''settled'' \<in> set (statuses_along sha k ops db)" using final last_status by metis
  then have confirmed: "Some ''release_confirmed'' \<in> set (statuses_along sha k ops db)"
    using reached_by_transition [OF assms(1,2), of "''settled''"] start allowed_next_members(1) by auto
  then have "Some ''release_submitted'' \<in> set (statuses_along sha k ops db)"
    using reached_by_transition [OF assms(1,2), of "''release_confirmed''"] start allowed_next_members(2) by auto
  with confirmed show ?thesis by simp
qed

text \<open>A run that settles: every step reads the row as it is.\<close>

definition status_row :: "string \<Rightarrow> pdb" where
  "status_row s = sample_pdb \<lparr> settlements := [sample_settlement \<lparr> st_settlement_status := Some s \<rparr>] \<rparr>"

definition release_run :: "(settlement_op \<times> pdb) list" where
  "release_run =
     [(SetStatus 1 ''s1'' ''release_submitted'' [] None None PNone, status_row ''ready_for_release''),
      (SetStatus 2 ''s1'' ''release_confirmed'' [] None None PNone, status_row ''release_submitted''),
      (SetStatus 3 ''s1'' ''settled'' [] None None PNone, status_row ''release_confirmed'')]"

lemmas status_eval =
  update_settlement_status_db_def find_settlement_def row_by_def sql_update_def allowed_in_transition
  allowed_next_def settlement_allowed_transitions_def or_text_def coalesce_def Let_def

theorem settled_needs_release_witness:
  "Some ''release_submitted'' \<in> set (statuses_along (\<lambda>s. s) ''s1'' release_run (status_row ''ready_for_release'')) \<and>
   Some ''release_confirmed'' \<in> set (statuses_along (\<lambda>s. s) ''s1'' release_run (status_row ''ready_for_release''))"
proof (rule settled_needs_release)
  show "settlement_status_of ''s1'' (run_ops (\<lambda>s. s) release_run (status_row ''ready_for_release'')) = Some ''settled''"
    by (simp add: release_run_def status_row_def sample_pdb_def sample_settlement_def settlement_status_of_def status_eval)
qed (simp_all add: settlements_wf_def status_row_def sample_pdb_def sample_settlement_def unique_by_def
       find_settlement_def row_by_def settlement_status_of_def)

text \<open>
  A settled settlement stays settled, and a settlement whose broadcast was recorded stays so
  under the token that recorded it, under every further operation.
\<close>

theorem final_states_stay:
  assumes "settlements_wf db" and "find_settlement k db = Some r"
  shows "\<exists>r'. find_settlement k (run_ops sha ops db) = Some r' \<and>
    (st_settlement_status r = Some ''settled'' \<longrightarrow> st_settlement_status r' = Some ''settled'') \<and>
    (st_claim_status r = Some ''broadcast_submitted'' \<longrightarrow>
       st_claim_status r' = Some ''broadcast_submitted'' \<and> st_claim_token r' = st_claim_token r) \<and>
    (st_commission_tx r \<noteq> None \<longrightarrow> st_commission_tx r' \<noteq> None)"
  using assms
proof (induction ops arbitrary: db r)
  case (Cons x ops)
  obtain op snap where x: "x = (op, snap)" by (cases x)
  obtain r1 where r1: "find_settlement k (run_op sha op snap db) = Some r1" "row_evolves r r1"
    using run_op_row [OF Cons.prems] .
  obtain r' where r': "find_settlement k (run_ops sha (x # ops) db) = Some r'"
    and later: "st_settlement_status r1 = Some ''settled'' \<longrightarrow> st_settlement_status r' = Some ''settled''"
      "st_claim_status r1 = Some ''broadcast_submitted'' \<longrightarrow>
         st_claim_status r' = Some ''broadcast_submitted'' \<and> st_claim_token r' = st_claim_token r1"
      "st_commission_tx r1 \<noteq> None \<longrightarrow> st_commission_tx r' \<noteq> None"
    using Cons.IH [OF run_op_wf [OF Cons.prems(1)] r1(1)] x by auto
  have "st_settlement_status r = Some ''settled'' \<longrightarrow> st_settlement_status r1 = Some ''settled''"
    using r1(2) by (auto simp: row_evolves_def status_moves_def allowed_next_members split: option.splits)
  moreover have "st_claim_status r = Some ''broadcast_submitted'' \<longrightarrow>
      st_claim_status r1 = Some ''broadcast_submitted'' \<and> st_claim_token r1 = st_claim_token r"
    using r1(2) by (auto simp: row_evolves_def claim_moves_def claim_open_def coalesce_def)
  moreover have "st_commission_tx r \<noteq> None \<longrightarrow> st_commission_tx r1 \<noteq> None"
    using r1(2) by (simp add: row_evolves_def)
  ultimately show ?case using r' later by auto
qed simp

theorem final_states_stay_witness:
  "\<exists>r'. find_settlement ''s1'' (run_ops (\<lambda>s. s) [(ClaimExecution ''t1'' 5 [] ''s1'', sample_pdb)]
         (sample_pdb \<lparr> settlements := [sample_settlement \<lparr> st_settlement_status := Some ''settled'',
            st_claim_status := Some ''broadcast_submitted'', st_commission_tx := Some ''sig'' \<rparr>] \<rparr>)) = Some r' \<and>
    st_settlement_status r' = Some ''settled'' \<and> st_claim_status r' = Some ''broadcast_submitted'' \<and>
    st_claim_token r' = st_claim_token sample_settlement \<and> st_commission_tx r' \<noteq> None"
  using final_states_stay [of "sample_pdb \<lparr> settlements := [sample_settlement \<lparr> st_settlement_status := Some ''settled'',
      st_claim_status := Some ''broadcast_submitted'', st_commission_tx := Some ''sig'' \<rparr>] \<rparr>" "''s1''"
      "sample_settlement \<lparr> st_settlement_status := Some ''settled'',
      st_claim_status := Some ''broadcast_submitted'', st_commission_tx := Some ''sig'' \<rparr>" "\<lambda>s. s"
      "[(ClaimExecution ''t1'' 5 [] ''s1'', sample_pdb)]"]
  by (simp add: settlements_wf_def sample_pdb_def sample_settlement_def unique_by_def find_settlement_def row_by_def)

end
