(* ===== verification/CheckoutTables.thy ===== *)
theory CheckoutTables
  imports Settlements
begin

text \<open>
  The tables of the universal checkout: quotes (\<open>iat/api/checkout_api.py\<close>), deliveries and their
  events (\<open>iat/checkout_delivery.py\<close>), final receipts and their events (\<open>iat/checkout_receipt.py\<close>),
  compensations and their events (\<open>iat/checkout_compensation.py\<close>), orders as the dicts
  \<open>get_order_db\<close> returns, the processed transaction signatures, and the settlement database. JSON columns hold the decoded value.
  An event's random identifier is left out: nothing reads it back.
\<close>

record quote_row =
  qt_quote_id :: string
  qt_order_id :: string
  qt_buyer_wallet :: string
  qt_route :: string
  qt_state :: string
  qt_payload :: pyval
  qt_created_at :: int
  qt_tx_signature :: "string option"
  qt_input_asset :: string
  qt_required_iat :: string
  qt_intent_hash :: string
  qt_request_hash :: string
  qt_key :: string
  qt_expires_at :: int
  qt_updated_at :: int
  qt_evidence :: "pydict option"

record delivery =
  dl_quote_id :: string
  dl_order_id :: string
  dl_tx_signature :: string
  dl_state :: string
  dl_attempt_count :: int
  dl_next_attempt_at :: int
  dl_lease_token :: "string option"
  dl_lease_until :: "int option"
  dl_last_error :: "string option"
  dl_result :: "pyval option"
  dl_settlement_state :: string
  dl_settlement_attempts :: int
  dl_settlement_next :: "int option"
  dl_settlement_error :: "string option"
  dl_created_at :: int
  dl_updated_at :: int
  dl_completed_at :: "int option"

record flow_event =
  fe_quote_id :: string
  fe_subject :: string
  fe_type :: string
  fe_from :: "string option"
  fe_to :: string
  fe_actor :: string
  fe_reason :: "string option"
  fe_at :: int

record compensation =
  cp_compensation_id :: string
  cp_quote_id :: string
  cp_order_id :: string
  cp_buyer_wallet :: string
  cp_route :: string
  cp_refund_asset :: string
  cp_refund_mint :: string
  cp_refund_amount :: string
  cp_state :: string
  cp_eligibility_reason :: string
  cp_requested_by :: string
  cp_decision_reason :: "string option"
  cp_decision_actor :: "string option"
  cp_payout_signature :: "string option"
  cp_created_at :: int
  cp_updated_at :: int
  cp_decided_at :: "int option"
  cp_confirmed_at :: "int option"

record receipt =
  rt_quote_id :: string
  rt_order_id :: string
  rt_channel :: string
  rt_destination :: string
  rt_state :: string
  rt_payload_digest :: "string option"
  rt_receipt_token :: string
  rt_configured_at :: int
  rt_payload_ready_at :: "int option"
  rt_dispatched_at :: "int option"
  rt_accepted_at :: "int option"
  rt_disputed_at :: "int option"
  rt_dispute_code :: "string option"
  rt_buyer_message :: "string option"
  rt_dispatch_attempts :: int
  rt_dispatch_next :: "int option"
  rt_dispatch_error :: "string option"
  rt_dispatch_response :: "int option"
  rt_dispatch_signature :: "string option"
  rt_dispatch_signer :: "string option"
  rt_provider_status :: "string option"
  rt_provider_event_at :: "int option"
  rt_provider_message_id :: "string option"
  rt_sealed_payload :: "pyval option"
  rt_inbox_opened_at :: "int option"
  rt_inbox_signature :: "string option"
  rt_inbox_signer :: "string option"
  rt_updated_at :: int

record checkout_db =
  quotes :: "quote_row list"
  deliveries :: "delivery list"
  delivery_events :: "flow_event list"
  receipts :: "receipt list"
  receipt_events :: "flow_event list"
  compensations :: "compensation list"
  compensation_events :: "flow_event list"
  orders :: "pydict list"
  processed :: "string list"
  books :: pdb

text \<open>The primary key, the unique idempotency key and the unique index over the signatures that are there.\<close>

definition quote_clash :: "quote_row \<Rightarrow> quote_row \<Rightarrow> bool" where
  "quote_clash r x =
     (qt_quote_id r = qt_quote_id x \<or> qt_key r = qt_key x \<or>
      (qt_tx_signature r \<noteq> None \<and> qt_tx_signature r = qt_tx_signature x))"

definition delivery_clash :: "delivery \<Rightarrow> delivery \<Rightarrow> bool" where
  "delivery_clash r x =
     (dl_quote_id r = dl_quote_id x \<or> dl_order_id r = dl_order_id x \<or> dl_tx_signature r = dl_tx_signature x)"

definition compensation_clash :: "compensation \<Rightarrow> compensation \<Rightarrow> bool" where
  "compensation_clash r x =
     (cp_compensation_id r = cp_compensation_id x \<or> cp_quote_id r = cp_quote_id x \<or>
      cp_order_id r = cp_order_id x \<or>
      (cp_payout_signature r \<noteq> None \<and> cp_payout_signature r = cp_payout_signature x))"

definition receipt_clash :: "receipt \<Rightarrow> receipt \<Rightarrow> bool" where
  "receipt_clash r x =
     (rt_quote_id r = rt_quote_id x \<or> rt_order_id r = rt_order_id x \<or> rt_receipt_token r = rt_receipt_token x)"

definition find_delivery :: "string \<Rightarrow> checkout_db \<Rightarrow> delivery option" where
  "find_delivery quote_id db = row_by dl_quote_id quote_id (deliveries db)"

definition find_order :: "string \<Rightarrow> checkout_db \<Rightarrow> pydict option" where
  "find_order order_id db = row_by (\<lambda>r. dget r ''order_id'') (PStr order_id) (orders db)"

definition empty_checkout :: checkout_db where
  "empty_checkout = \<lparr> quotes = [], deliveries = [], delivery_events = [], receipts = [], receipt_events = [],
     compensations = [], compensation_events = [], orders = [], processed = [], books = empty_pdb \<rparr>"

text \<open>Retry delays of the delivery, settlement and dispatch queues: \<open>min(base * 2 ** k, 3600)\<close>.\<close>

definition backoff :: "int \<Rightarrow> int \<Rightarrow> int" where
  "backoff base k = min (base * 2 ^ nat k) 3600"

lemma backoff_bounds: "0 < base \<Longrightarrow> 0 < backoff base k \<and> backoff base k \<le> 3600"
  by (simp add: backoff_def)

lemma backoff_mono: "0 < base \<Longrightarrow> k \<le> j \<Longrightarrow> backoff base k \<le> backoff base j"
proof -
  assume "0 < base" "k \<le> j"
  then have "base * 2 ^ nat k \<le> base * 2 ^ nat j"
    by (intro mult_left_mono power_increasing nat_mono) auto
  then show ?thesis by (auto simp: backoff_def)
qed

end
