(* ===== verification/CheckoutCompensation.thy ===== *)
theory CheckoutCompensation
  imports CheckoutTables Interfaces
begin

text \<open>
  Compensation of paid but undelivered checkouts (\<open>iat/checkout_compensation.py\<close>): a review request is
  created at most once per quote and order, only for a confirmed payment whose delivery failed for
  good or was disputed, and is decided once. The refund terms come from the stored quote. \<open>iat_mint\<close>
  is the configured token address, \<open>cid\<close> the drawn identifier.
\<close>

definition eligible_delivery_states :: "string list" where
  "eligible_delivery_states = [''exhausted'', ''blocked'']"

definition get_compensation :: "string \<Rightarrow> checkout_db \<Rightarrow> compensation option" where
  "get_compensation quote_id db = row_by cp_quote_id quote_id (compensations db)"

text \<open>\<open>payload[..][..]\<close>; \<open>None\<close> is the exception of a missing key.\<close>

definition payload_item :: "pyval \<Rightarrow> string \<Rightarrow> string \<Rightarrow> pyval option" where
  "payload_item payload section name =
     (case payload of
        PDict d \<Rightarrow> (case map_of d section of Some (PDict e) \<Rightarrow> map_of e name | _ \<Rightarrow> None)
      | _ \<Rightarrow> None)"

definition refund_terms :: "string \<Rightarrow> quote_row \<Rightarrow> (string \<times> string \<times> string) option" where
  "refund_terms iat_mint quote =
     (let payload = qt_payload quote in
      if qt_route quote = ''treasury''
      then (case (payload_item payload ''input'' ''asset'', payload_item payload ''input'' ''mint'',
                  payload_item payload ''input'' ''amount_minor'') of
              (Some asset, Some mint, Some amount) \<Rightarrow> Some (py_str asset, py_str mint, py_str amount)
            | _ \<Rightarrow> None)
      else map_option (\<lambda>amount. (''IAT'', iat_mint, py_str amount))
             (payload_item payload ''output'' ''amount_minor''))"

definition compensation_event ::
  "compensation \<Rightarrow> string \<Rightarrow> string option \<Rightarrow> string \<Rightarrow> string \<Rightarrow> string option \<Rightarrow> int \<Rightarrow> flow_event" where
  "compensation_event c event_type from_state to_state actor reason now =
     \<lparr> fe_quote_id = cp_quote_id c, fe_subject = cp_compensation_id c, fe_type = event_type,
       fe_from = from_state, fe_to = to_state, fe_actor = take 128 actor, fe_reason = reason, fe_at = now \<rparr>"

text \<open>The joined row and the eligibility tests: the quote, the reason of the request and the refund terms.\<close>

definition compensation_terms ::
  "string \<Rightarrow> string \<Rightarrow> checkout_db \<Rightarrow> py_error + quote_row \<times> string \<times> string \<times> string \<times> string" where
  "compensation_terms iat_mint quote_id db =
     (case (row_by qt_quote_id quote_id (quotes db), find_delivery quote_id db) of
        (Some quote, Some d) \<Rightarrow>
          if qt_state quote \<noteq> ''confirmed'' then Inl (ValueError ''payment_not_confirmed'')
          else
            let receipt_state = (case row_by rt_quote_id quote_id (receipts db) of None \<Rightarrow> [] | Some r \<Rightarrow> rt_state r);
                disputed = (receipt_state = ''disputed'')
            in if dl_state d \<notin> set eligible_delivery_states \<and> \<not> disputed
               then Inl (ValueError ''compensation_not_eligible'')
               else (case refund_terms iat_mint quote of
                       None \<Rightarrow> Inl KeyError
                     | Some (asset, mint, amount) \<Rightarrow>
                         Inr (quote,
                              if disputed then ''buyer_disputed_sealed_delivery''
                              else if dl_state d = ''exhausted'' then ''delivery_attempts_exhausted''
                              else ''foundation_delivery_blocked'', asset, mint, amount))
      | _ \<Rightarrow> Inl (ValueError ''checkout_delivery_not_found''))"

definition new_compensation ::
  "string \<Rightarrow> string \<Rightarrow> int \<Rightarrow> quote_row \<times> string \<times> string \<times> string \<times> string \<Rightarrow> string \<Rightarrow> compensation" where
  "new_compensation cid requested_by now terms quote_id =
     (case terms of (quote, reason, asset, mint, amount) \<Rightarrow>
        \<lparr> cp_compensation_id = ''cmp_'' @ cid, cp_quote_id = quote_id, cp_order_id = qt_order_id quote,
          cp_buyer_wallet = qt_buyer_wallet quote, cp_route = qt_route quote, cp_refund_asset = asset,
          cp_refund_mint = mint, cp_refund_amount = amount, cp_state = ''pending_review'',
          cp_eligibility_reason = reason, cp_requested_by = take 128 requested_by,
          cp_decision_reason = None, cp_decision_actor = None, cp_payout_signature = None,
          cp_created_at = now, cp_updated_at = now, cp_decided_at = None, cp_confirmed_at = None \<rparr>)"

text \<open>
  \<open>request_compensation\<close>; \<open>snap\<close> is the database of its first lookup, which commits on its own.
  The result is the stored row with the flag \<open>idempotent\<close>.
\<close>

definition request_compensation ::
  "string \<Rightarrow> string \<Rightarrow> string \<Rightarrow> string \<Rightarrow> int \<Rightarrow> checkout_db \<Rightarrow> checkout_db \<Rightarrow>
   (py_error + compensation option \<times> bool) \<times> checkout_db" where
  "request_compensation iat_mint cid quote_id requested_by now snap db =
     (case get_compensation quote_id snap of
        Some existing \<Rightarrow> (Inr (Some existing, True), db)
      | None \<Rightarrow>
          let failed = (\<lambda>e. case get_compensation quote_id db of
                              Some existing \<Rightarrow> (Inr (Some existing, True), db)
                            | None \<Rightarrow> (Inl e, db))
          in (case compensation_terms iat_mint quote_id db of
                Inl e \<Rightarrow> failed e
              | Inr terms \<Rightarrow>
                  let row = new_compensation cid requested_by now terms quote_id
                  in (case sql_insert compensation_clash row (compensations db) of
                        None \<Rightarrow> failed IntegrityViolation
                      | Some t \<Rightarrow>
                          (Inr (Some row, False),
                           db \<lparr> compensations := t,
                                compensation_events := compensation_events db @
                                  [compensation_event row ''compensation_requested'' None ''pending_review''
                                     requested_by (Some (cp_eligibility_reason row)) now] \<rparr>))))"

definition decide_compensation ::
  "string \<Rightarrow> bool \<Rightarrow> string \<Rightarrow> string \<Rightarrow> int \<Rightarrow> checkout_db \<Rightarrow> checkout_db \<Rightarrow>
   (py_error + compensation option \<times> bool) \<times> checkout_db" where
  "decide_compensation quote_id approve reason actor now snap db =
     (let clean_reason = collapse_spaces reason; target = (if approve then ''approved'' else ''denied'') in
      if \<not> (8 \<le> length clean_reason \<and> length clean_reason \<le> 500)
      then (Inl (ValueError ''compensation_decision_reason_invalid''), db)
      else (case get_compensation quote_id snap of
              None \<Rightarrow> (Inl (ValueError ''compensation_not_found''), db)
            | Some current \<Rightarrow>
                if cp_state current = target then (Inr (Some current, True), db)
                else if cp_state current \<noteq> ''pending_review''
                then (Inl (ValueError ''compensation_decision_not_allowed''), db)
                else
                  let (t, n) = sql_update
                        (\<lambda>r. cp_quote_id r = quote_id \<and> cp_state r = ''pending_review'')
                        (\<lambda>r. r \<lparr> cp_state := target, cp_decision_reason := Some clean_reason,
                                 cp_decision_actor := Some (take 128 actor), cp_decided_at := Some now,
                                 cp_updated_at := now \<rparr>)
                        (compensations db)
                  in if n \<noteq> 1 then (Inl (ValueError ''compensation_decision_conflict''), db)
                     else
                       let db' = db \<lparr> compensations := t,
                                 compensation_events := compensation_events db @
                                   [compensation_event current ''compensation_decided'' (Some ''pending_review'')
                                      target actor (Some clean_reason) now] \<rparr>
                       in (Inr (get_compensation quote_id db', False), db')))"

text \<open>Reading: the dashboard's counts per state and its items (pending reviews first, oldest first).\<close>

fun count_states :: "string list \<Rightarrow> (string \<times> nat) list \<Rightarrow> (string \<times> nat) list" where
  "count_states [] counts = counts"
| "count_states (s # ss) counts =
     count_states ss (AList.update s (case map_of counts s of None \<Rightarrow> 1 | Some n \<Rightarrow> n + 1) counts)"

record compensation_overview =
  co_state_counts :: "(string \<times> nat) list"
  co_total :: nat
  co_items :: "compensation list"

definition compensation_dashboard :: "int \<Rightarrow> checkout_db \<Rightarrow> compensation_overview" where
  "compensation_dashboard limit db =
     (let counts = count_states (map cp_state (compensations db)) [] in
      \<lparr> co_state_counts = counts, co_total = sum_list (map snd counts),
        co_items = take (nat (clamp_int 1 500 limit))
          (sort_key (\<lambda>c. if cp_state c = ''pending_review'' then 0 else 1 :: int)
             (sort_key cp_updated_at (compensations db))) \<rparr>)"

definition public_compensation :: "compensation option \<Rightarrow> pydict option" where
  "public_compensation v =
     map_option (\<lambda>c.
       [(''compensation_id'', PStr (cp_compensation_id c)), (''state'', PStr (cp_state c)),
        (''refund_asset'', PStr (cp_refund_asset c)), (''refund_mint'', PStr (cp_refund_mint c)),
        (''refund_amount_minor'', PStr (cp_refund_amount c)),
        (''eligibility_reason'', PStr (cp_eligibility_reason c)), (''created_at'', PInt (cp_created_at c)),
        (''updated_at'', PInt (cp_updated_at c)), (''decided_at'', pint_opt (cp_decided_at c)),
        (''confirmed_at'', pint_opt (cp_confirmed_at c))]) v"

section \<open>Requests\<close>

lemma compensation_terms_Inr:
  assumes "compensation_terms mint q db = Inr (quote, reason, asset, rmint, amount)"
  obtains d where "row_by qt_quote_id q (quotes db) = Some quote" "qt_state quote = ''confirmed''"
      "find_delivery q db = Some d"
      "dl_state d \<in> set eligible_delivery_states \<or>
       (\<exists>r. row_by rt_quote_id q (receipts db) = Some r \<and> rt_state r = ''disputed'')"
      "refund_terms mint quote = Some (asset, rmint, amount)"
  using assms unfolding compensation_terms_def
  by (auto simp: Let_def split: option.splits if_splits)

lemma request_cases:
  assumes "request_compensation mint cid q by' now snap db = (res, db')"
  obtains (same) "db' = db" "\<nexists>x. res = Inr (x, False)"
  | (created) terms where "get_compensation q db = None" "compensation_terms mint q db = Inr terms"
      "list_all (\<lambda>x. \<not> compensation_clash (new_compensation cid by' now terms q) x) (compensations db)"
      "compensations db' = compensations db @ [new_compensation cid by' now terms q]"
      "res = Inr (Some (new_compensation cid by' now terms q), False)"
      "deliveries db' = deliveries db" "receipts db' = receipts db" "quotes db' = quotes db" "orders db' = orders db"
proof (cases "get_compensation q snap")
  case None
  have quote: "cp_quote_id (new_compensation cid by' now terms q) = q" for terms
    by (simp add: new_compensation_def split: prod.splits)
  show thesis
  proof (cases "get_compensation q db")
    case (Some existing)
    then have "existing \<in> set (compensations db) \<and> cp_quote_id existing = q"
      by (auto simp: get_compensation_def dest: row_by_SomeD)
    then have clash: "sql_insert compensation_clash (new_compensation cid by' now terms q) (compensations db) = None" for terms
      unfolding sql_insert_None by (intro bexI [of _ existing]) (auto simp: compensation_clash_def quote)
    have "db' = db \<and> (\<nexists>x. res = Inr (x, False))"
      using assms None Some clash unfolding request_compensation_def
      by (auto simp: Let_def split: sum.splits)
    then show thesis by (intro same) blast+
  next
    case new: None
    show thesis
    proof (cases "compensation_terms mint q db")
      case (Inl e)
      with assms None new show thesis by (intro same) (auto simp: request_compensation_def Let_def)
    next
      case (Inr terms)
      show thesis
      proof (cases "sql_insert compensation_clash (new_compensation cid by' now terms q) (compensations db)")
        case nil: None
        with assms None new Inr show thesis by (intro same) (auto simp: request_compensation_def Let_def)
      next
        case (Some t)
        with assms None new Inr show thesis
          by (intro created [of terms]) (auto simp: request_compensation_def sql_insert_Some list_all_iff Let_def)
      qed
    qed
  qed
next
  case (Some existing)
  with assms show thesis by (intro same) (auto simp: request_compensation_def)
qed

lemma new_compensation_simps [simp]:
  "cp_quote_id (new_compensation cid by' now terms q) = q"
  "cp_compensation_id (new_compensation cid by' now terms q) = ''cmp_'' @ cid"
  by (simp_all add: new_compensation_def split: prod.splits)

record compensation_request =
  cr_mint :: string
  cr_cid :: string
  cr_quote_id :: string
  cr_by :: string
  cr_now :: int
  cr_snap :: checkout_db

definition run_request :: "compensation_request \<Rightarrow> checkout_db \<Rightarrow> checkout_db" where
  "run_request q db =
     snd (request_compensation (cr_mint q) (cr_cid q) (cr_quote_id q) (cr_by q) (cr_now q) (cr_snap q) db)"

definition compensation_id_of :: "string \<Rightarrow> checkout_db \<Rightarrow> string option" where
  "compensation_id_of q db = map_option cp_compensation_id (get_compensation q db)"

lemma run_request_cases:
  "run_request q db = db \<or>
   (compensation_id_of (cr_quote_id q) db = None \<and>
    compensation_id_of (cr_quote_id q) (run_request q db) = Some (''cmp_'' @ cr_cid q) \<and>
    (\<forall>k. k \<noteq> cr_quote_id q \<longrightarrow> compensation_id_of k (run_request q db) = compensation_id_of k db))"
proof -
  obtain res db' where run: "request_compensation (cr_mint q) (cr_cid q) (cr_quote_id q) (cr_by q) (cr_now q) (cr_snap q) db = (res, db')"
    by (meson surj_pair)
  then have q: "run_request q db = db'" by (simp add: run_request_def)
  from run show ?thesis
  proof (cases rule: request_cases)
    case (created terms)
    then show ?thesis using q
      by (auto simp: compensation_id_of_def get_compensation_def row_by_append row_by_Cons split: option.splits)
  qed (simp add: q)
qed

interpretation compensation_recorder: idempotent_recorder run_request compensation_id_of cr_quote_id "\<lambda>q. ''cmp_'' @ cr_cid q"
proof unfold_locales
  show "compensation_id_of (cr_quote_id r) db = Some x \<Longrightarrow> run_request r db = db" for r db x
    using run_request_cases [of r db] by auto
  show "compensation_id_of (cr_quote_id r) db = None \<Longrightarrow>
      run_request r db = db \<or> compensation_id_of (cr_quote_id r) (run_request r db) = Some (''cmp_'' @ cr_cid r)" for r db
    using run_request_cases [of r db] by auto
  show "k \<noteq> cr_quote_id r \<Longrightarrow> compensation_id_of k (run_request r db) = compensation_id_of k db" for k r db
    using run_request_cases [of r db] by auto
qed

text \<open>
  C27: a compensation is created only for a quote whose payment is confirmed and whose delivery is
  exhausted or blocked, or whose sealed delivery the buyer disputed; it goes to the wallet of the
  quote with the refund terms of the quote, and once it exists no further request, from a session
  with whatever old data, creates another or changes it.
\<close>

theorem compensation_created_soundly:
  assumes "request_compensation mint cid q by' now snap db = (Inr (Some row, False), db')"
  shows "(\<exists>quote d. row_by qt_quote_id q (quotes db) = Some quote \<and> qt_state quote = ''confirmed'' \<and>
       find_delivery q db = Some d \<and>
       (dl_state d \<in> set eligible_delivery_states \<or>
        (\<exists>r. row_by rt_quote_id q (receipts db) = Some r \<and> rt_state r = ''disputed'')) \<and>
       refund_terms mint quote = Some (cp_refund_asset row, cp_refund_mint row, cp_refund_amount row) \<and>
       cp_buyer_wallet row = qt_buyer_wallet quote) \<and>
    compensation_id_of q (fold run_request qs db') = Some (cp_compensation_id row)"
  using assms
proof (cases rule: request_cases)
  case same
  then show ?thesis by blast
next
  case (created terms)
  obtain quote reason asset rmint amount where terms: "terms = (quote, reason, asset, rmint, amount)" by (cases terms)
  have "compensation_id_of q db' = Some (cp_compensation_id row)"
    using created by (simp add: compensation_id_of_def get_compensation_def row_by_append row_by_Cons)
  then have kept: "compensation_id_of q (fold run_request qs db') = Some (cp_compensation_id row)"
    by (rule compensation_recorder.first_write_wins)
  from created(2) [unfolded terms] show ?thesis
    by (rule compensation_terms_Inr) (use kept created(5) terms in \<open>auto simp: new_compensation_def\<close>)
qed

definition sample_checkout :: checkout_db where
  "sample_checkout = empty_checkout \<lparr>
     quotes := [\<lparr> qt_quote_id = ''q1'', qt_order_id = ''o1'', qt_buyer_wallet = ''B'', qt_route = ''direct'',
       qt_state = ''confirmed'', qt_payload = PDict [(''output'', PDict [(''amount_minor'', PInt 7)])], qt_created_at = 0,
       qt_tx_signature = Some ''tx'', qt_input_asset = ''USDC'', qt_required_iat = ''1'',
       qt_intent_hash = ''h'', qt_request_hash = ''h'', qt_key = ''k'', qt_expires_at = 60, qt_updated_at = 1, qt_evidence = None \<rparr>],
     deliveries := [\<lparr> dl_quote_id = ''q1'', dl_order_id = ''o1'', dl_tx_signature = ''tx'', dl_state = ''exhausted'',
       dl_attempt_count = 16, dl_next_attempt_at = 0, dl_lease_token = None, dl_lease_until = None,
       dl_last_error = None, dl_result = None, dl_settlement_state = ''pending'', dl_settlement_attempts = 0,
       dl_settlement_next = None, dl_settlement_error = None, dl_created_at = 0, dl_updated_at = 0,
       dl_completed_at = None \<rparr>] \<rparr>"

lemmas sample_checkout_defs = sample_checkout_def empty_checkout_def

theorem compensation_created_soundly_witness:
  "let run = request_compensation ''M'' ''c'' ''q1'' ''buyer'' 9 sample_checkout sample_checkout;
       row = the (fst (projr (fst run)))
   in (\<exists>quote d. row_by qt_quote_id ''q1'' (quotes sample_checkout) = Some quote \<and> qt_state quote = ''confirmed'' \<and>
       find_delivery ''q1'' sample_checkout = Some d \<and>
       (dl_state d \<in> set eligible_delivery_states \<or>
        (\<exists>r. row_by rt_quote_id ''q1'' (receipts sample_checkout) = Some r \<and> rt_state r = ''disputed'')) \<and>
       refund_terms ''M'' quote = Some (cp_refund_asset row, cp_refund_mint row, cp_refund_amount row) \<and>
       cp_buyer_wallet row = qt_buyer_wallet quote) \<and>
     compensation_id_of ''q1'' (fold run_request [] (snd run)) = Some (cp_compensation_id row)"
  unfolding Let_def
  by (rule compensation_created_soundly [where snap = sample_checkout and by' = "''buyer''" and now = 9 and cid = "''c''"])
     (simp add: sample_checkout_defs request_compensation_def get_compensation_def row_by_def find_delivery_def
        eligible_delivery_states_def refund_terms_def payload_item_def sql_insert_def compensation_terms_def new_compensation_def Let_def prod_eq_iff)

section \<open>Decisions\<close>

lemma decide_cases:
  assumes "decide_compensation q approve reason actor now snap db = (res, db')"
  obtains (same) "db' = db"
  | (decided) f where "f \<in> {''approved'', ''denied''}"
      "\<exists>g. compensations db' = fst (sql_update (\<lambda>r. cp_quote_id r = q \<and> cp_state r = ''pending_review'') g
           (compensations db)) \<and>
         (\<forall>r. cp_state (g r) = f \<and> cp_quote_id (g r) = cp_quote_id r \<and> cp_compensation_id (g r) = cp_compensation_id r)"
proof (cases "db' = db")
  case False
  let ?target = "if approve then ''approved'' else ''denied''"
  let ?g = "\<lambda>r. r \<lparr> cp_state := ?target, cp_decision_reason := Some (collapse_spaces reason),
                  cp_decision_actor := Some (take 128 actor), cp_decided_at := Some now, cp_updated_at := now \<rparr>"
  have "compensations db' = fst (sql_update (\<lambda>r. cp_quote_id r = q \<and> cp_state r = ''pending_review'') ?g (compensations db))"
    using assms False
    by (auto simp: decide_compensation_def Let_def case_prod_beta split: option.splits if_splits)
  then show thesis
    by (intro decided [of ?target] exI [of _ ?g] conjI) auto
qed (rule same)

datatype compensation_op =
    RequestCompensation compensation_request
  | DecideCompensation string bool string string int checkout_db

fun run_compensation :: "compensation_op \<Rightarrow> checkout_db \<Rightarrow> checkout_db" where
  "run_compensation (RequestCompensation q) db = run_request q db"
| "run_compensation (DecideCompensation q approve reason actor now snap) db =
     snd (decide_compensation q approve reason actor now snap db)"

lemma decided_kept:
  assumes "get_compensation q db = Some r" and "cp_state r \<noteq> ''pending_review''"
  shows "get_compensation q (run_compensation op db) = Some r"
proof (cases op)
  case (RequestCompensation req)
  obtain res db' where run: "request_compensation (cr_mint req) (cr_cid req) (cr_quote_id req) (cr_by req) (cr_now req)
      (cr_snap req) db = (res, db')" by (meson surj_pair)
  from run show ?thesis
    by (cases rule: request_cases)
       (use assms RequestCompensation run in \<open>auto simp: run_request_def get_compensation_def row_by_append\<close>)
next
  case (DecideCompensation q' approve reason actor now snap)
  obtain res db' where run: "decide_compensation q' approve reason actor now snap db = (res, db')"
    by (meson surj_pair)
  from run show ?thesis
  proof (cases rule: decide_cases)
    case (decided f)
    then obtain g where g: "compensations db' = fst (sql_update (\<lambda>r. cp_quote_id r = q' \<and> cp_state r = ''pending_review'') g
           (compensations db))" "\<And>r. cp_quote_id (g r) = cp_quote_id r" by blast
    then have "get_compensation q db' = Some r"
      using assms by (simp add: get_compensation_def row_by_update)
    then show ?thesis using run DecideCompensation by simp
  qed (use run DecideCompensation assms in simp)
qed

definition sample_denied :: compensation where
  "sample_denied = \<lparr> cp_compensation_id = ''cmp_c'', cp_quote_id = ''q1'', cp_order_id = ''o1'', cp_buyer_wallet = ''B'',
     cp_route = ''direct'', cp_refund_asset = ''IAT'', cp_refund_mint = ''M'', cp_refund_amount = ''7'',
     cp_state = ''denied'', cp_eligibility_reason = ''delivery_attempts_exhausted'', cp_requested_by = ''buyer'',
     cp_decision_reason = Some ''delivered elsewhere'', cp_decision_actor = Some ''a'', cp_payout_signature = None,
     cp_created_at = 1, cp_updated_at = 2, cp_decided_at = Some 2, cp_confirmed_at = None \<rparr>"

definition sample_decided :: checkout_db where
  "sample_decided = sample_checkout \<lparr> compensations := [sample_denied] \<rparr>"

text \<open>
  A compensation is decided at most once: after it was approved or denied, no request and no
  decision, however stale the data it was taken on, changes the row any more.
\<close>

theorem compensation_decision_final:
  assumes "get_compensation q db = Some r" and "cp_state r \<noteq> ''pending_review''"
  shows "get_compensation q (fold run_compensation ops db) = Some r"
  using assms(1) by (induction ops arbitrary: db) (simp_all add: decided_kept assms(2))

theorem compensation_decision_final_witness:
  "get_compensation ''q1'' (fold run_compensation [DecideCompensation ''q1'' False ''not eligible'' ''a'' 9 sample_decided]
     sample_decided) = Some sample_denied"
  by (rule compensation_decision_final)
     (simp_all add: sample_decided_def sample_denied_def get_compensation_def row_by_def)

end
