(* ===== verification/CheckoutReceipt.thy ===== *)
theory CheckoutReceipt
  imports CheckoutCompensation
begin

text \<open>
  Final delivery receipts (\<open>iat/checkout_receipt.py\<close>): configuration of the delivery channel, sealing of
  the result, the buyer's inbox, acceptance or dispute, webhook notification and provider events.
  \<open>sha\<close> is the SHA-256 hex digest, \<open>urlp\<close> is \<open>urlparse\<close>, \<open>sign\<close> the configured Ed25519 key (\<open>None\<close>
  when no key is configured, \<open>Inl\<close> when it cannot be read), \<open>verify\<close> the signature check (\<open>None\<close> when
  the texts do not parse), \<open>post\<close> the HTTP request (\<open>Inl\<close> its exception). As in the settlement
  operations \<open>snap\<close> is what an operation reads and \<open>db\<close> what its update meets.
\<close>

section \<open>Destinations\<close>

record url_parts =
  up_scheme :: string
  up_hostname :: "string option"
  up_username :: "string option"
  up_password :: "string option"
  up_fragment :: string

definition channels :: "string list" where
  "channels = [''api_pull'', ''email'', ''webhook'']"

definition decisions :: "string list" where
  "decisions = [''accepted'', ''disputed'']"

definition dispute_codes :: "string list" where
  "dispute_codes = [''not_received'', ''incomplete'', ''incorrect'', ''unreadable'', ''other'']"

definition nonempty :: "string option \<Rightarrow> bool" where
  "nonempty v = (v \<noteq> None \<and> v \<noteq> Some [])"

text \<open>The pattern \<open>[^\s@]+@[^\s@]+\.[^\s@]+\<close> on the whole text.\<close>

definition email_like :: "string \<Rightarrow> bool" where
  "email_like s =
     (let local = takeWhile (\<lambda>c. c \<noteq> CHR ''@'') s; rest = dropWhile (\<lambda>c. c \<noteq> CHR ''@'') s;
          domain = drop 1 rest; plain = list_all (\<lambda>c. \<not> py_space c \<and> c \<noteq> CHR ''@'')
      in rest \<noteq> [] \<and> local \<noteq> [] \<and> plain local \<and> plain domain \<and> CHR ''.'' \<in> set (butlast (drop 1 domain)))"

definition validate_destination :: "(string \<Rightarrow> url_parts) \<Rightarrow> string \<Rightarrow> string option \<Rightarrow> py_error + string" where
  "validate_destination urlp channel_arg destination =
     (let channel = py_lower (py_strip channel_arg);
          value = py_strip (case destination of None \<Rightarrow> [] | Some d \<Rightarrow> d)
      in if channel \<notin> set channels then Inl (ValueError ''unsupported_delivery_channel'')
         else if channel = ''api_pull''
           then (if value \<noteq> [] then Inl (ValueError ''api_pull_destination_must_be_empty'') else Inr [])
         else if channel = ''email''
           then (if length value > 320 \<or> \<not> email_like value
                 then Inl (ValueError ''valid_delivery_email_required'') else Inr (py_lower value))
         else
           let parsed = urlp value in
           if up_scheme parsed \<noteq> ''https'' \<or> \<not> nonempty (up_hostname parsed) \<or>
              nonempty (up_username parsed) \<or> nonempty (up_password parsed)
           then Inl (ValueError ''valid_https_delivery_webhook_required'')
           else if up_fragment parsed \<noteq> [] \<or> length value > 2000
           then Inl (ValueError ''unsafe_delivery_webhook'')
           else Inr value)"

text \<open>The ellipsis of the masked text is its UTF-8 code.\<close>

definition masked_destination :: "(string \<Rightarrow> url_parts) \<Rightarrow> string \<Rightarrow> string \<Rightarrow> pyval" where
  "masked_destination urlp channel destination =
     (let ellipsis = [CHR 0xE2, CHR 0x80, CHR 0xA6] in
      if channel = ''api_pull'' \<or> destination = [] then PNone
      else if channel = ''email''
        then PStr (take 1 (takeWhile (\<lambda>c. c \<noteq> CHR ''@'') destination) @ ''***@'' @
                   drop 1 (dropWhile (\<lambda>c. c \<noteq> CHR ''@'') destination))
      else (case up_hostname (urlp destination) of
              Some h \<Rightarrow> if h = [] then PStr (''https://'' @ ellipsis) else PStr (''https://'' @ h @ ''/'' @ ellipsis)
            | None \<Rightarrow> PStr (''https://'' @ ellipsis)))"

section \<open>The public view\<close>

definition notification_status :: "receipt \<Rightarrow> string" where
  "notification_status r =
     (if rt_channel r \<notin> {''email'', ''webhook''} then ''not_requested''
      else if rt_provider_status r \<in> {Some ''bounce'', Some ''blocked'', Some ''spam''} then ''failed''
      else if rt_provider_status r \<in> {Some ''delivered'', Some ''open'', Some ''click''} then ''confirmed''
      else if rt_dispatched_at r \<noteq> None \<and> rt_dispatched_at r \<noteq> Some 0 then ''dispatched''
      else if rt_dispatch_next r \<noteq> None \<or> rt_dispatch_attempts r = 0 then ''pending''
      else ''failed'')"

definition public_delivery_receipt :: "(string \<Rightarrow> url_parts) \<Rightarrow> receipt option \<Rightarrow> pydict" where
  "public_delivery_receipt urlp v =
     (case v of
        None \<Rightarrow> [(''state'', PStr ''not_configured''), (''available_channels'', PList (map PStr channels))]
      | Some r \<Rightarrow>
          [(''state'', PStr (rt_state r)), (''channel'', PStr (rt_channel r)),
           (''destination'', masked_destination urlp (rt_channel r) (rt_destination r)),
           (''payload_digest'', pstr_opt (rt_payload_digest r)), (''receipt_token'', PStr (rt_receipt_token r)),
           (''configured_at'', PInt (rt_configured_at r)), (''payload_ready_at'', pint_opt (rt_payload_ready_at r)),
           (''dispatched_at'', pint_opt (rt_dispatched_at r)), (''accepted_at'', pint_opt (rt_accepted_at r)),
           (''disputed_at'', pint_opt (rt_disputed_at r)), (''dispute_code'', pstr_opt (rt_dispute_code r)),
           (''dispatch_attempt_count'', PInt (rt_dispatch_attempts r)),
           (''dispatch_next_attempt_at'', pint_opt (rt_dispatch_next r)),
           (''dispatch_last_error'', pstr_opt (rt_dispatch_error r)),
           (''dispatch_response_code'', pint_opt (rt_dispatch_response r)),
           (''dispatch_signer'', pstr_opt (rt_dispatch_signer r)),
           (''provider_status'', pstr_opt (rt_provider_status r)),
           (''provider_event_at'', pint_opt (rt_provider_event_at r)),
           (''inbox_available'', PBool (rt_sealed_payload r \<noteq> None)),
           (''inbox_opened_at'', pint_opt (rt_inbox_opened_at r)),
           (''inbox_signature'', pstr_opt (rt_inbox_signature r)), (''inbox_signer'', pstr_opt (rt_inbox_signer r)),
           (''notification_status'', PStr (notification_status r)),
           (''buyer_confirmation_required'', PBool (rt_state r \<in> {''dispatched'', ''delivered''})),
           (''available_channels'', PList (map PStr channels))])"

section \<open>Lookups\<close>

definition get_delivery_receipt :: "string \<Rightarrow> checkout_db \<Rightarrow> receipt option" where
  "get_delivery_receipt quote_id db = row_by rt_quote_id quote_id (receipts db)"

definition get_delivery_receipt_by_token :: "string \<Rightarrow> checkout_db \<Rightarrow> receipt option" where
  "get_delivery_receipt_by_token token db =
     (if \<not> py_startswith token ''cdr_'' \<or> length token > 128 then None
      else row_by rt_receipt_token token (receipts db))"

definition get_delivery_receipt_by_order :: "string \<Rightarrow> checkout_db \<Rightarrow> receipt option" where
  "get_delivery_receipt_by_order order_id db = row_by rt_order_id order_id (receipts db)"

text \<open>The page of receipts of the orders that satisfy \<open>P\<close>, newest first, with one row to spare.\<close>

definition receipt_page ::
  "(pydict \<Rightarrow> bool) \<Rightarrow> int option \<Rightarrow> string \<Rightarrow> int \<Rightarrow> checkout_db \<Rightarrow> receipt list" where
  "receipt_page P before_configured_at before_quote_id limit db =
     take (nat (clamp_int 1 100 limit) + 1)
       (sort_key (\<lambda>r. - rt_configured_at r) (rev (sort_key rt_quote_id
          (filter (\<lambda>r. list_ex (\<lambda>ord. dget ord ''order_id'' = PStr (rt_order_id r) \<and> P ord) (orders db) \<and>
                       (case before_configured_at of
                          None \<Rightarrow> True
                        | Some b \<Rightarrow> rt_configured_at r < b \<or>
                                    (rt_configured_at r = b \<and> rt_quote_id r < before_quote_id)))
             (receipts db)))))"

definition list_wallet_delivery_receipts ::
  "string \<Rightarrow> int option \<Rightarrow> string \<Rightarrow> int \<Rightarrow> checkout_db \<Rightarrow> receipt list" where
  "list_wallet_delivery_receipts wallet before_configured_at before_quote_id limit db =
     receipt_page (\<lambda>ord. dget ord ''buyer_wallet'' = PStr wallet) before_configured_at before_quote_id limit db"

definition list_buyer_delivery_receipts ::
  "string \<Rightarrow> string \<Rightarrow> int option \<Rightarrow> string \<Rightarrow> int \<Rightarrow> checkout_db \<Rightarrow> bool \<times> receipt list" where
  "list_buyer_delivery_receipts wallet secret before_configured_at before_quote_id limit db =
     (let P = (\<lambda>ord. dget ord ''buyer_wallet'' = PStr wallet \<and> dget ord ''buyer_secret'' = PStr secret) in
      if \<not> list_ex P (orders db) then (False, [])
      else (True, receipt_page P before_configured_at before_quote_id limit db))"

text \<open>Whether the settlement of an order may be released.\<close>

definition settlement_release_receipt_gate :: "string \<Rightarrow> checkout_db \<Rightarrow> pydict" where
  "settlement_release_receipt_gate order_id db =
     (case get_delivery_receipt_by_order order_id db of
        None \<Rightarrow> [(''release_allowed'', PBool True), (''reason'', PStr ''legacy_order_without_final_receipt''),
                 (''legacy_compatibility'', PBool True)]
      | Some r \<Rightarrow>
          let state = rt_state r in
          if state = ''accepted''
          then [(''release_allowed'', PBool True), (''reason'', PStr ''buyer_accepted_sealed_delivery''),
                (''receipt_state'', PStr state), (''payload_digest'', pstr_opt (rt_payload_digest r))]
          else
            let reasons = [(''disputed'', ''buyer_delivery_dispute_open''),
                           (''dispatched'', ''email_provider_confirmation_pending''),
                           (''delivered'', ''buyer_delivery_confirmation_pending''),
                           (''dispatch_failed'', ''final_delivery_dispatch_failed''),
                           (''pending_dispatch'', ''final_delivery_dispatch_pending''),
                           (''configured'', ''service_delivery_not_ready'')];
                reason = (case map_of reasons state of None \<Rightarrow> ''final_delivery_not_accepted'' | Some x \<Rightarrow> x)
            in [(''release_allowed'', PBool False), (''reason'', PStr reason), (''receipt_state'', PStr state),
                (''payload_digest'', pstr_opt (rt_payload_digest r))])"

definition receipt_event :: "string \<Rightarrow> string \<Rightarrow> string \<Rightarrow> string option \<Rightarrow> string \<Rightarrow> int \<Rightarrow> flow_event" where
  "receipt_event quote_id event_type state digest actor now =
     \<lparr> fe_quote_id = quote_id, fe_subject = quote_id, fe_type = event_type, fe_from = None, fe_to = state,
       fe_actor = take 64 actor, fe_reason = digest, fe_at = now \<rparr>"

section \<open>Configuration\<close>

definition new_receipt :: "string \<Rightarrow> string \<Rightarrow> string \<Rightarrow> string \<Rightarrow> string \<Rightarrow> int \<Rightarrow> receipt" where
  "new_receipt quote_id order_id channel destination token now =
     \<lparr> rt_quote_id = quote_id, rt_order_id = order_id, rt_channel = channel, rt_destination = destination,
       rt_state = ''configured'', rt_payload_digest = None, rt_receipt_token = ''cdr_'' @ token,
       rt_configured_at = now, rt_payload_ready_at = None, rt_dispatched_at = None, rt_accepted_at = None,
       rt_disputed_at = None, rt_dispute_code = None, rt_buyer_message = None, rt_dispatch_attempts = 0,
       rt_dispatch_next = None, rt_dispatch_error = None, rt_dispatch_response = None,
       rt_dispatch_signature = None, rt_dispatch_signer = None, rt_provider_status = None,
       rt_provider_event_at = None, rt_provider_message_id = None, rt_sealed_payload = None,
       rt_inbox_opened_at = None, rt_inbox_signature = None, rt_inbox_signer = None, rt_updated_at = now \<rparr>"

text \<open>The row to store: rebind the order's row, update the quote's row or insert a new one.\<close>

definition bind_receipt ::
  "string \<Rightarrow> string \<Rightarrow> string \<Rightarrow> string \<Rightarrow> string \<Rightarrow> int \<Rightarrow> checkout_db \<Rightarrow> receipt list \<Rightarrow>
   py_error + receipt list \<times> receipt option \<times> bool" where
  "bind_receipt quote_id order_id channel destination token now snap t =
     (case get_delivery_receipt quote_id snap of
        Some existing \<Rightarrow>
          if rt_state existing \<notin> {''configured'', ''payload_ready''}
          then Inl (ValueError ''delivery_destination_locked'')
          else Inr (fst (sql_update (\<lambda>r. rt_quote_id r = quote_id)
                 (\<lambda>r. r \<lparr> rt_channel := channel, rt_destination := destination, rt_updated_at := now \<rparr>) t),
                 Some existing, False)
      | None \<Rightarrow>
          (case get_delivery_receipt_by_order order_id snap of
             Some current \<Rightarrow>
               if rt_state current \<noteq> ''configured'' \<or> nonempty (rt_payload_digest current)
               then Inl (ValueError ''delivery_order_already_bound'')
               else
                 let (u, n) = sql_update
                       (\<lambda>r. rt_order_id r = order_id \<and> rt_quote_id r = rt_quote_id current \<and>
                            rt_state r = ''configured'' \<and> rt_payload_digest r = None)
                       (\<lambda>r. r \<lparr> rt_quote_id := quote_id, rt_channel := channel, rt_destination := destination,
                                rt_updated_at := now \<rparr>) t
                 in if n \<noteq> 1 then Inl (ValueError ''delivery_quote_rebind_conflict'')
                    else Inr (u, Some current, True)
           | None \<Rightarrow>
               (case sql_insert receipt_clash (new_receipt quote_id order_id channel destination token now) t of
                  None \<Rightarrow> Inl IntegrityViolation
                | Some u \<Rightarrow> Inr (u, None, False))))"

definition configure_delivery_receipt ::
  "(string \<Rightarrow> url_parts) \<Rightarrow> string \<Rightarrow> string \<Rightarrow> string \<Rightarrow> string \<Rightarrow> string option \<Rightarrow> int \<Rightarrow> checkout_db \<Rightarrow> checkout_db \<Rightarrow>
   (py_error + pydict) \<times> checkout_db" where
  "configure_delivery_receipt urlp token quote_id order_id channel_arg destination_arg now snap db =
     (case validate_destination urlp channel_arg destination_arg of
        Inl e \<Rightarrow> (Inl e, db)
      | Inr destination \<Rightarrow>
          (case bind_receipt quote_id order_id (py_lower (py_strip channel_arg)) destination token now snap (receipts db) of
             Inl e \<Rightarrow> (Inl e, db)
           | Inr (t, existing, rebound) \<Rightarrow>
               let event = receipt_event quote_id
                     (if rebound then ''delivery_quote_rebound'' else ''delivery_destination_configured'')
                     (case existing of None \<Rightarrow> ''configured'' | Some r \<Rightarrow> rt_state r)
                     (case existing of None \<Rightarrow> None | Some r \<Rightarrow> rt_payload_digest r) ''authenticated_buyer'' now;
                   db' = db \<lparr> receipts := t, receipt_events := receipt_events db @ [event] \<rparr>
               in (Inr (public_delivery_receipt urlp (get_delivery_receipt quote_id db')), db')))"

section \<open>Sealing\<close>

type_synonym signing = "string \<Rightarrow> (string + string \<times> string) option"

text \<open>The signature and signer of a text, or the error of an unreadable key.\<close>

definition inbox_signing :: "signing \<Rightarrow> string \<Rightarrow> py_error + string option \<times> string option" where
  "inbox_signing sign text =
     (case sign text of
        None \<Rightarrow> Inr (None, None)
      | Some (Inl e) \<Rightarrow> Inl (ValueError e)
      | Some (Inr (signature, signer)) \<Rightarrow> Inr (Some signature, Some signer))"

definition resealed_row :: "pydict \<Rightarrow> string option \<Rightarrow> string option \<Rightarrow> int \<Rightarrow> receipt \<Rightarrow> receipt" where
  "resealed_row payload signature signer clock x =
     x \<lparr> rt_sealed_payload := coalesce (rt_sealed_payload x) (Some (PDict payload)), rt_state := ''delivered'',
         rt_inbox_signature := coalesce (rt_inbox_signature x) signature,
         rt_inbox_signer := coalesce (rt_inbox_signer x) signer, rt_updated_at := clock \<rparr>"

definition sealed_row :: "pydict \<Rightarrow> string \<Rightarrow> string option \<Rightarrow> string option \<Rightarrow> int \<Rightarrow> receipt \<Rightarrow> receipt" where
  "sealed_row payload digest signature signer now x =
     x \<lparr> rt_state := ''delivered'', rt_payload_digest := Some digest, rt_sealed_payload := Some (PDict payload),
         rt_inbox_signature := signature, rt_inbox_signer := signer, rt_payload_ready_at := Some now,
         rt_dispatched_at := None, rt_updated_at := now \<rparr>"

text \<open>Sealing onto the row \<open>r\<close> that was read; \<open>clock\<close> is \<open>_now()\<close> of the re-sealing branch.\<close>

definition seal_receipt ::
  "(string \<Rightarrow> string) \<Rightarrow> (string \<Rightarrow> url_parts) \<Rightarrow> signing \<Rightarrow> string \<Rightarrow> pydict \<Rightarrow> int \<Rightarrow> int \<Rightarrow> receipt \<Rightarrow> checkout_db \<Rightarrow>
   (py_error + pydict) \<times> checkout_db" where
  "seal_receipt sha urlp sign quote_id payload clock now r db =
     (let text = json_dumps False (PDict payload); digest = sha text in
      if length text > 250000 then (Inl (ValueError ''delivery_payload_too_large''), db)
      else (case inbox_signing sign text of
              Inl e \<Rightarrow> (Inl e, db)
            | Inr (signature, signer) \<Rightarrow>
                if nonempty (rt_payload_digest r)
                then (if rt_payload_digest r \<noteq> Some digest
                      then (Inl (ValueError ''delivery_payload_digest_conflict''), db)
                      else
                        let db' = (if rt_sealed_payload r = None \<or>
                                      (nonempty signature \<and> \<not> nonempty (rt_inbox_signature r))
                                   then db \<lparr> receipts := fst (sql_update (\<lambda>x. rt_quote_id x = quote_id)
                                          (resealed_row payload signature signer clock) (receipts db)) \<rparr>
                                   else db)
                        in (Inr (public_delivery_receipt urlp (get_delivery_receipt quote_id db')), db'))
                else
                  let (t, n) = sql_update (\<lambda>x. rt_quote_id x = quote_id \<and> rt_payload_digest x = None)
                        (sealed_row payload digest signature signer now) (receipts db)
                  in if n \<noteq> 1 then (Inl (ValueError ''delivery_payload_publish_conflict''), db)
                     else
                       let db' = db \<lparr> receipts := t, receipt_events := receipt_events db @
                                 [receipt_event quote_id ''delivery_payload_sealed'' ''delivered'' (Some digest) ''protocol'' now] \<rparr>
                       in (Inr (public_delivery_receipt urlp (get_delivery_receipt quote_id db')), db')))"

definition publish_delivery_payload ::
  "(string \<Rightarrow> string) \<Rightarrow> (string \<Rightarrow> url_parts) \<Rightarrow> signing \<Rightarrow> string \<Rightarrow> string \<Rightarrow> string \<Rightarrow> pydict \<Rightarrow> int \<Rightarrow> int \<Rightarrow>
   checkout_db \<Rightarrow> checkout_db \<Rightarrow> (py_error + pydict) \<times> checkout_db" where
  "publish_delivery_payload sha urlp sign token quote_id order_id payload clock now snap db =
     (case get_delivery_receipt quote_id snap of
        Some r \<Rightarrow> seal_receipt sha urlp sign quote_id payload clock now r db
      | None \<Rightarrow>
          (case configure_delivery_receipt urlp token quote_id order_id ''api_pull'' None now db db of
             (Inl e, db1) \<Rightarrow> (Inl e, db1)
           | (Inr _, db1) \<Rightarrow>
               (case get_delivery_receipt quote_id db1 of
                  None \<Rightarrow> (Inl AssertionFailed, db1)
                | Some r \<Rightarrow> seal_receipt sha urlp sign quote_id payload clock now r db1)))"

section \<open>The inbox\<close>

definition opened_row :: "int \<Rightarrow> receipt \<Rightarrow> receipt" where
  "opened_row now x = x \<lparr> rt_inbox_opened_at := Some now, rt_updated_at := now \<rparr>"

definition open_delivery_inbox ::
  "(string \<Rightarrow> string) \<Rightarrow> (string \<Rightarrow> string \<Rightarrow> string \<Rightarrow> bool option) \<Rightarrow> string \<Rightarrow> int \<Rightarrow> checkout_db \<Rightarrow> checkout_db \<Rightarrow>
   (py_error + pydict) \<times> checkout_db" where
  "open_delivery_inbox sha verify token now snap db =
     (case get_delivery_receipt_by_token token snap of
        None \<Rightarrow> (Inl (ValueError ''delivery_receipt_not_found''), db)
      | Some r \<Rightarrow>
          (case rt_sealed_payload r of
             None \<Rightarrow> (Inl (ValueError ''delivery_payload_not_ready''), db)
           | Some payload \<Rightarrow>
               let raw = json_dumps False payload in
               if \<not> nonempty (rt_payload_digest r) then (Inl (ValueError ''delivery_payload_not_ready''), db)
               else if \<not> is_dict payload \<or> rt_payload_digest r \<noteq> Some (sha raw)
               then (Inl (ValueError ''sealed_delivery_payload_unavailable''), db)
               else if nonempty (rt_inbox_signature r) \<noteq> nonempty (rt_inbox_signer r)
               then (Inl (ValueError ''sealed_delivery_signature_unavailable''), db)
               else if nonempty (rt_inbox_signature r) \<and>
                 verify (the (rt_inbox_signature r)) (the (rt_inbox_signer r)) raw \<noteq> Some True
               then (Inl (ValueError ''sealed_delivery_signature_invalid''), db)
               else
                 let db' = (if rt_inbox_opened_at r \<noteq> None \<and> rt_inbox_opened_at r \<noteq> Some 0 then db
                            else let (t, n) = sql_update (\<lambda>x. rt_quote_id x = rt_quote_id r \<and> rt_inbox_opened_at x = None)
                                       (opened_row now) (receipts db)
                                 in db \<lparr> receipts := t, receipt_events := receipt_events db @
                                      (if n = 1 then [receipt_event (rt_quote_id r) ''delivery_inbox_opened'' (rt_state r)
                                         (rt_payload_digest r) ''receipt_capability_holder'' now] else []) \<rparr>)
                 in (Inr [(''schema_version'', PStr ''2026-08-02''), (''quote_id'', PStr (rt_quote_id r)),
                          (''receipt_id'', PStr (rt_receipt_token r)), (''payload_digest'', pstr_opt (rt_payload_digest r)),
                          (''payload_ready_at'', pint_opt (rt_payload_ready_at r)), (''canonical_result'', PStr raw),
                          (''result'', payload), (''inbox_signature'', pstr_opt (rt_inbox_signature r)),
                          (''inbox_signer'', pstr_opt (rt_inbox_signer r)),
                          (''opening_does_not_accept_delivery'', PBool True)], db')))"

section \<open>Acceptance and dispute\<close>

text \<open>The checked decision: the dispute code and the buyer's message to store.\<close>

definition checked_decision ::
  "string \<Rightarrow> string option \<Rightarrow> string \<Rightarrow> py_error + string option \<times> string" where
  "checked_decision decision dispute_code message =
     (let clean = take 2000 (py_strip message) in
      if decision = ''disputed''
      then (if dispute_code = None \<or> the dispute_code \<notin> set dispute_codes
            then Inl (ValueError ''valid_dispute_code_required'')
            else if length clean < 10 then Inl (ValueError ''dispute_explanation_required'')
            else Inr (dispute_code, clean))
      else Inr (None, []))"

definition decided_row :: "string \<Rightarrow> string option \<Rightarrow> string \<Rightarrow> int \<Rightarrow> receipt \<Rightarrow> receipt" where
  "decided_row decision code clean now x =
     x \<lparr> rt_state := decision, rt_accepted_at := (if decision = ''accepted'' then Some now else None),
         rt_disputed_at := (if decision = ''disputed'' then Some now else None), rt_dispute_code := code,
         rt_buyer_message := (if clean = [] then None else Some clean), rt_updated_at := now \<rparr>"

definition acknowledge_delivery ::
  "(string \<Rightarrow> url_parts) \<Rightarrow> string \<Rightarrow> string \<Rightarrow> string \<Rightarrow> string \<Rightarrow> string option \<Rightarrow> string \<Rightarrow> int \<Rightarrow> checkout_db \<Rightarrow> checkout_db \<Rightarrow>
   (py_error + pydict) \<times> checkout_db" where
  "acknowledge_delivery urlp iat_mint cid quote_id decision_arg dispute_code message now snap db =
     (case get_delivery_receipt quote_id snap of
        None \<Rightarrow> (Inl (ValueError ''delivery_receipt_not_found''), db)
      | Some r \<Rightarrow>
          let decision = py_lower decision_arg in
          if decision \<notin> set decisions then (Inl (ValueError ''invalid_delivery_decision''), db)
          else if rt_state r \<in> set decisions
          then (if rt_state r = decision
                then (Inr (dset (public_delivery_receipt urlp (Some r)) ''idempotent'' (PBool True)), db)
                else (Inl (ValueError ''delivery_decision_already_final''), db))
          else if rt_state r \<notin> {''dispatched'', ''delivered''}
          then (Inl (ValueError ''delivery_not_yet_dispatched''), db)
          else (case checked_decision decision dispute_code message of
                  Inl e \<Rightarrow> (Inl e, db)
                | Inr (code, clean) \<Rightarrow>
                    let (t, n) = sql_update
                          (\<lambda>x. rt_quote_id x = quote_id \<and> rt_state x \<in> {''dispatched'', ''delivered''})
                          (decided_row decision code clean now) (receipts db)
                    in if n \<noteq> 1 then (Inl (ValueError ''delivery_decision_conflict''), db)
                       else
                         let db1 = db \<lparr> receipts := t, receipt_events := receipt_events db @
                                   [receipt_event quote_id (''delivery_'' @ decision) decision (rt_payload_digest r)
                                      ''authenticated_buyer'' now] \<rparr>;
                             decided = dset (public_delivery_receipt urlp (get_delivery_receipt quote_id db1))
                                         ''idempotent'' (PBool False)
                         in if decision \<noteq> ''disputed'' then (Inr decided, db1)
                            else (case request_compensation iat_mint cid quote_id ''authenticated_buyer_delivery_dispute''
                                         now db1 db1 of
                                    (Inr (c, _), db2) \<Rightarrow>
                                      (Inr (dset decided ''compensation_state''
                                              (case c of None \<Rightarrow> PNone | Some x \<Rightarrow> PStr (cp_state x))), db2)
                                  | (Inl _, db2) \<Rightarrow>
                                      (Inr (dset decided ''compensation_state'' (PStr ''review_request_pending'')), db2))))"

section \<open>Notification\<close>

definition dispatch_backoff :: "int \<Rightarrow> int" where
  "dispatch_backoff attempt = backoff 30 (max 0 (attempt - 1))"

definition dispatch_limit :: "env \<Rightarrow> int" where
  "dispatch_limit getenv = clamp_int 1 20 (env_int getenv ''IAT_DELIVERY_DISPATCH_MAX_ATTEMPTS'' 8)"

definition list_due_receipt_dispatches :: "int \<Rightarrow> int \<Rightarrow> checkout_db \<Rightarrow> string list" where
  "list_due_receipt_dispatches now limit db =
     map rt_quote_id
       (sql_order_limit (\<lambda>r. case rt_payload_ready_at r of None \<Rightarrow> - 1 | Some i \<Rightarrow> i) (nat (clamp_int 1 100 limit))
          (filter (\<lambda>r. rt_state r \<in> {''delivered'', ''pending_dispatch''} \<and> rt_channel r \<in> {''webhook'', ''email''} \<and>
                       rt_payload_digest r \<noteq> None \<and> rt_dispatched_at r = None \<and>
                       (rt_dispatch_next r \<noteq> None \<or> rt_dispatch_attempts r = 0) \<and>
                       (case rt_dispatch_next r of None \<Rightarrow> True | Some t \<Rightarrow> t \<le> now))
             (receipts db)))"

text \<open>The signed body of the webhook and its headers, as one text and one dict.\<close>

definition webhook_body :: "receipt \<Rightarrow> string \<Rightarrow> pyval \<Rightarrow> string" where
  "webhook_body r quote_id result =
     json_dumps False (PDict
       [(''schema_version'', PStr ''2026-08-01''), (''event'', PStr ''iat.delivery.completed''),
        (''quote_id'', PStr quote_id), (''order_id'', PStr (rt_order_id r)), (''receipt_id'', PStr (rt_receipt_token r)),
        (''payload_digest'', pstr_opt (rt_payload_digest r)), (''payload_ready_at'', pint_opt (rt_payload_ready_at r)),
        (''result'', result)])"

definition webhook_headers :: "receipt \<Rightarrow> string \<Rightarrow> string \<Rightarrow> int \<Rightarrow> (string \<times> string) list" where
  "webhook_headers r signature signer now =
     [(''Content-Type'', ''application/json''), (''User-Agent'', ''IAT-Delivery/1.0''),
      (''Idempotency-Key'', rt_receipt_token r), (''X-IAT-Delivery-Signature'', signature),
      (''X-IAT-Delivery-Signer'', signer), (''X-IAT-Delivery-Timestamp'', string_of_int now)]"

text \<open>The update that closes an attempt, with its event; the row must not have been dispatched meanwhile.\<close>

definition store_dispatch ::
  "(string \<Rightarrow> url_parts) \<Rightarrow> string \<Rightarrow> (receipt \<Rightarrow> receipt) \<Rightarrow> string \<Rightarrow> string option \<Rightarrow> int \<Rightarrow> checkout_db \<Rightarrow>
   (py_error + pydict) \<times> checkout_db" where
  "store_dispatch urlp quote_id row event_type digest now db =
     (let (t, n) = sql_update
            (\<lambda>x. rt_quote_id x = quote_id \<and> rt_state x \<in> {''delivered'', ''pending_dispatch''} \<and>
                 rt_dispatched_at x = None) row (receipts db)
      in if n \<noteq> 1 then (Inl (ValueError ''delivery_dispatch_conflict''), db)
         else
           let db' = db \<lparr> receipts := t, receipt_events := receipt_events db @
                 [receipt_event quote_id event_type ''delivered'' digest ''delivery_dispatcher'' now] \<rparr>
           in (Inr (dset (public_delivery_receipt urlp (get_delivery_receipt quote_id db')) ''idempotent'' (PBool False)),
               db'))"

definition dispatched_row ::
  "int \<Rightarrow> int option \<Rightarrow> string option \<Rightarrow> int option \<Rightarrow> string \<Rightarrow> string \<Rightarrow> bool \<Rightarrow> int \<Rightarrow> receipt \<Rightarrow> receipt" where
  "dispatched_row attempt next_attempt err code signature signer delivered now x =
     x \<lparr> rt_state := ''delivered'', rt_dispatch_attempts := attempt, rt_dispatch_next := next_attempt,
         rt_dispatch_error := err, rt_dispatch_response := code, rt_dispatch_signature := Some signature,
         rt_dispatch_signer := Some signer, rt_dispatched_at := (if delivered then Some now else None),
         rt_updated_at := now \<rparr>"

definition dispatch_webhook ::
  "(string \<Rightarrow> string) \<Rightarrow> (string \<Rightarrow> url_parts) \<Rightarrow> env \<Rightarrow> (string \<Rightarrow> string option) \<Rightarrow> (string \<Rightarrow> string + string \<times> string) \<Rightarrow>
   (string \<Rightarrow> string \<Rightarrow> (string \<times> string) list \<Rightarrow> string + int) \<Rightarrow> string \<Rightarrow> int \<Rightarrow> checkout_db \<Rightarrow> checkout_db \<Rightarrow>
   (py_error + pydict) \<times> checkout_db" where
  "dispatch_webhook sha urlp getenv unsafe key post quote_id now snap db =
     (case get_delivery_receipt quote_id snap of
        None \<Rightarrow> (Inl (ValueError ''delivery_receipt_not_found''), db)
      | Some r \<Rightarrow>
          if rt_channel r \<noteq> ''webhook'' then (Inl (ValueError ''delivery_channel_is_not_webhook''), db)
          else if rt_dispatched_at r \<noteq> None \<and> rt_dispatched_at r \<noteq> Some 0 \<and> \<not> nonempty (rt_dispatch_error r)
          then (Inr (dset (public_delivery_receipt urlp (Some r)) ''idempotent'' (PBool True)), db)
          else if rt_state r \<notin> {''delivered'', ''pending_dispatch''}
          then (Inl (ValueError ''delivery_not_ready_for_dispatch''), db)
          else if (case rt_dispatch_next r of None \<Rightarrow> False | Some t \<Rightarrow> t \<noteq> 0 \<and> t > now)
          then (Inr (dset (public_delivery_receipt urlp (Some r)) ''retry_wait'' (PBool True)), db)
          else (case rt_sealed_payload r of
                  None \<Rightarrow> (Inl (ValueError ''sealed_delivery_payload_unavailable''), db)
                | Some result \<Rightarrow>
                    if \<not> is_dict result \<or> Some (sha (json_dumps False result)) \<noteq> rt_payload_digest r
                    then (Inl (ValueError ''sealed_delivery_payload_unavailable''), db)
                    else (case unsafe (rt_destination r) of
                            Some e \<Rightarrow> (Inl (ValueError e), db)
                          | None \<Rightarrow>
                              (case key (webhook_body r quote_id result) of
                                 Inl e \<Rightarrow> (Inl (ValueError e), db)
                               | Inr (signature, signer) \<Rightarrow>
                                   if rt_payload_ready_at r = None then (Inl TypeError, db) else
                                   let answer = post (rt_destination r) (webhook_body r quote_id result)
                                                  (webhook_headers r signature signer now);
                                       (delivered, code, err) = (case answer of
                                           Inl e \<Rightarrow> (False, None, Some (''webhook_'' @ e))
                                         | Inr c \<Rightarrow> if 200 \<le> c \<and> c < 300 then (True, Some c, None)
                                                    else (False, Some c, Some (''webhook_http_'' @ string_of_int c)));
                                       attempt = rt_dispatch_attempts r + 1;
                                       failed = (\<not> delivered \<and> attempt \<ge> dispatch_limit getenv);
                                       next_attempt = (if delivered \<or> failed then None
                                                       else Some (now + dispatch_backoff attempt))
                                   in store_dispatch urlp quote_id
                                        (dispatched_row attempt next_attempt err code signature signer delivered now)
                                        (if delivered then ''delivery_webhook_dispatched'' else ''delivery_webhook_failed'')
                                        (rt_payload_digest r) now db))))"

section \<open>E-mail\<close>

text \<open>A message as its headers and text; a refused \<open>send\<close> is a delivery error or the name of another exception.\<close>

record email_message =
  em_headers :: "(string \<times> string) list"
  em_content :: string

datatype send_error = DeliveryError string | OtherException string

definition public_site :: "env \<Rightarrow> string" where
  "public_site getenv =
     (let site = py_strip (case getenv ''IAT_PUBLIC_SITE_URL'' of None \<Rightarrow> ''https://iat-protocol.pages.dev'' | Some u \<Rightarrow> u)
      in rev (dropWhile (\<lambda>c. c = CHR ''/'') (rev site)))"

definition delivery_email ::
  "env \<Rightarrow> receipt \<Rightarrow> string \<Rightarrow> string \<Rightarrow> string \<Rightarrow> string \<Rightarrow> string \<Rightarrow> email_message" where
  "delivery_email getenv r quote_id digest text signature signer =
     (let dash = [CHR 0xE2, CHR 0x80, CHR 0x94]; nl = [CHR 0x0A]; token = rt_receipt_token r;
          from_address = (case getenv ''IAT_DELIVERY_EMAIL_FROM'' of
                            None \<Rightarrow> ''IAT Delivery <delivery@iat.invalid>'' | Some a \<Rightarrow> a);
          decision_url = public_site getenv @ ''/delivery/#receipt='' @ token
      in \<lparr> em_headers =
             [(''From'', from_address), (''To'', rt_destination r),
              (''Subject'', ''IAT delivery ready '' @ dash @ '' '' @ quote_id),
              (''Message-ID'', ''<'' @ token @ ''@delivery.iatprotocol>''), (''X-IAT-Receipt-ID'', token),
              (''X-IAT-Payload-Digest'', digest), (''X-IAT-Delivery-Signature'', signature),
              (''X-IAT-Delivery-Signer'', signer), (''X-Mailjet-Campaign'', token)],
           em_content =
             ''Your IAT service result is ready.'' @ nl @ nl @ ''Quote: '' @ quote_id @ nl @ ''Receipt: '' @ token @ nl @
             ''Payload SHA-256: '' @ digest @ nl @ ''Ed25519 signer: '' @ signer @ nl @
             ''Ed25519 signature: '' @ signature @ nl @ nl @ ''Result (canonical JSON):'' @ nl @ text @ nl @ nl @
             ''Review, accept, or report an issue here:'' @ nl @ decision_url @ nl @ nl @
             ''Opening this link does not accept the delivery. A separate explicit decision is required.'' @ nl \<rparr>)"

definition emailed_row ::
  "int \<Rightarrow> int option \<Rightarrow> string option \<Rightarrow> string \<Rightarrow> string \<Rightarrow> bool \<Rightarrow> int \<Rightarrow> receipt \<Rightarrow> receipt" where
  "emailed_row attempt next_attempt err signature signer dispatched now x =
     x \<lparr> rt_state := ''delivered'', rt_dispatch_attempts := attempt, rt_dispatch_next := next_attempt,
         rt_dispatch_error := err, rt_dispatch_signature := Some signature, rt_dispatch_signer := Some signer,
         rt_dispatched_at := (if dispatched then Some now else None), rt_updated_at := now \<rparr>"

definition dispatch_email ::
  "(string \<Rightarrow> string) \<Rightarrow> (string \<Rightarrow> url_parts) \<Rightarrow> env \<Rightarrow> (string \<Rightarrow> string + string \<times> string) \<Rightarrow>
   (email_message \<Rightarrow> send_error option) \<Rightarrow> string \<Rightarrow> int \<Rightarrow> checkout_db \<Rightarrow> checkout_db \<Rightarrow> (py_error + pydict) \<times> checkout_db" where
  "dispatch_email sha urlp getenv key send quote_id now snap db =
     (case get_delivery_receipt quote_id snap of
        None \<Rightarrow> (Inl (ValueError ''delivery_receipt_not_found''), db)
      | Some r \<Rightarrow>
          if rt_channel r \<noteq> ''email'' then (Inl (ValueError ''delivery_channel_is_not_email''), db)
          else if rt_dispatched_at r \<noteq> None \<and> rt_dispatched_at r \<noteq> Some 0 \<and> \<not> nonempty (rt_dispatch_error r)
          then (Inr (dset (public_delivery_receipt urlp (Some r)) ''idempotent'' (PBool True)), db)
          else if rt_state r \<notin> {''delivered'', ''pending_dispatch''}
          then (Inl (ValueError ''delivery_not_ready_for_dispatch''), db)
          else if (case rt_dispatch_next r of None \<Rightarrow> False | Some t \<Rightarrow> t \<noteq> 0 \<and> t > now)
          then (Inr (dset (public_delivery_receipt urlp (Some r)) ''retry_wait'' (PBool True)), db)
          else (case (rt_sealed_payload r, rt_payload_digest r) of
                  (Some result, Some digest) \<Rightarrow>
                    let text = json_dumps False result in
                    if \<not> is_dict result \<or> sha text \<noteq> digest
                    then (Inl (ValueError ''sealed_delivery_payload_unavailable''), db)
                    else if length text > 250000
                    then (Inl (ValueError ''delivery_email_payload_too_large''), db)
                    else (case key text of
                            Inl e \<Rightarrow> (Inl (ValueError e), db)
                          | Inr (signature, signer) \<Rightarrow>
                              let err = (case send (delivery_email getenv r quote_id digest text signature signer) of
                                           None \<Rightarrow> None
                                         | Some (DeliveryError e) \<Rightarrow> Some (take 128 e)
                                         | Some (OtherException e) \<Rightarrow> Some (take 128 (''delivery_email_'' @ e)));
                                  dispatched = (err = None);
                                  attempt = rt_dispatch_attempts r + 1;
                                  failed = (\<not> dispatched \<and> attempt \<ge> dispatch_limit getenv);
                                  next_attempt = (if dispatched \<or> failed then None
                                                  else Some (now + dispatch_backoff attempt))
                              in store_dispatch urlp quote_id
                                   (emailed_row attempt next_attempt err signature signer dispatched now)
                                   (if dispatched then ''delivery_email_dispatched'' else ''delivery_email_failed'')
                                   (Some digest) now db)
                | _ \<Rightarrow> (Inl (ValueError ''sealed_delivery_payload_unavailable''), db)))"

section \<open>The notification sweep and the inbox probe\<close>

record dispatch_env =
  de_sha :: "string \<Rightarrow> string"
  de_urlp :: "string \<Rightarrow> url_parts"
  de_env :: env
  de_unsafe :: "string \<Rightarrow> string option"
  de_key :: "string \<Rightarrow> string + string \<times> string"
  de_post :: "string \<Rightarrow> string \<Rightarrow> (string \<times> string) list \<Rightarrow> string + int"
  de_send :: "email_message \<Rightarrow> send_error option"

definition dispatch_receipt ::
  "dispatch_env \<Rightarrow> string \<Rightarrow> int \<Rightarrow> checkout_db \<Rightarrow> checkout_db \<Rightarrow> (py_error + pydict) \<times> checkout_db" where
  "dispatch_receipt w quote_id now snap db =
     (case get_delivery_receipt quote_id snap of
        Some r \<Rightarrow> if rt_channel r = ''email''
                  then dispatch_email (de_sha w) (de_urlp w) (de_env w) (de_key w) (de_send w) quote_id now snap db
                  else dispatch_webhook (de_sha w) (de_urlp w) (de_env w) (de_unsafe w) (de_key w) (de_post w)
                         quote_id now snap db
      | None \<Rightarrow> dispatch_webhook (de_sha w) (de_urlp w) (de_env w) (de_unsafe w) (de_key w) (de_post w)
                  quote_id now snap db)"

fun dispatch_each ::
  "dispatch_env \<Rightarrow> int \<Rightarrow> string list \<Rightarrow> nat \<times> nat \<Rightarrow> checkout_db \<Rightarrow> (py_error + nat \<times> nat) \<times> checkout_db" where
  "dispatch_each w now [] counts db = (Inr counts, db)"
| "dispatch_each w now (q # qs) (delivered, failed) db =
     (case dispatch_receipt w q now db db of
        (Inr result, db') \<Rightarrow>
          dispatch_each w now qs
            (if truthy (dget result ''dispatched_at'') then (Suc delivered, failed) else (delivered, Suc failed)) db'
      | (Inl (ValueError e), db') \<Rightarrow> dispatch_each w now qs (delivered, Suc failed) db'
      | (Inl e, db') \<Rightarrow> (Inl e, db'))"

definition run_receipt_dispatch_sweep ::
  "dispatch_env \<Rightarrow> int \<Rightarrow> int \<Rightarrow> checkout_db \<Rightarrow> (py_error + nat \<times> nat \<times> nat) \<times> checkout_db" where
  "run_receipt_dispatch_sweep w now limit db =
     (let selected = list_due_receipt_dispatches now limit db in
      case dispatch_each w now selected (0, 0) db of
        (Inl e, db') \<Rightarrow> (Inl e, db')
      | (Inr (delivered, failed), db') \<Rightarrow> (Inr (length selected, delivered, failed), db'))"

definition create_native_inbox_canary ::
  "(string \<Rightarrow> string) \<Rightarrow> (string \<Rightarrow> url_parts) \<Rightarrow> env \<Rightarrow> signing \<Rightarrow> string \<Rightarrow> string \<Rightarrow> int \<Rightarrow> int \<Rightarrow> checkout_db \<Rightarrow>
   (py_error + pydict) \<times> checkout_db" where
  "create_native_inbox_canary sha urlp getenv sign nonce token clock now db =
     (let quote_id = ''inbox_canary_'' @ nonce; order_id = ''inbox_canary_order_'' @ nonce in
      case configure_delivery_receipt urlp token quote_id order_id ''api_pull'' None now db db of
        (Inl e, db1) \<Rightarrow> (Inl e, db1)
      | (Inr configured, db1) \<Rightarrow>
          let result =
            [(''status'', PStr ''success''), (''summary'', PStr ''IAT native delivery inbox canary''),
             (''message'', PStr ''This receipt created no order, payment, settlement, e-mail, or webhook.''),
             (''execution_mode'', PStr ''receipt_only_canary''), (''issued_at'', PInt now), (''nonce'', PStr nonce)]
          in (case publish_delivery_payload sha urlp sign token quote_id order_id result clock now db1 db1 of
                (Inl e, db2) \<Rightarrow> (Inl e, db2)
              | (Inr sealed, db2) \<Rightarrow>
                  (Inr [(''status'', PStr ''native_inbox_canary_ready''), (''quote_id'', PStr quote_id),
                        (''receipt_token'', dget configured ''receipt_token''),
                        (''delivery_url'', PStr (public_site getenv @ ''/delivery/#receipt='' @
                           py_str (dget configured ''receipt_token''))),
                        (''payload_digest'', dget sealed ''payload_digest''),
                        (''inbox_available'', dget sealed ''inbox_available''),
                        (''payment_created'', PBool False), (''order_created'', PBool False),
                        (''settlement_created'', PBool False), (''notification_dispatched'', PBool False)], db2)))"

section \<open>E-mail provider events\<close>

definition email_success_events :: "string list" where
  "email_success_events = [''sent'', ''delivered'', ''open'', ''click'']"

definition email_failure_events :: "string list" where
  "email_failure_events = [''bounce'', ''blocked'', ''spam'']"

definition provider_row :: "string \<Rightarrow> string \<Rightarrow> int \<Rightarrow> string option \<Rightarrow> string option \<Rightarrow> receipt \<Rightarrow> receipt" where
  "provider_row state event event_at message_id err x =
     x \<lparr> rt_state := state, rt_provider_status := Some event, rt_provider_event_at := Some event_at,
         rt_provider_message_id := message_id, rt_dispatch_error := err, rt_updated_at := event_at \<rparr>"

definition record_email_provider_event ::
  "(string \<Rightarrow> url_parts) \<Rightarrow> string \<Rightarrow> string \<Rightarrow> string \<Rightarrow> int \<Rightarrow> string \<Rightarrow> string \<Rightarrow> checkout_db \<Rightarrow> checkout_db \<Rightarrow>
   (py_error + pydict) \<times> checkout_db" where
  "record_email_provider_event urlp token recipient event event_at message_id reason snap db =
     (case get_delivery_receipt_by_token token snap of
        None \<Rightarrow> (Inl (ValueError ''email_provider_receipt_not_found''), db)
      | Some r \<Rightarrow>
          let clean_recipient = py_lower (py_strip recipient); clean_event = py_lower (py_strip event);
              clean_id = (let m = take 128 (py_strip message_id) in if m = [] then None else Some m);
              clean_reason = take 96 (collapse_spaces reason)
          in if rt_channel r \<noteq> ''email'' then (Inl (ValueError ''email_provider_receipt_not_found''), db)
             else if clean_recipient = [] \<or> clean_recipient \<noteq> py_lower (py_strip (rt_destination r))
             then (Inl (ValueError ''email_provider_recipient_mismatch''), db)
             else if clean_event \<notin> set (email_success_events @ email_failure_events)
             then (Inl (ValueError ''unsupported_email_provider_event''), db)
             else if event_at \<le> 0 then (Inl (ValueError ''valid_email_provider_event_time_required''), db)
             else if rt_provider_status r = Some clean_event \<and>
                     (case rt_provider_event_at r of None \<Rightarrow> 0 | Some i \<Rightarrow> i) = event_at \<and>
                     (if rt_provider_message_id r = Some [] then None else rt_provider_message_id r) = clean_id
             then (Inr (dset (public_delivery_receipt urlp (Some r)) ''idempotent'' (PBool True)), db)
             else
               let new_state = (if rt_state r = ''dispatched'' then ''delivered'' else rt_state r);
                   provider_error = (if clean_event \<in> set email_failure_events
                     then Some (if clean_reason = [] then ''email_provider_'' @ clean_event
                                else take 128 (''email_provider_'' @ clean_event @ '':'' @ clean_reason))
                     else None);
                   (t, n) = sql_update (\<lambda>x. rt_quote_id x = rt_quote_id r)
                     (provider_row new_state clean_event event_at clean_id provider_error) (receipts db)
               in if n \<noteq> 1 then (Inl (ValueError ''email_provider_event_conflict''), db)
                  else
                    let db' = db \<lparr> receipts := t, receipt_events := receipt_events db @
                          [receipt_event (rt_quote_id r) (''delivery_email_provider_'' @ clean_event) new_state
                             (rt_payload_digest r) ''authenticated_email_provider'' event_at] \<rparr>
                    in (Inr (dset (public_delivery_receipt urlp (get_delivery_receipt (rt_quote_id r) db'))
                               ''idempotent'' (PBool False)), db'))"

end
