(* ===== verification/ReceiptHistory.thy ===== *)
theory ReceiptHistory
  imports CheckoutReceipt
begin

text \<open>
  How final delivery receipts evolve under the operations of \<open>CheckoutReceipt\<close>, run in any order by
  sessions that read arbitrarily old data: what is sealed stays sealed, the buyer's decision is final
  under every operation of the buyer and the dispatchers, the settlement gate opens only by the
  buyer's acceptance, and a provider event computed from an old read can undo a decision. Rows are
  followed by their order: the quote of a row can be rebound while nothing is sealed.
\<close>

section \<open>Relations between the rows of an order\<close>

definition receipts_follow :: "(receipt \<Rightarrow> receipt \<Rightarrow> bool) \<Rightarrow> checkout_db \<Rightarrow> checkout_db \<Rightarrow> bool" where
  "receipts_follow R db db' =
     (\<forall>k r. get_delivery_receipt_by_order k db = Some r \<longrightarrow>
        (\<exists>r'. get_delivery_receipt_by_order k db' = Some r' \<and> R r r'))"

lemma follow_same: "receipts db' = receipts db \<Longrightarrow> (\<And>r. R r r) \<Longrightarrow> receipts_follow R db db'"
  by (auto simp: receipts_follow_def get_delivery_receipt_by_order_def)

lemma follow_update:
  assumes "receipts db' = fst (sql_update P f (receipts db))"
    and "\<And>r. P r \<Longrightarrow> rt_order_id (f r) = rt_order_id r \<and> R r (f r)" and "\<And>r. R r r"
  shows "receipts_follow R db db'"
  using assms by (auto simp: receipts_follow_def get_delivery_receipt_by_order_def row_by_update)

lemma follow_append:
  assumes "receipts db' = receipts db @ [x]" and "\<And>r. R r r"
  shows "receipts_follow R db db'"
  using assms by (auto simp: receipts_follow_def get_delivery_receipt_by_order_def row_by_append)

lemma follow_trans:
  assumes "receipts_follow R a b" and "receipts_follow R b c" and "\<And>x y z. R x y \<Longrightarrow> R y z \<Longrightarrow> R x z"
  shows "receipts_follow R a c"
  using assms unfolding receipts_follow_def by blast

lemma followD:
  "receipts_follow R db db' \<Longrightarrow> get_delivery_receipt_by_order k db = Some r \<Longrightarrow>
   \<exists>r'. get_delivery_receipt_by_order k db' = Some r' \<and> R r r'"
  by (simp add: receipts_follow_def)

lemma request_receipts: "receipts (snd (request_compensation m c q b n snap db)) = receipts db"
proof -
  obtain res db' where run: "request_compensation m c q b n snap db = (res, db')" by (meson surj_pair)
  from run show ?thesis by (cases rule: request_cases) (simp_all add: run)
qed

lemma acknowledge_receipts:
  "receipts (snd (acknowledge_delivery urlp m c q dec code msg now snap db)) = receipts db \<or>
   (py_lower dec \<in> set decisions \<and>
    (\<exists>code' msg'. receipts (snd (acknowledge_delivery urlp m c q dec code msg now snap db)) =
       fst (sql_update (\<lambda>x. rt_quote_id x = q \<and> rt_state x \<in> {''dispatched'', ''delivered''})
              (decided_row (py_lower dec) code' msg' now) (receipts db))))"
proof (cases "get_delivery_receipt q snap")
  case (Some r)
  let ?pending = "{''dispatched'', ''delivered''}"
  show ?thesis
  proof (cases "py_lower dec \<in> set decisions \<and> rt_state r \<notin> set decisions \<and> rt_state r \<in> ?pending")
    case True
    show ?thesis
    proof (cases "checked_decision (py_lower dec) code msg")
      case (Inr p)
      obtain code' msg' where p: "p = (code', msg')" by (cases p)
      let ?u = "sql_update (\<lambda>x. rt_quote_id x = q \<and> rt_state x \<in> ?pending)
                  (decided_row (py_lower dec) code' msg' now) (receipts db)"
      have "receipts (snd (acknowledge_delivery urlp m c q dec code msg now snap db)) \<in> {receipts db, fst ?u}"
        using Some True Inr p
        by (auto simp: acknowledge_delivery_def Let_def case_prod_beta request_receipts split: sum.splits)
      then show ?thesis using True by blast
    qed (use Some True in \<open>auto simp: acknowledge_delivery_def\<close>)
  qed (use Some in \<open>auto simp: acknowledge_delivery_def Let_def\<close>)
qed (simp add: acknowledge_delivery_def)

lemma acknowledge_follow:
  assumes "\<And>x. R x x"
    and "\<And>x code msg. rt_state x \<in> {''dispatched'', ''delivered''} \<Longrightarrow> R x (decided_row (py_lower dec) code msg now x)"
  shows "receipts_follow R db (snd (acknowledge_delivery urlp m c q dec code msg now snap db))"
  using acknowledge_receipts [of urlp m c q dec code msg now snap db]
proof (elim disjE conjE exE)
  fix code' msg'
  assume "receipts (snd (acknowledge_delivery urlp m c q dec code msg now snap db)) =
       fst (sql_update (\<lambda>x. rt_quote_id x = q \<and> rt_state x \<in> {''dispatched'', ''delivered''})
              (decided_row (py_lower dec) code' msg' now) (receipts db))"
  then show ?thesis by (rule follow_update) (auto simp: assms, auto simp: decided_row_def)
qed (simp add: follow_same assms)

lemma provider_cases:
  assumes "record_email_provider_event urlp token recipient event at_time mid reason snap db = (res, db')"
  obtains (same) "receipts db' = receipts db"
  | (stored) r ev i err where "get_delivery_receipt_by_token token snap = Some r"
      "receipts db' = fst (sql_update (\<lambda>x. rt_quote_id x = rt_quote_id r)
         (provider_row (if rt_state r = ''dispatched'' then ''delivered'' else rt_state r) ev at_time i err) (receipts db))"
proof (cases "receipts db' = receipts db")
  case False
  then show thesis using assms stored unfolding record_email_provider_event_def
    by (auto simp: Let_def case_prod_beta split: option.splits if_splits)
qed (rule same)

lemma provider_follow:
  assumes "\<And>x. R x x"
    and "\<And>x r ev i err. get_delivery_receipt_by_token token snap = Some r \<Longrightarrow>
      R x (provider_row (if rt_state r = ''dispatched'' then ''delivered'' else rt_state r) ev at_time i err x)"
  shows "receipts_follow R db (snd (record_email_provider_event urlp token recipient event at_time mid reason snap db))"
proof -
  obtain res db' where run: "record_email_provider_event urlp token recipient event at_time mid reason snap db = (res, db')"
    by (meson surj_pair)
  then have "receipts_follow R db db'"
  proof (cases rule: provider_cases)
    case (stored r ev i err)
    show ?thesis
      by (rule follow_update [OF stored(2)]) (use assms stored(1) in \<open>auto simp: provider_row_def\<close>)
  qed (simp add: follow_same assms)
  then show ?thesis by (simp add: run)
qed

text \<open>
  A relation that every change of destination, opening and notification of a receipt respects. Three
  such relations matter: the sealed result stays, a decision stays, an undecided receipt is not accepted.
\<close>

locale receipt_relation =
  fixes R :: "receipt \<Rightarrow> receipt \<Rightarrow> bool"
  assumes R_refl: "R x x"
    and R_trans: "R x y \<Longrightarrow> R y z \<Longrightarrow> R x z"
    and R_configured: "R x (x \<lparr> rt_channel := ch, rt_destination := dest, rt_updated_at := now \<rparr>)"
    and R_rebound: "rt_state x = ''configured'' \<Longrightarrow> rt_payload_digest x = None \<Longrightarrow>
      R x (x \<lparr> rt_quote_id := q, rt_channel := ch, rt_destination := dest, rt_updated_at := now \<rparr>)"
    and R_opened: "R x (opened_row now x)"
    and R_dispatched: "rt_state x \<in> {''delivered'', ''pending_dispatch''} \<Longrightarrow>
      R x (dispatched_row attempt nxt err code sig signer ok now x)"
    and R_emailed: "rt_state x \<in> {''delivered'', ''pending_dispatch''} \<Longrightarrow>
      R x (emailed_row attempt nxt err sig signer ok now x)"
begin

lemma configure_follow:
  "receipts_follow R db (snd (configure_delivery_receipt urlp tok q k ch dest now snap db))"
proof (cases "validate_destination urlp ch dest")
  case (Inr d)
  show ?thesis
  proof (cases "bind_receipt q k (py_lower (py_strip ch)) d tok now snap (receipts db)")
    case bound: (Inr b)
    obtain t ex rb where b: "b = (t, ex, rb)" by (cases b)
    let ?db' = "snd (configure_delivery_receipt urlp tok q k ch dest now snap db)"
    have rec: "receipts ?db' = t" using Inr bound b by (simp add: configure_delivery_receipt_def Let_def)
    consider (upd) f P where "t = fst (sql_update P f (receipts db))"
        "\<And>r. P r \<Longrightarrow> rt_order_id (f r) = rt_order_id r \<and> R r (f r)"
      | (app) x where "t = receipts db @ [x]"
      using bound b unfolding bind_receipt_def
      by (auto simp: Let_def case_prod_beta sql_insert_Some R_configured R_rebound split: option.splits if_splits)
    then show ?thesis
      by cases (auto simp: rec R_refl intro: follow_update follow_append)
  qed (use Inr in \<open>simp add: configure_delivery_receipt_def follow_same R_refl\<close>)
qed (simp add: configure_delivery_receipt_def follow_same R_refl)

lemma open_follow: "receipts_follow R db (snd (open_delivery_inbox sha verify token now snap db))"
proof (cases "receipts (snd (open_delivery_inbox sha verify token now snap db)) = receipts db")
  case False
  then obtain P where "receipts (snd (open_delivery_inbox sha verify token now snap db)) =
      fst (sql_update P (opened_row now) (receipts db))"
    by (auto simp: open_delivery_inbox_def Let_def case_prod_beta split: option.splits if_splits)
  then show ?thesis
    by (rule follow_update) (simp add: R_opened R_refl, simp add: opened_row_def, simp_all add: R_refl)
qed (simp add: follow_same R_refl)

lemma store_follow:
  assumes "\<And>x. rt_state x \<in> {''delivered'', ''pending_dispatch''} \<Longrightarrow> rt_order_id (f x) = rt_order_id x \<and> R x (f x)"
  shows "ends (receipts_follow R db) (store_dispatch urlp q f ev digest now db)"
proof -
  let ?m = "store_dispatch urlp q f ev digest now db"
  have "receipts_follow R db (snd ?m)"
  proof (cases "receipts (snd ?m) = receipts db")
    case False
    then have "receipts (snd ?m) = fst (sql_update
        (\<lambda>x. rt_quote_id x = q \<and> rt_state x \<in> {''delivered'', ''pending_dispatch''} \<and> rt_dispatched_at x = None) f (receipts db))"
      by (auto simp: store_dispatch_def Let_def case_prod_beta split: if_splits)
    then show ?thesis by (rule follow_update) (use assms R_refl in auto)
  qed (simp add: follow_same R_refl)
  then show ?thesis by (simp add: ends_def)
qed

lemma dispatch_follow: "receipts_follow R db (snd (dispatch_receipt w q now snap db))"
proof -
  let ?Q = "receipts_follow R db"
  have same: "?Q db" by (simp add: follow_same R_refl)
  have webhook: "ends ?Q (dispatch_webhook a b c d e g q now snap db)" for a b c d e g
    unfolding dispatch_webhook_def
    by (intro ends_rules ends_pair same store_follow) (simp add: R_dispatched, simp add: dispatched_row_def)
  have email: "ends ?Q (dispatch_email a b c d e q now snap db)" for a b c d e
    unfolding dispatch_email_def
    by (intro ends_rules ends_pair same store_follow) (simp add: R_emailed, simp add: emailed_row_def)
  have "ends ?Q (dispatch_receipt w q now snap db)"
    unfolding dispatch_receipt_def by (intro ends_rules webhook email)
  then show ?thesis by (simp add: ends_def)
qed

lemma publish_follow:
  assumes "\<And>x sig signer. R x (resealed_row payload sig signer clock x)"
    and "\<And>x d sig signer. rt_payload_digest x = None \<Longrightarrow> R x (sealed_row payload d sig signer now x)"
  shows "receipts_follow R db (snd (publish_delivery_payload sha urlp sign tok q k payload clock now snap db))"
proof -
  have seal: "receipts_follow R db (snd (seal_receipt sha urlp sign q payload clock now r db))" for r db
  proof (cases "receipts (snd (seal_receipt sha urlp sign q payload clock now r db)) = receipts db")
    case False
    then consider (re) sig signer where "receipts (snd (seal_receipt sha urlp sign q payload clock now r db)) =
         fst (sql_update (\<lambda>x. rt_quote_id x = q) (resealed_row payload sig signer clock) (receipts db))"
      | (fresh) digest sig signer where "receipts (snd (seal_receipt sha urlp sign q payload clock now r db)) =
         fst (sql_update (\<lambda>x. rt_quote_id x = q \<and> rt_payload_digest x = None)
                (sealed_row payload digest sig signer now) (receipts db))"
      by (auto simp: seal_receipt_def Let_def case_prod_beta split: sum.splits if_splits)
    then show ?thesis
    proof cases
      case re
      then show ?thesis
        by (rule follow_update) (simp add: assms, simp add: resealed_row_def, simp_all add: R_refl)
    next
      case fresh
      then show ?thesis
        by (rule follow_update) (simp add: assms, simp add: sealed_row_def, simp_all add: R_refl)
    qed
  qed (simp add: follow_same R_refl)
  show ?thesis
  proof (cases "get_delivery_receipt q snap")
    case None
    obtain x db1 where conf: "configure_delivery_receipt urlp tok q k ''api_pull'' None now db db = (x, db1)"
      by (meson surj_pair)
    have "receipts_follow R db db1"
      using configure_follow [of db urlp tok q k "''api_pull''" None now db] by (simp add: conf)
    then show ?thesis using None conf
      by (auto simp: publish_delivery_payload_def split: sum.splits option.splits
          intro: follow_trans [OF _ seal R_trans])
  qed (simp add: publish_delivery_payload_def seal)
qed

lemma runs_follow:
  assumes "\<And>x db. x \<in> set xs \<Longrightarrow> receipts_follow R db (f x db)"
  shows "receipts_follow R db (fold f xs db)"
  using assms
proof (induction xs arbitrary: db)
  case (Cons x xs)
  have "receipts_follow R db (f x db)" and "receipts_follow R (f x db) (fold f xs (f x db))"
    using Cons by simp_all
  then show ?case using follow_trans [OF _ _ R_trans] by fastforce
qed (simp add: follow_same R_refl)

end

section \<open>Runs\<close>

datatype receipt_op =
    ConfigureReceipt string string string string "string option" int checkout_db
  | PublishPayload string string string pydict int int checkout_db
  | OpenInbox string int checkout_db
  | Acknowledge string string string string "string option" string int checkout_db
  | Dispatch string int checkout_db
  | ProviderEvent string string string int string string checkout_db

type_synonym verifier = "string \<Rightarrow> string \<Rightarrow> string \<Rightarrow> bool option"

fun run_receipt :: "dispatch_env \<Rightarrow> signing \<Rightarrow> verifier \<Rightarrow> receipt_op \<Rightarrow> checkout_db \<Rightarrow> checkout_db" where
  "run_receipt w sign ver (ConfigureReceipt tok q k ch dest now snap) db =
     snd (configure_delivery_receipt (de_urlp w) tok q k ch dest now snap db)"
| "run_receipt w sign ver (PublishPayload tok q k payload clock now snap) db =
     snd (publish_delivery_payload (de_sha w) (de_urlp w) sign tok q k payload clock now snap db)"
| "run_receipt w sign ver (OpenInbox token now snap) db =
     snd (open_delivery_inbox (de_sha w) ver token now snap db)"
| "run_receipt w sign ver (Acknowledge m c q dec code msg now snap) db =
     snd (acknowledge_delivery (de_urlp w) m c q dec code msg now snap db)"
| "run_receipt w sign ver (Dispatch q now snap) db = snd (dispatch_receipt w q now snap db)"
| "run_receipt w sign ver (ProviderEvent token recipient event at_time mid reason snap) db =
     snd (record_email_provider_event (de_urlp w) token recipient event at_time mid reason snap db)"

fun by_buyer_or_dispatcher :: "receipt_op \<Rightarrow> bool" where
  "by_buyer_or_dispatcher (PublishPayload _ _ _ _ _ _ _) = False"
| "by_buyer_or_dispatcher (ProviderEvent _ _ _ _ _ _ _) = False"
| "by_buyer_or_dispatcher _ = True"

section \<open>What stays\<close>

definition seal_kept :: "receipt \<Rightarrow> receipt \<Rightarrow> bool" where
  "seal_kept r r' =
     (\<forall>d. rt_payload_digest r = Some d \<longrightarrow> rt_payload_digest r' = Some d \<and>
        (\<forall>p. rt_sealed_payload r = Some p \<longrightarrow> rt_sealed_payload r' = Some p))"

definition decision_kept :: "receipt \<Rightarrow> receipt \<Rightarrow> bool" where
  "decision_kept r r' = (rt_state r \<in> set decisions \<longrightarrow> rt_state r' = rt_state r)"

definition unaccepted_kept :: "receipt \<Rightarrow> receipt \<Rightarrow> bool" where
  "unaccepted_kept r r' = (rt_state r \<noteq> ''accepted'' \<longrightarrow> rt_state r' \<noteq> ''accepted'')"

interpretation seal: receipt_relation seal_kept
  by unfold_locales (auto simp: seal_kept_def opened_row_def dispatched_row_def emailed_row_def)

interpretation decision: receipt_relation decision_kept
  by unfold_locales (auto simp: decision_kept_def decisions_def opened_row_def dispatched_row_def emailed_row_def)

interpretation unaccepted: receipt_relation unaccepted_kept
  by unfold_locales (auto simp: unaccepted_kept_def opened_row_def dispatched_row_def emailed_row_def)

lemma run_seal_kept: "receipts_follow seal_kept db (run_receipt w sign ver x db)"
proof (cases x)
  case (PublishPayload tok q k payload clock now snap)
  then show ?thesis
    by (auto intro!: seal.publish_follow simp: seal_kept_def resealed_row_def sealed_row_def coalesce_def)
next
  case (Acknowledge m c q dec code msg now snap)
  then show ?thesis by (auto intro!: acknowledge_follow simp: seal_kept_def decided_row_def)
next
  case (ProviderEvent token recipient event at_time mid reason snap)
  then show ?thesis by (auto intro!: provider_follow simp: seal_kept_def provider_row_def)
qed (simp_all add: seal.configure_follow seal.open_follow seal.dispatch_follow)

lemma run_decision_kept:
  "by_buyer_or_dispatcher x \<Longrightarrow> receipts_follow decision_kept db (run_receipt w sign ver x db)"
proof (cases x)
  case (Acknowledge m c q dec code msg now snap)
  then show ?thesis by (auto intro!: acknowledge_follow simp: decision_kept_def decisions_def)
qed (simp_all add: decision.configure_follow decision.open_follow decision.dispatch_follow)

text \<open>An operation that is no acceptance, and a provider event that was not computed from an accepted row.\<close>

fun not_accepting :: "receipt_op \<Rightarrow> bool" where
  "not_accepting (Acknowledge _ _ _ dec _ _ _ _) = (py_lower dec \<noteq> ''accepted'')"
| "not_accepting (ProviderEvent _ _ _ _ _ _ snap) = list_all (\<lambda>r. rt_state r \<noteq> ''accepted'') (receipts snap)"
| "not_accepting _ = True"

lemma token_row: "get_delivery_receipt_by_token t db = Some r \<Longrightarrow> r \<in> set (receipts db)"
  by (auto simp: get_delivery_receipt_by_token_def split: if_splits dest: row_by_SomeD)

lemma run_unaccepted_kept:
  "not_accepting x \<Longrightarrow> receipts_follow unaccepted_kept db (run_receipt w sign ver x db)"
proof (cases x)
  case (PublishPayload tok q k payload clock now snap)
  then show ?thesis
    by (auto intro!: unaccepted.publish_follow simp: unaccepted_kept_def resealed_row_def sealed_row_def)
next
  case (Acknowledge m c q dec code msg now snap)
  moreover assume "not_accepting x"
  ultimately show ?thesis by (auto intro!: acknowledge_follow simp: unaccepted_kept_def decided_row_def)
next
  case (ProviderEvent token recipient event at_time mid reason snap)
  moreover assume "not_accepting x"
  ultimately show ?thesis
    by (auto intro!: provider_follow simp: unaccepted_kept_def provider_row_def list_all_iff dest!: token_row)
qed (simp_all add: unaccepted.configure_follow unaccepted.open_follow unaccepted.dispatch_follow)

lemma release_allowed:
  "dget (settlement_release_receipt_gate k db) ''release_allowed'' =
     PBool (case get_delivery_receipt_by_order k db of None \<Rightarrow> True | Some r \<Rightarrow> rt_state r = ''accepted'')"
  by (cases "get_delivery_receipt_by_order k db")
     (simp_all add: settlement_release_receipt_gate_def Let_def)

text \<open>A database with one receipt, and an environment, for the witnesses.\<close>

definition sample_receipt :: receipt where
  "sample_receipt = (new_receipt ''q1'' ''o1'' ''email'' ''b@x.io'' ''t'' 1)
     \<lparr> rt_state := ''delivered'', rt_payload_digest := Some ''d'', rt_sealed_payload := Some (PDict []),
        rt_payload_ready_at := Some 1 \<rparr>"

definition with_receipt :: "string \<Rightarrow> checkout_db" where
  "with_receipt state = empty_checkout \<lparr> receipts := [sample_receipt \<lparr> rt_state := state \<rparr>] \<rparr>"

definition sample_env :: dispatch_env where
  "sample_env = \<lparr> de_sha = (\<lambda>s. s), de_urlp = (\<lambda>s. \<lparr> up_scheme = ''https'', up_hostname = None, up_username = None,
     up_password = None, up_fragment = [] \<rparr>), de_env = (\<lambda>_. None), de_unsafe = (\<lambda>_. None),
     de_key = (\<lambda>_. Inr (''sig'', ''signer'')), de_post = (\<lambda>_ _ _. Inr 200), de_send = (\<lambda>_. None) \<rparr>"

lemmas sample_receipt_defs =
  with_receipt_def sample_receipt_def new_receipt_def empty_checkout_def get_delivery_receipt_by_order_def row_by_def

text \<open>
  C28: a sealed result stays: once a receipt holds a payload and its digest, no run of operations on the
  receipts, acting on whatever old reads, changes either; the receipt stays bound to its order.
\<close>

theorem sealed_result_stays:
  assumes "get_delivery_receipt_by_order k db = Some r"
    and "rt_payload_digest r = Some d" and "rt_sealed_payload r = Some p"
  shows "\<exists>r'. get_delivery_receipt_by_order k (fold (run_receipt w sign ver) xs db) = Some r' \<and>
       rt_payload_digest r' = Some d \<and> rt_sealed_payload r' = Some p"
proof -
  have "receipts_follow seal_kept db (fold (run_receipt w sign ver) xs db)"
    by (intro seal.runs_follow run_seal_kept)
  from followD [OF this assms(1)] assms(2,3) show ?thesis by (auto simp: seal_kept_def)
qed

theorem sealed_result_stays_witness:
  "\<exists>r'. get_delivery_receipt_by_order ''o1'' (fold (run_receipt sample_env (\<lambda>_. None) (\<lambda>_ _ _. None))
        [Acknowledge ''M'' ''c'' ''q1'' ''accepted'' None [] 9 (with_receipt ''delivered'')] (with_receipt ''delivered'')) = Some r' \<and>
     rt_payload_digest r' = Some ''d'' \<and> rt_sealed_payload r' = Some (PDict [])"
  by (rule sealed_result_stays [where r = sample_receipt]) (simp_all add: sample_receipt_defs)

text \<open>
  C14: the buyer's decision is final: after an acceptance or a dispute no run of configurations, openings,
  further decisions and notifications, on whatever old reads, changes the state of the receipt, and the
  gate of the settlement's release answers as the decision did.
\<close>

theorem buyer_decision_final:
  assumes "get_delivery_receipt_by_order k db = Some r" and "rt_state r \<in> set decisions"
    and "list_all by_buyer_or_dispatcher xs"
  shows "\<exists>r'. get_delivery_receipt_by_order k (fold (run_receipt w sign ver) xs db) = Some r' \<and> rt_state r' = rt_state r \<and>
     dget (settlement_release_receipt_gate k (fold (run_receipt w sign ver) xs db)) ''release_allowed'' =
       PBool (rt_state r = ''accepted'')"
proof -
  have "receipts_follow decision_kept db (fold (run_receipt w sign ver) xs db)"
    using assms(3) by (intro decision.runs_follow run_decision_kept) (simp add: list_all_iff)
  from followD [OF this assms(1)] assms(2) show ?thesis
    by (auto simp: decision_kept_def release_allowed)
qed

theorem buyer_decision_final_witness:
  "\<exists>r'. get_delivery_receipt_by_order ''o1'' (fold (run_receipt sample_env (\<lambda>_. None) (\<lambda>_ _ _. None))
        [Acknowledge ''M'' ''c'' ''q1'' ''disputed'' (Some ''other'') ''it never arrived'' 9 (with_receipt ''delivered''),
         Dispatch ''q1'' 10 (with_receipt ''delivered'')] (with_receipt ''accepted'')) = Some r' \<and>
     rt_state r' = rt_state (sample_receipt \<lparr> rt_state := ''accepted'' \<rparr>) \<and>
     dget (settlement_release_receipt_gate ''o1'' (fold (run_receipt sample_env (\<lambda>_. None) (\<lambda>_ _ _. None))
        [Acknowledge ''M'' ''c'' ''q1'' ''disputed'' (Some ''other'') ''it never arrived'' 9 (with_receipt ''delivered''),
         Dispatch ''q1'' 10 (with_receipt ''delivered'')] (with_receipt ''accepted''))) ''release_allowed'' =
       PBool (rt_state (sample_receipt \<lparr> rt_state := ''accepted'' \<rparr>) = ''accepted'')"
  by (rule buyer_decision_final) (simp_all add: sample_receipt_defs decisions_def)

text \<open>
  The release gate opens only by acceptance: when it is closed for an order and open after a run of
  operations, the run contains a decision to accept (or a provider event that was computed from a
  database with an accepted receipt).
\<close>

theorem gate_opens_by_acceptance:
  assumes "dget (settlement_release_receipt_gate k db) ''release_allowed'' = PBool False"
    and "dget (settlement_release_receipt_gate k (fold (run_receipt w sign ver) xs db)) ''release_allowed'' = PBool True"
  shows "list_ex (\<lambda>x. \<not> not_accepting x) xs"
proof (rule ccontr)
  assume "\<not> list_ex (\<lambda>x. \<not> not_accepting x) xs"
  then have "receipts_follow unaccepted_kept db (fold (run_receipt w sign ver) xs db)"
    by (intro unaccepted.runs_follow run_unaccepted_kept) (simp add: list_ex_iff)
  moreover obtain r where "get_delivery_receipt_by_order k db = Some r" "rt_state r \<noteq> ''accepted''"
    using assms(1) by (auto simp: release_allowed split: option.splits)
  ultimately obtain r' where "get_delivery_receipt_by_order k (fold (run_receipt w sign ver) xs db) = Some r'"
      "rt_state r' \<noteq> ''accepted''" using followD by (fastforce simp: unaccepted_kept_def)
  with assms(2) show False by (simp add: release_allowed)
qed

lemma sample_acceptance:
  "rt_state (the (get_delivery_receipt_by_order ''o1'' (run_receipt sample_env (\<lambda>_. None) (\<lambda>_ _ _. None)
     (Acknowledge ''M'' ''c'' ''q1'' ''accepted'' None [] 9 (with_receipt ''delivered'')) (with_receipt ''delivered'')))) = ''accepted'' \<and>
   get_delivery_receipt_by_order ''o1'' (run_receipt sample_env (\<lambda>_. None) (\<lambda>_ _ _. None)
     (Acknowledge ''M'' ''c'' ''q1'' ''accepted'' None [] 9 (with_receipt ''delivered'')) (with_receipt ''delivered'')) \<noteq> None"
  by (simp add: sample_receipt_defs acknowledge_delivery_def get_delivery_receipt_def decisions_def checked_decision_def
      py_lower_def py_lower_char_def py_strip_def py_lstrip_def sql_update_def decided_row_def Let_def)

theorem gate_opens_by_acceptance_witness:
  "list_ex (\<lambda>x. \<not> not_accepting x)
     [Acknowledge ''M'' ''c'' ''q1'' ''accepted'' None [] 9 (with_receipt ''delivered'')]"
  by (rule gate_opens_by_acceptance [where db = "with_receipt ''delivered''" and k = "''o1''" and w = sample_env
        and sign = "\<lambda>_. None" and ver = "\<lambda>_ _ _. None"])
     (use sample_acceptance in \<open>auto simp: release_allowed, simp add: sample_receipt_defs\<close>)

text \<open>
  An event of the e-mail provider writes the state it read, not the state it meets: an event
  computed while the notification was out overwrites the decision the buyer has taken meanwhile.
\<close>

theorem provider_event_writes_old_state:
  assumes "record_email_provider_event urlp token recipient event at_time mid reason snap db = (Inr d, db')"
    and "get_delivery_receipt_by_token token snap = Some r"
    and "dget d ''idempotent'' = PBool False"
    and "get_delivery_receipt (rt_quote_id r) db = Some x"
  shows "\<exists>x'. get_delivery_receipt (rt_quote_id r) db' = Some x' \<and>
     rt_state x' = (if rt_state r = ''dispatched'' then ''delivered'' else rt_state r)"
proof -
  obtain ev i err where "receipts db' = fst (sql_update (\<lambda>x. rt_quote_id x = rt_quote_id r)
      (provider_row (if rt_state r = ''dispatched'' then ''delivered'' else rt_state r) ev at_time i err) (receipts db))"
    using assms(1-3) unfolding record_email_provider_event_def
    by (auto simp: Let_def case_prod_beta split: if_splits)
  then show ?thesis using assms(4)
    by (auto simp: get_delivery_receipt_def row_by_update provider_row_def dest: row_by_SomeD)
qed

lemma sample_provider_event:
  "\<exists>d db'. record_email_provider_event (de_urlp sample_env) ''cdr_t'' ''b@x.io'' ''open'' 5 [] []
     (with_receipt ''delivered'') (with_receipt ''accepted'') = (Inr d, db') \<and> dget d ''idempotent'' = PBool False"
  by (simp add: record_email_provider_event_def get_delivery_receipt_by_token_def py_startswith_def sample_receipt_defs
      py_lower_def py_lower_char_def py_strip_def py_lstrip_def py_space_def collapse_spaces_def
      email_success_events_def sql_update_def Let_def)

theorem provider_event_writes_old_state_witness:
  "\<exists>x'. get_delivery_receipt ''q1'' (snd (record_email_provider_event (de_urlp sample_env) ''cdr_t'' ''b@x.io'' ''open'' 5 [] []
     (with_receipt ''delivered'') (with_receipt ''accepted''))) = Some x' \<and> rt_state x' = ''delivered''"
proof -
  obtain d db' where run: "record_email_provider_event (de_urlp sample_env) ''cdr_t'' ''b@x.io'' ''open'' 5 [] []
     (with_receipt ''delivered'') (with_receipt ''accepted'') = (Inr d, db')" "dget d ''idempotent'' = PBool False"
    using sample_provider_event by blast
  have "\<exists>x'. get_delivery_receipt (rt_quote_id sample_receipt) db' = Some x' \<and>
     rt_state x' = (if rt_state sample_receipt = ''dispatched'' then ''delivered'' else rt_state sample_receipt)"
    by (rule provider_event_writes_old_state [OF run(1) _ run(2), where x = "sample_receipt \<lparr> rt_state := ''accepted'' \<rparr>"])
       (simp_all add: get_delivery_receipt_by_token_def py_startswith_def get_delivery_receipt_def sample_receipt_defs)
  then show ?thesis by (simp add: run(1), simp add: sample_receipt_defs)
qed

end
