(* ===== verification/DecimalText.thy ===== *)
theory DecimalText
  imports PyDecimal
begin

text \<open>
  \<open>str(Decimal)\<close>, and that \<open>Decimal(str(d))\<close> is \<open>d\<close> with its sign, coefficient and exponent, in plain and in
  scientific notation. The checkout settlement hands its amounts to the ledger as such text.
\<close>

definition dec_str :: "fdec \<Rightarrow> string" where
  "dec_str d =
     (let ds = string_of_nat (dcoef d); n = int (length ds); leftdigits = dexp d + n;
          dotplace = (if dexp d \<le> 0 \<and> leftdigits > - 6 then leftdigits else 1);
          body = (if dotplace \<le> 0 then ''0.'' @ replicate (nat (- dotplace)) (CHR ''0'') @ ds
                  else if dotplace \<ge> n then ds @ replicate (nat (dotplace - n)) (CHR ''0'')
                  else take (nat dotplace) ds @ ''.'' @ drop (nat dotplace) ds);
          ex = (if leftdigits = dotplace then []
                else ''E'' @ (if leftdigits < dotplace then ''-'' else ''+'') @
                     string_of_nat (nat \<bar>leftdigits - dotplace\<bar>))
      in (if dsign d then ''-'' else []) @ body @ ex)"

lemma digits_of_nat: "list_all is_digit (string_of_nat n)"
  using pad_zeros_digits [of 0 n] by (simp add: pad_zeros_def)

text \<open>The text of a number: sign, whole part, fraction and exponent.\<close>

lemma dec_of_parts:
  assumes ip: "list_all is_digit ip" "ip \<noteq> []" and fp: "list_all is_digit fp"
    and ex: "ex = [] \<and> x = 0 \<or> (\<exists>s xs. ex = CHR ''E'' # s # xs \<and> xs \<noteq> [] \<and> list_all is_digit xs \<and>
        (s = CHR ''-'' \<and> x = - int (nat_of_digits xs) \<or> s = CHR ''+'' \<and> x = int (nat_of_digits xs)))"
  shows "dec_of_string ((if neg then ''-'' else []) @ ip @ (if fp = [] then [] else ''.'' @ fp) @ ex) =
    Some (DFin (Dec neg (nat_of_digits (ip @ fp)) (x - int (length fp))))"
proof -
  let ?u = "ip @ (if fp = [] then [] else ''.'' @ fp) @ ex"
  let ?t = "(if neg then ''-'' else []) @ ?u"
  have digits: "\<forall>c \<in> set ip. is_digit c" "\<forall>c \<in> set fp. is_digit c"
    using ip fp by (auto simp: list_all_iff)
  have plain: "\<not> py_space c \<and> c \<noteq> CHR ''_''" if "is_digit c" for c
    using digit_not_special [OF that] by (auto simp: py_space_def)
  have exc: "\<forall>c \<in> set ex. \<not> py_space c \<and> c \<noteq> CHR ''_''"
  proof -
    have "\<not> py_space c" if "c \<in> set xs" "list_all is_digit xs" for c xs
      using that plain [of c] by (auto simp: list_all_iff)
    moreover have "CHR ''_'' \<notin> set xs" if "list_all is_digit xs" for xs
      using that plain [of "CHR ''_''"] by (auto simp: list_all_iff)
    moreover have "\<not> py_space (CHR ''E'') \<and> \<not> py_space (CHR ''-'') \<and> \<not> py_space (CHR ''+'')"
      by (simp add: py_space_def)
    ultimately show ?thesis using ex by auto
  qed
  have chars: "\<forall>c \<in> set ?t. \<not> py_space c \<and> c \<noteq> CHR ''_''"
    using digits plain exc by (auto simp: py_space_def)
  have 1: "py_strip ?t = ?t" using chars by (intro py_strip_id) blast
  have 2: "filter (\<lambda>c. c \<noteq> CHR ''_'') ?t = ?t" using chars by (intro filter_True) blast
  obtain c cs where c: "ip = c # cs" using ip(2) by (cases ip) auto
  then have "c \<noteq> CHR ''-'' \<and> c \<noteq> CHR ''+''" using digits digit_not_special [of c] by simp
  then have 3: "take_sign ?t = (neg, ?u)" unfolding c take_sign_def by simp
  have hd: "takeWhile is_digit ex = []" "dropWhile is_digit ex = ex"
    using ex by (auto simp: is_digit_def)
  have 4: "takeWhile is_digit ?u = ip" "dropWhile is_digit ?u = (if fp = [] then [] else ''.'' @ fp) @ ex"
    using digits hd by (auto simp: takeWhile_append dropWhile_append is_digit_def)
  have 5: "takeWhile is_digit (fp @ ex) = fp" "dropWhile is_digit (fp @ ex) = ex"
    using digits hd by (auto simp: takeWhile_append dropWhile_append)
  have 6: "parse_exponent ex = Some x"
    using ex by (auto simp: parse_exponent_def take_sign_def)
  have 7: "fp = [] \<Longrightarrow> (case ex of [] \<Rightarrow> ([], []) | c # cs \<Rightarrow>
      if c = CHR ''.'' then (takeWhile is_digit cs, dropWhile is_digit cs) else ([], ex)) = ([], ex)"
    using ex by auto
  show ?thesis
  proof (cases "fp = []")
    case True
    show ?thesis unfolding dec_of_string_def Let_def 1 2 3 prod.case 4
      using True ip(2) 6 7 by (cases ex) auto
  next
    case False
    then show ?thesis unfolding dec_of_string_def Let_def 1 2 3 prod.case 4
      using ip(2) 5 6 by simp
  qed
qed

text \<open>
  Reading back the text of a number gives the number, sign, coefficient and exponent included.
\<close>

lemma dec_text_parses: "dec_of_string (dec_str d) = Some (DFin d)"
proof -
  let ?ds = "string_of_nat (dcoef d)"
  let ?left = "dexp d + int (length ?ds)"
  have ds: "list_all is_digit ?ds" "?ds \<noteq> []" by (simp_all add: digits_of_nat)
  have val: "nat_of_digits ?ds = dcoef d" by simp
  have parts: "Dec (dsign d) (dcoef d) (dexp d) = d" by simp
  let ?sg = "if dsign d then ''-'' else []"
  show ?thesis
  proof (cases "dexp d \<le> 0 \<and> ?left > - 6")
    case plain: True
    show ?thesis
    proof (cases "?left \<le> 0")
      case True
      have str: "dec_str d = ?sg @ ''0'' @ ''.'' @ (replicate (nat (- ?left)) (CHR ''0'') @ ?ds) @ []"
        using plain True by (simp add: dec_str_def Let_def)
      have zero: "is_digit (CHR ''0'')" by (simp add: is_digit_def)
      then have "list_all is_digit (replicate (nat (- ?left)) (CHR ''0'') @ ?ds)"
        using ds(1) by (auto simp: list_all_iff)
      then have "dec_of_string (dec_str d) = Some (DFin (Dec (dsign d)
          (nat_of_digits (''0'' @ replicate (nat (- ?left)) (CHR ''0'') @ ?ds))
          (0 - int (length (replicate (nat (- ?left)) (CHR ''0'') @ ?ds)))))"
        using dec_of_parts [of "''0''" "replicate (nat (- ?left)) (CHR ''0'') @ ?ds" "[]" 0 "dsign d"] ds(2) zero
        unfolding str by simp
      moreover have "nat_of_digits (''0'' @ replicate (nat (- ?left)) (CHR ''0'') @ ?ds) = dcoef d"
        using nat_of_digits_zeros [of "Suc (nat (- ?left))" ?ds] val by simp
      moreover have "0 - int (length (replicate (nat (- ?left)) (CHR ''0'') @ ?ds)) = dexp d"
        using True by simp
      ultimately show ?thesis by simp
    next
      case False
      show ?thesis
      proof (cases "?left \<ge> int (length ?ds)")
        case True
        then have e: "dexp d = 0" using plain by simp
        have str: "dec_str d = ?sg @ ?ds @ [] @ []"
          using plain False True e by (simp add: dec_str_def Let_def)
        from dec_of_parts [of ?ds "[]" "[]" 0 "dsign d"] ds e show ?thesis unfolding str
          by (cases d) simp
      next
        case small: False
        let ?k = "nat ?left"
        have k: "0 < ?k" "?k < length ?ds" using small False by auto
        have str: "dec_str d = ?sg @ take ?k ?ds @ ''.'' @ drop ?k ?ds @ []"
          using plain False small by (simp add: dec_str_def Let_def)
        have dig: "list_all is_digit (take ?k ?ds)" "list_all is_digit (drop ?k ?ds)"
          using ds(1) by (auto simp: list_all_iff dest: in_set_takeD in_set_dropD)
        have "- int (length (drop ?k ?ds)) = dexp d" using False small by simp
        with dec_of_parts [of "take ?k ?ds" "drop ?k ?ds" "[]" 0 "dsign d"] dig k show ?thesis unfolding str
          by (cases d) simp
      qed
    qed
  next
    case sci: False
    let ?x = "?left - 1"
    let ?ex = "if ?left = 1 then [] else ''E'' @ (if ?left < 1 then ''-'' else ''+'') @ string_of_nat (nat \<bar>?x\<bar>)"
    have fp: "take 1 ?ds @ (if drop 1 ?ds = [] then [] else ''.'' @ drop 1 ?ds) =
        (if int (length ?ds) \<le> 1 then ?ds else take 1 ?ds @ ''.'' @ drop 1 ?ds)"
      using ds(2) by (cases ?ds) auto
    have str: "dec_str d = ?sg @ take 1 ?ds @ (if drop 1 ?ds = [] then [] else ''.'' @ drop 1 ?ds) @ ?ex"
      using sci ds(2)
      by (cases ?ds) (auto simp: dec_str_def Let_def)
    have dig: "list_all is_digit (take 1 ?ds)" "list_all is_digit (drop 1 ?ds)" "take 1 ?ds \<noteq> []"
      using ds by (auto simp: list_all_iff dest: in_set_takeD in_set_dropD)
    have len: "?x - int (length (drop 1 ?ds)) = dexp d" using ds(2) by (cases ?ds) auto
    have "dec_of_string (dec_str d) =
        Some (DFin (Dec (dsign d) (nat_of_digits (take 1 ?ds @ drop 1 ?ds)) (?x - int (length (drop 1 ?ds)))))"
      unfolding str
      by (rule dec_of_parts) (use dig digits_of_nat in auto)
    moreover have "nat_of_digits (take 1 ?ds @ drop 1 ?ds) = dcoef d" by (simp only: append_take_drop_id val)
    ultimately show ?thesis by (simp only: len fdec.collapse)
  qed
qed

end
