(* ===== verification/CheckoutSettlement.thy ===== *)
theory CheckoutSettlement
  imports DecimalText CheckoutTables
begin

text \<open>
  Settlement allocation of a delivered checkout (\<open>iat/checkout_settlement.py\<close>): the winner of the order,
  the commission split on exact decimals and the recording of one settlement per order. The agents
  table is the function \<open>agents\<close>, \<open>valid_wallet\<close> tells whether a Solana public key parses.
\<close>

datatype allocation_error = AttributeError | DecimalRaised dec_error | RecordFailed db_error

section \<open>Amounts\<close>

text \<open>\<open>_amount\<close>: unreadable is zero, negative is zero; \<open>max\<close> with a NaN raises, infinity stays.\<close>

definition amount_of :: "pyval \<Rightarrow> dec_error + pydec" where
  "amount_of value =
     (case dec_of_string (py_str value) of
        None \<Rightarrow> Inr (DFin dec_zero)
      | Some DNaN \<Rightarrow> Inl InvalidOperation
      | Some (DInf neg) \<Rightarrow> Inr (if neg then DFin dec_zero else DInf False)
      | Some (DFin d) \<Rightarrow> Inr (DFin (if dec_lt d dec_zero then dec_zero else d)))"

definition rate_limit :: fdec where "rate_limit = Dec False 50 (- 2)"

text \<open>The configured commission rate, clamped to the interval from 0 to 0.50.\<close>

definition commission_rate :: "env \<Rightarrow> dec_error + fdec" where
  "commission_rate getenv =
     (case dec_of_string (case getenv ''IAT_PROTOCOL_COMMISSION_RATE'' of None \<Rightarrow> ''0.10'' | Some t \<Rightarrow> t) of
        None \<Rightarrow> Inr (Dec False 10 (- 2))
      | Some DNaN \<Rightarrow> Inl InvalidOperation
      | Some (DInf neg) \<Rightarrow> Inr (if neg then dec_zero else rate_limit)
      | Some (DFin r) \<Rightarrow>
          let r' = (if dec_lt r dec_zero then dec_zero else r) in
          Inr (if dec_lt rate_limit r' then rate_limit else r'))"

text \<open>Commission, rounded down to six decimals, and payout.\<close>

definition commission_split :: "fdec \<Rightarrow> fdec \<Rightarrow> dec_error + fdec \<times> fdec" where
  "commission_split gross rate =
     (case dec_mul gross rate of
        Inl e \<Rightarrow> Inl e
      | Inr product \<Rightarrow>
          (case dec_quantize RoundDown product (- 6) of
             Inl e \<Rightarrow> Inl e
           | Inr commission \<Rightarrow>
               (case dec_sub gross commission of Inl e \<Rightarrow> Inl e | Inr payout \<Rightarrow> Inr (commission, payout))))"

section \<open>Results as dicts\<close>

definition posting_dict :: "posting \<Rightarrow> pydict" where
  "posting_dict p =
     [(''status'', PStr (po_status p)), (''transaction_id'', PStr (po_transaction_id p)),
      (''idempotent'', PBool (po_idempotent p))] @
     (case po_invariant p of None \<Rightarrow> [] | Some i \<Rightarrow> [(''invariant'', invariant_dict i)])"

definition settlement_dict :: "settlement \<Rightarrow> pydict" where
  "settlement_dict s =
     [(''settlement_id'', PStr (st_settlement_id s)), (''order_id'', PStr (st_order_id s)),
      (''winner_id'', pstr_opt (st_winner_id s)), (''winner_wallet'', pstr_opt (st_winner_wallet s)),
      (''treasury_wallet'', pstr_opt (st_treasury_wallet s)), (''gross_amount_iat'', st_gross_amount_iat s),
      (''protocol_commission_rate'', st_commission_rate s),
      (''protocol_commission_amount_iat'', st_commission_amount_iat s),
      (''seller_payout_amount_iat'', st_payout_amount_iat s),
      (''settlement_status'', pstr_opt (st_settlement_status s)),
      (''winner_payment_status'', pstr_opt (st_winner_payment_status s)),
      (''onchain_settlement_enabled'', PInt (if st_onchain_enabled s then 1 else 0)),
      (''commission_tx_signature'', pstr_opt (st_commission_tx s)),
      (''seller_payout_tx_signature'', pstr_opt (st_payout_tx s)), (''settlement_payload'', st_payload s),
      (''created_at'', PInt (st_created_at s)), (''updated_at'', PInt (st_updated_at s)),
      (''execution_claim_status'', pstr_opt (st_claim_status s)), (''execution_claim_token'', pstr_opt (st_claim_token s)),
      (''execution_claimed_at'', pint_opt (st_claimed_at s)), (''execution_broadcast_at'', pint_opt (st_broadcast_at s)),
      (''execution_last_error'', pstr_opt (st_last_error s)), (''gross_amount_minor'', pint_opt (st_gross_minor s)),
      (''protocol_commission_amount_minor'', pint_opt (st_commission_minor s)),
      (''seller_payout_amount_minor'', pint_opt (st_payout_minor s))]"

definition record_dict :: "record_result \<Rightarrow> pydict option" where
  "record_dict r =
     (case r of
        RecordSkipped \<Rightarrow> None
      | SettlementRecorded sid order_id ledger \<Rightarrow>
          Some [(''status'', PStr ''settlement_recorded''), (''settlement_id'', PStr sid),
                (''order_id'', PStr order_id), (''ledger'', PDict (posting_dict ledger))]
      | SettlementAlreadyRecorded order_id existing \<Rightarrow>
          Some [(''status'', PStr ''settlement_already_recorded''),
                (''settlement_id'', PStr (st_settlement_id existing)), (''order_id'', PStr order_id),
                (''existing_settlement'', PDict (settlement_dict existing)), (''idempotent'', PBool True)])"

section \<open>Allocation\<close>

record allocation_env =
  ae_env :: env
  ae_agents :: "pyval \<Rightarrow> pydict option"
  ae_valid_wallet :: "pyval \<Rightarrow> bool"
  ae_sha :: "string \<Rightarrow> string"
  ae_float :: "pyval \<Rightarrow> pyval option"
  ae_uuid :: "nat \<Rightarrow> string"
  ae_settlement_id :: string
  ae_now :: int

definition winner_of :: "pydict \<Rightarrow> pydict \<Rightarrow> pyval" where
  "winner_of best order =
     py_or (dget best ''agent_id'') (py_or (dget order ''seller_id'')
       (py_or (dget order ''selected_agent_id'') (dget order ''locked_agent_id'')))"

definition winner_wallet_of :: "pydict \<Rightarrow> pydict \<Rightarrow> pydict option \<Rightarrow> pyval" where
  "winner_wallet_of best order agent =
     py_or (dget best ''wallet'') (py_or (dget order ''actual_agent_wallet'')
       (py_or (case agent of None \<Rightarrow> PNone | Some a \<Rightarrow> dget a ''wallet'') (dget order ''seller_wallet'')))"

definition payment_status :: "bool \<Rightarrow> bool \<Rightarrow> bool \<Rightarrow> string \<times> string" where
  "payment_status winner wallet positive =
     (if \<not> winner then (''blocked_no_winner'', ''winner_agent_missing'')
      else if \<not> wallet then (''blocked_invalid_winner_wallet'', ''winner_wallet_invalid'')
      else if \<not> positive then (''no_payment_due'', ''zero_amount_order'')
      else (''pending_escrow_release'', ''delivery_recorded_waiting_for_settlement_governance''))"

definition allocation_settlement ::
  "env \<Rightarrow> string \<Rightarrow> pyval \<Rightarrow> pyval \<Rightarrow> fdec \<Rightarrow> fdec \<Rightarrow> fdec \<Rightarrow> fdec \<Rightarrow> string \<times> string \<Rightarrow> pyval \<Rightarrow> pydict" where
  "allocation_settlement getenv order_id winner wallet gross rate commission payout status delivery_status =
     [(''settlement_type'', PStr ''universal_checkout_delivery_allocation''),
      (''settlement_source'', PStr ''universal_checkout''), (''order_id'', PStr order_id),
      (''winner_id'', winner), (''winner_wallet'', wallet),
      (''gross_amount_iat'', PStr (dec_str gross)), (''protocol_commission_rate'', PStr (dec_str rate)),
      (''protocol_commission_amount_iat'', PStr (dec_str commission)),
      (''seller_payout_amount_iat'', PStr (dec_str payout)),
      (''winner_payment_status'', PStr (fst status)), (''reason'', PStr (snd status)),
      (''protocol_treasury_wallet'', pstr_opt (getenv ''IAT_PROTOCOL_TREASURY_WALLET'')),
      (''delivery_status'', delivery_status),
      (''release_policy'', PDict
         [(''allocation_is_not_release'', PBool True), (''seller_cannot_self_release'', PBool True),
          (''protocol_governance_required'', PBool True), (''onchain_broadcast_performed'', PBool False)])]"

text \<open>An infinite price fails in \<open>quantize\<close> (or in the product with a zero rate).\<close>

definition priced_split :: "env \<Rightarrow> pyval \<Rightarrow> dec_error + fdec \<times> fdec \<times> fdec \<times> fdec" where
  "priced_split getenv price =
     (case amount_of price of
        Inl e \<Rightarrow> Inl e
      | Inr (DFin gross) \<Rightarrow>
          (case commission_rate getenv of
             Inl e \<Rightarrow> Inl e
           | Inr rate \<Rightarrow>
               (case commission_split gross rate of
                  Inl e \<Rightarrow> Inl e
                | Inr (commission, payout) \<Rightarrow> Inr (gross, rate, commission, payout)))
      | Inr _ \<Rightarrow> Inl InvalidOperation)"

definition allocate_checkout_settlement ::
  "allocation_env \<Rightarrow> pydict \<Rightarrow> pyval \<Rightarrow> pdb \<Rightarrow> (allocation_error + pydict) \<times> pdb" where
  "allocate_checkout_settlement w order delivery_result db =
     (let order_id = py_strip (str_or_empty (dget order ''order_id'')) in
      if order_id = []
      then (Inr [(''status'', PStr ''blocked''), (''reason'', PStr ''order_id_missing'')], db)
      else (case get_settlement_by_order_id_db db order_id of
              Some existing \<Rightarrow>
                (Inr [(''status'', PStr ''settlement_already_recorded''),
                      (''settlement_id'', PStr (st_settlement_id existing)), (''order_id'', PStr order_id),
                      (''idempotent'', PBool True)], db)
            | None \<Rightarrow>
                let found = (case delivery_result of PDict d \<Rightarrow> dget d ''best_result'' | _ \<Rightarrow> PNone) in
                if truthy found \<and> \<not> is_dict found then (Inl AttributeError, db)
                else
                  let best = as_dict found; winner = winner_of best order;
                      agent = (if truthy winner then ae_agents w winner else None);
                      wallet = winner_wallet_of best order agent
                  in (case priced_split (ae_env w) (dget order ''price'') of
                        Inl e \<Rightarrow> (Inl (DecimalRaised e), db)
                      | Inr (gross, rate, commission, payout) \<Rightarrow>
                          if \<not> is_dict delivery_result then (Inl AttributeError, db)
                          else
                            let status = payment_status (truthy winner) (ae_valid_wallet w wallet) (dec_lt dec_zero gross);
                                settlement = allocation_settlement (ae_env w) order_id winner wallet gross rate commission
                                  payout status (dget (as_dict delivery_result) ''status'')
                            in (case record_settlement_db (ae_sha w) (ae_float w) (ae_uuid w) (ae_settlement_id w) (ae_now w)
                                       order_id (PDict settlement) db of
                                  (Inl e, db') \<Rightarrow> (Inl (RecordFailed e), db')
                                | (Inr r, db') \<Rightarrow>
                                    (Inr (case record_dict r of
                                            Some d \<Rightarrow> d
                                          | None \<Rightarrow> [(''status'', PStr ''blocked''),
                                                     (''reason'', PStr ''settlement_record_not_created''),
                                                     (''order_id'', PStr order_id)]), db')))))"

section \<open>The split books exactly\<close>

text \<open>The minor units of a non-negative number, before the range check.\<close>

definition minor_units :: "fdec \<Rightarrow> nat" where
  "minor_units d =
     (if dexp d < 0 then round_quot HalfUp (dcoef d * 10 ^ 8) (nat (- dexp d))
      else dcoef d * 10 ^ 8 * 10 ^ nat (dexp d))"

lemma round_quot_upper: "round_quot HalfUp n k \<le> n div 10 ^ k + 1"
  by (simp add: round_quot_def Let_def)

lemma round_quot_lower: "n div 10 ^ k \<le> round_quot HalfUp n k"
  by (simp add: round_quot_def Let_def)

lemma iat_to_minor_iff:
  assumes d: "dec_of_string (py_str v) = Some (DFin d)" "dcoef d < 10 ^ 20" "\<not> dsign d"
    and e: "- 1000026 \<le> dexp d" "dexp d \<le> 999900"
  shows "iat_to_minor v = Inr n \<longleftrightarrow> n = int (minor_units d) \<and> n \<le> max_iat_minor"
proof -
  let ?N = "dcoef d * 100000000"
  let ?M = "Dec False ?N (dexp d)"
  have "ndigits ?N \<le> 28" using d(2) by (simp add: ndigits_le_iff)
  then have mul: "dec_mul d (dec_of_int iat_scale) = Inr ?M"
    using d(3) e by (simp add: dec_mul_def dec_of_int_def iat_scale_def dec_fix_exact)
  have pos: "\<not> dec_lt d dec_zero" using d(3) by (simp add: dec_nonneg_iff)
  have val: "dec_to_int (dec_rescale HalfUp ?M 0) = int (minor_units d)"
    by (cases "dcoef d = 0") (simp_all add: dec_rescale_def dec_to_int_def minor_units_def round_quot_def)
  show ?thesis
  proof
    assume "iat_to_minor v = Inr n"
    then show "n = int (minor_units d) \<and> n \<le> max_iat_minor"
      using d(1) pos mul val by (auto simp: iat_to_minor_def dest!: quantize_whole split: sum.splits if_splits)
  next
    assume n: "n = int (minor_units d) \<and> n \<le> max_iat_minor"
    then have small: "minor_units d < 10 ^ 19" by (simp add: max_iat_minor_def)
    have "\<exists>q. dec_quantize HalfUp ?M 0 = Inr q"
    proof (cases "dcoef d = 0")
      case True
      then show ?thesis by (simp add: dec_quantize_def dec_limits dec_fix_def)
    next
      case False
      let ?a = "dec_rescale HalfUp ?M 0"
      have coef: "dcoef ?a = minor_units d"
        using False by (simp add: dec_rescale_def minor_units_def)
      have nda: "ndigits (minor_units d) \<le> 19" using small by (simp add: ndigits_le_iff)
      have adj: "int (ndigits ?N) + dexp d \<le> 20"
      proof (rule ccontr)
        assume "\<not> ?thesis"
        then have big: "21 \<le> int (ndigits ?N) + dexp d" by simp
        have low: "10 ^ (ndigits ?N - 1) \<le> ?N" using False by (intro ndigits_lower) simp
        show False
        proof (cases "dexp d < 0")
          case True
          then have "nat (- dexp d) + 20 \<le> ndigits ?N - 1" using big by simp
          then have "10 ^ (nat (- dexp d) + 20) \<le> ?N"
            using low by (meson le_trans one_le_numeral power_increasing)
          then have "10 ^ 20 \<le> ?N div 10 ^ nat (- dexp d)"
            by (simp add: power_add less_eq_div_iff_mult_less_eq mult.commute)
          then show False using True small round_quot_lower [of ?N "nat (- dexp d)"] by (simp add: minor_units_def)
        next
          case nn: False
          then have "20 \<le> (ndigits ?N - 1) + nat (dexp d)" using big by simp
          then have "(10::nat) ^ 20 \<le> 10 ^ (ndigits ?N - 1) * 10 ^ nat (dexp d)"
            by (metis one_le_numeral power_add power_increasing)
          also have "\<dots> \<le> ?N * 10 ^ nat (dexp d)" using low by (rule mult_right_mono) simp
          finally show False using nn small by (simp add: minor_units_def)
        qed
      qed
      have "ndigits (dcoef ?a) \<le> 28" using nda coef by simp
      then have "dec_fix ?a = Inr ?a" by (rule dec_fix_exact) simp_all
      then show ?thesis using False adj nda coef
        by (simp add: dec_quantize_def dec_limits dec_adjusted_def Let_def)
    qed
    then obtain q where q: "dec_quantize HalfUp ?M 0 = Inr q" by blast
    then have "dec_to_int q = int (minor_units d)" using quantize_whole [OF q] val by simp
    then show "iat_to_minor v = Inr n"
      using d(1) pos mul n q by (simp add: iat_to_minor_def)
  qed
qed

lemma round_quot_scaled: "round_quot HalfUp (n * 10 ^ i) (k + i) = round_quot HalfUp n k"
proof -
  have "n * 10 ^ i div 10 ^ (k + i) = n div 10 ^ k" "n * 10 ^ i mod 10 ^ (k + i) = n mod 10 ^ k * 10 ^ i"
    by (simp_all add: power_add mult_mod_left)
  then show ?thesis by (simp add: round_quot_def Let_def power_add)
qed

lemma minor_units_scaled: "minor_units (Dec s (n * 10 ^ i) (x - int i)) = minor_units (Dec s' n x)"
proof (cases "x < 0")
  case True
  then have "nat (int i - x) = nat (- x) + i" by simp
  with True show ?thesis using round_quot_scaled [of "n * 100000000" i "nat (- x)"]
    by (simp add: minor_units_def mult_ac)
next
  case False
  show ?thesis
  proof (cases "x < int i")
    case True
    let ?j = "nat (int i - x)"
    have i: "i = ?j + nat x" using False True by simp
    have eq: "n * 10 ^ i * 10 ^ 8 = n * 10 ^ 8 * 10 ^ nat x * 10 ^ ?j"
      by (subst i) (simp add: power_add mult_ac)
    have "round_quot HalfUp (n * 10 ^ i * 10 ^ 8) ?j = n * 10 ^ 8 * 10 ^ nat x"
      unfolding eq by (subst round_quot_exact) simp_all
    then show ?thesis using True False by (simp add: minor_units_def)
  next
    case ge: False
    then have "nat x = i + nat (x - int i)" by simp
    then show ?thesis using False ge by (simp add: minor_units_def power_add mult_ac)
  qed
qed

lemma round_quot_minus:
  assumes "m * 10 ^ k \<le> n"
  shows "round_quot HalfUp (n - m * 10 ^ k) k + m = round_quot HalfUp n k"
proof -
  define r where "r = n - m * 10 ^ k"
  then have n: "n = r + m * 10 ^ k" using assms by simp
  show ?thesis by (simp add: n round_quot_def Let_def)
qed

lemma minor_units_below:
  assumes "minor_units d < 10 ^ 19" and "\<not> dsign d"
  shows "dec_val d < 10 ^ 11"
proof -
  have "dec_val d * 10 ^ 8 < of_nat (minor_units d) + 1"
  proof (cases "dexp d < 0")
    case True
    let ?k = "nat (- dexp d)"
    have "dcoef d * 10 ^ 8 < (dcoef d * 10 ^ 8 div 10 ^ ?k + 1) * 10 ^ ?k"
      by (metis Suc_eq_plus1 dividend_less_times_div mult.commute mult_Suc_right pos2 zero_less_power zero_less_numeral add.commute)
    also have "\<dots> \<le> (minor_units d + 1) * 10 ^ ?k"
      using True round_quot_lower [of "dcoef d * 10 ^ 8" ?k] by (simp add: minor_units_def)
    finally have "of_nat (dcoef d * 10 ^ 8) < (of_nat ((minor_units d + 1) * 10 ^ ?k) :: rat)"
      by (simp only: of_nat_less_iff)
    then have "of_nat (dcoef d) * 10 ^ 8 < (of_nat (minor_units d) + 1) * (10::rat) ^ ?k"
      by (simp add: algebra_simps)
    moreover have "of_nat (dcoef d) = dec_val d * 10 ^ ?k"
      using True assms(2) by (simp add: dec_val_def power_int_def field_simps)
    ultimately have "(dec_val d * 10 ^ 8) * 10 ^ ?k < (of_nat (minor_units d) + 1) * (10::rat) ^ ?k"
      by (simp add: mult_ac)
    then show ?thesis by (simp add: mult_less_cancel_right)
  next
    case False
    then show ?thesis using assms(2) by (simp add: dec_val_def minor_units_def power_int_def)
  qed
  also have "\<dots> \<le> (10 ^ 19 :: rat)"
    using assms(1) by (metis Suc_eq_plus1 Suc_leI of_nat_1 of_nat_add of_nat_le_iff of_nat_numeral of_nat_power)
  finally show ?thesis by simp
qed

lemma below_power:
  assumes "c \<noteq> 0" and "of_nat c * (10::rat) powi x < 10 ^ k"
  shows "int (ndigits c) + x \<le> int k"
proof (rule ccontr)
  assume "\<not> ?thesis"
  then have "int k \<le> int (ndigits c - 1) + x" using ndigits_ge1 [of c] by linarith
  then have "(10::rat) powi int k \<le> 10 powi (int (ndigits c - 1) + x)" by (intro power_int_increasing) auto
  also have "\<dots> = 10 ^ (ndigits c - 1) * 10 powi x"
    by (subst power_int_add) (simp, simp only: power_int_of_nat)
  also have "\<dots> \<le> of_nat c * 10 powi x"
    using ndigits_lower [OF assms(1)]
    by (intro mult_right_mono) (metis of_nat_le_iff of_nat_numeral of_nat_power, simp)
  finally show False using assms(2) by simp
qed

text \<open>The commission: a whole number of millionths, not above the gross amount.\<close>

lemma commission_value:
  assumes prod: "dsign m = False" "dcoef m < 10 ^ 28" "- 1000026 \<le> dexp m" "dec_val m < 10 ^ 11"
  obtains k where "dec_quantize RoundDown m (- 6) = Inr (Dec False k (- 6))"
    and "of_nat k * (10::rat) powi (- 6) \<le> dec_val m"
proof (cases "dcoef m = 0")
  case True
  show thesis
    by (rule that [of 0]) (use True prod in \<open>simp_all add: dec_quantize_def dec_limits dec_fix_def dec_val_def\<close>)
next
  case False
  let ?a = "dec_rescale RoundDown m (- 6)"
  let ?k = "dcoef ?a"
  have v: "dec_val m = of_nat (dcoef m) * 10 powi dexp m" using prod(1) by (simp add: dec_val_def)
  have adj: "int (ndigits (dcoef m)) + dexp m \<le> 11"
    using below_power [OF False, of "dexp m" 11] prod(4) v by simp
  have le: "of_nat ?k * (10::rat) powi (- 6) \<le> dec_val m"
  proof (cases "- 6 \<le> dexp m")
    case True
    have "of_nat ?k * (10::rat) powi (- 6) = of_nat (dcoef m) * (10 ^ nat (dexp m + 6) * 10 powi (- 6))"
      using True False by (simp add: dec_rescale_def)
    also have "\<dots> = dec_val m" using v powi_split [OF True] by simp
    finally show ?thesis by simp
  next
    case less: False
    let ?j = "nat (- 6 - dexp m)"
    have "?k = round_quot RoundDown (dcoef m) ?j" using less False by (simp add: dec_rescale_def)
    then have "of_nat (?k * 10 ^ ?j) \<le> (of_nat (dcoef m) :: rat)"
      using round_down_le [of "dcoef m" ?j] by (simp only: of_nat_le_iff)
    then have "of_nat ?k * 10 ^ ?j * (10::rat) powi dexp m \<le> of_nat (dcoef m) * 10 powi dexp m"
      by (intro mult_right_mono) simp_all
    moreover have "(10::rat) powi (- 6) = 10 ^ ?j * 10 powi dexp m" by (rule powi_split) (use less in simp)
    ultimately show ?thesis unfolding v by (simp only: mult.assoc)
  qed
  have nd: "ndigits ?k \<le> 17"
  proof (cases "?k = 0")
    case nz: False
    have "of_nat ?k * (10::rat) powi (- 6) < 10 ^ 11" using le prod(4) by linarith
    from below_power [OF nz this] show ?thesis by simp
  qed (simp add: ndigits.simps)
  have a: "?a = Dec False ?k (- 6)" using prod(1) by (cases ?a) (metis dec_rescale_exp dec_rescale_sign fdec.sel)
  have "dec_quantize RoundDown m (- 6) = Inr ?a"
    using False adj nd dec_fix_exact [of ?a]
    by (simp add: dec_quantize_def dec_limits dec_adjusted_def Let_def)
  with a show thesis using le that by metis
qed

lemma split_product:
  assumes gross: "\<not> dsign gross" "dcoef gross < 10 ^ 20" "- 500 \<le> dexp gross" "dexp gross \<le> 100"
    and rate: "\<not> dsign rate" "dcoef rate < 10 ^ 8" "- 500 \<le> dexp rate" "dec_val rate \<le> 1"
  obtains m where "dec_mul gross rate = Inr m" "dsign m = False" "dcoef m < 10 ^ 28" "- 1000026 \<le> dexp m"
    "dec_val m \<le> dec_val gross"
proof -
  let ?m = "Dec False (dcoef gross * dcoef rate) (dexp gross + dexp rate)"
  have coef: "dcoef gross * dcoef rate < 10 ^ 28"
  proof -
    have "dcoef gross * dcoef rate \<le> (10 ^ 20 - 1) * (10 ^ 8 - 1)"
      using gross(2) rate(2) by (intro mult_mono) simp_all
    then show ?thesis by simp
  qed
  have fexp: "dcoef rate = 0 \<or> dexp rate \<le> 0"
  proof (rule ccontr)
    assume "\<not> ?thesis"
    then have pos: "0 < dcoef rate" "1 \<le> dexp rate" by auto
    have "(10::rat) powi 1 \<le> 10 powi dexp rate" using pos(2) by (intro power_int_increasing) auto
    moreover have "1 * (10::rat) powi dexp rate \<le> of_nat (dcoef rate) * 10 powi dexp rate"
      using pos(1) by (intro mult_right_mono) simp_all
    then have "(10::rat) powi dexp rate \<le> dec_val rate" using rate(1) by (simp only: dec_val_def mult_1 if_False)
    ultimately show False using rate(4) by simp
  qed
  have mval: "dec_val ?m = dec_val gross * dec_val rate"
    using gross(1) rate(1) by (simp add: dec_val_def power_int_add)
  have gnn: "0 \<le> dec_val gross" using gross(1) dec_val_nonneg by blast
  have mle: "dec_val ?m \<le> dec_val gross"
    unfolding mval using gnn rate(4) by (simp add: mult_left_le)
  have mul: "\<exists>m'. dec_mul gross rate = Inr m' \<and> dsign m' = False \<and> dcoef m' < 10 ^ 28 \<and>
      - 1000026 \<le> dexp m' \<and> dec_val m' = dec_val ?m"
  proof (cases "dcoef rate = 0")
    case True
    then show ?thesis using gross rate
      by (simp add: dec_mul_def dec_fix_def dec_limits dec_val_def)
  next
    case False
    have "ndigits (dcoef gross * dcoef rate) \<le> 28" using coef by (simp add: ndigits_le_iff)
    then have "dec_fix ?m = Inr ?m" using gross rate fexp False by (intro dec_fix_exact) auto
    then show ?thesis using gross(1,3) rate(1,3) coef by (simp add: dec_mul_def)
  qed
  with mle that show thesis by metis
qed

lemma payout_units:
  assumes gross: "\<not> dsign gross" "dcoef gross < 10 ^ 20" "- 500 \<le> dexp gross" "dec_val gross < 10 ^ 11"
    and k_gross: "of_nat k * (10::rat) powi (- 6) \<le> dec_val gross"
  obtains p where "dec_sub gross (Dec False k (- 6)) = Inr p" "minor_units p + k * 100 = minor_units gross"
    "\<not> dsign p" "dcoef p < 10 ^ 20" "- 500 \<le> dexp p" "dexp p \<le> - 6"
proof -
  let ?c = "Dec False k (- 6)"
  let ?e = "min (dexp gross) (- 6)"
  define A where "A = dcoef gross * 10 ^ nat (dexp gross - ?e)"
  define K where "K = k * 10 ^ nat (- 6 - ?e)"
  have Aval: "of_nat A * (10::rat) powi ?e = dec_val gross"
    using powi_split [of ?e "dexp gross"] gross(1) by (simp add: A_def dec_val_def)
  have Kval: "of_nat K * (10::rat) powi ?e = of_nat k * 10 powi (- 6)"
    using powi_split [of ?e "- 6"] by (simp add: K_def)
  have "of_nat K * (10::rat) powi ?e \<le> of_nat A * 10 powi ?e" using k_gross Aval Kval by simp
  then have KA: "K \<le> A" by (simp add: mult_le_cancel_right)
  have A20: "A < 10 ^ 20"
  proof (cases "dexp gross \<le> - 6")
    case False
    have "of_nat A * (10::rat) powi (- 6) < 10 ^ 11" using Aval gross(4) False by simp
    then have "A = 0 \<or> ndigits A \<le> 17" using below_power [of A "- 6" 11] by auto
    then show ?thesis by (auto simp: ndigits_le_iff)
  qed (use gross(2) in \<open>simp add: A_def\<close>)
  let ?p = "Dec False (A - K) ?e"
  have "dec_at gross ?e = int A" "dec_at (dec_neg ?c) ?e = - int K"
    using gross(1) by (simp_all add: dec_at_def A_def K_def dec_neg_def)
  then have "dec_sub gross ?c = dec_fix ?p"
    using KA gross(1) by (auto simp: dec_sub_def dec_add_def dec_neg_def Let_def of_nat_diff nat_diff_distrib)
  moreover have "ndigits (A - K) \<le> 28" using A20 by (simp add: ndigits_le_iff)
  then have "dec_fix ?p = Inr ?p" using gross(3) by (intro dec_fix_exact) auto
  ultimately have sub: "dec_sub gross ?c = Inr ?p" by simp
  let ?j = "nat (- ?e)"
  have KS: "K * 10 ^ 8 = (k * 100) * 10 ^ ?j"
  proof -
    have "nat (- 6 - ?e) + 8 = 2 + ?j" by simp
    then have "(10::nat) ^ nat (- 6 - ?e) * 10 ^ 8 = 10 ^ 2 * 10 ^ ?j" by (simp only: flip: power_add)
    then show ?thesis by (simp add: K_def mult_ac)
  qed
  have gs: "minor_units gross = round_quot HalfUp (A * 10 ^ 8) ?j"
  proof -
    have "Dec (dsign gross) A (dexp gross - int (nat (dexp gross - ?e))) = Dec (dsign gross) A ?e" by simp
    then have "minor_units gross = minor_units (Dec False A ?e)"
      using minor_units_scaled [of False "dcoef gross" "nat (dexp gross - ?e)" "dexp gross" "dsign gross"]
      by (simp add: A_def)
    moreover have "?e < 0" by simp
    ultimately show ?thesis by (simp only: minor_units_def fdec.sel if_True)
  qed
  have pm: "minor_units ?p + k * 100 = minor_units gross"
  proof -
    have "(k * 100) * 10 ^ ?j \<le> A * 10 ^ 8" using KA KS by (metis mult_le_mono1)
    from round_quot_minus [OF this]
    have "round_quot HalfUp ((A - K) * 10 ^ 8) ?j + k * 100 = minor_units gross"
      by (simp only: gs KS diff_mult_distrib)
    moreover have "minor_units ?p = round_quot HalfUp ((A - K) * 10 ^ 8) ?j"
      unfolding minor_units_def fdec.sel by (rule if_P) simp
    ultimately show ?thesis by (simp only:)
  qed
  then show thesis using that [OF sub] A20 gross(3) by simp
qed

lemma commission_units: "minor_units (Dec False k (- 6)) = k * 100"
  using round_quot_exact [of 6 "k * 100000000" HalfUp] by (simp add: minor_units_def)

text \<open>
  C19: the commission split of a price books exactly: for a readable price and a commission rate up to
  one, the texts of commission and payout read back as minor amounts that add up to the gross amount
  in minor units, to the last unit, so that the ledger accepts the split; the commission is a whole
  number of millionths of IAT.
\<close>

theorem commission_split_books:
  assumes gross: "\<not> dsign gross" "dcoef gross < 10 ^ 20" "- 500 \<le> dexp gross" "dexp gross \<le> 100"
    and rate: "\<not> dsign rate" "dcoef rate < 10 ^ 8" "- 500 \<le> dexp rate" "dec_val rate \<le> 1"
    and g: "iat_to_minor (PStr (dec_str gross)) = Inr g"
  shows "\<exists>commission payout c p. commission_split gross rate = Inr (commission, payout) \<and>
     iat_to_minor (PStr (dec_str commission)) = Inr c \<and> iat_to_minor (PStr (dec_str payout)) = Inr p \<and>
     c + p = g \<and> 0 \<le> c \<and> 0 \<le> p \<and> 100 dvd c"
proof -
  have read: "dec_of_string (py_str (PStr (dec_str d))) = Some (DFin d)" for d
    by (simp add: py_str_def dec_text_parses)
  have gm: "g = int (minor_units gross)" "g \<le> max_iat_minor"
    using g iat_to_minor_iff [OF read gross(2,1)] gross(3,4) by auto
  then have "minor_units gross < 10 ^ 19" by (simp add: max_iat_minor_def)
  then have gross_val: "dec_val gross < 10 ^ 11" using minor_units_below gross(1) by blast
  from split_product [OF gross rate] obtain m where m: "dec_mul gross rate = Inr m" "dsign m = False"
    "dcoef m < 10 ^ 28" "- 1000026 \<le> dexp m" "dec_val m \<le> dec_val gross" .
  then have "dec_val m < 10 ^ 11" using gross_val by linarith
  from commission_value [OF m(2-4) this] obtain k where
    quant: "dec_quantize RoundDown m (- 6) = Inr (Dec False k (- 6))"
    and k: "of_nat k * (10::rat) powi (- 6) \<le> dec_val m" .
  let ?c = "Dec False k (- 6)"
  have k_gross: "of_nat k * (10::rat) powi (- 6) \<le> dec_val gross" using k m(5) by linarith
  from payout_units [OF gross(1-3) gross_val k_gross] obtain p where p: "dec_sub gross ?c = Inr p"
    "minor_units p + k * 100 = minor_units gross" "\<not> dsign p" "dcoef p < 10 ^ 20" "- 500 \<le> dexp p" "dexp p \<le> - 6" .
  have split: "commission_split gross rate = Inr (?c, p)" using m(1) quant p(1) by (simp add: commission_split_def)
  have "iat_to_minor (PStr (dec_str p)) = Inr (int (minor_units p))"
    using iat_to_minor_iff [OF read, of p] p(2-6) gm by auto
  moreover have "k < 10 ^ 20"
  proof -
    have "of_nat k * (10::rat) powi (- 6) < 10 ^ 11" using k_gross gross_val by linarith
    then have "k = 0 \<or> ndigits k \<le> 17" using below_power [of k "- 6" 11] by auto
    then show ?thesis by (auto simp: ndigits_le_iff)
  qed
  then have "iat_to_minor (PStr (dec_str ?c)) = Inr (int (k * 100))"
    using iat_to_minor_iff [OF read, of ?c] gm p(2) commission_units [of k] by auto
  moreover have "int (k * 100) + int (minor_units p) = g"
    unfolding gm(1) p(2) [symmetric] by (simp only: of_nat_add add.commute)
  moreover have "(100::int) dvd int (k * 100)" by simp
  ultimately show ?thesis
    using split by (intro exI [of _ ?c] exI [of _ p] exI [of _ "int (k * 100)"] exI [of _ "int (minor_units p)"] conjI)
      (simp_all only: of_nat_0_le_iff)
qed

theorem commission_split_books_witness:
  "\<exists>commission payout c p. commission_split (Dec False 123456789 (- 8)) (Dec False 10 (- 2)) = Inr (commission, payout) \<and>
     iat_to_minor (PStr (dec_str commission)) = Inr c \<and> iat_to_minor (PStr (dec_str payout)) = Inr p \<and>
     c + p = 123456789 \<and> 0 \<le> c \<and> 0 \<le> p \<and> 100 dvd c"
proof (rule commission_split_books)
  show "iat_to_minor (PStr (dec_str (Dec False 123456789 (- 8)))) = Inr 123456789"
    by (subst iat_to_minor_iff [where d = "Dec False 123456789 (- 8)"])
       (simp_all add: py_str_def dec_text_parses minor_units_def round_quot_def max_iat_minor_def)
qed (simp_all add: dec_val_def power_int_def power2_eq_square)

end
