(* ===== verification/CheckoutDelivery.thy ===== *)
theory CheckoutDelivery
  imports CheckoutReceipt CheckoutSettlement
begin

text \<open>
  The delivery queue of paid checkouts (\<open>iat/checkout_delivery.py\<close>): a delivery is enqueued with the
  payment, claimed under a lease, executed, finished under the lease's token, retried with backoff,
  exhausted, redriven; a delivered order is marked, its settlement allocated and its result sealed.
  The executor is a function of the order, the payment and the database: it answers or raises
  (\<open>None\<close>) and leaves any database, which covers its own writes and those of other sessions
  meanwhile. The result dict of a disclosure keeps the fixed order of \<open>buyer_result_fields\<close>, where the
  code iterates over a set.
\<close>

section \<open>Constants\<close>

definition terminal_states :: "string list" where
  "terminal_states = [''completed'', ''review_required'', ''blocked'', ''exhausted'']"

definition authorized_delivery_statuses :: "string list" where
  "authorized_delivery_statuses =
     [''consensus_delivered'', ''seller_runtime_consensus_delivered'', ''foundation_supplier_pipeline_completed'',
      ''foundation_supplier_pipeline_fallback'', ''pipeline_completed'', ''success'']"

definition buyer_result_fields :: "string list" where
  "buyer_result_fields =
     [''status'', ''summary'', ''recommendations'', ''final_recommendation'', ''confidence'', ''sources'', ''message'',
      ''reason'', ''delivery_authorized'', ''foundation_verdict'', ''foundation_decision_ready'',
      ''foundation_evidence_status'', ''foundation_evidence_reason'', ''research_status'', ''research_valid_agents'',
      ''verification_status'', ''verification_valid_agents'', ''claim_validation_status'', ''verified_claim_count'',
      ''rejected_claim_count'', ''execution_mode'', ''retryable'']"

definition bounded_env :: "env \<Rightarrow> string \<Rightarrow> int \<Rightarrow> int \<Rightarrow> int \<Rightarrow> int" where
  "bounded_env getenv name dflt minimum maximum = clamp_int minimum maximum (env_int getenv name dflt)"

definition lease_seconds :: "env \<Rightarrow> int" where
  "lease_seconds getenv = bounded_env getenv ''IAT_CHECKOUT_DELIVERY_LEASE_SECONDS'' 90 30 900"

definition max_attempts :: "env \<Rightarrow> int" where
  "max_attempts getenv = bounded_env getenv ''IAT_CHECKOUT_DELIVERY_MAX_ATTEMPTS'' 16 1 32"

definition retry_base :: "env \<Rightarrow> int" where
  "retry_base getenv = bounded_env getenv ''IAT_CHECKOUT_DELIVERY_RETRY_BASE_SECONDS'' 30 5 3600"

section \<open>Enqueueing\<close>

definition delivery_event ::
  "string \<Rightarrow> string \<Rightarrow> string \<Rightarrow> string option \<Rightarrow> string \<Rightarrow> string \<Rightarrow> string option \<Rightarrow> int \<Rightarrow> flow_event" where
  "delivery_event quote_id order_id event_type from_state to_state actor reason now =
     \<lparr> fe_quote_id = quote_id, fe_subject = order_id, fe_type = event_type, fe_from = from_state,
       fe_to = to_state, fe_actor = take 128 actor, fe_reason = reason, fe_at = now \<rparr>"

definition new_delivery :: "string \<Rightarrow> string \<Rightarrow> string \<Rightarrow> int \<Rightarrow> delivery" where
  "new_delivery quote_id order_id tx_signature now =
     \<lparr> dl_quote_id = quote_id, dl_order_id = order_id, dl_tx_signature = tx_signature, dl_state = ''pending'',
       dl_attempt_count = 0, dl_next_attempt_at = now, dl_lease_token = None, dl_lease_until = None,
       dl_last_error = None, dl_result = None, dl_settlement_state = ''pending'', dl_settlement_attempts = 0,
       dl_settlement_next = None, dl_settlement_error = None, dl_created_at = now, dl_updated_at = now,
       dl_completed_at = None \<rparr>"

text \<open>
  PostgreSQL ignores a second row of the quote and raises on another clash; SQLite ignores every clash.
\<close>

definition enqueue_delivery_tx ::
  "bool \<Rightarrow> string \<Rightarrow> string \<Rightarrow> string \<Rightarrow> int \<Rightarrow> checkout_db \<Rightarrow> (py_error + unit) \<times> checkout_db" where
  "enqueue_delivery_tx postgres quote_id order_id tx_signature now db =
     (if postgres \<and> find_delivery quote_id db \<noteq> None then (Inr (), db)
      else (case sql_insert delivery_clash (new_delivery quote_id order_id tx_signature now) (deliveries db) of
              None \<Rightarrow> (if postgres then Inl IntegrityViolation else Inr (), db)
            | Some t \<Rightarrow>
                (Inr (), db \<lparr> deliveries := t, delivery_events := delivery_events db @
                   [delivery_event quote_id order_id ''payment_confirmed_delivery_enqueued'' None ''pending''
                      ''protocol'' None now] \<rparr>)))"

section \<open>Public views\<close>

text \<open>The fields a dict has among \<open>names\<close>, in their order.\<close>

definition pick_fields :: "string list \<Rightarrow> pydict \<Rightarrow> pydict" where
  "pick_fields names d = concat (map (\<lambda>k. case map_of d k of None \<Rightarrow> [] | Some v \<Rightarrow> [(k, v)]) names)"

definition buyer_delivery_result :: "pyval option \<Rightarrow> pydict option" where
  "buyer_delivery_result raw =
     (case raw of
        Some (PDict d) \<Rightarrow>
          let nested = (case dget d ''result'' of PDict n \<Rightarrow> pick_fields buyer_result_fields n | _ \<Rightarrow> [])
          in Some (fold (\<lambda>(k, v) acc. dset acc k v) (pick_fields buyer_result_fields d) nested)
      | _ \<Rightarrow> None)"

definition public_delivery :: "delivery option \<Rightarrow> pydict" where
  "public_delivery v =
     (case v of
        None \<Rightarrow> [(''state'', PStr ''not_enqueued'')]
      | Some d \<Rightarrow>
          [(''state'', PStr (dl_state d)), (''attempt_count'', PInt (dl_attempt_count d)),
           (''next_attempt_at'', PInt (dl_next_attempt_at d)), (''last_error_code'', pstr_opt (dl_last_error d)),
           (''updated_at'', PInt (dl_updated_at d)), (''completed_at'', pint_opt (dl_completed_at d)),
           (''settlement_state'', PStr (dl_settlement_state d)),
           (''settlement_attempt_count'', PInt (dl_settlement_attempts d)),
           (''settlement_next_attempt_at'', pint_opt (dl_settlement_next d)),
           (''settlement_error'', pstr_opt (dl_settlement_error d))] @
          (case buyer_delivery_result (dl_result d) of None \<Rightarrow> [] | Some r \<Rightarrow> [(''result'', PDict r)]) @
          [(''retryable'', PBool (dl_state d = ''retryable_failure''))])"

definition public_delivery_status :: "string \<Rightarrow> checkout_db \<Rightarrow> pydict" where
  "public_delivery_status quote_id db = public_delivery (find_delivery quote_id db)"

section \<open>Due deliveries\<close>

definition delivery_due :: "int \<Rightarrow> delivery \<Rightarrow> bool" where
  "delivery_due now d =
     ((dl_state d \<in> {''pending'', ''retryable_failure''} \<and> dl_next_attempt_at d \<le> now) \<or>
      (dl_state d = ''running'' \<and> (case dl_lease_until d of None \<Rightarrow> False | Some t \<Rightarrow> t < now)))"

definition list_due_deliveries :: "int \<Rightarrow> int \<Rightarrow> checkout_db \<Rightarrow> string list" where
  "list_due_deliveries now limit db =
     map dl_quote_id
       (take (nat (clamp_int 1 100 limit))
          (sort_key dl_next_attempt_at (sort_key dl_created_at (filter (delivery_due now) (deliveries db)))))"

record dashboard =
  db_generated_at :: int
  db_state_counts :: "(string \<times> nat) list"
  db_total :: nat
  db_due :: nat
  db_stale_leases :: nat
  db_worker_enabled :: bool
  db_items :: "delivery list"

definition flag_enabled :: "env \<Rightarrow> string \<Rightarrow> bool" where
  "flag_enabled getenv name =
     (py_lower (py_strip (case getenv name of None \<Rightarrow> ''true'' | Some v \<Rightarrow> v)) \<in> {''1'', ''true'', ''yes'', ''on''})"

definition delivery_dashboard :: "env \<Rightarrow> int \<Rightarrow> int \<Rightarrow> checkout_db \<Rightarrow> dashboard" where
  "delivery_dashboard getenv now limit db =
     (let counts = count_states (map dl_state (deliveries db)) [];
          items = take (nat (clamp_int 1 200 limit))
            (sort_key (\<lambda>d. if dl_state d \<in> {''exhausted'', ''retryable_failure'', ''running''} then 0 else 1 :: int)
               (sort_key dl_updated_at (deliveries db)))
      in \<lparr> db_generated_at = now, db_state_counts = counts, db_total = sum_list (map snd counts),
           db_due = length (filter (\<lambda>d. dl_state d \<in> {''pending'', ''retryable_failure''} \<and> dl_next_attempt_at d \<le> now) items),
           db_stale_leases = length (filter (\<lambda>d. dl_state d = ''running'' \<and>
             (case dl_lease_until d of None \<Rightarrow> 0 | Some t \<Rightarrow> t) < now) items),
           db_worker_enabled = flag_enabled getenv ''IAT_CHECKOUT_DELIVERY_WORKER_ENABLED'', db_items = items \<rparr>)"

definition delivery_events_of :: "string \<Rightarrow> int \<Rightarrow> checkout_db \<Rightarrow> flow_event list" where
  "delivery_events_of quote_id limit db =
     sql_order_limit (\<lambda>e. - fe_at e) (nat (clamp_int 1 500 limit))
       (filter (\<lambda>e. fe_quote_id e = quote_id) (delivery_events db))"

section \<open>Reopening\<close>

text \<open>An update of one delivery with its event; \<open>conflict\<close> is raised unless exactly one row changed.\<close>

definition reopen_delivery ::
  "string \<Rightarrow> (delivery \<Rightarrow> bool) \<Rightarrow> (delivery \<Rightarrow> delivery) \<Rightarrow> flow_event \<Rightarrow> pydict \<Rightarrow> checkout_db \<Rightarrow>
   (py_error + pydict) \<times> checkout_db" where
  "reopen_delivery conflict P row event result db =
     (let (t, n) = sql_update P row (deliveries db) in
      if n \<noteq> 1 then (Inl (ValueError conflict), db)
      else (Inr result, db \<lparr> deliveries := t, delivery_events := delivery_events db @ [event] \<rparr>))"

definition redriven_row :: "int \<Rightarrow> delivery \<Rightarrow> delivery" where
  "redriven_row now d =
     d \<lparr> dl_state := ''pending'', dl_attempt_count := 0, dl_next_attempt_at := now, dl_lease_token := None,
         dl_lease_until := None, dl_last_error := None, dl_completed_at := None, dl_updated_at := now \<rparr>"

definition redrive_exhausted_delivery ::
  "string \<Rightarrow> string \<Rightarrow> string \<Rightarrow> int \<Rightarrow> checkout_db \<Rightarrow> checkout_db \<Rightarrow> (py_error + pydict) \<times> checkout_db" where
  "redrive_exhausted_delivery quote_id reason actor now snap db =
     (let clean_reason = collapse_spaces reason in
      if \<not> (8 \<le> length clean_reason \<and> length clean_reason \<le> 500)
      then (Inl (ValueError ''redrive_reason_length_invalid''), db)
      else (case find_delivery quote_id snap of
              None \<Rightarrow> (Inl (ValueError ''delivery_not_found''), db)
            | Some current \<Rightarrow>
                if dl_state current \<noteq> ''exhausted'' then (Inl (ValueError ''delivery_not_exhausted''), db)
                else reopen_delivery ''delivery_redrive_conflict''
                       (\<lambda>d. dl_quote_id d = quote_id \<and> dl_state d = ''exhausted'') (redriven_row now)
                       (delivery_event quote_id (dl_order_id current) ''admin_redrive'' (Some ''exhausted'') ''pending''
                          actor (Some clean_reason) now)
                       [(''status'', PStr ''redrive_scheduled''), (''quote_id'', PStr quote_id),
                        (''state'', PStr ''pending''), (''next_attempt_at'', PInt now)] db))"

definition resumed_row :: "int \<Rightarrow> delivery \<Rightarrow> delivery" where
  "resumed_row now d =
     d \<lparr> dl_state := ''retryable_failure'', dl_next_attempt_at := now, dl_lease_token := None,
         dl_lease_until := None, dl_completed_at := None, dl_updated_at := now \<rparr>"

definition resume_review_required_delivery ::
  "string \<Rightarrow> string \<Rightarrow> int \<Rightarrow> checkout_db \<Rightarrow> checkout_db \<Rightarrow> (py_error + pydict) \<times> checkout_db" where
  "resume_review_required_delivery quote_id actor now snap db =
     (case find_delivery quote_id snap of
        None \<Rightarrow> (Inl (ValueError ''delivery_not_found''), db)
      | Some current \<Rightarrow>
          if dl_state current \<noteq> ''review_required''
          then (Inr [(''status'', PStr ''resume_not_required''), (''quote_id'', PStr quote_id),
                     (''state'', PStr (dl_state current)), (''next_attempt_at'', PInt now),
                     (''idempotent'', PBool True)], db)
          else reopen_delivery ''delivery_resume_conflict''
                 (\<lambda>d. dl_quote_id d = quote_id \<and> dl_state d = ''review_required'') (resumed_row now)
                 (delivery_event quote_id (dl_order_id current) ''legacy_review_resumed'' (Some ''review_required'')
                    ''retryable_failure'' actor (Some ''autonomous_delivery_policy_upgrade'') now)
                 [(''status'', PStr ''review_resumed''), (''quote_id'', PStr quote_id),
                  (''state'', PStr ''retryable_failure''), (''next_attempt_at'', PInt now),
                  (''idempotent'', PBool False)] db)"

definition repair_cooldown :: "env \<Rightarrow> int" where
  "repair_cooldown getenv = bounded_env getenv ''IAT_CHECKOUT_DELIVERY_REPAIR_COOLDOWN_SECONDS'' 30 10 600"

definition evidence_not_ready :: string where
  "evidence_not_ready = ''foundation_decision_not_ready_for_delivery''"

definition accelerate_foundation_retry ::
  "env \<Rightarrow> string \<Rightarrow> string \<Rightarrow> int \<Rightarrow> checkout_db \<Rightarrow> checkout_db \<Rightarrow> (py_error + pydict) \<times> checkout_db" where
  "accelerate_foundation_retry getenv quote_id actor now snap db =
     (case find_delivery quote_id snap of
        None \<Rightarrow> (Inl (ValueError ''delivery_not_found''), db)
      | Some current \<Rightarrow>
          if \<not> (dl_state current = ''retryable_failure'' \<and> dl_last_error current = Some evidence_not_ready \<and>
                dl_next_attempt_at current > now \<and> now - dl_updated_at current \<ge> repair_cooldown getenv)
          then (Inr [(''status'', PStr ''repair_acceleration_not_required''), (''quote_id'', PStr quote_id),
                     (''state'', PStr (dl_state current)), (''next_attempt_at'', PInt (dl_next_attempt_at current)),
                     (''idempotent'', PBool True)], db)
          else reopen_delivery ''delivery_repair_acceleration_conflict''
                 (\<lambda>d. dl_quote_id d = quote_id \<and> dl_state d = ''retryable_failure'' \<and>
                      dl_last_error d = Some evidence_not_ready)
                 (\<lambda>d. d \<lparr> dl_next_attempt_at := now, dl_updated_at := now \<rparr>)
                 (delivery_event quote_id (dl_order_id current) ''foundation_retry_accelerated''
                    (Some ''retryable_failure'') ''retryable_failure'' actor (Some ''foundation_evidence_provider_repaired'') now)
                 [(''status'', PStr ''foundation_retry_accelerated''), (''quote_id'', PStr quote_id),
                  (''state'', PStr ''retryable_failure''), (''next_attempt_at'', PInt now),
                  (''idempotent'', PBool False)] db)"

section \<open>Claim and finish\<close>

definition running_row :: "string \<Rightarrow> int \<Rightarrow> int \<Rightarrow> delivery \<Rightarrow> delivery" where
  "running_row token until now d =
     d \<lparr> dl_state := ''running'', dl_lease_token := Some token, dl_lease_until := Some until,
         dl_attempt_count := dl_attempt_count d + 1, dl_updated_at := now \<rparr>"

text \<open>\<open>_claim\<close>: the delivery as it stands afterwards and the drawn token, if the claim won.\<close>

definition claim_delivery ::
  "env \<Rightarrow> string \<Rightarrow> string \<Rightarrow> int \<Rightarrow> checkout_db \<Rightarrow> (delivery option \<times> string option) \<times> checkout_db" where
  "claim_delivery getenv token quote_id now db =
     (let (t, n) = sql_update (\<lambda>d. dl_quote_id d = quote_id \<and> delivery_due now d)
            (running_row token (now + lease_seconds getenv) now) (deliveries db)
      in if n \<noteq> 1 then ((find_delivery quote_id db, None), db)
         else
           let db1 = db \<lparr> deliveries := t \<rparr>;
               order_id = (case find_delivery quote_id db1 of None \<Rightarrow> [] | Some d \<Rightarrow> dl_order_id d);
               db2 = db1 \<lparr> delivery_events := delivery_events db @
                 [delivery_event quote_id order_id ''delivery_attempt_claimed'' (Some ''runnable'') ''running''
                    ''delivery_worker'' None now] \<rparr>
           in ((find_delivery quote_id db2, Some token), db2))"

record finish_args =
  fa_state :: string
  fa_now :: int
  fa_result :: "pyval option"
  fa_error :: "string option"
  fa_next :: "int option"
  fa_settlement_state :: "string option"
  fa_settlement_next :: "int option"
  fa_settlement_error :: "string option"

definition finished_row :: "finish_args \<Rightarrow> delivery \<Rightarrow> delivery" where
  "finished_row a d =
     d \<lparr> dl_state := fa_state a, dl_next_attempt_at := (case fa_next a of None \<Rightarrow> fa_now a | Some t \<Rightarrow> t),
         dl_lease_token := None, dl_lease_until := None, dl_last_error := fa_error a, dl_result := fa_result a,
         dl_updated_at := fa_now a,
         dl_completed_at := (if fa_state a \<in> set terminal_states then Some (fa_now a) else None),
         dl_settlement_state := (case fa_settlement_state a of None \<Rightarrow> dl_settlement_state d | Some s \<Rightarrow> s),
         dl_settlement_next := fa_settlement_next a, dl_settlement_error := fa_settlement_error a \<rparr>"

definition finish_delivery :: "string \<Rightarrow> string \<Rightarrow> finish_args \<Rightarrow> checkout_db \<Rightarrow> bool \<times> checkout_db" where
  "finish_delivery quote_id token a db =
     (let (t, n) = sql_update
            (\<lambda>d. dl_quote_id d = quote_id \<and> dl_state d = ''running'' \<and> dl_lease_token d = Some token)
            (finished_row a) (deliveries db);
          db1 = db \<lparr> deliveries := t \<rparr>
      in if n \<noteq> 1 then (False, db1)
         else
           let order_id = (case find_delivery quote_id db1 of None \<Rightarrow> [] | Some d \<Rightarrow> dl_order_id d)
           in (True, db1 \<lparr> delivery_events := delivery_events db @
                 [delivery_event quote_id order_id ''delivery_attempt_finished'' (Some ''running'') (fa_state a)
                    ''delivery_worker'' (fa_error a) (fa_now a)] \<rparr>))"

text \<open>\<open>_mark_order\<close> on the orders that are not used; the dict of a state without order status raises.\<close>

definition marked_order :: "string \<Rightarrow> string \<Rightarrow> pydict \<Rightarrow> int \<Rightarrow> pydict \<Rightarrow> pydict" where
  "marked_order tx_signature state result now ord =
     (if state = ''completed''
      then dset (dset (dset (dset (dset (dset ord ''status'' (PStr ''delivered'')) ''tx_signature'' (PStr tx_signature))
             ''updated_at'' (PInt now)) ''delivered_at'' (PInt now)) ''delivery_result'' (PDict result)) ''used'' (PBool True)
      else dset (dset (dset (dset ord
             ''status'' (PStr (if state = ''review_required'' then ''foundation_review_required''
                               else ''foundation_delivery_blocked'')))
             ''tx_signature'' (PStr tx_signature)) ''updated_at'' (PInt now)) ''delivery_result'' (PDict result))"

definition mark_order :: "string \<Rightarrow> string \<Rightarrow> string \<Rightarrow> pydict \<Rightarrow> int \<Rightarrow> checkout_db \<Rightarrow> checkout_db" where
  "mark_order order_id tx_signature state result now db =
     db \<lparr> orders := fst (sql_update
            (\<lambda>ord. dget ord ''order_id'' = PStr order_id \<and> dget ord ''used'' = PBool False)
            (marked_order tx_signature state result now) (orders db)) \<rparr>"

end
