(* ===== verification/DeliveryWorker.thy ===== *)
theory DeliveryWorker
  imports CheckoutDelivery
begin

text \<open>
  One delivery attempt and the two sweeps of the checkout worker (\<open>run_checkout_delivery\<close>,
  \<open>run_delivery_sweep\<close>, \<open>run_settlement_sweep\<close> of \<open>iat/checkout_delivery.py\<close>). The world of an attempt is
  the record \<open>worker_env\<close>: the environment, the executor, the reputation update (\<open>None\<close> when it
  raises, else whether a row came back), the clocks and the drawn identifiers.
\<close>

record worker_env =
  we_env :: env
  we_executor :: "pydict \<Rightarrow> string \<Rightarrow> checkout_db \<Rightarrow> pyval option \<times> checkout_db"
  we_reputation :: "pyval \<Rightarrow> bool option"
  we_alloc :: allocation_env
  we_mark_now :: int
  we_mint :: string
  we_cid :: string
  we_request_now :: int
  we_sha :: "string \<Rightarrow> string"
  we_urlp :: "string \<Rightarrow> url_parts"
  we_sign :: signing
  we_receipt_token :: string
  we_clock :: int

section \<open>One attempt\<close>

definition request_protocol_compensation :: "worker_env \<Rightarrow> string \<Rightarrow> checkout_db \<Rightarrow> checkout_db" where
  "request_protocol_compensation w quote_id db =
     snd (request_compensation (we_mint w) (we_cid w) quote_id ''delivery_state_machine'' (we_request_now w) db db)"

definition finish_with :: "string \<Rightarrow> int \<Rightarrow> pydict \<Rightarrow> finish_args" where
  "finish_with state now result =
     \<lparr> fa_state = state, fa_now = now, fa_result = Some (PDict result), fa_error = None, fa_next = None,
       fa_settlement_state = None, fa_settlement_next = None, fa_settlement_error = None \<rparr>"

text \<open>A failed attempt: exhausted at the limit, otherwise due again after the backoff.\<close>

definition retry_args :: "env \<Rightarrow> int \<Rightarrow> int \<Rightarrow> pydict \<Rightarrow> string \<Rightarrow> finish_args" where
  "retry_args getenv attempts now result error_code =
     (if attempts \<ge> max_attempts getenv
      then (finish_with ''exhausted'' now result) \<lparr> fa_error := Some error_code, fa_next := Some now \<rparr>
      else (finish_with ''retryable_failure'' now result)
             \<lparr> fa_error := Some error_code, fa_next := Some (now + backoff (retry_base getenv) (attempts - 1)) \<rparr>)"

text \<open>The result dict of an answer, its status, and the error code of a failure.\<close>

definition attempt_result :: "pyval option \<Rightarrow> pydict" where
  "attempt_result raw =
     (case raw of
        None \<Rightarrow> [(''status'', PStr ''provider_execution_exception'')]
      | Some (PDict d) \<Rightarrow> d
      | Some _ \<Rightarrow> [(''status'', PStr ''invalid_delivery_result'')])"

definition result_status :: "pydict \<Rightarrow> string" where
  "result_status result = py_lower (py_strip (str_or_empty (dget result ''status'')))"

definition failure_code :: "pydict \<Rightarrow> string" where
  "failure_code result =
     take 128 (if truthy (dget result ''error'') then py_str (dget result ''error'')
               else if result_status result \<noteq> [] then result_status result else ''delivery_failed'')"

definition authorized_result :: "pydict \<Rightarrow> bool" where
  "authorized_result result =
     (\<not> truthy (dget result ''error'') \<and> result_status result \<in> set authorized_delivery_statuses)"

definition attempts_of :: "delivery \<Rightarrow> int" where
  "attempts_of d = (if dl_attempt_count d = 0 then 1 else dl_attempt_count d)"

definition reputation_agent :: "pydict \<Rightarrow> pydict \<Rightarrow> pyval" where
  "reputation_agent result order =
     (let best = as_dict (dget result ''best_result'');
          seller = as_dict (dget (as_dict (dget result ''supplier_execution'')) ''selected_seller_agent'')
      in py_or (dget best ''agent_id'') (py_or (dget seller ''agent_id'') (py_or (dget seller ''seller_agent_id'')
           (py_or (dget order ''selected_agent_id'') (py_or (dget order ''seller_agent_id'') (dget order ''seller_id''))))))"

definition reputation_dict :: "(pyval \<Rightarrow> bool option) \<Rightarrow> pyval \<Rightarrow> pydict" where
  "reputation_dict reputation agent =
     (if \<not> truthy agent
      then [(''status'', PStr ''not_updated''), (''reason'', PStr ''provider_identity_not_resolved'')]
      else (case reputation agent of
              None \<Rightarrow> [(''status'', PStr ''update_error''), (''retryable'', PBool True),
                       (''evidence'', PStr ''authorized_delivery_verified'')]
            | Some updated \<Rightarrow> [(''status'', PStr (if updated then ''updated'' else ''not_updated'')),
                              (''agent_id'', agent), (''evidence'', PStr ''authorized_delivery_verified'')]))"

text \<open>An authorized result: reputation, allocation, the order, the delivery and the sealed receipt.\<close>

definition complete_delivery ::
  "worker_env \<Rightarrow> string \<Rightarrow> string \<Rightarrow> delivery \<Rightarrow> pydict \<Rightarrow> pydict \<Rightarrow> int \<Rightarrow> checkout_db \<Rightarrow> checkout_db" where
  "complete_delivery w quote_id token claimed order result now db =
     (let reputation = reputation_dict (we_reputation w) (reputation_agent result order);
          (allocation, books1) = allocate_checkout_settlement (we_alloc w) order (PDict result) (books db);
          db1 = db \<lparr> books := books1 \<rparr>;
          ok = (case allocation of Inl _ \<Rightarrow> False | Inr _ \<Rightarrow> True);
          settlement = (case allocation of
                          Inl _ \<Rightarrow> [(''status'', PStr ''allocation_error''), (''retryable'', PBool True)]
                        | Inr a \<Rightarrow> a);
          final = dset (dset result ''reputation'' (PDict reputation)) ''settlement'' (PDict settlement);
          db2 = mark_order (dl_order_id claimed) (dl_tx_signature claimed) ''completed'' final (we_mark_now w) db1;
          db3 = snd (finish_delivery quote_id token
                  ((finish_with ''completed'' now final)
                     \<lparr> fa_settlement_state := Some (if ok then ''completed'' else ''retryable_failure''),
                       fa_settlement_next := (if ok then None else Some (now + 30)),
                       fa_settlement_error := (if ok then None else Some ''settlement_allocation_error'') \<rparr>) db2);
          payload = (case buyer_delivery_result (Some (PDict final)) of
                       Some (x # xs) \<Rightarrow> x # xs
                     | _ \<Rightarrow> [(''status'', PStr ''unavailable_result'')])
      in snd (publish_delivery_payload (we_sha w) (we_urlp w) (we_sign w) (we_receipt_token w) quote_id
                (dl_order_id claimed) payload (we_clock w) now db3 db3))"

definition settle_result ::
  "worker_env \<Rightarrow> string \<Rightarrow> string \<Rightarrow> delivery \<Rightarrow> pydict \<Rightarrow> pydict \<Rightarrow> int \<Rightarrow> checkout_db \<Rightarrow> checkout_db" where
  "settle_result w quote_id token claimed order result now db =
     (let status = result_status result; attempts = attempts_of claimed; limit = max_attempts (we_env w);
          finish = (\<lambda>args d. snd (finish_delivery quote_id token args d))
      in if status = ''foundation_review_required''
         then (let args = retry_args (we_env w) attempts now result evidence_not_ready in
               if attempts \<ge> limit
               then request_protocol_compensation w quote_id
                      (finish args (mark_order (dl_order_id claimed) (dl_tx_signature claimed) ''review_required'' result
                         (we_mark_now w) db))
               else finish args db)
         else if status = ''foundation_delivery_blocked''
         then request_protocol_compensation w quote_id
                (finish (finish_with ''blocked'' now result)
                   (mark_order (dl_order_id claimed) (dl_tx_signature claimed) ''blocked'' result (we_mark_now w) db))
         else if authorized_result result
         then complete_delivery w quote_id token claimed order result now db
         else
           let db1 = finish (retry_args (we_env w) attempts now result (failure_code result)) db
           in if attempts \<ge> limit then request_protocol_compensation w quote_id db1 else db1)"

definition run_checkout_delivery ::
  "worker_env \<Rightarrow> string \<Rightarrow> string \<Rightarrow> int \<Rightarrow> checkout_db \<Rightarrow> pydict \<times> checkout_db" where
  "run_checkout_delivery w token quote_id now db =
     (case claim_delivery (we_env w) token quote_id now db of
        ((None, _), db1) \<Rightarrow> ([(''state'', PStr ''not_enqueued''), (''payment_verified'', PBool False)], db1)
      | ((Some claimed, None), db1) \<Rightarrow> (dset (public_delivery (Some claimed)) ''claimed'' (PBool False), db1)
      | ((Some claimed, Some lease), db1) \<Rightarrow>
          (case find_order (dl_order_id claimed) db1 of
             None \<Rightarrow>
               let db2 = snd (finish_delivery quote_id lease
                     ((finish_with ''exhausted'' now [(''status'', PStr ''order_missing'')])
                        \<lparr> fa_error := Some ''order_missing'' \<rparr>) db1)
               in (public_delivery_status quote_id db2, db2)
           | Some order \<Rightarrow>
               if truthy (dget order ''used'') \<or> py_lower (str_or_empty (dget order ''status'')) = ''delivered''
               then
                 let result = py_or (dget order ''delivery_result'') (PDict [(''status'', PStr ''already_delivered'')]);
                     db2 = snd (finish_delivery quote_id lease
                       ((finish_with ''completed'' now []) \<lparr> fa_result := Some result \<rparr>) db1)
                 in (public_delivery_status quote_id db2, db2)
               else
                 let (raw, db2) = we_executor w order (dl_tx_signature claimed) db1;
                     result = attempt_result raw;
                     db3 = settle_result w quote_id lease claimed order result now db2
                 in (dset (dset (public_delivery_status quote_id db3) ''payment_verified'' (PBool True))
                       ''claimed'' (PBool True), db3)))"

section \<open>Sweeps\<close>

text \<open>Attempt \<open>i\<close> of a sweep has its own world, token and clock.\<close>

fun deliver_each ::
  "(nat \<Rightarrow> worker_env \<times> string \<times> int) \<Rightarrow> nat \<Rightarrow> string list \<Rightarrow> string list \<Rightarrow> checkout_db \<Rightarrow> string list \<times> checkout_db" where
  "deliver_each world i [] states db = (states, db)"
| "deliver_each world i (q # qs) states db =
     (case world i of (w, token, now) \<Rightarrow>
        (case run_checkout_delivery w token q now db of (result, db') \<Rightarrow>
           deliver_each world (Suc i) qs
             (states @ [if truthy (dget result ''state'') then py_str (dget result ''state'') else ''unknown'']) db'))"

definition run_delivery_sweep ::
  "(nat \<Rightarrow> worker_env \<times> string \<times> int) \<Rightarrow> int \<Rightarrow> int \<Rightarrow> checkout_db \<Rightarrow> (nat \<times> (string \<times> nat) list) \<times> checkout_db" where
  "run_delivery_sweep world now limit db =
     (let quote_ids = list_due_deliveries now limit db in
      case deliver_each world 0 quote_ids [] db of
        (states, db') \<Rightarrow> ((length quote_ids, count_states states []), db'))"

definition settlement_due :: "int \<Rightarrow> delivery \<Rightarrow> bool" where
  "settlement_due now d =
     (dl_state d = ''completed'' \<and> dl_settlement_state d = ''retryable_failure'' \<and>
      (case dl_settlement_next d of None \<Rightarrow> False | Some t \<Rightarrow> t \<le> now))"

definition swept_row :: "string \<Rightarrow> int \<Rightarrow> int option \<Rightarrow> string option \<Rightarrow> int \<Rightarrow> delivery \<Rightarrow> delivery" where
  "swept_row state attempts next_attempt err now d =
     d \<lparr> dl_settlement_state := state, dl_settlement_attempts := attempts, dl_settlement_next := next_attempt,
         dl_settlement_error := err, dl_updated_at := now \<rparr>"

text \<open>
  One row of the settlement sweep, as it was selected. A result that is no dict makes the allocation
  fail and is left as it is.
\<close>

definition sweep_settlement :: "allocation_env \<Rightarrow> int \<Rightarrow> delivery \<Rightarrow> checkout_db \<Rightarrow> bool \<times> checkout_db" where
  "sweep_settlement w now row db =
     (let order = (case find_order (dl_order_id row) db of None \<Rightarrow> [] | Some d \<Rightarrow> d);
          result = (case dl_result row of None \<Rightarrow> PDict [] | Some v \<Rightarrow> v);
          (allocation, books1) = allocate_checkout_settlement w order result (books db);
          ok = (case allocation of Inl _ \<Rightarrow> False | Inr _ \<Rightarrow> True);
          settlement = (case allocation of
                          Inl _ \<Rightarrow> [(''status'', PStr ''allocation_error''), (''retryable'', PBool True)]
                        | Inr a \<Rightarrow> a);
          attempts = dl_settlement_attempts row + 1;
          delay = backoff 30 (max (attempts - 1) 0);
          t1 = fst (sql_update
                 (\<lambda>d. dl_quote_id d = dl_quote_id row \<and> dl_state d = ''completed'' \<and>
                      dl_settlement_state d = ''retryable_failure'')
                 (swept_row (if ok then ''completed'' else ''retryable_failure'') attempts
                    (if ok then None else Some (now + delay))
                    (if ok then None else Some ''settlement_allocation_error'') now) (deliveries db));
          t2 = (case result of
                  PDict r \<Rightarrow> fst (sql_update (\<lambda>d. dl_quote_id d = dl_quote_id row)
                     (\<lambda>d. d \<lparr> dl_result := Some (PDict (dset r ''settlement'' (PDict settlement))) \<rparr>) t1)
                | _ \<Rightarrow> t1)
      in (ok, db \<lparr> books := books1, deliveries := t2 \<rparr>))"

fun sweep_each ::
  "(nat \<Rightarrow> allocation_env) \<Rightarrow> int \<Rightarrow> nat \<Rightarrow> delivery list \<Rightarrow> nat \<times> nat \<Rightarrow> checkout_db \<Rightarrow> (nat \<times> nat) \<times> checkout_db" where
  "sweep_each w now i [] counts db = (counts, db)"
| "sweep_each w now i (row # rows) (completed, failed) db =
     (case sweep_settlement (w i) now row db of (ok, db') \<Rightarrow>
        sweep_each w now (Suc i) rows (if ok then (Suc completed, failed) else (completed, Suc failed)) db')"

definition run_settlement_sweep ::
  "(nat \<Rightarrow> allocation_env) \<Rightarrow> int \<Rightarrow> int \<Rightarrow> checkout_db \<Rightarrow> (nat \<times> nat \<times> nat) \<times> checkout_db" where
  "run_settlement_sweep w now limit db =
     (let rows = sql_order_limit (\<lambda>d. case dl_settlement_next d of None \<Rightarrow> 0 | Some t \<Rightarrow> t)
            (nat (clamp_int 1 100 limit)) (filter (settlement_due now) (deliveries db))
      in case sweep_each w now 0 rows (0, 0) db of
           ((completed, failed), db') \<Rightarrow> ((length rows, completed, failed), db'))"

end
