(* ===== verification/SettlementBooks.thy ===== *)
theory SettlementBooks
  imports Settlements
begin

text \<open>
  What settlements and ledger keep together: recording a settlement keeps the books (C14), the first
  settlement of an order stays (the recorder contract), the execution guard is a lease (the lease
  contract), and what wallet recovery does to a blocked settlement.
\<close>

section \<open>The books\<close>

definition allocation_tx :: "pdb \<Rightarrow> ledger_tx \<Rightarrow> bool" where
  "allocation_tx db t =
     (tx_idempotency_key t = allocation_key (tx_settlement_id t) \<and>
      tx_event_type t = ''settlement_allocated'' \<and> tx_status t = ''posted'' \<and>
      find_settlement (tx_settlement_id t) db \<noteq> None)"

definition books_wf :: "pdb \<Rightarrow> bool" where
  "books_wf db =
     (settlements_wf db \<and> ledger_wf db \<and> ledger_clean db \<and> list_all (allocation_tx db) (txs db))"

lemma allocation_key_inject: "allocation_key s = allocation_key s' \<longleftrightarrow> s = s'"
  by (simp add: allocation_key_def)

lemma books_kept:
  assumes books: "books_wf db"
    and run: "record_settlement_db sha fl uuid sid now oid arg db = (res, db')"
  shows "books_wf db'"
  using run
proof (cases rule: record_cases)
  case (recorded row g c p gv cv pv po seller)
  let ?db0 = "db \<lparr> settlements := settlements db @ [row] \<rparr>"
  have wf0: "settlements_wf db" "ledger_wf db" "ledger_clean db" "list_all (allocation_tx db) (txs db)"
    using books by (simp_all add: books_wf_def)
  have fresh: "find_settlement sid db = None"
    using recorded(1,2) by (auto simp: find_settlement_def row_by_None_iff list_all_iff settlement_clash_def)
  have old_rows: "row_by st_settlement_id k (settlements ?db0) = Some s"
    if "row_by st_settlement_id k (settlements db) = Some s" for k s
    using that by (simp add: row_by_append)
  have new_row: "row_by st_settlement_id sid (settlements ?db0) = Some row"
    using fresh recorded(2) by (simp add: find_settlement_def row_by_append row_by_Cons)
  have wf1: "settlements_wf ?db0"
    using append_evolves [OF wf0(1), of ?db0 row] recorded(1) by (simp add: rows_evolve_def)
  have ledger1: "ledger_wf ?db0"
    using wf0(2) by (simp add: ledger_wf_def transaction_ok_def transaction_entries_def)
  have alloc1: "allocation_tx ?db0 t" if "t \<in> set (txs db)" for t
    using that wf0(4) by (auto simp: allocation_tx_def list_all_iff find_settlement_def row_by_append)
  have clean1: "list_all (tx_clean ?db0) (txs ?db0)"
  proof -
    have "tx_clean ?db0 t" if t: "t \<in> set (txs db)" for t
    proof -
      from t wf0(4) obtain s where "row_by st_settlement_id (tx_settlement_id t) (settlements db) = Some s"
        by (auto simp: allocation_tx_def list_all_iff find_settlement_def)
      then have "reconcile_settlement ?db0 t es = reconcile_settlement db t es" for es
        by (simp add: reconcile_settlement_def row_by_append)
      then show ?thesis using t wf0(3)
        by (simp add: tx_clean_def ledger_clean_def list_all_iff transaction_ok_def transaction_entries_def)
    qed
    then show ?thesis by (simp add: list_all_iff)
  qed
  from recorded(12) show ?thesis
  proof (cases rule: post_cases)
    case (old t g1 c1 p1)
    then have "t \<in> set (txs db)" "tx_idempotency_key t = allocation_key sid"
      by (auto dest: row_by_SomeD)
    then have "find_settlement sid db \<noteq> None"
      using wf0(4) by (auto simp: allocation_tx_def list_all_iff allocation_key_inject)
    with fresh show ?thesis by simp
  next
    case (new po' g1 c1 p1)
    have amounts: "g1 = g" "c1 = c" "p1 = p" using new(4-6) recorded(8-10) by auto
    have bounds: "0 \<le> c" "0 \<le> p" "g \<le> max_iat_minor"
      using iat_to_minor_range recorded(8-10) by blast+
    note posted = new(9) [unfolded amounts]
    have gcp: "0 < g" "c + p = g" using new(7,8) by (simp_all add: amounts)
    have "ledger_wf db'" using posted_keeps_wf [OF ledger1 posted gcp(1) bounds gcp(2)] .
    moreover have "list_all (tx_clean db') (txs db')"
      by (rule posted_keeps_clean [OF ledger1 posted gcp(1) bounds gcp(2) new_row recorded(5-7) clean1])
    moreover from posted obtain t where t: "txs db' = txs db @ [t]" "settlements db' = settlements db @ [row]"
        "tx_settlement_id t = sid" "tx_idempotency_key t = allocation_key sid"
        "tx_event_type t = ''settlement_allocated''" "tx_status t = ''posted''"
      unfolding posted_as_def by auto
    moreover have "list_all (has_allocation db') (settlements db')"
      using wf0(3) t recorded(2) by (auto simp: ledger_clean_def list_all_iff has_allocation_def)
    moreover have "list_all (allocation_tx db') (txs db')"
      using t alloc1 new_row by (simp add: list_all_iff allocation_tx_def find_settlement_def)
    moreover have "settlements_wf db'" using wf1 t(2) by (simp add: settlements_wf_def)
    ultimately show ?thesis by (simp add: books_wf_def ledger_clean_def)
  qed simp
qed (use books in simp)

text \<open>
  C5: recording a settlement keeps the books: identifiers and orders stay unique, the ledger stays
  balanced, every settlement has the one allocation that shows its amounts. Reconciling the result
  (with a limit that covers the tables) reports a healthy ledger, whether the recording succeeded,
  was a repetition or failed.
\<close>

theorem recording_keeps_books:
  assumes "books_wf db"
    and "record_settlement_db sha fl uuid sid now oid arg db = (res, db')"
    and "length (txs db') \<le> bounded_limit limit" and "length (settlements db') \<le> bounded_limit limit"
  shows "books_wf db' \<and> (\<exists>r. reconcile_ledger limit db' = Inr r \<and> rc_healthy r)"
proof -
  have books: "books_wf db'" using books_kept [OF assms(1,2)] .
  then have "list_all (\<lambda>t. tx_status t = ''posted'') (txs db')" "ledger_clean db'"
    by (auto simp: books_wf_def allocation_tx_def list_all_iff)
  then show ?thesis using books reconcile_clean [OF _ assms(3,4)] by blast
qed

definition sample_order :: pyval where
  "sample_order = PDict
     [(''gross_amount_iat'', PStr ''5''), (''protocol_commission_amount_iat'', PStr ''1''),
      (''seller_payout_amount_iat'', PStr ''4''), (''winner_id'', PStr ''w'')]"

definition sample_recorded :: pdb where
  "sample_recorded =
     snd (record_settlement_db (\<lambda>s. s) Some uuid_of ''s1'' 7 ''o1'' sample_order empty_pdb)"

lemma sample_recorded_tables:
  "length (txs sample_recorded) = 1 \<and> length (settlements sample_recorded) = 1"
  using allocation_entries_valid [of 500000000 100000000 400000000 "Some ''w''"]
  by (simp add: sample_recorded_def record_settlement_db_def sample_order_def py_or_def is_dict_def as_dict_def
      text_col_def py_str_def post_settlement_allocation_conn_def build_settlement_allocation_journal_def
      example_amounts max_iat_minor_def sql_insert_def empty_pdb_def allocation_entries_def ensure_account_def
      account_clash_def entry_clash_def entry_row_def ledger_entry_dict_def uuid_of_def py_startswith_def Let_def)

theorem recording_keeps_books_witness:
  "books_wf sample_recorded \<and> (\<exists>r. reconcile_ledger 10 sample_recorded = Inr r \<and> rc_healthy r)"
proof (rule recording_keeps_books)
  show "books_wf empty_pdb"
    by (simp add: books_wf_def settlements_wf_def ledger_wf_def ledger_clean_def empty_pdb_def)
  show "record_settlement_db (\<lambda>s. s) Some uuid_of ''s1'' 7 ''o1'' sample_order empty_pdb =
    (fst (record_settlement_db (\<lambda>s. s) Some uuid_of ''s1'' 7 ''o1'' sample_order empty_pdb), sample_recorded)"
    by (simp add: sample_recorded_def)
qed (use sample_recorded_tables in \<open>simp_all add: bounded_limit_def clamp_int_def\<close>)

section \<open>One settlement per order\<close>

record recording =
  rq_float :: "pyval \<Rightarrow> pyval option"
  rq_uuid :: "nat \<Rightarrow> string"
  rq_settlement_id :: string
  rq_now :: int
  rq_order_id :: string
  rq_settlement :: pyval

definition record_request :: "(string \<Rightarrow> string) \<Rightarrow> recording \<Rightarrow> pdb \<Rightarrow> pdb" where
  "record_request sha q db =
     snd (record_settlement_db sha (rq_float q) (rq_uuid q) (rq_settlement_id q) (rq_now q) (rq_order_id q)
            (rq_settlement q) db)"

definition order_settlement :: "string \<Rightarrow> pdb \<Rightarrow> string option" where
  "order_settlement oid db = map_option st_settlement_id (row_by st_order_id oid (settlements db))"

lemma record_request_cases:
  "record_request sha q db = db \<or>
   (order_settlement (rq_order_id q) db = None \<and>
    order_settlement (rq_order_id q) (record_request sha q db) = Some (rq_settlement_id q) \<and>
    (\<forall>k. k \<noteq> rq_order_id q \<longrightarrow> order_settlement k (record_request sha q db) = order_settlement k db))"
proof -
  obtain res db' where run: "record_settlement_db sha (rq_float q) (rq_uuid q) (rq_settlement_id q) (rq_now q)
      (rq_order_id q) (rq_settlement q) db = (res, db')" by (meson surj_pair)
  then have q: "record_request sha q db = db'" by (simp add: record_request_def)
  from run show ?thesis
  proof (cases rule: record_cases)
    case (recorded row g c p gv cv pv po seller)
    have "settlements db' = settlements db @ [row]" using post_settlements [OF recorded(12)] by simp
    moreover have "row_by st_order_id (rq_order_id q) (settlements db) = None"
      using recorded(1,3) by (auto simp: row_by_None_iff list_all_iff settlement_clash_def)
    ultimately show ?thesis using recorded(2,3) q
      by (auto simp: order_settlement_def row_by_append row_by_Cons split: option.splits)
  qed (simp add: q)
qed

interpretation order_recorder: idempotent_recorder "record_request sha" order_settlement rq_order_id rq_settlement_id
  for sha
proof unfold_locales
  show "order_settlement (rq_order_id r) db = Some x \<Longrightarrow> record_request sha r db = db" for r db x
    using record_request_cases [of sha r db] by auto
  show "order_settlement (rq_order_id r) db = None \<Longrightarrow>
      record_request sha r db = db \<or> order_settlement (rq_order_id r) (record_request sha r db) = Some (rq_settlement_id r)" for r db
    using record_request_cases [of sha r db] by auto
  show "k \<noteq> rq_order_id r \<Longrightarrow> order_settlement k (record_request sha r db) = order_settlement k db" for k r db
    using record_request_cases [of sha r db] by auto
qed

text \<open>
  An order keeps its first settlement: whatever is recorded afterwards, for this order or
  others, the settlement found for the order is the same, and a settlement found for an order was
  there before or comes from a recording of that order.
\<close>

theorem order_keeps_settlement:
  "(case order_settlement oid db of
      Some sid \<Rightarrow> order_settlement oid (fold (record_request sha) qs db) = Some sid
    | None \<Rightarrow> order_settlement oid (fold (record_request sha) qs db) \<in>
        insert None ((\<lambda>q. Some (rq_settlement_id q)) ` {q \<in> set qs. rq_order_id q = oid}))"
proof (cases "order_settlement oid db")
  case None
  then show ?thesis
    using order_recorder.run_source [of oid sha qs db]
    by (cases "order_settlement oid (fold (record_request sha) qs db)") auto
qed (simp add: order_recorder.first_write_wins)

section \<open>The execution guard is a lease\<close>

text \<open>
  The holder of a settlement is the token of its claim while nothing was broadcast. A claim's token
  is never empty (the code draws a UUID for an empty one), nor is the recorded signature.
\<close>

definition guard_claim :: "(string \<Rightarrow> string) \<Rightarrow> string \<Rightarrow> string \<Rightarrow> int \<times> string \<times> pdb \<Rightarrow> pdb \<Rightarrow> bool \<times> pdb" where
  "guard_claim sha sid token c db =
     (case c of (now, pid, snap) \<Rightarrow>
        if token = [] then (False, db)
        else (case claim_settlement_execution_db sha token now pid sid snap db of
                (res, db') \<Rightarrow> (dget res ''claimed'' = PBool True, db')))"

definition guard_finish :: "string \<Rightarrow> string \<Rightarrow> int \<times> char \<times> string \<Rightarrow> pdb \<Rightarrow> bool \<times> pdb" where
  "guard_finish sid token f db =
     (case f of (now, c, cs) \<Rightarrow>
        (case record_settlement_broadcast_db now sid token (c # cs) db of
           (res, db') \<Rightarrow> (dget res ''recorded'' = PBool True, db')))"

definition guard_holder :: "string \<Rightarrow> pdb \<Rightarrow> string option" where
  "guard_holder sid db =
     (if sid = [] then None
      else (case find_settlement sid db of
              None \<Rightarrow> None
            | Some r \<Rightarrow>
                if st_claim_status r = Some ''claimed'' \<and> st_commission_tx r = None \<and> st_payout_tx r = None \<and>
                   st_claim_token r \<noteq> Some []
                then st_claim_token r else None))"

lemma guard_claim_cases:
  assumes wf: "settlements_wf db"
  shows "(guard_claim sha sid token (now, pid, snap) db = (False, db)) \<or>
    (\<exists>db' r. guard_claim sha sid token (now, pid, snap) db = (True, db') \<and> token \<noteq> [] \<and> sid \<noteq> [] \<and>
       find_settlement sid db = Some r \<and> claimable sid r \<and>
       settlements db' = fst (sql_update (claimable sid) (claimed_row token now) (settlements db)))"
proof (cases "token = []")
  case False
  obtain res db' where run: "claim_settlement_execution_db sha token now pid sid snap db = (res, db')"
    by (meson surj_pair)
  from run show ?thesis
  proof (cases rule: claim_cases)
    case (granted s db1)
    obtain r where "find_settlement sid db = Some r" "claimable sid r"
      using unique_filter_one [of st_settlement_id "settlements db" "claimable sid" sid] wf granted(5)
      by (auto simp: settlements_wf_def claimable_def find_settlement_def)
    then show ?thesis using granted run False by (simp add: guard_claim_def)
  qed (simp add: guard_claim_def run False)
qed (simp add: guard_claim_def)

lemma find_after_update:
  "(\<And>r. P r \<Longrightarrow> st_settlement_id (f r) = st_settlement_id r) \<Longrightarrow>
   settlements db' = fst (sql_update P f (settlements db)) \<Longrightarrow>
   find_settlement k db' = map_option (\<lambda>r. if P r then f r else r) (find_settlement k db)"
  by (simp add: find_settlement_def row_by_update)

lemma guard_claim_holder:
  assumes wf: "settlements_wf db"
  shows "guard_holder k (snd (guard_claim sha sid token c db)) =
    (if k = sid \<and> fst (guard_claim sha sid token c db) then Some token else guard_holder k db)"
proof -
  obtain now pid snap where c: "c = (now, pid, snap)" by (cases c)
  from guard_claim_cases [OF wf, of sha sid token now pid snap]
  show ?thesis
  proof
    assume "\<exists>db' r. guard_claim sha sid token (now, pid, snap) db = (True, db') \<and> token \<noteq> [] \<and> sid \<noteq> [] \<and>
       find_settlement sid db = Some r \<and> claimable sid r \<and>
       settlements db' = fst (sql_update (claimable sid) (claimed_row token now) (settlements db))"
    then obtain db' r where run: "guard_claim sha sid token (now, pid, snap) db = (True, db')"
      and ne: "token \<noteq> []" "sid \<noteq> []" and r: "find_settlement sid db = Some r" "claimable sid r"
      and upd: "settlements db' = fst (sql_update (claimable sid) (claimed_row token now) (settlements db))" by blast
    have find: "find_settlement j db' = map_option (\<lambda>r. if claimable sid r then claimed_row token now r else r)
        (find_settlement j db)" for j
      by (rule find_after_update [OF _ upd]) (simp add: claimed_row_def)
    show ?thesis
    proof (cases "k = sid")
      case True
      then show ?thesis using run ne r find [of sid]
        by (simp add: c guard_holder_def claimed_row_def claimable_def)
    next
      case False
      then have "\<not> claimable sid x" if "find_settlement k db = Some x" for x
        using that by (auto simp: claimable_def find_settlement_def dest: row_by_SomeD)
      with False run find [of k] show ?thesis
        by (auto simp: c guard_holder_def split: option.splits)
    qed
  qed (simp add: c)
qed

lemma guard_finish_holder:
  assumes wf: "settlements_wf db"
  shows "fst (guard_finish sid token f db) \<longleftrightarrow> guard_holder sid db = Some token"
    and "\<not> fst (guard_finish sid token f db) \<Longrightarrow> snd (guard_finish sid token f db) = db"
    and "guard_holder k (snd (guard_finish sid token f db)) =
      (if k = sid \<and> fst (guard_finish sid token f db) then None else guard_holder k db)"
proof -
  obtain now c cs where f: "f = (now, c, cs)" by (cases f)
  let ?P = "broadcastable ''claimed'' sid token"
  have some: "(\<exists>r. find_settlement sid db = Some r \<and> ?P r) \<longleftrightarrow> length (filter ?P (settlements db)) = 1"
  proof
    assume "\<exists>r. find_settlement sid db = Some r \<and> ?P r"
    then show "length (filter ?P (settlements db)) = 1"
      using rowcount_unique [of st_settlement_id "settlements db" ?P sid id] wf
      by (auto simp: snd_sql_update settlements_wf_def broadcastable_def find_settlement_def)
  next
    assume "length (filter ?P (settlements db)) = 1"
    then show "\<exists>r. find_settlement sid db = Some r \<and> ?P r"
      using unique_filter_one [of st_settlement_id "settlements db" ?P sid] wf
      by (auto simp: settlements_wf_def broadcastable_def find_settlement_def)
  qed
  have held: "guard_holder sid db = Some token \<longleftrightarrow>
      sid \<noteq> [] \<and> token \<noteq> [] \<and> (\<exists>r. find_settlement sid db = Some r \<and> ?P r)"
    by (auto simp: guard_holder_def broadcastable_def find_settlement_def dest: row_by_SomeD split: option.splits if_splits)
  obtain res db' where run: "record_settlement_broadcast_db now sid token (c # cs) db = (res, db')"
    by (meson surj_pair)
  have goal: "(fst (guard_finish sid token f db) \<longleftrightarrow> guard_holder sid db = Some token) \<and>
      (\<not> fst (guard_finish sid token f db) \<longrightarrow> snd (guard_finish sid token f db) = db) \<and>
      (guard_holder k (snd (guard_finish sid token f db)) =
        (if k = sid \<and> fst (guard_finish sid token f db) then None else guard_holder k db))"
    using run
  proof (cases rule: broadcast_cases)
    case refused
    then have "guard_holder sid db \<noteq> Some token" using held some by auto
    with refused show ?thesis by (simp add: guard_finish_def f run)
  next
    case recorded
    then have "guard_holder sid db = Some token" using held some by auto
    moreover have "guard_holder k db' = (if k = sid then None else guard_holder k db)"
    proof -
      let ?f = "\<lambda>r. r \<lparr> st_claim_status := Some ''broadcast_submitted'', st_broadcast_at := Some now,
                 st_commission_tx := coalesce (st_commission_tx r) (Some (c # cs)),
                 st_payout_tx := coalesce (st_payout_tx r) (Some (c # cs)),
                 st_last_error := None, st_updated_at := now \<rparr>"
      have "settlements db' = fst (sql_update ?P ?f (settlements db))" using recorded(6) by simp
      then have find: "find_settlement j db' = map_option (\<lambda>r. if ?P r then ?f r else r) (find_settlement j db)" for j
        by (intro find_after_update) simp_all
      obtain r where r: "find_settlement sid db = Some r" "?P r" using some recorded(5) by blast
      show ?thesis
      proof (cases "k = sid")
        case True
        with r find [of sid] show ?thesis by (simp add: guard_holder_def)
      next
        case False
        then have "\<not> ?P x" if "find_settlement k db = Some x" for x
          using that by (auto simp: broadcastable_def find_settlement_def dest: row_by_SomeD)
        with False find [of k] show ?thesis by (auto simp: guard_holder_def split: option.splits)
      qed
    qed
    ultimately show ?thesis using recorded(4) by (simp add: guard_finish_def f run)
  qed
  then show "fst (guard_finish sid token f db) \<longleftrightarrow> guard_holder sid db = Some token"
    and "\<not> fst (guard_finish sid token f db) \<Longrightarrow> snd (guard_finish sid token f db) = db"
    and "guard_holder k (snd (guard_finish sid token f db)) =
      (if k = sid \<and> fst (guard_finish sid token f db) then None else guard_holder k db)" by blast+
qed

lemma guard_claim_wf: "settlements_wf db \<Longrightarrow> settlements_wf (snd (guard_claim sha sid token c db))"
  using claim_evolves [OF _ prod.collapse [symmetric], of db sha token _ _ sid]
  by (auto simp: guard_claim_def rows_evolve_def case_prod_beta)

lemma guard_finish_wf: "settlements_wf db \<Longrightarrow> settlements_wf (snd (guard_finish sid token f db))"
  using broadcast_evolves [OF _ prod.collapse [symmetric], of db _ sid token]
  by (auto simp: guard_finish_def rows_evolve_def case_prod_beta)

interpretation execution_guard: lease_store "guard_claim sha" guard_finish guard_holder settlements_wf
  for sha
  by unfold_locales
     (simp_all add: guard_claim_wf guard_finish_wf guard_claim_holder guard_finish_holder)

text \<open>
  Once a claim was granted, a signature is recorded for the settlement only under the token of
  that claim, and only once: another process's token is refused without effect, and so is a second
  recording under any token.
\<close>

theorem broadcast_recorded_by_claimer:
  assumes "settlements_wf db" and "fst (guard_claim sha sid token c db)"
  shows "(t' = token \<longleftrightarrow> fst (guard_finish sid t' f (snd (guard_claim sha sid token c db)))) \<and>
    (let db1 = snd (guard_finish sid token f (snd (guard_claim sha sid token c db)))
     in guard_finish sid t' g db1 = (False, db1))"
proof -
  let ?db = "snd (guard_claim sha sid token c db)"
  have wf: "settlements_wf ?db" using assms(1) guard_claim_wf by blast
  have holder: "guard_holder sid ?db = Some token" using execution_guard.claim_ok assms by blast
  then have "fst (guard_finish sid t' f ?db) \<longleftrightarrow> t' = token" for t'
    using execution_guard.finish_iff [OF wf] by auto
  moreover from this have "guard_finish sid t' g (snd (guard_finish sid token f ?db)) =
      (False, snd (guard_finish sid token f ?db))"
    by (intro execution_guard.second_finish_refused [OF wf]) simp
  ultimately show ?thesis by (simp add: Let_def)
qed

theorem broadcast_recorded_by_claimer_witness:
  "(''t2'' = ''t1'' \<longleftrightarrow> fst (guard_finish ''s1'' ''t2'' (6, CHR ''x'', [])
      (snd (guard_claim (\<lambda>s. s) ''s1'' ''t1'' (5, [], sample_pdb) sample_pdb)))) \<and>
   (let db1 = snd (guard_finish ''s1'' ''t1'' (6, CHR ''x'', [])
      (snd (guard_claim (\<lambda>s. s) ''s1'' ''t1'' (5, [], sample_pdb) sample_pdb)))
    in guard_finish ''s1'' ''t2'' (7, CHR ''y'', []) db1 = (False, db1))"
proof (rule broadcast_recorded_by_claimer)
  show "settlements_wf sample_pdb" by (simp add: settlements_wf_def sample_pdb_def unique_by_def)
  show "fst (guard_claim (\<lambda>s. s) ''s1'' ''t1'' (5, [], sample_pdb) sample_pdb)"
    by (simp add: guard_claim_def claim_settlement_execution_db_def claimable_def claimed_row_def sample_pdb_def sample_settlement_def
        find_settlement_def row_by_def some_text_def or_text_def sql_update_def coalesce_def)
qed

section \<open>What a status update does\<close>

lemma status_update_row:
  assumes wf: "settlements_wf db" and r: "find_settlement sid db = Some r" and ne: "sid \<noteq> []" "nxt \<noteq> []"
    and run: "update_settlement_status_db now sid nxt reason ctx ptx meta db db = (res, db')"
  shows "(if \<exists>s. st_settlement_status r = Some s \<and> s \<noteq> [] \<and> nxt \<in> set (allowed_next s)
     then dget res ''status'' = PStr ''settlement_status_updated'' \<and>
          find_settlement sid db' = Some (r \<lparr> st_settlement_status := Some nxt,
            st_commission_tx := coalesce ctx (st_commission_tx r), st_payout_tx := coalesce ptx (st_payout_tx r),
            st_payload := PDict (add_transition (as_dict (st_payload r))
              (transition_event (the (st_settlement_status r)) nxt reason now ctx ptx meta)), st_updated_at := now \<rparr>)
     else dget res ''status'' \<noteq> PStr ''settlement_status_updated'' \<and> db' = db)"
proof -
  let ?cur = "or_text (st_settlement_status r) ''created''"
  let ?P = "\<lambda>x. st_settlement_id x = sid \<and> st_settlement_status x = Some ?cur"
  have count: "length (filter ?P (settlements db)) = (if st_settlement_status r = Some ?cur then 1 else 0)"
    using rowcount_unique [of st_settlement_id "settlements db" ?P sid id] wf r
    by (auto simp: snd_sql_update settlements_wf_def find_settlement_def dest: row_by_SomeD)
  have Q: "(\<exists>s. st_settlement_status r = Some s \<and> s \<noteq> [] \<and> nxt \<in> set (allowed_next s)) \<longleftrightarrow>
      st_settlement_status r = Some ?cur \<and> nxt \<in> set (allowed_next ?cur)"
    by (cases "st_settlement_status r") (auto simp: or_text_def)
  have id: "st_settlement_id r = sid" using r by (auto simp: find_settlement_def dest: row_by_SomeD)
  consider (ok) "st_settlement_status r = Some ?cur" "nxt \<in> set (allowed_next ?cur)"
    | (no) "nxt \<notin> set (allowed_next ?cur)"
    | (null) "st_settlement_status r \<noteq> Some ?cur" "nxt \<in> set (allowed_next ?cur)" by blast
  then show ?thesis
  proof cases
    case ok
    then obtain s where s: "st_settlement_status r = Some s" "?cur = s" by simp
    then have "s \<noteq> []" by (auto simp: or_text_def)
    with run ne r count id ok show ?thesis unfolding Q
      by (auto simp: update_settlement_status_db_def allowed_in_transition or_text_again Let_def case_prod_beta
          snd_sql_update find_settlement_def row_by_update s)
  next
    case no
    with run ne r show ?thesis unfolding Q
      by (auto simp: update_settlement_status_db_def allowed_in_transition or_text_again Let_def)
  next
    case null
    with run ne r count show ?thesis unfolding Q
      by (auto simp: update_settlement_status_db_def allowed_in_transition or_text_again Let_def
          case_prod_beta snd_sql_update)
  qed
qed

text \<open>
  A status update run alone succeeds exactly when the stored status is a non-empty text whose
  successors include the new one; it then moves the row, keeps a signature that no new one replaces,
  and appends the event to the row's history. In every other case the database is unchanged.
\<close>

theorem status_update_decides:
  assumes wf: "settlements_wf db" and r: "find_settlement sid db = Some r" and ne: "sid \<noteq> []" "nxt \<noteq> []"
    and run: "update_settlement_status_db now sid nxt reason ctx ptx meta db db = (res, db')"
  shows "(if \<exists>s. st_settlement_status r = Some s \<and> s \<noteq> [] \<and> nxt \<in> set (allowed_next s)
     then dget res ''status'' = PStr ''settlement_status_updated'' \<and>
          find_settlement sid db' = Some (r \<lparr> st_settlement_status := Some nxt,
            st_commission_tx := coalesce ctx (st_commission_tx r), st_payout_tx := coalesce ptx (st_payout_tx r),
            st_payload := PDict (add_transition (as_dict (st_payload r))
              (transition_event (the (st_settlement_status r)) nxt reason now ctx ptx meta)), st_updated_at := now \<rparr>)
     else dget res ''status'' \<noteq> PStr ''settlement_status_updated'' \<and> db' = db)"
  using assms by (rule status_update_row)

theorem status_update_decides_witness:
  "(if \<exists>s. st_settlement_status sample_settlement = Some s \<and> s \<noteq> [] \<and> ''authorized'' \<in> set (allowed_next s)
    then dget (fst (update_settlement_status_db 9 ''s1'' ''authorized'' ''r'' None None PNone sample_pdb sample_pdb)) ''status'' =
           PStr ''settlement_status_updated'' \<and>
         find_settlement ''s1'' (snd (update_settlement_status_db 9 ''s1'' ''authorized'' ''r'' None None PNone sample_pdb sample_pdb)) =
           Some (sample_settlement \<lparr> st_settlement_status := Some ''authorized'',
            st_commission_tx := coalesce None (st_commission_tx sample_settlement),
            st_payout_tx := coalesce None (st_payout_tx sample_settlement),
            st_payload := PDict (add_transition (as_dict (st_payload sample_settlement))
              (transition_event (the (st_settlement_status sample_settlement)) ''authorized'' ''r'' 9 None None PNone)),
            st_updated_at := 9 \<rparr>)
    else dget (fst (update_settlement_status_db 9 ''s1'' ''authorized'' ''r'' None None PNone sample_pdb sample_pdb)) ''status'' \<noteq>
           PStr ''settlement_status_updated'' \<and>
         snd (update_settlement_status_db 9 ''s1'' ''authorized'' ''r'' None None PNone sample_pdb sample_pdb) = sample_pdb)"
  by (rule status_update_decides)
     (simp_all add: settlements_wf_def sample_pdb_def unique_by_def find_settlement_def row_by_def sample_settlement_def)

section \<open>Wallet recovery into review\<close>

text \<open>
  Recovering a settlement from one of the blocked wallet states into \<open>manual_review\<close> never
  succeeds, because the status table has no such transition; the corrected wallets are written all
  the same, so the operation reports \<open>recovery_transition_failed\<close> on a row it has changed.
\<close>

theorem recovery_to_review_fails:
  assumes wf: "settlements_wf db" and r: "find_settlement sid db = Some r" and ne: "sid \<noteq> []" "ww \<noteq> []" "tw \<noteq> []"
    and blocked: "st_settlement_status r \<in> {Some ''blocked_invalid_winner_wallet'', Some ''blocked_no_winner_wallet'',
      Some ''blocked_invalid_treasury_wallet''}"
    and run: "recover_settlement_wallet_configuration_db now sid wid ww tw meta ''manual_review'' db db = (res, db')"
  shows "dget res ''status'' = PStr ''recovery_transition_failed'' \<and>
    (\<exists>r'. find_settlement sid db' = Some r' \<and> st_settlement_status r' = st_settlement_status r \<and>
       st_winner_wallet r' = Some ww \<and> st_treasury_wallet r' = Some tw)"
proof -
  let ?cur = "or_text (st_settlement_status r) ''created''"
  have cur: "?cur \<in> set wallet_recoverable" "?cur \<noteq> ''manual_review''" "''manual_review'' \<notin> set (allowed_next ?cur)"
    using blocked by (auto simp: or_text_def wallet_recoverable_def allowed_next_def settlement_allowed_transitions_def)
  have found: "get_settlement_by_id_db db sid = Some (r \<lparr> st_payload := decode_payload (st_payload r) \<rparr>)"
    using r ne by (simp add: get_settlement_by_id_db_def find_settlement_def)
  have id: "st_settlement_id r = sid" using r by (auto simp: find_settlement_def dest: row_by_SomeD)
  have stuck: "dget (fst (recovery_transition now sid ?cur ''manual_review'' ww tw db1)) ''status'' = PStr ''transition_rejected'' \<and>
      snd (recovery_transition now sid ?cur ''manual_review'' ww tw db1) = db1"
    if "find_settlement sid db1 = Some r1" "st_settlement_status r1 = st_settlement_status r" for db1 r1
    using that ne cur by (simp add: recovery_transition_def update_settlement_status_db_def allowed_in_transition or_text_again Let_def)
  define event where "event = PDict (recovery_event_dict (r \<lparr> st_payload := decode_payload (st_payload r) \<rparr>)
      ?cur wid ww tw meta now)"
  define old where "old = as_dict (decode_payload (st_payload r))"
  define payload where "payload = dset (dset old ''recovery_events''
      (PList (as_list (dget old ''recovery_events'') @ [event]))) ''latest_recovery'' event"
  define db1 where "db1 = db \<lparr> settlements := fst (sql_update (\<lambda>r. st_settlement_id r = sid)
        (recovered_row now wid ww tw ''manual_review'' payload) (settlements db)) \<rparr>"
  have res: "dget res ''status'' = PStr (if dget (fst (recovery_transition now sid ?cur ''manual_review'' ww tw db1)) ''status'' \<in>
        {PStr ''settlement_status_updated'', PStr ''settlement_status_unchanged''}
        then ''settlement_recovered_manual_review_required'' else ''recovery_transition_failed'') \<and>
      db' = snd (recovery_transition now sid ?cur ''manual_review'' ww tw db1)"
    using run ne cur(1) found
    by (auto simp: recover_settlement_wallet_configuration_db_def Let_def case_prod_beta
        event_def old_def payload_def db1_def)
  have row: "find_settlement sid db1 = Some (recovered_row now wid ww tw ''manual_review'' payload r)"
    using r id by (simp add: db1_def find_settlement_def row_by_update recovered_row_def)
  from stuck [OF row] res row show ?thesis
    by (simp add: recovered_row_def)
qed

definition blocked_pdb :: pdb where
  "blocked_pdb = sample_pdb \<lparr> settlements :=
     [sample_settlement \<lparr> st_settlement_status := Some ''blocked_no_winner_wallet'' \<rparr>] \<rparr>"

theorem recovery_to_review_fails_witness:
  "dget (fst (recover_settlement_wallet_configuration_db 9 ''s1'' PNone ''W2'' ''T2'' PNone ''manual_review'' blocked_pdb blocked_pdb))
     ''status'' = PStr ''recovery_transition_failed'' \<and>
   (\<exists>r'. find_settlement ''s1'' (snd (recover_settlement_wallet_configuration_db 9 ''s1'' PNone ''W2'' ''T2'' PNone
           ''manual_review'' blocked_pdb blocked_pdb)) = Some r' \<and>
      st_settlement_status r' = st_settlement_status (sample_settlement \<lparr> st_settlement_status := Some ''blocked_no_winner_wallet'' \<rparr>) \<and>
      st_winner_wallet r' = Some ''W2'' \<and> st_treasury_wallet r' = Some ''T2'')"
  by (rule recovery_to_review_fails)
     (simp_all add: settlements_wf_def blocked_pdb_def sample_pdb_def unique_by_def find_settlement_def row_by_def
        sample_settlement_def)

end
