(* ===== verification/DeliveryQueue.thy ===== *)
theory DeliveryQueue
  imports DeliveryWorker SettlementBooks
begin

text \<open>
  Properties of the delivery queue: a delivery keeps the order and the payment it was enqueued with, a
  completed delivery stays completed, an attempt is finished only by the holder of its lease and once,
  a claim succeeds exactly on the due deliveries, and what failed and successful attempts leave.
\<close>

section \<open>Rows of the queue\<close>

definition deliveries_wf :: "checkout_db \<Rightarrow> bool" where
  "deliveries_wf db =
     (unique_by dl_quote_id (deliveries db) \<and> unique_by dl_order_id (deliveries db) \<and>
      unique_by dl_tx_signature (deliveries db))"

datatype delivery_op =
    EnqueueDelivery bool string string string int
  | ClaimDelivery env string string int
  | FinishDelivery string string finish_args
  | RedriveDelivery string string string int checkout_db
  | ResumeDelivery string string int checkout_db
  | AccelerateDelivery env string string int checkout_db
  | SweepSettlement allocation_env int delivery

fun run_delivery_op :: "delivery_op \<Rightarrow> checkout_db \<Rightarrow> checkout_db" where
  "run_delivery_op (EnqueueDelivery pg q k tx now) db = snd (enqueue_delivery_tx pg q k tx now db)"
| "run_delivery_op (ClaimDelivery getenv token q now) db = snd (claim_delivery getenv token q now db)"
| "run_delivery_op (FinishDelivery q token a) db = snd (finish_delivery q token a db)"
| "run_delivery_op (RedriveDelivery q reason actor now snap) db = snd (redrive_exhausted_delivery q reason actor now snap db)"
| "run_delivery_op (ResumeDelivery q actor now snap) db = snd (resume_review_required_delivery q actor now snap db)"
| "run_delivery_op (AccelerateDelivery getenv q actor now snap) db =
     snd (accelerate_foundation_retry getenv q actor now snap db)"
| "run_delivery_op (SweepSettlement w now row) db = snd (sweep_settlement w now row db)"

text \<open>What an operation does to the rows: nothing, one new row, or updates that keep the identity.\<close>

definition same_identity :: "delivery \<Rightarrow> delivery \<Rightarrow> bool" where
  "same_identity d d' =
     (dl_quote_id d' = dl_quote_id d \<and> dl_order_id d' = dl_order_id d \<and> dl_tx_signature d' = dl_tx_signature d \<and>
      dl_created_at d' = dl_created_at d)"

definition completion_kept :: "delivery \<Rightarrow> delivery \<Rightarrow> bool" where
  "completion_kept d d' =
     (same_identity d d' \<and>
      (dl_state d = ''completed'' \<longrightarrow> dl_state d' = ''completed'' \<and> dl_completed_at d' = dl_completed_at d \<and>
         dl_attempt_count d' = dl_attempt_count d))"

lemma same_identity_simps [simp]:
  "same_identity d (running_row t u n d)" "same_identity d (finished_row a d)" "same_identity d (redriven_row n d)"
  "same_identity d (resumed_row n d)" "same_identity d (swept_row st k nx er n d)" "same_identity d d"
  "same_identity d (d \<lparr> dl_next_attempt_at := n, dl_updated_at := m \<rparr>)" "same_identity d (d \<lparr> dl_result := r \<rparr>)"
  by (simp_all add: same_identity_def running_row_def finished_row_def redriven_row_def resumed_row_def swept_row_def)

lemma completion_trans: "completion_kept a b \<Longrightarrow> completion_kept b c \<Longrightarrow> completion_kept a c"
  by (auto simp: completion_kept_def same_identity_def)

inductive rows_change :: "delivery list \<Rightarrow> delivery list \<Rightarrow> bool" where
  unchanged: "rows_change t t"
| added: "list_all (\<lambda>x. \<not> delivery_clash r x) t \<Longrightarrow> rows_change t (t @ [r])"
| updated: "(\<And>d. P d \<Longrightarrow> completion_kept d (f d)) \<Longrightarrow> rows_change t u \<Longrightarrow>
    rows_change t (fst (sql_update P f u))"

lemma updated_once: "(\<And>d. P d \<Longrightarrow> completion_kept d (f d)) \<Longrightarrow> rows_change t (fst (sql_update P f t))"
  by (rule rows_change.updated [OF _ rows_change.unchanged])

lemma reopen_change:
  assumes "\<And>d. P d \<Longrightarrow> completion_kept d (f d)"
  shows "rows_change (deliveries db) (deliveries (snd (reopen_delivery e P f ev r db)))"
  using updated_once [of P f, OF assms]
  by (auto simp: reopen_delivery_def Let_def case_prod_beta intro: rows_change.unchanged)

lemma op_change: "rows_change (deliveries db) (deliveries (run_delivery_op x db))"
proof (cases x)
  case (EnqueueDelivery pg q k tx now)
  then show ?thesis
    by (auto simp: enqueue_delivery_tx_def sql_insert_Some list_all_iff intro: rows_change.intros split: option.splits)
next
  case (ClaimDelivery getenv token q now)
  have "rows_change (deliveries db) (fst (sql_update (\<lambda>d. dl_quote_id d = q \<and> delivery_due now d)
      (running_row token (now + lease_seconds getenv) now) (deliveries db)))"
    by (rule updated_once) (auto simp: completion_kept_def delivery_due_def)
  then show ?thesis using ClaimDelivery
    by (auto simp: claim_delivery_def Let_def case_prod_beta intro: rows_change.unchanged)
next
  case (FinishDelivery q token a)
  have "rows_change (deliveries db) (fst (sql_update (\<lambda>d. dl_quote_id d = q \<and> dl_state d = ''running'' \<and>
      dl_lease_token d = Some token) (finished_row a) (deliveries db)))"
    by (rule updated_once) (auto simp: completion_kept_def)
  then show ?thesis using FinishDelivery
    by (auto simp: finish_delivery_def Let_def case_prod_beta)
next
  case (RedriveDelivery q reason actor now snap)
  have "rows_change (deliveries db) (deliveries (snd (reopen_delivery e (\<lambda>d. dl_quote_id d = q \<and> dl_state d = ''exhausted'')
      (redriven_row now) ev r db)))" for e ev r
    by (rule reopen_change) (auto simp: completion_kept_def)
  then show ?thesis using RedriveDelivery
    by (auto simp: redrive_exhausted_delivery_def Let_def intro: rows_change.unchanged split: option.splits)
next
  case (ResumeDelivery q actor now snap)
  have "rows_change (deliveries db) (deliveries (snd (reopen_delivery e (\<lambda>d. dl_quote_id d = q \<and> dl_state d = ''review_required'')
      (resumed_row now) ev r db)))" for e ev r
    by (rule reopen_change) (auto simp: completion_kept_def)
  then show ?thesis using ResumeDelivery
    by (auto simp: resume_review_required_delivery_def intro: rows_change.unchanged split: option.splits)
next
  case (AccelerateDelivery getenv q actor now snap)
  have "rows_change (deliveries db) (deliveries (snd (reopen_delivery e (\<lambda>d. dl_quote_id d = q \<and>
      dl_state d = ''retryable_failure'' \<and> dl_last_error d = Some evidence_not_ready)
      (\<lambda>d. d \<lparr> dl_next_attempt_at := now, dl_updated_at := now \<rparr>) ev r db)))" for e ev r
    by (rule reopen_change) (auto simp: completion_kept_def)
  then show ?thesis using AccelerateDelivery
    by (auto simp: accelerate_foundation_retry_def intro: rows_change.unchanged split: option.splits)
next
  case (SweepSettlement w now row)
  have swept: "rows_change (deliveries db) (fst (sql_update (\<lambda>d. dl_quote_id d = dl_quote_id row \<and> dl_state d = ''completed'' \<and>
      dl_settlement_state d = ''retryable_failure'') (swept_row st k nx er now) (deliveries db)))" for st k nx er
    by (rule updated_once) (auto simp: completion_kept_def swept_row_def same_identity_def)
  have "rows_change (deliveries db) (fst (sql_update (\<lambda>d. dl_quote_id d = dl_quote_id row) (\<lambda>d. d \<lparr> dl_result := r \<rparr>)
      (fst (sql_update (\<lambda>d. dl_quote_id d = dl_quote_id row \<and> dl_state d = ''completed'' \<and>
        dl_settlement_state d = ''retryable_failure'') (swept_row st k nx er now) (deliveries db)))))" for r st k nx er
    by (rule rows_change.updated [OF _ swept]) (simp add: completion_kept_def)
  then show ?thesis using SweepSettlement swept
    by (simp add: sweep_settlement_def Let_def case_prod_beta split: pyval.split)
qed

lemma change_row:
  assumes "rows_change t u" and "row_by dl_quote_id q t = Some d"
  shows "\<exists>d'. row_by dl_quote_id q u = Some d' \<and> completion_kept d d'"
  using assms
proof (induction rule: rows_change.induct)
  case (updated P f t u)
  then obtain d' where d': "row_by dl_quote_id q u = Some d'" "completion_kept d d'" by blast
  have "row_by dl_quote_id q (fst (sql_update P f u)) = Some (if P d' then f d' else d')"
    using d'(1) updated.hyps(1)
    by (subst row_by_update) (auto simp: completion_kept_def same_identity_def)
  then show ?case using d'(2) updated.hyps(1) completion_trans by auto
qed (auto simp: row_by_append completion_kept_def)

lemma update_identity:
  assumes "\<And>d. P d \<Longrightarrow> completion_kept d (f d)"
  shows "unique_by dl_quote_id (fst (sql_update P f u)) = unique_by dl_quote_id u"
    "unique_by dl_order_id (fst (sql_update P f u)) = unique_by dl_order_id u"
    "unique_by dl_tx_signature (fst (sql_update P f u)) = unique_by dl_tx_signature u"
  using assms by (auto intro!: unique_by_update simp: completion_kept_def same_identity_def)

lemma change_unique:
  assumes "rows_change t u"
    and "unique_by dl_quote_id t \<and> unique_by dl_order_id t \<and> unique_by dl_tx_signature t"
  shows "unique_by dl_quote_id u \<and> unique_by dl_order_id u \<and> unique_by dl_tx_signature u"
  using assms
proof (induction rule: rows_change.induct)
  case (updated P f t u)
  then show ?case using update_identity [of P f u] by simp
qed (auto simp: unique_by_snoc row_by_None_iff list_all_iff delivery_clash_def)

lemma run_wf: "deliveries_wf db \<Longrightarrow> deliveries_wf (fold run_delivery_op xs db)"
proof (induction xs arbitrary: db)
  case (Cons x xs)
  have "deliveries_wf (run_delivery_op x db)"
    using change_unique [OF op_change] Cons.prems by (simp add: deliveries_wf_def)
  then show ?case using Cons.IH by simp
qed simp

lemma run_completion:
  "find_delivery q db = Some d \<Longrightarrow>
   \<exists>d'. find_delivery q (fold run_delivery_op xs db) = Some d' \<and> completion_kept d d'"
proof (induction xs arbitrary: db d)
  case (Cons x xs)
  obtain d1 where d1: "find_delivery q (run_delivery_op x db) = Some d1" "completion_kept d d1"
    using change_row [OF op_change, of q db d x] Cons.prems by (auto simp: find_delivery_def)
  from Cons.IH [OF d1(1)] show ?case using d1(2) completion_trans by fastforce
qed (simp add: completion_kept_def)

definition sample_delivery :: delivery where
  "sample_delivery = (new_delivery ''q1'' ''o1'' ''tx'' 1)"

definition sample_queue :: checkout_db where
  "sample_queue = empty_checkout \<lparr> deliveries := [sample_delivery],
     orders := [[(''order_id'', PStr ''o1''), (''used'', PBool False), (''status'', PStr ''paid'')]] \<rparr>"

lemmas sample_queue_defs =
  sample_queue_def sample_delivery_def new_delivery_def empty_checkout_def find_delivery_def row_by_def

text \<open>
  C16: a payment is delivered once: along any run of enqueueings, claims, finishes, redrives, resumptions,
  accelerations and settlement sweeps, with snapshots of any age, quotes, orders and payment
  signatures stay unique, a delivery keeps the order and the payment signature it was enqueued with,
  and once completed it stays completed, with its completion time, and is never attempted again.
\<close>

theorem delivery_completed_once:
  assumes "deliveries_wf db" and "find_delivery q db = Some d"
  shows "deliveries_wf (fold run_delivery_op xs db) \<and>
    (\<exists>d'. find_delivery q (fold run_delivery_op xs db) = Some d' \<and>
       dl_order_id d' = dl_order_id d \<and> dl_tx_signature d' = dl_tx_signature d \<and>
       (dl_state d \<noteq> ''completed'' \<or>
        (dl_state d' = ''completed'' \<and> dl_completed_at d' = dl_completed_at d \<and> dl_attempt_count d' = dl_attempt_count d)))"
  using run_wf [OF assms(1)] run_completion [OF assms(2)]
  by (auto simp: completion_kept_def same_identity_def)

theorem delivery_completed_once_witness:
  "deliveries_wf (fold run_delivery_op [ClaimDelivery (\<lambda>_. None) ''t'' ''q1'' 5] sample_queue) \<and>
    (\<exists>d'. find_delivery ''q1'' (fold run_delivery_op [ClaimDelivery (\<lambda>_. None) ''t'' ''q1'' 5] sample_queue) = Some d' \<and>
       dl_order_id d' = dl_order_id sample_delivery \<and> dl_tx_signature d' = dl_tx_signature sample_delivery \<and>
       (dl_state sample_delivery \<noteq> ''completed'' \<or>
        (dl_state d' = ''completed'' \<and> dl_completed_at d' = dl_completed_at sample_delivery \<and>
         dl_attempt_count d' = dl_attempt_count sample_delivery)))"
  by (rule delivery_completed_once) (simp_all add: sample_queue_defs deliveries_wf_def unique_by_def)

section \<open>The queue records a payment once\<close>

record enqueue_request =
  eq_postgres :: bool
  eq_quote_id :: string
  eq_order_id :: string
  eq_signature :: string
  eq_now :: int

definition run_enqueue :: "enqueue_request \<Rightarrow> checkout_db \<Rightarrow> checkout_db" where
  "run_enqueue e db = snd (enqueue_delivery_tx (eq_postgres e) (eq_quote_id e) (eq_order_id e) (eq_signature e) (eq_now e) db)"

definition paid_signature :: "string \<Rightarrow> checkout_db \<Rightarrow> string option" where
  "paid_signature q db = map_option dl_tx_signature (find_delivery q db)"

lemma run_enqueue_cases:
  "run_enqueue e db = db \<or>
   (find_delivery (eq_quote_id e) db = None \<and>
    deliveries (run_enqueue e db) = deliveries db @ [new_delivery (eq_quote_id e) (eq_order_id e) (eq_signature e) (eq_now e)])"
  by (auto simp: run_enqueue_def enqueue_delivery_tx_def sql_insert_Some find_delivery_def row_by_None_iff
      delivery_clash_def new_delivery_def split: option.splits)

interpretation payment_recorder: idempotent_recorder run_enqueue paid_signature eq_quote_id eq_signature
proof unfold_locales
  show "paid_signature (eq_quote_id r) db = Some x \<Longrightarrow> run_enqueue r db = db" for r db x
    using run_enqueue_cases [of r db] by (auto simp: paid_signature_def)
  show "paid_signature (eq_quote_id r) db = None \<Longrightarrow>
      run_enqueue r db = db \<or> paid_signature (eq_quote_id r) (run_enqueue r db) = Some (eq_signature r)" for r db
    using run_enqueue_cases [of r db]
    by (auto simp: paid_signature_def find_delivery_def row_by_append row_by_Cons new_delivery_def)
  show "k \<noteq> eq_quote_id r \<Longrightarrow> paid_signature k (run_enqueue r db) = paid_signature k db" for k r db
    using run_enqueue_cases [of r db]
    by (auto simp: paid_signature_def find_delivery_def row_by_append row_by_Cons new_delivery_def split: option.splits)
qed

text \<open>
  Enqueueing is idempotent per quote: the payment signature a quote was first enqueued with stays
  under all further enqueueings, on either database, and a signature found for a quote was there
  before or was enqueued for that quote.
\<close>

theorem first_payment_stays:
  "(case paid_signature q db of
      Some s \<Rightarrow> paid_signature q (fold run_enqueue es db) = Some s
    | None \<Rightarrow> paid_signature q (fold run_enqueue es db) \<in>
        insert None ((\<lambda>e. Some (eq_signature e)) ` {e \<in> set es. eq_quote_id e = q}))"
proof (cases "paid_signature q db")
  case None
  then show ?thesis
    using payment_recorder.run_source [of q es db]
    by (cases "paid_signature q (fold run_enqueue es db)") auto
qed (simp add: payment_recorder.first_write_wins)

section \<open>An attempt is a lease\<close>

definition lease_claim :: "string \<Rightarrow> string \<Rightarrow> env \<times> int \<Rightarrow> checkout_db \<Rightarrow> bool \<times> checkout_db" where
  "lease_claim q token c db =
     (case claim_delivery (fst c) token q (snd c) db of ((_, won), db') \<Rightarrow> (won \<noteq> None, db'))"

definition lease_holder :: "string \<Rightarrow> checkout_db \<Rightarrow> string option" where
  "lease_holder q db =
     (case find_delivery q db of
        None \<Rightarrow> None
      | Some d \<Rightarrow> if dl_state d = ''running'' then dl_lease_token d else None)"

abbreviation queue_inv :: "checkout_db \<Rightarrow> bool" where
  "queue_inv db \<equiv> unique_by dl_quote_id (deliveries db)"

lemma one_due:
  assumes "queue_inv db" and "\<And>d. P d \<Longrightarrow> dl_quote_id d = q"
  shows "length (filter P (deliveries db)) = (case find_delivery q db of Some d \<Rightarrow> (if P d then 1 else 0) | None \<Rightarrow> 0)"
  using rowcount_unique [OF assms, where f = id] by (simp add: snd_sql_update find_delivery_def)

lemma delivery_claim_cases:
  assumes inv: "queue_inv db"
  shows "(fst (lease_claim q token c db) \<longleftrightarrow> (\<exists>d. find_delivery q db = Some d \<and> delivery_due (snd c) d)) \<and>
    deliveries (snd (lease_claim q token c db)) =
      (if fst (lease_claim q token c db)
       then fst (sql_update (\<lambda>d. dl_quote_id d = q \<and> delivery_due (snd c) d)
              (running_row token (snd c + lease_seconds (fst c)) (snd c)) (deliveries db))
       else deliveries db)"
  using one_due [OF inv, of "\<lambda>d. dl_quote_id d = q \<and> delivery_due (snd c) d" q]
  by (auto simp: lease_claim_def claim_delivery_def Let_def case_prod_beta snd_sql_update
      find_delivery_def dest: row_by_SomeD split: option.splits)

lemma finish_cases:
  assumes inv: "queue_inv db"
  shows "(fst (finish_delivery q token a db) \<longleftrightarrow> lease_holder q db = Some token) \<and>
    deliveries (snd (finish_delivery q token a db)) =
      fst (sql_update (\<lambda>d. dl_quote_id d = q \<and> dl_state d = ''running'' \<and> dl_lease_token d = Some token)
             (finished_row a) (deliveries db)) \<and>
    (\<not> fst (finish_delivery q token a db) \<longrightarrow> snd (finish_delivery q token a db) = db)"
proof -
  let ?P = "\<lambda>d. dl_quote_id d = q \<and> dl_state d = ''running'' \<and> dl_lease_token d = Some token"
  have n: "length (filter ?P (deliveries db)) = (if lease_holder q db = Some token then 1 else 0)"
    using one_due [OF inv, of ?P q]
    by (auto simp: lease_holder_def find_delivery_def dest: row_by_SomeD split: option.splits if_splits)
  then have "lease_holder q db \<noteq> Some token \<Longrightarrow> fst (sql_update ?P (finished_row a) (deliveries db)) = deliveries db"
    by (intro rowcount_0_same) (simp add: snd_sql_update)
  with n show ?thesis
    by (auto simp: finish_delivery_def Let_def case_prod_beta snd_sql_update)
qed

lemma finish_wins: "queue_inv db \<Longrightarrow> fst (finish_delivery q token a db) \<longleftrightarrow> lease_holder q db = Some token"
  using finish_cases by blast

lemma finish_loses: "queue_inv db \<Longrightarrow> lease_holder q db \<noteq> Some token \<Longrightarrow> snd (finish_delivery q token a db) = db"
  using finish_cases by blast

lemma find_updated:
  assumes "deliveries db' = fst (sql_update P f (deliveries db))" and "\<And>d. P d \<Longrightarrow> same_identity d (f d)"
  shows "find_delivery k db' = map_option (\<lambda>d. if P d then f d else d) (find_delivery k db)"
  unfolding find_delivery_def assms(1) by (rule row_by_update) (use assms(2) in \<open>simp add: same_identity_def\<close>)

lemma claim_holder:
  assumes inv: "queue_inv db"
  shows "lease_holder k (snd (lease_claim q token c db)) =
    (if k = q \<and> fst (lease_claim q token c db) then Some token else lease_holder k db)"
proof (cases "fst (lease_claim q token c db)")
  case True
  with delivery_claim_cases [OF inv, of q token c] obtain d where d: "find_delivery q db = Some d" "delivery_due (snd c) d"
    and upd: "deliveries (snd (lease_claim q token c db)) =
      fst (sql_update (\<lambda>d. dl_quote_id d = q \<and> delivery_due (snd c) d)
              (running_row token (snd c + lease_seconds (fst c)) (snd c)) (deliveries db))" by auto
  have "find_delivery k (snd (lease_claim q token c db)) =
      map_option (\<lambda>d. if dl_quote_id d = q \<and> delivery_due (snd c) d
        then running_row token (snd c + lease_seconds (fst c)) (snd c) d else d) (find_delivery k db)"
    by (rule find_updated [OF upd]) simp
  then show ?thesis using True d
    by (auto simp: lease_holder_def running_row_def find_delivery_def dest: row_by_SomeD split: option.splits)
next
  case False
  then have "deliveries (snd (lease_claim q token c db)) = deliveries db"
    using delivery_claim_cases [OF inv, of q token c] by (simp only: False if_False)
  then show ?thesis using False by (simp add: lease_holder_def find_delivery_def)
qed

lemma finish_holder:
  assumes inv: "queue_inv db"
  shows "lease_holder k (snd (finish_delivery q token a db)) =
    (if k = q \<and> fst (finish_delivery q token a db) then None else lease_holder k db)"
proof (cases "fst (finish_delivery q token a db)")
  case True
  then have held: "lease_holder q db = Some token" using finish_cases [OF inv] by blast
  have "find_delivery k (snd (finish_delivery q token a db)) =
      map_option (\<lambda>d. if dl_quote_id d = q \<and> dl_state d = ''running'' \<and> dl_lease_token d = Some token
        then finished_row a d else d) (find_delivery k db)"
    by (rule find_updated) (use finish_cases [OF inv] in auto)
  then show ?thesis using True held
    by (auto simp: lease_holder_def finished_row_def find_delivery_def dest: row_by_SomeD split: option.splits if_splits)
qed (use finish_cases [OF inv] in auto)

lemma claim_inv: "queue_inv db \<Longrightarrow> queue_inv (snd (lease_claim q token c db))"
  using delivery_claim_cases [of db q token c] unique_by_update [of "\<lambda>d. dl_quote_id d = q \<and> delivery_due (snd c) d" dl_quote_id
    "running_row token (snd c + lease_seconds (fst c)) (snd c)" "deliveries db"]
  by (simp add: running_row_def)

lemma finish_inv: "queue_inv db \<Longrightarrow> queue_inv (snd (finish_delivery q token a db))"
  using finish_cases [of db q token a] unique_by_update [of "\<lambda>d. dl_quote_id d = q \<and> dl_state d = ''running'' \<and>
    dl_lease_token d = Some token" dl_quote_id "finished_row a" "deliveries db"]
  by (simp add: finished_row_def)

interpretation delivery_lease: lease_store lease_claim finish_delivery lease_holder queue_inv
  by unfold_locales (simp_all add: claim_inv finish_inv claim_holder finish_holder finish_wins finish_loses)

text \<open>How many finishes of a quote with a token succeed along a run of claims and finishes.\<close>

datatype lease_step = LeaseClaim string string "env \<times> int" | LeaseFinish string string finish_args

fun lease_of :: "lease_step \<Rightarrow> (string, string, env \<times> int, finish_args) lease_op" where
  "lease_of (LeaseClaim q t c) = Claim q t c"
| "lease_of (LeaseFinish q t a) = Finish q t a"

fun successful_finishes :: "string \<Rightarrow> string \<Rightarrow> lease_step list \<Rightarrow> checkout_db \<Rightarrow> nat" where
  "successful_finishes q t [] db = 0"
| "successful_finishes q t (LeaseClaim q' t' c # xs) db = successful_finishes q t xs (snd (lease_claim q' t' c db))"
| "successful_finishes q t (LeaseFinish q' t' a # xs) db =
     (case finish_delivery q' t' a db of
        (ok, db') \<Rightarrow> (if ok \<and> q' = q \<and> t' = t then 1 else 0) + successful_finishes q t xs db')"

lemma successful_finishes_eq:
  "successful_finishes q t xs db = delivery_lease.finishes q t (map lease_of xs) db"
proof (induction xs arbitrary: db)
  case (Cons x xs)
  then show ?case by (cases x) (auto simp: case_prod_beta)
qed simp

text \<open>
  C11: an attempt is finished at most once: along any interleaving of claims and finishes by any number
  of workers, in which a token is not drawn twice, at most one finish with that token succeeds; a
  finish with a token that no longer holds the lease answers that it lost, and changes neither the delivery nor
  any other table. This is about the finish (\<open>_finish\<close>) alone: what a worker does before it, to the order and the
  books, the lease does not prevent (\<open>late_worker_settles\<close>).
\<close>

theorem attempt_finished_once:
  assumes "queue_inv db" and "list_all (\<lambda>x. case x of LeaseClaim q' t' c \<Rightarrow> t' \<noteq> t | _ \<Rightarrow> True) xs"
  shows "successful_finishes q t xs (snd (lease_claim q t c db)) \<le> 1 \<and>
    (lease_holder q db \<noteq> Some t' \<longrightarrow> finish_delivery q t' a db = (False, db))"
proof
  have "\<not> delivery_lease.claims q t (lease_of x)" if "x \<in> set xs" for x
  proof -
    have "case x of LeaseClaim q' t' c \<Rightarrow> t' \<noteq> t | _ \<Rightarrow> True" using assms(2) that by (simp add: list_all_iff)
    then show ?thesis by (cases x) auto
  qed
  then have "\<forall>x \<in> set (map lease_of xs). \<not> delivery_lease.claims q t x" by simp
  then show "successful_finishes q t xs (snd (lease_claim q t c db)) \<le> 1"
    unfolding successful_finishes_eq
    using delivery_lease.finished_at_most_once claim_inv [OF assms(1)] by blast
  show "lease_holder q db \<noteq> Some t' \<longrightarrow> finish_delivery q t' a db = (False, db)"
    using finish_cases [OF assms(1), of q t' a] by (auto simp: prod_eq_iff)
qed

theorem attempt_finished_once_witness:
  "successful_finishes ''q1'' ''t'' [LeaseClaim ''q1'' ''u'' (\<lambda>_. None, 500), LeaseFinish ''q1'' ''t'' (finish_with ''completed'' 501 [])]
     (snd (lease_claim ''q1'' ''t'' (\<lambda>_. None, 5) sample_queue)) \<le> 1 \<and>
   finish_delivery ''q1'' ''v'' (finish_with ''completed'' 501 []) sample_queue = (False, sample_queue)"
proof -
  have "lease_holder ''q1'' sample_queue \<noteq> Some ''v''" by (simp add: lease_holder_def sample_queue_defs)
  then show ?thesis
    using attempt_finished_once [of sample_queue "''t''"
        "[LeaseClaim ''q1'' ''u'' (\<lambda>_. None, 500), LeaseFinish ''q1'' ''t'' (finish_with ''completed'' 501 [])]" "''q1''"
        "(\<lambda>_. None, 5)" "''v''" "finish_with ''completed'' 501 []"]
    by (simp add: sample_queue_defs unique_by_def)
qed

end
