(* ===== verification/DeliveryOutcome.thy ===== *)
theory DeliveryOutcome
  imports DeliveryQueue
begin

text \<open>
  What one attempt leaves when no other session interferes: a failure is rescheduled within bounds or
  exhausted, an authorized result completes the delivery, marks the order and allocates its
  settlement; and what an attempt leaves whose worker has lost its lease meanwhile.
\<close>

section \<open>The queue offers exactly what can be claimed\<close>

text \<open>
  A claim succeeds exactly on the deliveries that are due (waiting and reached, or running on an
  expired lease), and the worker's queue lists exactly those, when they fit its limit.
\<close>

theorem due_deliveries_claimable:
  assumes "queue_inv db" and "length (deliveries db) \<le> nat (clamp_int 1 100 limit)"
  shows "(fst (lease_claim q token (getenv, now) db) \<longleftrightarrow> q \<in> set (list_due_deliveries now limit db)) \<and>
    (q \<in> set (list_due_deliveries now limit db) \<longleftrightarrow> (\<exists>d. find_delivery q db = Some d \<and> delivery_due now d))"
proof -
  have "length (filter (delivery_due now) (deliveries db)) \<le> nat (clamp_int 1 100 limit)"
    using assms(2) length_filter_le le_trans by blast
  then have "set (list_due_deliveries now limit db) = dl_quote_id ` set (filter (delivery_due now) (deliveries db))"
    by (simp add: list_due_deliveries_def)
  moreover have "(\<exists>d. find_delivery q db = Some d \<and> delivery_due now d) \<longleftrightarrow>
      q \<in> dl_quote_id ` set (filter (delivery_due now) (deliveries db))"
    using assms(1) row_by_eq_SomeI [of dl_quote_id "deliveries db"]
    by (fastforce simp: find_delivery_def dest: row_by_SomeD)
  ultimately show ?thesis using delivery_claim_cases [OF assms(1), of q token "(getenv, now)"] by simp
qed

theorem due_deliveries_claimable_witness:
  "(fst (lease_claim ''q1'' ''t'' (\<lambda>_. None, 5) sample_queue) \<longleftrightarrow> ''q1'' \<in> set (list_due_deliveries 5 20 sample_queue)) \<and>
   (''q1'' \<in> set (list_due_deliveries 5 20 sample_queue) \<longleftrightarrow>
     (\<exists>d. find_delivery ''q1'' sample_queue = Some d \<and> delivery_due 5 d))"
  by (rule due_deliveries_claimable) (simp_all add: sample_queue_defs unique_by_def clamp_int_def)

section \<open>The steps of an attempt\<close>

lemma claim_won:
  assumes inv: "queue_inv db" and d: "find_delivery q db = Some d" "delivery_due now d"
  obtains db1 where "claim_delivery getenv token q now db =
      ((Some (running_row token (now + lease_seconds getenv) now d), Some token), db1)"
    and "find_delivery q db1 = Some (running_row token (now + lease_seconds getenv) now d)"
    and "queue_inv db1" and "orders db1 = orders db" and "books db1 = books db" and "quotes db1 = quotes db"
    and "receipts db1 = receipts db" and "compensations db1 = compensations db"
proof -
  let ?P = "\<lambda>d. dl_quote_id d = q \<and> delivery_due now d"
  let ?row = "running_row token (now + lease_seconds getenv) now"
  obtain res db1 where run: "claim_delivery getenv token q now db = (res, db1)" by (meson surj_pair)
  have q: "dl_quote_id d = q" using d(1) by (auto simp: find_delivery_def dest: row_by_SomeD)
  have n: "length (filter ?P (deliveries db)) = 1" using one_due [OF inv, of ?P q] d by (simp add: q)
  then have upd: "deliveries db1 = fst (sql_update ?P ?row (deliveries db))"
    using run by (auto simp: claim_delivery_def Let_def case_prod_beta snd_sql_update)
  have find: "find_delivery q db1 = Some (?row d)"
    using find_updated [OF upd, of q] d q by simp
  have "queue_inv db1"
    unfolding upd using inv by (subst unique_by_update) (simp_all add: running_row_def)
  then show thesis
    using that [of db1] run n find by (auto simp: claim_delivery_def Let_def case_prod_beta snd_sql_update find_delivery_def)
qed

lemma finish_won:
  assumes "queue_inv db" and d: "find_delivery q db = Some d" "dl_state d = ''running''" "dl_lease_token d = Some token"
  shows "find_delivery q (snd (finish_delivery q token a db)) = Some (finished_row a d)"
proof -
  have "dl_quote_id d = q" using d(1) by (auto simp: find_delivery_def dest: row_by_SomeD)
  then show ?thesis
    using find_updated [of "snd (finish_delivery q token a db)" "\<lambda>d. dl_quote_id d = q \<and> dl_state d = ''running'' \<and>
      dl_lease_token d = Some token" "finished_row a" db q] finish_cases [OF assms(1), of q token a] d by simp
qed

lemma finish_frame [simp]:
  "orders (snd (finish_delivery q token a db)) = orders db" "books (snd (finish_delivery q token a db)) = books db"
  "receipts (snd (finish_delivery q token a db)) = receipts db"
  "compensations (snd (finish_delivery q token a db)) = compensations db"
  by (simp_all add: finish_delivery_def Let_def case_prod_beta)

lemma request_frame:
  "deliveries (request_protocol_compensation w q db) = deliveries db \<and> orders (request_protocol_compensation w q db) = orders db \<and>
   books (request_protocol_compensation w q db) = books db"
proof -
  have "ends (\<lambda>db'. deliveries db' = deliveries db \<and> orders db' = orders db \<and> books db' = books db)
      (request_compensation m c q by' now db db)" for m c by' now
    unfolding request_compensation_def by (intro ends_rules ends_pair) (auto simp: ends_def split: option.splits)
  then show ?thesis by (simp add: request_protocol_compensation_def ends_def)
qed

lemma find_request [simp]: "find_delivery q (request_protocol_compensation w q' db) = find_delivery q db"
  by (simp add: find_delivery_def request_frame)

lemma find_marked [simp]: "find_delivery q (mark_order k tx st r now db) = find_delivery q db"
  "deliveries (mark_order k tx st r now db) = deliveries db" "books (mark_order k tx st r now db) = books db"
  by (simp_all add: mark_order_def find_delivery_def)

text \<open>The attempt up to its result, for an order that is not used.\<close>

definition open_order :: "pydict \<Rightarrow> bool" where
  "open_order ord = (\<not> truthy (dget ord ''used'') \<and> py_lower (str_or_empty (dget ord ''status'')) \<noteq> ''delivered'')"

lemma attempt_runs:
  assumes inv: "queue_inv db" and d: "find_delivery q db = Some d" "delivery_due now d"
    and ord: "find_order (dl_order_id d) db = Some ord" "open_order ord"
    and exec: "we_executor w ord (dl_tx_signature d) = (\<lambda>db. (raw, db))"
  obtains db1 where "find_delivery q db1 = Some (running_row token (now + lease_seconds (we_env w)) now d)"
    and "queue_inv db1" and "orders db1 = orders db" and "books db1 = books db"
    and "snd (run_checkout_delivery w token q now db) =
      settle_result w q token (running_row token (now + lease_seconds (we_env w)) now d) ord (attempt_result raw) now db1"
proof -
  from claim_won [OF inv d, of "we_env w" token] obtain db1 where
    c: "claim_delivery (we_env w) token q now db =
      ((Some (running_row token (now + lease_seconds (we_env w)) now d), Some token), db1)"
    and db1: "find_delivery q db1 = Some (running_row token (now + lease_seconds (we_env w)) now d)"
      "queue_inv db1" "orders db1 = orders db" "books db1 = books db" by blast
  have "find_order (dl_order_id d) db1 = Some ord" using ord(1) db1(3) by (simp add: find_order_def)
  then have "snd (run_checkout_delivery w token q now db) =
      settle_result w q token (running_row token (now + lease_seconds (we_env w)) now d) ord (attempt_result raw) now db1"
    using ord(2) exec by (simp add: run_checkout_delivery_def c running_row_def open_order_def Let_def)
  with db1 show thesis using that by blast
qed

section \<open>A failed attempt\<close>

text \<open>The result of an attempt that asks for another one: no success and no decision of the foundation.\<close>

definition retryable_result :: "pydict \<Rightarrow> bool" where
  "retryable_result r =
     (result_status r \<notin> {''foundation_review_required'', ''foundation_delivery_blocked''} \<and> \<not> authorized_result r)"

lemma failed_run:
  assumes "queue_inv db" and "find_delivery q db = Some d" and "delivery_due now d"
    and "find_order (dl_order_id d) db = Some ord" and "open_order ord"
    and "we_executor w ord (dl_tx_signature d) = (\<lambda>db. (raw, db))"
    and "retryable_result (attempt_result raw)" and "0 \<le> dl_attempt_count d"
  shows "find_delivery q (snd (run_checkout_delivery w token q now db)) = Some (finished_row
      (retry_args (we_env w) (dl_attempt_count d + 1) now (attempt_result raw) (failure_code (attempt_result raw)))
      (running_row token (now + lease_seconds (we_env w)) now d))"
    and "orders (snd (run_checkout_delivery w token q now db)) = orders db"
    and "queue_inv (snd (run_checkout_delivery w token q now db))"
proof -
  let ?r = "attempt_result raw"
  let ?d1 = "running_row token (now + lease_seconds (we_env w)) now d"
  let ?a = "retry_args (we_env w) (attempts_of ?d1) now ?r (failure_code ?r)"
  from attempt_runs [OF assms(1-6), of token] obtain db1 where db1: "find_delivery q db1 = Some ?d1" "queue_inv db1"
      "orders db1 = orders db"
    and run: "snd (run_checkout_delivery w token q now db) = settle_result w q token ?d1 ord ?r now db1" .
  have fin: "find_delivery q (snd (finish_delivery q token ?a db1)) = Some (finished_row ?a ?d1)"
    by (rule finish_won [OF db1(2,1)]) (simp_all add: running_row_def)
  have attempts: "attempts_of ?d1 = dl_attempt_count d + 1"
    using assms(8) by (simp add: attempts_of_def running_row_def)
  have "settle_result w q token ?d1 ord ?r now db1 \<in>
      {snd (finish_delivery q token ?a db1), request_protocol_compensation w q (snd (finish_delivery q token ?a db1))}"
    using assms(7) by (simp add: settle_result_def Let_def retryable_result_def)
  then have same: "deliveries (snd (run_checkout_delivery w token q now db)) = deliveries (snd (finish_delivery q token ?a db1))"
    "orders (snd (run_checkout_delivery w token q now db)) = orders db"
    unfolding run using db1(3) by (auto simp: request_frame)
  show "find_delivery q (snd (run_checkout_delivery w token q now db)) = Some (finished_row
      (retry_args (we_env w) (dl_attempt_count d + 1) now ?r (failure_code ?r)) ?d1)"
    using fin same(1) by (simp add: find_delivery_def attempts)
  show "orders (snd (run_checkout_delivery w token q now db)) = orders db" by (rule same(2))
  show "queue_inv (snd (run_checkout_delivery w token q now db))"
    unfolding same(1) by (rule finish_inv [OF db1(2)])
qed

lemma retry_backoff_bounds:
  assumes "0 \<le> n"
  shows "5 \<le> backoff (retry_base getenv) n" and "backoff (retry_base getenv) n \<le> 3600"
proof -
  have base: "5 \<le> retry_base getenv"
    using clamp_int_bounds [of 5 3600] by (simp add: retry_base_def bounded_env_def)
  have "5 * 1 \<le> retry_base getenv * 2 ^ nat n"
    using base by (intro mult_mono) simp_all
  then show "5 \<le> backoff (retry_base getenv) n" by (simp add: backoff_def)
  show "backoff (retry_base getenv) n \<le> 3600" by (simp add: backoff_def)
qed

text \<open>
  C30: an attempt whose result is neither authorized nor a decision of the foundation (an exception of
  the provider, an error, an unknown status) releases the lease and counts; at the configured limit
  the delivery is exhausted, before it is due again after the backoff, between five seconds and an
  hour later.
\<close>

theorem failed_attempt_rescheduled:
  assumes "queue_inv db" and "find_delivery q db = Some d" and "delivery_due now d"
    and "find_order (dl_order_id d) db = Some ord" and "open_order ord"
    and "we_executor w ord (dl_tx_signature d) = (\<lambda>db. (raw, db))"
    and "result_status (attempt_result raw) \<notin> {''foundation_review_required'', ''foundation_delivery_blocked''}"
    and "\<not> authorized_result (attempt_result raw)" and "0 \<le> dl_attempt_count d"
  shows "\<exists>d'. find_delivery q (snd (run_checkout_delivery w token q now db)) = Some d' \<and>
     dl_attempt_count d' = dl_attempt_count d + 1 \<and> dl_lease_token d' = None \<and>
     dl_last_error d' = Some (failure_code (attempt_result raw)) \<and>
     (if dl_attempt_count d' \<ge> max_attempts (we_env w) then dl_state d' = ''exhausted''
      else dl_state d' = ''retryable_failure'' \<and>
           dl_next_attempt_at d' = now + backoff (retry_base (we_env w)) (dl_attempt_count d) \<and>
           now + 5 \<le> dl_next_attempt_at d' \<and> dl_next_attempt_at d' \<le> now + 3600)"
proof -
  have retry: "retryable_result (attempt_result raw)" using assms(7,8) by (simp add: retryable_result_def)
  show ?thesis
    unfolding failed_run(1) [OF assms(1-6) retry assms(9)]
    using retry_backoff_bounds [OF assms(9), of "we_env w"]
    by (simp add: finished_row_def retry_args_def finish_with_def running_row_def)
qed

definition sample_worker :: "pyval option \<Rightarrow> worker_env" where
  "sample_worker raw =
     \<lparr> we_env = (\<lambda>_. None), we_executor = (\<lambda>_ _ db. (raw, db)), we_reputation = (\<lambda>_. Some True),
       we_alloc = \<lparr> ae_env = (\<lambda>_. None), ae_agents = (\<lambda>_. None), ae_valid_wallet = (\<lambda>_. True), ae_sha = (\<lambda>s. s),
         ae_float = Some, ae_uuid = uuid_of, ae_settlement_id = ''s1'', ae_now = 7 \<rparr>,
       we_mark_now = 7, we_mint = ''M'', we_cid = ''c'', we_request_now = 7, we_sha = (\<lambda>s. s),
       we_urlp = (\<lambda>s. \<lparr> up_scheme = [], up_hostname = None, up_username = None, up_password = None, up_fragment = [] \<rparr>),
       we_sign = (\<lambda>_. None), we_receipt_token = ''r'', we_clock = 7 \<rparr>"

lemma sample_order:
  "find_order ''o1'' sample_queue = Some [(''order_id'', PStr ''o1''), (''used'', PBool False), (''status'', PStr ''paid'')]"
  by (simp add: sample_queue_defs find_order_def)

lemmas text_eval = str_or_empty_def py_str_def py_lower_def py_lower_char_def py_strip_def py_lstrip_def py_space_def

theorem failed_attempt_rescheduled_witness:
  "\<exists>d'. find_delivery ''q1'' (snd (run_checkout_delivery (sample_worker None) ''t'' ''q1'' 5 sample_queue)) = Some d' \<and>
     dl_attempt_count d' = dl_attempt_count sample_delivery + 1 \<and> dl_lease_token d' = None \<and>
     dl_last_error d' = Some (failure_code (attempt_result None)) \<and>
     (if dl_attempt_count d' \<ge> max_attempts (we_env (sample_worker None)) then dl_state d' = ''exhausted''
      else dl_state d' = ''retryable_failure'' \<and>
           dl_next_attempt_at d' = 5 + backoff (retry_base (we_env (sample_worker None))) (dl_attempt_count sample_delivery) \<and>
           5 + 5 \<le> dl_next_attempt_at d' \<and> dl_next_attempt_at d' \<le> 5 + 3600)"
proof (rule failed_attempt_rescheduled)
  show "find_order (dl_order_id sample_delivery) sample_queue =
      Some [(''order_id'', PStr ''o1''), (''used'', PBool False), (''status'', PStr ''paid'')]"
    using sample_order by (simp add: sample_delivery_def new_delivery_def)
qed (simp_all add: sample_queue_defs unique_by_def delivery_due_def open_order_def sample_worker_def text_eval
      attempt_result_def result_status_def authorized_result_def authorized_delivery_statuses_def)

section \<open>A completed attempt\<close>

lemma publish_frame:
  "deliveries (snd (publish_delivery_payload sha urlp sign tok q k payload clock now snap db)) = deliveries db \<and>
   orders (snd (publish_delivery_payload sha urlp sign tok q k payload clock now snap db)) = orders db \<and>
   books (snd (publish_delivery_payload sha urlp sign tok q k payload clock now snap db)) = books db"
proof -
  let ?Q = "\<lambda>db'. deliveries db' = deliveries db \<and> orders db' = orders db \<and> books db' = books db"
  have conf: "ends ?Q (configure_delivery_receipt urlp tok q k ch dest now db db)" for ch dest
    unfolding configure_delivery_receipt_def by (intro ends_rules ends_pair) simp_all
  have seal: "?Q db1 \<Longrightarrow> ends ?Q (seal_receipt sha urlp sign q payload clock now r db1)" for r db1
    unfolding seal_receipt_def by (intro ends_rules ends_pair) simp_all
  have "ends ?Q (publish_delivery_payload sha urlp sign tok q k payload clock now snap db)"
    unfolding publish_delivery_payload_def
    by (intro ends_rules ends_pair seal) (auto dest: endsD [OF conf])
  then show ?thesis by (simp add: ends_def)
qed

definition final_result :: "worker_env \<Rightarrow> pydict \<Rightarrow> pydict \<Rightarrow> pdb \<Rightarrow> pydict" where
  "final_result w ord r b =
     dset (dset r ''reputation'' (PDict (reputation_dict (we_reputation w) (reputation_agent r ord)))) ''settlement''
       (PDict (case fst (allocate_checkout_settlement (we_alloc w) ord (PDict r) b) of
                 Inl _ \<Rightarrow> [(''status'', PStr ''allocation_error''), (''retryable'', PBool True)]
               | Inr a \<Rightarrow> a))"

lemma find_marked_order:
  assumes "find_order k db = Some ord" and "dget ord ''used'' = PBool False"
  shows "find_order k (mark_order k tx st r now db) = Some (marked_order tx st r now ord)"
proof -
  let ?P = "\<lambda>x. dget x ''order_id'' = PStr k \<and> dget x ''used'' = PBool False"
  have k: "dget ord ''order_id'' = PStr k" using assms(1) by (auto simp: find_order_def dest: row_by_SomeD)
  have "find_order k (mark_order k tx st r now db) =
      map_option (\<lambda>x. if ?P x then marked_order tx st r now x else x) (find_order k db)"
    unfolding find_order_def mark_order_def by (simp, rule row_by_update) (simp add: marked_order_def)
  then show ?thesis using assms k by simp
qed

text \<open>
  C29: an authorized result completes the delivery: the order is used, delivered and holds the result with
  the reputation and settlement reports, the delivery is completed with the same result and its lease
  released, the books are those the allocation left, and the delivery's settlement is completed
  exactly if the allocation did not fail, else due for the settlement sweep in thirty seconds.
\<close>

theorem authorized_attempt_completes:
  assumes "queue_inv db" and "find_delivery q db = Some d" and "delivery_due now d"
    and "find_order (dl_order_id d) db = Some ord" and "open_order ord" and "dget ord ''used'' = PBool False"
    and "we_executor w ord (dl_tx_signature d) = (\<lambda>db. (Some (PDict r), db))" and "authorized_result r"
  shows "let db' = snd (run_checkout_delivery w token q now db); final = final_result w ord r (books db);
             alloc = allocate_checkout_settlement (we_alloc w) ord (PDict r) (books db);
             ok = (\<exists>a. fst alloc = Inr a)
     in find_order (dl_order_id d) db' = Some (marked_order (dl_tx_signature d) ''completed'' final (we_mark_now w) ord) \<and>
        books db' = snd alloc \<and>
        (\<exists>d'. find_delivery q db' = Some d' \<and> dl_state d' = ''completed'' \<and> dl_result d' = Some (PDict final) \<and>
           dl_lease_token d' = None \<and> dl_completed_at d' = Some now \<and>
           dl_settlement_state d' = (if ok then ''completed'' else ''retryable_failure'') \<and>
           dl_settlement_next d' = (if ok then None else Some (now + 30)))"
proof -
  let ?d1 = "running_row token (now + lease_seconds (we_env w)) now d"
  from attempt_runs [OF assms(1-5,7), of token] obtain db1 where db1: "find_delivery q db1 = Some ?d1" "queue_inv db1"
      "orders db1 = orders db" "books db1 = books db"
    and run: "snd (run_checkout_delivery w token q now db) =
      settle_result w q token ?d1 ord (attempt_result (Some (PDict r))) now db1" .
  have ids: "dl_order_id ?d1 = dl_order_id d" "dl_tx_signature ?d1 = dl_tx_signature d" by (simp_all add: running_row_def)
  have ar: "attempt_result (Some (PDict r)) = r" by (simp add: attempt_result_def)
  have "result_status r \<noteq> ''foundation_review_required''" "result_status r \<noteq> ''foundation_delivery_blocked''"
    using assms(8) by (auto simp: authorized_result_def authorized_delivery_statuses_def)
  then have settle: "settle_result w q token ?d1 ord r now db1 = complete_delivery w q token ?d1 ord r now db1"
    using assms(8) by (simp add: settle_result_def Let_def)
  obtain alloc books1 where al: "allocate_checkout_settlement (we_alloc w) ord (PDict r) (books db) = (alloc, books1)"
    by (meson surj_pair)
  let ?ok = "case alloc of Inl _ \<Rightarrow> False | Inr _ \<Rightarrow> True"
  let ?final = "final_result w ord r (books db)"
  let ?db2 = "mark_order (dl_order_id d) (dl_tx_signature d) ''completed'' ?final (we_mark_now w) (db1 \<lparr> books := books1 \<rparr>)"
  let ?a = "(finish_with ''completed'' now ?final)
     \<lparr> fa_settlement_state := Some (if ?ok then ''completed'' else ''retryable_failure''),
       fa_settlement_next := (if ?ok then None else Some (now + 30)),
       fa_settlement_error := (if ?ok then None else Some ''settlement_allocation_error'') \<rparr>"
  let ?db3 = "snd (finish_delivery q token ?a ?db2)"
  let ?db4 = "snd (run_checkout_delivery w token q now db)"
  have frame: "deliveries ?db4 = deliveries ?db3 \<and> orders ?db4 = orders ?db3 \<and> books ?db4 = books ?db3"
    unfolding run ar settle complete_delivery_def Let_def
    using publish_frame by (simp add: db1(4) al ids final_result_def)
  have find2: "find_delivery q ?db2 = Some ?d1" using db1(1) by (simp add: find_delivery_def mark_order_def)
  have "find_delivery q ?db3 = Some (finished_row ?a ?d1)"
    by (rule finish_won [OF _ find2]) (use db1(2) in \<open>simp_all add: running_row_def\<close>)
  then have delivery: "find_delivery q ?db4 = Some (finished_row ?a ?d1)" using frame by (simp add: find_delivery_def)
  have "find_order (dl_order_id d) (db1 \<lparr> books := books1 \<rparr>) = Some ord"
    using assms(4) db1(3) by (simp add: find_order_def)
  from find_marked_order [OF this assms(6), of "dl_tx_signature d" "''completed''" ?final "we_mark_now w"]
  have order: "find_order (dl_order_id d) ?db4 =
      Some (marked_order (dl_tx_signature d) ''completed'' ?final (we_mark_now w) ord)"
    using frame by (simp add: find_order_def)
  have bk: "books ?db4 = books1" using frame by simp
  show ?thesis unfolding Let_def al fst_conv snd_conv
    using delivery order bk
    by (cases alloc) (simp_all add: finished_row_def finish_with_def terminal_states_def)
qed

theorem authorized_attempt_completes_witness:
  "let w = sample_worker (Some (PDict [(''status'', PStr ''success'')]));
       ord = [(''order_id'', PStr ''o1''), (''used'', PBool False), (''status'', PStr ''paid'')];
       db' = snd (run_checkout_delivery w ''t'' ''q1'' 5 sample_queue);
       final = final_result w ord [(''status'', PStr ''success'')] (books sample_queue);
       alloc = allocate_checkout_settlement (we_alloc w) ord (PDict [(''status'', PStr ''success'')]) (books sample_queue);
       ok = (\<exists>a. fst alloc = Inr a)
   in find_order (dl_order_id sample_delivery) db' =
        Some (marked_order (dl_tx_signature sample_delivery) ''completed'' final (we_mark_now w) ord) \<and>
      books db' = snd alloc \<and>
      (\<exists>d'. find_delivery ''q1'' db' = Some d' \<and> dl_state d' = ''completed'' \<and> dl_result d' = Some (PDict final) \<and>
         dl_lease_token d' = None \<and> dl_completed_at d' = Some 5 \<and>
         dl_settlement_state d' = (if ok then ''completed'' else ''retryable_failure'') \<and>
         dl_settlement_next d' = (if ok then None else Some (5 + 30)))"
proof -
  let ?w = "sample_worker (Some (PDict [(''status'', PStr ''success'')]))"
  let ?ord = "[(''order_id'', PStr ''o1''), (''used'', PBool False), (''status'', PStr ''paid'')]"
  have "find_order (dl_order_id sample_delivery) sample_queue = Some ?ord"
    using sample_order by (simp add: sample_delivery_def new_delivery_def)
  moreover have "queue_inv sample_queue" "find_delivery ''q1'' sample_queue = Some sample_delivery"
      "delivery_due 5 sample_delivery" "open_order ?ord" "dget ?ord ''used'' = PBool False"
      "we_executor ?w ?ord (dl_tx_signature sample_delivery) = (\<lambda>db. (Some (PDict [(''status'', PStr ''success'')]), db))"
      "authorized_result [(''status'', PStr ''success'')]"
    by (simp_all add: sample_queue_defs unique_by_def delivery_due_def open_order_def sample_worker_def text_eval
        result_status_def authorized_result_def authorized_delivery_statuses_def)
  ultimately show ?thesis unfolding Let_def
    by (intro authorized_attempt_completes [unfolded Let_def]) assumption+
qed

section \<open>A worker that is too late\<close>

text \<open>
  The lease protects the row of the delivery only. A worker whose lease was taken over (or whose delivery is
  finished, or blocked) and whose provider then answers with an authorized result still allocates the settlement
  and marks the order as delivered; the delivery keeps the state it has.
\<close>

theorem late_worker_settles:
  assumes "queue_inv db" and "lease_holder q db \<noteq> Some token"
    and "find_order (dl_order_id claimed) db = Some current" and "dget current ''used'' = PBool False" and "authorized_result r"
  shows "let db' = settle_result w q token claimed ord r now db
    in find_order (dl_order_id claimed) db' = Some (marked_order (dl_tx_signature claimed) ''completed''
         (final_result w ord r (books db)) (we_mark_now w) current) \<and>
       books db' = snd (allocate_checkout_settlement (we_alloc w) ord (PDict r) (books db)) \<and>
       deliveries db' = deliveries db"
proof -
  have "result_status r \<noteq> ''foundation_review_required''" "result_status r \<noteq> ''foundation_delivery_blocked''"
    using assms(5) by (auto simp: authorized_result_def authorized_delivery_statuses_def)
  then have settle: "settle_result w q token claimed ord r now db = complete_delivery w q token claimed ord r now db"
    using assms(5) by (simp add: settle_result_def Let_def)
  obtain alloc books1 where al: "allocate_checkout_settlement (we_alloc w) ord (PDict r) (books db) = (alloc, books1)"
    by (meson surj_pair)
  let ?db2 = "mark_order (dl_order_id claimed) (dl_tx_signature claimed) ''completed'' (final_result w ord r (books db))
     (we_mark_now w) (db \<lparr> books := books1 \<rparr>)"
  have "snd (finish_delivery q token a ?db2) = ?db2" for a
    by (rule finish_loses) (use assms(1,2) in \<open>simp_all add: lease_holder_def find_delivery_def\<close>)
  then have frame: "deliveries (settle_result w q token claimed ord r now db) = deliveries ?db2 \<and>
      orders (settle_result w q token claimed ord r now db) = orders ?db2 \<and>
      books (settle_result w q token claimed ord r now db) = books ?db2"
    unfolding settle complete_delivery_def Let_def using publish_frame by (simp add: al final_result_def)
  have "find_order (dl_order_id claimed) (db \<lparr> books := books1 \<rparr>) = Some current"
    using assms(3) by (simp add: find_order_def)
  from find_marked_order [OF this assms(4), of "dl_tx_signature claimed" "''completed''" "final_result w ord r (books db)" "we_mark_now w"]
  show ?thesis using frame by (simp add: Let_def al find_order_def)
qed

end
