(* ===== verification/CheckoutBooks.thy ===== *)
theory CheckoutBooks
  imports DeliveryOutcome
begin

text \<open>
  The checkout worker and the books: whatever the attempts and sweeps of the worker do, the settlement
  and ledger tables stay consistent; an order without a positive price is never allocated; a redrive
  does not look at a compensation.
\<close>

section \<open>The worker keeps the books\<close>

lemma allocate_books:
  assumes "books_wf b"
  shows "ends books_wf (allocate_checkout_settlement w order result b)"
  unfolding allocate_checkout_settlement_def
  by (intro ends_rules ends_pair assms) (auto dest: books_kept [OF assms])

lemma complete_books:
  assumes "books_wf (books db)"
  shows "books_wf (books (complete_delivery w q token d ord r now db))"
proof -
  have "books_wf (snd (allocate_checkout_settlement (we_alloc w) ord (PDict r) (books db)))"
    using allocate_books [OF assms] by (simp add: ends_def)
  then show ?thesis by (simp add: complete_delivery_def Let_def case_prod_beta publish_frame)
qed

lemma settle_books: "books_wf (books db) \<Longrightarrow> books_wf (books (settle_result w q token d ord r now db))"
  by (auto simp: settle_result_def Let_def request_frame complete_books)

lemma claim_books: "books (snd (claim_delivery getenv token q now db)) = books db"
  by (simp add: claim_delivery_def Let_def case_prod_beta)

lemma attempt_books:
  assumes "books_wf (books db)"
    and "\<And>ord tx d. books_wf (books d) \<Longrightarrow> books_wf (books (snd (we_executor w ord tx d)))"
  shows "books_wf (books (snd (run_checkout_delivery w token q now db)))"
proof -
  have claimed: "books_wf (books (snd (claim_delivery (we_env w) token q now db)))"
    using assms(1) by (simp add: claim_books)
  have "ends (\<lambda>d. books_wf (books d)) (run_checkout_delivery w token q now db)"
    unfolding run_checkout_delivery_def
    by (intro ends_rules ends_pair)
       (use claimed assms(2) settle_books in \<open>auto simp: claim_books Let_def dest: arg_cong [where f = snd]\<close>)
  then show ?thesis by (simp add: ends_def)
qed

lemma sweep_books: "books_wf (books db) \<Longrightarrow> books_wf (books (snd (sweep_settlement a now row db)))"
  using allocate_books [of "books db"]
  by (simp add: sweep_settlement_def Let_def case_prod_beta ends_def)

lemma sweep_each_books: "books_wf (books db) \<Longrightarrow> books_wf (books (snd (sweep_each a now i rows counts db)))"
proof (induction a now i rows counts db rule: sweep_each.induct)
  case (2 a now i row rows completed failed db)
  then show ?case using sweep_books [of db "a i" now row] by (simp add: case_prod_beta)
qed simp

lemma deliver_each_books:
  assumes "\<And>i ord tx d. books_wf (books d) \<Longrightarrow> books_wf (books (snd (we_executor (fst (world i)) ord tx d)))"
  shows "books_wf (books db) \<Longrightarrow> books_wf (books (snd (deliver_each world i qs states db)))"
proof (induction qs arbitrary: i states db)
  case (Cons q qs)
  have "books_wf (books (snd (run_checkout_delivery (fst (world i)) (fst (snd (world i))) q (snd (snd (world i))) db)))"
    using attempt_books [OF Cons.prems] assms by blast
  then show ?case by (simp add: case_prod_beta Cons.IH)
qed simp

text \<open>
  C18: the checkout worker keeps the books: as long as the executor does, a delivery sweep and a settlement
  sweep over any number of deliveries leave unique settlements, a balanced ledger and one matching
  allocation per settlement.
\<close>

theorem worker_keeps_books:
  assumes "books_wf (books db)"
    and "\<And>i ord tx d. books_wf (books d) \<Longrightarrow> books_wf (books (snd (we_executor (fst (world i)) ord tx d)))"
  shows "books_wf (books (snd (run_delivery_sweep world now limit db))) \<and>
    books_wf (books (snd (run_settlement_sweep a now limit (snd (run_delivery_sweep world now limit db)))))"
proof -
  have delivered: "books_wf (books (snd (run_delivery_sweep world now limit db)))"
    using deliver_each_books [of world db] assms by (simp add: run_delivery_sweep_def Let_def case_prod_beta)
  then show ?thesis using sweep_each_books by (simp add: run_settlement_sweep_def Let_def case_prod_beta)
qed

theorem worker_keeps_books_witness:
  "books_wf (books (snd (run_delivery_sweep (\<lambda>_. (sample_worker None, ''t'', 5)) 5 20 sample_queue))) \<and>
   books_wf (books (snd (run_settlement_sweep (\<lambda>_. we_alloc (sample_worker None)) 5 20
     (snd (run_delivery_sweep (\<lambda>_. (sample_worker None, ''t'', 5)) 5 20 sample_queue)))))"
  by (rule worker_keeps_books)
     (simp_all add: sample_worker_def sample_queue_defs books_wf_def settlements_wf_def ledger_wf_def ledger_clean_def empty_pdb_def)

section \<open>Orders without a price\<close>

lemma zero_text: "dcoef d = 0 \<Longrightarrow> iat_to_minor (PStr (dec_str d)) \<in> {Inr 0, Inl (DecimalSignal InvalidOperation)}"
proof -
  assume z: "dcoef d = 0"
  have "\<not> dec_lt d dec_zero" using z by (simp add: dec_nonneg_iff)
  then show ?thesis using z
    by (auto simp: iat_to_minor_def py_str_def dec_text_parses dec_mul_def dec_fix_def dec_quantize_def dec_limits
        dec_to_int_def max_iat_minor_def)
qed

text \<open>
  An order whose price is zero (or negative, or unreadable, which count as zero) is never
  allocated: the status \<open>no_payment_due\<close> that the code computes for it cannot be recorded, because the
  ledger refuses an allocation without a positive gross amount; the allocation fails and changes
  nothing, and the settlement sweep retries it for ever.
\<close>

theorem zero_price_never_allocated:
  assumes "books_wf b" and "get_settlement_by_order_id_db b (py_strip (str_or_empty (dget ord ''order_id''))) = None"
    and "py_strip (str_or_empty (dget ord ''order_id'')) \<noteq> []"
    and "amount_of (dget ord ''price'') = Inr (DFin d)" and "dcoef d = 0"
  shows "\<exists>e. allocate_checkout_settlement w ord (PDict r) b = (Inl e, b)"
proof -
  let ?oid = "py_strip (str_or_empty (dget ord ''order_id''))"
  have ne: "dec_str d \<noteq> []" using dec_text_parses [of d] by (auto simp: dec_of_string_def py_strip_def py_lstrip_def
    take_sign_def parse_special_def py_lower_def py_startswith_def Let_def)
  have no_post: "post_settlement_allocation_conn sha uuid now sid oid seller (PStr (dec_str d)) cv pv b1 \<noteq> (Inr po, b2)"
    for sha uuid now sid oid seller cv pv b1 po b2
  proof
    assume "post_settlement_allocation_conn sha uuid now sid oid seller (PStr (dec_str d)) cv pv b1 = (Inr po, b2)"
    then show False by (cases rule: post_cases) (use zero_text [OF assms(5)] in auto)
  qed
  have fails: "\<exists>e. record_settlement_db sha fl uuid sid now ?oid
      (PDict (allocation_settlement getenv ?oid win wal d rate com pay st ds)) b = (Inl e, b)"
    for sha fl uuid sid now getenv win wal rate com pay st ds
  proof -
    let ?set = "allocation_settlement getenv ?oid win wal d rate com pay st ds"
    have gross: "dget ?set ''gross_amount_iat'' = PStr (dec_str d)" by (simp add: allocation_settlement_def)
    have "outcome (\<lambda>m. \<exists>e. m = (Inl e, b)) (record_settlement_db sha fl uuid sid now ?oid (PDict ?set) b)"
      unfolding record_settlement_db_def
      by (intro outcome_rules outcomeI)
         (use assms(2,3) ne gross no_post in \<open>auto simp: is_dict_def as_dict_def py_or_def\<close>)
    then show ?thesis by (simp add: outcome_def)
  qed
  have gross: "g = d" if "priced_split getenv (dget ord ''price'') = Inr (g, rate, com, pay)" for getenv g rate com pay
    using that assms(4) by (auto simp: priced_split_def split: sum.splits prod.splits)
  have "outcome (\<lambda>m. \<exists>e. m = (Inl e, b)) (allocate_checkout_settlement w ord (PDict r) b)"
    unfolding allocate_checkout_settlement_def
  proof (intro outcome_rules outcomeI)
    fix oid found best winner agent wallet x g y rate z com pay status set res db' rr
    assume p: "priced_split (ae_env w) (dget ord ''price'') = Inr x" "x = (g, y)" "y = (rate, z)" "z = (com, pay)"
      and rec: "record_settlement_db (ae_sha w) (ae_float w) (ae_uuid w) (ae_settlement_id w) (ae_now w) oid (PDict set) b = (res, db')"
      and res: "res = Inr rr" and oid: "oid = ?oid"
      and set: "set = allocation_settlement (ae_env w) oid winner wallet g rate com pay status (dget (as_dict (PDict r)) ''status'')"
    have "g = d" using gross p by blast
    with fails rec res oid set
    show "\<exists>e. (Inr (case record_dict rr of None \<Rightarrow> [(''status'', PStr ''blocked''),
        (''reason'', PStr ''settlement_record_not_created''), (''order_id'', PStr oid)] | Some d \<Rightarrow> d), db') = (Inl e, b)"
      by (metis Pair_inject sum.distinct(1))
  next
    fix oid found best winner agent wallet x g y rate z com pay status set res db' e
    assume p: "priced_split (ae_env w) (dget ord ''price'') = Inr x" "x = (g, y)" "y = (rate, z)" "z = (com, pay)"
      and rec: "record_settlement_db (ae_sha w) (ae_float w) (ae_uuid w) (ae_settlement_id w) (ae_now w) oid (PDict set) b = (res, db')"
      and res: "res = Inl e" and oid: "oid = ?oid"
      and set: "set = allocation_settlement (ae_env w) oid winner wallet g rate com pay status (dget (as_dict (PDict r)) ''status'')"
    have "g = d" using gross p by blast
    with fails rec oid set show "\<exists>f. (Inl (RecordFailed e), db') = (Inl f, b)" by (metis Pair_inject)
  qed (use assms(2,3) in \<open>auto simp: is_dict_def\<close>)
  then show ?thesis by (simp add: outcome_def)
qed

theorem zero_price_never_allocated_witness:
  "\<exists>e. allocate_checkout_settlement (we_alloc (sample_worker None))
     [(''order_id'', PStr ''o1''), (''price'', PStr ''0'')] (PDict [(''status'', PStr ''success'')]) empty_pdb = (Inl e, empty_pdb)"
proof (rule zero_price_never_allocated)
  show "amount_of (dget [(''order_id'', PStr ''o1''), (''price'', PStr ''0'')] ''price'') = Inr (DFin (Dec False 0 0))"
    by (simp add: amount_of_def dec_eval)
qed (simp_all add: books_wf_def settlements_wf_def ledger_wf_def ledger_clean_def empty_pdb_def text_eval
      get_settlement_by_order_id_db_def sql_order_limit_def)

section \<open>Redrive and compensation\<close>

text \<open>
  A redrive of an exhausted delivery does not look at the compensation of the quote: a delivery
  whose refund is already approved is reopened with a fresh attempt budget and due at once, so that
  the buyer can be both paid back and served.
\<close>

theorem redrive_ignores_compensation:
  assumes "queue_inv db" and "find_delivery q db = Some d" and "dl_state d = ''exhausted''"
    and "8 \<le> length (collapse_spaces reason)" and "length (collapse_spaces reason) \<le> 500"
    and "get_compensation q db = Some c" and "cp_state c = ''approved''"
  shows "\<exists>res db' d'. redrive_exhausted_delivery q reason actor now db db = (Inr res, db') \<and>
     find_delivery q db' = Some d' \<and> delivery_due now d' \<and> dl_attempt_count d' = 0 \<and> get_compensation q db' = Some c"
proof -
  let ?P = "\<lambda>d. dl_quote_id d = q \<and> dl_state d = ''exhausted''"
  have q: "dl_quote_id d = q" using assms(2) by (auto simp: find_delivery_def dest: row_by_SomeD)
  have n: "length (filter ?P (deliveries db)) = 1" using one_due [OF assms(1), of ?P q] assms(2,3) q by simp
  obtain res db' where run: "redrive_exhausted_delivery q reason actor now db db = (Inr res, db')"
    and upd: "deliveries db' = fst (sql_update ?P (redriven_row now) (deliveries db))"
    and same: "compensations db' = compensations db"
    using assms(2-5) n
    by (simp add: redrive_exhausted_delivery_def reopen_delivery_def Let_def case_prod_beta snd_sql_update)
  have "find_delivery q db' = Some (redriven_row now d)"
    using find_updated [OF upd, of q] assms(2,3) q by simp
  then show ?thesis using run same assms(6)
    by (auto simp: delivery_due_def redriven_row_def get_compensation_def)
qed

definition refunded_queue :: checkout_db where
  "refunded_queue = sample_queue \<lparr> deliveries := [sample_delivery \<lparr> dl_state := ''exhausted'' \<rparr>],
     compensations := [sample_denied \<lparr> cp_state := ''approved'' \<rparr>] \<rparr>"

theorem redrive_ignores_compensation_witness:
  "\<exists>res db' d'. redrive_exhausted_delivery ''q1'' ''retry please'' ''a'' 9 refunded_queue refunded_queue = (Inr res, db') \<and>
     find_delivery ''q1'' db' = Some d' \<and> delivery_due 9 d' \<and> dl_attempt_count d' = 0 \<and>
     get_compensation ''q1'' db' = Some (sample_denied \<lparr> cp_state := ''approved'' \<rparr>)"
  by (rule redrive_ignores_compensation [where d = "sample_delivery \<lparr> dl_state := ''exhausted'' \<rparr>"])
     (simp_all add: refunded_queue_def sample_queue_defs unique_by_def get_compensation_def sample_denied_def
        collapse_spaces_def py_space_def)

end
