(* ===== verification/DeliveryRefinement.thy ===== *)
theory DeliveryRefinement
  imports DeliveryOutcome
begin

text \<open>
  The delivery queue against an abstract specification, a state machine over the phases of a delivery,
  and the end of the retries: a delivery whose attempts keep failing is exhausted.
\<close>

section \<open>The specification\<close>

text \<open>
  A delivery waits for a time, is attempted under a token until a time, or is closed with a state. Every
  phase counts the attempts.
\<close>

datatype queue_phase =
    Waiting int int
  | Attempt int "string option" "int option"
  | Closed string int

fun phase_attempts :: "queue_phase \<Rightarrow> int" where
  "phase_attempts (Waiting n t) = n"
| "phase_attempts (Attempt n token until) = n"
| "phase_attempts (Closed state n) = n"

fun claimable_phase :: "int \<Rightarrow> queue_phase \<Rightarrow> bool" where
  "claimable_phase now (Waiting n t) = (t \<le> now)"
| "claimable_phase now (Attempt n token until) = (case until of None \<Rightarrow> False | Some t \<Rightarrow> t < now)"
| "claimable_phase now (Closed state n) = False"

fun attempted_by :: "string \<Rightarrow> queue_phase \<Rightarrow> bool" where
  "attempted_by token (Attempt n holder until) = (holder = Some token)"
| "attempted_by token p = False"

definition phase_of_state :: "string \<Rightarrow> int \<Rightarrow> int \<Rightarrow> string option \<Rightarrow> int option \<Rightarrow> queue_phase" where
  "phase_of_state state n t token until =
     (if state = ''running'' then Attempt n token until
      else if state \<in> {''pending'', ''retryable_failure''} then Waiting n t else Closed state n)"

text \<open>The phase that a finished attempt asks for.\<close>

definition finish_phase :: "finish_args \<Rightarrow> int \<Rightarrow> queue_phase" where
  "finish_phase a n = phase_of_state (fa_state a) n (case fa_next a of None \<Rightarrow> fa_now a | Some t \<Rightarrow> t) None None"

type_synonym queue_spec = "string \<rightharpoonup> queue_phase"

inductive spec_step :: "delivery_op \<Rightarrow> queue_spec \<Rightarrow> queue_spec \<Rightarrow> bool" where
  enqueue_new: "m q = None \<Longrightarrow> spec_step (EnqueueDelivery pg q k tx now) m (m(q \<mapsto> Waiting 0 now))"
| enqueue_kept: "spec_step (EnqueueDelivery pg q k tx now) m m"
| claim_granted: "m q = Some p \<Longrightarrow> claimable_phase now p \<Longrightarrow>
    spec_step (ClaimDelivery getenv token q now) m
      (m(q \<mapsto> Attempt (phase_attempts p + 1) (Some token) (Some (now + lease_seconds getenv))))"
| claim_refused: "(\<And>p. m q = Some p \<Longrightarrow> \<not> claimable_phase now p) \<Longrightarrow> spec_step (ClaimDelivery getenv token q now) m m"
| finish_granted: "m q = Some p \<Longrightarrow> attempted_by token p \<Longrightarrow>
    spec_step (FinishDelivery q token a) m (m(q \<mapsto> finish_phase a (phase_attempts p)))"
| finish_refused: "(\<And>p. m q = Some p \<Longrightarrow> \<not> attempted_by token p) \<Longrightarrow> spec_step (FinishDelivery q token a) m m"
| redriven: "m q = Some (Closed ''exhausted'' n) \<Longrightarrow>
    spec_step (RedriveDelivery q reason actor now snap) m (m(q \<mapsto> Waiting 0 now))"
| redrive_refused: "spec_step (RedriveDelivery q reason actor now snap) m m"
| resumed: "m q = Some (Closed ''review_required'' n) \<Longrightarrow> spec_step (ResumeDelivery q actor now snap) m (m(q \<mapsto> Waiting n now))"
| resume_refused: "spec_step (ResumeDelivery q actor now snap) m m"
| accelerated: "m q = Some (Waiting n t) \<Longrightarrow> spec_step (AccelerateDelivery getenv q actor now snap) m (m(q \<mapsto> Waiting n now))"
| accelerate_refused: "spec_step (AccelerateDelivery getenv q actor now snap) m m"
| settlement_swept: "spec_step (SweepSettlement w now row) m m"

inductive spec_run :: "delivery_op list \<Rightarrow> queue_spec \<Rightarrow> queue_spec \<Rightarrow> bool" where
  run_nil: "spec_run [] m m"
| run_cons: "spec_step x m m1 \<Longrightarrow> spec_run xs m1 m2 \<Longrightarrow> spec_run (x # xs) m m2"

section \<open>The simulation\<close>

definition phase_of :: "delivery \<Rightarrow> queue_phase" where
  "phase_of d = phase_of_state (dl_state d) (dl_attempt_count d) (dl_next_attempt_at d) (dl_lease_token d) (dl_lease_until d)"

definition abs_queue :: "checkout_db \<Rightarrow> queue_spec" where
  "abs_queue db q = map_option phase_of (find_delivery q db)"

lemma claimable_phase_of [simp]: "claimable_phase now (phase_of d) = delivery_due now d"
  by (auto simp: phase_of_def phase_of_state_def delivery_due_def)

lemma attempted_by_phase_of [simp]: "attempted_by token (phase_of d) \<longleftrightarrow> dl_state d = ''running'' \<and> dl_lease_token d = Some token"
  by (simp add: phase_of_def phase_of_state_def)

lemma attempts_phase_of [simp]: "phase_attempts (phase_of d) = dl_attempt_count d"
  by (simp add: phase_of_def phase_of_state_def)

lemma phase_of_rows [simp]:
  "phase_of (running_row token until now d) = Attempt (dl_attempt_count d + 1) (Some token) (Some until)"
  "phase_of (finished_row a d) = finish_phase a (dl_attempt_count d)"
  "phase_of (redriven_row now d) = Waiting 0 now"
  "phase_of (resumed_row now d) = Waiting (dl_attempt_count d) now"
  "phase_of (swept_row st k nx er now d) = phase_of d"
  "phase_of (d \<lparr> dl_result := r \<rparr>) = phase_of d"
  "phase_of (new_delivery q oid tx now) = Waiting 0 now"
  by (simp_all add: phase_of_def phase_of_state_def finish_phase_def running_row_def finished_row_def redriven_row_def
      resumed_row_def swept_row_def new_delivery_def)

lemma abs_updated:
  assumes "deliveries db' = fst (sql_update P f (deliveries db))"
    and "\<And>d. P d \<Longrightarrow> same_identity d (f d)" and "\<And>d. P d \<Longrightarrow> dl_quote_id d = q"
  shows "abs_queue db' = (case find_delivery q db of
      None \<Rightarrow> abs_queue db
    | Some d \<Rightarrow> if P d then (abs_queue db)(q \<mapsto> phase_of (f d)) else abs_queue db)"
proof
  fix k
  have find: "find_delivery k db' = map_option (\<lambda>d. if P d then f d else d) (find_delivery k db)"
    by (rule find_updated [OF assms(1,2)])
  have key: "find_delivery k db = Some d \<Longrightarrow> dl_quote_id d = k" for d
    by (auto simp: find_delivery_def dest: row_by_SomeD)
  show "abs_queue db' k = (case find_delivery q db of
      None \<Rightarrow> abs_queue db
    | Some d \<Rightarrow> if P d then (abs_queue db)(q \<mapsto> phase_of (f d)) else abs_queue db) k"
  proof (cases "k = q")
    case True
    then show ?thesis using find by (cases "find_delivery q db") (simp_all add: abs_queue_def)
  next
    case False
    then have "\<not> P d" if "find_delivery k db = Some d" for d using key assms(3) that by blast
    then have "abs_queue db' k = abs_queue db k"
      by (cases "find_delivery k db") (simp_all add: abs_queue_def find)
    then show ?thesis using False by (simp split: option.split)
  qed
qed

lemma phase_kept:
  assumes "\<And>d. same_identity d (f d)" and "\<And>d. phase_of (f d) = phase_of d"
  shows "map_option phase_of (row_by dl_quote_id k (fst (sql_update P f t))) = map_option phase_of (row_by dl_quote_id k t)"
proof -
  have "row_by dl_quote_id k (fst (sql_update P f t)) = map_option (\<lambda>d. if P d then f d else d) (row_by dl_quote_id k t)"
    by (rule row_by_update) (use assms(1) in \<open>simp add: same_identity_def\<close>)
  then show ?thesis using assms(2) by (cases "row_by dl_quote_id k t") simp_all
qed

lemma reopen_cases:
  assumes inv: "queue_inv db"
    and P: "\<And>d. P d \<Longrightarrow> same_identity d (f d)" "\<And>d. P d \<Longrightarrow> dl_quote_id d = q"
  shows "abs_queue (snd (reopen_delivery e P f ev r db)) = abs_queue db \<or>
    (\<exists>d. find_delivery q db = Some d \<and> P d \<and>
       abs_queue (snd (reopen_delivery e P f ev r db)) = (abs_queue db)(q \<mapsto> phase_of (f d)))"
proof (cases "snd (sql_update P f (deliveries db)) = 1")
  case True
  then have "deliveries (snd (reopen_delivery e P f ev r db)) = fst (sql_update P f (deliveries db))"
    by (simp add: reopen_delivery_def case_prod_beta)
  from abs_updated [OF this P] show ?thesis by (auto split: option.splits)
qed (simp add: reopen_delivery_def case_prod_beta)

lemma step_refines:
  assumes inv: "queue_inv db"
  shows "spec_step x (abs_queue db) (abs_queue (run_delivery_op x db))"
proof (cases x)
  case (EnqueueDelivery pg q k tx now)
  have "run_delivery_op x db = db \<or> (find_delivery q db = None \<and>
      deliveries (run_delivery_op x db) = deliveries db @ [new_delivery q k tx now])"
    by (auto simp: EnqueueDelivery enqueue_delivery_tx_def sql_insert_Some find_delivery_def row_by_None_iff
        delivery_clash_def new_delivery_def split: option.splits)
  then show ?thesis
  proof (elim disjE conjE)
    assume new: "find_delivery q db = None" "deliveries (run_delivery_op x db) = deliveries db @ [new_delivery q k tx now]"
    then have "abs_queue (run_delivery_op x db) = (abs_queue db)(q \<mapsto> Waiting 0 now)"
      by (intro ext) (auto simp: abs_queue_def find_delivery_def row_by_append row_by_Cons split: option.split,
          simp_all add: new_delivery_def)
    moreover have "abs_queue db q = None" using new(1) by (simp add: abs_queue_def)
    ultimately show ?thesis by (simp add: EnqueueDelivery spec_step.enqueue_new)
  qed (simp add: EnqueueDelivery spec_step.enqueue_kept)
next
  case (ClaimDelivery getenv token q now)
  let ?P = "\<lambda>d. dl_quote_id d = q \<and> delivery_due now d"
  let ?f = "running_row token (now + lease_seconds getenv) now"
  have run: "run_delivery_op x db = snd (lease_claim q token (getenv, now) db)"
    by (simp add: ClaimDelivery lease_claim_def case_prod_beta)
  note claim = delivery_claim_cases [OF inv, of q token "(getenv, now)", folded run]
  show ?thesis
  proof (cases "\<exists>d. find_delivery q db = Some d \<and> delivery_due now d")
    case True
    then obtain d where d: "find_delivery q db = Some d" "delivery_due now d" by blast
    then have q: "dl_quote_id d = q" by (auto simp: find_delivery_def dest: row_by_SomeD)
    have "deliveries (run_delivery_op x db) = fst (sql_update ?P ?f (deliveries db))" using claim True by simp
    from abs_updated [OF this, of q] have
      "abs_queue (run_delivery_op x db) = (abs_queue db)(q \<mapsto> phase_of (?f d))" using d q by simp
    moreover have "abs_queue db q = Some (phase_of d)" using d by (simp add: abs_queue_def)
    ultimately show ?thesis using spec_step.claim_granted [of "abs_queue db" q "phase_of d" now getenv token] d(2)
      by (simp add: ClaimDelivery)
  next
    case False
    then have "\<not> fst (lease_claim q token (getenv, now) db)" using claim by simp
    then have "deliveries (run_delivery_op x db) = deliveries db" by (simp only: claim [THEN conjunct2] if_False)
    then have "abs_queue (run_delivery_op x db) = abs_queue db" by (intro ext) (simp add: abs_queue_def find_delivery_def)
    moreover have "\<not> claimable_phase now p" if "abs_queue db q = Some p" for p
      using that False by (auto simp: abs_queue_def)
    ultimately show ?thesis by (simp add: ClaimDelivery spec_step.claim_refused)
  qed
next
  case (FinishDelivery q token a)
  let ?P = "\<lambda>d. dl_quote_id d = q \<and> dl_state d = ''running'' \<and> dl_lease_token d = Some token"
  have upd: "deliveries (run_delivery_op x db) = fst (sql_update ?P (finished_row a) (deliveries db))"
    using finish_cases [OF inv] by (simp add: FinishDelivery)
  have q: "find_delivery q db = Some d \<Longrightarrow> dl_quote_id d = q" for d
    by (auto simp: find_delivery_def dest: row_by_SomeD)
  show ?thesis
  proof (cases "\<exists>d. find_delivery q db = Some d \<and> attempted_by token (phase_of d)")
    case True
    then obtain d where d: "find_delivery q db = Some d" "attempted_by token (phase_of d)" by blast
    from abs_updated [OF upd, of q] have
      "abs_queue (run_delivery_op x db) = (abs_queue db)(q \<mapsto> phase_of (finished_row a d))" using d q by simp
    moreover have "abs_queue db q = Some (phase_of d)" using d by (simp add: abs_queue_def)
    ultimately show ?thesis using spec_step.finish_granted [of "abs_queue db" q "phase_of d" token a] d(2)
      by (simp add: FinishDelivery)
  next
    case False
    from abs_updated [OF upd, of q] have "abs_queue (run_delivery_op x db) = abs_queue db"
      using False by (auto split: option.splits)
    moreover have "\<not> attempted_by token p" if "abs_queue db q = Some p" for p
      using that False by (auto simp: abs_queue_def)
    ultimately show ?thesis by (simp add: FinishDelivery spec_step.finish_refused)
  qed
next
  case (RedriveDelivery q reason actor now snap)
  have "abs_queue (run_delivery_op x db) = abs_queue db \<or>
    (\<exists>d. find_delivery q db = Some d \<and> dl_state d = ''exhausted'' \<and>
       abs_queue (run_delivery_op x db) = (abs_queue db)(q \<mapsto> Waiting 0 now))"
    using reopen_cases [OF inv, of "\<lambda>d. dl_quote_id d = q \<and> dl_state d = ''exhausted''" "redriven_row now" q]
    by (simp add: RedriveDelivery redrive_exhausted_delivery_def Let_def split: option.split) blast
  moreover have "abs_queue db q = Some (Closed ''exhausted'' (dl_attempt_count d))"
    if "find_delivery q db = Some d" "dl_state d = ''exhausted''" for d
    using that by (simp add: abs_queue_def phase_of_def phase_of_state_def)
  ultimately show ?thesis unfolding RedriveDelivery by (auto intro: spec_step.redriven simp: spec_step.redrive_refused)
next
  case (ResumeDelivery q actor now snap)
  have "abs_queue (run_delivery_op x db) = abs_queue db \<or>
    (\<exists>d. find_delivery q db = Some d \<and> dl_state d = ''review_required'' \<and>
       abs_queue (run_delivery_op x db) = (abs_queue db)(q \<mapsto> Waiting (dl_attempt_count d) now))"
    using reopen_cases [OF inv, of "\<lambda>d. dl_quote_id d = q \<and> dl_state d = ''review_required''" "resumed_row now" q]
    by (simp add: ResumeDelivery resume_review_required_delivery_def split: option.split) blast
  moreover have "abs_queue db q = Some (Closed ''review_required'' (dl_attempt_count d))"
    if "find_delivery q db = Some d" "dl_state d = ''review_required''" for d
    using that by (simp add: abs_queue_def phase_of_def phase_of_state_def)
  ultimately show ?thesis unfolding ResumeDelivery by (auto intro: spec_step.resumed simp: spec_step.resume_refused)
next
  case (AccelerateDelivery getenv q actor now snap)
  let ?f = "\<lambda>d. d \<lparr> dl_next_attempt_at := now, dl_updated_at := now \<rparr>"
  have "abs_queue (run_delivery_op x db) = abs_queue db \<or>
    (\<exists>d. find_delivery q db = Some d \<and> dl_state d = ''retryable_failure'' \<and>
       abs_queue (run_delivery_op x db) = (abs_queue db)(q \<mapsto> phase_of (?f d)))"
    using reopen_cases [OF inv, of "\<lambda>d. dl_quote_id d = q \<and> dl_state d = ''retryable_failure'' \<and>
      dl_last_error d = Some evidence_not_ready" ?f q]
    by (simp add: AccelerateDelivery accelerate_foundation_retry_def split: option.split) blast
  moreover have "abs_queue db q = Some (Waiting (dl_attempt_count d) (dl_next_attempt_at d)) \<and>
      phase_of (?f d) = Waiting (dl_attempt_count d) now"
    if "find_delivery q db = Some d" "dl_state d = ''retryable_failure''" for d
    using that by (simp add: abs_queue_def phase_of_def phase_of_state_def)
  ultimately show ?thesis unfolding AccelerateDelivery
    by (auto intro: spec_step.accelerated simp: spec_step.accelerate_refused)
next
  case (SweepSettlement w now row)
  have "abs_queue (run_delivery_op x db) = abs_queue db"
    by (intro ext) (simp add: SweepSettlement sweep_settlement_def Let_def case_prod_beta abs_queue_def find_delivery_def
      phase_kept split: pyval.split)
  then show ?thesis by (simp add: SweepSettlement spec_step.settlement_swept)
qed

lemma change_inv: "rows_change t u \<Longrightarrow> unique_by dl_quote_id t \<Longrightarrow> unique_by dl_quote_id u"
proof (induction rule: rows_change.induct)
  case (updated P f t u)
  then show ?case using update_identity(1) [of P f u] by simp
qed (auto simp: unique_by_snoc row_by_None_iff list_all_iff delivery_clash_def)

lemma step_inv: "queue_inv db \<Longrightarrow> queue_inv (run_delivery_op x db)"
  by (rule change_inv [OF op_change])

lemma run_refines: "queue_inv db \<Longrightarrow> spec_run xs (abs_queue db) (abs_queue (fold run_delivery_op xs db))"
  by (induction xs arbitrary: db) (auto intro: spec_run.intros step_refines step_inv)

text \<open>
  C12: the delivery queue refines its specification: every run of enqueueings, claims, finishes, redrives,
  resumptions, accelerations and settlement sweeps, on reads of any age, is a run of the state machine
  over phases, in which a claim is granted exactly on a phase that can be claimed and counts one
  attempt, a finish exactly to the token that holds the attempt, and a closed delivery only reopens
  from \<open>exhausted\<close> and \<open>review_required\<close>; the answers of a claim and of a finish are those of the machine.
\<close>

theorem delivery_queue_refines:
  assumes "queue_inv db"
  shows "spec_run xs (abs_queue db) (abs_queue (fold run_delivery_op xs db)) \<and>
    (fst (lease_claim q token (getenv, now) db) \<longleftrightarrow> (\<exists>p. abs_queue db q = Some p \<and> claimable_phase now p)) \<and>
    (fst (finish_delivery q token a db) \<longleftrightarrow> (\<exists>p. abs_queue db q = Some p \<and> attempted_by token p))"
  using run_refines [OF assms] delivery_claim_cases [OF assms, of q token "(getenv, now)"] finish_cases [OF assms, of q token a]
  by (auto simp: abs_queue_def lease_holder_def split: option.splits if_splits)

theorem delivery_queue_refines_witness:
  "spec_run [ClaimDelivery (\<lambda>_. None) ''t'' ''q1'' 5, FinishDelivery ''q1'' ''t'' (finish_with ''completed'' 6 [])]
     (abs_queue sample_queue) (abs_queue (fold run_delivery_op
       [ClaimDelivery (\<lambda>_. None) ''t'' ''q1'' 5, FinishDelivery ''q1'' ''t'' (finish_with ''completed'' 6 [])] sample_queue)) \<and>
   (fst (lease_claim ''q1'' ''t'' (\<lambda>_. None, 5) sample_queue) \<longleftrightarrow>
     (\<exists>p. abs_queue sample_queue ''q1'' = Some p \<and> claimable_phase 5 p)) \<and>
   (fst (finish_delivery ''q1'' ''t'' (finish_with ''completed'' 6 []) sample_queue) \<longleftrightarrow>
     (\<exists>p. abs_queue sample_queue ''q1'' = Some p \<and> attempted_by ''t'' p))"
  by (rule delivery_queue_refines) (simp add: sample_queue_defs unique_by_def)

section \<open>Retries end\<close>

record attempt_run =
  ar_worker :: worker_env
  ar_token :: string
  ar_now :: int

definition attempt_all :: "string \<Rightarrow> attempt_run list \<Rightarrow> checkout_db \<Rightarrow> checkout_db" where
  "attempt_all q = fold (\<lambda>r db. snd (run_checkout_delivery (ar_worker r) (ar_token r) q (ar_now r) db))"

definition failing_run :: "env \<Rightarrow> pydict \<Rightarrow> string \<Rightarrow> attempt_run \<Rightarrow> bool" where
  "failing_run getenv ord tx r =
     (we_env (ar_worker r) = getenv \<and>
      (\<exists>raw. we_executor (ar_worker r) ord tx = (\<lambda>db. (raw, db)) \<and> retryable_result (attempt_result raw)))"

lemma not_due_run:
  assumes "queue_inv db" and "find_delivery q db = Some d" and "\<not> delivery_due now d"
  shows "snd (run_checkout_delivery w token q now db) = db"
proof -
  have "length (filter (\<lambda>d. dl_quote_id d = q \<and> delivery_due now d) (deliveries db)) = 0"
    using one_due [OF assms(1), of "\<lambda>d. dl_quote_id d = q \<and> delivery_due now d" q] assms(2,3) by simp
  then show ?thesis using assms(2)
    by (simp add: run_checkout_delivery_def claim_delivery_def Let_def case_prod_beta snd_sql_update)
qed

lemma exhausted_stays:
  assumes "queue_inv db" and "find_delivery q db = Some d" and "dl_state d = ''exhausted''"
  shows "attempt_all q runs db = db"
proof -
  have "snd (run_checkout_delivery w token q now db) = db" for w token now
    by (rule not_due_run [OF assms(1,2)]) (simp add: delivery_due_def assms(3))
  then show ?thesis by (induction runs) (simp_all add: attempt_all_def)
qed

lemma failing_runs:
  assumes "queue_inv db" and "find_delivery q db = Some d" and "find_order (dl_order_id d) db = Some ord" and "open_order ord"
    and "0 \<le> dl_attempt_count d" and "list_all (failing_run getenv ord (dl_tx_signature d)) runs"
    and "sorted_wrt (\<lambda>r s. ar_now r + 3600 \<le> ar_now s) runs" and "list_all (\<lambda>r. delivery_due (ar_now r) d) runs"
    and "runs \<noteq> []" and "max_attempts getenv - dl_attempt_count d \<le> int (length runs)"
  shows "\<exists>d'. find_delivery q (attempt_all q runs db) = Some d' \<and> dl_state d' = ''exhausted'' \<and>
    dl_attempt_count d' = max (dl_attempt_count d + 1) (max_attempts getenv)"
  using assms
proof (induction runs arbitrary: db d)
  case (Cons r runs)
  let ?db = "snd (run_checkout_delivery (ar_worker r) (ar_token r) q (ar_now r) db)"
  from Cons.prems(6) obtain raw where env: "we_env (ar_worker r) = getenv"
    and raw: "we_executor (ar_worker r) ord (dl_tx_signature d) = (\<lambda>db. (raw, db))" "retryable_result (attempt_result raw)"
    by (auto simp: failing_run_def)
  have due: "delivery_due (ar_now r) d" using Cons.prems(8) by simp
  let ?d = "finished_row (retry_args getenv (dl_attempt_count d + 1) (ar_now r) (attempt_result raw)
      (failure_code (attempt_result raw))) (running_row (ar_token r) (ar_now r + lease_seconds getenv) (ar_now r) d)"
  have after: "find_delivery q ?db = Some ?d" "orders ?db = orders db" "queue_inv ?db"
    using failed_run [OF Cons.prems(1,2) due Cons.prems(3,4) raw Cons.prems(5), of "ar_token r"] env by simp_all
  have d: "dl_attempt_count ?d = dl_attempt_count d + 1" "dl_order_id ?d = dl_order_id d" "dl_tx_signature ?d = dl_tx_signature d"
    by (simp_all add: finished_row_def running_row_def)
  show ?case
  proof (cases "max_attempts getenv \<le> dl_attempt_count d + 1")
    case True
    then have "dl_state ?d = ''exhausted''" by (simp add: finished_row_def retry_args_def finish_with_def)
    moreover from exhausted_stays [OF after(3,1) this] have "attempt_all q (r # runs) db = ?db"
      by (simp add: attempt_all_def)
    ultimately show ?thesis using after(1) d(1) True by simp
  next
    case False
    then have waits: "dl_state ?d = ''retryable_failure''"
      "dl_next_attempt_at ?d = ar_now r + backoff (retry_base getenv) (dl_attempt_count d)"
      by (simp_all add: finished_row_def retry_args_def finish_with_def)
    have "delivery_due (ar_now s) ?d" if "s \<in> set runs" for s
    proof -
      have "ar_now r + 3600 \<le> ar_now s" using Cons.prems(7) that by simp
      then show ?thesis using waits retry_backoff_bounds(2) [OF Cons.prems(5), of getenv] by (simp add: delivery_due_def)
    qed
    then have dues: "list_all (\<lambda>s. delivery_due (ar_now s) ?d) runs" by (simp add: list_all_iff)
    have len: "max_attempts getenv - dl_attempt_count ?d \<le> int (length runs)" "runs \<noteq> []"
      using Cons.prems(10) False d(1) by auto
    have order: "find_order (dl_order_id ?d) ?db = Some ord" using Cons.prems(3) after(2) d(2) by (simp add: find_order_def)
    have "\<exists>d'. find_delivery q (attempt_all q runs ?db) = Some d' \<and> dl_state d' = ''exhausted'' \<and>
        dl_attempt_count d' = max (dl_attempt_count ?d + 1) (max_attempts getenv)"
      by (rule Cons.IH [OF after(3,1) order Cons.prems(4)]) (use Cons.prems(5,6,7) d dues len in simp_all)
    moreover have "max (dl_attempt_count ?d + 1) (max_attempts getenv) = max (dl_attempt_count d + 1) (max_attempts getenv)"
      using False d(1) by simp
    ultimately show ?thesis by (simp add: attempt_all_def)
  qed
qed simp

text \<open>
  C13: retries end: a due delivery whose attempts all fail for some reason that can be retried is exhausted
  by the configured number of attempts, if the worker runs at least as many times as are left, an hour or
  more apart; the attempts made are exactly those left, and an exhausted delivery is not attempted
  again however often the worker runs.
\<close>

theorem failing_delivery_exhausts:
  assumes "queue_inv db" and "find_delivery q db = Some d" and "find_order (dl_order_id d) db = Some ord" and "open_order ord"
    and "0 \<le> dl_attempt_count d" and "list_all (failing_run getenv ord (dl_tx_signature d)) runs"
    and "sorted_wrt (\<lambda>r s. ar_now r + 3600 \<le> ar_now s) runs" and "list_all (\<lambda>r. delivery_due (ar_now r) d) runs"
    and "runs \<noteq> []" and "max_attempts getenv - dl_attempt_count d \<le> int (length runs)"
  shows "\<exists>d'. find_delivery q (attempt_all q runs db) = Some d' \<and> dl_state d' = ''exhausted'' \<and>
    dl_attempt_count d' = max (dl_attempt_count d + 1) (max_attempts getenv)"
  by (rule failing_runs [OF assms])

definition hourly_runs :: "nat \<Rightarrow> attempt_run list" where
  "hourly_runs n = map (\<lambda>i. \<lparr> ar_worker = sample_worker None, ar_token = ''t'', ar_now = 5 + 3600 * int i \<rparr>) [0..<n]"

theorem failing_delivery_exhausts_witness:
  "\<exists>d'. find_delivery ''q1'' (attempt_all ''q1'' (hourly_runs 16) sample_queue) = Some d' \<and> dl_state d' = ''exhausted'' \<and>
    dl_attempt_count d' = max (dl_attempt_count sample_delivery + 1) (max_attempts (\<lambda>_. None))"
proof (rule failing_delivery_exhausts)
  show "find_order (dl_order_id sample_delivery) sample_queue =
      Some [(''order_id'', PStr ''o1''), (''used'', PBool False), (''status'', PStr ''paid'')]"
    using sample_order by (simp add: sample_delivery_def new_delivery_def)
  show "max_attempts (\<lambda>_. None) - dl_attempt_count sample_delivery \<le> int (length (hourly_runs 16))"
    by (simp add: hourly_runs_def max_attempts_def bounded_env_def clamp_int_def env_int_def sample_delivery_def new_delivery_def)
  show "sorted_wrt (\<lambda>r s. ar_now r + 3600 \<le> ar_now s) (hourly_runs 16)"
    unfolding hourly_runs_def sorted_wrt_map by (rule sorted_wrt_mono_rel [OF _ sorted_wrt_upt]) auto
  have "failing_run (\<lambda>_. None) ord tx \<lparr> ar_worker = sample_worker None, ar_token = t, ar_now = n \<rparr>" for ord tx t n
    unfolding failing_run_def
    by (rule conjI, simp add: sample_worker_def, rule exI [of _ None])
      (simp add: sample_worker_def retryable_result_def attempt_result_def result_status_def authorized_result_def
        authorized_delivery_statuses_def text_eval)
  then show "list_all (failing_run (\<lambda>_. None) [(''order_id'', PStr ''o1''), (''used'', PBool False), (''status'', PStr ''paid'')]
      (dl_tx_signature sample_delivery)) (hourly_runs 16)"
    by (simp add: hourly_runs_def list_all_iff)
  show "list_all (\<lambda>r. delivery_due (ar_now r) sample_delivery) (hourly_runs 16)"
    by (simp add: hourly_runs_def list_all_iff sample_delivery_def new_delivery_def delivery_due_def)
  show "hourly_runs 16 \<noteq> []" by (simp add: hourly_runs_def)
  show "open_order [(''order_id'', PStr ''o1''), (''used'', PBool False), (''status'', PStr ''paid'')]"
    by (simp add: open_order_def text_eval)
qed (simp_all add: sample_queue_defs unique_by_def)

end
