(* ===== verification/DependencyResolver.thy ===== *)
theory DependencyResolver
  imports Prelude
begin

text \<open>
  The dependency resolver of the action engine (\<open>iat/action_engine/dependency_resolver.py\<close>): the
  dependencies of an action context, its readiness given the completed, failed and known actions, and
  the search for dependency cycles. \<open>None\<close> is the \<open>AttributeError\<close> of an \<open>orchestration\<close> that is no dict.
  The recursive \<open>visit\<close> of the search terminates on every graph (Python's recursion limit apart), and it
  reports cycles exactly when there are some.
\<close>

section \<open>Dependencies of a context\<close>

fun normalize_loop :: "pyval list \<Rightarrow> string list \<Rightarrow> string list" where
  "normalize_loop [] normalized = normalized"
| "normalize_loop (v # vs) normalized =
     (let item = py_strip (str_or_empty v)
      in if item = [] \<or> item \<in> set normalized then normalize_loop vs normalized
         else normalize_loop vs (normalized @ [item]))"

definition normalize_ids :: "pyval \<Rightarrow> string list" where
  "normalize_ids values =
     (case values of
        PStr s \<Rightarrow> normalize_loop [PStr s] []
      | PList xs \<Rightarrow> normalize_loop xs []
      | _ \<Rightarrow> [])"

definition get_action_dependencies :: "pydict \<Rightarrow> string list option" where
  "get_action_dependencies ctx =
     (let found = dget ctx ''orchestration''
      in if truthy found \<and> \<not> is_dict found then None
         else Some (normalize_ids (case map_of (as_dict found) ''depends_on'' of
                                     Some v \<Rightarrow> v
                                   | None \<Rightarrow> dget ctx ''depends_on'')))"

definition context_action_id :: "pydict \<Rightarrow> string" where
  "context_action_id ctx = py_strip (str_or_empty (dget ctx ''action_id''))"

section \<open>Readiness\<close>

record resolution =
  rs_status :: string
  rs_reason :: string
  rs_action_id :: string
  rs_dependencies :: "string list"
  rs_ready :: bool
  rs_blocked :: bool
  rs_failed :: bool
  rs_completed :: "string list"
  rs_pending :: "string list"
  rs_failed_dependencies :: "string list"
  rs_missing :: "string list"

definition resolve_action_dependencies ::
  "pydict \<Rightarrow> pyval \<Rightarrow> pyval \<Rightarrow> pyval \<Rightarrow> resolution option" where
  "resolve_action_dependencies ctx completed_action_ids failed_action_ids known_action_ids =
     (let action_id = context_action_id ctx in
      case get_action_dependencies ctx of
        None \<Rightarrow> None
      | Some dependencies \<Rightarrow>
          let completed = set (normalize_ids completed_action_ids);
              failed = set (normalize_ids failed_action_ids);
              known = (case known_action_ids of PNone \<Rightarrow> None | v \<Rightarrow> Some (set (normalize_ids v)))
          in if action_id \<noteq> [] \<and> action_id \<in> set dependencies
             then Some \<lparr> rs_status = ''dependency_invalid'', rs_reason = ''action_cannot_depend_on_itself'',
                         rs_action_id = action_id, rs_dependencies = dependencies, rs_ready = False,
                         rs_blocked = True, rs_failed = True, rs_completed = [], rs_pending = [],
                         rs_failed_dependencies = [], rs_missing = [] \<rparr>
             else
               let completed_dependencies = filter (\<lambda>d. d \<in> completed) dependencies;
                   failed_dependencies = filter (\<lambda>d. d \<in> failed) dependencies;
                   missing_dependencies =
                     (case known of None \<Rightarrow> []
                      | Some k \<Rightarrow> filter (\<lambda>d. d \<notin> k \<and> d \<notin> completed \<and> d \<notin> failed) dependencies);
                   pending_dependencies =
                     filter (\<lambda>d. d \<notin> completed \<and> d \<notin> failed \<and> d \<notin> set missing_dependencies) dependencies;
                   (status, reason, ready, failure) =
                     (if failed_dependencies \<noteq> []
                      then (''dependency_failed'', ''one_or_more_dependencies_failed'', False, True)
                      else if missing_dependencies \<noteq> []
                      then (''dependency_missing'', ''one_or_more_dependencies_unknown'', False, False)
                      else if pending_dependencies \<noteq> []
                      then (''dependency_pending'', ''dependencies_not_completed'', False, False)
                      else (''dependency_ready'',
                            if dependencies \<noteq> [] then ''all_dependencies_completed'' else ''action_has_no_dependencies'',
                            True, False))
               in Some \<lparr> rs_status = status, rs_reason = reason, rs_action_id = action_id,
                         rs_dependencies = dependencies, rs_ready = ready, rs_blocked = (\<not> ready),
                         rs_failed = failure, rs_completed = completed_dependencies,
                         rs_pending = pending_dependencies, rs_failed_dependencies = failed_dependencies,
                         rs_missing = missing_dependencies \<rparr>)"

section \<open>Cycle detection\<close>

type_synonym dependency_graph = "(string \<times> string list) list"

text \<open>\<open>cycle_signatures\<close> is the set of the recorded cycles, and is left out of the state.\<close>

record search =
  visiting :: "string list"
  visited :: "string list"
  stack :: "string list"
  cycles :: "string list list"

definition record_cycle :: "string \<Rightarrow> search \<Rightarrow> search" where
  "record_cycle node s =
     (let cycle = (if node \<in> set (stack s) then dropWhile (\<lambda>x. x \<noteq> node) (stack s) @ [node] else [node, node])
      in if cycle \<in> set (cycles s) then s else s \<lparr> cycles := cycles s @ [cycle] \<rparr>)"

definition open_node :: "string \<Rightarrow> search \<Rightarrow> search" where
  "open_node node s = s \<lparr> visiting := node # visiting s, stack := stack s @ [node] \<rparr>"

definition close_node :: "string \<Rightarrow> search \<Rightarrow> search" where
  "close_node node s =
     s \<lparr> stack := butlast (stack s), visiting := remove1 node (visiting s), visited := node # visited s \<rparr>"

definition graph_dependencies :: "dependency_graph \<Rightarrow> string \<Rightarrow> string list" where
  "graph_dependencies g node =
     filter (\<lambda>d. d \<in> set (map fst g)) (case map_of g node of None \<Rightarrow> [] | Some deps \<Rightarrow> deps)"

text \<open>\<open>visit\<close> on each node of a list, in order.\<close>

function visit_all :: "dependency_graph \<Rightarrow> string list \<Rightarrow> search \<Rightarrow> search" where
  "visit_all g [] s = s"
| "visit_all g (node # nodes) s =
     (if node \<in> set (visited s) then visit_all g nodes s
      else if node \<in> set (visiting s) then visit_all g nodes (record_cycle node s)
      else visit_all g nodes (close_node node (visit_all g (graph_dependencies g node) (open_node node s))))"
  by pat_completeness auto

fun build_graph :: "pyval list \<Rightarrow> dependency_graph \<Rightarrow> dependency_graph option" where
  "build_graph [] g = Some g"
| "build_graph (PDict ctx # cs) g =
     (if context_action_id ctx = [] then build_graph cs g
      else (case get_action_dependencies ctx of
              None \<Rightarrow> None
            | Some deps \<Rightarrow> build_graph cs (AList.update (context_action_id ctx) deps g)))"
| "build_graph (_ # cs) g = build_graph cs g"

lemma record_cycle_simps [simp]:
  "visiting (record_cycle n s) = visiting s" "visited (record_cycle n s) = visited s"
  "stack (record_cycle n s) = stack s"
  by (simp_all add: record_cycle_def Let_def)

lemma node_simps [simp]:
  "visiting (open_node n s) = n # visiting s" "visited (open_node n s) = visited s"
  "stack (open_node n s) = stack s @ [n]" "cycles (open_node n s) = cycles s"
  "visiting (close_node n s) = remove1 n (visiting s)" "visited (close_node n s) = n # visited s"
  "stack (close_node n s) = butlast (stack s)" "cycles (close_node n s) = cycles s"
  by (simp_all add: open_node_def close_node_def)

text \<open>A call gives the open nodes back as it found them, and only adds visited ones.\<close>

lemma visit_dom_frame:
  "visit_all_dom (g, nodes, s) \<Longrightarrow> visiting (visit_all g nodes s) = visiting s \<and>
     stack (visit_all g nodes s) = stack s \<and> set (visited s) \<subseteq> set (visited (visit_all g nodes s))"
proof (induction g nodes s rule: visit_all.pinduct)
  case (2 g n ns s)
  show ?case
  proof (cases "n \<in> set (visited s) \<or> n \<in> set (visiting s)")
    case True
    then show ?thesis using 2 by (auto simp: visit_all.psimps)
  next
    case False
    then have "visit_all g (n # ns) s =
        visit_all g ns (close_node n (visit_all g (graph_dependencies g n) (open_node n s)))"
      using 2(1) by (simp add: visit_all.psimps)
    then show ?thesis using 2(4,5) False by auto
  qed
qed (simp add: visit_all.psimps)

termination visit_all
proof (relation "inv_image (finite_psubset <*lex*> less_than)
    (\<lambda>(g, nodes, s). (set (map fst g) - set (visited s) - set (visiting s), length nodes))")
  show "wf (inv_image (finite_psubset <*lex*> less_than)
    (\<lambda>(g :: dependency_graph, nodes :: string list, s). (set (map fst g) - set (visited s) - set (visiting s), length nodes)))"
    by (intro wf_inv_image wf_lex_prod wf_finite_psubset wf_less_than)
next
  fix g n ns and s :: search
  assume new: "n \<notin> set (visited s)" "n \<notin> set (visiting s)"
  show "((g, graph_dependencies g n, open_node n s), (g, n # ns, s)) \<in>
    inv_image (finite_psubset <*lex*> less_than)
      (\<lambda>(g, nodes, s). (set (map fst g) - set (visited s) - set (visiting s), length nodes))"
  proof (cases "n \<in> set (map fst g)")
    case True
    then show ?thesis using new by (auto simp: finite_psubset_def)
  next
    case False
    then have "graph_dependencies g n = []" by (simp add: graph_dependencies_def map_of_eq_None_iff [THEN iffD2])
    moreover have "set (map fst g) - set (visited s) - insert n (set (visiting s)) =
        set (map fst g) - set (visited s) - set (visiting s)"
      using False by blast
    ultimately show ?thesis by simp
  qed
  assume "visit_all_dom (g, graph_dependencies g n, open_node n s)"
  from visit_dom_frame [OF this] new
  show "((g, ns, close_node n (visit_all g (graph_dependencies g n) (open_node n s))), (g, n # ns, s)) \<in>
    inv_image (finite_psubset <*lex*> less_than)
      (\<lambda>(g, nodes, s). (set (map fst g) - set (visited s) - set (visiting s), length nodes))"
    by (auto simp: finite_psubset_def)
qed simp_all

definition empty_search :: search where
  "empty_search = \<lparr> visiting = [], visited = [], stack = [], cycles = [] \<rparr>"

record cycle_report =
  cy_status :: string
  cy_reason :: string
  cy_action_count :: nat
  cy_cycles :: "string list list"
  cy_valid :: bool

definition detect_dependency_cycles :: "pyval list \<Rightarrow> cycle_report option" where
  "detect_dependency_cycles action_contexts =
     (case build_graph action_contexts [] of
        None \<Rightarrow> None
      | Some graph \<Rightarrow>
          let found = cycles (visit_all graph (map fst graph) empty_search)
          in Some \<lparr> cy_status = (if found \<noteq> [] then ''dependency_cycles_detected'' else ''dependency_graph_valid''),
                    cy_reason = (if found \<noteq> [] then ''dependency_graph_contains_cycles'' else ''dependency_graph_is_acyclic''),
                    cy_action_count = length graph, cy_cycles = found, cy_valid = (found = []) \<rparr>)"

section \<open>The search is right\<close>

text \<open>The relation that the graph stands for, restricted to the known actions.\<close>

definition depends :: "dependency_graph \<Rightarrow> (string \<times> string) set" where
  "depends g = {(a, b). b \<in> set (graph_dependencies g a)}"

definition closed_walk :: "dependency_graph \<Rightarrow> string list \<Rightarrow> bool" where
  "closed_walk g c = (2 \<le> length c \<and> hd c = last c \<and> successively (\<lambda>a b. (a, b) \<in> depends g) c)"

lemma visit_keeps: "visiting (visit_all g nodes s) = visiting s \<and> stack (visit_all g nodes s) = stack s \<and>
    set (visited s) \<subseteq> set (visited (visit_all g nodes s))"
proof (induction g nodes s rule: visit_all.induct)
  case (2 g n ns s)
  then show ?case by (cases "n \<in> set (visited s)"; cases "n \<in> set (visiting s)") auto
qed simp

lemma visit_frame [simp]:
  "visiting (visit_all g nodes s) = visiting s" "stack (visit_all g nodes s) = stack s"
  using visit_keeps by blast+

lemma visit_grows: "set (visited s) \<subseteq> set (visited (visit_all g nodes s))"
  using visit_keeps by blast

text \<open>Every recorded cycle is a closed walk along dependencies.\<close>

lemma recorded_cycle:
  assumes "successively (\<lambda>a b. (a, b) \<in> depends g) (stack s @ [n])" and "n \<in> set (stack s)"
    and "\<forall>c \<in> set (cycles s). closed_walk g c"
  shows "\<forall>c \<in> set (cycles (record_cycle n s)). closed_walk g c"
proof -
  let ?d = "dropWhile (\<lambda>x. x \<noteq> n) (stack s)"
  have ne: "?d \<noteq> []" using assms(2) by (simp add: dropWhile_eq_Nil_conv)
  then have hd: "hd ?d = n" using hd_dropWhile by blast
  have "stack s @ [n] = takeWhile (\<lambda>x. x \<noteq> n) (stack s) @ ?d @ [n]" by simp
  then have "successively (\<lambda>a b. (a, b) \<in> depends g) (?d @ [n])"
    using assms(1) by (metis successively_append_iff)
  then have "closed_walk g (?d @ [n])" using ne hd by (cases ?d) (simp_all add: closed_walk_def)
  then show ?thesis using assms(2,3) by (auto simp: record_cycle_def Let_def)
qed

definition on_walk :: "dependency_graph \<Rightarrow> search \<Rightarrow> bool" where
  "on_walk g s = (set (visiting s) = set (stack s) \<and> successively (\<lambda>a b. (a, b) \<in> depends g) (stack s))"

lemma visit_sound:
  assumes "on_walk g s" and "\<forall>n \<in> set nodes. stack s = [] \<or> (last (stack s), n) \<in> depends g"
    and "\<forall>c \<in> set (cycles s). closed_walk g c"
  shows "\<forall>c \<in> set (cycles (visit_all g nodes s)). closed_walk g c"
  using assms
proof (induction g nodes s rule: visit_all.induct)
  case (2 g n ns s)
  have walk: "successively (\<lambda>a b. (a, b) \<in> depends g) (stack s @ [n])"
    using 2(5,6) by (auto simp: on_walk_def successively_append_iff)
  consider "n \<in> set (visited s)" | "n \<notin> set (visited s)" "n \<in> set (visiting s)"
    | "n \<notin> set (visited s)" "n \<notin> set (visiting s)" by blast
  then show ?case
  proof cases
    case 2
    then have "\<forall>c \<in> set (cycles (record_cycle n s)). closed_walk g c"
      using recorded_cycle [OF walk] "2.prems" by (simp add: on_walk_def)
    then show ?thesis using 2 "2.IH"(2) "2.prems" by (simp add: on_walk_def)
  next
    case 3
    let ?s = "visit_all g (graph_dependencies g n) (open_node n s)"
    have "\<forall>c \<in> set (cycles ?s). closed_walk g c"
      by (rule "2.IH"(3)) (use 3 "2.prems" walk in \<open>auto simp: on_walk_def depends_def\<close>)
    then show ?thesis using 3 "2.IH"(4) "2.prems" by (simp add: on_walk_def)
  qed (use "2.IH"(1) "2.prems" in simp)
qed simp

text \<open>Without a recorded cycle, the visited nodes are in topological order.\<close>

primrec topological :: "dependency_graph \<Rightarrow> string list \<Rightarrow> bool" where
  "topological g [] = True"
| "topological g (v # vs) = (set (graph_dependencies g v) \<subseteq> set vs \<and> topological g vs)"

lemma cycles_stay: "cycles (visit_all g nodes s) = [] \<Longrightarrow> cycles s = []"
proof (induction g nodes s rule: visit_all.induct)
  case (2 g n ns s)
  then show ?case by (auto simp: record_cycle_def Let_def split: if_splits)
qed simp

lemma visit_complete:
  assumes "cycles (visit_all g nodes s) = []" and "topological g (visited s)"
  shows "topological g (visited (visit_all g nodes s)) \<and> set nodes \<subseteq> set (visited (visit_all g nodes s))"
  using assms
proof (induction g nodes s rule: visit_all.induct)
  case (2 g n ns s)
  consider "n \<in> set (visited s)" | "n \<notin> set (visited s)" "n \<in> set (visiting s)"
    | "n \<notin> set (visited s)" "n \<notin> set (visiting s)" by blast
  then show ?case
  proof cases
    case 1
    then show ?thesis using "2.IH"(1) "2.prems" visit_grows [of s g ns] by auto
  next
    case 2
    then have "cycles (record_cycle n s) = []" using "2.prems"(1) cycles_stay by simp
    then show ?thesis by (auto simp: record_cycle_def Let_def split: if_splits)
  next
    case 3
    let ?s = "visit_all g (graph_dependencies g n) (open_node n s)"
    have rest: "cycles (visit_all g ns (close_node n ?s)) = []" using 3 "2.prems"(1) by simp
    then have "cycles ?s = []" using cycles_stay by fastforce
    then have "topological g (visited ?s) \<and> set (graph_dependencies g n) \<subseteq> set (visited ?s)"
      using "2.IH"(3) 3 "2.prems"(2) by simp
    then show ?thesis using "2.IH"(4) 3 rest visit_grows [of "close_node n ?s" g ns] by auto
  qed
qed simp

lemma topological_closed: "topological g vs \<Longrightarrow> a \<in> set vs \<Longrightarrow> (a, b) \<in> (depends g)\<^sup>+ \<Longrightarrow> b \<in> set vs"
proof -
  assume top: "topological g vs" and a: "a \<in> set vs" and path: "(a, b) \<in> (depends g)\<^sup>+"
  have step: "c \<in> set vs" if "topological g vs" "b \<in> set vs" "(b, c) \<in> depends g" for vs b c
    using that by (induction vs) (auto simp: depends_def)
  from path show "b \<in> set vs" by (induction rule: trancl_induct) (use top a step in blast)+
qed

lemma topological_acyclic: "topological g vs \<Longrightarrow> v \<in> set vs \<Longrightarrow> (v, v) \<notin> (depends g)\<^sup>+"
proof (induction vs)
  case (Cons w vs)
  show ?case
  proof
    assume cyc: "(v, v) \<in> (depends g)\<^sup>+"
    have "v \<notin> set vs" using Cons cyc by auto
    then have v: "v = w" using Cons.prems(2) by simp
    obtain x where x: "(w, x) \<in> depends g" "x = v \<or> (x, v) \<in> (depends g)\<^sup>+"
      using cyc v by (metis converse_tranclE)
    then have "x \<in> set vs" using Cons.prems(1) by (auto simp: depends_def)
    then have "v \<in> set vs" using x(2) topological_closed [of g vs x v] Cons.prems(1) by auto
    then show False using \<open>v \<notin> set vs\<close> by contradiction
  qed
qed simp

lemma closed_walk_cyclic: "closed_walk g c \<Longrightarrow> \<not> acyclic (depends g)"
proof -
  assume c: "closed_walk g c"
  have walk: "(hd xs, last xs) \<in> (depends g)\<^sup>+"
    if "successively (\<lambda>a b. (a, b) \<in> depends g) xs" "2 \<le> length xs" for xs
    using that
  proof (induction xs rule: induct_list012)
    case (3 x y zs)
    then show ?case by (cases zs) (auto intro: trancl_into_trancl2)
  qed simp_all
  have "(hd c, hd c) \<in> (depends g)\<^sup>+" using walk [of c] c by (simp add: closed_walk_def)
  then show ?thesis by (auto simp: acyclic_def)
qed

lemma depends_key: "(a, b) \<in> depends g \<Longrightarrow> a \<in> set (map fst g) \<and> b \<in> set (map fst g)"
  by (cases "map_of g a") (auto simp: depends_def graph_dependencies_def dest: map_of_SomeD intro: rev_image_eqI)

lemma search_acyclic:
  "cycles (visit_all g (map fst g) empty_search) = [] \<longleftrightarrow> acyclic (depends g)"
proof
  assume none: "cycles (visit_all g (map fst g) empty_search) = []"
  have top: "topological g (visited (visit_all g (map fst g) empty_search))"
    "set (map fst g) \<subseteq> set (visited (visit_all g (map fst g) empty_search))"
    using visit_complete [OF none] by (simp_all add: empty_search_def)
  have "v \<in> set (map fst g)" if "(v, w) \<in> (depends g)\<^sup>+" for v w
    using that by (rule converse_tranclE) (auto dest: depends_key)
  then show "acyclic (depends g)" using top topological_acyclic by (auto simp: acyclic_def) blast
next
  assume "acyclic (depends g)"
  moreover have "\<forall>c \<in> set (cycles (visit_all g (map fst g) empty_search)). closed_walk g c"
    by (rule visit_sound) (simp_all add: on_walk_def empty_search_def)
  ultimately show "cycles (visit_all g (map fst g) empty_search) = []"
    using closed_walk_cyclic by (cases "cycles (visit_all g (map fst g) empty_search)") auto
qed

text \<open>
  C17: dependency validation is right: for contexts whose dependencies can be read, the search ends and
  reports the graph valid exactly if no action depends on itself through known actions; every cycle it
  reports is a closed walk along dependencies.
\<close>

theorem cycle_detection_decides:
  assumes "build_graph cs [] = Some g"
  shows "\<exists>r. detect_dependency_cycles cs = Some r \<and> (cy_valid r \<longleftrightarrow> acyclic (depends g)) \<and>
    (cy_valid r \<longleftrightarrow> cy_cycles r = []) \<and> list_all (closed_walk g) (cy_cycles r)"
proof -
  have "\<forall>c \<in> set (cycles (visit_all g (map fst g) empty_search)). closed_walk g c"
    by (rule visit_sound) (simp_all add: on_walk_def empty_search_def)
  then show ?thesis using assms search_acyclic [of g]
    by (simp add: detect_dependency_cycles_def Let_def list_all_iff)
qed

definition sample_contexts :: "pyval list" where
  "sample_contexts =
     [PDict [(''action_id'', PStr ''a''), (''depends_on'', PList [PStr ''b''])],
      PDict [(''action_id'', PStr ''b''), (''orchestration'', PDict [(''depends_on'', PList [PStr ''c''])])],
      PDict [(''action_id'', PStr ''c''), (''depends_on'', PStr ''x'')]]"

lemmas sample_graph_defs = sample_contexts_def context_action_id_def get_action_dependencies_def
  normalize_ids_def str_or_empty_def py_str_def py_strip_def py_lstrip_def py_space_def is_dict_def as_dict_def

theorem cycle_detection_decides_witness:
  "\<exists>r. detect_dependency_cycles (sample_contexts @ [PDict [(''action_id'', PStr ''x''), (''depends_on'', PStr ''a'')]]) = Some r \<and>
     (cy_valid r \<longleftrightarrow> acyclic (depends [(''a'', [''b'']), (''b'', [''c'']), (''c'', [''x'']), (''x'', [''a''])])) \<and>
     (cy_valid r \<longleftrightarrow> cy_cycles r = []) \<and>
     list_all (closed_walk [(''a'', [''b'']), (''b'', [''c'']), (''c'', [''x'']), (''x'', [''a''])]) (cy_cycles r)"
  by (rule cycle_detection_decides) (simp add: sample_graph_defs)

section \<open>Progress\<close>

lemma build_graph_context:
  "build_graph cs g0 = Some g \<Longrightarrow> map_of g a = Some deps \<Longrightarrow> map_of g0 a = Some deps \<or>
     (\<exists>ctx. PDict ctx \<in> set cs \<and> context_action_id ctx = a \<and> get_action_dependencies ctx = Some deps)"
proof (induction cs g0 rule: build_graph.induct)
  case (2 ctx cs g0)
  then show ?case by (auto simp: update_conv' split: if_splits option.splits)
qed auto

lemma resolves_ready:
  assumes "get_action_dependencies ctx = Some deps" and "set deps \<subseteq> set (normalize_ids completed)"
    and "context_action_id ctx \<notin> set deps" and "normalize_ids failed = []"
  shows "\<exists>r. resolve_action_dependencies ctx completed failed known = Some r \<and> rs_ready r"
proof -
  have none: "filter (\<lambda>d. d \<notin> set (normalize_ids completed)) deps = []"
    "filter (\<lambda>d. Q d \<and> d \<notin> set (normalize_ids completed)) deps = []" for Q
    using assms(2) by (auto simp: filter_empty_conv)
  show ?thesis using assms(1,3,4)
    by (cases known) (simp_all add: resolve_action_dependencies_def Let_def none)
qed

text \<open>
  C25: what a valid plan waits for: if validation accepts the actions and nothing failed, then behind every action that
  is not completed there is one that is not completed either (itself, or one that it depends on, through any number
  of actions of the plan) and that resolves as ready or depends on an identifier that is neither an action of the plan nor
  completed. So a plan whose dependencies are all actions of the plan or completed never gets stuck; validation does not
  ask for that, and an accepted plan with an unknown dependency can wait for ever.
\<close>

theorem valid_plan_progresses:
  assumes "build_graph cs [] = Some g" and "detect_dependency_cycles cs = Some report" and "cy_valid report"
    and "normalize_ids failed = []" and "b \<in> set (map fst g)" and "b \<notin> set (normalize_ids completed)"
  shows "\<exists>a. (b, a) \<in> (depends g)\<^sup>* \<and> a \<notin> set (normalize_ids completed) \<and>
    ((\<exists>ctx r. PDict ctx \<in> set cs \<and> context_action_id ctx = a \<and>
        resolve_action_dependencies ctx completed failed known = Some r \<and> rs_ready r) \<or>
     (\<exists>deps d. map_of g a = Some deps \<and> d \<in> set deps \<and> d \<notin> set (map fst g) \<and> d \<notin> set (normalize_ids completed)))"
proof -
  let ?open = "{a \<in> set (map fst g). (b, a) \<in> (depends g)\<^sup>* \<and> a \<notin> set (normalize_ids completed)}"
  have "cycles (visit_all g (map fst g) empty_search) = []"
    using assms(1-3) by (auto simp: detect_dependency_cycles_def Let_def)
  then have "acyclic (depends g)" by (simp only: search_acyclic)
  moreover have "depends g \<subseteq> set (map fst g) \<times> set (map fst g)" by (auto dest: depends_key)
  then have "finite (depends g)" by (rule finite_subset) simp
  ultimately have "wf ((depends g)\<inverse>)" by (intro finite_acyclic_wf_converse)
  moreover have "b \<in> ?open" using assms(5,6) by simp
  ultimately obtain a where a: "a \<in> ?open" and least: "\<And>d. (a, d) \<in> depends g \<Longrightarrow> d \<notin> ?open"
    by (rule wfE_min) auto
  obtain deps where deps: "map_of g a = Some deps" using a by (metis (mono_tags, lifting) map_of_eq_None_iff mem_Collect_eq not_None_eq set_map)
  then obtain ctx where ctx: "PDict ctx \<in> set cs" "context_action_id ctx = a" "get_action_dependencies ctx = Some deps"
    using build_graph_context [OF assms(1) deps] by auto
  have known: "d \<in> set (normalize_ids completed)" if "d \<in> set deps" "d \<in> set (map fst g)" for d
  proof -
    have "(a, d) \<in> depends g" using deps that by (simp add: depends_def graph_dependencies_def)
    then show ?thesis using least [of d] a that(2) by (auto intro: rtrancl_into_rtrancl)
  qed
  show ?thesis
  proof (cases "set deps \<subseteq> set (normalize_ids completed)")
    case True
    moreover have "context_action_id ctx \<notin> set deps" using a True ctx(2) by auto
    ultimately obtain r where "resolve_action_dependencies ctx completed failed known = Some r \<and> rs_ready r"
      using resolves_ready [OF ctx(3) _ _ assms(4)] by meson
    then show ?thesis using ctx(1,2) a by (intro exI [of _ a]) auto
  next
    case False
    then obtain d where d: "d \<in> set deps" "d \<notin> set (normalize_ids completed)" by blast
    then have "d \<notin> set (map fst g)" using known by blast
    then show ?thesis using a d deps by (intro exI [of _ a]) auto
  qed
qed

theorem valid_plan_progresses_witness:
  "\<exists>a. (''a'', a) \<in> (depends [(''a'', [''b'']), (''b'', [''c'']), (''c'', [''x''])])\<^sup>* \<and>
     a \<notin> set (normalize_ids (PList [PStr ''c''])) \<and>
     ((\<exists>ctx r. PDict ctx \<in> set sample_contexts \<and> context_action_id ctx = a \<and>
         resolve_action_dependencies ctx (PList [PStr ''c'']) PNone PNone = Some r \<and> rs_ready r) \<or>
      (\<exists>deps d. map_of [(''a'', [''b'']), (''b'', [''c'']), (''c'', [''x''])] a = Some deps \<and> d \<in> set deps \<and>
         d \<notin> set (map fst [(''a'', [''b'']), (''b'', [''c'']), (''c'', [''x''])]) \<and> d \<notin> set (normalize_ids (PList [PStr ''c'']))))"
  by (rule valid_plan_progresses [where report = "\<lparr> cy_status = ''dependency_graph_valid'', cy_reason = ''dependency_graph_is_acyclic'',
          cy_action_count = 3, cy_cycles = [], cy_valid = True \<rparr>"])
     (simp_all add: sample_graph_defs detect_dependency_cycles_def empty_search_def graph_dependencies_def open_node_def
        close_node_def)

end
