(* ===== verification/ActionStore.thy ===== *)
theory ActionStore
  imports PyDecimal
begin

text \<open>
  The tables of the action engine and their operations (the \<open>action_*\<close> functions of
  \<open>iat/api/db.py\<close>): the priority queue, the execution history, workers and their claims, the dead letter
  queue and the circuit breakers. As in the other stores, an operation that selects before it updates
  takes what its SELECT saw (\<open>snap\<close>) and what its UPDATE meets (\<open>db\<close>).
\<close>

section \<open>Tables\<close>

record queue_item =
  qi_action_id :: string
  qi_action_type :: string
  qi_action_scope :: "string option"
  qi_priority :: "string option"
  qi_status :: string
  qi_attempts :: int
  qi_context :: pydict
  qi_last_result :: pydict
  qi_created_at :: int
  qi_queued_at :: int
  qi_dequeued_at :: "int option"
  qi_completed_at :: "int option"
  qi_updated_at :: int

record history_row =
  hi_history_id :: string
  hi_action_id :: string
  hi_action_type :: "string option"
  hi_action_scope :: "string option"
  hi_status :: "string option"
  hi_reason :: "string option"
  hi_executed :: bool
  hi_pipeline_status :: "string option"
  hi_adapter :: "string option"
  hi_full_result :: pydict
  hi_created_at :: int

record action_worker =
  wk_worker_id :: string
  wk_worker_name :: string
  wk_status :: "string option"
  wk_current_action :: "string option"
  wk_hostname :: "string option"
  wk_capabilities :: pyval
  wk_processed :: int
  wk_failed :: int
  wk_started_at :: int
  wk_last_heartbeat :: int
  wk_updated_at :: int

record action_claim =
  cl_claim_id :: string
  cl_action_id :: string
  cl_worker_id :: string
  cl_status :: string
  cl_claimed_at :: int
  cl_lease_until :: int
  cl_heartbeat_at :: int
  cl_released_at :: "int option"
  cl_release_reason :: "string option"
  cl_created_at :: int
  cl_updated_at :: int

record dead_letter =
  dq_dlq_id :: string
  dq_action_id :: string
  dq_action_type :: "string option"
  dq_action_scope :: "string option"
  dq_reason :: string
  dq_failure_status :: "string option"
  dq_retry_count :: int
  dq_max_retries :: int
  dq_context :: pydict
  dq_failure_result :: pydict
  dq_created_at :: int

record breaker =
  br_service :: string
  br_state :: string
  br_failure_count :: int
  br_success_count :: int
  br_opened_at :: "int option"
  br_last_failure_at :: "int option"
  br_cooldown :: int

record action_db =
  action_queue :: "queue_item list"
  action_history :: "history_row list"
  action_workers :: "action_worker list"
  action_claims :: "action_claim list"
  dead_letters :: "dead_letter list"
  breakers :: "breaker list"

text \<open>
  \<open>int(v)\<close>. A float is cut at its decimal point, which is exact below \<open>2^53\<close>; larger floats do not occur
  in these tables.
\<close>

definition py_int :: "pyval \<Rightarrow> py_error + int" where
  "py_int v =
     (case v of
        PInt i \<Rightarrow> Inr i
      | PBool b \<Rightarrow> Inr (if b then 1 else 0)
      | PStr s \<Rightarrow> (case py_int_of_string s of
                   None \<Rightarrow> Inl (ValueError ''invalid literal for int() with base 10'') | Some i \<Rightarrow> Inr i)
      | PFloat r \<Rightarrow> (case dec_of_string r of
                     Some (DFin d) \<Rightarrow>
                       Inr ((if dsign d then - 1 else 1) *
                            int (if dexp d < 0 then dcoef d div 10 ^ nat (- dexp d) else dcoef d * 10 ^ nat (dexp d)))
                   | _ \<Rightarrow> Inl (ValueError ''cannot convert float to integer''))
      | _ \<Rightarrow> Inl TypeError)"

text \<open>A raise in the middle of an operation that has written nothing.\<close>

definition sum_bind_db :: "'e + 'a \<Rightarrow> 'db \<Rightarrow> ('a \<Rightarrow> ('e + 'b) \<times> 'db) \<Rightarrow> ('e + 'b) \<times> 'db" where
  "sum_bind_db m db f = (case m of Inl e \<Rightarrow> (Inl e, db) | Inr x \<Rightarrow> f x)"

text \<open>\<open>limit or 50\<close>.\<close>

definition row_limit :: "nat \<Rightarrow> nat \<Rightarrow> nat" where
  "row_limit dflt n = (if n = 0 then dflt else n)"

section \<open>The queue\<close>

definition new_queue_item :: "string \<Rightarrow> string \<Rightarrow> pydict \<Rightarrow> int \<Rightarrow> int \<Rightarrow> queue_item" where
  "new_queue_item action_id action_type ctx created now =
     \<lparr> qi_action_id = action_id, qi_action_type = action_type,
       qi_action_scope = text_col (dget ctx ''action_scope''),
       qi_priority = text_col (py_or (dget ctx ''priority'') (PStr ''normal'')), qi_status = ''queued'',
       qi_attempts = 0, qi_context = ctx, qi_last_result = [], qi_created_at = created, qi_queued_at = now,
       qi_dequeued_at = None, qi_completed_at = None, qi_updated_at = now \<rparr>"

definition enqueue_action_db ::
  "string \<Rightarrow> int \<Rightarrow> pyval \<Rightarrow> action_db \<Rightarrow> (py_error + pydict) \<times> action_db" where
  "enqueue_action_db uuid now action_context db =
     (if \<not> is_dict action_context
      then (Inr [(''status'', PStr ''enqueue_rejected''), (''reason'', PStr ''action_context_must_be_dict''),
                 (''queued'', PBool False)], db)
      else
        let ctx = as_dict action_context; action_id = py_str (py_or (dget ctx ''action_id'') (PStr uuid)) in
        case py_int (py_or (dget ctx ''created_at'') (PInt now)) of
          Inl e \<Rightarrow> (Inl e, db)
        | Inr created \<Rightarrow>
            (case text_col (dget ctx ''action_type'') of
               None \<Rightarrow> (Inl IntegrityViolation, db)
             | Some action_type \<Rightarrow>
                 (case sql_insert (\<lambda>r x. qi_action_id x = qi_action_id r)
                         (new_queue_item action_id action_type ctx created now) (action_queue db) of
                    None \<Rightarrow> (Inl IntegrityViolation, db)
                  | Some t \<Rightarrow>
                      (Inr [(''status'', PStr ''queued''), (''reason'', PStr ''action_enqueued_db''),
                            (''action_id'', PStr action_id), (''queued'', PBool True)],
                       db \<lparr> action_queue := t \<rparr>))))"

definition priority_rank :: "string option \<Rightarrow> int" where
  "priority_rank p =
     (if p = Some ''critical'' then 100 else if p = Some ''high'' then 80
      else if p = Some ''normal'' then 50 else if p = Some ''low'' then 10 else 50)"

text \<open>The order of the queue: rank descending, then time; rows that tie keep their insertion order.\<close>

definition queue_order :: "queue_item list \<Rightarrow> queue_item list" where
  "queue_order t = sort_key (\<lambda>r. - priority_rank (qi_priority r)) (sort_key qi_queued_at t)"

definition list_action_queue_db :: "nat \<Rightarrow> action_db \<Rightarrow> queue_item list" where
  "list_action_queue_db limit db = take (row_limit 50 limit) (queue_order (action_queue db))"

definition dequeued_row :: "int \<Rightarrow> queue_item \<Rightarrow> queue_item" where
  "dequeued_row now r =
     r \<lparr> qi_status := ''dequeued'', qi_attempts := qi_attempts r + 1, qi_dequeued_at := Some now,
         qi_updated_at := now \<rparr>"

definition dequeue_next_action_db :: "int \<Rightarrow> action_db \<Rightarrow> action_db \<Rightarrow> queue_item option \<times> action_db" where
  "dequeue_next_action_db now snap db =
     (case queue_order (filter (\<lambda>r. qi_status r = ''queued'') (action_queue snap)) of
        [] \<Rightarrow> (None, db)
      | item # _ \<Rightarrow>
          (Some item, db \<lparr> action_queue := fst (sql_update (\<lambda>r. qi_action_id r = qi_action_id item)
                                                 (dequeued_row now) (action_queue db)) \<rparr>))"

definition completed_row :: "pydict \<Rightarrow> int \<Rightarrow> queue_item \<Rightarrow> queue_item" where
  "completed_row result now r =
     r \<lparr> qi_status := ''completed'', qi_last_result := result, qi_completed_at := Some now, qi_updated_at := now \<rparr>"

definition complete_action_queue_item_db :: "pyval \<Rightarrow> pydict \<Rightarrow> int \<Rightarrow> action_db \<Rightarrow> pydict \<times> action_db" where
  "complete_action_queue_item_db action_id result now db =
     (if \<not> truthy action_id
      then ([(''status'', PStr ''completion_rejected''), (''reason'', PStr ''action_id_missing'')], db)
      else ([(''status'', PStr ''completed''), (''reason'', PStr ''action_queue_item_completed_db''),
             (''action_id'', action_id)],
            db \<lparr> action_queue := fst (sql_update (\<lambda>r. qi_action_id r = py_str action_id)
                                       (completed_row result now) (action_queue db)) \<rparr>))"

definition clear_action_queue_db :: "action_db \<Rightarrow> pydict \<times> action_db" where
  "clear_action_queue_db db =
     ([(''status'', PStr ''cleared''), (''reason'', PStr ''action_queue_db_cleared'')], db \<lparr> action_queue := [] \<rparr>)"

definition reactivated_row :: "string \<Rightarrow> int \<Rightarrow> queue_item \<Rightarrow> queue_item" where
  "reactivated_row reason now r =
     r \<lparr> qi_status := ''queued'', qi_dequeued_at := None, qi_completed_at := None,
         qi_last_result := [(''status'', PStr ''reactivated''), (''reason'', PStr reason), (''reactivated_at'', PInt now)],
         qi_queued_at := now, qi_updated_at := now \<rparr>"

definition reactivate_action_queue_item_db :: "pyval \<Rightarrow> string \<Rightarrow> int \<Rightarrow> action_db \<Rightarrow> pydict \<times> action_db" where
  "reactivate_action_queue_item_db action_id reason now db =
     (if \<not> truthy action_id
      then ([(''status'', PStr ''reactivation_rejected''), (''reason'', PStr ''action_id_missing''),
             (''reactivated'', PBool False)], db)
      else
        let (t, n) = sql_update (\<lambda>r. qi_action_id r = py_str action_id \<and> qi_status r \<noteq> ''queued'')
                       (reactivated_row reason now) (action_queue db)
        in ([(''status'', PStr (if n \<noteq> 0 then ''reactivated'' else ''not_reactivated'')),
             (''reason'', PStr (if n \<noteq> 0 then reason else ''action_not_found_or_already_queued'')),
             (''action_id'', action_id), (''reactivated'', PBool (n \<noteq> 0))],
            db \<lparr> action_queue := t \<rparr>))"

section \<open>History and dead letters\<close>

definition summarize_action_execution_result :: "pydict \<Rightarrow> pydict" where
  "summarize_action_execution_result result =
     (let pipeline = as_dict (dget result ''pipeline''); adapter = as_dict (dget result ''adapter_resolution'')
      in [(''status'', dget result ''status''), (''reason'', dget result ''reason''),
          (''executed'', PBool (truthy (dget result ''executed''))), (''pipeline_status'', dget pipeline ''status''),
          (''adapter'', dget adapter ''adapter''), (''executed_at'', dget result ''executed_at'')])"

definition record_action_execution_history_db ::
  "string \<Rightarrow> int \<Rightarrow> pydict \<Rightarrow> pydict \<Rightarrow> action_db \<Rightarrow> (py_error + pydict) \<times> action_db" where
  "record_action_execution_history_db uuid now ctx result db =
     (let action_id = py_or (dget ctx ''action_id'') (dget result ''action_id'') in
      case text_col action_id of
        None \<Rightarrow> (Inl IntegrityViolation, db)
      | Some aid \<Rightarrow>
          (case sql_insert (\<lambda>r x. hi_history_id x = hi_history_id r)
                  \<lparr> hi_history_id = uuid, hi_action_id = aid,
                    hi_action_type = text_col (py_or (dget ctx ''action_type'') (dget result ''action_type'')),
                    hi_action_scope = text_col (py_or (dget ctx ''action_scope'') (dget result ''action_scope'')),
                    hi_status = text_col (dget result ''status''), hi_reason = text_col (dget result ''reason''),
                    hi_executed = truthy (dget result ''executed''),
                    hi_pipeline_status = text_col (dget (as_dict (dget result ''pipeline'')) ''status''),
                    hi_adapter = text_col (dget (as_dict (dget result ''adapter_resolution'')) ''adapter''),
                    hi_full_result = result, hi_created_at = now \<rparr> (action_history db) of
             None \<Rightarrow> (Inl IntegrityViolation, db)
           | Some t \<Rightarrow> (Inr [(''status'', PStr ''recorded''), (''reason'', PStr ''action_execution_history_recorded''),
                            (''history_id'', PStr uuid), (''action_id'', action_id)], db \<lparr> action_history := t \<rparr>)))"

definition list_action_execution_history_db :: "string option \<Rightarrow> nat \<Rightarrow> action_db \<Rightarrow> history_row list" where
  "list_action_execution_history_db action_id limit db =
     sql_order_limit (\<lambda>r. - hi_created_at r) (row_limit 50 limit)
       (case action_id of
          Some (c # cs) \<Rightarrow> filter (\<lambda>r. hi_action_id r = c # cs) (action_history db)
        | _ \<Rightarrow> action_history db)"

definition move_action_to_dead_letter_queue_db ::
  "string \<Rightarrow> int \<Rightarrow> pydict \<Rightarrow> pydict \<Rightarrow> string \<Rightarrow> action_db \<Rightarrow> (py_error + pydict) \<times> action_db" where
  "move_action_to_dead_letter_queue_db uuid now ctx failure_result reason db =
     (let retry_policy = as_dict (dget ctx ''retry_policy'') in
      sum_bind_db (py_int (py_or (dget retry_policy ''retry_count'') (PInt 0))) db (\<lambda>retry_count.
      sum_bind_db (py_int (py_or (dget retry_policy ''max_retries'') (PInt 0))) db (\<lambda>max_retries.
        case text_col (dget ctx ''action_id'') of
          None \<Rightarrow> (Inl IntegrityViolation, db)
        | Some aid \<Rightarrow>
            (case sql_insert (\<lambda>r x. dq_dlq_id x = dq_dlq_id r)
                    \<lparr> dq_dlq_id = uuid, dq_action_id = aid, dq_action_type = text_col (dget ctx ''action_type''),
                      dq_action_scope = text_col (dget ctx ''action_scope''), dq_reason = reason,
                      dq_failure_status = text_col (dget failure_result ''status''), dq_retry_count = retry_count,
                      dq_max_retries = max_retries, dq_context = ctx, dq_failure_result = failure_result,
                      dq_created_at = now \<rparr> (dead_letters db) of
               None \<Rightarrow> (Inl IntegrityViolation, db)
             | Some t \<Rightarrow> (Inr [(''status'', PStr ''moved_to_dead_letter_queue''), (''reason'', PStr reason),
                              (''dlq_id'', PStr uuid), (''action_id'', dget ctx ''action_id'')],
                         db \<lparr> dead_letters := t \<rparr>)))))"

definition list_action_dead_letter_queue_db :: "nat \<Rightarrow> action_db \<Rightarrow> dead_letter list" where
  "list_action_dead_letter_queue_db limit db =
     sql_order_limit (\<lambda>r. - dq_created_at r) (row_limit 50 limit) (dead_letters db)"

section \<open>Workers\<close>

definition register_action_worker_db ::
  "string \<Rightarrow> int \<Rightarrow> string \<Rightarrow> string \<Rightarrow> string option \<Rightarrow> pyval \<Rightarrow> action_db \<Rightarrow> (py_error + pydict) \<times> action_db" where
  "register_action_worker_db uuid now worker_id worker_name hostname capabilities db =
     (let wid = (if worker_id = [] then uuid else worker_id) in
      case sql_insert (\<lambda>r x. wk_worker_id x = wk_worker_id r)
             \<lparr> wk_worker_id = wid, wk_worker_name = (if worker_name = [] then wid else worker_name),
               wk_status = Some ''idle'', wk_current_action = None, wk_hostname = hostname,
               wk_capabilities = py_or capabilities (PDict []), wk_processed = 0, wk_failed = 0,
               wk_started_at = now, wk_last_heartbeat = now, wk_updated_at = now \<rparr> (action_workers db) of
        None \<Rightarrow> (Inl IntegrityViolation, db)
      | Some t \<Rightarrow> (Inr [(''status'', PStr ''registered''), (''reason'', PStr ''action_worker_registered''),
                       (''worker_id'', PStr wid)], db \<lparr> action_workers := t \<rparr>))"

definition heartbeat_action_worker_db ::
  "string \<Rightarrow> string option \<Rightarrow> string option \<Rightarrow> int \<Rightarrow> action_db \<Rightarrow> pydict \<times> action_db" where
  "heartbeat_action_worker_db worker_id worker_status current_action_id now db =
     (if worker_id = []
      then ([(''status'', PStr ''heartbeat_rejected''), (''reason'', PStr ''worker_id_missing'')], db)
      else ([(''status'', PStr ''heartbeat_recorded''), (''reason'', PStr ''action_worker_heartbeat_updated''),
             (''worker_id'', PStr worker_id), (''worker_status'', pstr_opt worker_status),
             (''current_action_id'', pstr_opt current_action_id), (''last_heartbeat'', PInt now)],
            db \<lparr> action_workers := fst (sql_update (\<lambda>r. wk_worker_id r = worker_id)
                  (\<lambda>r. r \<lparr> wk_status := (case worker_status of None \<Rightarrow> wk_status r | Some x \<Rightarrow> Some x),
                           wk_current_action := current_action_id, wk_last_heartbeat := now, wk_updated_at := now \<rparr>)
                  (action_workers db)) \<rparr>))"

definition list_action_workers_db :: "nat \<Rightarrow> action_db \<Rightarrow> action_worker list" where
  "list_action_workers_db limit db =
     sql_order_limit (\<lambda>r. - wk_last_heartbeat r) (row_limit 50 limit) (action_workers db)"

definition update_action_worker_status_db :: "string \<Rightarrow> string \<Rightarrow> action_db \<Rightarrow> pydict \<times> action_db" where
  "update_action_worker_status_db worker_id worker_status db =
     ([(''status'', PStr ''updated''), (''worker_id'', PStr worker_id), (''worker_status'', PStr worker_status)],
      db \<lparr> action_workers := fst (sql_update (\<lambda>r. wk_worker_id r = worker_id)
             (\<lambda>r. r \<lparr> wk_status := Some worker_status \<rparr>) (action_workers db)) \<rparr>)"

definition mark_action_worker_result_db ::
  "string \<Rightarrow> bool \<Rightarrow> pyval \<Rightarrow> int \<Rightarrow> action_db \<Rightarrow> pydict \<times> action_db" where
  "mark_action_worker_result_db worker_id success current_action_id now db =
     (if worker_id = []
      then ([(''status'', PStr ''worker_result_rejected''), (''reason'', PStr ''worker_id_missing'')], db)
      else ([(''status'', PStr ''worker_result_recorded''), (''reason'', PStr ''action_worker_result_updated''),
             (''worker_id'', PStr worker_id), (''success'', PBool success), (''current_action_id'', current_action_id)],
            db \<lparr> action_workers := fst (sql_update (\<lambda>r. wk_worker_id r = worker_id)
                  (\<lambda>r. r \<lparr> wk_status := Some ''idle'', wk_current_action := None,
                           wk_processed := wk_processed r + (if success then 1 else 0),
                           wk_failed := wk_failed r + (if success then 0 else 1),
                           wk_last_heartbeat := now, wk_updated_at := now \<rparr>)
                  (action_workers db)) \<rparr>))"

section \<open>Claims\<close>

definition claim_running :: "action_claim \<Rightarrow> bool" where
  "claim_running c = (cl_status c \<in> {''claimed'', ''running''})"

definition claim_live :: "int \<Rightarrow> action_claim \<Rightarrow> bool" where
  "claim_live now c = (claim_running c \<and> now < cl_lease_until c)"

definition claim_dict :: "action_claim \<Rightarrow> pydict" where
  "claim_dict c =
     [(''claim_id'', PStr (cl_claim_id c)), (''action_id'', PStr (cl_action_id c)),
      (''worker_id'', PStr (cl_worker_id c)), (''claim_status'', PStr (cl_status c)),
      (''claimed_at'', PInt (cl_claimed_at c)), (''lease_until'', PInt (cl_lease_until c)),
      (''heartbeat_at'', PInt (cl_heartbeat_at c)), (''released_at'', pint_opt (cl_released_at c)),
      (''release_reason'', pstr_opt (cl_release_reason c)), (''created_at'', PInt (cl_created_at c)),
      (''updated_at'', PInt (cl_updated_at c))]"

definition new_action_claim :: "string \<Rightarrow> string \<Rightarrow> string \<Rightarrow> int \<Rightarrow> int \<Rightarrow> action_claim" where
  "new_action_claim claim_id action_id worker_id until now =
     \<lparr> cl_claim_id = claim_id, cl_action_id = action_id, cl_worker_id = worker_id, cl_status = ''claimed'',
       cl_claimed_at = now, cl_lease_until = until, cl_heartbeat_at = now, cl_released_at = None,
       cl_release_reason = None, cl_created_at = now, cl_updated_at = now \<rparr>"

definition claim_action_db ::
  "string \<Rightarrow> string \<Rightarrow> string \<Rightarrow> int \<Rightarrow> int \<Rightarrow> action_db \<Rightarrow> action_db \<Rightarrow> (py_error + pydict) \<times> action_db" where
  "claim_action_db uuid action_id worker_id lease_seconds now snap db =
     (if action_id = [] \<or> worker_id = []
      then (Inr [(''status'', PStr ''claim_rejected''), (''reason'', PStr ''action_id_or_worker_id_missing''),
                 (''claimed'', PBool False)], db)
      else
        let until = now + (if lease_seconds = 0 then 60 else lease_seconds) in
        (case sort_key (\<lambda>c. - cl_claimed_at c) (filter (\<lambda>c. cl_action_id c = action_id \<and> claim_live now c) (action_claims snap)) of
           existing # _ \<Rightarrow>
             (Inr [(''status'', PStr ''already_claimed''), (''reason'', PStr ''active_claim_exists_for_action''),
                   (''claimed'', PBool False), (''existing_claim'', PDict (claim_dict existing))], db)
         | [] \<Rightarrow>
             (case sql_insert (\<lambda>r x. cl_claim_id x = cl_claim_id r)
                     (new_action_claim uuid action_id worker_id until now) (action_claims db) of
                None \<Rightarrow> (Inl IntegrityViolation, db)
              | Some t \<Rightarrow>
                  (Inr [(''status'', PStr ''claimed''), (''reason'', PStr ''action_claim_created''),
                        (''claimed'', PBool True), (''claim_id'', PStr uuid), (''action_id'', PStr action_id),
                        (''worker_id'', PStr worker_id), (''lease_until'', PInt until)],
                   db \<lparr> action_claims := t \<rparr>))))"

text \<open>The rows that a heartbeat or a release of a worker (any worker, if none is named) meets.\<close>

definition claim_of_worker :: "string \<Rightarrow> string \<Rightarrow> action_claim \<Rightarrow> bool" where
  "claim_of_worker claim_id worker_id c =
     (cl_claim_id c = claim_id \<and> (worker_id = [] \<or> cl_worker_id c = worker_id) \<and> claim_running c)"

definition extended_claim :: "int \<Rightarrow> int \<Rightarrow> action_claim \<Rightarrow> action_claim" where
  "extended_claim until now c = c \<lparr> cl_heartbeat_at := now, cl_lease_until := until, cl_updated_at := now \<rparr>"

definition heartbeat_action_claim_db ::
  "string \<Rightarrow> string \<Rightarrow> int \<Rightarrow> int \<Rightarrow> action_db \<Rightarrow> pydict \<times> action_db" where
  "heartbeat_action_claim_db claim_id worker_id extend_seconds now db =
     (if claim_id = []
      then ([(''status'', PStr ''claim_heartbeat_rejected''), (''reason'', PStr ''claim_id_missing'')], db)
      else
        let until = now + (if extend_seconds = 0 then 60 else extend_seconds);
            (t, n) = sql_update (claim_of_worker claim_id worker_id) (extended_claim until now) (action_claims db)
        in ([(''status'', PStr (if n \<noteq> 0 then ''heartbeat_recorded'' else ''claim_not_updated'')),
             (''reason'', PStr (if n \<noteq> 0 then ''action_claim_heartbeat_updated'' else ''claim_not_found_or_not_active'')),
             (''claim_id'', PStr claim_id), (''worker_id'', PStr worker_id), (''lease_until'', PInt until),
             (''updated'', PBool (n \<noteq> 0))], db \<lparr> action_claims := t \<rparr>))"

definition released_claim :: "string \<Rightarrow> string \<Rightarrow> int \<Rightarrow> action_claim \<Rightarrow> action_claim" where
  "released_claim status reason now c =
     c \<lparr> cl_status := status, cl_released_at := Some now, cl_release_reason := Some reason, cl_updated_at := now \<rparr>"

definition release_action_claim_db ::
  "string \<Rightarrow> string \<Rightarrow> string \<Rightarrow> int \<Rightarrow> action_db \<Rightarrow> pydict \<times> action_db" where
  "release_action_claim_db claim_id worker_id reason now db =
     (if claim_id = []
      then ([(''status'', PStr ''claim_release_rejected''), (''reason'', PStr ''claim_id_missing'')], db)
      else
        let (t, n) = sql_update (claim_of_worker claim_id worker_id) (released_claim ''released'' reason now) (action_claims db)
        in ([(''status'', PStr (if n \<noteq> 0 then ''released'' else ''claim_not_released'')),
             (''reason'', PStr (if n \<noteq> 0 then ''action_claim_released'' else ''claim_not_found_or_not_active'')),
             (''claim_id'', PStr claim_id), (''worker_id'', PStr worker_id), (''updated'', PBool (n \<noteq> 0))],
            db \<lparr> action_claims := t \<rparr>))"

definition expire_stale_action_claims_db :: "int \<Rightarrow> action_db \<Rightarrow> nat \<times> action_db" where
  "expire_stale_action_claims_db now db =
     (let (t, n) = sql_update (\<lambda>c. claim_running c \<and> cl_lease_until c \<le> now)
                     (released_claim ''expired'' ''lease_expired'' now) (action_claims db)
      in (n, db \<lparr> action_claims := t \<rparr>))"

definition list_action_claims_db :: "string \<Rightarrow> string \<Rightarrow> nat \<Rightarrow> action_db \<Rightarrow> action_claim list" where
  "list_action_claims_db action_id worker_id limit db =
     sql_order_limit (\<lambda>c. - cl_created_at c) (row_limit 50 limit)
       (filter (\<lambda>c. (action_id = [] \<or> cl_action_id c = action_id) \<and> (worker_id = [] \<or> cl_worker_id c = worker_id))
          (action_claims db))"

section \<open>Circuit breakers\<close>

definition breaker_of :: "string \<Rightarrow> action_db \<Rightarrow> breaker option" where
  "breaker_of service db = row_by br_service service (breakers db)"

definition breaker_cooldown :: "breaker \<Rightarrow> int" where
  "breaker_cooldown b = (if br_cooldown b = 0 then 300 else br_cooldown b)"

text \<open>An open breaker whose cooldown is over becomes half open when it is looked up.\<close>

definition get_action_circuit_breaker_db :: "string \<Rightarrow> int \<Rightarrow> action_db \<Rightarrow> breaker option \<times> action_db" where
  "get_action_circuit_breaker_db service now db =
     (case breaker_of service db of
        None \<Rightarrow> (None, db)
      | Some b \<Rightarrow>
          let opened = (case br_opened_at b of None \<Rightarrow> 0 | Some t \<Rightarrow> t) in
          if br_state b = ''OPEN'' \<and> opened \<noteq> 0 \<and> now - opened \<ge> breaker_cooldown b
          then (Some (b \<lparr> br_state := ''HALF_OPEN'' \<rparr>),
                db \<lparr> breakers := fst (sql_update (\<lambda>x. br_service x = service)
                       (\<lambda>x. x \<lparr> br_state := ''HALF_OPEN'' \<rparr>) (breakers db)) \<rparr>)
          else (Some b, db))"

definition upsert_action_circuit_breaker_db :: "breaker \<Rightarrow> action_db \<Rightarrow> action_db" where
  "upsert_action_circuit_breaker_db b db =
     (case breaker_of (br_service b) db of
        None \<Rightarrow> db \<lparr> breakers := breakers db @ [b] \<rparr>
      | Some _ \<Rightarrow> db \<lparr> breakers := fst (sql_update (\<lambda>x. br_service x = br_service b) (\<lambda>x. b) (breakers db)) \<rparr>)"

definition resolve_action_circuit_breaker_probe_db ::
  "string \<Rightarrow> bool \<Rightarrow> int \<Rightarrow> action_db \<Rightarrow> string option \<times> action_db" where
  "resolve_action_circuit_breaker_probe_db service success now db =
     (case get_action_circuit_breaker_db service now db of
        (None, db1) \<Rightarrow> (None, db1)
      | (Some b, db1) \<Rightarrow>
          let state = (if success then ''CLOSED'' else ''OPEN'')
          in (Some state, upsert_action_circuit_breaker_db
                \<lparr> br_service = service, br_state = state,
                  br_failure_count = (if success then 0 else br_failure_count b + 1),
                  br_success_count = br_success_count b + (if success then 1 else 0),
                  br_opened_at = (if success then None else Some now),
                  br_last_failure_at = (if success then None else Some now),
                  br_cooldown = breaker_cooldown b \<rparr> db1))"

end
