(* ===== verification/ActionContext.thy ===== *)
theory ActionContext
  imports DependencyResolver ActionStore
begin

text \<open>
  Action contexts (\<open>iat/action_engine/context.py\<close>): the normalised form of a request, which the queue stores
  as JSON, and its validation. \<open>float(v)\<close> is the parameter \<open>fl\<close>: the number and the float as a value, or
  \<open>None\<close> for a \<open>TypeError\<close> or \<open>ValueError\<close>; \<open>uuid\<close> and \<open>now\<close> are the drawn identifier and the clock.
\<close>

section \<open>Normalisation\<close>

definition optional_dict :: "pyval \<Rightarrow> pyval" where
  "optional_dict v = (case v of PDict d \<Rightarrow> PDict d | _ \<Rightarrow> PDict [])"

definition optional_float :: "(pyval \<Rightarrow> (pydec \<times> pyval) option) \<Rightarrow> pyval \<Rightarrow> pyval" where
  "optional_float fl v =
     (if v = PNone \<or> v = PStr [] then PNone else (case fl v of None \<Rightarrow> PNone | Some (x, w) \<Rightarrow> w))"

definition optional_int :: "pyval \<Rightarrow> pyval" where
  "optional_int v =
     (if v = PNone \<or> v = PStr [] then PNone else (case py_int v of Inl e \<Rightarrow> PNone | Inr i \<Rightarrow> PInt i))"

definition string_list :: "pyval \<Rightarrow> pyval" where
  "string_list v = PList (map PStr (normalize_ids v))"

text \<open>The dicts of a context and of its \<open>orchestration\<close>.\<close>

definition orchestration_dict ::
  "pyval \<Rightarrow> pyval \<Rightarrow> pyval \<Rightarrow> pyval \<Rightarrow> pyval \<Rightarrow> pyval \<Rightarrow> pyval \<Rightarrow> pyval \<Rightarrow> pyval \<Rightarrow> pyval \<Rightarrow> pyval \<Rightarrow> pyval \<Rightarrow> pyval \<Rightarrow> pyval \<Rightarrow> pyval \<Rightarrow> pydict" where
  "orchestration_dict version plan parent deps grp parallel step rollback compensation inputs outputs limits deadline budget capabilities =
     [(''orchestration_version'', version), (''plan_id'', plan), (''parent_action_id'', parent),
      (''depends_on'', deps), (''execution_group'', grp), (''parallel_group'', parallel),
      (''step_position'', step), (''rollback_action'', rollback), (''compensation_action'', compensation),
      (''expected_inputs'', inputs), (''produced_outputs'', outputs), (''execution_constraints'', limits),
      (''deadline'', deadline), (''cost_budget'', budget), (''required_capabilities'', capabilities)]"

definition context_dict ::
  "pyval \<Rightarrow> pyval \<Rightarrow> pyval \<Rightarrow> pyval \<Rightarrow> pyval \<Rightarrow> pyval \<Rightarrow> pyval \<Rightarrow> pyval \<Rightarrow> pyval \<Rightarrow> pyval \<Rightarrow> pyval \<Rightarrow> pyval \<Rightarrow> pydict" where
  "context_dict aid kind scope requested priority timeout retry payload metadata orchestration created version =
     [(''action_id'', aid), (''action_type'', kind), (''action_scope'', scope),
      (''requested_by'', requested), (''priority'', priority), (''timeout_seconds'', timeout),
      (''retry_policy'', retry), (''payload'', payload), (''metadata'', metadata),
      (''orchestration'', orchestration), (''created_at'', created), (''context_version'', version)]"

text \<open>The normalised \<open>orchestration\<close>: every key falls back to the context.\<close>

definition normalize_orchestration :: "(pyval \<Rightarrow> (pydec \<times> pyval) option) \<Rightarrow> pydict \<Rightarrow> pydict" where
  "normalize_orchestration fl ctx =
     (let orchestration = as_dict (dget ctx ''orchestration'');
          given = (\<lambda>k. dget_or orchestration k (dget ctx k));
          either = (\<lambda>k. py_or (dget orchestration k) (dget ctx k))
      in orchestration_dict
           (py_or (dget orchestration ''orchestration_version'') (PStr ''iat_orchestration_context_v1''))
           (either ''plan_id'') (either ''parent_action_id'') (string_list (given ''depends_on''))
           (either ''execution_group'') (either ''parallel_group'') (optional_int (given ''step_position''))
           (optional_dict (given ''rollback_action'')) (optional_dict (given ''compensation_action''))
           (optional_dict (given ''expected_inputs'')) (optional_dict (given ''produced_outputs''))
           (optional_dict (given ''execution_constraints'')) (optional_int (given ''deadline''))
           (optional_float fl (given ''cost_budget'')) (string_list (given ''required_capabilities'')))"

definition default_retry_policy :: pydict where
  "default_retry_policy = [(''retry_count'', PInt 0), (''max_retries'', PInt 3)]"

definition normalize_action_context ::
  "(pyval \<Rightarrow> (pydec \<times> pyval) option) \<Rightarrow> string \<Rightarrow> int \<Rightarrow> pydict \<Rightarrow> py_error + pydict" where
  "normalize_action_context fl uuid now ctx =
     sum_bind (py_int (py_or (dget ctx ''timeout_seconds'') (PInt 300))) (\<lambda>timeout.
     sum_bind (py_int (py_or (dget ctx ''created_at'') (PInt now))) (\<lambda>created.
       Inr (context_dict (PStr (py_strip (py_str (py_or (dget ctx ''action_id'') (PStr uuid)))))
              (dget ctx ''action_type'') (dget ctx ''action_scope'')
              (py_or (dget ctx ''requested_by'') (PStr ''iat_protocol''))
              (py_or (dget ctx ''priority'') (PStr ''normal'')) (PInt timeout)
              (if is_dict (dget ctx ''retry_policy'') then dget ctx ''retry_policy'' else PDict default_retry_policy)
              (optional_dict (dget ctx ''payload'')) (optional_dict (dget ctx ''metadata''))
              (PDict (normalize_orchestration fl ctx)) (PInt created)
              (py_or (dget ctx ''context_version'') (PStr ''action_context_v2'')))))"

definition build_action_context ::
  "(pyval \<Rightarrow> (pydec \<times> pyval) option) \<Rightarrow> string \<Rightarrow> int \<Rightarrow> pydict \<Rightarrow> py_error + pydict" where
  "build_action_context fl uuid now arguments =
     normalize_action_context fl uuid now
       [(''action_id'', PStr uuid), (''action_type'', dget arguments ''action_type''),
        (''action_scope'', dget arguments ''action_scope''), (''requested_by'', dget arguments ''requested_by''),
        (''priority'', dget arguments ''priority''), (''timeout_seconds'', dget arguments ''timeout_seconds''),
        (''retry_policy'', dget arguments ''retry_policy''), (''payload'', py_or (dget arguments ''payload'') (PDict [])),
        (''metadata'', py_or (dget arguments ''metadata'') (PDict [])), (''created_at'', PInt now),
        (''context_version'', PStr ''action_context_v2''),
        (''orchestration'', py_or (dget arguments ''orchestration'') (PDict []))]"

section \<open>Validation\<close>

record validation =
  va_valid :: bool
  va_reason :: string
  va_missing :: "string list"
  va_context :: pydict

definition invalid_context :: "string \<Rightarrow> pydict \<Rightarrow> validation" where
  "invalid_context reason ctx = \<lparr> va_valid = False, va_reason = reason, va_missing = [], va_context = ctx \<rparr>"

definition negative_budget :: "(pyval \<Rightarrow> (pydec \<times> pyval) option) \<Rightarrow> pyval \<Rightarrow> bool" where
  "negative_budget fl v =
     (case fl v of Some (DFin d, _) \<Rightarrow> dec_lt d dec_zero | Some (DInf neg, _) \<Rightarrow> neg | _ \<Rightarrow> False)"

definition validate_action_context ::
  "(pyval \<Rightarrow> (pydec \<times> pyval) option) \<Rightarrow> string \<Rightarrow> int \<Rightarrow> pydict \<Rightarrow> py_error + validation" where
  "validate_action_context fl uuid now action_context =
     sum_bind (normalize_action_context fl uuid now action_context) (\<lambda>ctx.
       let missing = filter (\<lambda>k. \<not> truthy (dget ctx k)) [''action_id'', ''action_type'', ''action_scope'', ''requested_by''];
           orchestration = as_dict (dget ctx ''orchestration'');
           action_id = dget ctx ''action_id'';
           parent = dget orchestration ''parent_action_id'';
           deadline = dget orchestration ''deadline'';
           budget = dget orchestration ''cost_budget''
       in Inr (if missing \<noteq> []
               then (invalid_context ''missing_required_context_fields'' ctx) \<lparr> va_missing := missing \<rparr>
               else if action_id \<in> set (case dget orchestration ''depends_on'' of PList xs \<Rightarrow> xs | _ \<Rightarrow> [])
               then invalid_context ''action_cannot_depend_on_itself'' ctx
               else if truthy parent \<and> parent = action_id
               then invalid_context ''action_cannot_be_its_own_parent'' ctx
               else if (case deadline of PInt i \<Rightarrow> i \<le> 0 | _ \<Rightarrow> False)
               then invalid_context ''invalid_orchestration_deadline'' ctx
               else if budget \<noteq> PNone \<and> negative_budget fl budget
               then invalid_context ''invalid_orchestration_cost_budget'' ctx
               else \<lparr> va_valid = True, va_reason = ''action_context_valid'', va_missing = [], va_context = ctx \<rparr>))"

section \<open>Normalisation is idempotent\<close>

lemma strip_dropWhile: "py_strip s = rev (dropWhile py_space (rev (dropWhile py_space s)))"
  by (simp add: py_strip_def py_lstrip_def)

lemma py_strip_idem [simp]: "py_strip (py_strip s) = py_strip s"
proof -
  let ?t = "dropWhile py_space s" and ?u = "rev (dropWhile py_space (rev (dropWhile py_space s)))"
  have "dropWhile py_space ?u = ?u"
  proof (cases ?u)
    case (Cons c u)
    obtain v where "?t = ?u @ v" by (metis rev_append rev_rev_ident takeWhile_dropWhile_id)
    then have "hd ?t = c" "?t \<noteq> []" using Cons by auto
    then have "\<not> py_space c" using hd_dropWhile by metis
    then show ?thesis using Cons by simp
  next
    case Nil
    show ?thesis by (simp only: Nil dropWhile.simps)
  qed
  moreover have "dropWhile py_space (dropWhile py_space xs) = dropWhile py_space xs" for xs
    by (induction xs) auto
  ultimately show ?thesis by (simp add: strip_dropWhile)
qed

lemma normalize_loop_clean:
  "list_all (\<lambda>x. x \<noteq> [] \<and> py_strip x = x) acc \<Longrightarrow> distinct acc \<Longrightarrow>
   list_all (\<lambda>x. x \<noteq> [] \<and> py_strip x = x) (normalize_loop vs acc) \<and> distinct (normalize_loop vs acc)"
  by (induction vs acc rule: normalize_loop.induct) (auto simp: Let_def)

lemma normalize_loop_id:
  "list_all (\<lambda>x. x \<noteq> [] \<and> py_strip x = x) xs \<Longrightarrow> distinct (acc @ xs) \<Longrightarrow>
   normalize_loop (map PStr xs) acc = acc @ xs"
  by (induction xs arbitrary: acc) (auto simp: str_or_empty_def py_str_def)

lemma string_list_idem [simp]: "string_list (string_list v) = string_list v"
proof -
  have "list_all (\<lambda>x. x \<noteq> [] \<and> py_strip x = x) (normalize_ids v) \<and> distinct (normalize_ids v)"
    using normalize_loop_clean [of "[]"] by (auto simp: normalize_ids_def split: pyval.split simp del: normalize_loop.simps)
  then show ?thesis using normalize_loop_id [of "normalize_ids v" "[]"] by (simp add: string_list_def normalize_ids_def)
qed

lemma optional_idem [simp]:
  "optional_dict (optional_dict v) = optional_dict v" "optional_int (optional_int v) = optional_int v"
  by (auto simp: optional_dict_def optional_int_def py_int_def split: pyval.splits sum.splits)

lemma orchestration_lookup [simp]:
  "dget (orchestration_dict version plan parent deps grp parallel step rollback compensation inputs outputs limits deadline budget capabilities) ''orchestration_version'' = version"
  "dget_or (orchestration_dict version plan parent deps grp parallel step rollback compensation inputs outputs limits deadline budget capabilities) ''orchestration_version'' z = version"
  "dget (orchestration_dict version plan parent deps grp parallel step rollback compensation inputs outputs limits deadline budget capabilities) ''plan_id'' = plan"
  "dget_or (orchestration_dict version plan parent deps grp parallel step rollback compensation inputs outputs limits deadline budget capabilities) ''plan_id'' z = plan"
  "dget (orchestration_dict version plan parent deps grp parallel step rollback compensation inputs outputs limits deadline budget capabilities) ''parent_action_id'' = parent"
  "dget_or (orchestration_dict version plan parent deps grp parallel step rollback compensation inputs outputs limits deadline budget capabilities) ''parent_action_id'' z = parent"
  "dget (orchestration_dict version plan parent deps grp parallel step rollback compensation inputs outputs limits deadline budget capabilities) ''depends_on'' = deps"
  "dget_or (orchestration_dict version plan parent deps grp parallel step rollback compensation inputs outputs limits deadline budget capabilities) ''depends_on'' z = deps"
  "dget (orchestration_dict version plan parent deps grp parallel step rollback compensation inputs outputs limits deadline budget capabilities) ''execution_group'' = grp"
  "dget_or (orchestration_dict version plan parent deps grp parallel step rollback compensation inputs outputs limits deadline budget capabilities) ''execution_group'' z = grp"
  "dget (orchestration_dict version plan parent deps grp parallel step rollback compensation inputs outputs limits deadline budget capabilities) ''parallel_group'' = parallel"
  "dget_or (orchestration_dict version plan parent deps grp parallel step rollback compensation inputs outputs limits deadline budget capabilities) ''parallel_group'' z = parallel"
  "dget (orchestration_dict version plan parent deps grp parallel step rollback compensation inputs outputs limits deadline budget capabilities) ''step_position'' = step"
  "dget_or (orchestration_dict version plan parent deps grp parallel step rollback compensation inputs outputs limits deadline budget capabilities) ''step_position'' z = step"
  "dget (orchestration_dict version plan parent deps grp parallel step rollback compensation inputs outputs limits deadline budget capabilities) ''rollback_action'' = rollback"
  "dget_or (orchestration_dict version plan parent deps grp parallel step rollback compensation inputs outputs limits deadline budget capabilities) ''rollback_action'' z = rollback"
  "dget (orchestration_dict version plan parent deps grp parallel step rollback compensation inputs outputs limits deadline budget capabilities) ''compensation_action'' = compensation"
  "dget_or (orchestration_dict version plan parent deps grp parallel step rollback compensation inputs outputs limits deadline budget capabilities) ''compensation_action'' z = compensation"
  "dget (orchestration_dict version plan parent deps grp parallel step rollback compensation inputs outputs limits deadline budget capabilities) ''expected_inputs'' = inputs"
  "dget_or (orchestration_dict version plan parent deps grp parallel step rollback compensation inputs outputs limits deadline budget capabilities) ''expected_inputs'' z = inputs"
  "dget (orchestration_dict version plan parent deps grp parallel step rollback compensation inputs outputs limits deadline budget capabilities) ''produced_outputs'' = outputs"
  "dget_or (orchestration_dict version plan parent deps grp parallel step rollback compensation inputs outputs limits deadline budget capabilities) ''produced_outputs'' z = outputs"
  "dget (orchestration_dict version plan parent deps grp parallel step rollback compensation inputs outputs limits deadline budget capabilities) ''execution_constraints'' = limits"
  "dget_or (orchestration_dict version plan parent deps grp parallel step rollback compensation inputs outputs limits deadline budget capabilities) ''execution_constraints'' z = limits"
  "dget (orchestration_dict version plan parent deps grp parallel step rollback compensation inputs outputs limits deadline budget capabilities) ''deadline'' = deadline"
  "dget_or (orchestration_dict version plan parent deps grp parallel step rollback compensation inputs outputs limits deadline budget capabilities) ''deadline'' z = deadline"
  "dget (orchestration_dict version plan parent deps grp parallel step rollback compensation inputs outputs limits deadline budget capabilities) ''cost_budget'' = budget"
  "dget_or (orchestration_dict version plan parent deps grp parallel step rollback compensation inputs outputs limits deadline budget capabilities) ''cost_budget'' z = budget"
  "dget (orchestration_dict version plan parent deps grp parallel step rollback compensation inputs outputs limits deadline budget capabilities) ''required_capabilities'' = capabilities"
  "dget_or (orchestration_dict version plan parent deps grp parallel step rollback compensation inputs outputs limits deadline budget capabilities) ''required_capabilities'' z = capabilities"
  by (simp_all add: orchestration_dict_def dget_or_def)

lemma context_lookup [simp]:
  "dget (context_dict aid kind scope requested priority timeout retry payload metadata orchestration created version) ''action_id'' = aid"
  "dget (context_dict aid kind scope requested priority timeout retry payload metadata orchestration created version) ''action_type'' = kind"
  "dget (context_dict aid kind scope requested priority timeout retry payload metadata orchestration created version) ''action_scope'' = scope"
  "dget (context_dict aid kind scope requested priority timeout retry payload metadata orchestration created version) ''requested_by'' = requested"
  "dget (context_dict aid kind scope requested priority timeout retry payload metadata orchestration created version) ''priority'' = priority"
  "dget (context_dict aid kind scope requested priority timeout retry payload metadata orchestration created version) ''timeout_seconds'' = timeout"
  "dget (context_dict aid kind scope requested priority timeout retry payload metadata orchestration created version) ''retry_policy'' = retry"
  "dget (context_dict aid kind scope requested priority timeout retry payload metadata orchestration created version) ''payload'' = payload"
  "dget (context_dict aid kind scope requested priority timeout retry payload metadata orchestration created version) ''metadata'' = metadata"
  "dget (context_dict aid kind scope requested priority timeout retry payload metadata orchestration created version) ''orchestration'' = orchestration"
  "dget (context_dict aid kind scope requested priority timeout retry payload metadata orchestration created version) ''created_at'' = created"
  "dget (context_dict aid kind scope requested priority timeout retry payload metadata orchestration created version) ''context_version'' = version"
  "dget (context_dict aid kind scope requested priority timeout retry payload metadata orchestration created version) ''plan_id'' = PNone"
  "dget (context_dict aid kind scope requested priority timeout retry payload metadata orchestration created version) ''parent_action_id'' = PNone"
  "dget (context_dict aid kind scope requested priority timeout retry payload metadata orchestration created version) ''execution_group'' = PNone"
  "dget (context_dict aid kind scope requested priority timeout retry payload metadata orchestration created version) ''parallel_group'' = PNone"
  by (simp_all add: context_dict_def)

lemma py_or_none [simp]: "py_or (py_or v PNone) PNone = py_or v PNone" "truthy v \<Longrightarrow> py_or v w = v"
  by (simp_all add: py_or_def)

text \<open>\<open>float(x)\<close> of a float is that float.\<close>

definition float_stable :: "(pyval \<Rightarrow> (pydec \<times> pyval) option) \<Rightarrow> bool" where
  "float_stable fl = (\<forall>v x w. fl v = Some (x, w) \<longrightarrow> fl w = Some (x, w) \<and> w \<noteq> PNone \<and> w \<noteq> PStr [])"

lemma optional_float_idem:
  "float_stable fl \<Longrightarrow>
   optional_float fl (optional_float fl v) = optional_float fl v"
  by (auto simp: optional_float_def float_stable_def split: option.split)

text \<open>Normalising a normal form only replaces identifiers that are false by \<open>None\<close>, and false numbers.\<close>

definition settled_context :: "(pyval \<Rightarrow> (pydec \<times> pyval) option) \<Rightarrow> pydict \<Rightarrow> bool" where
  "settled_context fl nf =
     (\<exists>aid kind scope requested priority timeout retry payload metadata created version
        oversion plan parent deps grp parallel step rollback compensation inputs outputs limits deadline budget capabilities.
      nf = context_dict (PStr aid) kind scope requested priority (PInt timeout) (PDict retry) (PDict payload) (PDict metadata)
        (PDict (orchestration_dict oversion plan parent (string_list deps) grp parallel (optional_int step)
          (PDict rollback) (PDict compensation) (PDict inputs) (PDict outputs) (PDict limits) (optional_int deadline)
          (optional_float fl budget) (string_list capabilities))) (PInt created) version \<and>
      aid \<noteq> [] \<and> py_strip aid = aid \<and> truthy requested \<and> truthy priority \<and> timeout \<noteq> 0 \<and> created \<noteq> 0 \<and>
      truthy version \<and> truthy oversion \<and> list_all (\<lambda>v. py_or v PNone = v) [plan, parent, grp, parallel])"

lemma settled_fixpoint:
  assumes "settled_context fl nf"
    and "float_stable fl"
  shows "normalize_action_context fl uuid now nf = Inr nf"
  using assms(1) unfolding settled_context_def
  by (elim exE conjE) (simp add: normalize_action_context_def normalize_orchestration_def py_int_def py_str_def is_dict_def
      optional_dict_def optional_float_idem [OF assms(2)])

definition normal_context :: "(pyval \<Rightarrow> (pydec \<times> pyval) option) \<Rightarrow> pydict \<Rightarrow> bool" where
  "normal_context fl nf =
     (\<exists>aid kind scope requested priority timeout retry payload metadata created version
        oversion plan parent deps grp parallel step rollback compensation inputs outputs limits deadline budget capabilities.
      nf = context_dict (PStr aid) kind scope requested priority (PInt timeout) (PDict retry) (PDict payload) (PDict metadata)
        (PDict (orchestration_dict oversion plan parent (string_list deps) grp parallel (optional_int step)
          (PDict rollback) (PDict compensation) (PDict inputs) (PDict outputs) (PDict limits) (optional_int deadline)
          (optional_float fl budget) (string_list capabilities))) (PInt created) version \<and>
      py_strip aid = aid \<and> truthy requested \<and> truthy priority \<and> truthy version \<and> truthy oversion)"

lemma dict_cases: "optional_dict v = PDict (as_dict v)"
  by (cases v) (simp_all add: optional_dict_def as_dict_def)

lemma retry_cases:
  "(if is_dict v then v else PDict d) = PDict (if is_dict v then as_dict v else d)"
  by (cases v) (simp_all add: is_dict_def)

lemma truthy_or: "truthy (py_or v (PStr (c # cs)))"
  by (simp add: py_or_def)

lemma first_form_normal:
  assumes "normalize_action_context fl u t ctx = Inr nf"
  shows "normal_context fl nf"
proof -
  from assms obtain timeout created where "nf = context_dict (PStr (py_strip (py_str (py_or (dget ctx ''action_id'') (PStr u)))))
              (dget ctx ''action_type'') (dget ctx ''action_scope'')
              (py_or (dget ctx ''requested_by'') (PStr ''iat_protocol''))
              (py_or (dget ctx ''priority'') (PStr ''normal'')) (PInt timeout)
              (if is_dict (dget ctx ''retry_policy'') then dget ctx ''retry_policy'' else PDict default_retry_policy)
              (optional_dict (dget ctx ''payload'')) (optional_dict (dget ctx ''metadata''))
              (PDict (normalize_orchestration fl ctx)) (PInt created)
              (py_or (dget ctx ''context_version'') (PStr ''action_context_v2''))"
    by (auto simp: normalize_action_context_def sum_bind_Inr)
  then show ?thesis
    unfolding normal_context_def normalize_orchestration_def Let_def dict_cases retry_cases
    by (intro exI conjI) (assumption | rule truthy_or py_strip_idem)+
qed

lemma normal_again:
  assumes "normal_context fl nf1" and "float_stable fl" and "py_strip u \<noteq> []" and "t \<noteq> 0"
  shows "\<exists>nf. normalize_action_context fl u t nf1 = Inr nf \<and> settled_context fl nf"
  using assms(1) unfolding normal_context_def
proof (elim exE conjE)
  fix aid kind scope requested priority timeout retry payload metadata created version
     oversion plan parent deps grp parallel step rollback compensation inputs outputs limits deadline budget capabilities
  assume nf1: "nf1 = context_dict (PStr aid) kind scope requested priority (PInt timeout) (PDict retry) (PDict payload)
        (PDict metadata) (PDict (orchestration_dict oversion plan parent (string_list deps) grp parallel (optional_int step)
          (PDict rollback) (PDict compensation) (PDict inputs) (PDict outputs) (PDict limits) (optional_int deadline)
          (optional_float fl budget) (string_list capabilities))) (PInt created) version"
    and aid: "py_strip aid = aid" and truths: "truthy requested" "truthy priority" "truthy version" "truthy oversion"
  let ?aid = "if aid \<noteq> [] then aid else py_strip u"
  let ?nf = "context_dict (PStr ?aid) kind scope requested priority (PInt (if timeout \<noteq> 0 then timeout else 300))
        (PDict retry) (PDict payload) (PDict metadata)
        (PDict (orchestration_dict oversion (py_or plan PNone) (py_or parent PNone) (string_list deps) (py_or grp PNone)
          (py_or parallel PNone) (optional_int step)
          (PDict rollback) (PDict compensation) (PDict inputs) (PDict outputs) (PDict limits) (optional_int deadline)
          (optional_float fl budget) (string_list capabilities))) (PInt (if created \<noteq> 0 then created else t)) version"
  have ors: "py_int (py_or (PInt i) (PInt j)) = Inr (if i \<noteq> 0 then i else j)"
    "py_strip (py_str (py_or (PStr aid) (PStr u))) = ?aid" for i j
    using aid by (simp_all add: py_or_def py_int_def py_str_def)
  have "normalize_action_context fl u t nf1 = Inr ?nf"
    by (simp add: nf1 normalize_action_context_def normalize_orchestration_def ors truths dict_cases is_dict_def
        optional_float_idem [OF assms(2)])
  moreover have "settled_context fl ?nf"
    unfolding settled_context_def
    by ((rule exI)+, intro conjI, rule refl) (use aid truths assms(3,4) in simp_all)
  ultimately show ?thesis by blast
qed

text \<open>
  The stored form of an action is stable: submitting normalises a context twice (when it is built
  and when it is validated), the second normalisation never raises, and the form it yields, which the queue
  keeps, is left unchanged by every later normalisation, so that it is validated and executed as it
  was submitted. One normalisation is not enough: a false identifier such as the empty text turns into
  \<open>None\<close> and a zero timeout into 300 only the second time.
\<close>

theorem stored_context_stable:
  assumes "normalize_action_context fl u1 t1 ctx = Inr nf1"
    and "float_stable fl"
    and "py_strip u2 \<noteq> []" and "t2 \<noteq> 0"
  shows "\<exists>nf. normalize_action_context fl u2 t2 nf1 = Inr nf \<and> normalize_action_context fl u3 t3 nf = Inr nf"
  using normal_again [OF first_form_normal [OF assms(1)] assms(2-4)] settled_fixpoint [OF _ assms(2)] by blast

definition first_form :: pydict where
  "first_form = context_dict (PStr ''a'') (PStr ''k'') (PStr ''s'') (PStr ''iat_protocol'') (PStr ''normal'') (PInt 0)
     (PDict default_retry_policy) (PDict []) (PDict [])
     (PDict (orchestration_dict (PStr ''iat_orchestration_context_v1'') (PStr []) PNone (PList [PStr ''b'']) PNone PNone
        (PInt 3) (PDict []) (PDict []) (PDict []) (PDict []) (PDict []) PNone PNone (PList []))) (PInt 7)
     (PStr ''action_context_v2'')"

theorem stored_context_stable_witness:
  "\<exists>nf. normalize_action_context (\<lambda>_. None) ''u'' 9 first_form = Inr nf \<and>
     normalize_action_context (\<lambda>_. None) ''v'' 10 nf = Inr nf"
proof (rule stored_context_stable)
  show "normalize_action_context (\<lambda>_. None) ''u'' 7
    [(''action_id'', PStr '' a ''), (''action_type'', PStr ''k''), (''action_scope'', PStr ''s''),
     (''timeout_seconds'', PStr ''0''), (''plan_id'', PStr []), (''depends_on'', PStr ''b''),
     (''orchestration'', PDict [(''step_position'', PStr ''3'')])] = Inr first_form"
    by (simp add: normalize_action_context_def normalize_orchestration_def first_form_def py_int_def py_str_def is_dict_def
        optional_dict_def optional_int_def optional_float_def string_list_def normalize_ids_def as_dict_def dget_or_def
        str_or_empty_def py_or_def py_strip_def py_lstrip_def py_space_def py_int_of_string_def is_digit_def digit_val_def
        nat_of_digits_def)
qed (simp_all add: float_stable_def py_strip_def py_lstrip_def py_space_def)

end
