(* ===== verification/SettlementAction.thy ===== *)
theory SettlementAction
  imports SettlementBooks
begin

text \<open>
  The settlement action (\<open>execute_settlement_atomic_action\<close> of
  \<open>iat/action_engine/adapters/settlement_atomic.py\<close>): the checks before a release, the execution claim, the
  broadcast through the wallet sidecar, and the record of its signature or of its failure. The broadcast
  (\<open>send_iat_split_atomic\<close>) talks to a Solana node and to the wallet process; it is the parameter \<open>send\<close>,
  which answers an error text or the returned value. The action commits between its calls to the
  settlement store, so it is split into the steps between two commits, which the whole action runs in
  order and which the system below interleaves. The last section shows that a permit does not bind the amounts
  that a release sends. A \<open>float\<close> is a decimal number, NaN or an infinity.
\<close>

section \<open>The checks before the claim\<close>

record release_request =
  rr_type :: pyval
  rr_scope :: pyval
  rr_settlement_id :: pyval
  rr_order_id :: pyval
  rr_treasury :: pyval
  rr_winner :: pyval
  rr_permit :: pyval
  rr_commission :: pyval
  rr_payout :: pyval
  rr_now :: int

definition build_action_result :: "int \<Rightarrow> string \<Rightarrow> pyval \<Rightarrow> pyval \<Rightarrow> pyval \<Rightarrow> pyval \<Rightarrow> pydict \<Rightarrow> pydict" where
  "build_action_result now status action_type action_scope reason err result =
     [(''status'', PStr status), (''action_type'', action_type), (''action_scope'', action_scope),
      (''result'', PDict result), (''reason'', reason), (''error'', err), (''executed_at'', PInt now)]"

definition action_answer :: "release_request \<Rightarrow> string \<Rightarrow> pyval \<Rightarrow> pyval \<Rightarrow> pydict \<Rightarrow> pydict" where
  "action_answer q status reason err result =
     build_action_result (rr_now q) status (rr_type q) (rr_scope q) reason err
       ([(''settlement_id'', rr_settlement_id q), (''order_id'', rr_order_id q)] @ result)"

definition negative_number :: "pydec \<Rightarrow> bool" where
  "negative_number x = (case x of DNaN \<Rightarrow> False | DInf neg \<Rightarrow> neg | DFin d \<Rightarrow> dec_lt d dec_zero)"

text \<open>The sum of two numbers that are not negative is not positive: both are zero.\<close>

definition zero_number :: "pydec \<Rightarrow> bool" where
  "zero_number x = (case x of DFin d \<Rightarrow> dcoef d = 0 | _ \<Rightarrow> False)"

definition sidecar_configured :: "env \<Rightarrow> bool" where
  "sidecar_configured getenv =
     (py_strip (case getenv ''IAT_ESCROW_WALLET'' of None \<Rightarrow> [] | Some w \<Rightarrow> w) \<noteq> [] \<and>
      py_strip (case getenv ''IAT_SETTLEMENT_WALLET_SIDECAR_URL'' of
                  None \<Rightarrow> ''http://127.0.0.1:10000/internal/settlement-wallet'' | Some u \<Rightarrow> u) \<noteq> [] \<and>
      16 \<le> length (case getenv ''IAT_SETTLEMENT_WALLET_SIDECAR_TOKEN'' of None \<Rightarrow> [] | Some t \<Rightarrow> t))"

definition onchain_settlement_on :: "env \<Rightarrow> bool" where
  "onchain_settlement_on getenv =
     (py_lower (case getenv ''IAT_ENABLE_ONCHAIN_SETTLEMENT'' of None \<Rightarrow> ''false'' | Some t \<Rightarrow> t) = ''true'')"

text \<open>
  The payload is a dict. \<open>fl v\<close> is \<open>float(v)\<close>, as a number and as a value, or the text of its \<open>TypeError\<close> or
  \<open>ValueError\<close>.
\<close>

definition release_checks :: "env \<Rightarrow> (pyval \<Rightarrow> string + pydec \<times> pyval) \<Rightarrow> int \<Rightarrow> pydict \<Rightarrow> pydict + release_request" where
  "release_checks getenv fl now action_request =
     (let payload = as_dict (dget action_request ''payload'');
          action_type = dget_or action_request ''action_type'' (PStr ''settlement_release'');
          action_scope = dget_or action_request ''action_scope'' (PStr ''financial_settlement'');
          ids = [(''settlement_id'', dget payload ''settlement_id''), (''order_id'', dget payload ''order_id'')];
          failed = (\<lambda>err. build_action_result now ''action_failed'' action_type action_scope
                      (PStr ''invalid_settlement_amount'') (PStr err) ids);
          blocked = (\<lambda>reason extra. build_action_result now ''action_blocked'' action_type action_scope
                      (PStr reason) PNone (ids @ extra));
          permit = py_or (dget payload ''execution_permit_id'') (dget payload ''permit_id'')
      in case fl (py_or (dget payload ''protocol_commission_amount_iat'') (PInt 0)) of
           Inl err \<Rightarrow> Inl (failed err)
         | Inr (commission, commission_amount) \<Rightarrow>
         (case fl (py_or (dget payload ''seller_payout_amount_iat'') (PInt 0)) of
            Inl err \<Rightarrow> Inl (failed err)
          | Inr (payout, payout_amount) \<Rightarrow>
              if \<not> onchain_settlement_on getenv \<or> dget payload ''onchain_settlement_enabled'' \<noteq> PBool True
              then Inl (blocked ''onchain_settlement_not_enabled''
                          [(''environment_enabled'', PBool (onchain_settlement_on getenv)),
                           (''payload_enabled'', PBool (dget payload ''onchain_settlement_enabled'' = PBool True))])
              else if \<not> sidecar_configured getenv
              then Inl (blocked ''isolated_settlement_sidecar_not_configured''
                          [(''private_key_required_by_api'', PBool False)])
              else if \<not> truthy (dget payload ''treasury_wallet'')
              then Inl (blocked ''treasury_wallet_missing'' [])
              else if \<not> truthy (dget payload ''winner_wallet'')
              then Inl (blocked ''winner_wallet_missing'' [])
              else if negative_number commission \<or> negative_number payout
              then Inl (blocked ''negative_settlement_amount''
                          [(''commission_amount_iat'', commission_amount), (''seller_payout_amount_iat'', payout_amount)])
              else if zero_number commission \<and> zero_number payout
              then Inl (blocked ''settlement_total_amount_must_be_positive'' [])
              else if \<not> truthy permit
              then Inl (blocked ''settlement_execution_permit_required''
                          [(''broadcast_performed'', PBool False),
                           (''execution_guard'', PStr ''settlement_execution_guard_v2'')])
              else Inr \<lparr> rr_type = action_type, rr_scope = action_scope,
                         rr_settlement_id = dget payload ''settlement_id'', rr_order_id = dget payload ''order_id'',
                         rr_treasury = dget payload ''treasury_wallet'', rr_winner = dget payload ''winner_wallet'',
                         rr_permit = permit, rr_commission = commission_amount, rr_payout = payout_amount, rr_now = now \<rparr>))"

section \<open>The steps of a release\<close>

definition release_sid :: "release_request \<Rightarrow> string" where
  "release_sid q = str_or_empty (rr_settlement_id q)"

datatype release_failure = SignatureMissing | SendFailed string | NotPersisted string pydict

datatype phase =
    Claiming release_request
  | Sending release_request pydict
  | Recording release_request pydict string
  | Failing release_request pydict release_failure
  | Finished pydict

text \<open>After the claim: an existing submission, a refusal, or the broadcast.\<close>

definition after_claim :: "release_request \<Rightarrow> pydict \<Rightarrow> phase" where
  "after_claim q claim =
     (if dget claim ''status'' = PStr ''settlement_already_submitted''
      then (let existing = dget claim ''atomic_tx_signature'' in
            Finished (action_answer q ''settlement_release_submitted''
              (PStr ''atomic_settlement_idempotent_existing_submission'') PNone
              [(''execution_mode'', PStr ''onchain_atomic''), (''broadcast_performed'', PBool False),
               (''idempotent'', PBool True), (''atomic_tx_signature'', existing),
               (''commission_tx_signature'', py_or (dget claim ''commission_tx_signature'') existing),
               (''seller_payout_tx_signature'', py_or (dget claim ''seller_payout_tx_signature'') existing),
               (''execution_guard'', PDict claim)]))
      else if \<not> truthy (dget claim ''broadcast_allowed'')
      then Finished (action_answer q ''action_blocked''
             (py_or (dget claim ''reason'') (PStr ''settlement_execution_claim_not_acquired'')) (dget claim ''error'')
             [(''broadcast_performed'', PBool False), (''idempotent'', PBool (truthy (dget claim ''idempotent''))),
              (''execution_guard'', PDict claim)])
      else Sending q claim)"

definition broadcast_arguments :: "env \<Rightarrow> release_request \<Rightarrow> pydict \<Rightarrow> pydict" where
  "broadcast_arguments getenv q claim =
     [(''escrow_wallet'', PStr (py_strip (case getenv ''IAT_ESCROW_WALLET'' of None \<Rightarrow> [] | Some w \<Rightarrow> w))),
      (''sidecar_url'', PStr (py_strip (case getenv ''IAT_SETTLEMENT_WALLET_SIDECAR_URL'' of
          None \<Rightarrow> ''http://127.0.0.1:10000/internal/settlement-wallet'' | Some u \<Rightarrow> u))),
      (''sidecar_token'', PStr (case getenv ''IAT_SETTLEMENT_WALLET_SIDECAR_TOKEN'' of None \<Rightarrow> [] | Some t \<Rightarrow> t)),
      (''treasury_address'', rr_treasury q), (''winner_address'', rr_winner q),
      (''commission_amount'', rr_commission q), (''seller_payout_amount'', rr_payout q),
      (''settlement_id'', rr_settlement_id q), (''order_id'', rr_order_id q),
      (''execution_permit'', dget claim ''execution_permit''),
      (''memo_text'', PStr (''IAT_SETTLEMENT:'' @ py_str (rr_settlement_id q) @ '':'' @ py_str (rr_order_id q)))]"

definition after_send :: "release_request \<Rightarrow> pydict \<Rightarrow> string + pyval \<Rightarrow> phase" where
  "after_send q claim answer =
     (case answer of
        Inl err \<Rightarrow> Failing q claim (SendFailed err)
      | Inr signature \<Rightarrow>
          if \<not> truthy signature then Failing q claim SignatureMissing
          else Recording q claim (py_str signature))"

definition after_record :: "release_request \<Rightarrow> pydict \<Rightarrow> string \<Rightarrow> pydict \<Rightarrow> phase" where
  "after_record q claim signature broadcast_record =
     (if \<not> truthy (dget broadcast_record ''recorded'')
      then Failing q claim (NotPersisted signature broadcast_record)
      else Finished (action_answer q ''settlement_release_submitted''
             (PStr ''atomic_settlement_transaction_submitted'') PNone
             [(''execution_mode'', PStr ''onchain_atomic''), (''atomic_tx_signature'', PStr signature),
              (''commission_tx_signature'', PStr signature), (''seller_payout_tx_signature'', PStr signature),
              (''commission_amount_iat'', rr_commission q), (''seller_payout_amount_iat'', rr_payout q),
              (''treasury_wallet'', rr_treasury q), (''winner_wallet'', rr_winner q),
              (''broadcast_performed'', PBool True), (''idempotent'', PBool False),
              (''execution_claim_token'', dget claim ''claim_token''), (''execution_guard'', PDict claim),
              (''broadcast_record'', PDict broadcast_record), (''signature_persisted'', PBool True)]))"

definition failure_text :: "release_failure \<Rightarrow> string" where
  "failure_text f =
     (case f of
        SignatureMissing \<Rightarrow> ''atomic_transaction_signature_missing''
      | SendFailed err \<Rightarrow> err
      | NotPersisted signature r \<Rightarrow>
          py_str (py_or (dget r ''error'') (py_or (dget r ''reason'') (PStr ''atomic_signature_persistence_failed''))))"

definition after_error :: "release_request \<Rightarrow> pydict \<Rightarrow> release_failure \<Rightarrow> pydict \<Rightarrow> pydict" where
  "after_error q claim f error_record =
     (case f of
        SignatureMissing \<Rightarrow>
          action_answer q ''action_failed'' (PStr ''atomic_transaction_signature_missing'') PNone
            [(''broadcast_performed'', PNone), (''broadcast_state'', PStr ''unknown''),
             (''execution_claim_token'', dget claim ''claim_token''), (''execution_guard'', PDict claim),
             (''execution_error_record'', PDict error_record), (''automatic_retry_allowed'', PBool False)]
      | SendFailed err \<Rightarrow>
          action_answer q ''action_failed'' (PStr ''atomic_settlement_transaction_failed'') (PStr err)
            [(''broadcast_performed'', PNone), (''broadcast_state'', PStr ''unknown''),
             (''execution_claim_token'', dget claim ''claim_token''), (''execution_guard'', PDict claim),
             (''execution_error_record'', PDict error_record), (''automatic_retry_allowed'', PBool False)]
      | NotPersisted signature broadcast_record \<Rightarrow>
          action_answer q ''action_failed'' (PStr ''atomic_signature_persistence_failed'') (dget broadcast_record ''error'')
            [(''atomic_tx_signature'', PStr signature), (''commission_tx_signature'', PStr signature),
             (''seller_payout_tx_signature'', PStr signature), (''broadcast_performed'', PBool True),
             (''broadcast_state'', PStr ''submitted_unpersisted''), (''signature_persisted'', PBool False),
             (''automatic_retry_allowed'', PBool False), (''execution_claim_token'', dget claim ''claim_token''),
             (''execution_guard'', PDict claim), (''broadcast_record'', PDict broadcast_record),
             (''execution_error_record'', PDict error_record)])"

text \<open>One step: the next phase, the settlements broadcast in it, and the database after its commit.\<close>

record release_env =
  re_env :: env
  re_sha :: "string \<Rightarrow> string"
  re_token :: string
  re_send :: "pydict \<Rightarrow> string + pyval"

definition claim_token_of :: "pydict \<Rightarrow> string" where
  "claim_token_of claim = str_or_empty (dget claim ''claim_token'')"

fun release_step :: "release_env \<Rightarrow> int \<Rightarrow> phase \<Rightarrow> pdb \<Rightarrow> pdb \<Rightarrow> phase \<times> string list \<times> pdb" where
  "release_step w now (Claiming q) snap db =
     (case claim_settlement_execution_db (re_sha w) (re_token w) now (py_str (rr_permit q)) (release_sid q) snap db of
        (claim, db') \<Rightarrow> (after_claim q claim, [], db'))"
| "release_step w now (Sending q claim) snap db =
     (after_send q claim (re_send w (broadcast_arguments (re_env w) q claim)), [release_sid q], db)"
| "release_step w now (Recording q claim signature) snap db =
     (case record_settlement_broadcast_db now (release_sid q) (claim_token_of claim) signature db of
        (r, db') \<Rightarrow> (after_record q claim signature r, [], db'))"
| "release_step w now (Failing q claim f) snap db =
     (case mark_settlement_execution_error_db now (release_sid q) (claim_token_of claim) (failure_text f) ''unknown'' db of
        (r, db') \<Rightarrow> (Finished (after_error q claim f r), [], db'))"
| "release_step w now (Finished answer) snap db = (Finished answer, [], db)"

text \<open>The whole action without interference; four steps are enough.\<close>

fun release_steps :: "nat \<Rightarrow> release_env \<Rightarrow> int \<Rightarrow> phase \<Rightarrow> pdb \<Rightarrow> phase \<times> string list \<times> pdb" where
  "release_steps 0 w now ph db = (ph, [], db)"
| "release_steps (Suc n) w now ph db =
     (case release_step w now ph db db of
        (ph1, sent1, db1) \<Rightarrow>
          (case release_steps n w now ph1 db1 of (ph2, sent2, db2) \<Rightarrow> (ph2, sent1 @ sent2, db2)))"

definition execute_settlement_atomic_action ::
  "release_env \<Rightarrow> (pyval \<Rightarrow> string + pydec \<times> pyval) \<Rightarrow> int \<Rightarrow> pydict \<Rightarrow> pdb \<Rightarrow> pydict \<times> string list \<times> pdb" where
  "execute_settlement_atomic_action w fl now action_request db =
     (case release_checks (re_env w) fl now action_request of
        Inl answer \<Rightarrow> (answer, [], db)
      | Inr q \<Rightarrow>
          (case release_steps 4 w now (Claiming q) db of
             (Finished answer, sent, db') \<Rightarrow> (answer, sent, db')
           | (_, sent, db') \<Rightarrow> ([], sent, db')))"

section \<open>Many releases at once\<close>

text \<open>
  The server at work: numbered sessions, each releasing a settlement, and other operations on the
  settlement store (recordings, status updates, recoveries, further claims) in between. Every step may
  read an arbitrarily old database. \<open>wd_sent\<close> lists the broadcasts in order.
\<close>

record world =
  wd_db :: pdb
  wd_sessions :: "nat \<Rightarrow> phase"
  wd_sent :: "string list"

inductive system_step :: "world \<Rightarrow> world \<Rightarrow> bool" where
  session: "release_step w now (wd_sessions x i) snap (wd_db x) = (ph, sent, db') \<Longrightarrow>
    system_step x (x \<lparr> wd_db := db', wd_sessions := (wd_sessions x)(i := ph), wd_sent := wd_sent x @ sent \<rparr>)"
| other: "system_step x (x \<lparr> wd_db := run_op sha op snap (wd_db x) \<rparr>)"

inductive_cases system_stepE: "system_step x y"

text \<open>Sessions start before their claim.\<close>

definition starting :: "world \<Rightarrow> bool" where
  "starting x = (settlements_wf (wd_db x) \<and> wd_sent x = [] \<and>
     (\<forall>i. case wd_sessions x i of Claiming q \<Rightarrow> True | Finished a \<Rightarrow> True | _ \<Rightarrow> False))"

definition sending :: "string \<Rightarrow> phase \<Rightarrow> bool" where
  "sending sid ph = (case ph of Sending q claim \<Rightarrow> release_sid q = sid | _ \<Rightarrow> False)"

definition claim_closed :: "string \<Rightarrow> pdb \<Rightarrow> bool" where
  "claim_closed sid db = (\<exists>r. find_settlement sid db = Some r \<and> \<not> claim_open r)"

text \<open>A session between its claim and its broadcast holds the only right to broadcast.\<close>

definition send_inv :: "string \<Rightarrow> world \<Rightarrow> bool" where
  "send_inv sid x \<longleftrightarrow> settlements_wf (wd_db x) \<and> count_list (wd_sent x) sid \<le> 1 \<and>
     (sid \<in> set (wd_sent x) \<longrightarrow> claim_closed sid (wd_db x)) \<and>
     (\<forall>i. sending sid (wd_sessions x i) \<longrightarrow> claim_closed sid (wd_db x) \<and> sid \<notin> set (wd_sent x) \<and>
        (\<forall>j. sending sid (wd_sessions x j) \<longrightarrow> j = i))"

lemma closed_kept: "settlements_wf db \<Longrightarrow> claim_closed sid db \<Longrightarrow> claim_closed sid (run_op sha op snap db)"
  unfolding claim_closed_def by (meson claim_stays_closed run_op_row)

text \<open>Apart from the broadcast, a step is an operation of the settlement store; a claim that leads to a
  broadcast was granted on an open settlement and closes it.\<close>

lemma step_op:
  assumes "release_step w now ph snap db = (ph', sent, db')"
  shows "db' = db \<or> (\<exists>op. db' = run_op (re_sha w) op snap db)"
proof (cases ph)
  case (Claiming q)
  then show ?thesis using assms
    by (intro disjI2 exI [of _ "ClaimExecution (re_token w) now (py_str (rr_permit q)) (release_sid q)"])
       (auto simp: case_prod_beta)
next
  case (Recording q claim signature)
  then show ?thesis using assms
    by (intro disjI2 exI [of _ "RecordBroadcast now (release_sid q) (claim_token_of claim) signature"])
       (auto simp: case_prod_beta)
next
  case (Failing q claim f)
  then show ?thesis using assms
    by (intro disjI2 exI [of _ "MarkError now (release_sid q) (claim_token_of claim) (failure_text f) ''unknown''"])
       (auto simp: case_prod_beta)
qed (use assms in auto)

lemma truthy_allowed:
  assumes "claim_settlement_execution_db sha token now pid sid snap db = (res, db')"
    and "truthy (dget res ''broadcast_allowed'')"
  shows "dget res ''broadcast_allowed'' = PBool True"
  using assms(1) by (cases rule: claim_cases) (use assms(2) in simp_all)

lemma step_sends: "release_step w now ph snap db = (ph', sent, db') \<Longrightarrow>
    (if \<exists>q c. ph = Sending q c then sent = [release_sid (case ph of Sending q c \<Rightarrow> q)] \<and> \<not> sending sid ph' \<and> db' = db
     else sent = [])"
  by (cases ph) (auto simp: case_prod_beta after_send_def sending_def split: sum.splits if_splits)

lemma step_to_sending:
  assumes "settlements_wf db" and "release_step w now ph snap db = (ph', sent, db')"
    and "sending sid ph'" and "\<not> sending sid ph"
  shows "\<not> claim_closed sid db \<and> claim_closed sid db' \<and> sent = []"
proof -
  obtain q where q: "ph = Claiming q" using assms(2-4)
    by (cases ph) (auto simp: case_prod_beta after_send_def after_record_def sending_def split: sum.splits if_splits)
  let ?op = "ClaimExecution (re_token w) now (py_str (rr_permit q)) (release_sid q)"
  let ?c = "fst (claim_settlement_execution_db (re_sha w) (re_token w) now (py_str (rr_permit q)) (release_sid q) snap db)"
  have ph': "ph' = after_claim q ?c" and db': "db' = run_op (re_sha w) ?op snap db" and sent: "sent = []"
    using assms(2) q by (auto simp: case_prod_beta)
  have sid: "release_sid q = sid" and allowed: "truthy (dget ?c ''broadcast_allowed'')"
    using assms(3) by (auto simp: ph' after_claim_def sending_def Let_def split: if_splits)
  have "dget ?c ''broadcast_allowed'' = PBool True"
    by (rule truthy_allowed [OF prod.collapse [symmetric] allowed])
  then have "(sid, py_str (rr_permit q)) \<in> set (claim_grant (re_sha w) ?op snap db)" by (simp add: claim_grant_def sid)
  from grant_effect [OF assms(1) this] obtain r r' where "find_settlement sid db = Some r" "claim_open r"
    "find_settlement sid (run_op (re_sha w) ?op snap db) = Some r'" "\<not> claim_open r'" .
  then show ?thesis by (auto simp only: claim_closed_def db' sent option.inject)
qed

lemma send_inv_step: "send_inv sid x \<Longrightarrow> system_step x y \<Longrightarrow> send_inv sid y"
proof (erule system_stepE)
  fix sha op snap
  assume inv: "send_inv sid x" and y: "y = x \<lparr>wd_db := run_op sha op snap (wd_db x)\<rparr>"
  have wf: "settlements_wf (run_op sha op snap (wd_db x))"
    and closed: "claim_closed sid (wd_db x) \<Longrightarrow> claim_closed sid (run_op sha op snap (wd_db x))"
    using inv run_op_wf closed_kept unfolding send_inv_def by blast+
  show "send_inv sid y" using inv wf closed by (auto simp: send_inv_def y)
next
  fix w now i snap ph sent db'
  assume inv: "send_inv sid x" and step: "release_step w now (wd_sessions x i) snap (wd_db x) = (ph, sent, db')"
    and y: "y = x \<lparr>wd_db := db', wd_sessions := (wd_sessions x)(i := ph), wd_sent := wd_sent x @ sent\<rparr>"
  have wf: "settlements_wf db'" and closed: "claim_closed sid (wd_db x) \<Longrightarrow> claim_closed sid db'"
    using step_op [OF step] inv run_op_wf closed_kept unfolding send_inv_def by blast+
  consider (send) "sending sid (wd_sessions x i)" | (claim) "\<not> sending sid (wd_sessions x i)" "sending sid ph"
    | (rest) "\<not> sending sid (wd_sessions x i)" "\<not> sending sid ph" by blast
  then show "send_inv sid y"
  proof cases
    case send
    then have "sent = [sid]" "\<not> sending sid ph"
      using step_sends [OF step, of sid] by (auto simp: sending_def split: phase.splits)
    then show ?thesis using inv send wf closed by (auto simp: send_inv_def y count_list_0_iff)
  next
    case claim
    then have "\<not> claim_closed sid (wd_db x)" "claim_closed sid db'" "sent = []"
      using step_to_sending [OF _ step] inv by (auto simp: send_inv_def)
    then show ?thesis using inv wf by (auto simp: send_inv_def y)
  next
    case rest
    then have "sid \<notin> set sent"
      using step_sends [OF step, of sid] by (auto simp: sending_def split: phase.splits if_splits)
    then show ?thesis using inv rest wf closed by (auto simp: send_inv_def y count_list_0_iff)
  qed
qed

text \<open>
  C2: money is released at most once: however many sessions release settlements at the same time,
  interleaved with any other operations and reading data of any age, the transaction of a settlement
  is handed to the wallet at most once.
\<close>

theorem release_sent_once:
  assumes "starting x0" and "system_step\<^sup>*\<^sup>* x0 x"
  shows "count_list (wd_sent x) sid \<le> 1"
proof -
  have "send_inv sid x0"
    using assms(1) by (auto simp: starting_def send_inv_def sending_def split: phase.splits)
  with assms(2) have "send_inv sid x" by (induction rule: rtranclp_induct) (auto intro: send_inv_step)
  then show ?thesis by (simp add: send_inv_def)
qed

definition release_world :: world where
  "release_world =
     \<lparr> wd_db = sample_pdb \<lparr> permits := [sample_permit] \<rparr>,
       wd_sessions = (\<lambda>i. Claiming \<lparr> rr_type = PNone, rr_scope = PNone, rr_settlement_id = PStr ''s1'',
          rr_order_id = PStr ''o1'', rr_treasury = PStr ''T'', rr_winner = PStr ''W'', rr_permit = PStr ''p1'',
          rr_commission = PStr ''1.0'', rr_payout = PStr ''4.0'', rr_now = 5 \<rparr>), wd_sent = [] \<rparr>"

definition release_demo :: release_env where
  "release_demo = \<lparr> re_env = (\<lambda>_. None), re_sha = (\<lambda>s. s), re_token = ''t'', re_send = (\<lambda>_. Inr (PStr ''sig'')) \<rparr>"

text \<open>Session \<open>i\<close> makes a step with the current database.\<close>

definition let_session :: "nat \<Rightarrow> world \<Rightarrow> world" where
  "let_session i x =
     (case release_step release_demo 5 (wd_sessions x i) (wd_db x) (wd_db x) of
        (ph, sent, db') \<Rightarrow> x \<lparr> wd_db := db', wd_sessions := (wd_sessions x)(i := ph), wd_sent := wd_sent x @ sent \<rparr>)"

lemma let_session_reach:
  assumes "system_step\<^sup>*\<^sup>* x y"
  shows "system_step\<^sup>*\<^sup>* x (let_session i y)"
proof -
  obtain ph sent db' where "release_step release_demo 5 (wd_sessions y i) (wd_db y) (wd_db y) = (ph, sent, db')"
    using prod_cases3 by blast
  then have "system_step y (let_session i y)" by (auto simp: let_session_def intro: system_step.session)
  with assms show ?thesis by (rule rtranclp.rtrancl_into_rtrancl)
qed

theorem release_sent_once_witness:
  "count_list (wd_sent (let_session 1 (let_session 0 (let_session 1 (let_session 0 release_world))))) ''s1'' \<le> 1"
proof (rule release_sent_once)
  show "starting release_world"
    by (simp add: starting_def release_world_def settlements_wf_def sample_pdb_def sample_settlement_def unique_by_def)
  show "system_step\<^sup>*\<^sup>* release_world (let_session 1 (let_session 0 (let_session 1 (let_session 0 release_world))))"
    by (rule let_session_reach)+ (rule rtranclp.rtrancl_refl)
qed

section \<open>What a release leaves behind\<close>

lemma granted_claim:
  assumes "claim_settlement_execution_db sha token now pid sid snap db = (res, db')"
    and "dget res ''broadcast_allowed'' = PBool True"
  shows "dget res ''claim_token'' = PStr token \<and> dget res ''status'' = PStr ''settlement_execution_claimed''"
proof -
  have "outcome (\<lambda>m. dget (fst m) ''broadcast_allowed'' = PBool True \<longrightarrow>
      dget (fst m) ''claim_token'' = PStr token \<and> dget (fst m) ''status'' = PStr ''settlement_execution_claimed'')
    (claim_settlement_execution_db sha token now pid sid snap db)"
    unfolding claim_settlement_execution_db_def
    by (intro outcome_rules outcomeI)
       (auto simp: guard_refusal_def dest: claim_permit_Inl split: if_splits sum.splits)
  then show ?thesis using assms by (simp add: outcome_def)
qed

lemma claimed_release:
  assumes "settlements_wf db" and "claim_settlement_execution_db sha token now pid sid snap db = (claim, db1)"
    and "dget claim ''broadcast_allowed'' = PBool True"
  obtains r where "find_settlement sid db1 = Some r" "st_settlement_id r = sid" "st_claim_status r = Some ''claimed''"
    "st_claim_token r = Some token" "st_commission_tx r = None" "st_payout_tx r = None" "settlements_wf db1" "sid \<noteq> []"
  using assms(2)
proof (cases rule: claim_cases)
  case (granted s d)
  obtain r where r: "find_settlement sid db = Some r" "claimable sid r"
    using unique_filter_one [of st_settlement_id "settlements db" "claimable sid" sid] assms(1) granted(5)
    by (auto simp: settlements_wf_def claimable_def find_settlement_def)
  have db1: "settlements db1 = fst (sql_update (claimable sid) (claimed_row token now) (settlements db))"
    using granted(6) by simp
  have "settlements_wf db1"
    using assms(1) by (simp add: settlements_wf_def db1 unique_by_update claimed_row_def)
  moreover have "find_settlement sid db1 = Some (claimed_row token now r)"
    using r by (subst find_after_update [OF _ db1]) (simp_all add: claimed_row_def)
  ultimately show thesis
    by (intro that [of "claimed_row token now r"]) (use r granted(1) in \<open>simp_all add: claimed_row_def claimable_def\<close>)
qed (use assms(3) in simp)

lemma row_update_one:
  assumes "settlements_wf db" and "find_settlement sid db = Some r" and "\<And>x. P x \<Longrightarrow> st_settlement_id x = sid" and "P r"
  shows "length (filter P (settlements db)) = 1"
  using rowcount_unique [of st_settlement_id "settlements db" P sid id] assms
  by (simp add: settlements_wf_def find_settlement_def snd_sql_update)

text \<open>
  C24: a release whose claim is granted always leaves its broadcast decided: if the wallet answers a
  signature, both transaction columns hold it and the claim is submitted; if it raises or answers
  nothing, the claim is in the state \<open>broadcast_unknown\<close>, which nothing but the recovery leaves, and the
  answer forbids an automatic retry. The wallet is called exactly once.
\<close>

theorem release_outcome:
  assumes "settlements_wf db" and "release_checks (re_env w) fl now request = Inr q"
    and "dget (fst (claim_settlement_execution_db (re_sha w) (re_token w) now (py_str (rr_permit q)) (release_sid q) db db))
           ''broadcast_allowed'' = PBool True"
    and "re_token w \<noteq> []" and "re_send w = (\<lambda>_. map_sum id PStr answer)"
  shows "case execute_settlement_atomic_action w fl now request db of (res, sent, db') \<Rightarrow>
    sent = [release_sid q] \<and> (\<exists>r. find_settlement (release_sid q) db' = Some r \<and>
      (case answer of
         Inr (c # cs) \<Rightarrow> dget res ''status'' = PStr ''settlement_release_submitted'' \<and>
           st_claim_status r = Some ''broadcast_submitted'' \<and>
           st_commission_tx r = Some (c # cs) \<and> st_payout_tx r = Some (c # cs)
       | _ \<Rightarrow> dget res ''status'' = PStr ''action_failed'' \<and>
           dget (as_dict (dget res ''result'')) ''automatic_retry_allowed'' = PBool False \<and>
           st_claim_status r = Some ''broadcast_unknown'' \<and> st_commission_tx r = None \<and> st_payout_tx r = None))"
proof -
  let ?sid = "release_sid q" and ?t = "re_token w"
  obtain claim db1 where run: "claim_settlement_execution_db (re_sha w) ?t now (py_str (rr_permit q)) ?sid db db = (claim, db1)"
    by fastforce
  then have allowed: "dget claim ''broadcast_allowed'' = PBool True" using assms(3) by simp
  obtain r where r: "find_settlement ?sid db1 = Some r" "st_settlement_id r = ?sid" "st_claim_status r = Some ''claimed''"
    "st_claim_token r = Some ?t" "st_commission_tx r = None" "st_payout_tx r = None" "settlements_wf db1" "?sid \<noteq> []"
    using claimed_release [OF assms(1) run allowed] .
  have tok: "claim_token_of claim = ?t" using granted_claim [OF run allowed] assms(4)
    by (simp add: claim_token_of_def str_or_empty_def py_str_def)
  have next_phase: "after_claim q claim = Sending q claim"
    using granted_claim [OF run allowed] allowed by (simp add: after_claim_def)
  let ?P = "\<lambda>x. st_settlement_id x = ?sid \<and> st_claim_token x = Some ?t \<and> st_claim_status x = Some ''claimed''"
  have one: "length (filter ?P (settlements db1)) = 1" by (rule row_update_one [OF r(7,1)]) (use r in auto)
  have one': "length (filter (broadcastable ''claimed'' ?sid ?t) (settlements db1)) = 1"
    by (rule row_update_one [OF r(7,1)]) (use r in \<open>auto simp: broadcastable_def\<close>)
  have failed: "find_settlement ?sid (snd (mark_settlement_execution_error_db now ?sid ?t err ''unknown'' db1)) =
      Some (r \<lparr> st_claim_status := Some ''broadcast_unknown'',
        st_last_error := Some (if err = [] then ''unknown_settlement_execution_error'' else err), st_updated_at := now \<rparr>)" for err
    using r assms(4) by (simp add: mark_settlement_execution_error_db_def Let_def case_prod_beta find_settlement_def row_by_update)
  show ?thesis
  proof (cases "\<exists>c cs. answer = Inr (c # cs)")
    case True
    then obtain sig where sig: "answer = Inr sig" "sig \<noteq> []" by auto
    obtain res db2 where rec: "record_settlement_broadcast_db now ?sid ?t sig db1 = (res, db2)" by fastforce
    then have "dget res ''recorded'' = PBool True \<and> find_settlement ?sid db2 = Some (r \<lparr> st_claim_status := Some ''broadcast_submitted'',
        st_broadcast_at := Some now, st_commission_tx := Some sig, st_payout_tx := Some sig,
        st_last_error := None, st_updated_at := now \<rparr>)"
    proof (cases rule: broadcast_cases)
      case refused
      then show ?thesis using one' r(8) assms(4) sig(2) by simp
    next
      case recorded
      from find_after_update [OF _ arg_cong [OF recorded(6), of settlements, simplified], of ?sid]
      show ?thesis using recorded(4) r by (simp add: broadcastable_def coalesce_def)
    qed
    then show ?thesis using assms(2,5) sig run next_phase tok rec
      by (cases sig)
         (simp_all add: execute_settlement_atomic_action_def eval_nat_numeral after_send_def after_record_def py_str_def
            action_answer_def build_action_result_def)
  next
    case False
    then obtain f where "after_send q claim (map_sum id PStr answer) = Failing q claim f"
      "f = SignatureMissing \<or> (\<exists>e. f = SendFailed e)"
      by (cases answer) (auto simp: after_send_def neq_Nil_conv)
    then show ?thesis using False assms(2,5) run next_phase tok failed [of "failure_text f"] r
      by (auto simp: execute_settlement_atomic_action_def eval_nat_numeral after_error_def case_prod_beta
            action_answer_def build_action_result_def split: sum.splits list.splits)
  qed
qed

definition release_settings :: env where
  "release_settings =
     (\<lambda>k. if k = ''IAT_ENABLE_ONCHAIN_SETTLEMENT'' then Some ''true''
          else if k = ''IAT_ESCROW_WALLET'' then Some ''E''
          else if k = ''IAT_SETTLEMENT_WALLET_SIDECAR_TOKEN'' then Some ''0123456789abcdef'' else None)"

definition release_payload :: pydict where
  "release_payload =
     [(''payload'', PDict [(''settlement_id'', PStr ''s1''), (''order_id'', PStr ''o1''), (''treasury_wallet'', PStr ''T''),
        (''winner_wallet'', PStr ''W''), (''protocol_commission_amount_iat'', PInt 1), (''seller_payout_amount_iat'', PInt 4),
        (''onchain_settlement_enabled'', PBool True), (''permit_id'', PStr ''p1'')])]"

definition one_float :: "pyval \<Rightarrow> string + pydec \<times> pyval" where
  "one_float v = Inr (DFin (Dec False 1 0), PFloat ''1.0'')"

theorem release_outcome_witness:
  "case execute_settlement_atomic_action (release_demo \<lparr> re_env := release_settings \<rparr>) one_float 5 release_payload
      (wd_db release_world) of (res, sent, db') \<Rightarrow>
    sent = [''s1''] \<and> (\<exists>r. find_settlement ''s1'' db' = Some r \<and> dget res ''status'' = PStr ''settlement_release_submitted'' \<and>
       st_claim_status r = Some ''broadcast_submitted'' \<and> st_commission_tx r = Some ''sig'' \<and> st_payout_tx r = Some ''sig'')"
proof -
  let ?w = "release_demo \<lparr> re_env := release_settings \<rparr>"
  let ?q = "\<lparr> rr_type = PStr ''settlement_release'', rr_scope = PStr ''financial_settlement'',
    rr_settlement_id = PStr ''s1'', rr_order_id = PStr ''o1'', rr_treasury = PStr ''T'', rr_winner = PStr ''W'',
    rr_permit = PStr ''p1'', rr_commission = PFloat ''1.0'', rr_payout = PFloat ''1.0'', rr_now = 5 \<rparr>"
  have wf: "settlements_wf (wd_db release_world)"
    by (simp add: release_world_def settlements_wf_def sample_pdb_def sample_settlement_def unique_by_def)
  have q: "release_checks (re_env ?w) one_float 5 release_payload = Inr ?q"
    by (simp add: release_checks_def release_payload_def release_settings_def one_float_def dget_or_def sidecar_configured_def
        onchain_settlement_on_def py_lower_def py_lower_char_def py_strip_def py_lstrip_def py_space_def py_or_def
        negative_number_def zero_number_def dec_eval)
  have sid: "release_sid ?q = ''s1''" "py_str (PStr ''p1'') = ''p1''"
    by (simp_all add: release_sid_def str_or_empty_def py_str_def)
  have claim: "dget (fst (claim_settlement_execution_db (re_sha ?w) (re_token ?w) 5 (py_str (rr_permit ?q)) (release_sid ?q)
      (wd_db release_world) (wd_db release_world))) ''broadcast_allowed'' = PBool True"
    by (simp add: sid claim_settlement_execution_db_def claim_permit_def permit_matches_def claimable_def claimed_row_def
        release_world_def release_demo_def sample_pdb_def sample_settlement_def sample_permit_def find_settlement_def row_by_def
        some_text_def or_text_def coalesce_def sql_update_def Let_def)
  from release_outcome [OF wf q claim, where answer = "Inr ''sig''"]
  show ?thesis by (simp add: release_demo_def sid)
qed

section \<open>What a permit does not bind\<close>

text \<open>
  The amounts of a broadcast are not those of the permit: whatever amounts and wallets a release asks for, the claim
  it gets is the same, and the transaction is built from the release's own amounts and wallets. A payload with a
  granted permit can so have any amount of the escrow sent anywhere.
\<close>

theorem payload_amounts_unchecked:
  assumes "release_step w now (Claiming q) snap db = (Sending q claim, sent, db')"
  shows "let q' = q \<lparr> rr_commission := commission, rr_payout := payout, rr_treasury := treasury, rr_winner := winner \<rparr>;
      asked = broadcast_arguments (re_env w) q' claim
    in release_step w now (Claiming q') snap db = (Sending q' claim, sent, db') \<and>
      release_step w now (Sending q' claim) snap' db' = (after_send q' claim (re_send w asked), [release_sid q], db') \<and>
      dget asked ''commission_amount'' = commission \<and> dget asked ''seller_payout_amount'' = payout \<and>
      dget asked ''treasury_address'' = treasury \<and> dget asked ''winner_address'' = winner \<and>
      dget asked ''execution_permit'' = dget claim ''execution_permit''"
  using assms
  by (simp add: Let_def case_prod_beta release_sid_def after_claim_def broadcast_arguments_def split: if_split_asm)

end
