(* ===== verification/ActionPipeline.thy ===== *)
theory ActionPipeline
  imports ActionContext SettlementAction
begin

text \<open>
  From a queued action to its execution: the scheduler (\<open>scheduler.py\<close>), the registry and its adapter
  resolution (\<open>registry.py\<close>), the dispatcher with the circuit breaker (\<open>dispatcher.py\<close>), the router
  (\<open>router.py\<close>), the pipeline of these stages (\<open>pipeline_registry.py\<close>, \<open>pipeline_executor.py\<close>) and the core that
  dequeues an action, runs it and completes its queue item (\<open>execution_core.py\<close>), all of
  \<open>iat/action_engine\<close>. The router calls the settlement action on the settlement database; a paid protocol
  order runs in \<open>protocol_runtime.py\<close>, which is the parameter \<open>ce_protocol\<close>.
\<close>

record core_env =
  ce_float :: "pyval \<Rightarrow> string + pydec \<times> pyval"
  ce_uuid :: string
  ce_now :: int
  ce_release :: release_env
  ce_protocol :: "pyval \<Rightarrow> pyval \<Rightarrow> pydict"
  ce_history_id :: string

definition float_opt :: "core_env \<Rightarrow> pyval \<Rightarrow> (pydec \<times> pyval) option" where
  "float_opt e v = (case ce_float e v of Inl _ \<Rightarrow> None | Inr x \<Rightarrow> Some x)"

abbreviation validate_with :: "core_env \<Rightarrow> pydict \<Rightarrow> py_error + validation" where
  "validate_with e ctx \<equiv> validate_action_context (float_opt e) (ce_uuid e) (ce_now e) ctx"

abbreviation normalize_with :: "core_env \<Rightarrow> pydict \<Rightarrow> py_error + pydict" where
  "normalize_with e ctx \<equiv> normalize_action_context (float_opt e) (ce_uuid e) (ce_now e) ctx"

section \<open>Scheduler\<close>

definition schedule_rank :: "string \<Rightarrow> int" where
  "schedule_rank p =
     (if p = ''low'' then 10 else if p = ''normal'' then 50 else if p = ''high'' then 80
      else if p = ''critical'' then 100 else 50)"

record schedule =
  sc_status :: string
  sc_reason :: pyval
  sc_rank :: int
  sc_scheduled_for :: int
  sc_ready :: bool

definition compute_action_schedule :: "core_env \<Rightarrow> pydict \<Rightarrow> py_error + schedule" where
  "compute_action_schedule e action_context =
     sum_bind (validate_with e action_context) (\<lambda>v.
       if \<not> va_valid v
       then Inr \<lparr> sc_status = ''schedule_rejected'', sc_reason = PStr (va_reason v), sc_rank = 0,
                  sc_scheduled_for = 0, sc_ready = False \<rparr>
       else sum_bind (normalize_with e (va_context v)) (\<lambda>ctx.
         let metadata = as_dict (dget ctx ''metadata'');
             rank = schedule_rank (py_str (py_or (dget ctx ''priority'') (PStr ''normal'')))
         in sum_bind (py_int (py_or (dget metadata ''scheduled_for'') (py_or (dget ctx ''created_at'') (PInt (ce_now e)))))
              (\<lambda>scheduled_for.
                Inr (if dget metadata ''blocked'' = PBool True
                     then \<lparr> sc_status = ''blocked'',
                            sc_reason = py_or (dget metadata ''blocked_reason'') (PStr ''action_blocked_by_metadata''),
                            sc_rank = rank, sc_scheduled_for = scheduled_for, sc_ready = False \<rparr>
                     else if scheduled_for > ce_now e
                     then \<lparr> sc_status = ''scheduled'', sc_reason = PStr ''action_scheduled_for_future'',
                            sc_rank = rank, sc_scheduled_for = scheduled_for, sc_ready = False \<rparr>
                     else \<lparr> sc_status = ''ready'', sc_reason = PStr ''action_ready_to_execute'',
                            sc_rank = rank, sc_scheduled_for = scheduled_for, sc_ready = True \<rparr>))))"

section \<open>Registry\<close>

record action_definition =
  ad_type :: string
  ad_default_adapter :: string
  ad_allowed_adapters :: "string list"
  ad_required_fields :: "string list"

definition action_registry :: "action_definition list" where
  "action_registry =
     [\<lparr> ad_type = ''protocol_order'', ad_default_adapter = ''protocol_runtime'',
        ad_allowed_adapters = [''protocol_runtime''], ad_required_fields = [''order'', ''tx_signature''] \<rparr>,
      \<lparr> ad_type = ''settlement_release'', ad_default_adapter = ''settlement_atomic'',
        ad_allowed_adapters = [''settlement_atomic'', ''dry_run''],
        ad_required_fields = [''settlement_id'', ''order_id'', ''gross_amount_iat'', ''seller_payout_amount_iat'',
          ''protocol_commission_amount_iat'', ''winner_wallet'', ''onchain_settlement_enabled''] \<rparr>]"

definition get_action_definition :: "pyval \<Rightarrow> action_definition option" where
  "get_action_definition action_type = find (\<lambda>d. ad_type d = str_or_empty action_type) action_registry"

text \<open>The adapter of a request, or the reason that it has none. Its payload is a dict.\<close>

definition validate_action_request :: "pydict \<Rightarrow> string + action_definition" where
  "validate_action_request request =
     (case get_action_definition (dget request ''action_type'') of
        None \<Rightarrow> Inl ''action_type_not_registered''
      | Some d \<Rightarrow>
          if list_ex (\<lambda>k. k \<notin> fst ` set (as_dict (dget request ''payload''))) (ad_required_fields d)
          then Inl ''missing_required_payload_fields'' else Inr d)"

definition resolve_adapter_for_action :: "pydict \<Rightarrow> string + string" where
  "resolve_adapter_for_action request =
     (case validate_action_request request of
        Inl reason \<Rightarrow> Inl reason
      | Inr d \<Rightarrow>
          let metadata = as_dict (dget request ''metadata'');
              requested = py_or (dget metadata ''adapter'') (dget metadata ''execution_mode'');
              adapter = (if requested \<in> PStr ` set (ad_allowed_adapters d) then py_str requested else ad_default_adapter d)
          in if adapter \<notin> set (ad_allowed_adapters d) then Inl ''resolved_adapter_not_allowed_for_action'' else Inr adapter)"

section \<open>Router\<close>

definition execute_dry_run_action :: "int \<Rightarrow> pydict \<Rightarrow> pydict" where
  "execute_dry_run_action now request =
     build_action_result now ''dry_run_executed'' (dget_or request ''action_type'' (PStr ''unknown''))
       (dget_or request ''action_scope'' (PStr ''unknown'')) (PStr ''action_engine_dry_run_adapter'') PNone
       [(''dry_run'', PBool True), (''input_payload'', py_or (dget request ''payload'') (PDict []))]"

text \<open>The reports that a result repeats (the validation of the request, the last stage) are left out.\<close>

definition adapter_resolution :: "string + string \<Rightarrow> pyval" where
  "adapter_resolution r =
     PDict (case r of
       Inl reason \<Rightarrow> [(''status'', PStr ''invalid_action_request''), (''reason'', PStr reason), (''adapter'', PNone)]
     | Inr adapter \<Rightarrow> [(''status'', PStr ''adapter_resolved''), (''reason'', PStr ''adapter_resolved_for_action''),
                        (''adapter'', PStr adapter)])"

text \<open>The routed result, the settlements broadcast, and the settlement database.\<close>

definition route_action :: "core_env \<Rightarrow> pydict \<Rightarrow> pdb \<Rightarrow> pydict \<times> string list \<times> pdb" where
  "route_action e request db =
     (let resolution = resolve_adapter_for_action request;
          rejected = (\<lambda>status reason.
            [(''status'', PStr status), (''action_type'', dget_or request ''action_type'' (PStr ''unknown'')),
             (''action_scope'', dget_or request ''action_scope'' (PStr ''unknown'')), (''reason'', PStr reason),
             (''adapter_resolution'', adapter_resolution resolution)])
      in case resolution of
           Inl reason \<Rightarrow> (rejected ''action_rejected'' reason, [], db)
         | Inr adapter \<Rightarrow>
             if adapter = ''dry_run''
             then (dset (execute_dry_run_action (ce_now e) request) ''adapter_resolution'' (adapter_resolution resolution), [], db)
             else if adapter = ''settlement_atomic''
             then (case execute_settlement_atomic_action (ce_release e) (ce_float e) (ce_now e) request db of
                     (r, sent, db') \<Rightarrow> (dset r ''adapter_resolution'' (adapter_resolution resolution), sent, db'))
             else (rejected ''unsupported_adapter'' ''adapter_not_supported_yet'', [], db))"

section \<open>Dispatcher\<close>

datatype dispatch = DispatchRejected string | BreakerOpen | Dispatched

definition dispatch_action :: "core_env \<Rightarrow> pydict \<Rightarrow> action_db \<Rightarrow> (py_error + dispatch) \<times> action_db" where
  "dispatch_action e action_context db =
     sum_bind_db (validate_with e action_context) db (\<lambda>v.
       if \<not> va_valid v then (Inr (DispatchRejected (va_reason v)), db)
       else sum_bind_db (normalize_with e (va_context v)) db (\<lambda>ctx.
         let service = py_str (py_or (dget ctx ''action_scope'') (py_or (dget ctx ''action_type'') (PStr ''default''))) in
         case get_action_circuit_breaker_db service (ce_now e) db of
           (b, db1) \<Rightarrow>
             (Inr (case b of None \<Rightarrow> Dispatched | Some x \<Rightarrow> if br_state x = ''OPEN'' then BreakerOpen else Dispatched), db1)))"

section \<open>Pipeline\<close>

record stage_result =
  sg_stage :: string
  sg_status :: string
  sg_reason :: pyval
  sg_continue :: bool

definition stage_dict :: "stage_result \<Rightarrow> pyval" where
  "stage_dict s =
     PDict [(''stage'', PStr (sg_stage s)), (''status'', PStr (sg_status s)), (''reason'', sg_reason s),
            (''continue_pipeline'', PBool (sg_continue s))]"

definition scheduler_stage :: "schedule \<Rightarrow> stage_result" where
  "scheduler_stage s =
     \<lparr> sg_stage = ''scheduler'', sg_status = (if sc_ready s then ''completed'' else ''blocked''),
       sg_reason = sc_reason s, sg_continue = sc_ready s \<rparr>"

definition dispatcher_stage :: "dispatch \<Rightarrow> stage_result" where
  "dispatcher_stage d =
     \<lparr> sg_stage = ''dispatcher'', sg_status = (if d = Dispatched then ''completed'' else ''failed''),
       sg_reason = PStr (case d of DispatchRejected reason \<Rightarrow> reason | BreakerOpen \<Rightarrow> ''service_circuit_open''
                         | Dispatched \<Rightarrow> ''action_dispatch_target_resolved''),
       sg_continue = (d = Dispatched) \<rparr>"

definition router_stage :: "pydict \<Rightarrow> stage_result" where
  "router_stage routed =
     (let ok = (dget routed ''status'' \<notin> {PStr ''action_rejected'', PStr ''unsupported_adapter''})
      in \<lparr> sg_stage = ''router'', sg_status = (if ok then ''completed'' else ''failed''),
           sg_reason = dget routed ''reason'', sg_continue = ok \<rparr>)"

definition pipeline_names :: pyval where
  "pipeline_names = PList [PStr ''scheduler'', PStr ''dispatcher'', PStr ''router'']"

definition pipeline_stopped :: "stage_result list \<Rightarrow> pydict \<Rightarrow> pydict" where
  "pipeline_stopped stages ctx =
     [(''status'', PStr ''pipeline_stopped''), (''reason'', sg_reason (last stages)), (''pipeline'', pipeline_names),
      (''stage_results'', PList (map stage_dict stages)), (''action_context'', PDict ctx), (''executed'', PBool False)]"

text \<open>
  \<open>execute_pipeline\<close>: every action type has the same three stages. A stage that does not continue stops
  the pipeline; the result of the last one is the result of the action.
\<close>

definition execute_pipeline ::
  "core_env \<Rightarrow> pydict \<Rightarrow> action_db \<times> pdb \<Rightarrow> (py_error + pydict \<times> string list) \<times> action_db \<times> pdb" where
  "execute_pipeline e action_context = (\<lambda>(adb, db).
     sum_bind_db (validate_with e action_context) (adb, db) (\<lambda>v.
       if \<not> va_valid v
       then (Inr ([(''status'', PStr ''pipeline_rejected''), (''reason'', PStr (va_reason v)), (''executed'', PBool False)], []),
             adb, db)
       else sum_bind_db (normalize_with e (va_context v)) (adb, db) (\<lambda>ctx.
         sum_bind_db (compute_action_schedule e ctx) (adb, db) (\<lambda>schedule.
           let st1 = scheduler_stage schedule in
           if \<not> sg_continue st1 then (Inr (pipeline_stopped [st1] ctx, []), adb, db)
           else (case dispatch_action e ctx adb of
                   (Inl err, adb1) \<Rightarrow> (Inl err, adb1, db)
                 | (Inr d, adb1) \<Rightarrow>
                     let st2 = dispatcher_stage d in
                     if \<not> sg_continue st2 then (Inr (pipeline_stopped [st1, st2] ctx, []), adb1, db)
                     else (case route_action e ctx db of
                             (routed, sent, db1) \<Rightarrow>
                               let st3 = router_stage routed in
                               if \<not> sg_continue st3 then (Inr (pipeline_stopped [st1, st2, st3] ctx, sent), adb1, db1)
                               else (Inr (dset (dset (dset routed ''pipeline''
                                        (PDict [(''status'', PStr ''completed''), (''pipeline'', pipeline_names),
                                                (''stage_results'', PList (map stage_dict [st1, st2, st3]))]))
                                        ''action_context'' (PDict ctx)) ''executed'' (PBool True), sent),
                                     adb1, db1)))))))"

section \<open>The execution core\<close>

definition submit_action_to_core ::
  "core_env \<Rightarrow> pydict \<Rightarrow> action_db \<Rightarrow> (py_error + pydict) \<times> action_db" where
  "submit_action_to_core e arguments db =
     sum_bind_db (build_action_context (float_opt e) (ce_uuid e) (ce_now e) arguments) db (\<lambda>ctx.
     sum_bind_db (validate_with e ctx) db (\<lambda>v.
       if \<not> va_valid v
       then (Inr [(''status'', PStr ''action_context_invalid''), (''reason'', PStr (va_reason v)), (''queued'', PBool False)], db)
       else (case enqueue_action_db (ce_uuid e) (ce_now e) (PDict (va_context v)) db of
               (Inl err, db1) \<Rightarrow> (Inl err, db1)
             | (Inr r, db1) \<Rightarrow>
                 (Inr [(''status'', PStr ''submitted''), (''reason'', PStr ''action_submitted_to_execution_core''),
                       (''action_id'', dget (va_context v) ''action_id''), (''enqueue_result'', PDict r),
                       (''action_context'', PDict (va_context v)), (''queued'', dget_or r ''queued'' (PBool False))], db1))))"

definition success_statuses :: "string list" where
  "success_statuses =
     [''ok'', ''success'', ''completed'', ''pipeline_completed'', ''foundation_supplier_pipeline_completed'',
      ''consensus_delivered'']"

text \<open>
  One action: dequeued, executed, recorded in the history and completed in the queue, whatever the result
  was. The JSON of the dequeue answer inside the result is left out.
\<close>

definition process_next_core_action ::
  "core_env \<Rightarrow> action_db \<times> pdb \<Rightarrow> (py_error + pydict \<times> string list) \<times> action_db \<times> pdb" where
  "process_next_core_action e = (\<lambda>(adb, db).
     (case dequeue_next_action_db (ce_now e) adb adb of
        (None, adb1) \<Rightarrow>
          (Inr ([(''status'', PStr ''no_action''), (''reason'', PStr ''execution_core_queue_empty''),
                 (''executed'', PBool False)], []), adb1, db)
      | (Some item, adb1) \<Rightarrow>
          let ctx = qi_context item; payload = as_dict (dget ctx ''payload'');
              run = (if dget ctx ''action_type'' = PStr ''protocol_order''
                     then (Inr (ce_protocol e (py_or (dget payload ''order'') (PDict [])) (dget payload ''tx_signature''), []),
                           adb1, db)
                     else execute_pipeline e ctx (adb1, db))
          in case run of
               (Inl err, s) \<Rightarrow> (Inl err, s)
             | (Inr (result, sent), adb2, db2) \<Rightarrow>
                 let executed = (truthy (dget result ''executed'') \<or>
                       py_lower (str_or_empty (dget result ''status'')) \<in> set success_statuses);
                     result1 = dset result ''executed'' (PBool executed)
                 in case record_action_execution_history_db (ce_history_id e) (ce_now e) ctx result1 adb2 of
                      (Inl err, adb3) \<Rightarrow> (Inl err, adb3, db2)
                    | (Inr history, adb3) \<Rightarrow>
                        (case complete_action_queue_item_db (dget ctx ''action_id'')
                                (summarize_action_execution_result result1) (ce_now e) adb3 of
                           (completion, adb4) \<Rightarrow>
                             (Inr (dset (dset result1 ''execution_history'' (PDict history))
                                     ''queue_completion'' (PDict completion), sent), adb4, db2))))"

end
