(* ===== verification/ActionRecovery.thy ===== *)
theory ActionRecovery
  imports ActionPipeline
begin

text \<open>
  Workers and recovery of \<open>iat/action_engine\<close>: one action under a worker and its claim
  (\<open>worker_manager.py\<close>), retries (\<open>retry_engine.py\<close>), the recovery policy (\<open>runtime_policy_engine.py\<close>), the
  planner and executor of recoveries (\<open>recovery_planner.py\<close>, \<open>recovery_executor.py\<close>), heartbeats
  (\<open>heartbeat_engine.py\<close>) and the circuit breaker hook (\<open>runtime_hooks.py\<close>). The choice among idle workers
  scores them in floating point; it is the parameter \<open>pick\<close>. Published events are written to a table that
  nothing here reads, and are left out.
\<close>

section \<open>A worker and its claim\<close>

record worker_run =
  wr_status :: string
  wr_action_id :: pyval
  wr_executed :: bool
  wr_claim :: pydict
  wr_sent :: "string list"

definition run_refused :: "string \<Rightarrow> worker_run" where
  "run_refused status = \<lparr> wr_status = status, wr_action_id = PNone, wr_executed = False, wr_claim = [], wr_sent = [] \<rparr>"

text \<open>
  The action is executed first and claimed afterwards. \<open>action_id\<close> is that of the result or of the dequeued
  item; with an empty queue the dequeued item is \<open>None\<close>, whose attribute lookup raises.
\<close>

definition processed_action_id :: "pydict \<Rightarrow> queue_item option \<Rightarrow> py_error + pyval" where
  "processed_action_id result head =
     (let found = dget (as_dict (dget result ''action_context'')) ''action_id'' in
      if truthy found then Inr found
      else (case head of None \<Rightarrow> Inl NoAttribute | Some item \<Rightarrow> Inr (PStr (qi_action_id item))))"

definition settle_claim ::
  "core_env \<Rightarrow> string \<Rightarrow> string \<Rightarrow> pyval \<Rightarrow> pydict \<Rightarrow> string list \<Rightarrow> action_db \<Rightarrow> (py_error + worker_run) \<times> action_db" where
  "settle_claim e claim_uuid worker_id action_id result sent db =
     (let success = truthy (dget result ''executed'');
          finish = (\<lambda>claim db1. (Inr \<lparr> wr_status = ''worker_processed_action'', wr_action_id = action_id,
                          wr_executed = success, wr_claim = claim, wr_sent = sent \<rparr>,
                        snd (mark_action_worker_result_db worker_id success action_id (ce_now e) db1)))
      in if \<not> truthy action_id then finish [] db
         else (case claim_action_db claim_uuid (py_str action_id) worker_id 60 (ce_now e) db db of
                 (Inl err, db1) \<Rightarrow> (Inl err, db1)
               | (Inr claim, db1) \<Rightarrow>
                   if \<not> truthy (dget claim ''claimed'')
                   then (Inr \<lparr> wr_status = ''action_claim_failed'', wr_action_id = action_id, wr_executed = False,
                              wr_claim = claim, wr_sent = sent \<rparr>,
                         snd (mark_action_worker_result_db worker_id False action_id (ce_now e) db1))
                   else finish claim (snd (release_action_claim_db (str_or_empty (dget claim ''claim_id'')) worker_id
                          (if success then ''worker_execution_completed'' else ''worker_execution_failed'') (ce_now e) db1))))"

definition process_next_action_with_worker ::
  "core_env \<Rightarrow> (action_worker list \<Rightarrow> action_worker option) \<Rightarrow> string \<Rightarrow> string \<Rightarrow> action_db \<times> pdb \<Rightarrow>
   (py_error + worker_run) \<times> action_db \<times> pdb" where
  "process_next_action_with_worker e pick claim_uuid requested = (\<lambda>(adb, db).
     let workers = list_action_workers_db 100 adb;
         selected = (if requested \<noteq> [] then find (\<lambda>r. wk_worker_id r = requested) workers else pick workers)
     in case selected of
          None \<Rightarrow> (Inr (run_refused (if requested \<noteq> [] then ''worker_not_found'' else ''worker_unavailable'')), adb, db)
        | Some worker \<Rightarrow>
            if requested \<noteq> [] \<and> py_lower (case wk_status worker of None \<Rightarrow> [] | Some s \<Rightarrow> s) \<noteq> ''idle''
            then (Inr (run_refused ''worker_not_available''), adb, db)
            else
              let worker_id = wk_worker_id worker;
                  adb1 = snd (expire_stale_action_claims_db (ce_now e) adb);
                  adb2 = snd (heartbeat_action_worker_db worker_id (Some ''busy'') None (ce_now e) adb1);
                  head = fst (dequeue_next_action_db (ce_now e) adb2 adb2)
              in case process_next_core_action e (adb2, db) of
                   (Inl err, s) \<Rightarrow> (Inl err, s)
                 | (Inr (result, sent), adb3, db3) \<Rightarrow>
                     (case sum_bind_db (processed_action_id result head) adb3
                             (\<lambda>action_id. settle_claim e claim_uuid worker_id action_id result sent adb3) of
                        (r, adb4) \<Rightarrow> (r, adb4, db3)))"

section \<open>Retries\<close>

record retry_decision =
  rd_status :: string
  rd_reason :: string
  rd_retry_count :: int
  rd_max_retries :: int

definition evaluate_retry_policy :: "pydict \<Rightarrow> py_error + retry_decision" where
  "evaluate_retry_policy ctx =
     (let policy = as_dict (dget ctx ''retry_policy'') in
      sum_bind (py_int (py_or (dget policy ''retry_count'') (PInt 0))) (\<lambda>retry_count.
      sum_bind (py_int (py_or (dget policy ''max_retries'') (PInt 3))) (\<lambda>max_retries.
        Inr (if retry_count < max_retries
             then \<lparr> rd_status = ''retry_allowed'', rd_reason = ''retry_count_below_max_retries'',
                    rd_retry_count = retry_count, rd_max_retries = max_retries \<rparr>
             else \<lparr> rd_status = ''max_retry_reached'', rd_reason = ''retry_count_reached_max_retries'',
                    rd_retry_count = retry_count, rd_max_retries = max_retries \<rparr>))))"

text \<open>\<open>increment_retry_policy\<close>, which no other part of the server calls.\<close>

definition increment_retry_policy :: "pydict \<Rightarrow> string \<Rightarrow> py_error + pydict" where
  "increment_retry_policy ctx reason =
     (let policy = as_dict (dget ctx ''retry_policy'') in
      sum_bind (py_int (py_or (dget policy ''retry_count'') (PInt 0))) (\<lambda>retry_count.
      sum_bind (py_int (py_or (dget policy ''max_retries'') (PInt 3))) (\<lambda>max_retries.
        Inr (dset ctx ''retry_policy'' (PDict (dset (dset (dset policy ''retry_count'' (PInt (retry_count + 1)))
               ''max_retries'' (PInt max_retries)) ''last_retry_reason'' (PStr reason)))))))"

section \<open>Recovery\<close>

record recovery_plan =
  rp_action_id :: string
  rp_claim_id :: string
  rp_worker_id :: string
  rp_claim_status :: string
  rp_queue_status :: string
  rp_decision :: string
  rp_reason :: string

text \<open>One plan for every expired claim among the listed ones, against the listed queue.\<close>

definition plan_of_claim :: "queue_item list \<Rightarrow> action_claim \<Rightarrow> recovery_plan" where
  "plan_of_claim queue claim =
     (let queue_status = (case row_by qi_action_id (cl_action_id claim) queue of
                            None \<Rightarrow> [] | Some item \<Rightarrow> py_lower (qi_status item));
          terminal = (queue_status \<in> {''completed'', ''failed''})
      in \<lparr> rp_action_id = cl_action_id claim, rp_claim_id = cl_claim_id claim, rp_worker_id = cl_worker_id claim,
           rp_claim_status = ''expired'', rp_queue_status = queue_status,
           rp_decision = (if terminal then ''no_recovery_needed'' else ''requeue_action''),
           rp_reason = (if terminal then ''queue_item_already_terminal'' else ''expired_claim_action_should_be_requeued'') \<rparr>)"

definition plan_recovery_actions :: "nat \<Rightarrow> action_db \<Rightarrow> recovery_plan list" where
  "plan_recovery_actions limit db =
     map (plan_of_claim (list_action_queue_db limit db))
       (filter (\<lambda>c. py_lower (cl_status c) = ''expired'') (list_action_claims_db [] [] limit db))"

definition evaluate_recovery_policy :: "string \<Rightarrow> string \<Rightarrow> string" where
  "evaluate_recovery_policy decision retry_status =
     (if decision = ''no_recovery_needed'' then ''no_action''
      else if decision \<noteq> ''requeue_action'' then ''unsupported''
      else if retry_status = ''max_retry_reached'' then ''send_to_dlq''
      else if retry_status = ''retry_allowed'' then ''requeue_allowed'' else ''hold'')"

definition recovery_failure :: pydict where
  "recovery_failure = [(''status'', PStr ''claim_expired''), (''reason'', PStr ''expired_claim_recovery'')]"

text \<open>The status of an executed plan. \<open>dlq_uuid\<close> names the dead letter it may write.\<close>

definition execute_recovery_plan ::
  "string \<Rightarrow> int \<Rightarrow> recovery_plan \<Rightarrow> action_db \<Rightarrow> (py_error + string) \<times> action_db" where
  "execute_recovery_plan dlq_uuid now plan db =
     (if rp_decision plan = ''no_recovery_needed'' then (Inr ''skipped'', db)
      else if rp_decision plan \<noteq> ''requeue_action'' then (Inr ''unsupported_recovery_decision'', db)
      else
        let ctx = (case row_by qi_action_id (rp_action_id plan) (list_action_queue_db 100 db) of
                     None \<Rightarrow> [] | Some item \<Rightarrow> qi_context item)
        in sum_bind_db (evaluate_retry_policy ctx) db (\<lambda>retry.
             let policy = evaluate_recovery_policy (rp_decision plan) (rd_status retry) in
             if policy = ''send_to_dlq''
             then (case move_action_to_dead_letter_queue_db dlq_uuid now ctx recovery_failure
                          ''max_retry_reached_during_recovery'' db of
                     (Inl e, db1) \<Rightarrow> (Inl e, db1)
                   | (Inr _, db1) \<Rightarrow> (Inr ''sent_to_dead_letter_queue'', db1))
             else if policy = ''requeue_allowed''
             then (Inr ''recovery_executed'',
                   snd (reactivate_action_queue_item_db (PStr (rp_action_id plan))
                          ''expired_claim_recovery_requeue_allowed'' now db))
             else (Inr ''recovery_held'', db)))"

fun execute_plans ::
  "(nat \<Rightarrow> string) \<Rightarrow> int \<Rightarrow> nat \<Rightarrow> recovery_plan list \<Rightarrow> string list \<Rightarrow> action_db \<Rightarrow> (py_error + string list) \<times> action_db" where
  "execute_plans uuid now i [] results db = (Inr results, db)"
| "execute_plans uuid now i (plan # plans) results db =
     (case execute_recovery_plan (uuid i) now plan db of
        (Inl e, db1) \<Rightarrow> (Inl e, db1)
      | (Inr status, db1) \<Rightarrow> execute_plans uuid now (Suc i) plans (results @ [status]) db1)"

definition execute_recovery_cycle ::
  "(nat \<Rightarrow> string) \<Rightarrow> int \<Rightarrow> nat \<Rightarrow> action_db \<Rightarrow> (py_error + string list) \<times> action_db" where
  "execute_recovery_cycle uuid now limit db = execute_plans uuid now 0 (plan_recovery_actions limit db) [] db"

definition run_claim_recovery_cycle :: "int \<Rightarrow> nat \<Rightarrow> action_db \<Rightarrow> (nat \<times> action_claim list) \<times> action_db" where
  "run_claim_recovery_cycle now limit db =
     (case expire_stale_action_claims_db now db of
        (n, db1) \<Rightarrow> ((n, filter (\<lambda>c. py_lower (cl_status c) = ''expired'') (list_action_claims_db [] [] limit db1)), db1))"

definition run_runtime_heartbeat_cycle ::
  "string \<Rightarrow> string \<Rightarrow> string option \<Rightarrow> string \<Rightarrow> int \<Rightarrow> int \<Rightarrow> action_db \<Rightarrow> nat \<times> action_db" where
  "run_runtime_heartbeat_cycle worker_id worker_status current_action claim_id extend_seconds now db =
     (let db1 = (if worker_id = [] then db
                 else snd (heartbeat_action_worker_db worker_id (Some worker_status) current_action now db));
          db2 = (if claim_id = [] then db1
                 else snd (heartbeat_action_claim_db claim_id worker_id extend_seconds now db1))
      in expire_stale_action_claims_db now db2)"

section \<open>The circuit breaker\<close>

definition circuit_breaker_hook :: "string \<Rightarrow> string \<Rightarrow> int \<Rightarrow> action_db \<Rightarrow> action_db" where
  "circuit_breaker_hook service event_type now db =
     (case get_action_circuit_breaker_db service now db of
        (found, db1) \<Rightarrow>
          let failures0 = (case found of None \<Rightarrow> 0 | Some b \<Rightarrow> br_failure_count b);
              successes0 = (case found of None \<Rightarrow> 0 | Some b \<Rightarrow> br_success_count b);
              probing = (case found of None \<Rightarrow> False | Some b \<Rightarrow> br_state b = ''HALF_OPEN'')
          in if probing \<and> event_type = ''WorkerExecutionFailed''
             then snd (resolve_action_circuit_breaker_probe_db service False now db1)
             else if probing \<and> event_type = ''WorkerExecutionCompleted''
             then snd (resolve_action_circuit_breaker_probe_db service True now db1)
             else
               let failures = (if event_type = ''WorkerExecutionFailed'' then failures0 + 1
                               else if event_type = ''WorkerExecutionCompleted'' then max 0 (failures0 - 1) else failures0);
                   successes = (if event_type = ''WorkerExecutionCompleted'' then successes0 + 1 else successes0);
                   state = (if failures \<ge> 5 then ''OPEN'' else ''CLOSED'')
               in upsert_action_circuit_breaker_db
                    \<lparr> br_service = service, br_state = state, br_failure_count = failures, br_success_count = successes,
                      br_opened_at = (if state = ''OPEN'' then Some now else None), br_last_failure_at = Some now,
                      br_cooldown = 300 \<rparr> db1)"

end
