(* ===== verification/ActionFacts.thy ===== *)
theory ActionFacts
  imports ActionRecovery
begin

text \<open>
  What the action engine guarantees and what it does not: the order of the queue, the states of the
  circuit breaker, what the claims of workers exclude and what they do not, and three behaviours of the
  code that lose, repeat or strand work.
\<close>

section \<open>The order of the queue\<close>

lemma set_queue_order [simp]: "set (queue_order t) = set t"
  by (simp add: queue_order_def)

lemma queue_order_head:
  assumes "queue_order t = item # rest" and "r \<in> set t"
  shows "priority_rank (qi_priority r) < priority_rank (qi_priority item) \<or>
    (priority_rank (qi_priority r) = priority_rank (qi_priority item) \<and> qi_queued_at item \<le> qi_queued_at r)"
proof -
  let ?f = "\<lambda>r. - priority_rank (qi_priority r)" and ?u = "sort_key qi_queued_at t"
  have r: "r \<in> set (item # rest)" using assms by (metis set_queue_order)
  have sorted: "sorted (map ?f (item # rest))" using assms(1) sorted_sort_key [of ?f ?u] by (simp add: queue_order_def)
  then have "?f item \<le> ?f r" using r by auto
  moreover have "qi_queued_at item \<le> qi_queued_at r" if eq: "?f r = ?f item"
  proof -
    have "filter (\<lambda>y. ?f y = ?f item) (item # rest) = filter (\<lambda>y. ?f y = ?f item) ?u"
      using assms(1) sort_key_stable [of ?f "?f item" ?u] by (simp add: queue_order_def)
    moreover have "sorted (map qi_queued_at (filter (\<lambda>y. ?f y = ?f item) ?u))"
      by (rule sorted_filter) simp
    ultimately have "sorted (map qi_queued_at (item # filter (\<lambda>y. ?f y = ?f item) rest))" by simp
    then show ?thesis using r eq by auto
  qed
  ultimately show ?thesis by linarith
qed

lemma dequeue_Some:
  assumes "fst (dequeue_next_action_db now snap db) = Some item"
  shows "item \<in> set (action_queue snap) \<and> qi_status item = ''queued''"
proof -
  let ?q = "filter (\<lambda>r. qi_status r = ''queued'') (action_queue snap)"
  obtain rest where q: "queue_order ?q = item # rest"
    using assms by (auto simp: dequeue_next_action_db_def split: list.splits)
  have "item \<in> set (queue_order ?q)" by (simp only: q list.set_intros(1))
  then show ?thesis by simp
qed

text \<open>
  A dequeue run alone hands out a queued action that no queued action precedes in priority and then in
  time, counts the attempt and marks exactly that action; it answers empty exactly if nothing is
  queued, and it never hands out the same action twice in a row.
\<close>

theorem dequeue_takes_best:
  assumes "unique_by qi_action_id (action_queue db)"
  shows "case dequeue_next_action_db now db db of
      (None, db') \<Rightarrow> db' = db \<and> list_all (\<lambda>r. qi_status r \<noteq> ''queued'') (action_queue db)
    | (Some item, db') \<Rightarrow> item \<in> set (action_queue db) \<and> qi_status item = ''queued'' \<and>
        list_all (\<lambda>r. qi_status r \<noteq> ''queued'' \<or> priority_rank (qi_priority r) < priority_rank (qi_priority item) \<or>
          (priority_rank (qi_priority r) = priority_rank (qi_priority item) \<and> qi_queued_at item \<le> qi_queued_at r))
          (action_queue db) \<and>
        action_queue db' = map (\<lambda>r. if r = item then dequeued_row now item else r) (action_queue db) \<and>
        (case dequeue_next_action_db now' db' db' of
           (None, _) \<Rightarrow> True | (Some item', _) \<Rightarrow> qi_action_id item' \<noteq> qi_action_id item)"
proof (cases "queue_order (filter (\<lambda>r. qi_status r = ''queued'') (action_queue db))")
  case Nil
  then have "set (filter (\<lambda>r. qi_status r = ''queued'') (action_queue db)) = {}" by (metis set_queue_order list.set(1))
  then show ?thesis using Nil by (auto simp: dequeue_next_action_db_def list_all_iff filter_empty_conv)
next
  case (Cons item rest)
  let ?q = "filter (\<lambda>r. qi_status r = ''queued'') (action_queue db)"
  let ?db' = "db \<lparr> action_queue := fst (sql_update (\<lambda>r. qi_action_id r = qi_action_id item) (dequeued_row now)
      (action_queue db)) \<rparr>"
  have item: "item \<in> set ?q" using Cons set_queue_order [of ?q] by (metis list.set_intros(1))
  have same: "qi_action_id r = qi_action_id item \<longleftrightarrow> r = item" if "r \<in> set (action_queue db)" for r
    using assms item that unique_by_inj [of qi_action_id "action_queue db"] by auto
  have rows: "action_queue ?db' = map (\<lambda>r. if r = item then dequeued_row now item else r) (action_queue db)"
    using same by (auto simp: sql_update_def)
  have again: "qi_action_id item' \<noteq> qi_action_id item"
    if "fst (dequeue_next_action_db now' ?db' ?db') = Some item'" for item'
  proof -
    have "item' \<in> set (action_queue ?db')" "qi_status item' = ''queued''" using dequeue_Some [OF that] by auto
    then show ?thesis unfolding rows using same by (auto simp: dequeued_row_def split: if_splits)
  qed
  have best: "list_all (\<lambda>r. qi_status r \<noteq> ''queued'' \<or> priority_rank (qi_priority r) < priority_rank (qi_priority item) \<or>
          (priority_rank (qi_priority r) = priority_rank (qi_priority item) \<and> qi_queued_at item \<le> qi_queued_at r))
          (action_queue db)"
    using queue_order_head [OF Cons] by (auto simp: list_all_iff)
  have first: "dequeue_next_action_db now db db = (Some item, ?db')"
    using Cons by (simp add: dequeue_next_action_db_def)
  have second: "case dequeue_next_action_db now' ?db' ?db' of
      (None, _) \<Rightarrow> True | (Some item', _) \<Rightarrow> qi_action_id item' \<noteq> qi_action_id item"
    using again by (cases "dequeue_next_action_db now' ?db' ?db'") (auto split: option.split)
  show ?thesis unfolding first prod.case option.case
    by (intro conjI best second rows) (use item in simp_all)
qed

definition sample_item :: queue_item where
  "sample_item = new_queue_item ''a1'' ''settlement_release'' [(''action_id'', PStr ''a1'')] 1 1"

definition empty_actions :: action_db where
  "empty_actions = \<lparr> action_queue = [], action_history = [], action_workers = [], action_claims = [], dead_letters = [],
     breakers = [] \<rparr>"

theorem dequeue_takes_best_witness:
  "case dequeue_next_action_db 5 (empty_actions \<lparr> action_queue := [sample_item] \<rparr>) (empty_actions \<lparr> action_queue := [sample_item] \<rparr>) of
      (None, db') \<Rightarrow> False
    | (Some item, db') \<Rightarrow> item = sample_item \<and> action_queue db' = [dequeued_row 5 sample_item]"
  using dequeue_takes_best [of "empty_actions \<lparr> action_queue := [sample_item] \<rparr>" 5 6]
  by (simp add: dequeue_next_action_db_def queue_order_def sample_item_def new_queue_item_def unique_by_def sql_update_def)

section \<open>The states of a circuit breaker\<close>

definition breaker_ok :: "breaker \<Rightarrow> bool" where
  "breaker_ok b =
     (br_state b \<in> {''CLOSED'', ''OPEN'', ''HALF_OPEN''} \<and> 0 \<le> br_failure_count b \<and> 0 \<le> br_success_count b \<and>
      (if br_state b = ''CLOSED'' then br_failure_count b < 5 else 5 \<le> br_failure_count b \<and> br_opened_at b \<noteq> None))"

definition breakers_ok :: "action_db \<Rightarrow> bool" where
  "breakers_ok db = (unique_by br_service (breakers db) \<and> list_all breaker_ok (breakers db))"

datatype breaker_op = LookUp string int | Event string string int

fun run_breaker_op :: "breaker_op \<Rightarrow> action_db \<Rightarrow> action_db" where
  "run_breaker_op (LookUp service now) db = snd (get_action_circuit_breaker_db service now db)"
| "run_breaker_op (Event service event_type now) db = circuit_breaker_hook service event_type now db"

lemma update_ok_on:
  assumes "breakers_ok db" and "\<And>b. P b \<Longrightarrow> br_service (f b) = br_service b"
    and "\<And>b. b \<in> set (breakers db) \<Longrightarrow> P b \<Longrightarrow> breaker_ok (f b)"
  shows "breakers_ok (db \<lparr> breakers := fst (sql_update P f (breakers db)) \<rparr>)"
  using assms by (auto simp: breakers_ok_def unique_by_update list_all_iff set_sql_update)

lemma found_row: "breaker_of service db = Some b \<Longrightarrow> b \<in> set (breakers db)"
  by (auto simp: breaker_of_def dest: row_by_SomeD)

lemma upsert_ok: "breakers_ok db \<Longrightarrow> breaker_ok b \<Longrightarrow> breakers_ok (upsert_action_circuit_breaker_db b db)"
  by (auto simp: upsert_action_circuit_breaker_db_def breaker_of_def breakers_ok_def unique_by_snoc unique_by_update
      list_all_iff set_sql_update split: option.split)

lemma found_ok: "breakers_ok db \<Longrightarrow> breaker_of service db = Some b \<Longrightarrow> breaker_ok b \<and> br_service b = service"
  by (auto simp: breakers_ok_def breaker_of_def list_all_iff dest: row_by_SomeD)

lemma lookup_ok:
  assumes "breakers_ok db" and get: "get_action_circuit_breaker_db service now db = (found, db')"
  shows "breakers_ok db' \<and> breaker_of service db' = found \<and> (case found of None \<Rightarrow> True | Some b \<Rightarrow> breaker_ok b)"
proof (cases "breaker_of service db")
  case (Some b)
  let ?f = "\<lambda>x. x \<lparr> br_state := ''HALF_OPEN'' \<rparr>"
  have b: "breaker_ok b" "br_service b = service" using found_ok [OF assms(1) Some] by auto
  show ?thesis
  proof (cases "found = Some b \<and> db' = db")
    case False
    then have opened: "br_state b = ''OPEN''" "found = Some (?f b)"
      and db': "db' = db \<lparr> breakers := fst (sql_update (\<lambda>x. br_service x = service) ?f (breakers db)) \<rparr>"
      using get Some by (auto simp: get_action_circuit_breaker_db_def Let_def split: if_splits)
    have found: "breaker_of service db' = found"
      using Some b opened(2) by (simp add: db' breaker_of_def row_by_update)
    have "x = b" if "x \<in> set (breakers db)" "br_service x = service" for x
      using assms(1) found_row [OF Some] that b unique_by_inj [of br_service "breakers db" x b]
      by (simp add: breakers_ok_def)
    moreover have half: "breaker_ok (?f b)" using b opened(1) by (simp add: breaker_ok_def)
    ultimately have "breakers_ok db'" unfolding db' using assms(1)
      by (intro update_ok_on) auto
    then show ?thesis using found half opened(2) by simp
  qed (use assms Some b in auto)
qed (use assms in \<open>simp add: get_action_circuit_breaker_db_def\<close>)

lemma probe_ok:
  assumes "breakers_ok db" and "breaker_of service db = Some b" and "br_state b = ''HALF_OPEN''"
  shows "breakers_ok (snd (resolve_action_circuit_breaker_probe_db service success now db))"
proof -
  have "get_action_circuit_breaker_db service now db = (Some b, db)"
    using assms(2,3) by (simp add: get_action_circuit_breaker_db_def Let_def)
  then show ?thesis using found_ok [OF assms(1,2)] assms(1,3)
    by (auto simp: resolve_action_circuit_breaker_probe_db_def Let_def breaker_ok_def intro!: upsert_ok)
qed

lemma hook_ok: "breakers_ok db \<Longrightarrow> breakers_ok (circuit_breaker_hook service event_type now db)"
proof -
  assume ok: "breakers_ok db"
  obtain found db1 where get: "get_action_circuit_breaker_db service now db = (found, db1)" by fastforce
  have db1: "breakers_ok db1" "breaker_of service db1 = found" "case found of None \<Rightarrow> True | Some b \<Rightarrow> breaker_ok b"
    using lookup_ok [OF ok get] by auto
  have counts: "0 \<le> (case found of None \<Rightarrow> 0 | Some b \<Rightarrow> br_failure_count b)"
    "0 \<le> (case found of None \<Rightarrow> 0 | Some b \<Rightarrow> br_success_count b)"
    using db1(3) by (auto simp: breaker_ok_def split: option.splits)
  show ?thesis
  proof (cases "\<exists>b. found = Some b \<and> br_state b = ''HALF_OPEN'' \<and>
      event_type \<in> {''WorkerExecutionFailed'', ''WorkerExecutionCompleted''}")
    case True
    then show ?thesis using probe_ok [OF db1(1)] db1(2) get by (auto simp: circuit_breaker_hook_def Let_def)
  next
    case False
    then have "circuit_breaker_hook service event_type now db = upsert_action_circuit_breaker_db
       (let failures = (case found of None \<Rightarrow> 0 | Some b \<Rightarrow> br_failure_count b);
            f = (if event_type = ''WorkerExecutionFailed'' then failures + 1
                 else if event_type = ''WorkerExecutionCompleted'' then max 0 (failures - 1) else failures);
            successes = (case found of None \<Rightarrow> 0 | Some b \<Rightarrow> br_success_count b);
            state = (if f \<ge> 5 then ''OPEN'' else ''CLOSED'')
        in \<lparr> br_service = service, br_state = state, br_failure_count = f,
             br_success_count = (if event_type = ''WorkerExecutionCompleted'' then successes + 1 else successes),
             br_opened_at = (if state = ''OPEN'' then Some now else None), br_last_failure_at = Some now,
             br_cooldown = 300 \<rparr>) db1"
      using get by (auto simp: circuit_breaker_hook_def Let_def split: option.splits)
    then show ?thesis using counts db1(1) by (auto simp: Let_def breaker_ok_def intro!: upsert_ok)
  qed
qed

text \<open>
  C32: the circuit breaker keeps its states: under any run of lookups and runtime events, every service
  has one breaker in one of three states; a closed one counts fewer than five failures, an open or half
  open one at least five and the time it was opened; and a lookup answers \<open>OPEN\<close> only during the cooldown.
\<close>

theorem breaker_states:
  assumes "breakers_ok db"
  shows "breakers_ok (fold run_breaker_op ops db) \<and>
    (case fst (get_action_circuit_breaker_db service now (fold run_breaker_op ops db)) of
       None \<Rightarrow> True
     | Some b \<Rightarrow> breaker_ok b \<and> (br_state b \<noteq> ''OPEN'' \<or> br_opened_at b = Some 0 \<or>
         (case br_opened_at b of None \<Rightarrow> False | Some t \<Rightarrow> now - t < breaker_cooldown b)))"
proof
  show run: "breakers_ok (fold run_breaker_op ops db)"
    using assms
  proof (induction ops arbitrary: db)
    case (Cons x ops)
    have "breakers_ok (run_breaker_op x db)"
      using Cons.prems hook_ok lookup_ok [OF Cons.prems prod.collapse [symmetric]] by (cases x) auto
    then show ?case using Cons.IH by simp
  qed simp
  let ?db = "fold run_breaker_op ops db"
  have ok: "case fst (get_action_circuit_breaker_db service now ?db) of None \<Rightarrow> True | Some b \<Rightarrow> breaker_ok b"
    using lookup_ok [OF run prod.collapse [symmetric]] by blast
  show "case fst (get_action_circuit_breaker_db service now ?db) of
       None \<Rightarrow> True
     | Some b \<Rightarrow> breaker_ok b \<and> (br_state b \<noteq> ''OPEN'' \<or> br_opened_at b = Some 0 \<or>
         (case br_opened_at b of None \<Rightarrow> False | Some t \<Rightarrow> now - t < breaker_cooldown b))"
    using ok
    by (auto simp: get_action_circuit_breaker_db_def Let_def breaker_ok_def split: option.splits if_splits)
qed

theorem breaker_states_witness:
  "breakers_ok (fold run_breaker_op (replicate 6 (Event ''s'' ''WorkerExecutionFailed'' 9)) empty_actions) \<and>
    (case fst (get_action_circuit_breaker_db ''s'' 400
        (fold run_breaker_op (replicate 6 (Event ''s'' ''WorkerExecutionFailed'' 9)) empty_actions)) of
       None \<Rightarrow> True
     | Some b \<Rightarrow> breaker_ok b \<and> (br_state b \<noteq> ''OPEN'' \<or> br_opened_at b = Some 0 \<or>
         (case br_opened_at b of None \<Rightarrow> False | Some t \<Rightarrow> 400 - t < breaker_cooldown b)))"
  by (rule breaker_states) (simp add: breakers_ok_def empty_actions_def)

section \<open>Claims of an action\<close>

text \<open>
  What claims promise. A worker expires the stale claims, runs the action, and claims it afterwards; the claim reads the
  live claims of the action and inserts its own row, without a lock or a unique constraint. So the operations come
  one by one, each claim with the claims it has read.
\<close>

datatype claim_op =
    ActionClaim string string string int int
  | ClaimHeartbeat string string int int
  | ClaimRelease string string string int
  | ClaimSweep int

fun run_claim_op :: "claim_op \<times> action_db \<Rightarrow> action_db \<Rightarrow> action_db" where
  "run_claim_op (ActionClaim uuid action_id worker_id secs now, snap) db =
     snd (claim_action_db uuid action_id worker_id secs now snap db)"
| "run_claim_op (ClaimHeartbeat claim_id worker_id secs now, snap) db = snd (heartbeat_action_claim_db claim_id worker_id secs now db)"
| "run_claim_op (ClaimRelease claim_id worker_id reason now, snap) db = snd (release_action_claim_db claim_id worker_id reason now db)"
| "run_claim_op (ClaimSweep now, snap) db = snd (expire_stale_action_claims_db now db)"

definition live_claims :: "string \<Rightarrow> int \<Rightarrow> action_db \<Rightarrow> action_claim list" where
  "live_claims action_id now db = filter (\<lambda>c. cl_action_id c = action_id \<and> claim_live now c) (action_claims db)"

definition lease_end :: "int \<Rightarrow> int \<Rightarrow> int" where
  "lease_end now secs = now + (if secs = 0 then 60 else secs)"

lemma claim_granted:
  assumes "action_id \<noteq> []" and "worker_id \<noteq> []" and "live_claims action_id now snap = []"
    and "uuid \<notin> cl_claim_id ` set (action_claims db)"
  obtains answer where "claim_action_db uuid action_id worker_id secs now snap db =
      (Inr answer, db \<lparr> action_claims := action_claims db @ [new_action_claim uuid action_id worker_id (lease_end now secs) now] \<rparr>)"
    "dget answer ''claimed'' = PBool True" "dget answer ''claim_id'' = PStr uuid"
proof -
  have "list_all (\<lambda>x. cl_claim_id x \<noteq> uuid) (action_claims db)" using assms(4) by (auto simp: list_all_iff)
  then have "sql_insert (\<lambda>r x. cl_claim_id x = cl_claim_id r) (new_action_claim uuid action_id worker_id (lease_end now secs) now)
      (action_claims db) = Some (action_claims db @ [new_action_claim uuid action_id worker_id (lease_end now secs) now])"
    by (simp add: sql_insert_Some new_action_claim_def list_all_iff)
  then show thesis
    using that assms(1-3) by (simp add: claim_action_db_def live_claims_def lease_end_def Let_def)
qed

lemma new_claim_live:
  "live_claims a t (db \<lparr> action_claims := action_claims db @ [new_action_claim uuid action_id worker_id until now] \<rparr>) =
     live_claims a t db @ (if a = action_id \<and> t < until then [new_action_claim uuid action_id worker_id until now] else [])"
  by (auto simp: live_claims_def claim_live_def claim_running_def new_action_claim_def)

text \<open>
  C20: claims do not exclude each other: when two workers read the claims of an action before either has inserted its
  own, and find no live one, both are granted, in whatever state the rows are inserted, and at every time before both
  leases end the action has two live claims more than without them, one of each worker.
\<close>

theorem racing_claims_granted:
  assumes "action_id \<noteq> []" and "w1 \<noteq> []" and "w2 \<noteq> []"
    and "live_claims action_id n1 snap1 = []" and "live_claims action_id n2 snap2 = []"
    and "u1 \<noteq> u2" and "{u1, u2} \<inter> cl_claim_id ` set (action_claims db) = {}"
    and "t < lease_end n1 s1" and "t < lease_end n2 s2"
  shows "\<exists>a1 db1 a2 db2. claim_action_db u1 action_id w1 s1 n1 snap1 db = (Inr a1, db1) \<and>
    claim_action_db u2 action_id w2 s2 n2 snap2 db1 = (Inr a2, db2) \<and>
    dget a1 ''claimed'' = PBool True \<and> dget a2 ''claimed'' = PBool True \<and>
    db2 = fold run_claim_op [(ActionClaim u1 action_id w1 s1 n1, snap1), (ActionClaim u2 action_id w2 s2 n2, snap2)] db \<and>
    length (live_claims action_id t db2) = length (live_claims action_id t db) + 2 \<and>
    map cl_worker_id (live_claims action_id t db2) = map cl_worker_id (live_claims action_id t db) @ [w1, w2]"
proof -
  let ?c1 = "new_action_claim u1 action_id w1 (lease_end n1 s1) n1" and ?c2 = "new_action_claim u2 action_id w2 (lease_end n2 s2) n2"
  let ?db1 = "db \<lparr> action_claims := action_claims db @ [?c1] \<rparr>"
  let ?db2 = "?db1 \<lparr> action_claims := action_claims ?db1 @ [?c2] \<rparr>"
  have fresh: "u1 \<notin> cl_claim_id ` set (action_claims db)" "u2 \<notin> cl_claim_id ` set (action_claims ?db1)"
    using assms(6,7) by (auto simp: new_action_claim_def)
  obtain a1 where 1: "claim_action_db u1 action_id w1 s1 n1 snap1 db = (Inr a1, ?db1)" "dget a1 ''claimed'' = PBool True"
    by (rule claim_granted [OF assms(1,2,4) fresh(1), of s1])
  obtain a2 where 2: "claim_action_db u2 action_id w2 s2 n2 snap2 ?db1 = (Inr a2, ?db2)" "dget a2 ''claimed'' = PBool True"
    by (rule claim_granted [OF assms(1,3,5) fresh(2), of s2])
  have "live_claims action_id t ?db2 = live_claims action_id t ?db1 @ [?c2]" using assms(9) by (simp only: new_claim_live if_True simp_thms)
  also have "live_claims action_id t ?db1 = live_claims action_id t db @ [?c1]" using assms(8) by (simp only: new_claim_live if_True simp_thms)
  finally have live: "live_claims action_id t ?db2 = live_claims action_id t db @ [?c1, ?c2]" by (simp only: append_assoc append_Cons append_Nil)
  have "?db2 = fold run_claim_op [(ActionClaim u1 action_id w1 s1 n1, snap1), (ActionClaim u2 action_id w2 s2 n2, snap2)] db"
    by (simp only: fold_simps run_claim_op.simps 1(1) 2(1) snd_conv)
  with 1 2 live show ?thesis
    by (intro exI [of _ a1] exI [of _ ?db1] exI [of _ a2] exI [of _ ?db2]) (simp only: list.map length_append map_append list.size, simp add: new_action_claim_def)
qed

theorem racing_claims_granted_witness:
  "length (live_claims ''a1'' 30 (fold run_claim_op
      [(ActionClaim ''c1'' ''a1'' ''w1'' 60 0, empty_actions), (ActionClaim ''c2'' ''a1'' ''w2'' 60 1, empty_actions)] empty_actions)) = 2"
proof -
  have none: "live_claims a t empty_actions = []" for a t by (simp add: live_claims_def empty_actions_def)
  show ?thesis
    using racing_claims_granted [of "''a1''" "''w1''" "''w2''" 0 empty_actions 1 empty_actions "''c1''" "''c2''" empty_actions 30 60 60]
      none by (auto simp: lease_end_def empty_actions_def simp del: run_claim_op.simps)
qed

text \<open>
  What serialised claims promise: if every claim reads the claims that it writes to, times do not go back and a
  heartbeat comes before the lease that it extends has ended, then no action ever has two live claims.
\<close>

fun op_time :: "claim_op \<Rightarrow> int" where
  "op_time (ActionClaim uuid action_id worker_id secs now) = now"
| "op_time (ClaimHeartbeat claim_id worker_id secs now) = now"
| "op_time (ClaimRelease claim_id worker_id reason now) = now"
| "op_time (ClaimSweep now) = now"

fun serialised :: "int \<Rightarrow> (claim_op \<times> action_db) list \<Rightarrow> action_db \<Rightarrow> bool" where
  "serialised now [] db = True"
| "serialised now ((x, snap) # xs) db =
     (now \<le> op_time x \<and> snap = db \<and>
      (case x of
         ClaimHeartbeat claim_id worker_id secs t \<Rightarrow>
           list_all (\<lambda>c. cl_claim_id c = claim_id \<and> claim_running c \<longrightarrow> claim_live t c) (action_claims db)
       | _ \<Rightarrow> True) \<and>
      serialised (op_time x) xs (run_claim_op (x, snap) db))"

definition exclusive_from :: "int \<Rightarrow> action_db \<Rightarrow> bool" where
  "exclusive_from now db = (\<forall>action_id t. now \<le> t \<longrightarrow> length (live_claims action_id t db) \<le> 1)"

lemma live_update:
  assumes "\<And>c. c \<in> set (action_claims db) \<Longrightarrow> P c \<Longrightarrow> cl_action_id (f c) = cl_action_id c \<and> (claim_live t (f c) \<longrightarrow> claim_live now c)"
    and "now \<le> t"
  shows "length (live_claims a t (db \<lparr> action_claims := fst (sql_update P f (action_claims db)) \<rparr>)) \<le> length (live_claims a now db)"
proof -
  have "length (filter (\<lambda>c. cl_action_id c = a \<and> claim_live t c) (fst (sql_update P f xs))) \<le>
      length (filter (\<lambda>c. cl_action_id c = a \<and> claim_live now c) xs)" if "set xs \<subseteq> set (action_claims db)" for xs
    using that
  proof (induction xs)
    case (Cons c xs)
    then show ?case using assms(1) [of c] assms(2) by (auto simp: sql_update_def claim_live_def)
  qed (simp add: sql_update_def)
  then show ?thesis by (simp add: live_claims_def)
qed

lemma exclusive_update:
  assumes "exclusive_from now db" and "now \<le> n"
    and "\<And>c t. c \<in> set (action_claims db) \<Longrightarrow> P c \<Longrightarrow> n \<le> t \<Longrightarrow> cl_action_id (f c) = cl_action_id c \<and> (claim_live t (f c) \<longrightarrow> claim_live n c)"
  shows "exclusive_from n (db \<lparr> action_claims := fst (sql_update P f (action_claims db)) \<rparr>)"
  unfolding exclusive_from_def
proof (intro allI impI)
  fix a t
  assume "n \<le> t"
  then have "length (live_claims a t (db \<lparr> action_claims := fst (sql_update P f (action_claims db)) \<rparr>)) \<le> length (live_claims a n db)"
    using live_update [of db P f t n a] assms(3) by blast
  also have "\<dots> \<le> 1" using assms(1,2) by (simp add: exclusive_from_def)
  finally show "length (live_claims a t (db \<lparr> action_claims := fst (sql_update P f (action_claims db)) \<rparr>)) \<le> 1" .
qed

lemma claim_step:
  assumes "exclusive_from now db" and "serialised now ((x, snap) # xs) db"
  shows "exclusive_from (op_time x) (run_claim_op (x, snap) db)"
proof (cases x)
  case (ActionClaim uuid action_id worker_id secs n)
  then have n: "now \<le> n" "snap = db" using assms(2) by auto
  consider "run_claim_op (x, snap) db = db"
    | "live_claims action_id n db = []" "run_claim_op (x, snap) db =
         db \<lparr> action_claims := action_claims db @ [new_action_claim uuid action_id worker_id (lease_end n secs) n] \<rparr>"
  proof (cases "sort_key (\<lambda>c. - cl_claimed_at c) (live_claims action_id n db)")
    case Nil
    then have none: "live_claims action_id n db = []" by (metis set_empty set_sort)
    consider "action_id = [] \<or> worker_id = []" | "action_id \<noteq> []" "worker_id \<noteq> []" "uuid \<in> cl_claim_id ` set (action_claims db)"
      | "action_id \<noteq> []" "worker_id \<noteq> []" "uuid \<notin> cl_claim_id ` set (action_claims db)" by blast
    then show thesis
    proof cases
      case 1
      then show thesis using that(1) by (auto simp: ActionClaim n(2) claim_action_db_def)
    next
      case 2
      then have "sql_insert (\<lambda>r x. cl_claim_id x = cl_claim_id r) (new_action_claim uuid action_id worker_id until n) (action_claims db) = None" for until
        by (auto simp: sql_insert_None new_action_claim_def)
      then show thesis using that(1) 2 none by (simp add: ActionClaim n(2) claim_action_db_def live_claims_def Let_def)
    next
      case 3
      obtain answer where "claim_action_db uuid action_id worker_id secs n db db = (Inr answer,
          db \<lparr> action_claims := action_claims db @ [new_action_claim uuid action_id worker_id (lease_end n secs) n] \<rparr>)"
        by (rule claim_granted [OF 3(1,2) none 3(3), of secs])
      then show thesis using that(2) none by (simp add: ActionClaim n(2))
    qed
  next
    case (Cons c cs)
    then show thesis using that(1) by (simp add: ActionClaim n(2) claim_action_db_def live_claims_def Let_def)
  qed
  then show ?thesis
  proof cases
    case 1
    then show ?thesis using assms(1) n by (simp add: ActionClaim exclusive_from_def)
  next
    case 2
    have "live_claims action_id t db = []" if "n \<le> t" for t
      using 2(1) that by (auto simp: live_claims_def filter_empty_conv claim_live_def)
    then show ?thesis unfolding 2(2) using assms(1) n by (auto simp: exclusive_from_def ActionClaim new_claim_live)
  qed
next
  case (ClaimHeartbeat claim_id worker_id secs n)
  then have n: "now \<le> n" "list_all (\<lambda>c. cl_claim_id c = claim_id \<and> claim_running c \<longrightarrow> claim_live n c) (action_claims db)"
    using assms(2) by auto
  then show ?thesis
    using assms(1) exclusive_update [OF assms(1) n(1), of "claim_of_worker claim_id worker_id" "extended_claim until n" for until]
    by (auto simp: ClaimHeartbeat heartbeat_action_claim_db_def Let_def case_prod_beta extended_claim_def claim_of_worker_def
        list_all_iff exclusive_from_def [of n db] exclusive_from_def [of now db])
next
  case (ClaimRelease claim_id worker_id reason n)
  then have "now \<le> n" using assms(2) by simp
  from exclusive_update [OF assms(1) this, of "claim_of_worker claim_id worker_id" "released_claim ''released'' reason n"]
  show ?thesis using assms(1) \<open>now \<le> n\<close>
    by (auto simp: ClaimRelease release_action_claim_db_def case_prod_beta released_claim_def claim_live_def claim_running_def
        exclusive_from_def [of n db] exclusive_from_def [of now db])
next
  case (ClaimSweep n)
  then have "now \<le> n" using assms(2) by simp
  from exclusive_update [OF assms(1) this, of "\<lambda>c. claim_running c \<and> cl_lease_until c \<le> n" "released_claim ''expired'' ''lease_expired'' n"]
  show ?thesis
    by (simp add: ClaimSweep expire_stale_action_claims_db_def case_prod_beta released_claim_def claim_live_def claim_running_def)
qed

theorem claims_exclusive:
  assumes "exclusive_from now db" and "serialised now xs db" and "now \<le> t" and "list_all (\<lambda>(x, snap). op_time x \<le> t) xs"
  shows "length (live_claims action_id t (fold run_claim_op xs db)) \<le> 1"
  using assms
proof (induction xs arbitrary: now db)
  case Nil
  then show ?case by (simp add: exclusive_from_def)
next
  case (Cons y xs)
  obtain x snap where y: "y = (x, snap)" by (cases y)
  have "serialised (op_time x) xs (run_claim_op (x, snap) db)" using Cons.prems(2) unfolding y serialised.simps by blast
  then show ?case using Cons.IH [OF claim_step [OF Cons.prems(1) Cons.prems(2) [unfolded y]]] Cons.prems(4) by (simp add: y)
qed

lemma history_recorded:
  assumes "dget ctx ''action_id'' = PStr a" and "a \<noteq> []" and "row_by hi_history_id uuid (action_history db) = None"
  obtains h db' where "record_action_execution_history_db uuid now ctx result db = (Inr h, db')"
    and "action_queue db' = action_queue db"
proof -
  have id: "py_or (dget ctx ''action_id'') (dget result ''action_id'') = PStr a" "text_col (PStr a) = Some a"
    using assms(1,2) by (simp_all add: text_col_def py_str_def)
  have "list_all (\<lambda>x. hi_history_id x \<noteq> uuid) (action_history db)"
    using assms(3) by (force simp: row_by_None_iff list_all_iff)
  then show thesis using that
    unfolding record_action_execution_history_db_def id Let_def by (simp add: sql_insert_Some list_all_iff split: option.splits)
qed

lemma heartbeat_status:
  "r \<in> set (action_workers (snd (heartbeat_action_worker_db w (Some st) c n db))) \<Longrightarrow> w \<noteq> [] \<Longrightarrow> wk_worker_id r = w \<Longrightarrow>
   wk_status r = Some st"
proof -
  assume r: "r \<in> set (action_workers (snd (heartbeat_action_worker_db w (Some st) c n db)))" "w \<noteq> []" "wk_worker_id r = w"
  let ?f = "\<lambda>x. if wk_worker_id x = w then x \<lparr> wk_status := Some st, wk_current_action := c,
      wk_last_heartbeat := n, wk_updated_at := n \<rparr> else x"
  have "action_workers (snd (heartbeat_action_worker_db w (Some st) c n db)) = map ?f (action_workers db)"
    using r(2) by (simp add: heartbeat_action_worker_db_def sql_update_def)
  with r(1) have "r \<in> ?f ` set (action_workers db)" by (simp only: set_map)
  then obtain x where "r = ?f x" by blast
  with r(3) show ?thesis by (cases "wk_worker_id x = w") simp_all
qed

section \<open>What the engine loses, repeats and strands\<close>

text \<open>
  An action that is not ready is completed without having run: the core dequeues an action that is
  scheduled for the future (or blocked by its metadata), the pipeline stops at the scheduler, and the
  queue item is marked completed all the same, so that it never runs.
\<close>

theorem deferred_action_completed:
  assumes "fst (dequeue_next_action_db (ce_now e) adb adb) = Some item"
    and "dget (qi_context item) ''action_type'' \<noteq> PStr ''protocol_order''"
    and "validate_with e (qi_context item) = Inr v" and "va_valid v" and "normalize_with e (va_context v) = Inr ctx"
    and "compute_action_schedule e ctx = Inr s" and "\<not> sc_ready s"
    and "dget (qi_context item) ''action_id'' = PStr (qi_action_id item)" and "qi_action_id item \<noteq> []"
    and "row_by hi_history_id (ce_history_id e) (action_history adb) = None"
  shows "case process_next_core_action e (adb, db) of
      (Inr (result, sent), adb', db') \<Rightarrow>
        dget result ''executed'' = PBool False \<and> sent = [] \<and> db' = db \<and>
        list_all (\<lambda>r. qi_action_id r \<noteq> qi_action_id item \<or> qi_status r = ''completed'') (action_queue adb')
    | _ \<Rightarrow> False"
proof -
  obtain adb1 where deq: "dequeue_next_action_db (ce_now e) adb adb = (Some item, adb1)"
    using assms(1) by (metis prod.collapse)
  have hist: "action_history adb1 = action_history adb"
    using deq by (auto simp: dequeue_next_action_db_def split: list.splits)
  let ?result = "pipeline_stopped [scheduler_stage s] ctx"
  have run: "execute_pipeline e (qi_context item) (adb1, db) = (Inr (?result, []), adb1, db)"
    using assms(3-7) by (simp add: execute_pipeline_def scheduler_stage_def sum_bind_db_def Let_def)
  have failed: "(truthy (dget ?result ''executed'') \<or> py_lower (str_or_empty (dget ?result ''status'')) \<in> set success_statuses) = False"
    by (simp add: pipeline_stopped_def success_statuses_def str_or_empty_def py_str_def py_lower_def py_lower_char_def)
  have "row_by hi_history_id (ce_history_id e) (action_history adb1) = None" using assms(10) hist by simp
  from history_recorded [OF assms(8,9) this, of "ce_now e" "dset ?result ''executed'' (PBool False)"] obtain h adb2 where
    recorded: "record_action_execution_history_db (ce_history_id e) (ce_now e) (qi_context item)
      (dset ?result ''executed'' (PBool False)) adb1 = (Inr h, adb2)" by blast
  show ?thesis
    using assms(2,8,9) unfolding process_next_core_action_def prod.case deq option.case Let_def run failed sum.case recorded
    by (auto simp: run failed recorded complete_action_queue_item_db_def py_str_def list_all_iff set_sql_update completed_row_def)
qed

definition sample_core :: core_env where
  "sample_core = \<lparr> ce_float = one_float, ce_uuid = ''u'', ce_now = 5, ce_release = release_demo,
     ce_protocol = (\<lambda>_ _. []), ce_history_id = ''h1'' \<rparr>"

text \<open>An action that is stored to run at time 100, dequeued at time 5.\<close>

definition deferred_context :: pydict where
  "deferred_context = context_dict (PStr ''a1'') (PStr ''settlement_release'') (PStr ''s'') (PStr ''iat_protocol'')
     (PStr ''normal'') (PInt 300) (PDict default_retry_policy) (PDict []) (PDict [(''scheduled_for'', PInt 100)])
     (PDict (orchestration_dict (PStr ''iat_orchestration_context_v1'') PNone PNone (PList []) PNone PNone
        PNone (PDict []) (PDict []) (PDict []) (PDict []) (PDict []) PNone PNone (PList []))) (PInt 1)
     (PStr ''action_context_v2'')"

definition deferred_item :: queue_item where
  "deferred_item = new_queue_item ''a1'' ''settlement_release'' deferred_context 1 1"

lemma deferred_normal: "normalize_with sample_core deferred_context = Inr deferred_context"
  by (simp add: deferred_context_def normalize_action_context_def normalize_orchestration_def py_int_def py_str_def is_dict_def
      optional_dict_def optional_int_def optional_float_def string_list_def normalize_ids_def as_dict_def
      py_or_def py_strip_def py_lstrip_def py_space_def)

lemma deferred_valid: "validate_with sample_core deferred_context = Inr
    \<lparr> va_valid = True, va_reason = ''action_context_valid'', va_missing = [], va_context = deferred_context \<rparr>"
  unfolding validate_action_context_def deferred_normal
  by (simp add: deferred_context_def as_dict_def)

lemma deferred_schedule: "compute_action_schedule sample_core deferred_context = Inr
    \<lparr> sc_status = ''scheduled'', sc_reason = PStr ''action_scheduled_for_future'', sc_rank = 50, sc_scheduled_for = 100,
      sc_ready = False \<rparr>"
  unfolding compute_action_schedule_def deferred_valid
  by (simp add: deferred_normal, simp add: deferred_context_def as_dict_def py_or_def py_int_def sample_core_def
      schedule_rank_def py_str_def)

theorem deferred_action_completed_witness:
  "case process_next_core_action sample_core (empty_actions \<lparr> action_queue := [deferred_item] \<rparr>, sample_pdb) of
      (Inr (result, sent), adb', db') \<Rightarrow>
        dget result ''executed'' = PBool False \<and> sent = [] \<and> db' = sample_pdb \<and>
        list_all (\<lambda>r. qi_action_id r \<noteq> qi_action_id deferred_item \<or> qi_status r = ''completed'') (action_queue adb')
    | _ \<Rightarrow> False"
proof (rule deferred_action_completed)
  show "validate_with sample_core (qi_context deferred_item) = Inr
    \<lparr> va_valid = True, va_reason = ''action_context_valid'', va_missing = [], va_context = deferred_context \<rparr>"
    using deferred_valid by (simp add: deferred_item_def new_queue_item_def)
  show "compute_action_schedule sample_core deferred_context = Inr
    \<lparr> sc_status = ''scheduled'', sc_reason = PStr ''action_scheduled_for_future'', sc_rank = 50, sc_scheduled_for = 100,
      sc_ready = False \<rparr>"
    by (rule deferred_schedule)
  show "normalize_with sample_core (va_context \<lparr> va_valid = True, va_reason = ''action_context_valid'', va_missing = [],
      va_context = deferred_context \<rparr>) = Inr deferred_context"
    using deferred_normal by simp
  show "fst (dequeue_next_action_db (ce_now sample_core) (empty_actions \<lparr> action_queue := [deferred_item] \<rparr>)
      (empty_actions \<lparr> action_queue := [deferred_item] \<rparr>)) = Some deferred_item"
    by (simp add: dequeue_next_action_db_def queue_order_def deferred_item_def new_queue_item_def)
qed (simp_all add: deferred_item_def new_queue_item_def deferred_context_def empty_actions_def)

text \<open>
  Recovery requeues an action that runs: the plan for an old expired claim of an action that was dequeued
  again puts the action back into the queue although another worker holds a live claim on it.
\<close>

theorem recovery_requeues_running:
  assumes "plan \<in> set (plan_recovery_actions limit db)" and "rp_decision plan = ''requeue_action''"
    and "row_by qi_action_id (rp_action_id plan) (list_action_queue_db 100 db) = Some item"
    and "evaluate_retry_policy (qi_context item) = Inr retry" and "rd_status retry = ''retry_allowed''"
    and "rp_action_id plan \<noteq> []"
    and "list_ex (\<lambda>c. cl_action_id c = rp_action_id plan \<and> claim_live now c) (action_claims db)"
  shows "case execute_recovery_plan uuid now plan db of (answer, db') \<Rightarrow>
      answer = Inr ''recovery_executed'' \<and>
      list_ex (\<lambda>c. cl_action_id c = rp_action_id plan \<and> claim_live now c) (action_claims db') \<and>
      list_ex (\<lambda>r. qi_action_id r = rp_action_id plan \<and> qi_status r = ''queued'') (action_queue db')"
proof -
  have "item \<in> set (action_queue db)" and id: "qi_action_id item = rp_action_id plan"
    using row_by_SomeD [OF assms(3)] by (auto simp: list_action_queue_db_def dest: in_set_takeD)
  then have "list_ex (\<lambda>r. qi_action_id r = rp_action_id plan \<and> qi_status r = ''queued'')
      (fst (sql_update (\<lambda>r. qi_action_id r = rp_action_id plan \<and> qi_status r \<noteq> ''queued'') (reactivated_row reason now)
        (action_queue db)))" for reason
    unfolding list_ex_iff set_sql_update
    by (intro bexI [OF _ imageI [of item]]) (simp_all add: reactivated_row_def)
  then show ?thesis using assms(2-7)
    by (simp add: execute_recovery_plan_def sum_bind_db_def evaluate_recovery_policy_def reactivate_action_queue_item_db_def Let_def
        case_prod_beta py_str_def)
qed

definition reclaimed_actions :: action_db where
  "reclaimed_actions = empty_actions
     \<lparr> action_queue := [dequeued_row 90 deferred_item],
       action_claims := [released_claim ''expired'' ''lease_expired'' 80 (new_action_claim ''c1'' ''a1'' ''w1'' 60 0),
                         new_action_claim ''c2'' ''a1'' ''w2'' 150 90] \<rparr>"

definition stale_plan :: recovery_plan where
  "stale_plan = \<lparr> rp_action_id = ''a1'', rp_claim_id = ''c1'', rp_worker_id = ''w1'', rp_claim_status = ''expired'',
     rp_queue_status = ''dequeued'', rp_decision = ''requeue_action'',
     rp_reason = ''expired_claim_action_should_be_requeued'' \<rparr>"

theorem recovery_requeues_running_witness:
  "case execute_recovery_plan ''d'' 100 stale_plan reclaimed_actions of (answer, db') \<Rightarrow>
      answer = Inr ''recovery_executed'' \<and>
      list_ex (\<lambda>c. cl_action_id c = rp_action_id stale_plan \<and> claim_live 100 c) (action_claims db') \<and>
      list_ex (\<lambda>r. qi_action_id r = rp_action_id stale_plan \<and> qi_status r = ''queued'') (action_queue db')"
proof (rule recovery_requeues_running)
  show "stale_plan \<in> set (plan_recovery_actions 10 reclaimed_actions)"
    by (simp add: plan_recovery_actions_def plan_of_claim_def stale_plan_def reclaimed_actions_def list_action_claims_db_def
        sql_order_limit_def row_limit_def list_action_queue_db_def queue_order_def row_by_def released_claim_def
        new_action_claim_def dequeued_row_def deferred_item_def new_queue_item_def py_lower_def py_lower_char_def)
  show "row_by qi_action_id (rp_action_id stale_plan) (list_action_queue_db 100 reclaimed_actions) =
      Some (dequeued_row 90 deferred_item)"
    by (simp add: stale_plan_def reclaimed_actions_def row_limit_def list_action_queue_db_def queue_order_def row_by_def
        dequeued_row_def deferred_item_def new_queue_item_def)
  show "evaluate_retry_policy (qi_context (dequeued_row 90 deferred_item)) = Inr
      \<lparr> rd_status = ''retry_allowed'', rd_reason = ''retry_count_below_max_retries'', rd_retry_count = 0, rd_max_retries = 3 \<rparr>"
    by (simp add: evaluate_retry_policy_def dequeued_row_def deferred_item_def new_queue_item_def deferred_context_def
        default_retry_policy_def as_dict_def py_or_def py_int_def)
qed (simp_all add: stale_plan_def reclaimed_actions_def claim_live_def claim_running_def new_action_claim_def)

text \<open>
  An empty queue strands a worker: a worker that is asked for by name when nothing is queued is marked busy,
  then the lookup of an action in the empty answer raises, and from then on the same worker is refused.
\<close>

theorem empty_queue_strands_worker:
  assumes "requested \<noteq> []"
    and "find (\<lambda>r. wk_worker_id r = requested) (list_action_workers_db 100 adb) = Some worker"
    and "wk_status worker = Some ''idle''"
    and "list_all (\<lambda>r. qi_status r \<noteq> ''queued'') (action_queue adb)"
  shows "case process_next_action_with_worker e pick uuid requested (adb, db) of (answer, adb', db') \<Rightarrow>
      answer = Inl NoAttribute \<and> db' = db \<and>
      fst (process_next_action_with_worker e' pick' uuid' requested (adb', db')) \<in>
        {Inr (run_refused ''worker_not_available''), Inr (run_refused ''worker_not_found'')}"
proof -
  let ?adb1 = "snd (expire_stale_action_claims_db (ce_now e) adb)"
  let ?adb2 = "snd (heartbeat_action_worker_db requested (Some ''busy'') None (ce_now e) ?adb1)"
  have id: "wk_worker_id worker = requested" using assms(2) by (auto simp: find_Some_iff)
  have queue: "action_queue ?adb2 = action_queue adb"
    by (simp add: heartbeat_action_worker_db_def expire_stale_action_claims_db_def case_prod_beta)
  have "filter (\<lambda>r. qi_status r = ''queued'') (action_queue ?adb2) = []"
    using assms(4) by (simp add: queue list_all_iff filter_empty_conv)
  then have deq: "dequeue_next_action_db (ce_now e) ?adb2 ?adb2 = (None, ?adb2)"
    by (simp add: dequeue_next_action_db_def queue_order_def)
  have first: "process_next_action_with_worker e pick uuid requested (adb, db) = (Inl NoAttribute, ?adb2, db)"
    using assms(1-3) id
    by (simp add: process_next_action_with_worker_def Let_def process_next_core_action_def deq processed_action_id_def
        sum_bind_db_def as_dict_def py_lower_def py_lower_char_def)
  have busy: "wk_status r = Some ''busy''" if "find (\<lambda>r. wk_worker_id r = requested) (list_action_workers_db 100 ?adb2) = Some r" for r
  proof -
    have "r \<in> set (list_action_workers_db 100 ?adb2)" "wk_worker_id r = requested"
      using that by (auto simp: find_Some_iff)
    then have "r \<in> set (action_workers ?adb2)" "wk_worker_id r = requested"
      by (auto simp: list_action_workers_db_def sql_order_limit_def dest: in_set_takeD)
    then show ?thesis by (rule heartbeat_status [OF _ assms(1)])
  qed
  have "fst (process_next_action_with_worker e' pick' uuid' requested (?adb2, db)) \<in>
        {Inr (run_refused ''worker_not_available''), Inr (run_refused ''worker_not_found'')}"
  proof (cases "find (\<lambda>r. wk_worker_id r = requested) (list_action_workers_db 100 ?adb2)")
    case None
    then show ?thesis using assms(1) by (simp add: process_next_action_with_worker_def)
  next
    case (Some r)
    then show ?thesis using assms(1) busy [OF Some]
      by (simp add: process_next_action_with_worker_def py_lower_def py_lower_char_def)
  qed
  then show ?thesis unfolding first prod.case by simp
qed

definition idle_worker :: action_worker where
  "idle_worker = \<lparr> wk_worker_id = ''w1'', wk_worker_name = ''w1'', wk_status = Some ''idle'', wk_current_action = None,
     wk_hostname = None, wk_capabilities = PDict [], wk_processed = 0, wk_failed = 0, wk_started_at = 0,
     wk_last_heartbeat = 0, wk_updated_at = 0 \<rparr>"

theorem empty_queue_strands_worker_witness:
  "case process_next_action_with_worker sample_core (\<lambda>_. None) ''c1'' ''w1''
      (empty_actions \<lparr> action_workers := [idle_worker] \<rparr>, sample_pdb) of (answer, adb', db') \<Rightarrow>
      answer = Inl NoAttribute \<and> db' = sample_pdb \<and>
      fst (process_next_action_with_worker (sample_core \<lparr> ce_now := 50 \<rparr>) (\<lambda>_. None) ''c2'' ''w1'' (adb', db')) \<in>
        {Inr (run_refused ''worker_not_available''), Inr (run_refused ''worker_not_found'')}"
  by (rule empty_queue_strands_worker [where worker = idle_worker])
    (simp_all add: empty_actions_def idle_worker_def list_action_workers_db_def sql_order_limit_def row_limit_def)

end
