(* ===== verification/BuyerIdentity.thy ===== *)
theory BuyerIdentity
  imports Json
begin

text \<open>
  Wallet identity of buyers (\<open>iat/buyer_identity.py\<close>): challenges signed by a wallet and exchanged for
  sessions, the purchase policy of a wallet and the reservations of autonomous spends under it, and
  the decisions of a buyer intent, which are claimed and turned into one order. A
  \<open>WalletIdentityError\<close> is a \<open>ValueError\<close>. The Solana library is two parameters: \<open>pubkey v\<close> is the text
  of the key read from \<open>v\<close>, and \<open>verify wallet signature message\<close> answers \<open>False\<close> when the library
  raises. Drawn tokens, SHA-256 and clocks are arguments; lists and dicts in JSON columns are decoded.
\<close>

section \<open>Tables\<close>

record challenge =
  wc_challenge_id :: string
  wc_wallet :: string
  wc_message :: string
  wc_created_at :: int
  wc_expires_at :: int
  wc_used_at :: "int option"

record wallet_session =
  ws_token_hash :: string
  ws_wallet :: string
  ws_created_at :: int
  ws_expires_at :: int
  ws_last_used_at :: int
  ws_revoked_at :: "int option"

record purchase_policy =
  pp_wallet :: string
  pp_enabled :: bool
  pp_input_asset :: string
  pp_max_per_order :: int
  pp_daily_limit :: int
  pp_allowed_services :: "string list"
  pp_created_at :: int
  pp_updated_at :: int

record spend_reservation =
  sr_quote_id :: string
  sr_wallet :: string
  sr_input_asset :: string
  sr_amount :: int
  sr_service :: string
  sr_state :: string
  sr_created_at :: int
  sr_expires_at :: int

record intent_decision =
  bi_decision_id :: string
  bi_wallet :: string
  bi_key :: string
  bi_request_hash :: string
  bi_request :: pydict
  bi_selection :: pydict
  bi_seller_agent :: "string option"
  bi_agent :: "string option"
  bi_item :: "string option"
  bi_unit_price :: "string option"
  bi_currency :: "string option"
  bi_created_at :: int
  bi_expires_at :: int
  bi_consumed_at :: "int option"
  bi_order_id :: "string option"

record identity_db =
  challenges :: "challenge list"
  wallet_sessions :: "wallet_session list"
  policies :: "purchase_policy list"
  reservations :: "spend_reservation list"
  intents :: "intent_decision list"

definition challenge_clash :: "challenge \<Rightarrow> challenge \<Rightarrow> bool" where
  "challenge_clash r x = (wc_challenge_id x = wc_challenge_id r)"

definition session_clash :: "wallet_session \<Rightarrow> wallet_session \<Rightarrow> bool" where
  "session_clash r x = (ws_token_hash x = ws_token_hash r)"

definition intent_clash :: "intent_decision \<Rightarrow> intent_decision \<Rightarrow> bool" where
  "intent_clash r x =
     (bi_decision_id x = bi_decision_id r \<or> (bi_wallet x = bi_wallet r \<and> bi_key x = bi_key r))"

section \<open>Settings and wallets\<close>

definition challenge_ttl :: "env \<Rightarrow> int" where
  "challenge_ttl getenv = clamp_int 60 600 (env_int getenv ''IAT_WALLET_CHALLENGE_TTL_SECONDS'' 300)"

definition session_ttl :: "env \<Rightarrow> int" where
  "session_ttl getenv = clamp_int 300 86400 (env_int getenv ''IAT_WALLET_SESSION_TTL_SECONDS'' 1800)"

definition validate_wallet :: "(string \<Rightarrow> string option) \<Rightarrow> string \<Rightarrow> py_error + string" where
  "validate_wallet pubkey wallet =
     (let value = py_strip wallet in
      case pubkey value of
        None \<Rightarrow> Inl (ValueError ''invalid_wallet'')
      | Some parsed \<Rightarrow> if parsed \<noteq> value then Inl (ValueError ''invalid_wallet'') else Inr value)"

section \<open>Challenges and sessions\<close>

definition challenge_message :: "string \<Rightarrow> string \<Rightarrow> int \<Rightarrow> int \<Rightarrow> string \<Rightarrow> string" where
  "challenge_message wallet nonce issued_at expires_at statement =
     py_join [CHR 0x0A]
       [''IAT Protocol Wallet Authentication'', ''Domain: iatprotocol.com'', ''URI: https://iatprotocol.com'',
        ''Version: 1'', ''Cluster: devnet'', ''Wallet: '' @ wallet, ''Challenge: '' @ nonce,
        ''Issued At: '' @ string_of_int issued_at, ''Expires At: '' @ string_of_int expires_at,
        ''Statement: '' @ take 240 (py_strip statement)]"

definition new_challenge :: "env \<Rightarrow> string \<Rightarrow> string \<Rightarrow> string \<Rightarrow> string \<Rightarrow> int \<Rightarrow> challenge" where
  "new_challenge getenv cid nonce wallet statement now =
     \<lparr> wc_challenge_id = ''iwc_'' @ cid, wc_wallet = wallet,
       wc_message = challenge_message wallet nonce now (now + challenge_ttl getenv) statement, wc_created_at = now,
       wc_expires_at = now + challenge_ttl getenv, wc_used_at = None \<rparr>"

definition create_wallet_challenge ::
  "(string \<Rightarrow> string option) \<Rightarrow> env \<Rightarrow> string \<Rightarrow> string \<Rightarrow> string \<Rightarrow> string \<Rightarrow> int \<Rightarrow> identity_db \<Rightarrow> identity_db \<Rightarrow>
   (py_error + challenge) \<times> identity_db" where
  "create_wallet_challenge pubkey getenv cid nonce wallet statement now snap db =
     (case validate_wallet pubkey wallet of
        Inl e \<Rightarrow> (Inl e, db)
      | Inr w \<Rightarrow>
          if length (filter (\<lambda>c. wc_wallet c = w \<and> wc_created_at c \<ge> now - 60) (challenges snap)) \<ge> 5
          then (Inl (ValueError ''wallet_challenge_rate_limited''), db)
          else
            let c = new_challenge getenv cid nonce w statement now
            in (case sql_insert challenge_clash c (challenges db) of
                  None \<Rightarrow> (Inl IntegrityViolation, db)
                | Some t \<Rightarrow> (Inr c, db \<lparr> challenges := t \<rparr>)))"

record issued_session =
  is_access_token :: string
  is_wallet :: string
  is_expires_at :: int

definition challenge_open :: "string \<Rightarrow> int \<Rightarrow> challenge \<Rightarrow> bool" where
  "challenge_open cid now c = (wc_challenge_id c = cid \<and> wc_used_at c = None \<and> wc_expires_at c > now)"

definition new_session :: "env \<Rightarrow> string \<Rightarrow> string \<Rightarrow> int \<Rightarrow> wallet_session" where
  "new_session getenv token_hash wallet now =
     \<lparr> ws_token_hash = token_hash, ws_wallet = wallet, ws_created_at = now, ws_expires_at = now + session_ttl getenv,
       ws_last_used_at = now, ws_revoked_at = None \<rparr>"

definition exchange_wallet_signature ::
  "(string \<Rightarrow> string) \<Rightarrow> (string \<Rightarrow> string \<Rightarrow> string \<Rightarrow> bool) \<Rightarrow> env \<Rightarrow> string \<Rightarrow> string \<Rightarrow> string \<Rightarrow> int \<Rightarrow>
   identity_db \<Rightarrow> identity_db \<Rightarrow> (py_error + issued_session) \<times> identity_db" where
  "exchange_wallet_signature sha verify getenv secret cid signature now snap db =
     (case row_by wc_challenge_id cid (challenges snap) of
        None \<Rightarrow> (Inl (ValueError ''invalid_wallet_challenge''), db)
      | Some c \<Rightarrow>
          if wc_used_at c \<noteq> None \<or> now \<ge> wc_expires_at c then (Inl (ValueError ''invalid_wallet_challenge''), db)
          else if \<not> verify (wc_wallet c) signature (wc_message c)
          then (Inl (ValueError ''invalid_wallet_signature''), db)
          else
            let (t, n) = sql_update (challenge_open cid now) (\<lambda>x. x \<lparr> wc_used_at := Some now \<rparr>) (challenges db) in
            if n \<noteq> 1 then (Inl (ValueError ''invalid_wallet_challenge''), db)
            else
              let token = ''ias_'' @ secret; s = new_session getenv (sha token) (wc_wallet c) now
              in (case sql_insert session_clash s (wallet_sessions db) of
                    None \<Rightarrow> (Inl IntegrityViolation, db)
                  | Some u \<Rightarrow>
                      (Inr \<lparr> is_access_token = token, is_wallet = wc_wallet c, is_expires_at = ws_expires_at s \<rparr>,
                       db \<lparr> challenges := t, wallet_sessions := u \<rparr>)))"

definition token_shape :: "string \<Rightarrow> bool" where
  "token_shape token = (py_startswith token ''ias_'' \<and> length token \<le> 128)"

definition session_live :: "int \<Rightarrow> wallet_session \<Rightarrow> bool" where
  "session_live now s = (ws_revoked_at s = None \<and> ws_expires_at s > now)"

definition authenticate_wallet_session ::
  "(string \<Rightarrow> string) \<Rightarrow> string \<Rightarrow> int \<Rightarrow> identity_db \<Rightarrow> identity_db \<Rightarrow> (py_error + string) \<times> identity_db" where
  "authenticate_wallet_session sha token now snap db =
     (if \<not> token_shape token then (Inl (ValueError ''invalid_wallet_session''), db)
      else (case find (\<lambda>s. ws_token_hash s = sha token \<and> session_live now s) (wallet_sessions snap) of
              None \<Rightarrow> (Inl (ValueError ''invalid_wallet_session''), db)
            | Some s \<Rightarrow>
                (Inr (ws_wallet s),
                 db \<lparr> wallet_sessions := fst (sql_update (\<lambda>x. ws_token_hash x = sha token)
                        (\<lambda>x. x \<lparr> ws_last_used_at := now \<rparr>) (wallet_sessions db)) \<rparr>)))"

definition revoke_wallet_session :: "(string \<Rightarrow> string) \<Rightarrow> string \<Rightarrow> int \<Rightarrow> identity_db \<Rightarrow> bool \<times> identity_db" where
  "revoke_wallet_session sha token now db =
     (if \<not> token_shape token then (False, db)
      else
        let (t, n) = sql_update (\<lambda>x. ws_token_hash x = sha token \<and> ws_revoked_at x = None)
               (\<lambda>x. x \<lparr> ws_revoked_at := Some now \<rparr>) (wallet_sessions db)
        in (n = 1, db \<lparr> wallet_sessions := t \<rparr>))"

section \<open>Purchase policies\<close>

definition policy_services :: "string list \<Rightarrow> string list" where
  "policy_services items = sort (remdups (map (\<lambda>s. py_lower (py_strip s)) (filter (\<lambda>s. py_strip s \<noteq> []) items)))"

definition get_buyer_purchase_policy ::
  "(string \<Rightarrow> string option) \<Rightarrow> string \<Rightarrow> identity_db \<Rightarrow> py_error + purchase_policy option" where
  "get_buyer_purchase_policy pubkey wallet db =
     (case validate_wallet pubkey wallet of Inl e \<Rightarrow> Inl e | Inr w \<Rightarrow> Inr (row_by pp_wallet w (policies db)))"

definition save_buyer_purchase_policy ::
  "(string \<Rightarrow> string option) \<Rightarrow> string \<Rightarrow> bool \<Rightarrow> string \<Rightarrow> int \<Rightarrow> int \<Rightarrow> string list \<Rightarrow> int \<Rightarrow> identity_db \<Rightarrow>
   (py_error + purchase_policy option) \<times> identity_db" where
  "save_buyer_purchase_policy pubkey wallet enabled input_asset per_order daily allowed_services now db =
     (case validate_wallet pubkey wallet of
        Inl e \<Rightarrow> (Inl e, db)
      | Inr w \<Rightarrow>
          let asset = py_upper (py_strip input_asset); services = policy_services allowed_services in
          if asset \<noteq> ''USDC'' then (Inl (ValueError ''unsupported_purchase_policy_asset''), db)
          else if per_order \<le> 0 \<or> daily \<le> 0 \<or> per_order > daily
          then (Inl (ValueError ''invalid_purchase_policy_limits''), db)
          else if length services > 50 \<or> list_ex (\<lambda>s. length s > 100) services
          then (Inl (ValueError ''invalid_purchase_policy_services''), db)
          else
            let new = \<lparr> pp_wallet = w, pp_enabled = enabled, pp_input_asset = asset, pp_max_per_order = per_order,
                        pp_daily_limit = daily, pp_allowed_services = services, pp_created_at = now,
                        pp_updated_at = now \<rparr>;
                t = (case row_by pp_wallet w (policies db) of
                       None \<Rightarrow> policies db @ [new]
                     | Some old \<Rightarrow> fst (sql_update (\<lambda>x. pp_wallet x = w)
                                        (\<lambda>x. new \<lparr> pp_created_at := pp_created_at x \<rparr>) (policies db)));
                db1 = db \<lparr> policies := t \<rparr>
            in (get_buyer_purchase_policy pubkey w db1, db1))"

section \<open>Spend reservations\<close>

definition day_start :: "int \<Rightarrow> int" where
  "day_start now = now - now mod 86400"

definition active_reservation_states :: "string list" where
  "active_reservation_states = [''reserved'', ''submitted'', ''confirmed'']"

definition counts_today :: "string \<Rightarrow> string \<Rightarrow> int \<Rightarrow> spend_reservation \<Rightarrow> bool" where
  "counts_today wallet asset now r =
     (sr_wallet r = wallet \<and> sr_input_asset r = asset \<and> sr_created_at r \<ge> day_start now \<and> sr_expires_at r > now \<and>
      sr_state r \<in> set active_reservation_states)"

definition spent_today :: "string \<Rightarrow> string \<Rightarrow> int \<Rightarrow> identity_db \<Rightarrow> int" where
  "spent_today wallet asset now db = sum_list (map sr_amount (filter (counts_today wallet asset now) (reservations db)))"

datatype spend_answer =
    AlreadyReserved spend_reservation
  | Reserved string int string int int int

text \<open>The limits of the policy, before any reservation is looked up.\<close>

definition policy_permits :: "string \<Rightarrow> int \<Rightarrow> string \<Rightarrow> purchase_policy option \<Rightarrow> py_error + purchase_policy" where
  "policy_permits asset amount service found =
     (case found of
        None \<Rightarrow> Inl (ValueError ''autonomous_purchase_policy_required'')
      | Some policy \<Rightarrow>
          if \<not> pp_enabled policy then Inl (ValueError ''autonomous_purchase_policy_required'')
          else if asset \<noteq> py_upper (pp_input_asset policy) then Inl (ValueError ''purchase_policy_asset_blocked'')
          else if amount > pp_max_per_order policy then Inl (ValueError ''purchase_policy_order_limit_exceeded'')
          else if pp_allowed_services policy \<noteq> [] \<and> service \<notin> set (pp_allowed_services policy)
          then Inl (ValueError ''purchase_policy_service_blocked'')
          else Inr policy)"

definition new_reservation :: "string \<Rightarrow> string \<Rightarrow> string \<Rightarrow> int \<Rightarrow> string \<Rightarrow> int \<Rightarrow> int \<Rightarrow> spend_reservation" where
  "new_reservation quote_id wallet asset amount service now expires_at =
     \<lparr> sr_quote_id = quote_id, sr_wallet = wallet, sr_input_asset = asset, sr_amount = amount, sr_service = service,
       sr_state = ''reserved'', sr_created_at = now, sr_expires_at = expires_at \<rparr>"

definition authorize_buyer_spend ::
  "(string \<Rightarrow> string option) \<Rightarrow> string \<Rightarrow> string \<Rightarrow> string \<Rightarrow> int \<Rightarrow> string \<Rightarrow> int \<Rightarrow> int \<Rightarrow> identity_db \<Rightarrow> identity_db \<Rightarrow>
   (py_error + spend_answer) \<times> identity_db" where
  "authorize_buyer_spend pubkey wallet quote_id input_asset amount service expires_at now snap db =
     (case validate_wallet pubkey wallet of
        Inl e \<Rightarrow> (Inl e, db)
      | Inr w \<Rightarrow>
          let asset = py_upper (py_strip input_asset); normalized_service = py_lower (py_strip service) in
          if amount \<le> 0 \<or> expires_at \<le> now then (Inl (ValueError ''invalid_autonomous_spend''), db)
          else (case policy_permits asset amount normalized_service (row_by pp_wallet w (policies snap)) of
                  Inl e \<Rightarrow> (Inl e, db)
                | Inr policy \<Rightarrow>
                    (case row_by sr_quote_id quote_id (reservations snap) of
                       Some r \<Rightarrow>
                         if sr_wallet r \<noteq> w \<or> sr_amount r \<noteq> amount
                         then (Inl (ValueError ''autonomous_spend_idempotency_conflict''), db)
                         else (Inr (AlreadyReserved r), db)
                     | None \<Rightarrow>
                         let reserved = spent_today w asset now snap in
                         if reserved + amount > pp_daily_limit policy
                         then (Inl (ValueError ''purchase_policy_daily_limit_exceeded''), db)
                         else (case sql_insert (\<lambda>r x. sr_quote_id x = sr_quote_id r)
                                 (new_reservation quote_id w asset amount normalized_service now expires_at)
                                 (reservations db) of
                                 None \<Rightarrow> (Inl IntegrityViolation, db)
                               | Some t \<Rightarrow>
                                   (Inr (Reserved quote_id amount asset (reserved + amount) (pp_daily_limit policy) expires_at),
                                    db \<lparr> reservations := t \<rparr>)))))"

definition reservation_expiry :: "string \<Rightarrow> int \<Rightarrow> int" where
  "reservation_expiry state now = (if state \<in> {''submitted'', ''confirmed''} then day_start now + 86400 else now)"

definition update_buyer_spend_reservation ::
  "string \<Rightarrow> string \<Rightarrow> int \<Rightarrow> identity_db \<Rightarrow> (py_error + bool) \<times> identity_db" where
  "update_buyer_spend_reservation quote_id state now db =
     (let normalized = py_lower (py_strip state) in
      if normalized \<notin> {''submitted'', ''confirmed'', ''released''}
      then (Inl (ValueError ''invalid_spend_reservation_state''), db)
      else
        let (t, n) = sql_update (\<lambda>r. sr_quote_id r = quote_id)
               (\<lambda>r. r \<lparr> sr_state := normalized, sr_expires_at := reservation_expiry normalized now \<rparr>) (reservations db)
        in (Inr (n = 1), db \<lparr> reservations := t \<rparr>))"

section \<open>Intent decisions\<close>

definition new_intent ::
  "string \<Rightarrow> string \<Rightarrow> string \<Rightarrow> string \<Rightarrow> pydict \<Rightarrow> pydict \<Rightarrow> pydict option \<Rightarrow> int \<Rightarrow> int \<Rightarrow> intent_decision" where
  "new_intent decision_id wallet key hash request selection selected_record now ttl =
     (let selected = (case selected_record of None \<Rightarrow> [] | Some s \<Rightarrow> s)
      in \<lparr> bi_decision_id = decision_id, bi_wallet = wallet, bi_key = key, bi_request_hash = hash,
           bi_request = request, bi_selection = selection,
           bi_seller_agent = text_col (dget selected ''seller_agent_id''),
           bi_agent = text_col (dget selected ''agent_id''),
           bi_item = text_col (dget selected ''catalog_item_id''),
           bi_unit_price = (if selected \<noteq> [] then Some (py_str (dget selected ''unit_price'')) else None),
           bi_currency = text_col (dget selected ''currency''), bi_created_at = now,
           bi_expires_at = now + clamp_int 30 300 ttl, bi_consumed_at = None, bi_order_id = None \<rparr>)"

text \<open>An answer is the row and whether it is a replay.\<close>

definition save_buyer_intent_decision ::
  "(string \<Rightarrow> string option) \<Rightarrow> (string \<Rightarrow> string) \<Rightarrow> string \<Rightarrow> string \<Rightarrow> string \<Rightarrow> pydict \<Rightarrow> pydict \<Rightarrow> pydict option \<Rightarrow>
   int \<Rightarrow> int \<Rightarrow> identity_db \<Rightarrow> identity_db \<Rightarrow> (py_error + intent_decision \<times> bool) \<times> identity_db" where
  "save_buyer_intent_decision pubkey sha secret wallet idempotency_key request selection selected_record now ttl snap db =
     (case validate_wallet pubkey wallet of
        Inl e \<Rightarrow> (Inl e, db)
      | Inr w \<Rightarrow>
          let key = py_strip idempotency_key; hash = sha (json_dumps True (PDict request)) in
          if \<not> (8 \<le> length key \<and> length key \<le> 128) then (Inl (ValueError ''invalid_intent_idempotency_key''), db)
          else (case find (\<lambda>r. bi_wallet r = w \<and> bi_key r = key) (intents snap) of
                  Some r \<Rightarrow>
                    if bi_request_hash r \<noteq> hash then (Inl (ValueError ''intent_idempotency_conflict''), db)
                    else (Inr (r, True), db)
                | None \<Rightarrow>
                    let r = new_intent (''bid_'' @ secret) w key hash request selection selected_record now ttl
                    in (case sql_insert intent_clash r (intents db) of
                          None \<Rightarrow> (Inl IntegrityViolation, db)
                        | Some t \<Rightarrow> (Inr (r, False), db \<lparr> intents := t \<rparr>))))"

definition find_intent :: "string \<Rightarrow> string \<Rightarrow> identity_db \<Rightarrow> intent_decision option" where
  "find_intent wallet decision_id db = find (\<lambda>r. bi_decision_id r = decision_id \<and> bi_wallet r = wallet) (intents db)"

definition has_order :: "intent_decision \<Rightarrow> bool" where
  "has_order r = (case bi_order_id r of None \<Rightarrow> False | Some k \<Rightarrow> k \<noteq> [])"

definition get_buyer_intent_decision ::
  "(string \<Rightarrow> string option) \<Rightarrow> string \<Rightarrow> string \<Rightarrow> int \<Rightarrow> identity_db \<Rightarrow> py_error + intent_decision" where
  "get_buyer_intent_decision pubkey wallet decision_id now db =
     (case validate_wallet pubkey wallet of
        Inl e \<Rightarrow> Inl e
      | Inr w \<Rightarrow>
          (case find_intent w decision_id db of
             None \<Rightarrow> Inl (ValueError ''intent_decision_not_found'')
           | Some r \<Rightarrow>
               if \<not> has_order r \<and> now \<ge> bi_expires_at r then Inl (ValueError ''intent_decision_expired'') else Inr r))"

definition intent_claimable :: "string \<Rightarrow> string \<Rightarrow> int \<Rightarrow> intent_decision \<Rightarrow> bool" where
  "intent_claimable w decision_id now x =
     (bi_decision_id x = decision_id \<and> bi_wallet x = w \<and> bi_order_id x = None \<and>
      (case bi_consumed_at x of None \<Rightarrow> True | Some t \<Rightarrow> t \<le> now - 30))"

definition claim_buyer_intent_decision ::
  "(string \<Rightarrow> string option) \<Rightarrow> string \<Rightarrow> string \<Rightarrow> int \<Rightarrow> identity_db \<Rightarrow> identity_db \<Rightarrow>
   (py_error + intent_decision \<times> bool) \<times> identity_db" where
  "claim_buyer_intent_decision pubkey wallet decision_id now snap db =
     (case validate_wallet pubkey wallet of
        Inl e \<Rightarrow> (Inl e, db)
      | Inr w \<Rightarrow>
          (case find_intent w decision_id snap of
             None \<Rightarrow> (Inl (ValueError ''intent_decision_not_found''), db)
           | Some r \<Rightarrow>
               if has_order r then (Inr (r, True), db)
               else if now \<ge> bi_expires_at r then (Inl (ValueError ''intent_decision_expired''), db)
               else if (case bi_consumed_at r of None \<Rightarrow> False | Some t \<Rightarrow> t > now - 30)
               then (Inl (ValueError ''intent_decision_commit_in_progress''), db)
               else
                 let (t, n) = sql_update (intent_claimable w decision_id now)
                        (\<lambda>x. x \<lparr> bi_consumed_at := Some now \<rparr>) (intents db)
                 in if n \<noteq> 1 then (Inl (ValueError ''intent_decision_commit_in_progress''), db)
                    else (Inr (r \<lparr> bi_consumed_at := Some now \<rparr>, False), db \<lparr> intents := t \<rparr>)))"

definition finalize_buyer_intent_decision ::
  "(string \<Rightarrow> string option) \<Rightarrow> string \<Rightarrow> string \<Rightarrow> string \<Rightarrow> identity_db \<Rightarrow> (py_error + bool) \<times> identity_db" where
  "finalize_buyer_intent_decision pubkey wallet decision_id order_id db =
     (case validate_wallet pubkey wallet of
        Inl e \<Rightarrow> (Inl e, db)
      | Inr w \<Rightarrow>
          let (t, n) = sql_update (\<lambda>x. bi_decision_id x = decision_id \<and> bi_wallet x = w \<and> bi_consumed_at x \<noteq> None \<and>
                  bi_order_id x = None) (\<lambda>x. x \<lparr> bi_order_id := Some order_id \<rparr>) (intents db)
          in (Inr (n = 1), db \<lparr> intents := t \<rparr>))"

definition release_buyer_intent_decision_claim ::
  "(string \<Rightarrow> string option) \<Rightarrow> string \<Rightarrow> string \<Rightarrow> identity_db \<Rightarrow> (py_error + bool) \<times> identity_db" where
  "release_buyer_intent_decision_claim pubkey wallet decision_id db =
     (case validate_wallet pubkey wallet of
        Inl e \<Rightarrow> (Inl e, db)
      | Inr w \<Rightarrow>
          let (t, n) = sql_update (\<lambda>x. bi_decision_id x = decision_id \<and> bi_wallet x = w \<and> bi_order_id x = None)
                 (\<lambda>x. x \<lparr> bi_consumed_at := None \<rparr>) (intents db)
          in (Inr (n = 1), db \<lparr> intents := t \<rparr>))"

end
