(* ===== verification/BuyerFacts.thy ===== *)
theory BuyerFacts
  imports BuyerIdentity Interfaces
begin

text \<open>
  What the wallet identity guarantees: every session was paid for with a signed challenge, autonomous
  spends stay within the daily limit as long as they are reported in time (and not otherwise), and an
  intent is turned into one order.
\<close>

section \<open>Sessions\<close>

datatype session_op =
    CreateChallenge string string string string int
  | ExchangeSignature string string string int
  | AuthenticateSession string int
  | RevokeSession string int

record wallet_world =
  ww_pubkey :: "string \<Rightarrow> string option"
  ww_sha :: "string \<Rightarrow> string"
  ww_verify :: "string \<Rightarrow> string \<Rightarrow> string \<Rightarrow> bool"
  ww_env :: env

fun run_session_op :: "wallet_world \<Rightarrow> session_op \<Rightarrow> identity_db \<Rightarrow> identity_db \<Rightarrow> identity_db" where
  "run_session_op w (CreateChallenge cid nonce wallet statement now) snap db =
     snd (create_wallet_challenge (ww_pubkey w) (ww_env w) cid nonce wallet statement now snap db)"
| "run_session_op w (ExchangeSignature secret cid signature now) snap db =
     snd (exchange_wallet_signature (ww_sha w) (ww_verify w) (ww_env w) secret cid signature now snap db)"
| "run_session_op w (AuthenticateSession token now) snap db = snd (authenticate_wallet_session (ww_sha w) token now snap db)"
| "run_session_op w (RevokeSession token now) snap db = snd (revoke_wallet_session (ww_sha w) token now db)"

text \<open>The states of a run, newest first: every operation reads one of the states so far.\<close>

inductive session_history :: "wallet_world \<Rightarrow> identity_db list \<Rightarrow> bool" for w :: wallet_world where
  start: "challenges db = [] \<Longrightarrow> wallet_sessions db = [] \<Longrightarrow> session_history w [db]"
| step: "session_history w (db # past) \<Longrightarrow> snap \<in> set (db # past) \<Longrightarrow>
    session_history w (run_session_op w x snap db # db # past)"

definition same_challenge :: "challenge \<Rightarrow> challenge \<Rightarrow> bool" where
  "same_challenge c c' = (wc_challenge_id c' = wc_challenge_id c \<and> wc_wallet c' = wc_wallet c \<and> wc_message c' = wc_message c)"

definition challenges_known :: "identity_db \<Rightarrow> identity_db \<Rightarrow> bool" where
  "challenges_known snap db = (\<forall>c \<in> set (challenges snap). \<exists>c' \<in> set (challenges db). same_challenge c c')"

definition paid_challenge :: "wallet_world \<Rightarrow> string \<Rightarrow> challenge \<Rightarrow> bool" where
  "paid_challenge w wallet c =
     (wc_wallet c = wallet \<and> wc_used_at c \<noteq> None \<and> (\<exists>signature. ww_verify w wallet signature (wc_message c)))"

abbreviation sessions_of :: "string \<Rightarrow> identity_db \<Rightarrow> nat" where
  "sessions_of wallet db \<equiv> length (filter (\<lambda>s. ws_wallet s = wallet) (wallet_sessions db))"

abbreviation paid_challenges :: "wallet_world \<Rightarrow> string \<Rightarrow> identity_db \<Rightarrow> nat" where
  "paid_challenges w wallet db \<equiv> length (filter (paid_challenge w wallet) (challenges db))"

lemma filter_map_same:
  assumes "\<And>r. P r \<Longrightarrow> Q (f r) = Q r"
  shows "length (filter Q (fst (sql_update P f t))) = length (filter Q t)"
  using assms by (induction t) (auto simp: sql_update_def)

lemma filter_map_one:
  assumes "length (filter P t) = 1" and "\<And>r. r \<in> set t \<Longrightarrow> P r \<Longrightarrow> \<not> Q r \<and> Q (f r)"
  shows "length (filter Q (fst (sql_update P f t))) = Suc (length (filter Q t))"
  using assms
proof (induction t)
  case (Cons r t)
  show ?case
  proof (cases "P r")
    case True
    then have "filter P t = []" using Cons.prems(1) by simp
    then have "fst (sql_update P f t) = t" by (simp add: rowcount_0_same snd_sql_update)
    then show ?thesis using True Cons.prems(2) [of r] by (simp add: sql_update_def)
  next
    case False
    then show ?thesis using Cons by (simp add: sql_update_def)
  qed
qed simp

text \<open>What an operation does to the tables.\<close>

lemma new_rows [simp]:
  "wc_challenge_id (new_challenge getenv cid nonce v statement now) = ''iwc_'' @ cid"
  "wc_used_at (new_challenge getenv cid nonce v statement now) = None"
  "ws_wallet (new_session getenv h v now) = v" "ws_token_hash (new_session getenv h v now) = h"
  by (simp_all add: new_challenge_def new_session_def)

lemma create_effect:
  "snd (create_wallet_challenge pubkey getenv cid nonce wallet statement now snap db) = db \<or>
   (\<exists>v. row_by wc_challenge_id (''iwc_'' @ cid) (challenges db) = None \<and>
      snd (create_wallet_challenge pubkey getenv cid nonce wallet statement now snap db) =
        db \<lparr> challenges := challenges db @ [new_challenge getenv cid nonce v statement now] \<rparr>)"
proof (cases "validate_wallet pubkey wallet")
  case (Inr v)
  then show ?thesis
    by (auto simp: create_wallet_challenge_def Let_def sql_insert_Some challenge_clash_def row_by_None_iff image_iff
        split: option.split)
qed (simp add: create_wallet_challenge_def)

lemma exchange_effect:
  "snd (exchange_wallet_signature sha verify getenv secret cid signature now snap db) = db \<or>
   (\<exists>c. row_by wc_challenge_id cid (challenges snap) = Some c \<and> verify (wc_wallet c) signature (wc_message c) \<and>
      length (filter (challenge_open cid now) (challenges db)) = 1 \<and>
      snd (exchange_wallet_signature sha verify getenv secret cid signature now snap db) =
        db \<lparr> challenges := fst (sql_update (challenge_open cid now) (\<lambda>x. x \<lparr> wc_used_at := Some now \<rparr>) (challenges db)),
             wallet_sessions := wallet_sessions db @ [new_session getenv (sha (''ias_'' @ secret)) (wc_wallet c) now] \<rparr>)"
proof (cases "row_by wc_challenge_id cid (challenges snap)")
  case (Some c)
  then show ?thesis
    by (simp add: exchange_wallet_signature_def Let_def case_prod_beta snd_sql_update sql_insert_Some split: option.split)
qed (simp add: exchange_wallet_signature_def)

definition paid_sessions :: "wallet_world \<Rightarrow> identity_db \<Rightarrow> bool" where
  "paid_sessions w db = (unique_by wc_challenge_id (challenges db) \<and> (\<forall>wallet. sessions_of wallet db \<le> paid_challenges w wallet db))"

lemma known_trans: "challenges_known a b \<Longrightarrow> challenges_known b c \<Longrightarrow> challenges_known a c"
  by (fastforce simp: challenges_known_def same_challenge_def)

lemma known_refl: "challenges_known db db"
  by (auto simp: challenges_known_def same_challenge_def)

lemma session_step:
  assumes inv: "paid_sessions w db" and known: "challenges_known snap db"
  shows "paid_sessions w (run_session_op w x snap db) \<and> challenges_known db (run_session_op w x snap db)"
proof (cases x)
  case (CreateChallenge cid nonce wallet statement now)
  then show ?thesis
    using create_effect [of "ww_pubkey w" "ww_env w" cid nonce wallet statement now snap db] inv known_refl [of db]
    by (auto simp: paid_sessions_def unique_by_snoc paid_challenge_def challenges_known_def same_challenge_def)
next
  case (ExchangeSignature secret cid signature now)
  let ?db' = "run_session_op w x snap db"
  from exchange_effect [of "ww_sha w" "ww_verify w" "ww_env w" secret cid signature now snap db]
  show ?thesis
  proof (elim disjE exE conjE)
    assume "snd (exchange_wallet_signature (ww_sha w) (ww_verify w) (ww_env w) secret cid signature now snap db) = db"
    then show ?thesis using ExchangeSignature inv known_refl by simp
  next
    fix c :: challenge
    let ?P = "challenge_open cid now" and ?f = "\<lambda>x. x \<lparr> wc_used_at := Some now \<rparr>"
    let ?s = "new_session (ww_env w) (ww_sha w (''ias_'' @ secret)) (wc_wallet c) now"
    assume c: "row_by wc_challenge_id cid (challenges snap) = Some c" "ww_verify w (wc_wallet c) signature (wc_message c)"
      and one: "length (filter ?P (challenges db)) = 1"
      and "snd (exchange_wallet_signature (ww_sha w) (ww_verify w) (ww_env w) secret cid signature now snap db) =
        db \<lparr> challenges := fst (sql_update ?P ?f (challenges db)), wallet_sessions := wallet_sessions db @ [?s] \<rparr>"
    then have db': "?db' = db \<lparr> challenges := fst (sql_update ?P ?f (challenges db)), wallet_sessions := wallet_sessions db @ [?s] \<rparr>"
      using ExchangeSignature by simp
    have s: "ws_wallet ?s = wc_wallet c" by (simp add: new_session_def)
    have same: "wc_wallet r = wc_wallet c \<and> wc_message r = wc_message c" if "r \<in> set (challenges db)" "?P r" for r
    proof -
      have "c \<in> set (challenges snap)" "wc_challenge_id c = cid" using row_by_SomeD [OF c(1)] by auto
      then obtain c' where "c' \<in> set (challenges db)" "same_challenge c c'" using known by (auto simp: challenges_known_def)
      moreover from this have "c' = r"
        using inv that \<open>wc_challenge_id c = cid\<close> unique_by_inj [of wc_challenge_id "challenges db" c' r]
        by (simp add: paid_sessions_def same_challenge_def challenge_open_def)
      ultimately show ?thesis by (simp add: same_challenge_def)
    qed
    have "sessions_of wallet ?db' \<le> paid_challenges w wallet ?db'" for wallet
    proof (cases "wallet = wc_wallet c")
      case True
      have "paid_challenges w wallet ?db' = Suc (paid_challenges w wallet db)"
        using filter_map_one [OF one, of "paid_challenge w wallet" ?f] same c(2) True
        by (auto simp: db' paid_challenge_def challenge_open_def)
      then show ?thesis using inv s True by (simp add: db' paid_sessions_def)
    next
      case False
      have "length (filter (paid_challenge w wallet) (fst (sql_update ?P ?f (challenges db)))) = paid_challenges w wallet db"
        using same False by (auto simp: sql_update_def filter_map o_def paid_challenge_def intro!: arg_cong [of _ _ length] filter_cong)
      then show ?thesis using inv s False by (simp add: db' paid_sessions_def)
    qed
    moreover have "unique_by wc_challenge_id (challenges ?db')"
      using inv unique_by_update [of ?P wc_challenge_id ?f "challenges db"] by (simp add: db' paid_sessions_def)
    moreover have "challenges_known db ?db'"
      unfolding challenges_known_def
    proof
      fix x assume "x \<in> set (challenges db)"
      then have "(if ?P x then ?f x else x) \<in> set (challenges ?db')" by (auto simp: db' sql_update_def)
      moreover have "same_challenge x (if ?P x then ?f x else x)" by (simp add: same_challenge_def)
      ultimately show "\<exists>c' \<in> set (challenges ?db'). same_challenge x c'" by blast
    qed
    ultimately show ?thesis by (simp add: paid_sessions_def)
  qed
next
  case (AuthenticateSession token now)
  have "ends (\<lambda>db'. challenges db' = challenges db \<and> (\<forall>wallet. sessions_of wallet db' = sessions_of wallet db))
      (authenticate_wallet_session (ww_sha w) token now snap db)"
    unfolding authenticate_wallet_session_def by (intro ends_rules ends_pair) (auto simp: filter_map_same)
  then show ?thesis using inv known_refl [of db]
    by (simp add: AuthenticateSession ends_def paid_sessions_def challenges_known_def)
next
  case (RevokeSession token now)
  have "challenges (snd (revoke_wallet_session (ww_sha w) token now db)) = challenges db \<and>
      (\<forall>wallet. sessions_of wallet (snd (revoke_wallet_session (ww_sha w) token now db)) = sessions_of wallet db)"
    by (simp add: revoke_wallet_session_def case_prod_beta filter_map_same)
  then show ?thesis using inv known_refl [of db]
    by (simp add: RevokeSession paid_sessions_def challenges_known_def)
qed

lemma history_inv: "session_history w hist \<Longrightarrow> paid_sessions w (hd hist) \<and> (\<forall>snap \<in> set hist. challenges_known snap (hd hist))"
proof (induction rule: session_history.induct)
  case (step db past snap x)
  then have "paid_sessions w db" "challenges_known snap db" by auto
  from session_step [OF this, of x] step.IH show ?case
    using known_refl known_trans by (auto intro: known_trans)
qed (auto simp: paid_sessions_def known_refl)


text \<open>
  C22: a session needs a signature: from empty tables, in any history in which every operation reads one of the
  states so far, every wallet has at most as many sessions as it has challenges that are used up and whose
  text the wallet signed, so that no challenge yields two sessions and no session is issued without one.
\<close>

theorem sessions_are_signed:
  assumes "session_history w (db # past)"
  shows "length (filter (\<lambda>s. ws_wallet s = wallet) (wallet_sessions db)) \<le>
    length (filter (\<lambda>c. wc_wallet c = wallet \<and> wc_used_at c \<noteq> None \<and> (\<exists>signature. ww_verify w wallet signature (wc_message c)))
      (challenges db))"
  using history_inv [OF assms] unfolding paid_sessions_def paid_challenge_def by simp

definition empty_identity :: identity_db where
  "empty_identity = \<lparr> challenges = [], wallet_sessions = [], policies = [], reservations = [], intents = [] \<rparr>"

definition sample_wallets :: wallet_world where
  "sample_wallets = \<lparr> ww_pubkey = Some, ww_sha = (\<lambda>s. s), ww_verify = (\<lambda>w s m. s = ''sig''), ww_env = (\<lambda>_. None) \<rparr>"

definition challenged :: identity_db where
  "challenged = run_session_op sample_wallets (CreateChallenge ''c'' ''n'' ''W'' ''hi'' 10) empty_identity empty_identity"

definition signed_in :: identity_db where
  "signed_in = run_session_op sample_wallets (ExchangeSignature ''t'' ''iwc_c'' ''sig'' 20) challenged challenged"

lemma signed_in_history: "session_history sample_wallets [signed_in, challenged, empty_identity]"
proof -
  have "session_history sample_wallets [empty_identity]" by (rule session_history.start) (simp_all add: empty_identity_def)
  from session_history.step [OF this, of empty_identity "CreateChallenge ''c'' ''n'' ''W'' ''hi'' 10"] have "session_history sample_wallets [challenged, empty_identity]"
    by (simp add: challenged_def)
  from session_history.step [OF this, of challenged "ExchangeSignature ''t'' ''iwc_c'' ''sig'' 20"] show ?thesis by (simp add: signed_in_def)
qed

theorem sessions_are_signed_witness:
  "length (filter (\<lambda>s. ws_wallet s = ''W'') (wallet_sessions signed_in)) \<le>
    length (filter (\<lambda>c. wc_wallet c = ''W'' \<and> wc_used_at c \<noteq> None \<and>
      (\<exists>signature. ww_verify sample_wallets ''W'' signature (wc_message c))) (challenges signed_in))"
  by (rule sessions_are_signed [OF signed_in_history])

section \<open>Spends\<close>

datatype spend_op =
    AuthorizeSpend string string string int string int int
  | UpdateSpend string string int

fun spend_time :: "spend_op \<Rightarrow> int" where
  "spend_time (AuthorizeSpend wallet quote_id asset amount service expires_at now) = now"
| "spend_time (UpdateSpend quote_id state now) = now"

text \<open>The authorisations of a wallet run one after the other: they hold the row of its policy.\<close>

fun run_spend_op :: "(string \<Rightarrow> string option) \<Rightarrow> spend_op \<Rightarrow> identity_db \<Rightarrow> identity_db" where
  "run_spend_op pubkey (AuthorizeSpend wallet quote_id asset amount service expires_at now) db =
     snd (authorize_buyer_spend pubkey wallet quote_id asset amount service expires_at now db db)"
| "run_spend_op pubkey (UpdateSpend quote_id state now) db = snd (update_buyer_spend_reservation quote_id state now db)"

text \<open>A spend is reported in time if its reservation still counts; a release is always in time.\<close>

fun reported_in_time :: "spend_op \<Rightarrow> identity_db \<Rightarrow> bool" where
  "reported_in_time (AuthorizeSpend wallet quote_id asset amount service expires_at now) db = True"
| "reported_in_time (UpdateSpend quote_id state now) db =
     (case row_by sr_quote_id quote_id (reservations db) of
        None \<Rightarrow> True
      | Some r \<Rightarrow> py_lower (py_strip state) = ''released'' \<or> counts_today (sr_wallet r) (sr_input_asset r) now r)"

fun timely_spends :: "(string \<Rightarrow> string option) \<Rightarrow> int \<Rightarrow> spend_op list \<Rightarrow> identity_db \<Rightarrow> bool" where
  "timely_spends pubkey t [] db = True"
| "timely_spends pubkey t (x # xs) db =
     (t \<le> spend_time x \<and> day_start (spend_time x) = day_start t \<and> reported_in_time x db \<and>
      timely_spends pubkey (spend_time x) xs (run_spend_op pubkey x db))"

definition spend_ok :: "string \<Rightarrow> string \<Rightarrow> purchase_policy \<Rightarrow> int \<Rightarrow> identity_db \<Rightarrow> bool" where
  "spend_ok wallet asset p now db =
     (unique_by sr_quote_id (reservations db) \<and> list_all (\<lambda>r. 0 \<le> sr_amount r) (reservations db) \<and>
      row_by pp_wallet wallet (policies db) = Some p \<and> spent_today wallet asset now db \<le> pp_daily_limit p)"

lemma sum_filter_mono:
  assumes "list_all (\<lambda>r. 0 \<le> a r) t" and "\<And>r. r \<in> set t \<Longrightarrow> P r \<Longrightarrow> Q (f r) \<Longrightarrow> Q' r" and "\<And>r. P r \<Longrightarrow> a (f r) = a r"
    and "\<And>r. r \<in> set t \<Longrightarrow> \<not> P r \<Longrightarrow> Q r \<Longrightarrow> Q' r"
  shows "sum_list (map a (filter Q (fst (sql_update P f t)))) \<le> (sum_list (map a (filter Q' t)) :: int)"
  using assms by (induction t) (auto simp: sql_update_def)

lemma spent_later:
  assumes "spend_ok wallet asset p t db" and "t \<le> now" and "day_start now = day_start t"
  shows "spend_ok wallet asset p now db"
proof -
  have "spent_today wallet asset now db \<le> spent_today wallet asset t db"
    using sum_filter_mono [of sr_amount "reservations db" "\<lambda>r. False" "counts_today wallet asset now" id "counts_today wallet asset t"]
      assms by (auto simp: spend_ok_def spent_today_def counts_today_def sql_update_none)
  then show ?thesis using assms(1) by (simp add: spend_ok_def)
qed

lemma new_reservation_quote [simp]: "sr_quote_id (new_reservation q w a amount s now until) = q"
  by (simp add: new_reservation_def)

lemma authorize_effect:
  "snd (authorize_buyer_spend pubkey wallet quote_id input_asset amount service expires_at now db db) = db \<or>
   (\<exists>w asset s p. row_by pp_wallet w (policies db) = Some p \<and> 0 < amount \<and> amount \<le> pp_max_per_order p \<and>
      row_by sr_quote_id quote_id (reservations db) = None \<and> spent_today w asset now db + amount \<le> pp_daily_limit p \<and>
      snd (authorize_buyer_spend pubkey wallet quote_id input_asset amount service expires_at now db db) =
        db \<lparr> reservations := reservations db @ [new_reservation quote_id w asset amount s now expires_at] \<rparr>)"
proof (cases "validate_wallet pubkey wallet")
  case (Inr w)
  let ?asset = "py_upper (py_strip input_asset)" and ?s = "py_lower (py_strip service)"
  show ?thesis
  proof (cases "\<exists>p. policy_permits ?asset amount ?s (row_by pp_wallet w (policies db)) = Inr p")
    case True
    then obtain p where p: "policy_permits ?asset amount ?s (row_by pp_wallet w (policies db)) = Inr p" by blast
    then have found: "row_by pp_wallet w (policies db) = Some p \<and> amount \<le> pp_max_per_order p"
      by (auto simp: policy_permits_def split: option.splits if_splits)
    show ?thesis
    proof (cases "row_by sr_quote_id quote_id (reservations db)")
      case None
      then have "list_all (\<lambda>x. sr_quote_id x \<noteq> quote_id) (reservations db)" by (force simp: row_by_None_iff list_all_iff)
      then have "snd (authorize_buyer_spend pubkey wallet quote_id input_asset amount service expires_at now db db) =
          (if 0 < amount \<and> now < expires_at \<and> spent_today w ?asset now db + amount \<le> pp_daily_limit p
           then db \<lparr> reservations := reservations db @ [new_reservation quote_id w ?asset amount ?s now expires_at] \<rparr> else db)"
        using p Inr None by (auto simp: authorize_buyer_spend_def Let_def sql_insert_def list_all_iff list_ex_iff)
      then show ?thesis using found None by (auto split: if_splits)
    next
      case (Some r)
      then show ?thesis using p Inr by (simp add: authorize_buyer_spend_def Let_def)
    qed
  next
    case False
    then show ?thesis using Inr
      by (cases "policy_permits ?asset amount ?s (row_by pp_wallet w (policies db))") (auto simp: authorize_buyer_spend_def Let_def)
  qed
qed (simp add: authorize_buyer_spend_def)

lemma spend_step:
  assumes ok: "spend_ok wallet asset p (spend_time x) db" and time: "reported_in_time x db"
  shows "spend_ok wallet asset p (spend_time x) (run_spend_op pubkey x db)"
proof (cases x)
  case (AuthorizeSpend wa q a amount service expires_at now)
  from authorize_effect [of pubkey wa q a amount service expires_at now db] show ?thesis
  proof (elim disjE exE conjE)
    fix w as s p'
    assume new: "row_by pp_wallet w (policies db) = Some p'" "0 < amount" "row_by sr_quote_id q (reservations db) = None"
        "spent_today w as now db + amount \<le> pp_daily_limit p'"
      and db': "snd (authorize_buyer_spend pubkey wa q a amount service expires_at now db db) =
        db \<lparr> reservations := reservations db @ [new_reservation q w as amount s now expires_at] \<rparr>"
    have "spent_today wallet asset now (db \<lparr> reservations := reservations db @ [new_reservation q w as amount s now expires_at] \<rparr>) =
        spent_today wallet asset now db + (if counts_today wallet asset now (new_reservation q w as amount s now expires_at)
          then amount else 0)"
      by (simp add: spent_today_def new_reservation_def)
    moreover have "w = wallet \<and> as = asset" if "counts_today wallet asset now (new_reservation q w as amount s now expires_at)"
      using that by (simp add: counts_today_def new_reservation_def)
    ultimately show ?thesis using ok new unfolding AuthorizeSpend run_spend_op.simps db'
      by (auto simp: spend_ok_def unique_by_snoc new_reservation_def split: if_splits)
  qed (use ok AuthorizeSpend in simp)
next
  case (UpdateSpend q state now)
  let ?st = "py_lower (py_strip state)"
  let ?f = "\<lambda>r. r \<lparr> sr_state := ?st, sr_expires_at := reservation_expiry ?st now \<rparr>"
  let ?t = "fst (sql_update (\<lambda>r. sr_quote_id r = q) ?f (reservations db))"
  have "spend_ok wallet asset p now (db \<lparr> reservations := ?t \<rparr>)"
  proof -
    have "counts_today wallet asset now r" if "r \<in> set (reservations db)" "sr_quote_id r = q" "counts_today wallet asset now (?f r)" for r
    proof -
      have "row_by sr_quote_id q (reservations db) = Some r"
        using ok that by (auto simp: spend_ok_def intro: row_by_eq_SomeI)
      moreover have "?st \<noteq> ''released''" "sr_wallet r = wallet" "sr_input_asset r = asset"
        using that(3) by (auto simp: counts_today_def active_reservation_states_def)
      ultimately show ?thesis using time UpdateSpend by simp
    qed
    then have "spent_today wallet asset now (db \<lparr> reservations := ?t \<rparr>) \<le> spent_today wallet asset now db"
      using ok unfolding spent_today_def
      by (simp add: spend_ok_def) (rule sum_filter_mono, auto)
    then show ?thesis using ok UpdateSpend
      by (auto simp: spend_ok_def unique_by_update list_all_iff set_sql_update)
  qed
  then show ?thesis using ok UpdateSpend
    by (simp add: update_buyer_spend_reservation_def Let_def case_prod_beta)
qed

lemma spend_run:
  assumes "spend_ok wallet asset p t db" and "timely_spends pubkey t xs db"
  shows "\<exists>now. t \<le> now \<and> day_start now = day_start t \<and> spend_ok wallet asset p now (fold (run_spend_op pubkey) xs db) \<and>
    (xs = [] \<or> now = spend_time (last xs))"
  using assms
proof (induction xs arbitrary: t db)
  case (Cons x xs)
  have ok: "spend_ok wallet asset p (spend_time x) (run_spend_op pubkey x db)"
    using Cons.prems spent_later spend_step by simp
  have "timely_spends pubkey (spend_time x) xs (run_spend_op pubkey x db)" using Cons.prems(2) by simp
  from Cons.IH [OF ok this] obtain now where now: "spend_time x \<le> now" "day_start now = day_start (spend_time x)"
      "spend_ok wallet asset p now (fold (run_spend_op pubkey) (x # xs) db)" "xs = [] \<or> now = spend_time (last xs)"
    by auto
  show ?case
  proof (cases "xs = []")
    case True
    then show ?thesis using ok Cons.prems(2) by auto
  next
    case False
    then show ?thesis using now Cons.prems(2) by (intro exI [of _ now]) auto
  qed
qed auto

text \<open>
  C21: autonomous spends stay within the daily limit: on one day, along any run of authorisations of any
  wallets and of reported spends and releases, in which a spend is reported while its reservation
  still counts, what a wallet has reserved and spent in an asset never exceeds the limit of its
  policy, at the last operation and at any later time of that day.
\<close>

theorem daily_limit_kept:
  assumes "spend_ok wallet asset p t db" and "timely_spends pubkey t (xs @ [x]) db"
    and "spend_time x \<le> now" and "day_start now = day_start t"
  shows "spent_today wallet asset now (fold (run_spend_op pubkey) (xs @ [x]) db) \<le> pp_daily_limit p"
proof -
  obtain t' where "day_start t' = day_start t" "t' = spend_time x"
      "spend_ok wallet asset p t' (fold (run_spend_op pubkey) (xs @ [x]) db)"
    using spend_run [OF assms(1,2)] by auto
  from spent_later [OF this(3), of now] this(1,2) assms(3,4) show ?thesis by (simp add: spend_ok_def)
qed

definition sample_policy :: purchase_policy where
  "sample_policy = \<lparr> pp_wallet = ''W'', pp_enabled = True, pp_input_asset = ''USDC'', pp_max_per_order = 60,
     pp_daily_limit = 100, pp_allowed_services = [], pp_created_at = 0, pp_updated_at = 0 \<rparr>"

lemmas spend_eval = Let_def run_spend_op.simps authorize_buyer_spend_def validate_wallet_def policy_permits_def sample_policy_def
  empty_identity_def spent_today_def counts_today_def day_start_def new_reservation_def active_reservation_states_def
  update_buyer_spend_reservation_def reservation_expiry_def py_upper_def py_upper_char_def py_lower_def py_lower_char_def
  py_strip_def py_lstrip_def py_space_def row_by_def sql_insert_def sql_update_def

theorem daily_limit_kept_witness:
  "spent_today ''W'' ''USDC'' 50 (fold (run_spend_op Some)
      ([AuthorizeSpend ''W'' ''q1'' ''USDC'' 60 [] 40 10] @ [UpdateSpend ''q1'' ''submitted'' 20])
      (empty_identity \<lparr> policies := [sample_policy] \<rparr>)) \<le> pp_daily_limit sample_policy"
proof (rule daily_limit_kept [where t = 0])
  show "timely_spends Some 0 ([AuthorizeSpend ''W'' ''q1'' ''USDC'' 60 [] 40 10] @ [UpdateSpend ''q1'' ''submitted'' 20])
      (empty_identity \<lparr> policies := [sample_policy] \<rparr>)"
    by (simp add: spend_eval)
qed (simp_all add: spend_ok_def spend_eval)

text \<open>
  A spend that is reported late exceeds the limit: a reservation that has run out (or was released) no longer
  counts, yet authorising it again answers that it is reserved without looking at the limit, and the
  report of its payment makes it count again on top of what was reserved in its place.
\<close>

theorem late_spend_exceeds_limit:
  assumes "unique_by sr_quote_id (reservations db)" and "row_by sr_quote_id q (reservations db) = Some r"
    and "sr_expires_at r \<le> now" and "day_start now \<le> sr_created_at r"
    and "validate_wallet pubkey wallet = Inr (sr_wallet r)" and "0 < sr_amount r" and "now < expires_at"
    and "policy_permits (py_upper (py_strip asset)) (sr_amount r) (py_lower (py_strip service))
      (row_by pp_wallet (sr_wallet r) (policies db)) = Inr p"
    and "pp_daily_limit p < spent_today (sr_wallet r) (sr_input_asset r) now db + sr_amount r"
  shows "authorize_buyer_spend pubkey wallet q asset (sr_amount r) service expires_at now db db = (Inr (AlreadyReserved r), db) \<and>
    pp_daily_limit p < spent_today (sr_wallet r) (sr_input_asset r) now (snd (update_buyer_spend_reservation q ''submitted'' now db))"
proof
  show "authorize_buyer_spend pubkey wallet q asset (sr_amount r) service expires_at now db db = (Inr (AlreadyReserved r), db)"
    using assms by (simp add: authorize_buyer_spend_def Let_def)
  let ?f = "\<lambda>r. r \<lparr> sr_state := ''submitted'', sr_expires_at := day_start now + 86400 \<rparr>"
  have upd: "reservations (snd (update_buyer_spend_reservation q ''submitted'' now db)) =
      fst (sql_update (\<lambda>r. sr_quote_id r = q) ?f (reservations db))"
    by (simp add: update_buyer_spend_reservation_def reservation_expiry_def Let_def case_prod_beta py_lower_def
        py_lower_char_def py_strip_def py_lstrip_def py_space_def)
  have ends: "now < day_start now + 86400" using pos_mod_bound [of 86400 now] by (simp add: day_start_def)
  have sum: "sum_list (map sr_amount (filter (counts_today w a now) (fst (sql_update (\<lambda>r. sr_quote_id r = q) ?f t)))) =
      sum_list (map sr_amount (filter (counts_today w a now) t)) + sr_amount r"
    if "unique_by sr_quote_id t" "r \<in> set t" "sr_quote_id r = q" "w = sr_wallet r" "a = sr_input_asset r" for t w a
    using that
  proof (induction t)
    case (Cons x t)
    show ?case
    proof (cases "x = r")
      case True
      have "fst (sql_update (\<lambda>r. sr_quote_id r = q) ?f t) = t"
        using Cons.prems(1,3) True by (subst sql_update_none) (simp_all add: unique_by_Cons row_by_None_iff, metis imageI)
      moreover have "counts_today w a now (?f r)" "\<not> counts_today w a now r"
        using assms(3,4) ends Cons.prems(4,5) by (simp_all add: counts_today_def active_reservation_states_def)
      ultimately show ?thesis using True Cons.prems(3) by (simp add: sql_update_def)
    next
      case False
      then have "sr_quote_id x \<noteq> q" "unique_by sr_quote_id t" "r \<in> set t"
        using Cons.prems by (auto simp: unique_by_Cons row_by_None_iff)
      then show ?thesis using Cons.IH Cons.prems(3-5) by (simp add: sql_update_def)
    qed
  qed simp
  have "spent_today (sr_wallet r) (sr_input_asset r) now (snd (update_buyer_spend_reservation q ''submitted'' now db)) =
      spent_today (sr_wallet r) (sr_input_asset r) now db + sr_amount r"
    unfolding spent_today_def upd using sum [OF assms(1)] row_by_SomeD [OF assms(2)] by blast
  then show "pp_daily_limit p < spent_today (sr_wallet r) (sr_input_asset r) now (snd (update_buyer_spend_reservation q ''submitted'' now db))"
    using assms(9) by simp
qed

definition overdue_reservation :: spend_reservation where
  "overdue_reservation = new_reservation ''q1'' ''W'' ''USDC'' 60 [] 10 40"

definition overdue :: identity_db where
  "overdue = empty_identity \<lparr> policies := [sample_policy],
     reservations := [overdue_reservation, new_reservation ''q2'' ''W'' ''USDC'' 60 [] 45 1000] \<rparr>"

theorem late_spend_exceeds_limit_witness:
  "authorize_buyer_spend Some ''W'' ''q1'' ''USDC'' (sr_amount overdue_reservation) [] 90 50 overdue overdue =
      (Inr (AlreadyReserved overdue_reservation), overdue) \<and>
    pp_daily_limit sample_policy < spent_today (sr_wallet overdue_reservation) (sr_input_asset overdue_reservation) 50
      (snd (update_buyer_spend_reservation ''q1'' ''submitted'' 50 overdue))"
  by (rule late_spend_exceeds_limit) (simp_all add: overdue_def overdue_reservation_def unique_by_def spend_eval)

section \<open>Intents\<close>

datatype intent_op =
    SaveIntent string string string pydict pydict "pydict option" int int identity_db
  | ClaimIntent string string int identity_db
  | FinalizeIntent string string string
  | ReleaseIntent string string

fun run_intent_op :: "wallet_world \<Rightarrow> intent_op \<Rightarrow> identity_db \<Rightarrow> identity_db" where
  "run_intent_op w (SaveIntent secret wallet key request selection selected now ttl snap) db =
     snd (save_buyer_intent_decision (ww_pubkey w) (ww_sha w) secret wallet key request selection selected now ttl snap db)"
| "run_intent_op w (ClaimIntent wallet d now snap) db = snd (claim_buyer_intent_decision (ww_pubkey w) wallet d now snap db)"
| "run_intent_op w (FinalizeIntent wallet d order_id) db = snd (finalize_buyer_intent_decision (ww_pubkey w) wallet d order_id db)"
| "run_intent_op w (ReleaseIntent wallet d) db = snd (release_buyer_intent_decision_claim (ww_pubkey w) wallet d db)"

text \<open>An operation leaves the table, adds a row, or updates rows without an order, keeping what was decided.\<close>

definition decided_same :: "intent_decision \<Rightarrow> intent_decision \<Rightarrow> bool" where
  "decided_same r r' =
     (bi_decision_id r' = bi_decision_id r \<and> bi_wallet r' = bi_wallet r \<and> bi_key r' = bi_key r \<and>
      bi_request_hash r' = bi_request_hash r \<and> bi_selection r' = bi_selection r \<and> bi_unit_price r' = bi_unit_price r \<and>
      bi_expires_at r' = bi_expires_at r)"

inductive intents_change :: "intent_decision list \<Rightarrow> intent_decision list \<Rightarrow> bool" where
  kept: "intents_change t t"
| added: "list_all (\<lambda>x. \<not> intent_clash r x) t \<Longrightarrow> bi_order_id r = None \<Longrightarrow> intents_change t (t @ [r])"
| changed: "(\<And>r. P r \<Longrightarrow> bi_order_id r = None \<and> decided_same r (f r)) \<Longrightarrow> intents_change t (fst (sql_update P f t))"

lemma decided_same_simps [simp]:
  "decided_same r r" "decided_same r (r \<lparr> bi_consumed_at := c \<rparr>)" "decided_same r (r \<lparr> bi_order_id := k \<rparr>)"
  by (simp_all add: decided_same_def)

lemma new_intent_simps [simp]:
  "bi_order_id (new_intent d w key hash request selection selected now ttl) = None"
  "bi_wallet (new_intent d w key hash request selection selected now ttl) = w"
  "bi_key (new_intent d w key hash request selection selected now ttl) = key"
  by (simp_all add: new_intent_def Let_def)

lemma save_intent_cases:
  "snd (save_buyer_intent_decision pubkey sha secret wallet key request selection selected now ttl snap db) = db \<or>
   (\<exists>v. validate_wallet pubkey wallet = Inr v \<and>
      (let r = new_intent (''bid_'' @ secret) v (py_strip key) (sha (json_dumps True (PDict request))) request selection selected now ttl
       in list_all (\<lambda>x. \<not> intent_clash r x) (intents db) \<and>
          snd (save_buyer_intent_decision pubkey sha secret wallet key request selection selected now ttl snap db) =
            db \<lparr> intents := intents db @ [r] \<rparr>))"
proof (cases "validate_wallet pubkey wallet")
  case (Inr v)
  then show ?thesis
    by (simp add: save_buyer_intent_decision_def Let_def sql_insert_Some list_all_iff split: option.split del: json_dumps.simps)
qed (simp add: save_buyer_intent_decision_def)

lemma intent_op_change: "intents_change (intents db) (intents (run_intent_op w x db))"
proof (cases x)
  case (SaveIntent secret wallet key request selection selected now ttl snap)
  then show ?thesis
    using save_intent_cases [of "ww_pubkey w" "ww_sha w" secret wallet key request selection selected now ttl snap db]
    by (elim disjE exE conjE) (simp_all add: Let_def intents_change.kept intents_change.added del: json_dumps.simps)
next
  case (ClaimIntent wallet d now snap)
  have "intents_change (intents db) (fst (sql_update (intent_claimable v d now) (\<lambda>x. x \<lparr> bi_consumed_at := Some now \<rparr>) (intents db)))"
    for v by (rule intents_change.changed) (simp add: intent_claimable_def)
  moreover have "snd (claim_buyer_intent_decision (ww_pubkey w) wallet d now snap db) = db \<or>
      (\<exists>v. intents (snd (claim_buyer_intent_decision (ww_pubkey w) wallet d now snap db)) =
        fst (sql_update (intent_claimable v d now) (\<lambda>x. x \<lparr> bi_consumed_at := Some now \<rparr>) (intents db)))"
    by (auto simp: claim_buyer_intent_decision_def Let_def case_prod_beta split: sum.split option.split)
  ultimately show ?thesis using ClaimIntent by (auto intro: intents_change.kept)
next
  case (FinalizeIntent wallet d k)
  have "intents_change (intents db) (fst (sql_update (\<lambda>x. bi_decision_id x = d \<and> bi_wallet x = v \<and> bi_consumed_at x \<noteq> None \<and>
      bi_order_id x = None) (\<lambda>x. x \<lparr> bi_order_id := Some k \<rparr>) (intents db)))" for v
    by (rule intents_change.changed) simp
  then show ?thesis using FinalizeIntent
    by (auto simp: finalize_buyer_intent_decision_def Let_def case_prod_beta intro: intents_change.kept split: sum.split)
next
  case (ReleaseIntent wallet d)
  have "intents_change (intents db) (fst (sql_update (\<lambda>x. bi_decision_id x = d \<and> bi_wallet x = v \<and> bi_order_id x = None)
      (\<lambda>x. x \<lparr> bi_consumed_at := None \<rparr>) (intents db)))" for v
    by (rule intents_change.changed) simp
  then show ?thesis using ReleaseIntent
    by (auto simp: release_buyer_intent_decision_claim_def Let_def case_prod_beta intro: intents_change.kept split: sum.split)
qed

definition intent_rows :: "string \<Rightarrow> identity_db \<Rightarrow> intent_decision option" where
  "intent_rows d db = row_by bi_decision_id d (intents db)"

lemma change_intent:
  assumes "intents_change t u" and "row_by bi_decision_id d t = Some r"
  shows "\<exists>r'. row_by bi_decision_id d u = Some r' \<and> decided_same r r' \<and> (bi_order_id r = None \<or> r' = r)"
  using assms
proof (cases rule: intents_change.cases)
  case (changed P f)
  have "row_by bi_decision_id d u = Some (if P r then f r else r)"
    unfolding changed(1) using assms(2) changed(2) by (subst row_by_update) (auto simp: decided_same_def)
  then show ?thesis using changed(2) by auto
qed (auto simp: row_by_append)

lemma change_intent_unique: "intents_change t u \<Longrightarrow> unique_by bi_decision_id t \<Longrightarrow> unique_by bi_decision_id u"
proof (induction rule: intents_change.induct)
  case (changed P f t)
  then show ?case using unique_by_update [of P bi_decision_id f t] by (simp add: decided_same_def)
qed (auto simp: unique_by_snoc row_by_None_iff list_all_iff intent_clash_def)

text \<open>How many finalisations of a decision succeed along a run.\<close>

fun committed :: "wallet_world \<Rightarrow> string \<Rightarrow> intent_op list \<Rightarrow> identity_db \<Rightarrow> nat" where
  "committed w d [] db = 0"
| "committed w d (x # xs) db =
     (case x of
        FinalizeIntent wallet d' k \<Rightarrow>
          if d' = d \<and> fst (finalize_buyer_intent_decision (ww_pubkey w) wallet d' k db) = Inr True then 1 else 0
      | _ \<Rightarrow> 0) + committed w d xs (run_intent_op w x db)"

lemma finalize_row:
  assumes "unique_by bi_decision_id (intents db)"
  shows "fst (finalize_buyer_intent_decision pubkey wallet d k db) = Inr True \<longleftrightarrow>
    (\<exists>r. intent_rows d db = Some r \<and> validate_wallet pubkey wallet = Inr (bi_wallet r) \<and> bi_consumed_at r \<noteq> None \<and>
       bi_order_id r = None)"
proof (cases "validate_wallet pubkey wallet")
  case (Inr v)
  let ?P = "\<lambda>x. bi_decision_id x = d \<and> bi_wallet x = v \<and> bi_consumed_at x \<noteq> None \<and> bi_order_id x = None"
  have "snd (sql_update ?P f (intents db)) = (case intent_rows d db of Some r \<Rightarrow> if ?P r then 1 else 0 | None \<Rightarrow> 0)" for f
    unfolding intent_rows_def by (rule rowcount_unique [OF assms]) simp
  then show ?thesis using Inr
    by (auto simp: finalize_buyer_intent_decision_def Let_def case_prod_beta intent_rows_def dest: row_by_SomeD split: option.splits if_splits)
qed (simp add: finalize_buyer_intent_decision_def)

lemma ordered_stays:
  assumes "unique_by bi_decision_id (intents db)" and "intent_rows d db = Some r" and "bi_order_id r \<noteq> None"
  shows "intent_rows d (fold (run_intent_op w) xs db) = Some r \<and> committed w d xs db = 0"
  using assms(1,2)
proof (induction xs arbitrary: db)
  case (Cons x xs)
  from change_intent [OF intent_op_change [of db w x]] Cons.prems(2) assms(3)
  have next_row: "intent_rows d (run_intent_op w x db) = Some r" by (fastforce simp: intent_rows_def)
  have "fst (finalize_buyer_intent_decision (ww_pubkey w) wallet d k db) \<noteq> Inr True" for wallet k
    using finalize_row [OF Cons.prems(1)] Cons.prems(2) assms(3) by auto
  then show ?case using Cons.IH [OF change_intent_unique [OF intent_op_change Cons.prems(1)] next_row]
    by (auto split: intent_op.split)
qed simp

lemma finalized_row:
  assumes "unique_by bi_decision_id (intents db)" and "fst (finalize_buyer_intent_decision pubkey wallet d k db) = Inr True"
  shows "\<exists>r. intent_rows d (snd (finalize_buyer_intent_decision pubkey wallet d k db)) = Some r \<and> bi_order_id r = Some k"
proof -
  from assms finalize_row obtain r where r: "intent_rows d db = Some r" "validate_wallet pubkey wallet = Inr (bi_wallet r)"
    "bi_consumed_at r \<noteq> None" "bi_order_id r = None" by blast
  let ?P = "\<lambda>x. bi_decision_id x = d \<and> bi_wallet x = bi_wallet r \<and> bi_consumed_at x \<noteq> None \<and> bi_order_id x = None"
  have "row_by bi_decision_id d (fst (sql_update ?P (\<lambda>x. x \<lparr> bi_order_id := Some k \<rparr>) (intents db))) =
      map_option (\<lambda>x. if ?P x then x \<lparr> bi_order_id := Some k \<rparr> else x) (row_by bi_decision_id d (intents db))"
    by (rule row_by_update) simp
  moreover have "bi_decision_id r = d" using r(1) by (auto simp: intent_rows_def dest: row_by_SomeD)
  ultimately show ?thesis using r
    by (simp add: finalize_buyer_intent_decision_def Let_def case_prod_beta intent_rows_def)
qed

lemma committed_once: "unique_by bi_decision_id (intents db) \<Longrightarrow> committed w d xs db \<le> 1"
proof (induction xs arbitrary: db)
  case (Cons x xs)
  have unique: "unique_by bi_decision_id (intents (run_intent_op w x db))"
    by (rule change_intent_unique [OF intent_op_change Cons.prems])
  show ?case
  proof (cases "\<exists>wallet k. x = FinalizeIntent wallet d k \<and> fst (finalize_buyer_intent_decision (ww_pubkey w) wallet d k db) = Inr True")
    case True
    then obtain wallet k where x: "x = FinalizeIntent wallet d k"
      "fst (finalize_buyer_intent_decision (ww_pubkey w) wallet d k db) = Inr True" by blast
    from finalized_row [OF Cons.prems x(2)] obtain r where "intent_rows d (run_intent_op w x db) = Some r" "bi_order_id r = Some k"
      by (auto simp: x(1))
    then have "committed w d xs (run_intent_op w x db) = 0" using ordered_stays [OF unique] by simp
    then show ?thesis by (simp add: x)
  next
    case False
    then show ?thesis using Cons.IH [OF unique] by (auto split: intent_op.split)
  qed
qed simp

text \<open>
  C31: an intent becomes one order: along any run of decisions, claims, finalisations and releases, on reads of any
  age, at most one finalisation of a decision succeeds; a decision that has its order never changes again, so a
  later claim answers with that order as a replay.
\<close>

theorem intent_committed_once:
  assumes "unique_by bi_decision_id (intents db)"
  shows "committed w d xs db \<le> 1 \<and>
    (case intent_rows d db of
       None \<Rightarrow> True
     | Some r \<Rightarrow> bi_order_id r = None \<or> intent_rows d (fold (run_intent_op w) xs db) = Some r)"
proof -
  have "bi_order_id r = None \<or> intent_rows d (fold (run_intent_op w) xs db) = Some r" if "intent_rows d db = Some r" for r
    using ordered_stays [OF assms that] by blast
  then show ?thesis using committed_once [OF assms] by (simp split: option.split)
qed

definition decided_once :: identity_db where
  "decided_once = run_intent_op sample_wallets
     (SaveIntent ''x'' ''W'' ''key-0001'' [] [] None 10 120 empty_identity) empty_identity"

theorem intent_committed_once_witness:
  "committed sample_wallets ''bid_x''
      [ClaimIntent ''W'' ''bid_x'' 20 decided_once, FinalizeIntent ''W'' ''bid_x'' ''o1'', FinalizeIntent ''W'' ''bid_x'' ''o2''] decided_once \<le> 1 \<and>
    (case intent_rows ''bid_x'' decided_once of
       None \<Rightarrow> True
     | Some r \<Rightarrow> bi_order_id r = None \<or> intent_rows ''bid_x'' (fold (run_intent_op sample_wallets)
         [ClaimIntent ''W'' ''bid_x'' 20 decided_once, FinalizeIntent ''W'' ''bid_x'' ''o1'', FinalizeIntent ''W'' ''bid_x'' ''o2'']
         decided_once) = Some r)"
proof (rule intent_committed_once)
  have "unique_by bi_decision_id (intents empty_identity)" by (simp add: empty_identity_def)
  then show "unique_by bi_decision_id (intents decided_once)"
    unfolding decided_once_def by (rule change_intent_unique [OF intent_op_change])
qed

section \<open>A decision is made once\<close>

record intent_request =
  iq_secret :: string
  iq_wallet :: string
  iq_key :: string
  iq_request :: pydict
  iq_selection :: pydict
  iq_selected :: "pydict option"
  iq_now :: int
  iq_ttl :: int

definition run_save :: "wallet_world \<Rightarrow> intent_request \<Rightarrow> identity_db \<Rightarrow> identity_db" where
  "run_save w q db = snd (save_buyer_intent_decision (ww_pubkey w) (ww_sha w) (iq_secret q) (iq_wallet q) (iq_key q)
     (iq_request q) (iq_selection q) (iq_selected q) (iq_now q) (iq_ttl q) db db)"

definition save_key :: "wallet_world \<Rightarrow> intent_request \<Rightarrow> string \<times> string" where
  "save_key w q = ((case validate_wallet (ww_pubkey w) (iq_wallet q) of Inl e \<Rightarrow> py_strip (iq_wallet q) | Inr v \<Rightarrow> v), py_strip (iq_key q))"

definition save_row :: "wallet_world \<Rightarrow> intent_request \<Rightarrow> intent_decision" where
  "save_row w q = new_intent (''bid_'' @ iq_secret q) (fst (save_key w q)) (py_strip (iq_key q))
     (ww_sha w (json_dumps True (PDict (iq_request q)))) (iq_request q) (iq_selection q) (iq_selected q) (iq_now q) (iq_ttl q)"

definition keyed_intent :: "string \<times> string \<Rightarrow> identity_db \<Rightarrow> intent_decision option" where
  "keyed_intent k db = row_by (\<lambda>r. (bi_wallet r, bi_key r)) k (intents db)"

lemma run_save_cases:
  "run_save w q db = db \<or>
   (keyed_intent (save_key w q) db = None \<and> run_save w q db = db \<lparr> intents := intents db @ [save_row w q] \<rparr>)"
  using save_intent_cases [of "ww_pubkey w" "ww_sha w" "iq_secret q" "iq_wallet q" "iq_key q" "iq_request q" "iq_selection q"
      "iq_selected q" "iq_now q" "iq_ttl q" db db]
  by (auto simp: run_save_def save_row_def save_key_def Let_def keyed_intent_def row_by_None_iff list_all_iff intent_clash_def
      simp del: json_dumps.simps)

lemma run_save_replay:
  assumes "keyed_intent (save_key w q) db \<noteq> None"
  shows "run_save w q db = db"
  using run_save_cases [of w q db] assms by auto

interpretation decision_recorder: idempotent_recorder "run_save w" keyed_intent "save_key w" "save_row w" for w
proof unfold_locales
  show "keyed_intent (save_key w r) db = Some x \<Longrightarrow> run_save w r db = db" for r db x
    by (rule run_save_replay) simp
  have row: "keyed_intent k (db \<lparr> intents := intents db @ [save_row w r] \<rparr>) =
      (case keyed_intent k db of Some x \<Rightarrow> Some x | None \<Rightarrow> if k = save_key w r then Some (save_row w r) else None)" for k r db
    by (auto simp: keyed_intent_def row_by_append row_by_Cons save_row_def save_key_def split: option.split)
  show "keyed_intent (save_key w r) db = None \<Longrightarrow>
      run_save w r db = db \<or> keyed_intent (save_key w r) (run_save w r db) = Some (save_row w r)" for r db
    using run_save_cases [of w r db] row [of "save_key w r" db r] by (auto simp del: split_paired_All)
  show "k \<noteq> save_key w r \<Longrightarrow> keyed_intent k (run_save w r db) = keyed_intent k db" for k r db
    using run_save_cases [of w r db] row [of k db r] by (auto split: option.splits)
qed

text \<open>
  The first decision of a wallet under an idempotency key stays under all further ones, and a decision that is
  found was there before or is the row of one of the requests.
\<close>

theorem first_decision_stays:
  "(case keyed_intent k db of
      Some r \<Rightarrow> keyed_intent k (fold (run_save w) qs db) = Some r
    | None \<Rightarrow> keyed_intent k (fold (run_save w) qs db) \<in> insert None ((\<lambda>q. Some (save_row w q)) ` {q \<in> set qs. save_key w q = k}))"
proof (cases "keyed_intent k db")
  case None
  then show ?thesis using decision_recorder.run_source [of k w qs db]
    by (cases "keyed_intent k (fold (run_save w) qs db)") auto
qed (simp add: decision_recorder.first_write_wins)

end
