(* ===== verification/HostedJobs.thy ===== *)
theory HostedJobs
  imports Json
begin

text \<open>
  Hosted buyers: the registry of buyer agents (\<open>iat/hosted_buyer_registry.py\<close>), the leased queue of their
  jobs with its hash-chained event log (\<open>iat/hosted_buyer_jobs.py\<close>) and the worker that runs one
  transition of a job (\<open>iat/hosted_buyer_worker.py\<close>). The model is that of the SQLite backend: a claim starts
  with an UPDATE, so it holds the write lock from then on. The runtime of a buyer is a parameter.
\<close>

section \<open>Tables\<close>

record buyer_agent =
  ba_id :: string
  ba_wallet :: string
  ba_connector :: string
  ba_cluster :: string
  ba_status :: string
  ba_policy :: pydict
  ba_policy_version :: int
  ba_created_at :: int
  ba_updated_at :: int
  ba_last_heartbeat :: "int option"

record hosted_job =
  hj_id :: string
  hj_agent :: string
  hj_intent :: string
  hj_state :: string
  hj_next_run :: int
  hj_lease_token :: "string option"
  hj_lease_until :: "int option"
  hj_attempts :: int
  hj_max_attempts :: int
  hj_last_action :: "string option"
  hj_last_error :: "string option"
  hj_payload :: pydict
  hj_created_at :: int
  hj_updated_at :: int
  hj_completed_at :: "int option"

record job_event =
  je_id :: string
  je_job :: string
  je_agent :: string
  je_intent :: string
  je_type :: string
  je_state :: string
  je_action :: "string option"
  je_error :: "string option"
  je_created_at :: int
  je_previous :: string
  je_hash :: string

record hosted_db =
  buyer_agents :: "buyer_agent list"
  hosted_jobs :: "hosted_job list"
  job_events :: "job_event list"

definition agent_clash :: "buyer_agent \<Rightarrow> buyer_agent \<Rightarrow> bool" where
  "agent_clash r x = (ba_id x = ba_id r \<or> (ba_wallet x = ba_wallet r \<and> ba_connector x = ba_connector r))"

definition job_clash :: "hosted_job \<Rightarrow> hosted_job \<Rightarrow> bool" where
  "job_clash r x = (hj_id x = hj_id r \<or> (hj_agent x = hj_agent r \<and> hj_intent x = hj_intent r))"

definition event_clash :: "job_event \<Rightarrow> job_event \<Rightarrow> bool" where
  "event_clash r x = (je_id x = je_id r)"

section \<open>The registry\<close>

definition buyer_wallet_of :: "(string \<Rightarrow> string option) \<Rightarrow> string \<Rightarrow> py_error + string" where
  "buyer_wallet_of pubkey value =
     (let raw = py_strip value in
      if pubkey raw = Some raw then Inr raw else Inl (ValueError ''buyer_wallet_invalid''))"

definition connector_char :: "char \<Rightarrow> bool" where
  "connector_char c =
     (let n = (of_char c :: nat) in
      (48 \<le> n \<and> n \<le> 57) \<or> (65 \<le> n \<and> n \<le> 90) \<or> (97 \<le> n \<and> n \<le> 122) \<or> n \<in> {95, 46, 58, 45})"

definition connector_of :: "string \<Rightarrow> py_error + string" where
  "connector_of value =
     (let raw = py_strip value in
      if 3 \<le> length raw \<and> length raw \<le> 160 \<and> list_all connector_char raw then Inr raw
      else Inl (ValueError ''runtime_connector_id_invalid''))"

definition new_agent :: "string \<Rightarrow> string \<Rightarrow> string \<Rightarrow> string \<Rightarrow> pydict \<Rightarrow> int \<Rightarrow> buyer_agent" where
  "new_agent agent_id wallet connector cluster policy now =
     \<lparr> ba_id = agent_id, ba_wallet = wallet, ba_connector = connector, ba_cluster = cluster, ba_status = ''active'',
       ba_policy = policy, ba_policy_version = 1, ba_created_at = now, ba_updated_at = now, ba_last_heartbeat = None \<rparr>"

definition register_hosted_buyer_agent ::
  "(string \<Rightarrow> string option) \<Rightarrow> string \<Rightarrow> string \<Rightarrow> string \<Rightarrow> pydict option \<Rightarrow> string \<Rightarrow> int \<Rightarrow> hosted_db \<Rightarrow> hosted_db \<Rightarrow>
   (py_error + buyer_agent) \<times> hosted_db" where
  "register_hosted_buyer_agent pubkey uuid buyer_wallet connector_id policy cluster now snap db =
     (case buyer_wallet_of pubkey buyer_wallet of
        Inl e \<Rightarrow> (Inl e, db)
      | Inr wallet \<Rightarrow>
          (case connector_of connector_id of
             Inl e \<Rightarrow> (Inl e, db)
           | Inr connector \<Rightarrow>
               if cluster \<noteq> ''solana:devnet'' then (Inl (ValueError ''buyer_cluster_not_allowed''), db)
               else (case find (\<lambda>a. ba_wallet a = wallet \<and> ba_connector a = connector) (buyer_agents snap) of
                       Some a \<Rightarrow> (Inr a, db)
                     | None \<Rightarrow>
                         let a = new_agent (''bya_'' @ uuid) wallet connector cluster
                                   (case policy of None \<Rightarrow> [] | Some p \<Rightarrow> p) now
                         in (case sql_insert agent_clash a (buyer_agents db) of
                               None \<Rightarrow> (Inl IntegrityViolation, db)
                             | Some t \<Rightarrow> (Inr a, db \<lparr> buyer_agents := t \<rparr>)))))"

definition get_hosted_buyer_agent :: "string \<Rightarrow> hosted_db \<Rightarrow> buyer_agent option" where
  "get_hosted_buyer_agent agent_id db = row_by ba_id agent_id (buyer_agents db)"

definition heartbeat_hosted_buyer_agent ::
  "string \<Rightarrow> string \<Rightarrow> int \<Rightarrow> hosted_db \<Rightarrow> (py_error + buyer_agent option) \<times> hosted_db" where
  "heartbeat_hosted_buyer_agent agent_id status now db =
     (if status \<notin> {''active'', ''paused'', ''revoked''} then (Inl (ValueError ''buyer_agent_status_invalid''), db)
      else
        let (t, n) = sql_update (\<lambda>a. ba_id a = agent_id)
               (\<lambda>a. a \<lparr> ba_status := status, ba_updated_at := now, ba_last_heartbeat := Some now \<rparr>) (buyer_agents db)
        in if n \<noteq> 1 then (Inr None, db) else (Inr (row_by ba_id agent_id t), db \<lparr> buyer_agents := t \<rparr>))"

definition update_hosted_buyer_policy ::
  "string \<Rightarrow> pydict \<Rightarrow> int \<Rightarrow> int \<Rightarrow> hosted_db \<Rightarrow> (py_error + buyer_agent option) \<times> hosted_db" where
  "update_hosted_buyer_policy agent_id policy expected_version now db =
     (if expected_version < 1 then (Inl (ValueError ''buyer_policy_version_invalid''), db)
      else
        let (t, n) = sql_update
               (\<lambda>a. ba_id a = agent_id \<and> ba_policy_version a = expected_version \<and> ba_status a \<noteq> ''revoked'')
               (\<lambda>a. a \<lparr> ba_policy := policy, ba_policy_version := ba_policy_version a + 1, ba_updated_at := now \<rparr>)
               (buyer_agents db)
        in if n \<noteq> 1 then (Inr None, db) else (Inr (row_by ba_id agent_id t), db \<lparr> buyer_agents := t \<rparr>))"

section \<open>The event log\<close>

definition genesis_hash :: string where
  "genesis_hash = replicate 64 CHR ''0''"

definition event_dict :: "job_event \<Rightarrow> string \<Rightarrow> pydict" where
  "event_dict e previous =
     [(''version'', PInt 1), (''job_id'', PStr (je_job e)), (''buyer_agent_id'', PStr (je_agent e)),
      (''intent_decision_id'', PStr (je_intent e)), (''event_type'', PStr (je_type e)), (''state'', PStr (je_state e)),
      (''action'', pstr_opt (je_action e)), (''error'', pstr_opt (je_error e)), (''created_at'', PInt (je_created_at e)),
      (''previous_hash'', PStr previous)]"

definition event_hash :: "(string \<Rightarrow> string) \<Rightarrow> job_event \<Rightarrow> string \<Rightarrow> string" where
  "event_hash sha e previous = sha (json_dumps True (PDict (event_dict e previous)))"

definition events_in_order :: "string \<Rightarrow> job_event list \<Rightarrow> job_event list" where
  "events_in_order job_id events = sort_key je_created_at (sort_key je_id (filter (\<lambda>e. je_job e = job_id) events))"

definition last_hash :: "string \<Rightarrow> job_event list \<Rightarrow> string" where
  "last_hash job_id events =
     (case events_in_order job_id events of [] \<Rightarrow> genesis_hash | e # es \<Rightarrow> je_hash (last (e # es)))"

definition chained_event :: "(string \<Rightarrow> string) \<Rightarrow> job_event \<Rightarrow> job_event list \<Rightarrow> job_event" where
  "chained_event sha e events =
     (let previous = last_hash (je_job e) events in e \<lparr> je_previous := previous, je_hash := event_hash sha e previous \<rparr>)"

text \<open>\<open>_record_event\<close>; \<open>None\<close> if the drawn identifier is taken.\<close>

definition record_event :: "(string \<Rightarrow> string) \<Rightarrow> job_event \<Rightarrow> hosted_db \<Rightarrow> hosted_db option" where
  "record_event sha e db =
     (case sql_insert event_clash (chained_event sha e (job_events db)) (job_events db) of
        None \<Rightarrow> None
      | Some t \<Rightarrow> Some (db \<lparr> job_events := t \<rparr>))"

definition job_event_of :: "string \<Rightarrow> hosted_job \<Rightarrow> string \<Rightarrow> string option \<Rightarrow> string option \<Rightarrow> int \<Rightarrow> job_event" where
  "job_event_of uuid job state action err now =
     \<lparr> je_id = ''hbe_'' @ uuid, je_job = hj_id job, je_agent = hj_agent job, je_intent = hj_intent job,
       je_type = state, je_state = state, je_action = action, je_error = err, je_created_at = now,
       je_previous = [], je_hash = [] \<rparr>"

text \<open>
  \<open>verify_hosted_buyer_job_events\<close>: the rows by their previous hash (a later row replaces an earlier one),
  followed from the genesis hash; then every hash is recomputed.
\<close>

definition by_previous :: "job_event list \<Rightarrow> (string \<times> job_event) list" where
  "by_previous rows = fold (\<lambda>e m. AList.update (je_previous e) e m) rows []"

lemma delete_shorter: "map_of m k = Some e \<Longrightarrow> length (AList.delete k m) < length m"
proof -
  assume "map_of m k = Some e"
  then have "(k, e) \<in> set m" by (rule map_of_SomeD)
  then show ?thesis unfolding AList.delete_eq by (intro length_filter_less [of "(k, e)"]) auto
qed

function follow_chain :: "string \<Rightarrow> (string \<times> job_event) list \<Rightarrow> job_event list \<times> (string \<times> job_event) list" where
  "follow_chain previous m =
     (case map_of m previous of
        None \<Rightarrow> ([], m)
      | Some e \<Rightarrow> (case follow_chain (je_hash e) (AList.delete previous m) of (es, rest) \<Rightarrow> (e # es, rest)))"
  by pat_completeness auto

termination by (relation "measure (length \<circ> snd)") (auto dest: delete_shorter)

declare follow_chain.simps [simp del]

fun check_chain :: "(string \<Rightarrow> string) \<Rightarrow> string \<Rightarrow> nat \<Rightarrow> job_event list \<Rightarrow> nat + string" where
  "check_chain sha previous i [] = Inr previous"
| "check_chain sha previous i (e # es) =
     (let expected = event_hash sha e previous in
      if je_previous e \<noteq> previous \<or> je_hash e \<noteq> expected then Inl i
      else check_chain sha expected (Suc i) es)"

record verification =
  vf_valid :: bool
  vf_event_count :: nat
  vf_first_invalid :: "nat option"
  vf_head_hash :: "string option"

definition verify_hosted_buyer_job_events :: "(string \<Rightarrow> string) \<Rightarrow> string \<Rightarrow> hosted_db \<Rightarrow> verification" where
  "verify_hosted_buyer_job_events sha job_id db =
     (let rows = events_in_order job_id (job_events db) in
      case follow_chain genesis_hash (by_previous rows) of
        (ordered, rest) \<Rightarrow>
          if rest \<noteq> []
          then \<lparr> vf_valid = False, vf_event_count = length rows, vf_first_invalid = Some (length ordered), vf_head_hash = None \<rparr>
          else (case check_chain sha genesis_hash 0 ordered of
                  Inl i \<Rightarrow> \<lparr> vf_valid = False, vf_event_count = length rows, vf_first_invalid = Some i, vf_head_hash = None \<rparr>
                | Inr head \<Rightarrow>
                    \<lparr> vf_valid = True, vf_event_count = length ordered, vf_first_invalid = None,
                      vf_head_hash = (if ordered \<noteq> [] then Some head else None) \<rparr>))"

section \<open>The queue\<close>

definition new_job :: "string \<Rightarrow> string \<Rightarrow> string \<Rightarrow> pydict \<Rightarrow> int \<Rightarrow> int \<Rightarrow> hosted_job" where
  "new_job job_id agent_id intent payload max_attempts now =
     \<lparr> hj_id = job_id, hj_agent = agent_id, hj_intent = intent, hj_state = ''queued'', hj_next_run = now,
       hj_lease_token = None, hj_lease_until = None, hj_attempts = 0, hj_max_attempts = max_attempts,
       hj_last_action = None, hj_last_error = None, hj_payload = payload, hj_created_at = now, hj_updated_at = now,
       hj_completed_at = None \<rparr>"

definition enqueue_hosted_buyer_job ::
  "(string \<Rightarrow> string) \<Rightarrow> string \<Rightarrow> string \<Rightarrow> string \<Rightarrow> string \<Rightarrow> pydict option \<Rightarrow> int \<Rightarrow> int \<Rightarrow> hosted_db \<Rightarrow> hosted_db \<Rightarrow>
   (py_error + hosted_job \<times> bool) \<times> hosted_db" where
  "enqueue_hosted_buyer_job sha uuid event_uuid agent_id intent payload max_attempts now snap db =
     (if agent_id = [] \<or> intent = [] then (Inl (ValueError ''buyer_job_identity_required''), db)
      else (case get_hosted_buyer_agent agent_id snap of
              None \<Rightarrow> (Inl (ValueError ''buyer_agent_not_found''), db)
            | Some agent \<Rightarrow>
                if ba_status agent \<noteq> ''active'' then (Inl (ValueError ''buyer_agent_not_active''), db)
                else if \<not> (1 \<le> max_attempts \<and> max_attempts \<le> 10000)
                then (Inl (ValueError ''buyer_job_max_attempts_invalid''), db)
                else (case find (\<lambda>j. hj_agent j = agent_id \<and> hj_intent j = intent) (hosted_jobs snap) of
                        Some j \<Rightarrow> (Inr (j, True), db)
                      | None \<Rightarrow>
                          let j = new_job (''hbj_'' @ uuid) agent_id intent (case payload of None \<Rightarrow> [] | Some d \<Rightarrow> d)
                                    max_attempts now
                          in (case sql_insert job_clash j (hosted_jobs db) of
                                None \<Rightarrow> (Inl IntegrityViolation, db)
                              | Some t \<Rightarrow>
                                  (case record_event sha (job_event_of event_uuid j ''queued'' None None now)
                                          (db \<lparr> hosted_jobs := t \<rparr>) of
                                     None \<Rightarrow> (Inl IntegrityViolation, db)
                                   | Some db1 \<Rightarrow> (Inr (j, False), db1))))))"

datatype claim_answer = NoJob | ClaimRetry | Leased hosted_job

definition recovered_job :: "int \<Rightarrow> hosted_job \<Rightarrow> hosted_job" where
  "recovered_job now j =
     j \<lparr> hj_state := ''queued'', hj_lease_token := None, hj_lease_until := None, hj_updated_at := now \<rparr>"

definition lease_expired :: "int \<Rightarrow> hosted_job \<Rightarrow> bool" where
  "lease_expired now j =
     (hj_state j = ''leased'' \<and> (case hj_lease_until j of None \<Rightarrow> False | Some t \<Rightarrow> t < now))"

definition leased_job :: "string \<Rightarrow> int \<Rightarrow> int \<Rightarrow> hosted_job \<Rightarrow> hosted_job" where
  "leased_job token until now j =
     j \<lparr> hj_state := ''leased'', hj_lease_token := Some token, hj_lease_until := Some until,
         hj_attempts := hj_attempts j + 1, hj_updated_at := now \<rparr>"

definition claim_hosted_buyer_job ::
  "(string \<Rightarrow> string) \<Rightarrow> string \<Rightarrow> string \<Rightarrow> string option \<Rightarrow> int \<Rightarrow> int \<Rightarrow> hosted_db \<Rightarrow> (py_error + claim_answer) \<times> hosted_db" where
  "claim_hosted_buyer_job sha secret event_uuid job_id lease_seconds now db =
     (let lease = clamp_int 15 300 lease_seconds;
          jobs = fst (sql_update (lease_expired now) (recovered_job now) (hosted_jobs db));
          due = filter (\<lambda>j. hj_state j = ''queued'' \<and> hj_next_run j \<le> now) jobs;
          found = (case job_id of
                     Some (c # cs) \<Rightarrow> filter (\<lambda>j. hj_id j = c # cs) due
                   | _ \<Rightarrow> sort_key hj_next_run (sort_key hj_created_at due))
      in case found of
           [] \<Rightarrow> (Inr NoJob, db \<lparr> hosted_jobs := jobs \<rparr>)
         | item # _ \<Rightarrow>
             let token = ''hbl_'' @ secret;
                 (t, n) = sql_update (\<lambda>j. hj_id j = hj_id item \<and> hj_state j = ''queued'')
                            (leased_job token (now + lease) now) jobs
             in if n \<noteq> 1 then (Inr ClaimRetry, db)
                else (case record_event sha (job_event_of event_uuid item ''leased'' None None now) (db \<lparr> hosted_jobs := t \<rparr>) of
                        None \<Rightarrow> (Inl IntegrityViolation, db)
                      | Some db1 \<Rightarrow> (Inr (Leased (leased_job token (now + lease) now item)), db1)))"

definition finished_job :: "string \<Rightarrow> string option \<Rightarrow> string option \<Rightarrow> int option \<Rightarrow> int \<Rightarrow> hosted_job \<Rightarrow> hosted_job" where
  "finished_job state action err next_run now j =
     j \<lparr> hj_state := state, hj_lease_token := None, hj_lease_until := None, hj_last_action := action,
         hj_last_error := err, hj_next_run := (case next_run of None \<Rightarrow> now | Some t \<Rightarrow> t), hj_updated_at := now,
         hj_completed_at := (if state = ''completed'' then Some now else None) \<rparr>"

definition holds_lease :: "string \<Rightarrow> string \<Rightarrow> hosted_job \<Rightarrow> bool" where
  "holds_lease job_id token j = (hj_id j = job_id \<and> hj_state j = ''leased'' \<and> hj_lease_token j = Some token)"

text \<open>Whether the job was updated; otherwise the answer is \<open>lease_conflict\<close>.\<close>

definition finish_hosted_buyer_job ::
  "(string \<Rightarrow> string) \<Rightarrow> string \<Rightarrow> string \<Rightarrow> string \<Rightarrow> string \<Rightarrow> string option \<Rightarrow> string option \<Rightarrow> int option \<Rightarrow> int \<Rightarrow>
   hosted_db \<Rightarrow> (py_error + bool) \<times> hosted_db" where
  "finish_hosted_buyer_job sha event_uuid job_id token state action err next_run now db =
     (if state \<notin> {''queued'', ''waiting'', ''completed'', ''stopped''} then (Inl (ValueError ''buyer_job_state_invalid''), db)
      else
        let (t, n) = sql_update (holds_lease job_id token) (finished_job state action err next_run now) (hosted_jobs db) in
        if n \<noteq> 1 then (Inr False, db)
        else
          let db1 = db \<lparr> hosted_jobs := t \<rparr> in
          (case row_by hj_id job_id t of
             None \<Rightarrow> (Inr True, db1)
           | Some j \<Rightarrow>
               (case record_event sha (job_event_of event_uuid j state action err now) db1 of
                  None \<Rightarrow> (Inl IntegrityViolation, db)
                | Some db2 \<Rightarrow> (Inr True, db2))))"

section \<open>The worker\<close>

text \<open>
  A call of the buyer's runtime answers or raises: \<open>Soft code\<close> is one of the three exceptions that carry a
  code, \<open>Hard\<close> any other. \<open>resolve\<close> may raise as well.
\<close>

datatype runtime_error = Soft string | Hard

record buyer_runtime =
  br_resolve :: "string \<Rightarrow> runtime_error + unit"
  br_lifecycle :: "string \<Rightarrow> runtime_error + pydict"
  br_open_result :: "string \<Rightarrow> runtime_error + pydict"
  br_step :: "string \<Rightarrow> runtime_error + pydict"

definition hard_stop_errors :: "string list" where
  "hard_stop_errors =
     [''autonomous_policy_not_applied'', ''buyer_signature_not_required_by_transaction'',
      ''prepared_transaction_encoding_invalid'', ''prepared_transaction_safety_flags_invalid'',
      ''transaction_cluster_not_allowed'', ''transaction_fee_payer_mismatch'', ''transaction_review_missing'',
      ''transaction_simulation_not_succeeded'', ''wallet_address_mismatch'', ''wallet_returned_invalid_signature'']"

definition actionable :: "string list" where
  "actionable = [''advance'', ''prepare_checkout'', ''prepare_new_checkout'', ''buyer_sign_and_broadcast'', ''confirm_payment'']"

text \<open>How a transition ends: the state, action, error and delay that the job is finished with.\<close>

record ending =
  en_state :: string
  en_action :: "string option"
  en_error :: "string option"
  en_delay :: "int option"

definition ended :: "string \<Rightarrow> string option \<Rightarrow> string option \<Rightarrow> ending" where
  "ended state action err = \<lparr> en_state = state, en_action = action, en_error = err, en_delay = None \<rparr>"

definition out_of_attempts :: "hosted_job \<Rightarrow> bool" where
  "out_of_attempts job = (hj_attempts job \<ge> hj_max_attempts job)"

definition wait_ending :: "hosted_job \<Rightarrow> string \<Rightarrow> int \<Rightarrow> ending" where
  "wait_ending job action delay =
     (if out_of_attempts job then ended ''stopped'' (Some action) (Some ''maximum_attempts_reached'')
      else (ended ''waiting'' (Some action) None) \<lparr> en_delay := Some delay \<rparr>)"

definition retry_ending :: "int \<Rightarrow> hosted_job \<Rightarrow> string \<Rightarrow> ending" where
  "retry_ending default_poll job err =
     (let attempts = (if hj_attempts job = 0 then 1 else hj_attempts job);
          delay = min 300 (default_poll * 2 ^ nat (min (attempts - 1) 5))
      in if out_of_attempts job then ended ''stopped'' None (Some ''maximum_attempts_reached'')
         else (ended ''waiting'' None (Some err)) \<lparr> en_delay := Some delay \<rparr>)"

text \<open>\<open>int(v)\<close> of the polled value is the parameter \<open>to_int\<close>; its exceptions are caught.\<close>

definition poll_seconds :: "(pyval \<Rightarrow> int option) \<Rightarrow> int \<Rightarrow> pydict \<Rightarrow> int" where
  "poll_seconds to_int default_poll payload =
     (let v = dget payload ''poll_after_seconds'' in
      clamp_int 1 300 (if truthy v then (case to_int v of None \<Rightarrow> default_poll | Some i \<Rightarrow> i) else default_poll))"

definition run_transition :: "buyer_runtime \<Rightarrow> (pyval \<Rightarrow> int option) \<Rightarrow> int \<Rightarrow> hosted_job \<Rightarrow> ending" where
  "run_transition rt to_int default_poll job =
     (let failed = (\<lambda>e. case e of
            Soft code \<Rightarrow> if code \<in> set hard_stop_errors then ended ''stopped'' None (Some code)
                         else retry_ending default_poll job code
          | Hard \<Rightarrow> ended ''stopped'' None (Some ''unexpected_worker_failure''))
      in case br_resolve rt (hj_agent job) of
           Inl e \<Rightarrow> failed e
         | Inr _ \<Rightarrow>
             (case br_lifecycle rt (hj_intent job) of
                Inl e \<Rightarrow> failed e
              | Inr lifecycle \<Rightarrow>
                  let action = str_or_empty (dget lifecycle ''next_action'') in
                  if action = ''open_delivery_inbox''
                  then (case br_open_result rt (hj_intent job) of
                          Inl e \<Rightarrow> failed e
                        | Inr result \<Rightarrow>
                            if dget result ''status'' = PStr ''buyer_result_not_ready''
                            then wait_ending job action (poll_seconds to_int default_poll result)
                            else ended ''completed'' (Some action) None)
                  else if action \<in> set actionable
                  then (case br_step rt (hj_intent job) of
                          Inl e \<Rightarrow> failed e
                        | Inr result \<Rightarrow>
                            if dget result ''status'' = PStr ''buyer_signature_not_approved''
                            then ended ''stopped'' (Some action) (Some ''buyer_signature_not_approved'')
                            else wait_ending job action (poll_seconds to_int default_poll result))
                  else if action = ''wait_for_delivery''
                  then wait_ending job action (poll_seconds to_int default_poll lifecycle)
                  else ended ''stopped'' (if action = [] then None else Some action)
                         (Some ''unsupported_or_unsafe_next_action'')))"

text \<open>
  \<open>run_once\<close>: claim, one transition, finish. \<open>meanwhile\<close> is what other sessions do to the database during the
  transition; a finish whose lease is gone answers \<open>lease_conflict\<close>, here \<open>Ran False\<close>.
\<close>

datatype run_answer = NotRun claim_answer | Ran bool

definition run_once ::
  "(string \<Rightarrow> string) \<Rightarrow> buyer_runtime \<Rightarrow> (pyval \<Rightarrow> int option) \<Rightarrow> int \<Rightarrow> int \<Rightarrow> string \<Rightarrow> string \<Rightarrow> string \<Rightarrow> string option \<Rightarrow> int \<Rightarrow>
   (hosted_db \<Rightarrow> hosted_db) \<Rightarrow> hosted_db \<Rightarrow> (py_error + run_answer) \<times> hosted_db" where
  "run_once sha rt to_int lease_seconds default_poll secret claim_uuid finish_uuid job_id now meanwhile db =
     (case claim_hosted_buyer_job sha secret claim_uuid job_id lease_seconds now db of
        (Inl e, db1) \<Rightarrow> (Inl e, db1)
      | (Inr (Leased job), db1) \<Rightarrow>
          let e = run_transition rt to_int default_poll job in
          (case finish_hosted_buyer_job sha finish_uuid (hj_id job) (''hbl_'' @ secret) (en_state e) (en_action e) (en_error e)
                  (map_option (\<lambda>d. now + d) (en_delay e)) now (meanwhile db1) of
             (Inl err, db2) \<Rightarrow> (Inl err, db2)
           | (Inr ok, db2) \<Rightarrow> (Inr (Ran ok), db2))
      | (Inr other, db1) \<Rightarrow> (Inr (NotRun other), db1))"

end
