(* ===== verification/HostedFacts.thy ===== *)
theory HostedFacts
  imports HostedJobs "HOL-Library.Multiset"
begin

text \<open>
  The event log of hosted buyer jobs. A log whose operations run in different seconds verifies, with all its
  events; the head hash commits to the verified events, and to the log if the count is that of its rows; within one second the chain can fork, and the
  verification then passes without an event. A job that waits is never claimed again.
\<close>

section \<open>Hashes of events\<close>

definition sorted_event :: "job_event \<Rightarrow> string \<Rightarrow> pydict" where
  "sorted_event e previous =
     [(''action'', pstr_opt (je_action e)), (''buyer_agent_id'', PStr (je_agent e)), (''created_at'', PInt (je_created_at e)),
      (''error'', pstr_opt (je_error e)), (''event_type'', PStr (je_type e)), (''intent_decision_id'', PStr (je_intent e)),
      (''job_id'', PStr (je_job e)), (''previous_hash'', PStr previous), (''state'', PStr (je_state e)), (''version'', PInt 1)]"

text \<open>An event without its identifier, which the hash leaves out.\<close>

definition event_body :: "job_event \<Rightarrow> job_event" where
  "event_body e = e \<lparr> je_id := [] \<rparr>"

lemma event_text: "json_dumps a (PDict (event_dict e previous)) = json_dumps a (PDict (sorted_event e previous))"
  by (simp add: event_dict_def sorted_event_def less_list_code less_char_def)

lemma sorted_event_wf: "json_wf (PDict (sorted_event e previous))"
  by (simp add: sorted_event_def pstr_opt_def less_list_code less_char_def split: option.splits)

lemma pstr_opt_inject [simp]: "pstr_opt x = pstr_opt y \<longleftrightarrow> x = y"
  by (simp add: pstr_opt_def split: option.splits)

lemma event_hash_inject:
  assumes "inj sha" and "event_hash sha e p = event_hash sha e' p'"
  shows "p = p'" "je_hash e = je_hash e' \<Longrightarrow> je_previous e = je_previous e' \<Longrightarrow> event_body e = event_body e'"
proof -
  have "json_dumps True (PDict (sorted_event e p)) = json_dumps True (PDict (sorted_event e' p'))"
    using assms by (simp only: event_hash_def event_text inj_eq)
  then have "PDict (sorted_event e p) = PDict (sorted_event e' p')"
    using json_dumps_inject [OF sorted_event_wf sorted_event_wf] by blast
  then have eq: "sorted_event e p = sorted_event e' p'" by simp
  then show "p = p'" by (simp add: sorted_event_def)
  assume "je_hash e = je_hash e'" "je_previous e = je_previous e'"
  with eq show "event_body e = event_body e'" by (cases e; cases e') (simp add: sorted_event_def event_body_def)
qed

lemma hash_not_genesis:
  assumes "genesis_hash \<notin> range sha"
  shows "event_hash sha e p \<noteq> genesis_hash" "genesis_hash \<noteq> event_hash sha e p"
  using assms unfolding event_hash_def by (metis rangeI)+

section \<open>Chains\<close>

fun chained :: "(string \<Rightarrow> string) \<Rightarrow> string \<Rightarrow> job_event list \<Rightarrow> bool" where
  "chained sha previous [] = True"
| "chained sha previous (e # es) =
     (je_previous e = previous \<and> je_hash e = event_hash sha e previous \<and> chained sha (je_hash e) es)"

definition head_of :: "string \<Rightarrow> job_event list \<Rightarrow> string" where
  "head_of previous es = (if es = [] then previous else je_hash (last es))"

lemma head_of_simps [simp]:
  "head_of p [] = p" "head_of p (e # es) = head_of (je_hash e) es" "head_of p (es @ [e]) = je_hash e"
  by (simp_all add: head_of_def)

lemma chained_snoc:
  "chained sha p (es @ [e]) \<longleftrightarrow> chained sha p es \<and> je_previous e = head_of p es \<and> je_hash e = event_hash sha e (head_of p es)"
  by (induction es arbitrary: p) auto

lemma chained_append: "chained sha p (es @ fs) \<longleftrightarrow> chained sha p es \<and> chained sha (head_of p es) fs"
  by (induction es arbitrary: p) auto

lemma head_of_append [simp]: "head_of p (es @ fs) = head_of (head_of p es) fs"
  by (induction es arbitrary: p) auto

lemma check_chain_iff: "check_chain sha p i es = Inr h \<longleftrightarrow> chained sha p es \<and> h = head_of p es"
  by (induction es arbitrary: p i) (auto simp: Let_def)

text \<open>If the hash has no collision and never gives the genesis hash, the head determines the chain.\<close>

lemma chain_unique:
  assumes "inj sha" and "genesis_hash \<notin> range sha"
  shows "chained sha genesis_hash es \<Longrightarrow> chained sha genesis_hash fs \<Longrightarrow> head_of genesis_hash es = head_of genesis_hash fs \<Longrightarrow>
    map event_body es = map event_body fs"
proof (induction es arbitrary: fs rule: rev_induct)
  case Nil
  then show ?case
  proof (cases fs rule: rev_cases)
    case (snoc fs' f)
    with Nil have "genesis_hash = event_hash sha f (head_of genesis_hash fs')" by (simp add: chained_snoc)
    then show ?thesis using assms(2) by (simp add: event_hash_def)
  qed simp
next
  case (snoc e es)
  show ?case
  proof (cases fs rule: rev_cases)
    case Nil
    with snoc.prems have "genesis_hash = event_hash sha e (head_of genesis_hash es)" by (simp add: chained_snoc)
    then show ?thesis using assms(2) by (simp add: event_hash_def)
  next
    case last: (snoc fs' f)
    with snoc.prems have h: "event_hash sha e (head_of genesis_hash es) = event_hash sha f (head_of genesis_hash fs')"
        "je_hash e = je_hash f" by (auto simp: chained_snoc)
    from event_hash_inject [OF assms(1) h(1)] have heads: "head_of genesis_hash es = head_of genesis_hash fs'"
        "je_previous e = je_previous f \<Longrightarrow> event_body e = event_body f" using h(2) by auto
    then have "event_body e = event_body f" using snoc.prems last by (simp add: chained_snoc)
    then show ?thesis using snoc.IH [of fs'] snoc.prems last heads(1) by (simp add: chained_snoc)
  qed
qed

definition verified_chain :: "string \<Rightarrow> hosted_db \<Rightarrow> job_event list" where
  "verified_chain job_id db = fst (follow_chain genesis_hash (by_previous (events_in_order job_id (job_events db))))"

lemma verify_answers:
  "vf_valid (verify_hosted_buyer_job_events sha job_id db) \<longleftrightarrow>
     snd (follow_chain genesis_hash (by_previous (events_in_order job_id (job_events db)))) = [] \<and>
     chained sha genesis_hash (verified_chain job_id db)"
  "vf_valid (verify_hosted_buyer_job_events sha job_id db) \<Longrightarrow>
     verify_hosted_buyer_job_events sha job_id db =
       \<lparr> vf_valid = True, vf_event_count = length (verified_chain job_id db), vf_first_invalid = None,
         vf_head_hash = (if verified_chain job_id db = [] then None else Some (head_of genesis_hash (verified_chain job_id db))) \<rparr>"
proof -
  obtain es rest where f: "follow_chain genesis_hash (by_previous (events_in_order job_id (job_events db))) = (es, rest)"
    by (cases "follow_chain genesis_hash (by_previous (events_in_order job_id (job_events db)))")
  then have es: "verified_chain job_id db = es" by (simp add: verified_chain_def)
  note verify = verify_hosted_buyer_job_events_def [of sha job_id db] Let_def f prod.case
  have "if rest = [] \<and> chained sha genesis_hash es
    then verify_hosted_buyer_job_events sha job_id db =
           \<lparr> vf_valid = True, vf_event_count = length es, vf_first_invalid = None,
             vf_head_hash = (if es = [] then None else Some (head_of genesis_hash es)) \<rparr>
    else \<not> vf_valid (verify_hosted_buyer_job_events sha job_id db)"
  proof (cases "check_chain sha genesis_hash 0 es")
    case (Inl i)
    then have "\<not> chained sha genesis_hash es" using check_chain_iff [of sha genesis_hash 0 es "head_of genesis_hash es"] by simp
    then show ?thesis using Inl by (simp add: verify)
  next
    case (Inr h)
    then have "chained sha genesis_hash es" "h = head_of genesis_hash es" using check_chain_iff [of sha genesis_hash 0 es h] by simp_all
    then show ?thesis using Inr by (simp add: verify)
  qed
  then show "vf_valid (verify_hosted_buyer_job_events sha job_id db) \<longleftrightarrow>
     snd (follow_chain genesis_hash (by_previous (events_in_order job_id (job_events db)))) = [] \<and>
     chained sha genesis_hash (verified_chain job_id db)"
    and "vf_valid (verify_hosted_buyer_job_events sha job_id db) \<Longrightarrow>
     verify_hosted_buyer_job_events sha job_id db =
       \<lparr> vf_valid = True, vf_event_count = length (verified_chain job_id db), vf_first_invalid = None,
         vf_head_hash = (if verified_chain job_id db = [] then None else Some (head_of genesis_hash (verified_chain job_id db))) \<rparr>"
    by (simp_all only: f es snd_conv split: if_splits) simp_all
qed

text \<open>The verified events are rows of the log, each at most once.\<close>

lemma by_previous_rows: "distinct (map fst (by_previous rows)) \<and> mset (map snd (by_previous rows)) \<subseteq># mset rows"
proof (induction rows rule: rev_induct)
  case (snoc e rows)
  have "mset (map snd (AList.update k v m)) \<subseteq># add_mset v (mset (map snd m))" for k and v :: job_event and m
    by (induction m) (auto simp: add_mset_commute intro: subset_mset.trans)
  then have "mset (map snd (by_previous (rows @ [e]))) \<subseteq># add_mset e (mset (map snd (by_previous rows)))"
    by (simp add: by_previous_def)
  moreover have "add_mset e (mset (map snd (by_previous rows))) \<subseteq># mset (rows @ [e])" using snoc by simp
  ultimately show ?case using snoc by (auto simp: by_previous_def distinct_update intro: subset_mset.trans)
qed (simp add: by_previous_def)

lemma delete_row:
  "distinct (map fst m) \<Longrightarrow> map_of m p = Some e \<Longrightarrow> mset (map snd m) = add_mset e (mset (map snd (AList.delete p m)))"
proof (induction m)
  case (Cons x m)
  then show ?case by (cases "fst x = p") (auto simp: delete_id simp del: mset_map)
qed simp

lemma follow_rows: "distinct (map fst m) \<Longrightarrow> mset (fst (follow_chain p m)) \<subseteq># mset (map snd m)"
proof (induction p m rule: follow_chain.induct)
  case (1 p m)
  show ?case
  proof (cases "map_of m p")
    case None
    then show ?thesis by (subst follow_chain.simps) simp
  next
    case (Some e)
    have "mset (map snd m) = add_mset e (mset (map snd (AList.delete p m)))"
      by (rule delete_row [OF 1(2) Some])
    moreover have "distinct (map fst (AList.delete p m))" using 1(2) by (rule distinct_delete)
    ultimately show ?thesis using 1(1) [OF Some] Some by (subst follow_chain.simps) (simp add: case_prod_beta)
  qed
qed

lemma submset_eq: "A \<subseteq># B \<Longrightarrow> size A = size B \<Longrightarrow> A = B"
  using size_psubset [of A B] by (auto simp: subset_mset_def) (metis size_Diff_submset size_eq_0_iff_empty subset_mset.diff_add diff_self_eq_0 add_0)

lemma verified_rows: "mset (verified_chain job db) \<subseteq># mset (events_in_order job (job_events db))"
  unfolding verified_chain_def using by_previous_rows follow_rows subset_mset.trans by blast

text \<open>
  C23: the head hash and the event count of a verified log commit to its events: if the hash has no collision and never
  gives the genesis hash, and two logs verify with the same head and with as many events as they have rows, then their
  rows are the same events, apart from the identifiers, which are not hashed; and both verified chains are these
  rows in the same order. The count is needed: the answer does not give the number of rows, and the
  chain of a log can leave rows out (\<open>fork_hides_event\<close>).
\<close>

theorem head_commits:
  assumes "inj sha" and "genesis_hash \<notin> range sha"
    and "vf_valid (verify_hosted_buyer_job_events sha job db)" and "vf_valid (verify_hosted_buyer_job_events sha job' db')"
    and "vf_head_hash (verify_hosted_buyer_job_events sha job db) = vf_head_hash (verify_hosted_buyer_job_events sha job' db')"
    and "vf_event_count (verify_hosted_buyer_job_events sha job db) = length (events_in_order job (job_events db))"
    and "vf_event_count (verify_hosted_buyer_job_events sha job' db') = length (events_in_order job' (job_events db'))"
  shows "mset (map event_body (events_in_order job (job_events db))) = mset (map event_body (events_in_order job' (job_events db'))) \<and>
    mset (verified_chain job db) = mset (events_in_order job (job_events db)) \<and>
    mset (verified_chain job' db') = mset (events_in_order job' (job_events db')) \<and>
    map event_body (verified_chain job db) = map event_body (verified_chain job' db')"
proof -
  let ?es = "verified_chain job db" and ?fs = "verified_chain job' db'"
  have chains: "chained sha genesis_hash ?es" "chained sha genesis_hash ?fs"
    using assms(3,4) by (simp_all add: verify_answers(1))
  have "(if ?es = [] then None else Some (head_of genesis_hash ?es)) = (if ?fs = [] then None else Some (head_of genesis_hash ?fs))"
    using assms(5) verify_answers(2) [OF assms(3)] verify_answers(2) [OF assms(4)] by simp
  then have "head_of genesis_hash ?es = head_of genesis_hash ?fs" by (auto split: if_splits)
  then have bodies: "map event_body ?es = map event_body ?fs" by (rule chain_unique [OF assms(1,2) chains])
  have rows: "mset ?es = mset (events_in_order job (job_events db))" "mset ?fs = mset (events_in_order job' (job_events db'))"
    using assms(6,7) verify_answers(2) [OF assms(3)] verify_answers(2) [OF assms(4)] verified_rows
    by (auto intro!: submset_eq)
  then have "mset (map event_body (events_in_order job (job_events db))) = mset (map event_body ?es)"
      "mset (map event_body (events_in_order job' (job_events db'))) = mset (map event_body ?fs)" by simp_all
  then show ?thesis using rows bodies by simp
qed

section \<open>A log in order\<close>

lemma chained_heads:
  assumes "inj sha" and "genesis_hash \<notin> range sha" and "chained sha genesis_hash (es @ fs)" and "fs \<noteq> []"
  shows "head_of genesis_hash (es @ fs) \<noteq> head_of genesis_hash es"
  using assms(3,4)
proof (induction es arbitrary: fs rule: rev_induct)
  case Nil
  then show ?case using assms(2)
    by (cases fs rule: rev_cases) (auto simp: chained_snoc hash_not_genesis simp del: head_of_append)
next
  case (snoc e es)
  obtain fs' f where fs: "fs = fs' @ [f]" using snoc.prems(2) by (cases fs rule: rev_cases) auto
  have whole: "chained sha genesis_hash ((es @ [e]) @ fs')" "je_hash f = event_hash sha f (head_of genesis_hash ((es @ [e]) @ fs'))"
    using snoc.prems(1) chained_snoc [of sha genesis_hash "(es @ [e]) @ fs'" f] unfolding fs append_assoc by blast+
  have e: "je_hash e = event_hash sha e (head_of genesis_hash es)" using whole(1) by (simp add: chained_append)
  have "head_of genesis_hash ((es @ [e]) @ fs') \<noteq> head_of genesis_hash es"
    using snoc.IH [of "e # fs'"] whole(1) by (simp only: append_assoc append_Cons append_Nil) simp
  then show ?case using whole(2) e event_hash_inject(1) [OF assms(1)] fs by auto
qed

lemma chained_distinct:
  assumes "inj sha" and "genesis_hash \<notin> range sha"
  shows "chained sha genesis_hash es \<Longrightarrow> distinct (map je_previous es)"
proof (induction es rule: rev_induct)
  case (snoc e es)
  have "je_previous e \<noteq> je_previous f" if mem: "f \<in> set es" for f
  proof -
    obtain us vs where es: "es = us @ f # vs" using split_list [OF mem] by blast
    then have "je_previous f = head_of genesis_hash us" "je_previous e = head_of genesis_hash (us @ f # vs)"
      using snoc.prems by (simp_all add: chained_append)
    moreover have "chained sha genesis_hash (us @ f # vs)" using snoc.prems chained_snoc es by blast
    ultimately show ?thesis using chained_heads [OF assms, of us "f # vs"] by simp
  qed
  moreover have "distinct (map je_previous es)" using snoc.IH snoc.prems unfolding chained_append by blast
  ultimately show ?case by (simp only: map_append distinct_append) auto
qed simp

lemma by_previous_distinct:
  assumes "distinct (map je_previous es)"
  shows "by_previous es = map (\<lambda>e. (je_previous e, e)) es"
  using assms
proof (induction es rule: rev_induct)
  case (snoc e es)
  have "AList.update k v m = m @ [(k, v)]" if "k \<notin> fst ` set m" for k and v :: job_event and m :: "(string \<times> job_event) list"
    using that by (induction m) auto
  then show ?case using snoc by (simp add: by_previous_def image_image)
qed (simp add: by_previous_def)

lemma follow_distinct:
  assumes "chained sha p es" and "distinct (map je_previous es)" and "head_of p es \<notin> je_previous ` set es"
  shows "follow_chain p (map (\<lambda>e. (je_previous e, e)) es) = (es, [])"
  using assms
proof (induction es arbitrary: p)
  case (Cons e es)
  have "AList.delete p (map (\<lambda>e. (je_previous e, e)) (e # es)) = map (\<lambda>e. (je_previous e, e)) es"
    using Cons.prems by (auto simp: AList.delete_eq filter_id_conv)
  moreover have "follow_chain (je_hash e) (map (\<lambda>e. (je_previous e, e)) es) = (es, [])" using Cons by auto
  ultimately show ?case using Cons.prems(1) by (subst follow_chain.simps) simp
qed (simp add: follow_chain.simps)

lemma chained_verifies:
  assumes "inj sha" and "genesis_hash \<notin> range sha" and "chained sha genesis_hash (events_in_order job (job_events db))"
  shows "verified_chain job db = events_in_order job (job_events db)"
    "vf_valid (verify_hosted_buyer_job_events sha job db)"
proof -
  let ?es = "events_in_order job (job_events db)"
  have "head_of genesis_hash ?es \<notin> je_previous ` set ?es"
  proof
    assume "head_of genesis_hash ?es \<in> je_previous ` set ?es"
    then obtain f where "f \<in> set ?es" "je_previous f = head_of genesis_hash ?es" by auto
    then obtain us vs where "?es = us @ f # vs" by (metis split_list)
    moreover from this have "chained sha genesis_hash (us @ f # vs)" using assms(3) by simp
    moreover from this have "je_previous f = head_of genesis_hash us" by (simp add: chained_append)
    ultimately show False
      using chained_heads [OF assms(1,2), of us "f # vs"] \<open>je_previous f = head_of genesis_hash ?es\<close> by simp
  qed
  with chained_distinct [OF assms] follow_distinct [OF assms(3)]
  have "follow_chain genesis_hash (by_previous ?es) = (?es, [])" by (simp add: by_previous_distinct)
  then show "verified_chain job db = ?es" "vf_valid (verify_hosted_buyer_job_events sha job db)"
    using assms(3) by (simp_all add: verified_chain_def verify_answers(1))
qed

section \<open>Runs of the queue\<close>

datatype hosted_op =
    EnqueueJob string string string string "pydict option" int int
  | ClaimJob string string "string option" int int
  | FinishJob string string string string "string option" "string option" "int option" int

fun op_time :: "hosted_op \<Rightarrow> int" where
  "op_time (EnqueueJob uuid event_uuid agent_id intent payload max_attempts now) = now"
| "op_time (ClaimJob secret event_uuid job_id lease_seconds now) = now"
| "op_time (FinishJob event_uuid job_id token state action err next_run now) = now"

fun run_hosted_op :: "(string \<Rightarrow> string) \<Rightarrow> hosted_op \<times> hosted_db \<Rightarrow> hosted_db \<Rightarrow> hosted_db" where
  "run_hosted_op sha (EnqueueJob uuid event_uuid agent_id intent payload max_attempts now, snap) db =
     snd (enqueue_hosted_buyer_job sha uuid event_uuid agent_id intent payload max_attempts now snap db)"
| "run_hosted_op sha (ClaimJob secret event_uuid job_id lease_seconds now, snap) db =
     snd (claim_hosted_buyer_job sha secret event_uuid job_id lease_seconds now db)"
| "run_hosted_op sha (FinishJob event_uuid job_id token state action err next_run now, snap) db =
     snd (finish_hosted_buyer_job sha event_uuid job_id token state action err next_run now db)"

lemma record_event_cases:
  "record_event sha e db = Some db' \<Longrightarrow> db' = db \<lparr> job_events := job_events db @ [chained_event sha e (job_events db)] \<rparr>"
  by (auto simp: record_event_def sql_insert_Some split: option.splits)

text \<open>An operation appends at most one event, at its own time.\<close>

definition logs_at :: "(string \<Rightarrow> string) \<Rightarrow> int \<Rightarrow> hosted_db \<Rightarrow> hosted_db \<Rightarrow> bool" where
  "logs_at sha now db db' =
     (job_events db' = job_events db \<or>
      (\<exists>e. je_created_at e = now \<and> job_events db' = job_events db @ [chained_event sha e (job_events db)]))"

lemma job_event_time [simp]: "je_created_at (job_event_of uuid job state action err now) = now"
  by (simp add: job_event_of_def)

lemma recorded_logs:
  "record_event sha (job_event_of uuid job state action err now) db1 = Some db2 \<Longrightarrow> job_events db1 = job_events db \<Longrightarrow>
   logs_at sha now db db2"
  unfolding logs_at_def by (intro disjI2 exI [of _ "job_event_of uuid job state action err now"]) (drule record_event_cases, simp)

lemma same_log: "job_events db' = job_events db \<Longrightarrow> logs_at sha now db db'"
  by (simp add: logs_at_def)

lemma op_logs: "logs_at sha (op_time (fst x)) db (run_hosted_op sha x db)"
proof -
  obtain y snap where x: "x = (y, snap)" by (cases x)
  show ?thesis
  proof (cases y)
    case (EnqueueJob uuid event_uuid agent_id intent payload max_attempts now)
    have "ends (logs_at sha now db) (enqueue_hosted_buyer_job sha uuid event_uuid agent_id intent payload max_attempts now snap db)"
      unfolding enqueue_hosted_buyer_job_def by (intro ends_rules ends_pair) (auto intro: same_log recorded_logs)
    then show ?thesis using EnqueueJob x by (simp add: ends_def)
  next
    case (ClaimJob secret event_uuid job_id lease_seconds now)
    have "ends (logs_at sha now db) (claim_hosted_buyer_job sha secret event_uuid job_id lease_seconds now db)"
      unfolding claim_hosted_buyer_job_def by (intro ends_rules ends_list ends_pair) (auto intro: same_log recorded_logs)
    then show ?thesis using ClaimJob x by (simp add: ends_def)
  next
    case (FinishJob event_uuid job_id token state action err next_run now)
    have "ends (logs_at sha now db) (finish_hosted_buyer_job sha event_uuid job_id token state action err next_run now db)"
      unfolding finish_hosted_buyer_job_def by (intro ends_rules ends_pair) (auto intro: same_log recorded_logs)
    then show ?thesis using FinishJob x by (simp add: ends_def)
  qed
qed

definition log_ok :: "(string \<Rightarrow> string) \<Rightarrow> int \<Rightarrow> hosted_db \<Rightarrow> bool" where
  "log_ok sha t db =
     (list_all (\<lambda>e. je_created_at e \<le> t) (job_events db) \<and>
      sorted_wrt (\<lambda>e e'. je_created_at e < je_created_at e') (job_events db) \<and>
      (\<forall>job. chained sha genesis_hash (filter (\<lambda>e. je_job e = job) (job_events db))))"

lemma in_order:
  assumes "sorted_wrt (\<lambda>e e'. je_created_at e < je_created_at e') es"
  shows "events_in_order job es = filter (\<lambda>e. je_job e = job) es"
proof -
  let ?es = "filter (\<lambda>e. je_job e = job) es"
  have strict: "sorted_wrt (<) (map je_created_at ?es)"
    using assms by (simp add: sorted_wrt_map sorted_wrt_filter)
  then have "inj_on je_created_at (set ?es)" by (simp add: strict_sorted_iff distinct_map)
  then show ?thesis unfolding events_in_order_def
    using strict by (intro sort_key_inj_key_eq) (simp_all add: strict_sorted_iff)
qed

lemma last_hash_in_order:
  assumes "sorted_wrt (\<lambda>e e'. je_created_at e < je_created_at e') es"
  shows "last_hash job es = head_of genesis_hash (filter (\<lambda>e. je_job e = job) es)"
  by (auto simp: last_hash_def in_order [OF assms] head_of_def split: list.split)

lemma chained_event_fields [simp]:
  "je_id (chained_event sha e es) = je_id e" "je_state (chained_event sha e es) = je_state e"
  "je_job (chained_event sha e es) = je_job e" "je_created_at (chained_event sha e es) = je_created_at e"
  "je_previous (chained_event sha e es) = last_hash (je_job e) es"
  by (simp_all add: chained_event_def Let_def)

lemma chained_event_hash:
  "je_hash (chained_event sha e es) = event_hash sha (chained_event sha e es) (last_hash (je_job e) es)"
  by (simp add: chained_event_def Let_def event_hash_def event_dict_def)

lemma log_step:
  assumes ok: "log_ok sha t db" and time: "t < now" and step: "logs_at sha now db db'"
  shows "log_ok sha now db'"
  using step unfolding logs_at_def
proof (elim disjE exE conjE)
  assume "job_events db' = job_events db"
  then show ?thesis using ok time by (auto simp: log_ok_def list_all_iff)
next
  fix e
  assume e: "je_created_at e = now" and db': "job_events db' = job_events db @ [chained_event sha e (job_events db)]"
  have sorted: "sorted_wrt (\<lambda>e e'. je_created_at e < je_created_at e') (job_events db)" using ok by (simp add: log_ok_def)
  have "chained sha genesis_hash (filter (\<lambda>e. je_job e = job) (job_events db'))" for job
    using ok by (auto simp: db' log_ok_def chained_append last_hash_in_order [OF sorted] chained_event_hash)
  moreover have "list_all (\<lambda>e. je_created_at e < now) (job_events db)" using ok time by (auto simp: log_ok_def list_all_iff)
  ultimately show ?thesis using ok e by (auto simp: db' log_ok_def sorted_wrt_append list_all_iff)
qed

lemma log_run:
  "log_ok sha t db \<Longrightarrow> sorted_wrt (<) (t # map (op_time \<circ> fst) ops) \<Longrightarrow> \<exists>t'. log_ok sha t' (fold (run_hosted_op sha) ops db)"
proof (induction ops arbitrary: t db)
  case (Cons x xs)
  then have "log_ok sha (op_time (fst x)) (run_hosted_op sha x db)" using log_step [OF Cons.prems(1) _ op_logs] by simp
  from Cons.IH [OF this] Cons.prems(2) show ?case by simp
qed auto

text \<open>
  A log whose operations run in different seconds verifies: in any run of enqueues (on arbitrary old
  reads), claims and finishes whose times strictly increase, from an empty log, the verification of
  every job is valid, counts all its events and covers them in the order of the table.
\<close>

theorem log_verifies:
  assumes "inj sha" and "genesis_hash \<notin> range sha" and "job_events db = []"
    and "sorted_wrt (<) (map (op_time \<circ> fst) ops)" and "db' = fold (run_hosted_op sha) ops db"
  shows "vf_valid (verify_hosted_buyer_job_events sha job db') \<and>
    vf_event_count (verify_hosted_buyer_job_events sha job db') = length (filter (\<lambda>e. je_job e = job) (job_events db')) \<and>
    verified_chain job db' = filter (\<lambda>e. je_job e = job) (job_events db')"
proof -
  let ?t = "case ops of [] \<Rightarrow> 0 | x # _ \<Rightarrow> op_time (fst x) - 1"
  have "log_ok sha ?t db" using assms(3) by (simp add: log_ok_def)
  moreover have "sorted_wrt (<) (?t # map (op_time \<circ> fst) ops)" using assms(4) by (cases ops) auto
  ultimately obtain t' where ok: "log_ok sha t' db'" using log_run assms(5) by metis
  then have order: "events_in_order job (job_events db') = filter (\<lambda>e. je_job e = job) (job_events db')"
    by (simp add: log_ok_def in_order)
  then have "chained sha genesis_hash (events_in_order job (job_events db'))" using ok by (simp add: log_ok_def)
  from chained_verifies [OF assms(1,2) this] order show ?thesis
    using verify_answers(2) [of sha job db'] by simp
qed

section \<open>Waiting jobs\<close>

definition waits :: "hosted_job \<Rightarrow> hosted_db \<Rightarrow> bool" where
  "waits j db = (unique_by hj_id (hosted_jobs db) \<and> row_by hj_id (hj_id j) (hosted_jobs db) = Some j \<and> hj_state j = ''waiting'')"

lemma waits_update:
  assumes "waits j db" and "\<And>r. P r \<Longrightarrow> hj_id (f r) = hj_id r" and "\<not> P j"
  shows "waits j (db \<lparr> hosted_jobs := fst (sql_update P f (hosted_jobs db)) \<rparr>)"
  using assms by (simp add: waits_def row_by_update [of P hj_id f] unique_by_update [of P hj_id f])

lemma waits_record: "record_event sha e db1 = Some db2 \<Longrightarrow> waits j db1 \<Longrightarrow> waits j db2"
  by (auto simp: waits_def dest: record_event_cases)

lemma waits_enqueue: "sql_insert job_clash r (hosted_jobs db) = Some t \<Longrightarrow> waits j db \<Longrightarrow> waits j (db \<lparr> hosted_jobs := t \<rparr>)"
  by (auto simp: sql_insert_Some job_clash_def waits_def unique_by_snoc row_by_append row_by_None_iff)

lemma waits_recover: "waits j db \<Longrightarrow> waits j (db \<lparr> hosted_jobs := fst (sql_update (lease_expired now) (recovered_job now) (hosted_jobs db)) \<rparr>)"
  by (rule waits_update) (auto simp: recovered_job_def lease_expired_def waits_def)

lemma waits_lease:
  "waits j db \<Longrightarrow> waits j (db \<lparr> hosted_jobs := fst (sql_update (\<lambda>x. hj_id x = i \<and> hj_state x = ''queued'') (leased_job token until now) (hosted_jobs db)) \<rparr>)"
  by (rule waits_update) (auto simp: leased_job_def waits_def)

lemma waits_finish:
  "waits j db \<Longrightarrow> waits j (db \<lparr> hosted_jobs := fst (sql_update (holds_lease i token) (finished_job state action err next_run now) (hosted_jobs db)) \<rparr>)"
  by (rule waits_update) (auto simp: finished_job_def holds_lease_def waits_def)

lemma waits_claim: "waits j db \<Longrightarrow> waits j (snd (claim_hosted_buyer_job sha secret event_uuid job_id lease_seconds now db))"
proof -
  assume j: "waits j db"
  let ?jobs = "fst (sql_update (lease_expired now) (recovered_job now) (hosted_jobs db))"
  have jobs: "waits j (db \<lparr> hosted_jobs := ?jobs \<rparr>)" by (rule waits_recover [OF j])
  have leased: "waits j (db \<lparr> hosted_jobs := fst (sql_update (\<lambda>x. hj_id x = i \<and> hj_state x = ''queued'') (leased_job token until now) ?jobs) \<rparr>)"
    for i token until using waits_lease [OF jobs, of i token until now] by simp
  have "ends (waits j) (claim_hosted_buyer_job sha secret event_uuid job_id lease_seconds now db)"
    unfolding claim_hosted_buyer_job_def
    by (intro ends_rules ends_list ends_pair) (use j jobs leased in \<open>auto dest!: waits_record simp: prod_eq_iff\<close>)
  then show ?thesis by (simp add: ends_def)
qed

lemma waits_step: "waits j db \<Longrightarrow> waits j (run_hosted_op sha x db)"
proof -
  assume j: "waits j db"
  obtain y snap where x: "x = (y, snap)" by (cases x)
  show ?thesis
  proof (cases y)
    case (EnqueueJob uuid event_uuid agent_id intent payload max_attempts now)
    have "ends (waits j) (enqueue_hosted_buyer_job sha uuid event_uuid agent_id intent payload max_attempts now snap db)"
      unfolding enqueue_hosted_buyer_job_def
      by (intro ends_rules ends_pair) (use j in \<open>auto intro: waits_enqueue waits_record\<close>)
    then show ?thesis using EnqueueJob x by (simp add: ends_def)
  next
    case (ClaimJob secret event_uuid job_id lease_seconds now)
    then show ?thesis using j x by (simp add: waits_claim)
  next
    case (FinishJob event_uuid job_id token state action err next_run now)
    have "ends (waits j) (finish_hosted_buyer_job sha event_uuid job_id token state action err next_run now db)"
      unfolding finish_hosted_buyer_job_def
      by (intro ends_rules ends_pair)
        (use j waits_finish [OF j, of job_id token state action err next_run now] in \<open>auto intro: waits_record simp: prod_eq_iff\<close>)
    then show ?thesis using FinishJob x by (simp add: ends_def)
  qed
qed

lemma waits_run: "waits j db \<Longrightarrow> waits j (fold (run_hosted_op sha) ops db)"
  by (induction ops arbitrary: db) (simp_all add: waits_step)

lemma waits_unclaimed:
  assumes "waits j db" and "hj_id j \<noteq> []"
  shows "fst (claim_hosted_buyer_job sha secret event_uuid (Some (hj_id j)) lease_seconds now db) = Inr NoJob"
proof -
  let ?jobs = "fst (sql_update (lease_expired now) (recovered_job now) (hosted_jobs db))"
  obtain c cs where id: "hj_id j = c # cs" using assms(2) by (cases "hj_id j") auto
  have row: "unique_by hj_id ?jobs" "row_by hj_id (hj_id j) ?jobs = Some j" "hj_state j = ''waiting''"
    using waits_recover [OF assms(1), of now] by (simp_all add: waits_def)
  have "hj_state r \<noteq> ''queued''" if "r \<in> set ?jobs" "hj_id r = hj_id j" for r
  proof -
    have "r = j" using row_by_eq_SomeI [OF row(1) that] row(2) by (metis option.inject)
    then show ?thesis using row(3) by simp
  qed
  then have "filter (\<lambda>r. hj_id r = c # cs) (filter (\<lambda>r. hj_state r = ''queued'' \<and> hj_next_run r \<le> now) ?jobs) = []"
    unfolding id by (simp add: filter_empty_conv) blast
  then show ?thesis using id by (simp add: claim_hosted_buyer_job_def Let_def)
qed

text \<open>
  A waiting job is never claimed: once a job waits, no run of enqueues, claims and finishes changes its row,
  and a later claim of this very job answers that there is none.
\<close>

theorem waiting_never_claimed:
  assumes "unique_by hj_id (hosted_jobs db)" and "row_by hj_id job (hosted_jobs db) = Some j" and "hj_state j = ''waiting''"
    and "job \<noteq> []" and "db' = fold (run_hosted_op sha) ops db"
  shows "row_by hj_id job (hosted_jobs db') = Some j \<and>
    fst (claim_hosted_buyer_job sha secret event_uuid (Some job) lease_seconds now db') = Inr NoJob"
proof -
  have "job = hj_id j" using row_by_SomeD [OF assms(2)] by simp
  then have "waits j db" using assms by (simp add: waits_def)
  then have "waits j db'" using assms(5) waits_run by simp
  then show ?thesis using waits_unclaimed \<open>job = hj_id j\<close> assms(4) by (simp add: waits_def)
qed

section \<open>A fork within a second\<close>

lemma fork_order:
  assumes "je_created_at a = je_created_at b" and "je_created_at b < je_created_at c" and "je_id b < je_id a"
  shows "sort_key je_created_at (sort_key je_id [a, b, c]) = [b, a, c]"
  using assms by (cases "je_id c \<le> je_id b"; cases "je_id c \<le> je_id a"; auto)

lemma fork_last:
  assumes "je_created_at a = je_created_at b" and "je_id b < je_id a"
  shows "sort_key je_created_at (sort_key je_id [a, b]) = [b, a]"
  using assms by auto

lemma fork_verifies:
  assumes sha: "inj sha" "genesis_hash \<notin> range sha"
    and es: "events_in_order job (job_events db) = [b, a, c]"
    and a: "je_previous a = genesis_hash" "je_hash a = event_hash sha a genesis_hash"
    and b: "je_previous b = je_hash a"
    and c: "je_previous c = je_hash a" "je_hash c = event_hash sha c (je_hash a)"
  shows "verified_chain job db = [a, c]" "vf_valid (verify_hosted_buyer_job_events sha job db)"
proof -
  have "je_hash a \<noteq> genesis_hash" using a(2) hash_not_genesis [OF sha(2)] by simp
  moreover from this have "je_hash c \<noteq> je_hash a" using a(2) c(2) event_hash_inject(1) [OF sha(1)] by metis
  moreover have "je_hash c \<noteq> genesis_hash" using c(2) hash_not_genesis [OF sha(2)] by simp
  ultimately have "follow_chain genesis_hash (by_previous [b, a, c]) = ([a, c], [])"
    using a(1) b c(1) by (simp add: by_previous_def follow_chain.simps)
  then show "verified_chain job db = [a, c]" "vf_valid (verify_hosted_buyer_job_events sha job db)"
    using a c es by (simp_all add: verified_chain_def verify_answers(1))
qed

text \<open>What the three operations append when they succeed.\<close>

lemma enqueued_event:
  "enqueue_hosted_buyer_job sha uuid event_uuid agent_id intent payload max_attempts now snap db = (Inr (j, False), db') \<Longrightarrow>
   job_events db' = job_events db @ [chained_event sha (job_event_of event_uuid j ''queued'' None None now) (job_events db)]"
proof -
  have "outcome (\<lambda>m. fst m = Inr (j, False) \<longrightarrow> job_events (snd m) =
      job_events db @ [chained_event sha (job_event_of event_uuid j ''queued'' None None now) (job_events db)])
    (enqueue_hosted_buyer_job sha uuid event_uuid agent_id intent payload max_attempts now snap db)"
    unfolding enqueue_hosted_buyer_job_def by (intro outcome_rules outcomeI) (auto dest: record_event_cases)
  then show "enqueue_hosted_buyer_job sha uuid event_uuid agent_id intent payload max_attempts now snap db = (Inr (j, False), db') \<Longrightarrow> ?thesis"
    by (simp add: outcome_def)
qed

lemma claimed_event:
  assumes "claim_hosted_buyer_job sha secret event_uuid job_id lease_seconds now db = (Inr (Leased j), db')"
  shows "job_events db' = job_events db @ [chained_event sha (job_event_of event_uuid j ''leased'' None None now) (job_events db)]"
proof -
  have same: "job_event_of event_uuid (leased_job token until now r) ''leased'' None None now = job_event_of event_uuid r ''leased'' None None now"
    for token until r by (simp add: job_event_of_def leased_job_def)
  have "outcome (\<lambda>m. fst m = Inr (Leased j) \<longrightarrow> job_events (snd m) =
      job_events db @ [chained_event sha (job_event_of event_uuid j ''leased'' None None now) (job_events db)])
    (claim_hosted_buyer_job sha secret event_uuid job_id lease_seconds now db)"
    unfolding claim_hosted_buyer_job_def
    by (intro outcome_rules outcome_list outcomeI) (auto simp: same dest: record_event_cases)
  then show ?thesis using assms by (simp add: outcome_def)
qed

lemma finished_job_id [simp]: "hj_id (finished_job state action err next_run now j) = hj_id j"
  by (simp add: finished_job_def)

lemma finished_event:
  assumes "finish_hosted_buyer_job sha event_uuid job_id token state action err next_run now db = (Inr True, db')"
  obtains e where "je_job e = job_id" "je_created_at e = now" "je_state e = state" "job_events db' = job_events db @ [chained_event sha e (job_events db)]"
proof -
  let ?t = "fst (sql_update (holds_lease job_id token) (finished_job state action err next_run now) (hosted_jobs db))"
  have one: "length (filter (holds_lease job_id token) (hosted_jobs db)) = 1" and valid: "state \<in> {''queued'', ''waiting'', ''completed'', ''stopped''}"
    using assms by (auto simp: finish_hosted_buyer_job_def Let_def case_prod_beta snd_sql_update split: if_splits)
  then have "filter (holds_lease job_id token) (hosted_jobs db) \<noteq> []" by (metis length_0_conv zero_neq_one)
  then obtain r where "r \<in> set (hosted_jobs db)" "hj_id r = job_id" unfolding filter_empty_conv holds_lease_def by blast
  then have "job_id \<in> hj_id ` set (hosted_jobs db)" by blast
  moreover have "hj_id ` set ?t = hj_id ` set (hosted_jobs db)"
    using map_key_update [of "holds_lease job_id token" hj_id "finished_job state action err next_run now" "hosted_jobs db"]
    by (metis finished_job_id list.set_map)
  ultimately obtain j where j: "row_by hj_id job_id ?t = Some j"
    using row_by_None_iff [of hj_id job_id ?t] by (cases "row_by hj_id job_id ?t") auto
  then have "hj_id j = job_id" by (auto dest: row_by_SomeD)
  moreover have "record_event sha (job_event_of event_uuid j state action err now) (db \<lparr> hosted_jobs := ?t \<rparr>) = Some db'"
    using assms one valid j
    by (auto simp: finish_hosted_buyer_job_def Let_def case_prod_beta snd_sql_update split: option.splits)
  ultimately show ?thesis
    using that [of "job_event_of event_uuid j state action err now"] by (auto simp: job_event_of_def dest: record_event_cases)
qed

text \<open>
  Within one second the log can lose an event unnoticed: if a job is enqueued and claimed in the same second and
  the identifier drawn for the claim's event is the smaller one, then after the job is finished in a later
  second the table holds three events of the job, but the verification is valid with two: the
  finishing event continues from the first one, and the claim's event is in no verified chain.
\<close>

theorem fork_hides_event:
  assumes "inj sha" and "genesis_hash \<notin> range sha" and "list_all (\<lambda>e. je_job e \<noteq> hj_id j) (job_events db)"
    and "enqueue_hosted_buyer_job sha uuid event1 agent_id intent payload max_attempts now snap db = (Inr (j, False), db1)"
    and "claim_hosted_buyer_job sha secret event2 job_id lease_seconds now db1 = (Inr (Leased k), db2)" and "hj_id k = hj_id j"
    and "finish_hosted_buyer_job sha event3 (hj_id j) token state action err next_run later db2 = (Inr True, db3)"
    and "event2 < event1" and "now < later"
  shows "vf_valid (verify_hosted_buyer_job_events sha (hj_id j) db3) \<and>
    vf_event_count (verify_hosted_buyer_job_events sha (hj_id j) db3) = 2 \<and>
    length (filter (\<lambda>e. je_job e = hj_id j) (job_events db3)) = 3 \<and>
    map je_state (verified_chain (hj_id j) db3) = [''queued'', state]"
proof -
  define a where "a = chained_event sha (job_event_of event1 j ''queued'' None None now) (job_events db)"
  define b where "b = chained_event sha (job_event_of event2 k ''leased'' None None now) (job_events db1)"
  have db1: "job_events db1 = job_events db @ [a]" using enqueued_event [OF assms(4)] by (simp add: a_def)
  have db2: "job_events db2 = job_events db1 @ [b]" using claimed_event [OF assms(5)] by (simp add: b_def)
  obtain e where e: "je_job e = hj_id j" "je_created_at e = later" "je_state e = state"
    and last_event: "job_events db3 = job_events db2 @ [chained_event sha e (job_events db2)]"
    using assms(7) by (rule finished_event)
  define c where "c = chained_event sha e (job_events db2)"
  then have db3: "job_events db3 = job_events db2 @ [c]" using last_event by simp
  have fields: "je_job a = hj_id j" "je_job b = hj_id j" "je_job c = hj_id j" "je_created_at a = now" "je_created_at b = now"
      "je_created_at c = later" "je_id b < je_id a" "je_state a = ''queued''" "je_state c = state"
    using assms(6,8) e by (simp_all add: a_def b_def c_def job_event_of_def)
  have old: "filter (\<lambda>e. je_job e = hj_id j) (job_events db) = []" using assms(3) by (simp add: filter_empty_conv list_all_iff)
  have rows: "filter (\<lambda>e. je_job e = hj_id j) (job_events db3) = [a, b, c]"
    using fields old by (simp add: db1 db2 db3)
  have last: "last_hash (hj_id j) (job_events db) = genesis_hash" "last_hash (hj_id j) (job_events db1) = je_hash a"
      "last_hash (hj_id j) (job_events db2) = je_hash a"
    using old fields fork_last [of a b] by (simp_all add: last_hash_def events_in_order_def db1 db2)
  have order: "events_in_order (hj_id j) (job_events db3) = [b, a, c]"
    unfolding events_in_order_def rows by (rule fork_order) (use fields assms(9) in simp_all)
  have hashes: "je_previous a = genesis_hash" "je_hash a = event_hash sha a genesis_hash" "je_previous b = je_hash a"
      "je_previous c = je_hash a" "je_hash c = event_hash sha c (je_hash a)"
    using last e assms(6) fields chained_event_hash [of sha _ "job_events db"] chained_event_hash [of sha e "job_events db2"]
    by (simp_all add: a_def b_def c_def job_event_of_def)
  from fork_verifies [OF assms(1,2) order hashes] show ?thesis
    using rows verify_answers(2) [of sha "hj_id j" db3] fields by simp
qed

section \<open>Witnesses\<close>

definition tag_hash :: "string \<Rightarrow> string" where
  "tag_hash s = CHR ''h'' # s"

lemma tag_hash_ok: "inj tag_hash" "genesis_hash \<notin> range tag_hash"
  by (auto simp: tag_hash_def inj_def genesis_hash_def eval_nat_numeral)

definition one_agent :: hosted_db where
  "one_agent = \<lparr> buyer_agents = [new_agent ''A'' ''W'' ''conn'' ''solana:devnet'' [] 0], hosted_jobs = [], job_events = [] \<rparr>"

definition queued_one :: hosted_db where
  "queued_one = snd (enqueue_hosted_buyer_job tag_hash ''j'' ''e2'' ''A'' ''I'' None 3 10 one_agent one_agent)"

definition claimed_one :: hosted_db where
  "claimed_one = snd (claim_hosted_buyer_job tag_hash ''s'' ''e1'' None 30 10 queued_one)"

definition waiting_one :: hosted_db where
  "waiting_one = snd (finish_hosted_buyer_job tag_hash ''e3'' ''hbj_j'' ''hbl_s'' ''waiting'' None None (Some 16) 11 claimed_one)"

abbreviation the_job :: hosted_job where
  "the_job \<equiv> new_job ''hbj_j'' ''A'' ''I'' [] 3 10"

lemmas hosted_eval = Let_def get_hosted_buyer_agent_def row_by_Cons new_agent_def sql_insert_def job_clash_def
  record_event_def event_clash_def sql_update_def lease_expired_def clamp_int_def leased_job_def holds_lease_def

definition queued_event :: job_event where
  "queued_event = chained_event tag_hash (job_event_of ''e2'' the_job ''queued'' None None 10) []"

lemma job_event_id [simp]: "je_id (job_event_of uuid job state action err now) = ''hbe_'' @ uuid"
  by (simp add: job_event_of_def)

lemma enqueue_one:
  "enqueue_hosted_buyer_job tag_hash ''j'' ''e2'' ''A'' ''I'' None 3 10 one_agent one_agent =
     (Inr (the_job, False), one_agent \<lparr> hosted_jobs := [the_job], job_events := [queued_event] \<rparr>)"
  by (simp add: enqueue_hosted_buyer_job_def one_agent_def hosted_eval queued_event_def)

definition leased_event :: job_event where
  "leased_event = chained_event tag_hash (job_event_of ''e1'' the_job ''leased'' None None 10) [queued_event]"

definition waiting_event :: job_event where
  "waiting_event = chained_event tag_hash (job_event_of ''e3'' the_job ''waiting'' None None 11) [queued_event, leased_event]"

lemma event_ids [simp]: "je_id queued_event = ''hbe_e2''" "je_id leased_event = ''hbe_e1''"
  by (simp_all add: queued_event_def leased_event_def)

lemma queued_one: "queued_one = one_agent \<lparr> hosted_jobs := [the_job], job_events := [queued_event] \<rparr>"
  by (simp add: queued_one_def enqueue_one)

lemma claim_one:
  "claim_hosted_buyer_job tag_hash ''s'' ''e1'' None 30 10 queued_one =
     (Inr (Leased (leased_job ''hbl_s'' 40 10 the_job)),
      one_agent \<lparr> hosted_jobs := [leased_job ''hbl_s'' 40 10 the_job], job_events := [queued_event, leased_event] \<rparr>)"
  by (simp add: claim_hosted_buyer_job_def queued_one hosted_eval new_job_def leased_event_def)

lemma finish_one:
  "finish_hosted_buyer_job tag_hash ''e3'' ''hbj_j'' ''hbl_s'' ''waiting'' None None (Some 16) 11 claimed_one =
     (Inr True,
      one_agent \<lparr> hosted_jobs := [finished_job ''waiting'' None None (Some 16) 11 (leased_job ''hbl_s'' 40 10 the_job)],
                  job_events := [queued_event, leased_event, waiting_event] \<rparr>)"
  by (simp add: finish_hosted_buyer_job_def claimed_one_def claim_one hosted_eval new_job_def finished_job_def
      waiting_event_def job_event_of_def)

theorem fork_hides_event_witness:
  "vf_valid (verify_hosted_buyer_job_events tag_hash ''hbj_j'' waiting_one) \<and>
    vf_event_count (verify_hosted_buyer_job_events tag_hash ''hbj_j'' waiting_one) = 2 \<and>
    length (filter (\<lambda>e. je_job e = ''hbj_j'') (job_events waiting_one)) = 3 \<and>
    map je_state (verified_chain ''hbj_j'' waiting_one) = [''queued'', ''waiting'']"
proof -
  have id: "hj_id the_job = ''hbj_j''" by (simp add: new_job_def)
  have enqueue: "enqueue_hosted_buyer_job tag_hash ''j'' ''e2'' ''A'' ''I'' None 3 10 one_agent one_agent = (Inr (the_job, False), queued_one)"
    by (simp add: enqueue_one queued_one)
  have claim: "claim_hosted_buyer_job tag_hash ''s'' ''e1'' None 30 10 queued_one = (Inr (Leased (leased_job ''hbl_s'' 40 10 the_job)), claimed_one)"
    by (simp add: claim_one claimed_one_def)
  have finish: "finish_hosted_buyer_job tag_hash ''e3'' (hj_id the_job) ''hbl_s'' ''waiting'' None None (Some 16) 11 claimed_one = (Inr True, waiting_one)"
    by (simp add: id finish_one waiting_one_def)
  show ?thesis
    using fork_hides_event [OF tag_hash_ok _ enqueue claim _ finish]
    by (simp add: one_agent_def leased_job_def id less_list_code less_char_def)
qed

theorem waiting_never_claimed_witness:
  "row_by hj_id ''hbj_j'' (hosted_jobs waiting_one) \<noteq> None \<and>
   fst (claim_hosted_buyer_job tag_hash ''t'' ''e4'' (Some ''hbj_j'') 30 1000 waiting_one) = Inr NoJob"
proof -
  let ?j = "finished_job ''waiting'' None None (Some 16) 11 (leased_job ''hbl_s'' 40 10 the_job)"
  have rows: "hosted_jobs waiting_one = [?j]" "hj_id ?j = ''hbj_j''" "hj_state ?j = ''waiting''"
    by (simp_all add: waiting_one_def finish_one finished_job_def leased_job_def new_job_def)
  show ?thesis
    using waiting_never_claimed [of waiting_one "''hbj_j''" ?j waiting_one tag_hash "[]" "''t''" "''e4''" 30 1000] rows
    by (simp add: unique_by_def row_by_Cons)
qed

definition sample_ops :: "(hosted_op \<times> hosted_db) list" where
  "sample_ops = [(EnqueueJob ''j'' ''e2'' ''A'' ''I'' None 3 10, one_agent), (ClaimJob ''s'' ''e1'' None 30 20, one_agent)]"

theorem log_verifies_witness:
  "vf_valid (verify_hosted_buyer_job_events tag_hash ''hbj_j'' (fold (run_hosted_op tag_hash) sample_ops one_agent))"
  using log_verifies [OF tag_hash_ok _ _ refl, of one_agent sample_ops "''hbj_j''"]
  by (simp add: one_agent_def sample_ops_def del: run_hosted_op.simps)

definition relabelled :: hosted_db where
  "relabelled = one_agent \<lparr> job_events := [queued_event \<lparr> je_id := ''other'' \<rparr>] \<rparr>"

lemma queued_event_links: "je_previous queued_event = genesis_hash" "je_job queued_event = ''hbj_j''"
    "je_hash queued_event = event_hash tag_hash queued_event genesis_hash"
  using chained_event_hash [of tag_hash "job_event_of ''e2'' the_job ''queued'' None None 10" "[]"]
  by (simp_all add: queued_event_def last_hash_def events_in_order_def job_event_of_def new_job_def)

lemma relabelled_hash: "event_hash sha (e \<lparr> je_id := i \<rparr>) p = event_hash sha e p"
proof -
  have "event_dict (e \<lparr> je_id := i \<rparr>) p = event_dict e p" by (simp add: event_dict_def)
  then show ?thesis by (simp only: event_hash_def)
qed

lemma one_event_verifies:
  assumes "job_events db = [e]" and "je_job e = job" and "je_previous e = genesis_hash" and "je_hash e = event_hash tag_hash e genesis_hash"
  shows "vf_valid (verify_hosted_buyer_job_events tag_hash job db)"
    "vf_head_hash (verify_hosted_buyer_job_events tag_hash job db) = Some (je_hash e)"
    "vf_event_count (verify_hosted_buyer_job_events tag_hash job db) = length (events_in_order job (job_events db))"
    "events_in_order job (job_events db) = [e]"
proof -
  have es: "events_in_order job (job_events db) = [e]" using assms(1,2) by (simp add: events_in_order_def)
  have chain: "chained tag_hash genesis_hash (events_in_order job (job_events db))" unfolding es using assms(3,4) by simp
  show valid: "vf_valid (verify_hosted_buyer_job_events tag_hash job db)" by (rule chained_verifies(2) [OF tag_hash_ok chain])
  show "vf_head_hash (verify_hosted_buyer_job_events tag_hash job db) = Some (je_hash e)"
    "vf_event_count (verify_hosted_buyer_job_events tag_hash job db) = length (events_in_order job (job_events db))"
    using verify_answers(2) [OF valid] chained_verifies(1) [OF tag_hash_ok chain] unfolding es by simp_all
  show "events_in_order job (job_events db) = [e]" by (rule es)
qed

theorem head_commits_witness:
  "mset (map event_body [queued_event]) = mset (map event_body [queued_event \<lparr> je_id := ''other'' \<rparr>]) \<and>
   mset (verified_chain ''hbj_j'' queued_one) = mset [queued_event] \<and>
   map event_body (verified_chain ''hbj_j'' queued_one) = map event_body (verified_chain ''hbj_j'' relabelled)"
proof -
  let ?e = "queued_event \<lparr> je_id := ''other'' \<rparr>"
  have "job_events queued_one = [queued_event]" by (simp add: queued_one)
  note q = one_event_verifies [OF this queued_event_links(2,1,3)]
  have hash: "je_hash ?e = event_hash tag_hash ?e genesis_hash"
    by (simp add: relabelled_hash queued_event_links(3) [symmetric])
  have e: "job_events relabelled = [?e]" "je_job ?e = ''hbj_j''" "je_previous ?e = genesis_hash"
    by (simp_all add: relabelled_def queued_event_links)
  note r = one_event_verifies [OF e hash]
  have "vf_head_hash (verify_hosted_buyer_job_events tag_hash ''hbj_j'' queued_one) =
      vf_head_hash (verify_hosted_buyer_job_events tag_hash ''hbj_j'' relabelled)" by (simp add: q(2) r(2))
  from head_commits [OF tag_hash_ok q(1) r(1) this q(3) r(3)] show ?thesis unfolding q(4) r(4) by blast
qed

end
