(* ===== verification/Acceptance.thy ===== *)
theory Acceptance
  imports Json
begin

text \<open>
  Acceptance contracts of autonomous deliveries (\<open>iat/acceptance.py\<close>): the criteria a buyer declares and
  the checks a delivered result is put to. The types and ranges of the criteria's fields are pydantic's
  and are taken as given; \<open>confidence v m\<close> tells whether the confidence \<open>v\<close> of a result reaches the minimum
  \<open>m\<close> (floating-point numbers) and the number that is reported; \<open>to_int\<close> is \<open>int(v)\<close>, \<open>None\<close> if it raises.
\<close>

section \<open>Criteria\<close>

definition public_result_fields :: "string list" where
  "public_result_fields =
     [''confidence'', ''final_recommendation'', ''foundation_decision_ready'', ''foundation_verdict'', ''message'',
      ''recommendations'', ''sources'', ''status'', ''summary'', ''verified_claim_count'']"

record criteria =
  cr_fields :: "string list"
  cr_min_sources :: int
  cr_min_confidence :: "string option"
  cr_min_claims :: int
  cr_decision :: bool
  cr_signed :: bool

definition validate_contract :: "criteria \<Rightarrow> py_error + criteria" where
  "validate_contract c =
     (let normalized = sort (remdups (map py_strip (cr_fields c))) in
      if \<not> list_all (\<lambda>f. f \<in> set public_result_fields) normalized
      then Inl (ValueError ''acceptance_result_field_not_allowed'')
      else if normalized = [] \<and> cr_min_sources c = 0 \<and> cr_min_confidence c = None \<and> cr_min_claims c = 0 \<and>
              \<not> cr_decision c \<and> \<not> cr_signed c
      then Inl (ValueError ''acceptance_criteria_empty'')
      else Inr (c \<lparr> cr_fields := normalized \<rparr>))"

definition criteria_dict :: "criteria \<Rightarrow> pydict" where
  "criteria_dict c =
     [(''required_result_fields'', PList (map PStr (cr_fields c))), (''min_sources'', PInt (cr_min_sources c)),
      (''minimum_confidence'', (case cr_min_confidence c of None \<Rightarrow> PNone | Some m \<Rightarrow> PFloat m)),
      (''min_verified_claim_count'', PInt (cr_min_claims c)), (''require_foundation_decision'', PBool (cr_decision c)),
      (''require_signed_delivery'', PBool (cr_signed c))]"

section \<open>Evaluation\<close>

record acceptance_check =
  ck_code :: string
  ck_passed :: bool
  ck_numbers :: "(pyval \<times> pyval) option"

definition check_dict :: "acceptance_check \<Rightarrow> pydict" where
  "check_dict k =
     [(''code'', PStr (ck_code k)), (''passed'', PBool (ck_passed k))] @
     (case ck_numbers k of None \<Rightarrow> [] | Some (actual, required) \<Rightarrow> [(''actual'', actual), (''required'', required)])"

definition plain_check :: "string \<Rightarrow> bool \<Rightarrow> acceptance_check" where
  "plain_check code passed = \<lparr> ck_code = code, ck_passed = passed, ck_numbers = None \<rparr>"

definition number_check :: "string \<Rightarrow> bool \<Rightarrow> pyval \<Rightarrow> pyval \<Rightarrow> acceptance_check" where
  "number_check code passed actual required = \<lparr> ck_code = code, ck_passed = passed, ck_numbers = Some (actual, required) \<rparr>"

definition field_present :: "pydict \<Rightarrow> string \<Rightarrow> bool" where
  "field_present result f =
     (case map_of result f of None \<Rightarrow> False | Some v \<Rightarrow> v \<noteq> PNone \<and> v \<noteq> PStr [] \<and> v \<noteq> PList [] \<and> v \<noteq> PDict [])"

definition source_count :: "pydict \<Rightarrow> int" where
  "source_count result = (case dget result ''sources'' of PList xs \<Rightarrow> int (length xs) | _ \<Rightarrow> 0)"

definition claim_count :: "(pyval \<Rightarrow> int option) \<Rightarrow> pydict \<Rightarrow> int" where
  "claim_count to_int result =
     (let v = dget result ''verified_claim_count'' in
      if truthy v then (case to_int v of None \<Rightarrow> 0 | Some i \<Rightarrow> max 0 i) else 0)"

definition decision_ready :: "pydict \<Rightarrow> bool" where
  "decision_ready result =
     (dget result ''foundation_decision_ready'' = PBool True \<and>
      (truthy (dget result ''foundation_verdict'') \<or> truthy (dget result ''final_recommendation'')))"

definition acceptance_checks ::
  "(pyval \<Rightarrow> string \<Rightarrow> bool \<times> pyval) \<Rightarrow> (pyval \<Rightarrow> int option) \<Rightarrow> criteria \<Rightarrow> pydict \<Rightarrow> string \<Rightarrow> acceptance_check list" where
  "acceptance_checks confidence to_int c result signature_status =
     map (\<lambda>f. plain_check (''required_field:'' @ f) (field_present result f)) (cr_fields c) @
     (if cr_min_sources c = 0 then []
      else [number_check ''minimum_sources'' (source_count result \<ge> cr_min_sources c) (PInt (source_count result))
              (PInt (cr_min_sources c))]) @
     (case cr_min_confidence c of None \<Rightarrow> []
      | Some m \<Rightarrow> (case confidence (dget result ''confidence'') m of
                     (passed, actual) \<Rightarrow> [number_check ''minimum_confidence'' passed actual (PFloat m)])) @
     (if cr_min_claims c = 0 then []
      else [number_check ''minimum_verified_claims'' (claim_count to_int result \<ge> cr_min_claims c)
              (PInt (claim_count to_int result)) (PInt (cr_min_claims c))]) @
     (if cr_decision c then [plain_check ''foundation_decision_required'' (decision_ready result)] else []) @
     (if cr_signed c then [plain_check ''signed_delivery_required'' (signature_status = ''verified'')] else [])"

record evaluation =
  ea_decision :: string
  ea_checks :: "acceptance_check list"
  ea_passed :: int
  ea_failed :: int

definition evaluate_acceptance ::
  "(pyval \<Rightarrow> string \<Rightarrow> bool \<times> pyval) \<Rightarrow> (pyval \<Rightarrow> int option) \<Rightarrow> criteria \<Rightarrow> pydict \<Rightarrow> string \<Rightarrow> evaluation" where
  "evaluate_acceptance confidence to_int c result signature_status =
     (let checks = acceptance_checks confidence to_int c result signature_status in
      \<lparr> ea_decision = (if checks \<noteq> [] \<and> list_all ck_passed checks then ''accepted_by_explicit_criteria''
                       else ''rejected_by_explicit_criteria''),
        ea_checks = checks,
        ea_passed = int (length (filter ck_passed checks)),
        ea_failed = int (length (filter (\<lambda>k. \<not> ck_passed k) checks)) \<rparr>)"

section \<open>What a decision means\<close>

lemma check_passed [simp]: "ck_passed (plain_check code p) = p" "ck_passed (number_check code p a r) = p"
  by (simp_all add: plain_check_def number_check_def)

lemma some_check:
  assumes "validate_contract c0 = Inr c"
  shows "acceptance_checks confidence to_int c result status \<noteq> []"
  using assms by (auto simp: validate_contract_def acceptance_checks_def Let_def case_prod_beta split: if_splits option.splits)

lemma decision_iff:
  "(ea_decision (evaluate_acceptance confidence to_int c result status) = ''accepted_by_explicit_criteria'') =
   (acceptance_checks confidence to_int c result status \<noteq> [] \<and> list_all ck_passed (acceptance_checks confidence to_int c result status))"
  by (simp add: evaluate_acceptance_def Let_def)

lemma counts:
  "ea_passed (evaluate_acceptance confidence to_int c result status) + ea_failed (evaluate_acceptance confidence to_int c result status) =
   int (length (acceptance_checks confidence to_int c result status))"
  by (simp add: evaluate_acceptance_def Let_def sum_length_filter_compl flip: of_nat_add)

text \<open>
  C34: a validated contract accepts a result exactly if every declared condition holds: the fields are
  present and not empty, there are enough sources and verified claims, the confidence reaches the
  minimum, the foundation's decision is there and the delivery is signed, each as far as it is declared;
  a contract never accepts for want of a condition, and every check is counted once.
\<close>

theorem acceptance_decides:
  assumes "validate_contract declared = Inr c"
  shows "(ea_decision (evaluate_acceptance confidence to_int c result status) = ''accepted_by_explicit_criteria'') =
      (list_all (field_present result) (sort (remdups (map py_strip (cr_fields declared)))) \<and>
       (cr_min_sources declared = 0 \<or> cr_min_sources declared \<le> source_count result) \<and>
       (case cr_min_confidence declared of None \<Rightarrow> True | Some m \<Rightarrow> fst (confidence (dget result ''confidence'') m)) \<and>
       (cr_min_claims declared = 0 \<or> cr_min_claims declared \<le> claim_count to_int result) \<and>
       (\<not> cr_decision declared \<or> decision_ready result) \<and> (\<not> cr_signed declared \<or> status = ''verified'')) \<and>
    (cr_fields declared \<noteq> [] \<or> cr_min_sources declared \<noteq> 0 \<or> cr_min_confidence declared \<noteq> None \<or>
     cr_min_claims declared \<noteq> 0 \<or> cr_decision declared \<or> cr_signed declared) \<and>
    ea_passed (evaluate_acceptance confidence to_int c result status) +
    ea_failed (evaluate_acceptance confidence to_int c result status) =
      int (length (acceptance_checks confidence to_int c result status))"
proof -
  have c: "c = declared \<lparr> cr_fields := sort (remdups (map py_strip (cr_fields declared))) \<rparr>"
    using assms by (auto simp: validate_contract_def Let_def split: if_splits)
  have "cr_fields declared \<noteq> [] \<or> cr_min_sources declared \<noteq> 0 \<or> cr_min_confidence declared \<noteq> None \<or>
     cr_min_claims declared \<noteq> 0 \<or> cr_decision declared \<or> cr_signed declared"
    using assms by (auto simp: validate_contract_def Let_def split: if_splits)
  moreover have "list_all ck_passed (acceptance_checks confidence to_int c result status) =
      (list_all (field_present result) (sort (remdups (map py_strip (cr_fields declared)))) \<and>
       (cr_min_sources declared = 0 \<or> cr_min_sources declared \<le> source_count result) \<and>
       (case cr_min_confidence declared of None \<Rightarrow> True | Some m \<Rightarrow> fst (confidence (dget result ''confidence'') m)) \<and>
       (cr_min_claims declared = 0 \<or> cr_min_claims declared \<le> claim_count to_int result) \<and>
       (\<not> cr_decision declared \<or> decision_ready result) \<and> (\<not> cr_signed declared \<or> status = ''verified''))"
    unfolding c acceptance_checks_def
    by (simp add: list.pred_map o_def case_prod_beta del: list.pred_set split: option.split)
  ultimately show ?thesis by (simp only: decision_iff counts some_check [OF assms] simp_thms)
qed

theorem acceptance_decides_witness:
  "ea_decision (evaluate_acceptance (\<lambda>_ _. (True, PNone)) (\<lambda>_. None)
     \<lparr> cr_fields = [''summary''], cr_min_sources = 0, cr_min_confidence = None, cr_min_claims = 0, cr_decision = False,
       cr_signed = True \<rparr> [(''summary'', PStr ''done'')] ''verified'') = ''accepted_by_explicit_criteria''"
proof -
  let ?c = "\<lparr> cr_fields = [''summary''], cr_min_sources = 0, cr_min_confidence = None, cr_min_claims = 0, cr_decision = False,
       cr_signed = True \<rparr>"
  have "validate_contract ?c = Inr ?c"
    by (simp add: validate_contract_def public_result_fields_def py_strip_def py_lstrip_def py_space_def)
  from acceptance_decides [OF this, of "\<lambda>_ _. (True, PNone)" "\<lambda>_. None" "[(''summary'', PStr ''done'')]" "''verified''"]
  show ?thesis by (simp add: field_present_def py_strip_def py_lstrip_def py_space_def)
qed

end
