(* ===== verification/SettlementSimulation.thy ===== *)
theory SettlementSimulation
  imports Json
begin

text \<open>
  The unsigned settlement transaction and its simulation (\<open>iat/settlement_transaction.py\<close>,
  \<open>iat/settlement_simulation.py\<close>). The Solana library and node are the fields of \<open>solana\<close>: reading a
  key, the associated token account of an owner, the node's answers to RPC calls (\<open>Inl\<close> the code of a
  \<open>SettlementSimulationError\<close> of \<open>rpc_call\<close>), whether a block hash parses, the bytes and the number of
  signatures of a compiled transaction, base64, SHA-256 and \<open>int(v)\<close>.
\<close>

section \<open>Instructions\<close>

datatype instruction =
    CreateTokenAccount string string string
  | TransferChecked string string string string int int
  | Memo string

record solana =
  so_pubkey :: "string \<Rightarrow> string option"
  so_token_account :: "string \<Rightarrow> string \<Rightarrow> string"
  so_rpc :: "string \<Rightarrow> pyval list \<Rightarrow> string + pyval"
  so_blockhash :: "string \<Rightarrow> bool"
  so_compile :: "instruction list \<Rightarrow> string \<Rightarrow> string \<Rightarrow> string \<times> int"
  so_base64 :: "string \<Rightarrow> string"
  so_sha :: "string \<Rightarrow> string"
  so_int :: "pyval \<Rightarrow> int option"

definition iat_decimals :: int where
  "iat_decimals = 8"

definition token_program :: string where
  "token_program = ''TokenkegQfeZyiNwAJbNbGKPFXCWuBvf9Ss623VQ5DA''"

definition devnet_genesis :: string where
  "devnet_genesis = ''EtWTRABZaYq6iMfeYKouRu166VU2xqa1''"

definition transfer_to :: "solana \<Rightarrow> string \<Rightarrow> string \<Rightarrow> string \<Rightarrow> int \<Rightarrow> instruction list" where
  "transfer_to so escrow mint owner amount =
     (if amount \<le> 0 then []
      else [TransferChecked (so_token_account so escrow mint) mint (so_token_account so owner mint) escrow amount iat_decimals])"

definition build_atomic_settlement_instructions ::
  "solana \<Rightarrow> string \<Rightarrow> string \<Rightarrow> string \<Rightarrow> string \<Rightarrow> int \<Rightarrow> int \<Rightarrow> bool \<Rightarrow> bool \<Rightarrow> string \<Rightarrow> py_error + instruction list" where
  "build_atomic_settlement_instructions so escrow mint treasury winner commission payout create_treasury create_winner memo =
     (if min commission payout < 0 then Inl (ValueError ''settlement_amount_negative'')
      else if commission + payout \<le> 0 then Inl (ValueError ''settlement_total_amount_must_be_positive'')
      else Inr
        ((if create_treasury then [CreateTokenAccount escrow treasury mint] else []) @
         (if create_winner then [CreateTokenAccount escrow winner mint] else []) @
         transfer_to so escrow mint treasury commission @ transfer_to so escrow mint winner payout @
         (if memo = [] then [] else [Memo memo])))"

section \<open>Settings\<close>

definition contains_text :: "string \<Rightarrow> string \<Rightarrow> bool" where
  "contains_text part s = list_ex (\<lambda>k. take (length part) (drop k s) = part) [0..<Suc (length s)]"

definition allowed_clusters :: "string list" where
  "allowed_clusters = [''solana-devnet'', ''solana-localnet'']"

record simulation_settings =
  ss_cluster :: string
  ss_rpc_url :: string
  ss_escrow :: string
  ss_mint :: string

definition default_mint :: "env \<Rightarrow> string" where
  "default_mint getenv =
     (let fallback = ''3vRGo1VpGbZH67Ur2UG7VNUqSqQyApLQEcCxgnqK4f4Z'';
          v = py_strip (case getenv ''IAT_TOKEN_ADDRESS'' of None \<Rightarrow> fallback | Some x \<Rightarrow> x)
      in if v = [] then fallback else v)"

definition configured_simulation_context :: "env \<Rightarrow> string + simulation_settings" where
  "configured_simulation_context getenv =
     (let cluster = py_strip (case getenv ''IAT_SETTLEMENT_SIMULATION_CLUSTER'' of None \<Rightarrow> ''solana-devnet'' | Some x \<Rightarrow> x);
          given = (\<lambda>k. case getenv k of None \<Rightarrow> [] | Some x \<Rightarrow> x)
      in if cluster \<notin> set allowed_clusters then Inl ''settlement_simulation_cluster_not_allowed''
         else
           let url = py_strip
                 (if given ''IAT_SETTLEMENT_SIMULATION_RPC_URL'' \<noteq> [] then given ''IAT_SETTLEMENT_SIMULATION_RPC_URL''
                  else if given ''IAT_SOLANA_RPC_URL'' \<noteq> [] then given ''IAT_SOLANA_RPC_URL''
                  else if cluster = ''solana-localnet'' then ''http://127.0.0.1:8899'' else ''https://api.devnet.solana.com'')
           in if url = [] then Inl ''settlement_simulation_rpc_not_configured''
              else if contains_text ''mainnet'' (py_lower url) then Inl ''mainnet_settlement_simulation_not_allowed''
              else Inr \<lparr> ss_cluster = cluster, ss_rpc_url = url, ss_escrow = py_strip (given ''IAT_ESCROW_WALLET''),
                         ss_mint = py_strip (case getenv ''IAT_TOKEN_ADDRESS'' of None \<Rightarrow> default_mint getenv | Some x \<Rightarrow> x) \<rparr>)"

section \<open>Accounts\<close>

definition parsed_account :: "solana \<Rightarrow> string \<Rightarrow> string + pydict option" where
  "parsed_account so address =
     sum_bind (so_rpc so ''getAccountInfo''
       [PStr address, PDict [(''encoding'', PStr ''jsonParsed''), (''commitment'', PStr ''confirmed'')]])
       (\<lambda>result. if \<not> is_dict result then Inl ''solana_account_response_invalid''
          else (case dget (as_dict result) ''value'' of
                  PNone \<Rightarrow> Inr None
                | PDict d \<Rightarrow> Inr (Some d)
                | _ \<Rightarrow> Inl ''solana_account_response_invalid''))"

definition parsed_info :: "pydict \<Rightarrow> string \<Rightarrow> string + pydict" where
  "parsed_info account f =
     (if dget account ''owner'' \<noteq> PStr token_program then Inl (f @ ''_owner_invalid'')
      else (case dget (as_dict (dget (as_dict (dget account ''data'')) ''parsed'')) ''info'' of
              PDict d \<Rightarrow> Inr d
            | _ \<Rightarrow> Inl (f @ ''_data_invalid'')))"

text \<open>Whether an owner's token account has to be created; an existing one must belong to the owner.\<close>

definition account_missing :: "solana \<Rightarrow> string \<Rightarrow> string \<Rightarrow> string \<Rightarrow> string + bool" where
  "account_missing so mint owner f =
     sum_bind (parsed_account so (so_token_account so owner mint))
       (\<lambda>account. case account of
          None \<Rightarrow> Inr True
        | Some a \<Rightarrow> sum_bind (parsed_info a f)
            (\<lambda>info. if dget info ''mint'' \<noteq> PStr mint \<or> dget info ''owner'' \<noteq> PStr owner then Inl (f @ ''_binding_invalid'')
                    else Inr False))"

section \<open>Simulation\<close>

record simulation_facts =
  sf_authorization_id :: string
  sf_cluster :: string
  sf_genesis_hash :: string
  sf_mint :: string
  sf_escrow :: string
  sf_source_account :: string
  sf_treasury_account :: string
  sf_winner_account :: string
  sf_gross :: int
  sf_commission :: int
  sf_payout :: int
  sf_instruction_count :: int
  sf_signature_count :: int
  sf_transaction_sha :: string
  sf_logs_sha :: string
  sf_units :: pyval
  sf_slot :: pyval

text \<open>
  An exception of \<open>int()\<close> on the mint's decimals is not a \<open>SettlementSimulationError\<close>: the outer \<open>Inl\<close> of
  \<open>simulate_authorized_settlement\<close>. The inner one is the code of a \<open>SettlementSimulationError\<close>. The
  exceptions of \<open>build_atomic_settlement_instructions\<close> cannot occur: the amounts are checked before.
\<close>

definition check_genesis :: "solana \<Rightarrow> simulation_settings \<Rightarrow> string + string" where
  "check_genesis so st =
     sum_bind (so_rpc so ''getGenesisHash'' [])
       (\<lambda>v. let h = py_str v in
            if (ss_cluster st = ''solana-devnet'' \<and> h \<noteq> devnet_genesis) \<or> h = []
            then Inl ''settlement_simulation_cluster_identity_invalid'' else Inr h)"

definition read_key :: "solana \<Rightarrow> string \<Rightarrow> string \<Rightarrow> string + string" where
  "read_key so v f = (case so_pubkey so (py_strip v) of None \<Rightarrow> Inl (''invalid_'' @ f) | Some k \<Rightarrow> Inr k)"

definition check_escrow_balance :: "solana \<Rightarrow> string \<Rightarrow> string \<Rightarrow> int \<Rightarrow> string + unit" where
  "check_escrow_balance so escrow mint gross =
     sum_bind (parsed_account so (so_token_account so escrow mint))
       (\<lambda>account. case account of
          None \<Rightarrow> Inl ''escrow_token_account_missing''
        | Some a \<Rightarrow> sum_bind (parsed_info a ''escrow_token_account'')
            (\<lambda>info. if dget info ''mint'' \<noteq> PStr mint \<or> dget info ''owner'' \<noteq> PStr escrow
                    then Inl ''escrow_token_account_binding_invalid''
                    else (case so_int so (dget (as_dict (dget info ''tokenAmount'')) ''amount'') of
                            None \<Rightarrow> Inl ''escrow_token_balance_invalid''
                          | Some b \<Rightarrow> if b < gross then Inl ''escrow_token_balance_insufficient'' else Inr ())))"

definition simulate_transaction ::
  "solana \<Rightarrow> instruction list \<Rightarrow> string \<Rightarrow> string + string \<times> int \<times> pydict \<times> pydict" where
  "simulate_transaction so instructions escrow =
     sum_bind (so_rpc so ''getLatestBlockhash'' [PDict [(''commitment'', PStr ''confirmed'')]])
       (\<lambda>latest. let h = py_str (dget (as_dict (dget (as_dict latest) ''value'')) ''blockhash'') in
          if \<not> so_blockhash so h then Inl ''solana_blockhash_invalid''
          else (case so_compile so instructions escrow h of
                  (raw, signatures) \<Rightarrow>
                    sum_bind (so_rpc so ''simulateTransaction''
                      [PStr (so_base64 so raw), PDict [(''encoding'', PStr ''base64''), (''commitment'', PStr ''confirmed''),
                         (''sigVerify'', PBool False), (''replaceRecentBlockhash'', PBool False)]])
                      (\<lambda>simulated. case simulated of
                         PDict d \<Rightarrow>
                           (case dget d ''value'' of
                              PDict v \<Rightarrow> if dget v ''err'' \<noteq> PNone then Inl ''settlement_simulation_failed''
                                         else Inr (so_sha so raw, signatures, v, as_dict (dget d ''context''))
                            | _ \<Rightarrow> Inl ''settlement_simulation_response_invalid'')
                       | _ \<Rightarrow> Inl ''settlement_simulation_response_invalid'')))"

definition lift_code :: "string + 'a \<Rightarrow> (py_error + string) + 'a" where
  "lift_code m = (case m of Inl code \<Rightarrow> Inl (Inr code) | Inr x \<Rightarrow> Inr x)"

definition lift_error :: "py_error + 'a \<Rightarrow> (py_error + string) + 'a" where
  "lift_error m = (case m of Inl e \<Rightarrow> Inl (Inl e) | Inr x \<Rightarrow> Inr x)"

definition settlement_memo :: "string \<Rightarrow> string \<Rightarrow> string" where
  "settlement_memo settlement_id order_id = ''IAT_SETTLEMENT:'' @ settlement_id @ '':'' @ order_id"

definition check_mint :: "solana \<Rightarrow> string \<Rightarrow> (py_error + string) + unit" where
  "check_mint so mint =
     sum_bind (lift_code (parsed_account so mint))
       (\<lambda>account. case account of
          None \<Rightarrow> Inl (Inr ''iat_mint_account_missing'')
        | Some a \<Rightarrow> sum_bind (lift_code (parsed_info a ''iat_mint''))
            (\<lambda>info. case so_int so (dget_or info ''decimals'' (PInt (- 1))) of
                      None \<Rightarrow> Inl (Inl TypeError)
                    | Some n \<Rightarrow> if n \<noteq> iat_decimals then Inl (Inr ''iat_mint_decimals_invalid'') else Inr ()))"

definition simulate_authorized_settlement ::
  "solana \<Rightarrow> env \<Rightarrow> string \<Rightarrow> string \<Rightarrow> string \<Rightarrow> string \<Rightarrow> string \<Rightarrow> int \<Rightarrow> int \<Rightarrow> int \<Rightarrow> (py_error + string) + simulation_facts" where
  "simulate_authorized_settlement so getenv authorization_id settlement_id order_id winner_wallet treasury_wallet gross commission payout =
     sum_bind (lift_code (configured_simulation_context getenv)) (\<lambda>st.
     sum_bind (lift_code (check_genesis so st)) (\<lambda>genesis.
     sum_bind (lift_code (read_key so (ss_escrow st) ''escrow_authority'')) (\<lambda>escrow.
     sum_bind (lift_code (read_key so (ss_mint st) ''iat_mint'')) (\<lambda>mint.
     sum_bind (lift_code (read_key so winner_wallet ''winner_wallet'')) (\<lambda>winner.
     sum_bind (lift_code (read_key so treasury_wallet ''treasury_wallet'')) (\<lambda>treasury.
       if gross < 0 \<or> commission < 0 \<or> payout < 0 then Inl (Inr ''settlement_amount_invalid'')
       else if gross \<le> 0 then Inl (Inr ''settlement_gross_must_be_positive'')
       else if commission + payout \<noteq> gross then Inl (Inr ''settlement_amount_conservation_failed'')
       else
         sum_bind (check_mint so mint) (\<lambda>_.
         sum_bind (lift_code (check_escrow_balance so escrow mint gross)) (\<lambda>_.
         sum_bind (lift_code (account_missing so mint treasury ''treasury_token_account'')) (\<lambda>new_treasury.
         sum_bind (lift_code (account_missing so mint winner ''winner_token_account'')) (\<lambda>new_winner.
         sum_bind (lift_error (build_atomic_settlement_instructions so escrow mint treasury winner commission payout
                     new_treasury new_winner (settlement_memo settlement_id order_id))) (\<lambda>instructions.
         sum_bind (lift_code (simulate_transaction so instructions escrow)) (\<lambda>(transaction_sha, signatures, value, context).
                Inr \<lparr> sf_authorization_id = authorization_id, sf_cluster = ss_cluster st, sf_genesis_hash = genesis,
                      sf_mint = mint, sf_escrow = escrow, sf_source_account = so_token_account so escrow mint,
                      sf_treasury_account = so_token_account so treasury mint,
                      sf_winner_account = so_token_account so winner mint, sf_gross = gross, sf_commission = commission,
                      sf_payout = payout, sf_instruction_count = int (length instructions),
                      sf_signature_count = signatures, sf_transaction_sha = transaction_sha,
                      sf_logs_sha = so_sha so (json_dumps True (py_or (dget value ''logs'') (PList []))),
                      sf_units = dget value ''unitsConsumed'', sf_slot = dget context ''slot'' \<rparr>))))))))))))"

end
