(* ===== verification/ProtocolEvidence.thy ===== *)
theory ProtocolEvidence
  imports CheckoutReceipt BuyerIdentity Acceptance SettlementSimulation
begin

text \<open>
  The evidence registry (\<open>iat/api/protocol_evidence.py\<close>): signed buyer evidence, the validation of its
  delivery and of its quality, the eligibility of the settlement, its execution plan, the foundation's
  authorisation, the simulation and the execution permit, each recorded once for its predecessor. A
  handler reads its own tables in \<open>snap\<close> and inserts into \<open>db\<close>; every read of another component has its
  own database, since each opens its own connection. The answers are the rows: the public views only add
  constants. The foundation's evaluation (\<open>authorize_settlement_release\<close> after its receipt gate) is the
  parameter \<open>foundation\<close>, \<open>None\<close> if it raises.
\<close>

section \<open>Tables\<close>

record evidence =
  ev_receipt_id :: string
  ev_type :: string
  ev_evidence_id :: string
  ev_sha256 :: string
  ev_observed_at :: int
  ev_wallet :: string
  ev_signature :: string
  ev_receipt_sha256 :: string
  ev_received_at :: int

record delivery_validation =
  dv_validation_id :: string
  dv_receipt_id :: string
  dv_evidence_id :: string
  dv_wallet :: string
  dv_order_id :: string
  dv_quote_id :: string
  dv_tx_signature :: string
  dv_payload_digest :: string
  dv_signature_status :: string
  dv_decision :: string
  dv_reason :: string
  dv_sha256 :: string
  dv_evaluated_at :: int

record quality_validation =
  qv_validation_id :: string
  qv_delivery_validation_id :: string
  qv_receipt_id :: string
  qv_evidence_id :: string
  qv_decision :: string
  qv_criteria_sha256 :: string
  qv_payload_digest :: string
  qv_checks :: pyval
  qv_passed :: int
  qv_failed :: int
  qv_sha256 :: string
  qv_evaluated_at :: int

record eligibility =
  el_eligibility_id :: string
  el_quality_validation_id :: string
  el_delivery_validation_id :: string
  el_receipt_id :: string
  el_evidence_id :: string
  el_order_id :: string
  el_quote_id :: string
  el_settlement_id :: "string option"
  el_decision :: string
  el_reason :: string
  el_policy_version :: string
  el_sha256 :: string
  el_evaluated_at :: int

record execution_plan =
  pl_plan_id :: string
  pl_eligibility_id :: string
  pl_quality_validation_id :: string
  pl_order_id :: string
  pl_settlement_id :: string
  pl_winner_wallet :: "string option"
  pl_treasury_wallet :: "string option"
  pl_gross_minor :: "int option"
  pl_commission_minor :: "int option"
  pl_payout_minor :: "int option"
  pl_decision :: string
  pl_blockers :: "string list"
  pl_receipt_gate :: pydict
  pl_policy_version :: string
  pl_sha256 :: string
  pl_evaluated_at :: int

record release_authorization =
  au_authorization_id :: string
  au_plan_id :: string
  au_eligibility_id :: string
  au_order_id :: string
  au_settlement_id :: string
  au_authorized_by :: string
  au_mode :: pyval
  au_reason :: pyval
  au_confidence :: pyval
  au_risk_score :: pyval
  au_receipt_gate :: pydict
  au_policy_version :: string
  au_sha256 :: string
  au_authorized_at :: int

record settlement_simulation =
  sm_simulation_id :: string
  sm_plan_id :: string
  sm_settlement_id :: string
  sm_order_id :: string
  sm_facts :: simulation_facts
  sm_policy_version :: string
  sm_sha256 :: string
  sm_simulated_at :: int

record evidence_db =
  evidences :: "evidence list"
  delivery_validations :: "delivery_validation list"
  quality_validations :: "quality_validation list"
  eligibilities :: "eligibility list"
  plans :: "execution_plan list"
  authorizations :: "release_authorization list"
  simulations :: "settlement_simulation list"

definition evidence_clash :: "evidence \<Rightarrow> evidence \<Rightarrow> bool" where
  "evidence_clash r x =
     (ev_receipt_id x = ev_receipt_id r \<or>
      (ev_wallet x = ev_wallet r \<and> ev_type x = ev_type r \<and> ev_evidence_id x = ev_evidence_id r))"

definition validation_clash :: "delivery_validation \<Rightarrow> delivery_validation \<Rightarrow> bool" where
  "validation_clash r x = (dv_validation_id x = dv_validation_id r \<or> dv_receipt_id x = dv_receipt_id r)"

definition quality_clash :: "quality_validation \<Rightarrow> quality_validation \<Rightarrow> bool" where
  "quality_clash r x =
     (qv_validation_id x = qv_validation_id r \<or> qv_delivery_validation_id x = qv_delivery_validation_id r)"

definition eligibility_clash :: "eligibility \<Rightarrow> eligibility \<Rightarrow> bool" where
  "eligibility_clash r x =
     (el_eligibility_id x = el_eligibility_id r \<or> el_quality_validation_id x = el_quality_validation_id r)"

definition plan_clash :: "execution_plan \<Rightarrow> execution_plan \<Rightarrow> bool" where
  "plan_clash r x = (pl_plan_id x = pl_plan_id r \<or> pl_eligibility_id x = pl_eligibility_id r)"

definition authorization_clash :: "release_authorization \<Rightarrow> release_authorization \<Rightarrow> bool" where
  "authorization_clash r x = (au_authorization_id x = au_authorization_id r \<or> au_plan_id x = au_plan_id r)"

definition simulation_clash :: "settlement_simulation \<Rightarrow> settlement_simulation \<Rightarrow> bool" where
  "simulation_clash r x =
     (sm_simulation_id x = sm_simulation_id r \<or> sf_authorization_id (sm_facts x) = sf_authorization_id (sm_facts r))"

definition permit_clash :: "permit \<Rightarrow> permit \<Rightarrow> bool" where
  "permit_clash r x = (pm_permit_id x = pm_permit_id r \<or> pm_simulation_id x = pm_simulation_id r)"

section \<open>Evidence\<close>

record evidence_request =
  rq_type :: string
  rq_evidence_id :: string
  rq_sha256 :: string
  rq_observed_at :: int
  rq_wallet :: string
  rq_signature :: string

definition valid_request :: "evidence_request \<Rightarrow> bool" where
  "valid_request q =
     (rq_type q = ''buyer_job_journal'' \<and> 1 \<le> length (rq_evidence_id q) \<and> length (rq_evidence_id q) \<le> 128 \<and>
      hex64 (rq_sha256 q) \<and> 0 < rq_observed_at q \<and> 32 \<le> length (rq_wallet q) \<and> length (rq_wallet q) \<le> 64 \<and>
      64 \<le> length (rq_signature q) \<and> length (rq_signature q) \<le> 128)"

definition evidence_id_char :: "char \<Rightarrow> bool" where
  "evidence_id_char c =
     (let n = (of_char c :: nat) in
      (48 \<le> n \<and> n \<le> 57) \<or> (65 \<le> n \<and> n \<le> 90) \<or> (97 \<le> n \<and> n \<le> 122) \<or> n \<in> {95, 46, 58, 45})"

definition evidence_message :: "string \<Rightarrow> string \<Rightarrow> string \<Rightarrow> string \<Rightarrow> int \<Rightarrow> string" where
  "evidence_message wallet kind evidence_id sha256 observed_at =
     py_join [CHR 0x0A] [''IAT_AGENT_EVIDENCE_ATTESTATION_V1'', wallet, kind, evidence_id, sha256, string_of_int observed_at]"

text \<open>\<open>build_evidence_message\<close>; its exceptions are all \<open>ValueError\<close>s.\<close>

definition build_evidence_message :: "string \<Rightarrow> string \<Rightarrow> string \<Rightarrow> string \<Rightarrow> int \<Rightarrow> string option" where
  "build_evidence_message wallet kind evidence_id sha256 observed_at =
     (let digest = py_lower sha256 in
      if kind \<noteq> ''buyer_job_journal'' \<or>
         \<not> (3 \<le> length evidence_id \<and> length evidence_id \<le> 160 \<and> list_all evidence_id_char evidence_id) \<or>
         \<not> hex64 digest \<or> observed_at < 1 \<or> \<not> list_all (\<lambda>c. (of_char c :: nat) < 128) wallet
      then None
      else Some (evidence_message wallet kind evidence_id digest observed_at))"

record evidence_world =
  ew_sha :: "string \<Rightarrow> string"
  ew_pubkey :: "string \<Rightarrow> string option"
  ew_signature :: "string \<Rightarrow> bool"
  ew_verify :: "string \<Rightarrow> string \<Rightarrow> string \<Rightarrow> bool"

definition find_evidence :: "string \<Rightarrow> string \<Rightarrow> evidence_db \<Rightarrow> evidence option" where
  "find_evidence evidence_id wallet db = find (\<lambda>e. ev_evidence_id e = evidence_id \<and> ev_wallet e = wallet) (evidences db)"

definition canonical_receipt :: "evidence_request \<Rightarrow> int \<Rightarrow> pydict" where
  "canonical_receipt q received_at =
     [(''evidence_id'', PStr (rq_evidence_id q)), (''evidence_sha256'', PStr (rq_sha256 q)), (''evidence_type'', PStr (rq_type q)),
      (''observed_at'', PInt (rq_observed_at q)), (''received_at'', PInt received_at), (''signature'', PStr (rq_signature q)),
      (''wallet_address'', PStr (rq_wallet q))]"

definition new_evidence :: "evidence_world \<Rightarrow> evidence_request \<Rightarrow> int \<Rightarrow> evidence" where
  "new_evidence w q now =
     (let digest = ew_sha w (json_dumps True (PDict (canonical_receipt q now))) in
      \<lparr> ev_receipt_id = ''per_'' @ take 24 digest, ev_type = rq_type q, ev_evidence_id = rq_evidence_id q,
        ev_sha256 = rq_sha256 q, ev_observed_at = rq_observed_at q, ev_wallet = rq_wallet q, ev_signature = rq_signature q,
        ev_receipt_sha256 = digest, ev_received_at = now \<rparr>)"

definition publish_protocol_evidence ::
  "evidence_world \<Rightarrow> evidence_request \<Rightarrow> int \<Rightarrow> evidence_db \<Rightarrow> evidence_db \<Rightarrow> (http_error + evidence) \<times> evidence_db" where
  "publish_protocol_evidence w q now snap db =
     (if \<not> valid_request q then (refuse 422 ''request_invalid'', db)
      else if rq_observed_at q < now - 86400 then (refuse 422 ''protocol_evidence_expired'', db)
      else if rq_observed_at q > now + 60 then (refuse 422 ''protocol_evidence_from_future'', db)
      else (case build_evidence_message (rq_wallet q) (rq_type q) (rq_evidence_id q) (rq_sha256 q) (rq_observed_at q) of
              None \<Rightarrow> (refuse 422 ''protocol_evidence_invalid'', db)
            | Some message \<Rightarrow>
                if ew_pubkey w (rq_wallet q) = None \<or> \<not> ew_signature w (rq_signature q)
                then (refuse 422 ''protocol_evidence_invalid'', db)
                else if \<not> ew_verify w (rq_wallet q) (rq_signature q) message
                then (refuse 403 ''protocol_evidence_signature_invalid'', db)
                else (case find_evidence (rq_evidence_id q) (rq_wallet q) snap of
                        Some e \<Rightarrow>
                          if ev_type e \<noteq> rq_type q \<or> ev_sha256 e \<noteq> rq_sha256 q \<or> ev_observed_at e \<noteq> rq_observed_at q \<or>
                             ev_signature e \<noteq> rq_signature q
                          then (refuse 409 ''protocol_evidence_conflict'', db) else (Inr e, db)
                      | None \<Rightarrow>
                          let e = new_evidence w q now in
                          (case sql_insert evidence_clash e (evidences db) of
                             None \<Rightarrow> (Inl Violation, db)
                           | Some t \<Rightarrow> (Inr e, db \<lparr> evidences := t \<rparr>)))))"

section \<open>Delivery and quality\<close>

definition find_validation :: "string \<Rightarrow> evidence_db \<Rightarrow> delivery_validation option" where
  "find_validation receipt_id db = row_by dv_receipt_id receipt_id (delivery_validations db)"

definition lookup_journey :: "evidence \<Rightarrow> identity_db \<Rightarrow> checkout_db \<Rightarrow> intent_decision option \<times> quote_row option" where
  "lookup_journey e idb cdb =
     (case find (\<lambda>i. bi_decision_id i = ev_evidence_id e \<and> bi_wallet i = ev_wallet e) (intents idb) of
        None \<Rightarrow> (None, None)
      | Some i \<Rightarrow>
          (case bi_order_id i of
             Some (c # cs) \<Rightarrow>
               (Some i, (case sql_order_limit (\<lambda>q. - qt_created_at q) 1
                                (filter (\<lambda>q. qt_order_id q = c # cs \<and> qt_buyer_wallet q = ev_wallet e) (quotes cdb)) of
                           [] \<Rightarrow> None | q # _ \<Rightarrow> Some q))
           | _ \<Rightarrow> (Some i, None)))"

definition sealed_text :: "receipt \<Rightarrow> string" where
  "sealed_text r = (case rt_sealed_payload r of None \<Rightarrow> [] | Some v \<Rightarrow> json_dumps False v)"

definition text_of :: "string option \<Rightarrow> string" where
  "text_of v = (case v of None \<Rightarrow> [] | Some s \<Rightarrow> s)"

definition validate_inbox_signature :: "evidence_world \<Rightarrow> receipt \<Rightarrow> string" where
  "validate_inbox_signature w r =
     (let signature = text_of (rt_inbox_signature r); signer = text_of (rt_inbox_signer r) in
      if signature = [] \<and> signer = [] then ''not_configured''
      else if signature = [] \<or> signer = [] then ''invalid''
      else if ew_verify w signer signature (sealed_text r) then ''verified'' else ''invalid'')"

definition digest_valid :: "evidence_world \<Rightarrow> receipt \<Rightarrow> bool" where
  "digest_valid w r =
     (sealed_text r \<noteq> [] \<and> length (text_of (rt_payload_digest r)) = 64 \<and> ew_sha w (sealed_text r) = text_of (rt_payload_digest r))"

definition validation_dict :: "evidence \<Rightarrow> string \<Rightarrow> string \<Rightarrow> string \<Rightarrow> string \<Rightarrow> string \<Rightarrow> string \<Rightarrow> string \<Rightarrow> int \<Rightarrow> pydict" where
  "validation_dict e order_id quote_id tx_signature digest status decision reason now =
     [(''decision'', PStr decision), (''evidence_id'', PStr (ev_evidence_id e)),
      (''evidence_receipt_id'', PStr (ev_receipt_id e)), (''evaluated_at'', PInt now),
      (''inbox_signature_status'', PStr status), (''order_id'', PStr order_id), (''payload_digest'', PStr digest),
      (''quote_id'', PStr quote_id), (''reason'', PStr reason), (''tx_signature'', PStr tx_signature),
      (''wallet_address'', PStr (ev_wallet e))]"

definition new_validation ::
  "evidence_world \<Rightarrow> evidence \<Rightarrow> string \<Rightarrow> string \<Rightarrow> string \<Rightarrow> receipt \<Rightarrow> string \<Rightarrow> string \<Rightarrow> int \<Rightarrow> delivery_validation" where
  "new_validation w e order_id quote_id tx_signature r decision reason now =
     (let digest = text_of (rt_payload_digest r); status = validate_inbox_signature w r;
          h = ew_sha w (json_dumps True (PDict
                (validation_dict e order_id quote_id tx_signature digest status decision reason now)))
      in \<lparr> dv_validation_id = ''pdv_'' @ take 24 h, dv_receipt_id = ev_receipt_id e, dv_evidence_id = ev_evidence_id e,
           dv_wallet = ev_wallet e, dv_order_id = order_id, dv_quote_id = quote_id, dv_tx_signature = tx_signature,
           dv_payload_digest = digest, dv_signature_status = status, dv_decision = decision, dv_reason = reason,
           dv_sha256 = h, dv_evaluated_at = now \<rparr>)"

definition record_validation :: "delivery_validation \<Rightarrow> evidence_db \<Rightarrow> (http_error + delivery_validation) \<times> evidence_db" where
  "record_validation v db =
     (case sql_insert validation_clash v (delivery_validations db) of
        None \<Rightarrow> (Inl Violation, db)
      | Some t \<Rightarrow> (Inr v, db \<lparr> delivery_validations := t \<rparr>))"

text \<open>The delivery and the receipt are read from \<open>ddb\<close> and \<open>rdb\<close>, the quote from \<open>qdb\<close>.\<close>

definition validate_delivery_binding ::
  "evidence_world \<Rightarrow> string \<Rightarrow> int \<Rightarrow> identity_db \<Rightarrow> checkout_db \<Rightarrow> checkout_db \<Rightarrow> checkout_db \<Rightarrow> evidence_db \<Rightarrow> evidence_db \<Rightarrow>
   (http_error + delivery_validation) \<times> evidence_db" where
  "validate_delivery_binding w receipt_id now idb qdb ddb rdb snap db =
     (case find_validation receipt_id snap of
        Some v \<Rightarrow> (Inr v, db)
      | None \<Rightarrow>
          (case row_by ev_receipt_id receipt_id (evidences snap) of
             None \<Rightarrow> (refuse 404 ''protocol_evidence_not_found'', db)
           | Some e \<Rightarrow>
               (case lookup_journey e idb qdb of
                  (None, _) \<Rightarrow> (refuse 409 ''delivery_validation_intent_unavailable'', db)
                | (Some i, None) \<Rightarrow> (refuse 409 ''delivery_validation_checkout_pending'', db)
                | (Some i, Some q) \<Rightarrow>
                    let order_id = text_of (bi_order_id i); tx_signature = text_of (qt_tx_signature q) in
                    if qt_state q \<noteq> ''confirmed'' \<or> tx_signature = []
                    then (refuse 409 ''delivery_validation_checkout_pending'', db)
                    else (case (find_delivery (qt_quote_id q) ddb, get_delivery_receipt (qt_quote_id q) rdb) of
                            (None, _) \<Rightarrow> (refuse 409 ''delivery_validation_execution_pending'', db)
                          | (Some d, receipt) \<Rightarrow>
                              if dl_state d \<noteq> ''completed'' then (refuse 409 ''delivery_validation_execution_pending'', db)
                              else (case receipt of
                                      None \<Rightarrow> (refuse 409 ''delivery_validation_receipt_pending'', db)
                                    | Some r \<Rightarrow>
                                        if rt_state r \<notin> {''delivered'', ''accepted''}
                                        then (refuse 409 ''delivery_validation_receipt_pending'', db)
                                        else if \<not> digest_valid w r
                                        then record_validation (new_validation w e order_id (qt_quote_id q) tx_signature r
                                               ''rejected_delivery_binding'' ''delivery_payload_digest_invalid'' now) db
                                        else if validate_inbox_signature w r = ''invalid''
                                        then record_validation (new_validation w e order_id (qt_quote_id q) tx_signature r
                                               ''rejected_delivery_binding'' ''delivery_payload_signature_invalid'' now) db
                                        else if rt_inbox_opened_at r = None
                                        then (refuse 409 ''delivery_validation_inbox_not_opened'', db)
                                        else record_validation (new_validation w e order_id (qt_quote_id q) tx_signature r
                                               ''verified_delivery_binding''
                                               ''protocol_checkout_execution_delivery_and_opening_bound'' now) db)))))"

definition find_quality_validation :: "string \<Rightarrow> evidence_db \<Rightarrow> quality_validation option" where
  "find_quality_validation validation_id db = row_by qv_delivery_validation_id validation_id (quality_validations db)"

text \<open>
  The criteria of the request: \<open>parse\<close> is pydantic's check of the fields (\<open>None\<close> for its error). A
  request that declares none is told apart from one whose criteria do not validate.
\<close>

definition declared_criteria :: "(pydict \<Rightarrow> criteria option) \<Rightarrow> pydict \<Rightarrow> http_error + criteria" where
  "declared_criteria parse request =
     (case dget request ''acceptance_criteria'' of
        PDict raw \<Rightarrow>
          (case parse raw of
             None \<Rightarrow> refuse 409 ''acceptance_criteria_invalid''
           | Some c \<Rightarrow> (case validate_contract c of
                          Inl _ \<Rightarrow> refuse 409 ''acceptance_criteria_invalid''
                        | Inr c' \<Rightarrow> Inr c'))
      | _ \<Rightarrow> refuse 409 ''acceptance_criteria_not_declared'')"

definition new_quality_validation ::
  "evidence_world \<Rightarrow> delivery_validation \<Rightarrow> criteria \<Rightarrow> evaluation \<Rightarrow> int \<Rightarrow> quality_validation" where
  "new_quality_validation w v c ea now =
     (let criteria_sha256 = ew_sha w (json_dumps True (PDict (criteria_dict c)));
          h = ew_sha w (json_dumps True (PDict
                [(''criteria_sha256'', PStr criteria_sha256), (''decision'', PStr (ea_decision ea)),
                 (''delivery_validation_id'', PStr (dv_validation_id v)), (''evidence_id'', PStr (dv_evidence_id v)),
                 (''evidence_receipt_id'', PStr (dv_receipt_id v)), (''evaluated_at'', PInt now),
                 (''failed_count'', PInt (ea_failed ea)), (''passed_count'', PInt (ea_passed ea)),
                 (''payload_digest'', PStr (dv_payload_digest v))]))
      in \<lparr> qv_validation_id = ''pqv_'' @ take 24 h, qv_delivery_validation_id = dv_validation_id v,
           qv_receipt_id = dv_receipt_id v, qv_evidence_id = dv_evidence_id v, qv_decision = ea_decision ea,
           qv_criteria_sha256 = criteria_sha256, qv_payload_digest = dv_payload_digest v,
           qv_checks = PList (map (\<lambda>k. PDict (check_dict k)) (ea_checks ea)), qv_passed = ea_passed ea,
           qv_failed = ea_failed ea, qv_sha256 = h, qv_evaluated_at = now \<rparr>)"

record acceptance_world =
  aw_parse :: "pydict \<Rightarrow> criteria option"
  aw_confidence :: "pyval \<Rightarrow> string \<Rightarrow> bool \<times> pyval"
  aw_int :: "pyval \<Rightarrow> int option"

definition validate_delivery_quality ::
  "evidence_world \<Rightarrow> acceptance_world \<Rightarrow> string \<Rightarrow> int \<Rightarrow> identity_db \<Rightarrow> checkout_db \<Rightarrow> evidence_db \<Rightarrow> evidence_db \<Rightarrow>
   (http_error + quality_validation) \<times> evidence_db" where
  "validate_delivery_quality w aw validation_id now idb rdb snap db =
     (case find_quality_validation validation_id snap of
        Some q \<Rightarrow> (Inr q, db)
      | None \<Rightarrow>
          (case row_by dv_validation_id validation_id (delivery_validations snap) of
             None \<Rightarrow> (refuse 404 ''delivery_validation_not_found'', db)
           | Some v \<Rightarrow>
               if dv_decision v \<noteq> ''verified_delivery_binding''
               then (refuse 409 ''quality_validation_delivery_rejected'', db)
               else (case row_by bi_decision_id (dv_evidence_id v) (intents idb) of
                       None \<Rightarrow> (refuse 409 ''quality_validation_intent_unavailable'', db)
                     | Some i \<Rightarrow>
                         (case declared_criteria (aw_parse aw) (bi_request i) of
                            Inl e \<Rightarrow> (Inl e, db)
                          | Inr c \<Rightarrow>
                              (case get_delivery_receipt (dv_quote_id v) rdb of
                                 None \<Rightarrow> (refuse 409 ''quality_validation_payload_unavailable'', db)
                               | Some r \<Rightarrow>
                                   (case rt_sealed_payload r of
                                      None \<Rightarrow> (refuse 409 ''quality_validation_payload_unavailable'', db)
                                    | Some (PDict result) \<Rightarrow>
                                        let q = new_quality_validation w v c
                                                  (evaluate_acceptance (aw_confidence aw) (aw_int aw) c result
                                                     (dv_signature_status v)) now
                                        in (case sql_insert quality_clash q (quality_validations db) of
                                              None \<Rightarrow> (Inl Violation, db)
                                            | Some t \<Rightarrow> (Inr q, db \<lparr> quality_validations := t \<rparr>))
                                    | Some _ \<Rightarrow> (refuse 409 ''quality_validation_payload_invalid'', db)))))))"

section \<open>Eligibility and plan\<close>

definition find_eligibility :: "string \<Rightarrow> evidence_db \<Rightarrow> eligibility option" where
  "find_eligibility quality_id db = row_by el_quality_validation_id quality_id (eligibilities db)"

definition new_eligibility ::
  "evidence_world \<Rightarrow> quality_validation \<Rightarrow> delivery_validation \<Rightarrow> string option \<Rightarrow> string \<Rightarrow> string \<Rightarrow> int \<Rightarrow> eligibility" where
  "new_eligibility w q v settlement_id decision reason now =
     (let h = ew_sha w (json_dumps True (PDict
                [(''decision'', PStr decision), (''delivery_validation_id'', PStr (qv_delivery_validation_id q)),
                 (''evidence_id'', PStr (qv_evidence_id q)), (''evidence_receipt_id'', PStr (qv_receipt_id q)),
                 (''evaluated_at'', PInt now), (''order_id'', PStr (dv_order_id v)),
                 (''policy_version'', PStr ''settlement_eligibility_v1''), (''quality_validation_id'', PStr (qv_validation_id q)),
                 (''quote_id'', PStr (dv_quote_id v)), (''reason'', PStr reason), (''settlement_id'', pstr_opt settlement_id)]))
      in \<lparr> el_eligibility_id = ''pse_'' @ take 24 h, el_quality_validation_id = qv_validation_id q,
           el_delivery_validation_id = qv_delivery_validation_id q, el_receipt_id = qv_receipt_id q,
           el_evidence_id = qv_evidence_id q, el_order_id = dv_order_id v, el_quote_id = dv_quote_id v,
           el_settlement_id = settlement_id, el_decision = decision, el_reason = reason,
           el_policy_version = ''settlement_eligibility_v1'', el_sha256 = h, el_evaluated_at = now \<rparr>)"

definition record_eligibility :: "eligibility \<Rightarrow> evidence_db \<Rightarrow> (http_error + eligibility) \<times> evidence_db" where
  "record_eligibility el db =
     (case sql_insert eligibility_clash el (eligibilities db) of
        None \<Rightarrow> (Inl Violation, db)
      | Some t \<Rightarrow> (Inr el, db \<lparr> eligibilities := t \<rparr>))"

text \<open>The joined row: the quality validation and its delivery validation.\<close>

definition quality_with_delivery :: "string \<Rightarrow> evidence_db \<Rightarrow> (quality_validation \<times> delivery_validation) option" where
  "quality_with_delivery quality_id db =
     (case row_by qv_validation_id quality_id (quality_validations db) of
        None \<Rightarrow> None
      | Some q \<Rightarrow> map_option (Pair q) (row_by dv_validation_id (qv_delivery_validation_id q) (delivery_validations db)))"

definition settlement_id_of :: "settlement option \<Rightarrow> string option" where
  "settlement_id_of s =
     (case s of None \<Rightarrow> None | Some r \<Rightarrow> if st_settlement_id r = [] then None else Some (st_settlement_id r))"

definition evaluate_settlement_eligibility ::
  "evidence_world \<Rightarrow> string \<Rightarrow> int \<Rightarrow> pdb \<Rightarrow> evidence_db \<Rightarrow> evidence_db \<Rightarrow> (http_error + eligibility) \<times> evidence_db" where
  "evaluate_settlement_eligibility w quality_id now sdb snap db =
     (case find_eligibility quality_id snap of
        Some el \<Rightarrow> (Inr el, db)
      | None \<Rightarrow>
          (case quality_with_delivery quality_id snap of
             None \<Rightarrow> (refuse 404 ''quality_validation_not_found'', db)
           | Some (q, v) \<Rightarrow>
               let settlement = get_settlement_by_order_id_db sdb (dv_order_id v) in
               if qv_decision q = ''accepted_by_explicit_criteria''
               then (if settlement = None then (refuse 409 ''settlement_allocation_pending'', db)
                     else record_eligibility (new_eligibility w q v (settlement_id_of settlement) ''eligible_for_governed_release''
                            ''explicit_quality_criteria_and_delivery_binding_passed'' now) db)
               else if qv_decision q = ''rejected_by_explicit_criteria''
               then record_eligibility (new_eligibility w q v (settlement_id_of settlement) ''eligible_for_compensation_review''
                      ''explicit_quality_criteria_failed_after_verified_delivery'' now) db
               else (refuse 409 ''quality_validation_not_terminal'', db)))"

text \<open>
  \<open>_minor_amount\<close>: the integer column, or the decimal column times 1000000; \<open>Inl\<close> for the overflows that
  are not caught.
\<close>

definition minor_amount :: "int option \<Rightarrow> pyval \<Rightarrow> http_error + int option" where
  "minor_amount minor decimal =
     (case minor of
        Some i \<Rightarrow> Inr (if i \<ge> 0 then Some i else None)
      | None \<Rightarrow>
          (case dec_of_string (py_str decimal) of
             None \<Rightarrow> Inr None
           | Some DNaN \<Rightarrow> Inr None
           | Some (DInf negative) \<Rightarrow> if negative then Inr None else Inl Unhandled
           | Some (DFin d) \<Rightarrow>
               if dec_lt d dec_zero then Inr None
               else (case dec_mul d (dec_of_int 1000000) of
                       Inl InvalidOperation \<Rightarrow> Inr None
                     | Inl _ \<Rightarrow> Inl Unhandled
                     | Inr m \<Rightarrow> Inr (Some (dec_to_int m)))))"

definition valid_wallet :: "evidence_world \<Rightarrow> string option \<Rightarrow> bool" where
  "valid_wallet w v = (ew_pubkey w (py_str (pstr_opt v)) \<noteq> None)"

definition amount_blockers :: "int option \<Rightarrow> int option \<Rightarrow> int option \<Rightarrow> string list" where
  "amount_blockers gross commission payout =
     (case (gross, commission, payout) of
        (Some g, Some c, Some p) \<Rightarrow> if c + p \<noteq> g then [''settlement_amount_conservation_failed''] else []
      | _ \<Rightarrow> [''settlement_amount_invalid''])"

definition wallet_blockers :: "evidence_world \<Rightarrow> string option \<Rightarrow> string option \<Rightarrow> string list" where
  "wallet_blockers w winner treasury =
     (if valid_wallet w winner then [] else [''winner_wallet_invalid'']) @
     (if valid_wallet w treasury then [] else [''treasury_wallet_invalid''])"

definition gate_blockers :: "pydict \<Rightarrow> string list" where
  "gate_blockers gate =
     (if truthy (dget gate ''release_allowed'') then []
      else [if truthy (dget gate ''reason'') then py_str (dget gate ''reason'') else ''receipt_release_blocked''])"

definition find_plan :: "string \<Rightarrow> evidence_db \<Rightarrow> execution_plan option" where
  "find_plan eligibility_id db = row_by pl_eligibility_id eligibility_id (plans db)"

definition new_plan ::
  "evidence_world \<Rightarrow> eligibility \<Rightarrow> settlement \<Rightarrow> int option \<Rightarrow> int option \<Rightarrow> int option \<Rightarrow> string list \<Rightarrow> pydict \<Rightarrow> int \<Rightarrow>
   execution_plan" where
  "new_plan w el s gross commission payout blockers gate now =
     (let h = ew_sha w (json_dumps True (PDict
                [(''blockers'', PList (map PStr blockers)), (''decision'', PStr ''awaiting_governance_authorization''),
                 (''eligibility_id'', PStr (el_eligibility_id el)), (''evaluated_at'', PInt now),
                 (''gross_amount_minor'', pint_opt gross), (''order_id'', PStr (el_order_id el)),
                 (''policy_version'', PStr ''settlement_execution_plan_v1''),
                 (''protocol_commission_amount_minor'', pint_opt commission),
                 (''quality_validation_id'', PStr (el_quality_validation_id el)), (''receipt_gate'', PDict gate),
                 (''seller_payout_amount_minor'', pint_opt payout), (''settlement_id'', PStr (st_settlement_id s)),
                 (''treasury_wallet'', pstr_opt (st_treasury_wallet s)), (''winner_wallet'', pstr_opt (st_winner_wallet s))]))
      in \<lparr> pl_plan_id = ''psp_'' @ take 24 h, pl_eligibility_id = el_eligibility_id el,
           pl_quality_validation_id = el_quality_validation_id el, pl_order_id = el_order_id el,
           pl_settlement_id = st_settlement_id s, pl_winner_wallet = st_winner_wallet s,
           pl_treasury_wallet = st_treasury_wallet s, pl_gross_minor = gross, pl_commission_minor = commission,
           pl_payout_minor = payout, pl_decision = ''awaiting_governance_authorization'', pl_blockers = blockers,
           pl_receipt_gate = gate, pl_policy_version = ''settlement_execution_plan_v1'', pl_sha256 = h, pl_evaluated_at = now \<rparr>)"

definition plan_settlement_execution ::
  "evidence_world \<Rightarrow> string \<Rightarrow> int \<Rightarrow> pdb \<Rightarrow> checkout_db \<Rightarrow> evidence_db \<Rightarrow> evidence_db \<Rightarrow> (http_error + execution_plan) \<times> evidence_db" where
  "plan_settlement_execution w eligibility_id now sdb gdb snap db =
     (case find_plan eligibility_id snap of
        Some p \<Rightarrow> (Inr p, db)
      | None \<Rightarrow>
          (case row_by el_eligibility_id eligibility_id (eligibilities snap) of
             None \<Rightarrow> (refuse 404 ''settlement_eligibility_not_found'', db)
           | Some el \<Rightarrow>
               if el_decision el \<noteq> ''eligible_for_governed_release''
               then (refuse 409 ''settlement_execution_plan_not_applicable'', db)
               else (case get_settlement_by_order_id_db sdb (el_order_id el) of
                       None \<Rightarrow> (refuse 409 ''settlement_allocation_unavailable'', db)
                     | Some s \<Rightarrow>
                         if st_settlement_id s = [] then (refuse 409 ''settlement_allocation_unavailable'', db)
                         else (case (minor_amount (st_gross_minor s) (st_gross_amount_iat s),
                                     minor_amount (st_commission_minor s) (st_commission_amount_iat s),
                                     minor_amount (st_payout_minor s) (st_payout_amount_iat s)) of
                                 (Inr gross, Inr commission, Inr payout) \<Rightarrow>
                                   let gate = settlement_release_receipt_gate (el_order_id el) gdb;
                                       blockers = sort (remdups (''foundation_release_authorization_not_evaluated'' #
                                         wallet_blockers w (st_winner_wallet s) (st_treasury_wallet s) @
                                         amount_blockers gross commission payout @ gate_blockers gate));
                                       p = new_plan w el s gross commission payout blockers gate now
                                   in (case sql_insert plan_clash p (plans db) of
                                         None \<Rightarrow> (Inl Violation, db)
                                       | Some t \<Rightarrow> (Inr p, db \<lparr> plans := t \<rparr>))
                               | _ \<Rightarrow> (Inl Unhandled, db)))))"

section \<open>Authorisation\<close>

definition find_authorization :: "string \<Rightarrow> evidence_db \<Rightarrow> release_authorization option" where
  "find_authorization plan_id db = row_by au_plan_id plan_id (authorizations db)"

text \<open>
  \<open>authorize_settlement_release\<close> (\<open>iat/api/agent_b_api.py\<close>): blocked by the receipt gate, otherwise what the
  foundation's evaluation answers, with the gate.
\<close>

definition authorize_settlement_release :: "(string \<Rightarrow> pydict option) \<Rightarrow> string \<Rightarrow> checkout_db \<Rightarrow> pydict option" where
  "authorize_settlement_release foundation order_id gdb =
     (let gate = settlement_release_receipt_gate order_id gdb in
      if dget gate ''release_allowed'' \<noteq> PBool True
      then Some [(''release_authorized'', PBool False), (''authorized_by'', PNone),
                 (''authorization_reason'', dget gate ''reason''), (''authorization_mode'', PStr ''blocked''),
                 (''release_block_reasons'', PList [dget gate ''reason'']), (''order_id'', PStr order_id),
                 (''final_delivery_receipt'', PDict gate)]
      else map_option (\<lambda>f.
             let authorized = (dget f ''release_authorized'' = PBool True) in
             [(''release_authorized'', PBool authorized),
              (''authorized_by'', if authorized then PStr ''foundation'' else PNone),
              (''authorization_reason'', dget f ''authorization_reason''),
              (''authorization_mode'', dget f ''authorization_mode''),
              (''release_block_reasons'', dget f ''release_block_reasons''), (''financial_risk'', dget f ''financial_risk''),
              (''order_id'', PStr order_id), (''financial_release_confidence'', dget f ''financial_release_confidence''),
              (''final_delivery_receipt'', PDict gate)]) (foundation order_id))"

definition structural :: "string list" where
  "structural =
     [''winner_wallet_invalid'', ''treasury_wallet_invalid'', ''settlement_amount_invalid'',
      ''settlement_amount_conservation_failed'']"

definition plan_amount_blockers :: "execution_plan \<Rightarrow> string list" where
  "plan_amount_blockers p =
     (case (pl_gross_minor p, pl_commission_minor p, pl_payout_minor p) of
        (Some g, Some c, Some s) \<Rightarrow>
          if g < 0 \<or> c < 0 \<or> s < 0 then [''settlement_amount_invalid'']
          else if c + s \<noteq> g then [''settlement_amount_conservation_failed''] else []
      | _ \<Rightarrow> [''settlement_amount_invalid''])"

definition structural_blockers :: "evidence_world \<Rightarrow> execution_plan \<Rightarrow> string list" where
  "structural_blockers w p =
     sort (remdups (filter (\<lambda>b. b \<in> set structural) (pl_blockers p) @
       wallet_blockers w (pl_winner_wallet p) (pl_treasury_wallet p) @ plan_amount_blockers p))"

definition new_authorization :: "evidence_world \<Rightarrow> execution_plan \<Rightarrow> pydict \<Rightarrow> int \<Rightarrow> release_authorization" where
  "new_authorization w p a now =
     (let gate = as_dict (dget a ''final_delivery_receipt''); risk = as_dict (dget a ''financial_risk'');
          score = dget_or risk ''release_risk_score'' (dget risk ''risk_score'');
          h = ew_sha w (json_dumps True (PDict
                [(''authorization_mode'', dget a ''authorization_mode''), (''authorization_reason'', dget a ''authorization_reason''),
                 (''authorized_at'', PInt now), (''authorized_by'', PStr ''foundation''),
                 (''eligibility_id'', PStr (pl_eligibility_id p)),
                 (''financial_release_confidence'', dget a ''financial_release_confidence''),
                 (''financial_risk_score'', score), (''order_id'', PStr (pl_order_id p)), (''plan_id'', PStr (pl_plan_id p)),
                 (''policy_version'', PStr ''settlement_authorization_v1''), (''receipt_gate'', PDict gate),
                 (''settlement_id'', PStr (pl_settlement_id p))]))
      in \<lparr> au_authorization_id = ''psa_'' @ take 24 h, au_plan_id = pl_plan_id p, au_eligibility_id = pl_eligibility_id p,
           au_order_id = pl_order_id p, au_settlement_id = pl_settlement_id p, au_authorized_by = ''foundation'',
           au_mode = dget a ''authorization_mode'', au_reason = dget a ''authorization_reason'',
           au_confidence = dget a ''financial_release_confidence'', au_risk_score = score, au_receipt_gate = gate,
           au_policy_version = ''settlement_authorization_v1'', au_sha256 = h, au_authorized_at = now \<rparr>)"

definition authorize_settlement_plan ::
  "evidence_world \<Rightarrow> (string \<Rightarrow> pydict option) \<Rightarrow> string \<Rightarrow> int \<Rightarrow> checkout_db \<Rightarrow> evidence_db \<Rightarrow> evidence_db \<Rightarrow>
   (http_error + release_authorization) \<times> evidence_db" where
  "authorize_settlement_plan w foundation plan_id now gdb snap db =
     (case find_authorization plan_id snap of
        Some a \<Rightarrow> (Inr a, db)
      | None \<Rightarrow>
          (case row_by pl_plan_id plan_id (plans snap) of
             None \<Rightarrow> (refuse 404 ''settlement_execution_plan_not_found'', db)
           | Some p \<Rightarrow>
               if structural_blockers w p \<noteq> []
               then (Inl (Http 409 (PDict [(''code'', PStr ''settlement_execution_plan_structurally_blocked''),
                       (''blockers'', PList (map PStr (structural_blockers w p)))])), db)
               else (case authorize_settlement_release foundation (pl_order_id p) gdb of
                       None \<Rightarrow> (Inl Unhandled, db)
                     | Some a \<Rightarrow>
                         if dget a ''release_authorized'' \<noteq> PBool True
                         then (Inl (Http 409 (PDict [(''code'', PStr ''foundation_release_not_authorized''),
                                 (''authorization_mode'', dget a ''authorization_mode''),
                                 (''authorization_reason'', dget a ''authorization_reason''),
                                 (''blockers'', py_or (dget a ''release_block_reasons'') (PList []))])), db)
                         else if dget a ''authorized_by'' \<noteq> PStr ''foundation''
                         then (refuse 409 ''foundation_authority_invalid'', db)
                         else if dget (as_dict (dget a ''final_delivery_receipt'')) ''release_allowed'' \<noteq> PBool True
                         then (refuse 409 ''final_delivery_receipt_not_accepted'', db)
                         else
                           let au = new_authorization w p a now in
                           (case sql_insert authorization_clash au (authorizations db) of
                              None \<Rightarrow> (Inl Violation, db)
                            | Some t \<Rightarrow> (Inr au, db \<lparr> authorizations := t \<rparr>)))))"

section \<open>Simulation and permit\<close>

definition find_simulation :: "string \<Rightarrow> evidence_db \<Rightarrow> settlement_simulation option" where
  "find_simulation authorization_id db = row_by (\<lambda>s. sf_authorization_id (sm_facts s)) authorization_id (simulations db)"

definition authorized_plan :: "string \<Rightarrow> evidence_db \<Rightarrow> (release_authorization \<times> execution_plan) option" where
  "authorized_plan authorization_id db =
     (case row_by au_authorization_id authorization_id (authorizations db) of
        None \<Rightarrow> None
      | Some a \<Rightarrow> map_option (Pair a) (row_by pl_plan_id (au_plan_id a) (plans db)))"

definition facts_dict :: "simulation_facts \<Rightarrow> pydict" where
  "facts_dict f =
     [(''authorization_id'', PStr (sf_authorization_id f)), (''cluster'', PStr (sf_cluster f)),
      (''genesis_hash'', PStr (sf_genesis_hash f)), (''commitment'', PStr ''confirmed''),
      (''token_program'', PStr token_program), (''mint'', PStr (sf_mint f)), (''mint_decimals'', PInt iat_decimals),
      (''fee_payer'', PStr (sf_escrow f)), (''escrow_authority'', PStr (sf_escrow f)),
      (''source_token_account'', PStr (sf_source_account f)), (''treasury_token_account'', PStr (sf_treasury_account f)),
      (''winner_token_account'', PStr (sf_winner_account f)), (''gross_amount_minor'', PInt (sf_gross f)),
      (''protocol_commission_amount_minor'', PInt (sf_commission f)), (''seller_payout_amount_minor'', PInt (sf_payout f)),
      (''instruction_count'', PInt (sf_instruction_count f)), (''required_signature_count'', PInt (sf_signature_count f)),
      (''unsigned_transaction_sha256'', PStr (sf_transaction_sha f)), (''simulation_logs_sha256'', PStr (sf_logs_sha f)),
      (''units_consumed'', sf_units f), (''context_slot'', sf_slot f)]"

definition new_simulation :: "evidence_world \<Rightarrow> release_authorization \<Rightarrow> simulation_facts \<Rightarrow> int \<Rightarrow> settlement_simulation" where
  "new_simulation w a f now =
     (let h = ew_sha w (json_dumps True (PDict (facts_dict f @
                [(''order_id'', PStr (au_order_id a)), (''plan_id'', PStr (au_plan_id a)),
                 (''policy_version'', PStr ''settlement_simulation_v1''), (''settlement_id'', PStr (au_settlement_id a)),
                 (''simulated_at'', PInt now)])))
      in \<lparr> sm_simulation_id = ''pss_'' @ take 24 h, sm_plan_id = au_plan_id a, sm_settlement_id = au_settlement_id a,
           sm_order_id = au_order_id a, sm_facts = f, sm_policy_version = ''settlement_simulation_v1'', sm_sha256 = h,
           sm_simulated_at = now \<rparr>)"

definition simulate_settlement ::
  "evidence_world \<Rightarrow> solana \<Rightarrow> env \<Rightarrow> string \<Rightarrow> int \<Rightarrow> evidence_db \<Rightarrow> evidence_db \<Rightarrow>
   (http_error + settlement_simulation) \<times> evidence_db" where
  "simulate_settlement w so getenv authorization_id now snap db =
     (case find_simulation authorization_id snap of
        Some s \<Rightarrow> (Inr s, db)
      | None \<Rightarrow>
          (case authorized_plan authorization_id snap of
             None \<Rightarrow> (refuse 404 ''settlement_authorization_not_found'', db)
           | Some (a, p) \<Rightarrow>
               (case (pl_gross_minor p, pl_commission_minor p, pl_payout_minor p) of
                  (Some gross, Some commission, Some payout) \<Rightarrow>
                    (case simulate_authorized_settlement so getenv authorization_id (au_settlement_id a) (au_order_id a)
                            (py_str (pstr_opt (pl_winner_wallet p))) (py_str (pstr_opt (pl_treasury_wallet p)))
                            gross commission payout of
                       Inl (Inl _) \<Rightarrow> (Inl Unhandled, db)
                     | Inl (Inr code) \<Rightarrow> (refuse (if contains_text ''rpc_'' code then 503 else 409) code, db)
                     | Inr f \<Rightarrow>
                         let s = new_simulation w a f now in
                         (case sql_insert simulation_clash s (simulations db) of
                            None \<Rightarrow> (Inl Violation, db)
                          | Some t \<Rightarrow> (Inr s, db \<lparr> simulations := t \<rparr>)))
                | _ \<Rightarrow> (Inl Unhandled, db))))"

definition find_permit :: "string \<Rightarrow> pdb \<Rightarrow> permit option" where
  "find_permit simulation_id sdb = row_by pm_simulation_id simulation_id (permits sdb)"

definition permit_currently_valid :: "int \<Rightarrow> permit \<Rightarrow> bool" where
  "permit_currently_valid now p = (pm_state p = ''issued'' \<and> now \<le> pm_expires_at p)"

text \<open>
  The amounts of the joined row: its columns occur twice, and a row's dict takes the first of them under
  SQLite (the simulation's) and the last under PostgreSQL (the plan's).
\<close>

definition joined_amounts :: "bool \<Rightarrow> settlement_simulation \<Rightarrow> execution_plan \<Rightarrow> (int \<times> int \<times> int) option" where
  "joined_amounts postgres s p =
     (if postgres
      then (case (pl_gross_minor p, pl_commission_minor p, pl_payout_minor p) of
              (Some g, Some c, Some y) \<Rightarrow> Some (g, c, y) | _ \<Rightarrow> None)
      else Some (sf_gross (sm_facts s), sf_commission (sm_facts s), sf_payout (sm_facts s)))"

definition new_permit :: "evidence_world \<Rightarrow> settlement_simulation \<Rightarrow> int \<Rightarrow> int \<Rightarrow> int \<Rightarrow> int \<Rightarrow> permit" where
  "new_permit w s gross commission payout now =
     (let f = sm_facts s;
          h = ew_sha w (json_dumps True (PDict
                [(''authorization_id'', PStr (sf_authorization_id f)), (''cluster'', PStr (sf_cluster f)),
                 (''expires_at'', PInt (now + 300)), (''genesis_hash'', PStr (sf_genesis_hash f)),
                 (''gross_amount_minor'', PInt gross), (''issued_at'', PInt now), (''mint'', PStr (sf_mint f)),
                 (''order_id'', PStr (sm_order_id s)), (''plan_id'', PStr (sm_plan_id s)),
                 (''policy_version'', PStr ''settlement_execution_permit_v1''),
                 (''protocol_commission_amount_minor'', PInt commission), (''seller_payout_amount_minor'', PInt payout),
                 (''settlement_id'', PStr (sm_settlement_id s)), (''simulation_id'', PStr (sm_simulation_id s)),
                 (''state'', PStr ''issued''), (''unsigned_transaction_sha256'', PStr (sf_transaction_sha f))]))
      in \<lparr> pm_permit_id = ''pep_'' @ take 24 h, pm_simulation_id = sm_simulation_id s,
           pm_authorization_id = sf_authorization_id f, pm_plan_id = sm_plan_id s, pm_settlement_id = sm_settlement_id s,
           pm_order_id = sm_order_id s, pm_cluster = sf_cluster f, pm_genesis_hash = sf_genesis_hash f, pm_mint = sf_mint f,
           pm_transaction_sha = sf_transaction_sha f, pm_gross_minor = gross, pm_commission_minor = commission,
           pm_payout_minor = payout, pm_state = ''issued'', pm_policy_version = ''settlement_execution_permit_v1'',
           pm_permit_sha = h, pm_issued_at = now, pm_expires_at = now + 300, pm_claim_id = None, pm_claimed_by = None,
           pm_claimed_at = None \<rparr>)"

definition issue_settlement_execution_permit ::
  "evidence_world \<Rightarrow> bool \<Rightarrow> string \<Rightarrow> int \<Rightarrow> evidence_db \<Rightarrow> pdb \<Rightarrow> pdb \<Rightarrow> (http_error + permit) \<times> pdb" where
  "issue_settlement_execution_permit w postgres simulation_id now edb snap db =
     (case find_permit simulation_id snap of
        Some p \<Rightarrow> (Inr p, db)
      | None \<Rightarrow>
          (case row_by sm_simulation_id simulation_id (simulations edb) of
             None \<Rightarrow> (refuse 404 ''settlement_simulation_not_found'', db)
           | Some s \<Rightarrow>
               (case row_by pl_plan_id (sm_plan_id s) (plans edb) of
                  None \<Rightarrow> (refuse 404 ''settlement_simulation_not_found'', db)
                | Some plan \<Rightarrow>
                    if sm_simulated_at s < now - 300 then (refuse 409 ''settlement_simulation_expired'', db)
                    else if sf_cluster (sm_facts s) \<notin> set allowed_clusters \<or>
                            (sf_cluster (sm_facts s) = ''solana-devnet'' \<and> sf_genesis_hash (sm_facts s) \<noteq> devnet_genesis)
                    then (refuse 409 ''settlement_simulation_cluster_invalid'', db)
                    else (case joined_amounts postgres s plan of
                            None \<Rightarrow> (Inl Unhandled, db)
                          | Some (gross, commission, payout) \<Rightarrow>
                              if gross \<le> 0 \<or> commission < 0 \<or> payout < 0 \<or> commission + payout \<noteq> gross
                              then (refuse 409 ''settlement_permit_amount_invalid'', db)
                              else if length (sf_transaction_sha (sm_facts s)) \<noteq> 64
                              then (refuse 409 ''settlement_simulation_digest_invalid'', db)
                              else
                                let p = new_permit w s gross commission payout now in
                                (case sql_insert permit_clash p (permits db) of
                                   None \<Rightarrow> (Inl Violation, db)
                                 | Some t \<Rightarrow> (Inr p, db \<lparr> permits := t \<rparr>))))))"

end
