(* ===== verification/EvidenceFacts.thy ===== *)
theory EvidenceFacts
  imports ProtocolEvidence
begin

text \<open>
  What an execution permit stands for: along any history of the registry and of the settlements, with
  handlers acting on reads of any age, every permit goes back through simulation, authorisation, plan,
  eligibility, quality and delivery to evidence that the buyer's wallet signed. A simulation that has
  run out before its permit is issued blocks the authorisation for ever.
\<close>

section \<open>Histories\<close>

datatype evidence_op =
    Publish evidence_request int
  | ValidateDelivery string int identity_db checkout_db checkout_db checkout_db
  | ValidateQuality acceptance_world string int identity_db checkout_db
  | EvaluateEligibility string int pdb
  | PlanExecution string int pdb checkout_db
  | AuthorizePlan "string \<Rightarrow> pydict option" string int checkout_db
  | SimulateSettlement solana env string int

fun run_evidence_op :: "evidence_world \<Rightarrow> evidence_op \<Rightarrow> evidence_db \<Rightarrow> evidence_db \<Rightarrow> evidence_db" where
  "run_evidence_op w (Publish q now) snap db = snd (publish_protocol_evidence w q now snap db)"
| "run_evidence_op w (ValidateDelivery receipt_id now idb qdb ddb rdb) snap db =
     snd (validate_delivery_binding w receipt_id now idb qdb ddb rdb snap db)"
| "run_evidence_op w (ValidateQuality aw validation_id now idb rdb) snap db =
     snd (validate_delivery_quality w aw validation_id now idb rdb snap db)"
| "run_evidence_op w (EvaluateEligibility quality_id now sdb) snap db =
     snd (evaluate_settlement_eligibility w quality_id now sdb snap db)"
| "run_evidence_op w (PlanExecution eligibility_id now sdb gdb) snap db =
     snd (plan_settlement_execution w eligibility_id now sdb gdb snap db)"
| "run_evidence_op w (AuthorizePlan foundation plan_id now gdb) snap db =
     snd (authorize_settlement_plan w foundation plan_id now gdb snap db)"
| "run_evidence_op w (SimulateSettlement so getenv authorization_id now) snap db =
     snd (simulate_settlement w so getenv authorization_id now snap db)"

definition empty_evidence :: evidence_db where
  "empty_evidence =
     \<lparr> evidences = [], delivery_validations = [], quality_validations = [], eligibilities = [], plans = [],
       authorizations = [], simulations = [] \<rparr>"

text \<open>
  \<open>continues w ok h0 hist\<close>: \<open>hist\<close> are the states of a run, newest first, that goes on from \<open>h0\<close> and
  issues permits only at times that are \<open>ok\<close>. What other components hold is arbitrary at every read.
\<close>

inductive continues :: "evidence_world \<Rightarrow> (int \<Rightarrow> bool) \<Rightarrow> (evidence_db \<times> pdb) list \<Rightarrow> (evidence_db \<times> pdb) list \<Rightarrow> bool"
  for w :: evidence_world and ok :: "int \<Rightarrow> bool" and h0 :: "(evidence_db \<times> pdb) list" where
  start: "continues w ok h0 h0"
| evidence: "continues w ok h0 ((edb, sdb) # past) \<Longrightarrow> snap \<in> set ((edb, sdb) # past) \<Longrightarrow>
    continues w ok h0 ((run_evidence_op w x (fst snap) edb, sdb) # (edb, sdb) # past)"
| issue: "continues w ok h0 ((edb, sdb) # past) \<Longrightarrow> esnap \<in> set ((edb, sdb) # past) \<Longrightarrow>
    psnap \<in> set ((edb, sdb) # past) \<Longrightarrow> ok now \<Longrightarrow>
    continues w ok h0 ((edb, snd (issue_settlement_execution_permit w postgres simulation_id now (fst esnap) (snd psnap) sdb))
      # (edb, sdb) # past)"
| settle: "continues w ok h0 ((edb, sdb) # past) \<Longrightarrow>
    continues w ok h0 ((edb, run_op (ew_sha w) x snap sdb) # (edb, sdb) # past)"

definition protocol_history :: "evidence_world \<Rightarrow> (evidence_db \<times> pdb) list \<Rightarrow> bool" where
  "protocol_history w hist =
     (\<exists>sdb. permits sdb = [] \<and> settlements_wf sdb \<and> continues w (\<lambda>_. True) [(empty_evidence, sdb)] hist)"

section \<open>Backing\<close>

definition signed_evidence :: "evidence_world \<Rightarrow> evidence \<Rightarrow> bool" where
  "signed_evidence w e =
     (ew_verify w (ev_wallet e) (ev_signature e)
        (evidence_message (ev_wallet e) (ev_type e) (ev_evidence_id e) (py_lower (ev_sha256 e)) (ev_observed_at e)))"

definition backed_validation :: "evidence_world \<Rightarrow> evidence_db \<Rightarrow> delivery_validation \<Rightarrow> bool" where
  "backed_validation w db v =
     (\<exists>e. row_by ev_receipt_id (dv_receipt_id v) (evidences db) = Some e \<and> signed_evidence w e \<and>
          dv_evidence_id v = ev_evidence_id e \<and> dv_wallet v = ev_wallet e)"

definition backed_quality :: "evidence_world \<Rightarrow> evidence_db \<Rightarrow> quality_validation \<Rightarrow> bool" where
  "backed_quality w db q =
     (\<exists>v. row_by dv_validation_id (qv_delivery_validation_id q) (delivery_validations db) = Some v \<and>
          backed_validation w db v \<and> dv_decision v = ''verified_delivery_binding'')"

definition backed_eligibility :: "evidence_world \<Rightarrow> evidence_db \<Rightarrow> eligibility \<Rightarrow> bool" where
  "backed_eligibility w db el =
     (\<exists>q v. row_by qv_validation_id (el_quality_validation_id el) (quality_validations db) = Some q \<and> backed_quality w db q \<and>
          row_by dv_validation_id (qv_delivery_validation_id q) (delivery_validations db) = Some v \<and>
          el_order_id el = dv_order_id v \<and>
          (el_decision el = ''eligible_for_governed_release'' \<longrightarrow> qv_decision q = ''accepted_by_explicit_criteria''))"

definition backed_plan :: "evidence_world \<Rightarrow> evidence_db \<Rightarrow> execution_plan \<Rightarrow> bool" where
  "backed_plan w db p =
     (\<exists>el. row_by el_eligibility_id (pl_eligibility_id p) (eligibilities db) = Some el \<and> backed_eligibility w db el \<and>
           el_decision el = ''eligible_for_governed_release'' \<and> pl_order_id p = el_order_id el)"

definition backed_authorization :: "evidence_world \<Rightarrow> evidence_db \<Rightarrow> release_authorization \<Rightarrow> bool" where
  "backed_authorization w db a =
     (\<exists>p. row_by pl_plan_id (au_plan_id a) (plans db) = Some p \<and> backed_plan w db p \<and> structural_blockers w p = [] \<and>
          au_order_id a = pl_order_id p \<and> au_settlement_id a = pl_settlement_id p \<and> au_authorized_by a = ''foundation'' \<and>
          dget (au_receipt_gate a) ''release_allowed'' = PBool True)"

definition backed_simulation :: "evidence_world \<Rightarrow> evidence_db \<Rightarrow> settlement_simulation \<Rightarrow> bool" where
  "backed_simulation w db s =
     (\<exists>a p. row_by au_authorization_id (sf_authorization_id (sm_facts s)) (authorizations db) = Some a \<and>
          backed_authorization w db a \<and> sm_plan_id s = au_plan_id a \<and> row_by pl_plan_id (au_plan_id a) (plans db) = Some p \<and>
          sm_order_id s = au_order_id a \<and> sm_settlement_id s = au_settlement_id a \<and>
          pl_gross_minor p = Some (sf_gross (sm_facts s)) \<and> pl_commission_minor p = Some (sf_commission (sm_facts s)) \<and>
          pl_payout_minor p = Some (sf_payout (sm_facts s)))"

definition backed_permit :: "evidence_world \<Rightarrow> evidence_db \<Rightarrow> permit \<Rightarrow> bool" where
  "backed_permit w db p =
     (\<exists>s. row_by sm_simulation_id (pm_simulation_id p) (simulations db) = Some s \<and> backed_simulation w db s \<and>
          pm_authorization_id p = sf_authorization_id (sm_facts s) \<and> pm_plan_id p = sm_plan_id s \<and>
          pm_order_id p = sm_order_id s \<and> pm_settlement_id p = sm_settlement_id s \<and>
          pm_transaction_sha p = sf_transaction_sha (sm_facts s) \<and>
          pm_gross_minor p = sf_gross (sm_facts s) \<and> pm_commission_minor p = sf_commission (sm_facts s) \<and>
          pm_payout_minor p = sf_payout (sm_facts s) \<and> 0 < pm_gross_minor p \<and> 0 \<le> pm_commission_minor p \<and>
          0 \<le> pm_payout_minor p \<and> pm_commission_minor p + pm_payout_minor p = pm_gross_minor p \<and>
          pm_issued_at p \<le> sm_simulated_at s + 300 \<and> pm_expires_at p = pm_issued_at p + 300)"


text \<open>Tables only grow: an earlier state is a prefix of a later one, and backing persists.\<close>

definition extends :: "evidence_db \<Rightarrow> evidence_db \<Rightarrow> bool" where
  "extends a b =
     ((\<exists>x. evidences b = evidences a @ x) \<and> (\<exists>x. delivery_validations b = delivery_validations a @ x) \<and>
      (\<exists>x. quality_validations b = quality_validations a @ x) \<and> (\<exists>x. eligibilities b = eligibilities a @ x) \<and>
      (\<exists>x. plans b = plans a @ x) \<and> (\<exists>x. authorizations b = authorizations a @ x) \<and>
      (\<exists>x. simulations b = simulations a @ x))"

lemma extends_refl: "extends a a"
  by (simp add: extends_def)

lemma extends_trans: "extends a b \<Longrightarrow> extends b c \<Longrightarrow> extends a c"
  unfolding extends_def by (elim conjE exE) simp

lemma row_by_prefix: "row_by key k t = Some r \<Longrightarrow> row_by key k (t @ x) = Some r"
  by (simp add: row_by_append)

lemma extends_row:
  assumes "extends a b"
  shows "row_by ev_receipt_id k1 (evidences a) = Some e \<Longrightarrow> row_by ev_receipt_id k1 (evidences b) = Some e"
    "row_by dv_validation_id k2 (delivery_validations a) = Some v \<Longrightarrow> row_by dv_validation_id k2 (delivery_validations b) = Some v"
    "row_by qv_validation_id k3 (quality_validations a) = Some q \<Longrightarrow> row_by qv_validation_id k3 (quality_validations b) = Some q"
    "row_by el_eligibility_id k4 (eligibilities a) = Some el \<Longrightarrow> row_by el_eligibility_id k4 (eligibilities b) = Some el"
    "row_by pl_plan_id k5 (plans a) = Some p \<Longrightarrow> row_by pl_plan_id k5 (plans b) = Some p"
    "row_by au_authorization_id k6 (authorizations a) = Some au \<Longrightarrow> row_by au_authorization_id k6 (authorizations b) = Some au"
    "row_by sm_simulation_id k7 (simulations a) = Some s \<Longrightarrow> row_by sm_simulation_id k7 (simulations b) = Some s"
  using assms unfolding extends_def by (auto simp: row_by_append)

lemma backed_grows:
  assumes ext: "extends a b"
  shows "backed_validation w a v \<Longrightarrow> backed_validation w b v" and "backed_quality w a q \<Longrightarrow> backed_quality w b q"
    and "backed_eligibility w a el \<Longrightarrow> backed_eligibility w b el" and "backed_plan w a p \<Longrightarrow> backed_plan w b p"
    and "backed_authorization w a au \<Longrightarrow> backed_authorization w b au"
    and "backed_simulation w a s \<Longrightarrow> backed_simulation w b s" and "backed_permit w a pm \<Longrightarrow> backed_permit w b pm"
proof -
  note row = extends_row [OF ext]
  have v: "backed_validation w b v" if "backed_validation w a v" for v using that row(1) unfolding backed_validation_def by blast
  have q: "backed_quality w b q" if "backed_quality w a q" for q using that row(2) v unfolding backed_quality_def by blast
  have el: "backed_eligibility w b el" if "backed_eligibility w a el" for el
    using that row(2,3) q unfolding backed_eligibility_def by blast
  have p: "backed_plan w b p" if "backed_plan w a p" for p using that row(4) el unfolding backed_plan_def by blast
  have au: "backed_authorization w b au" if "backed_authorization w a au" for au
    using that row(5) p unfolding backed_authorization_def by blast
  have s: "backed_simulation w b s" if "backed_simulation w a s" for s
    using that row(5,6) au unfolding backed_simulation_def by blast
  have pm: "backed_permit w b pm" if "backed_permit w a pm" for pm using that row(7) s unfolding backed_permit_def by blast
  show "backed_validation w a v \<Longrightarrow> backed_validation w b v" "backed_quality w a q \<Longrightarrow> backed_quality w b q"
    "backed_eligibility w a el \<Longrightarrow> backed_eligibility w b el" "backed_plan w a p \<Longrightarrow> backed_plan w b p"
    "backed_authorization w a au \<Longrightarrow> backed_authorization w b au" "backed_simulation w a s \<Longrightarrow> backed_simulation w b s"
    "backed_permit w a pm \<Longrightarrow> backed_permit w b pm"
    using v q el p au s pm by blast+
qed

section \<open>What the handlers add\<close>

lemma ends_pyval:
  "(v = PNone \<Longrightarrow> ends Q a) \<Longrightarrow> (\<And>b. v = PBool b \<Longrightarrow> ends Q (f1 b)) \<Longrightarrow> (\<And>i. v = PInt i \<Longrightarrow> ends Q (f2 i)) \<Longrightarrow>
   (\<And>r. v = PFloat r \<Longrightarrow> ends Q (f3 r)) \<Longrightarrow> (\<And>s. v = PStr s \<Longrightarrow> ends Q (f4 s)) \<Longrightarrow>
   (\<And>xs. v = PList xs \<Longrightarrow> ends Q (f5 xs)) \<Longrightarrow> (\<And>d. v = PDict d \<Longrightarrow> ends Q (f6 d)) \<Longrightarrow>
   ends Q (case v of PNone \<Rightarrow> a | PBool b \<Rightarrow> f1 b | PInt i \<Rightarrow> f2 i | PFloat r \<Rightarrow> f3 r | PStr s \<Rightarrow> f4 s | PList xs \<Rightarrow> f5 xs
     | PDict d \<Rightarrow> f6 d)"
  by (cases v) simp_all

lemma new_row_fields [simp]:
  "ev_type (new_evidence w q now) = rq_type q" "ev_evidence_id (new_evidence w q now) = rq_evidence_id q"
  "ev_sha256 (new_evidence w q now) = rq_sha256 q" "ev_observed_at (new_evidence w q now) = rq_observed_at q"
  "ev_wallet (new_evidence w q now) = rq_wallet q" "ev_signature (new_evidence w q now) = rq_signature q"
  "dv_receipt_id (new_validation w e order_id quote_id tx r decision reason now) = ev_receipt_id e"
  "dv_evidence_id (new_validation w e order_id quote_id tx r decision reason now) = ev_evidence_id e"
  "dv_wallet (new_validation w e order_id quote_id tx r decision reason now) = ev_wallet e"
  "qv_delivery_validation_id (new_quality_validation w v c ea now) = dv_validation_id v"
  "el_quality_validation_id (new_eligibility w qv v sid decision reason now) = qv_validation_id qv"
  "el_order_id (new_eligibility w qv v sid decision reason now) = dv_order_id v"
  "el_decision (new_eligibility w qv v sid decision reason now) = decision"
  "pl_eligibility_id (new_plan w el st gr cm py bs gate now) = el_eligibility_id el"
  "pl_order_id (new_plan w el st gr cm py bs gate now) = el_order_id el"
  "au_plan_id (new_authorization w pl a now) = pl_plan_id pl" "au_order_id (new_authorization w pl a now) = pl_order_id pl"
  "au_settlement_id (new_authorization w pl a now) = pl_settlement_id pl"
  "au_authorized_by (new_authorization w pl a now) = ''foundation''"
  "au_receipt_gate (new_authorization w pl a now) = as_dict (dget a ''final_delivery_receipt'')"
  "sm_plan_id (new_simulation w au f now) = au_plan_id au" "sm_order_id (new_simulation w au f now) = au_order_id au"
  "sm_settlement_id (new_simulation w au f now) = au_settlement_id au" "sm_facts (new_simulation w au f now) = f"
  "sm_simulated_at (new_simulation w au f now) = now"
  by (simp_all add: new_evidence_def new_validation_def new_quality_validation_def new_eligibility_def new_plan_def
      new_authorization_def new_simulation_def Let_def)

lemma signed_new:
  "build_evidence_message (rq_wallet q) (rq_type q) (rq_evidence_id q) (rq_sha256 q) (rq_observed_at q) = Some message \<Longrightarrow>
   ew_verify w (rq_wallet q) (rq_signature q) message \<Longrightarrow> signed_evidence w (new_evidence w q now)"
  by (auto simp: signed_evidence_def build_evidence_message_def Let_def split: if_splits)

lemma publish_effect:
  "snd (publish_protocol_evidence w q now snap db) = db \<or>
   (\<exists>e. signed_evidence w e \<and> snd (publish_protocol_evidence w q now snap db) = db \<lparr> evidences := evidences db @ [e] \<rparr>)"
proof -
  have "ends (\<lambda>db'. db' = db \<or> (\<exists>e. signed_evidence w e \<and> db' = db \<lparr> evidences := evidences db @ [e] \<rparr>))
      (publish_protocol_evidence w q now snap db)"
    unfolding publish_protocol_evidence_def
    by (intro ends_rules ends_pair)
      (auto simp: sql_insert_Some intro: signed_new)
  then show ?thesis by (simp add: ends_def)
qed

lemma record_validation_effect:
  "backed_validation w snap v \<Longrightarrow> ends (\<lambda>db'. db' = db \<or>
     (\<exists>v. backed_validation w snap v \<and> db' = db \<lparr> delivery_validations := delivery_validations db @ [v] \<rparr>)) (record_validation v db)"
  unfolding record_validation_def by (intro ends_rules ends_pair) (auto simp: sql_insert_Some)

lemma validate_delivery_effect:
  assumes "list_all (signed_evidence w) (evidences snap)"
  shows "snd (validate_delivery_binding w receipt_id now idb qdb ddb rdb snap db) = db \<or>
    (\<exists>v. backed_validation w snap v \<and>
       snd (validate_delivery_binding w receipt_id now idb qdb ddb rdb snap db) =
         db \<lparr> delivery_validations := delivery_validations db @ [v] \<rparr>)"
proof -
  have backed: "backed_validation w snap (new_validation w e order_id quote_id tx r decision reason now)"
    if "row_by ev_receipt_id receipt_id (evidences snap) = Some e" for e order_id quote_id tx r decision reason
    using that row_by_SomeD [OF that] assms by (simp add: backed_validation_def list_all_iff)
  have "ends (\<lambda>db'. db' = db \<or>
     (\<exists>v. backed_validation w snap v \<and> db' = db \<lparr> delivery_validations := delivery_validations db @ [v] \<rparr>))
      (validate_delivery_binding w receipt_id now idb qdb ddb rdb snap db)"
    unfolding validate_delivery_binding_def
    by (intro ends_rules record_validation_effect) (simp_all add: ends_pair backed)
  then show ?thesis by (simp add: ends_def)
qed

lemma validate_quality_effect:
  assumes "list_all (backed_validation w snap) (delivery_validations snap)"
  shows "snd (validate_delivery_quality w aw validation_id now idb rdb snap db) = db \<or>
    (\<exists>q. backed_quality w snap q \<and>
       snd (validate_delivery_quality w aw validation_id now idb rdb snap db) =
         db \<lparr> quality_validations := quality_validations db @ [q] \<rparr>)"
proof -
  have backed: "backed_quality w snap (new_quality_validation w v c ea now)"
    if "row_by dv_validation_id validation_id (delivery_validations snap) = Some v"
      and "\<not> dv_decision v \<noteq> ''verified_delivery_binding''" for v c ea
    using that row_by_SomeD [OF that(1)] assms by (simp add: backed_quality_def list_all_iff)
  have "ends (\<lambda>db'. db' = db \<or>
     (\<exists>q. backed_quality w snap q \<and> db' = db \<lparr> quality_validations := quality_validations db @ [q] \<rparr>))
      (validate_delivery_quality w aw validation_id now idb rdb snap db)"
    unfolding validate_delivery_quality_def
    by (intro ends_rules ends_pyval ends_pair) (auto simp: sql_insert_Some intro: backed)
  then show ?thesis by (simp add: ends_def)
qed

lemma record_eligibility_effect:
  "backed_eligibility w snap el \<Longrightarrow> ends (\<lambda>db'. db' = db \<or>
     (\<exists>el. backed_eligibility w snap el \<and> db' = db \<lparr> eligibilities := eligibilities db @ [el] \<rparr>)) (record_eligibility el db)"
  unfolding record_eligibility_def by (intro ends_rules ends_pair) (auto simp: sql_insert_Some)

lemma eligibility_effect:
  assumes "list_all (backed_quality w snap) (quality_validations snap)"
  shows "snd (evaluate_settlement_eligibility w quality_id now sdb snap db) = db \<or>
    (\<exists>el. backed_eligibility w snap el \<and>
       snd (evaluate_settlement_eligibility w quality_id now sdb snap db) =
         db \<lparr> eligibilities := eligibilities db @ [el] \<rparr>)"
proof -
  have backed: "backed_eligibility w snap (new_eligibility w q v sid decision reason now)"
    if "quality_with_delivery quality_id snap = Some (q, v)"
      and "decision = ''eligible_for_governed_release'' \<Longrightarrow> qv_decision q = ''accepted_by_explicit_criteria''"
    for q v sid decision reason
  proof -
    have q: "row_by qv_validation_id quality_id (quality_validations snap) = Some q"
      "row_by dv_validation_id (qv_delivery_validation_id q) (delivery_validations snap) = Some v"
      using that(1) by (auto simp: quality_with_delivery_def split: option.splits)
    then show ?thesis using row_by_SomeD [OF q(1)] assms that(2) by (auto simp: backed_eligibility_def list_all_iff)
  qed
  have "ends (\<lambda>db'. db' = db \<or>
     (\<exists>el. backed_eligibility w snap el \<and> db' = db \<lparr> eligibilities := eligibilities db @ [el] \<rparr>))
      (evaluate_settlement_eligibility w quality_id now sdb snap db)"
    unfolding evaluate_settlement_eligibility_def
    by (intro ends_rules record_eligibility_effect) (auto simp: ends_pair intro!: backed)
  then show ?thesis by (simp add: ends_def)
qed

lemma plan_effect:
  assumes "list_all (backed_eligibility w snap) (eligibilities snap)"
  shows "snd (plan_settlement_execution w eligibility_id now sdb gdb snap db) = db \<or>
    (\<exists>p. backed_plan w snap p \<and>
       snd (plan_settlement_execution w eligibility_id now sdb gdb snap db) = db \<lparr> plans := plans db @ [p] \<rparr>)"
proof -
  have backed: "backed_plan w snap (new_plan w el st gr cm py bs gate now)"
    if "row_by el_eligibility_id eligibility_id (eligibilities snap) = Some el"
      and "\<not> el_decision el \<noteq> ''eligible_for_governed_release''" for el st gr cm py bs gate
    using that row_by_SomeD [OF that(1)] assms by (simp add: backed_plan_def list_all_iff)
  have "ends (\<lambda>db'. db' = db \<or> (\<exists>p. backed_plan w snap p \<and> db' = db \<lparr> plans := plans db @ [p] \<rparr>))
      (plan_settlement_execution w eligibility_id now sdb gdb snap db)"
    unfolding plan_settlement_execution_def
    by (intro ends_rules ends_pair) (auto simp: sql_insert_Some intro: backed)
  then show ?thesis by (simp add: ends_def)
qed

lemma authorize_effect_plan:
  assumes "list_all (backed_plan w snap) (plans snap)"
  shows "snd (authorize_settlement_plan w foundation plan_id now gdb snap db) = db \<or>
    (\<exists>a. backed_authorization w snap a \<and>
       snd (authorize_settlement_plan w foundation plan_id now gdb snap db) = db \<lparr> authorizations := authorizations db @ [a] \<rparr>)"
proof -
  have backed: "backed_authorization w snap (new_authorization w pl a now)"
    if "row_by pl_plan_id plan_id (plans snap) = Some pl" and "\<not> structural_blockers w pl \<noteq> []"
      and "\<not> dget (as_dict (dget a ''final_delivery_receipt'')) ''release_allowed'' \<noteq> PBool True" for pl a
    using that row_by_SomeD [OF that(1)] assms by (auto simp: backed_authorization_def list_all_iff)
  have "ends (\<lambda>db'. db' = db \<or> (\<exists>a. backed_authorization w snap a \<and> db' = db \<lparr> authorizations := authorizations db @ [a] \<rparr>))
      (authorize_settlement_plan w foundation plan_id now gdb snap db)"
    unfolding authorize_settlement_plan_def
    by (intro ends_rules ends_pair) (auto simp: sql_insert_Some intro: backed)
  then show ?thesis by (simp add: ends_def)
qed

lemma lift_Inr: "lift_code m = Inr x \<longleftrightarrow> m = Inr x" "lift_error n = Inr y \<longleftrightarrow> n = Inr y"
  by (simp_all add: lift_code_def lift_error_def split: sum.split)

text \<open>A successful simulation answers for the authorisation and the amounts it was asked for, which add up.\<close>

lemma simulated_facts:
  assumes "simulate_authorized_settlement so getenv authorization_id settlement_id order_id winner treasury gross commission payout = Inr f"
  shows "sf_authorization_id f = authorization_id \<and> sf_gross f = gross \<and> sf_commission f = commission \<and> sf_payout f = payout \<and>
    0 < gross \<and> 0 \<le> commission \<and> 0 \<le> payout \<and> commission + payout = gross"
  using assms unfolding simulate_authorized_settlement_def
  by (auto simp: sum_bind_Inr lift_Inr split: if_split_asm prod.split_asm)

lemma simulate_effect:
  assumes "list_all (backed_authorization w snap) (authorizations snap)"
  shows "snd (simulate_settlement w so getenv authorization_id now snap db) = db \<or>
    (\<exists>s. backed_simulation w snap s \<and>
       snd (simulate_settlement w so getenv authorization_id now snap db) = db \<lparr> simulations := simulations db @ [s] \<rparr>)"
proof -
  have backed: "backed_simulation w snap (new_simulation w a f now)"
    if "authorized_plan authorization_id snap = Some (a, p)"
      and "pl_gross_minor p = Some gross" "pl_commission_minor p = Some commission" "pl_payout_minor p = Some payout"
      and "simulate_authorized_settlement so getenv authorization_id (au_settlement_id a) (au_order_id a)
        (py_str (pstr_opt (pl_winner_wallet p))) (py_str (pstr_opt (pl_treasury_wallet p))) gross commission payout = Inr f"
    for a p f gross commission payout
  proof -
    have a: "row_by au_authorization_id authorization_id (authorizations snap) = Some a"
      "row_by pl_plan_id (au_plan_id a) (plans snap) = Some p"
      using that(1) by (auto simp: authorized_plan_def split: option.splits)
    then show ?thesis using row_by_SomeD [OF a(1)] assms simulated_facts [OF that(5)] that(2-4)
      by (auto simp: backed_simulation_def list_all_iff)
  qed
  have "ends (\<lambda>db'. db' = db \<or> (\<exists>s. backed_simulation w snap s \<and> db' = db \<lparr> simulations := simulations db @ [s] \<rparr>))
      (simulate_settlement w so getenv authorization_id now snap db)"
    unfolding simulate_settlement_def
    by (intro ends_rules ends_pair) (auto simp: sql_insert_Some intro: backed)
  then show ?thesis by (simp add: ends_def)
qed

lemma new_permit_fields [simp]:
  "pm_simulation_id (new_permit w s g c p now) = sm_simulation_id s" "pm_plan_id (new_permit w s g c p now) = sm_plan_id s"
  "pm_authorization_id (new_permit w s g c p now) = sf_authorization_id (sm_facts s)"
  "pm_order_id (new_permit w s g c p now) = sm_order_id s" "pm_settlement_id (new_permit w s g c p now) = sm_settlement_id s"
  "pm_transaction_sha (new_permit w s g c p now) = sf_transaction_sha (sm_facts s)"
  "pm_gross_minor (new_permit w s g c p now) = g" "pm_commission_minor (new_permit w s g c p now) = c"
  "pm_payout_minor (new_permit w s g c p now) = p" "pm_issued_at (new_permit w s g c p now) = now"
  "pm_expires_at (new_permit w s g c p now) = now + 300"
  by (simp_all add: new_permit_def Let_def)

lemma issue_effect:
  assumes "list_all (backed_simulation w esnap) (simulations esnap)"
  shows "snd (issue_settlement_execution_permit w postgres simulation_id now esnap snap db) = db \<or>
    (\<exists>p. backed_permit w esnap p \<and>
       snd (issue_settlement_execution_permit w postgres simulation_id now esnap snap db) = db \<lparr> permits := permits db @ [p] \<rparr>)"
proof -
  have backed: "backed_permit w esnap (new_permit w s g c y now)"
    if s: "row_by sm_simulation_id simulation_id (simulations esnap) = Some s"
      and plan: "row_by pl_plan_id (sm_plan_id s) (plans esnap) = Some plan"
      and sums: "\<not> (g \<le> 0 \<or> c < 0 \<or> y < 0 \<or> c + y \<noteq> g)" "\<not> sm_simulated_at s < now - 300"
      and amounts: "joined_amounts postgres s plan = Some (g, c, y)" for s plan g c y
  proof -
    have b: "backed_simulation w esnap s" using row_by_SomeD [OF s] assms by (simp add: list_all_iff)
    then have "g = sf_gross (sm_facts s) \<and> c = sf_commission (sm_facts s) \<and> y = sf_payout (sm_facts s)"
      using amounts plan by (auto simp: backed_simulation_def joined_amounts_def split: if_splits option.splits)
    then show ?thesis using row_by_SomeD [OF s] s b sums by (auto simp: backed_permit_def)
  qed
  have "ends (\<lambda>db'. db' = db \<or> (\<exists>p. backed_permit w esnap p \<and> db' = db \<lparr> permits := permits db @ [p] \<rparr>))
      (issue_settlement_execution_permit w postgres simulation_id now esnap snap db)"
    unfolding issue_settlement_execution_permit_def
    by (intro ends_rules ends_pair) (auto simp: sql_insert_Some intro: backed)
  then show ?thesis by (simp add: ends_def)
qed

section \<open>The invariant\<close>

text \<open>The rows of \<open>db\<close> are backed in \<open>c\<close>.\<close>

definition backed_in :: "evidence_world \<Rightarrow> evidence_db \<Rightarrow> evidence_db \<Rightarrow> bool" where
  "backed_in w c db =
     (list_all (signed_evidence w) (evidences db) \<and> list_all (backed_validation w c) (delivery_validations db) \<and>
      list_all (backed_quality w c) (quality_validations db) \<and> list_all (backed_eligibility w c) (eligibilities db) \<and>
      list_all (backed_plan w c) (plans db) \<and> list_all (backed_authorization w c) (authorizations db) \<and>
      list_all (backed_simulation w c) (simulations db))"

abbreviation evidence_ok :: "evidence_world \<Rightarrow> evidence_db \<Rightarrow> bool" where
  "evidence_ok w db \<equiv> backed_in w db db"

definition grown :: "evidence_world \<Rightarrow> evidence_db \<Rightarrow> evidence_db \<Rightarrow> evidence_db \<Rightarrow> bool" where
  "grown w snap db db' =
     (db' = db \<or> (\<exists>e. signed_evidence w e \<and> db' = db \<lparr> evidences := evidences db @ [e] \<rparr>) \<or>
      (\<exists>v. backed_validation w snap v \<and> db' = db \<lparr> delivery_validations := delivery_validations db @ [v] \<rparr>) \<or>
      (\<exists>q. backed_quality w snap q \<and> db' = db \<lparr> quality_validations := quality_validations db @ [q] \<rparr>) \<or>
      (\<exists>el. backed_eligibility w snap el \<and> db' = db \<lparr> eligibilities := eligibilities db @ [el] \<rparr>) \<or>
      (\<exists>p. backed_plan w snap p \<and> db' = db \<lparr> plans := plans db @ [p] \<rparr>) \<or>
      (\<exists>a. backed_authorization w snap a \<and> db' = db \<lparr> authorizations := authorizations db @ [a] \<rparr>) \<or>
      (\<exists>s. backed_simulation w snap s \<and> db' = db \<lparr> simulations := simulations db @ [s] \<rparr>))"

lemma op_grows:
  assumes "evidence_ok w snap"
  shows "grown w snap db (run_evidence_op w x snap db)"
proof (cases x)
  case (Publish q now)
  then show ?thesis using publish_effect [of w q now snap db] by (auto simp: grown_def)
next
  case (ValidateDelivery receipt_id now idb qdb ddb rdb)
  then show ?thesis using validate_delivery_effect [of w snap receipt_id now idb qdb ddb rdb db] assms
    by (auto simp: grown_def backed_in_def)
next
  case (ValidateQuality aw validation_id now idb rdb)
  then show ?thesis using validate_quality_effect [of w snap aw validation_id now idb rdb db] assms
    by (auto simp: grown_def backed_in_def)
next
  case (EvaluateEligibility quality_id now sdb)
  then show ?thesis using eligibility_effect [of w snap quality_id now sdb db] assms by (auto simp: grown_def backed_in_def)
next
  case (PlanExecution eligibility_id now sdb gdb)
  then show ?thesis using plan_effect [of w snap eligibility_id now sdb gdb db] assms by (auto simp: grown_def backed_in_def)
next
  case (AuthorizePlan foundation plan_id now gdb)
  then show ?thesis using authorize_effect_plan [of w snap foundation plan_id now gdb db] assms
    by (auto simp: grown_def backed_in_def)
next
  case (SimulateSettlement so getenv authorization_id now)
  then show ?thesis using simulate_effect [of w snap so getenv authorization_id now db] assms
    by (auto simp: grown_def backed_in_def)
qed

lemma grown_extends: "grown w snap db db' \<Longrightarrow> extends db db'"
  unfolding grown_def by (elim disjE exE conjE) (simp_all add: extends_def)

lemma backed_in_grows: "backed_in w a db \<Longrightarrow> extends a b \<Longrightarrow> backed_in w b db"
  unfolding backed_in_def by (elim conjE, intro conjI) (auto elim!: list.pred_mono_strong intro: backed_grows)

lemma grown_backed:
  assumes "grown w snap db db'" and "backed_in w c db" and "extends snap c"
  shows "backed_in w c db'"
  using assms(1) unfolding grown_def
  by (elim disjE exE conjE) (use assms(2) backed_grows [OF assms(3)] in \<open>simp_all add: backed_in_def\<close>)

lemma grown_ok:
  assumes "grown w snap db db'" and "evidence_ok w db" and "extends snap db"
  shows "evidence_ok w db'"
  using grown_backed [OF assms(1)] backed_in_grows [OF assms(2)] grown_extends [OF assms(1)] extends_trans [OF assms(3)] by blast

definition history_ok :: "evidence_world \<Rightarrow> (evidence_db \<times> pdb) list \<Rightarrow> bool" where
  "history_ok w hist =
     (\<forall>(e, s) \<in> set hist. extends e (fst (hd hist)) \<and> evidence_ok w e \<and> list_all (backed_permit w (fst (hd hist))) (permits s))"

lemma same_permit_backed: "same_permit p q \<Longrightarrow> backed_permit w db p \<Longrightarrow> backed_permit w db q"
  unfolding same_permit_def by (cases p; cases q) (simp add: backed_permit_def)

lemma settled_permits:
  assumes "settlements_wf db" and "list_all (backed_permit w edb) (permits db)"
  shows "list_all (backed_permit w edb) (permits (run_op sha x snap db))"
  using permits_step [OF assms(1), of sha x snap]
proof (elim disjE exE conjE)
  fix pid sid now f
  assume "permits (run_op sha x snap db) = fst (sql_update (permit_open pid sid now) f (permits db))"
    and f: "\<forall>r. pm_permit_id (f r) = pm_permit_id r \<and> pm_state (f r) = ''claimed'' \<and> same_permit r (f r)"
  moreover have "backed_permit w edb (f r)" if "r \<in> set (permits db)" for r
    using that assms(2) f same_permit_backed [of r "f r" w edb] by (simp add: list_all_iff)
  ultimately show ?thesis using assms(2) by (auto simp: list_all_iff set_sql_update)
qed (use assms(2) in simp)

lemma continues_wf: "continues w ok h0 hist \<Longrightarrow> settlements_wf (snd (hd h0)) \<Longrightarrow> settlements_wf (snd (hd hist))"
proof (induction rule: continues.induct)
  case (issue edb sdb past esnap psnap now postgres simulation_id)
  have "ends (\<lambda>db'. settlements db' = settlements sdb)
      (issue_settlement_execution_permit w postgres simulation_id now (fst esnap) (snd psnap) sdb)"
    unfolding issue_settlement_execution_permit_def by (intro ends_rules ends_pair) simp_all
  then show ?case using issue by (simp add: ends_def settlements_wf_def)
qed (auto simp: run_op_wf)

lemma continues_ok:
  "continues w ok h0 hist \<Longrightarrow> settlements_wf (snd (hd h0)) \<Longrightarrow> history_ok w h0 \<Longrightarrow> history_ok w hist"
proof (induction rule: continues.induct)
  case (evidence edb sdb past snap x)
  let ?edb = "run_evidence_op w x (fst snap) edb"
  have snap: "extends (fst snap) edb" "evidence_ok w (fst snap)" "evidence_ok w edb"
    using evidence.IH [OF evidence.prems] evidence.hyps(2) by (auto simp: history_ok_def)
  then have grown: "grown w (fst snap) edb ?edb" by (intro op_grows)
  have ext: "extends edb ?edb" by (rule grown_extends [OF grown])
  have up: "list_all (backed_permit w edb) t \<Longrightarrow> list_all (backed_permit w ?edb) t" for t
    using backed_grows(7) [OF ext] by (simp add: list_all_iff)
  have "evidence_ok w ?edb" using grown_ok [OF grown] snap by blast
  then show ?case using evidence.IH [OF evidence.prems] extends_trans [OF _ ext] by (auto simp: history_ok_def extends_refl intro: up)
next
  case (issue edb sdb past esnap psnap now postgres simulation_id)
  let ?sdb = "snd (issue_settlement_execution_permit w postgres simulation_id now (fst esnap) (snd psnap) sdb)"
  have snap: "extends (fst esnap) edb" "evidence_ok w (fst esnap)" using issue.IH [OF issue.prems] issue.hyps(2) by (auto simp: history_ok_def)
  then have "?sdb = sdb \<or> (\<exists>p. backed_permit w (fst esnap) p \<and> ?sdb = sdb \<lparr> permits := permits sdb @ [p] \<rparr>)"
    by (intro issue_effect) (simp add: backed_in_def)
  then have "list_all (backed_permit w edb) (permits ?sdb)"
    using issue.IH [OF issue.prems] backed_grows(7) [OF snap(1)] by (elim disjE exE conjE) (simp_all add: history_ok_def)
  then show ?case using issue.IH [OF issue.prems] by (auto simp: history_ok_def)
next
  case (settle edb sdb past x snap)
  have "list_all (backed_permit w edb) (permits (run_op (ew_sha w) x snap sdb))"
    using settled_permits continues_wf [OF settle.hyps settle.prems(1)] settle.IH [OF settle.prems] by (auto simp: history_ok_def)
  then show ?case using settle.IH [OF settle.prems] by (auto simp: history_ok_def)
qed

lemma history_wf: "protocol_history w hist \<Longrightarrow> settlements_wf (snd (hd hist))"
  unfolding protocol_history_def by (auto dest: continues_wf)

lemma evidence_history_inv: "protocol_history w hist \<Longrightarrow> history_ok w hist"
  unfolding protocol_history_def
  by (elim exE conjE, drule continues_ok) (auto simp: history_ok_def extends_refl empty_evidence_def backed_in_def)


text \<open>
  C6: an execution claim granted under a permit is backed: when, at any point of such a history, the execution claim of
  a settlement (on an earlier read) is granted with a permit, then the permit leads to an authorisation of this
  settlement by the foundation with an open receipt gate, to a plan without structural blockers, simulated at most ten
  minutes ago, and to a verified delivery of the order that the declared criteria accepted; the settlement row that
  was read has the order of the permit and exactly the gross amount, commission and payout of plan and permit. This is
  about the claim. The amounts of the transaction that the action then builds are taken from its payload, and nothing
  compares them with the row or the permit (\<open>payload_amounts_unchecked\<close>).
\<close>

theorem granted_claim_backed:
  assumes "protocol_history w ((edb, sdb) # past)" and "snap \<in> set ((edb, sdb) # past)" and "permit_id \<noteq> []"
    and "claim_settlement_execution_db (ew_sha w) token now permit_id sid (snd snap) sdb = (answer, sdb')"
    and "dget answer ''broadcast_allowed'' = PBool True"
  shows "\<exists>st p s a pl el q v gross commission payout. find_settlement sid (snd snap) = Some st \<and>
    row_by pm_permit_id permit_id (permits (snd snap)) = Some p \<and> now \<le> pm_expires_at p \<and>
    row_by sm_simulation_id (pm_simulation_id p) (simulations edb) = Some s \<and> now \<le> sm_simulated_at s + 600 \<and>
    row_by au_authorization_id (sf_authorization_id (sm_facts s)) (authorizations edb) = Some a \<and>
    au_authorized_by a = ''foundation'' \<and> dget (au_receipt_gate a) ''release_allowed'' = PBool True \<and>
    row_by pl_plan_id (au_plan_id a) (plans edb) = Some pl \<and> structural_blockers w pl = [] \<and>
    row_by el_eligibility_id (pl_eligibility_id pl) (eligibilities edb) = Some el \<and>
    row_by qv_validation_id (el_quality_validation_id el) (quality_validations edb) = Some q \<and>
    row_by dv_validation_id (qv_delivery_validation_id q) (delivery_validations edb) = Some v \<and>
    qv_decision q = ''accepted_by_explicit_criteria'' \<and> dv_decision v = ''verified_delivery_binding'' \<and>
    pm_settlement_id p = sid \<and> sm_settlement_id s = sid \<and> au_settlement_id a = sid \<and> pl_settlement_id pl = sid \<and>
    st_order_id st = pm_order_id p \<and> st_order_id st = au_order_id a \<and> st_order_id st = dv_order_id v \<and>
    st_gross_minor st = Some gross \<and> pl_gross_minor pl = Some gross \<and> pm_gross_minor p = gross \<and>
    coalesce (st_commission_minor st) (Some 0) = Some commission \<and> pl_commission_minor pl = Some commission \<and>
    pm_commission_minor p = commission \<and>
    coalesce (st_payout_minor st) (Some 0) = Some payout \<and> pl_payout_minor pl = Some payout \<and>
    pm_payout_minor p = payout \<and> 0 < gross \<and> commission + payout = gross"
  using assms(4)
proof (cases rule: claim_cases)
  case refused
  then show ?thesis using assms(5) by simp
next
  case (granted st db1)
  then obtain claim where "claim_permit (ew_sha w) token now permit_id sid st (snd snap) sdb = Inr (claim, db1)"
    using assms(3) by blast
  then show ?thesis
  proof (cases rule: claim_permit_Inr)
    case (1 p claim_id)
    have "p \<in> set (permits (snd snap))" using row_by_SomeD [OF 1(1)] by simp
    then have "backed_permit w edb p" using evidence_history_inv [OF assms(1)] assms(2) by (auto simp: history_ok_def list_all_iff)
    then obtain s a pl where s: "row_by sm_simulation_id (pm_simulation_id p) (simulations edb) = Some s"
        "row_by au_authorization_id (sf_authorization_id (sm_facts s)) (authorizations edb) = Some a"
        "backed_authorization w edb a" "row_by pl_plan_id (au_plan_id a) (plans edb) = Some pl"
      and link: "pm_order_id p = au_order_id a" "sm_settlement_id s = pm_settlement_id p" "au_settlement_id a = pm_settlement_id p"
      and sums: "pl_gross_minor pl = Some (pm_gross_minor p)" "pl_commission_minor pl = Some (pm_commission_minor p)"
        "pl_payout_minor pl = Some (pm_payout_minor p)" "0 < pm_gross_minor p"
        "pm_commission_minor p + pm_payout_minor p = pm_gross_minor p" "pm_expires_at p \<le> sm_simulated_at s + 600"
      unfolding backed_permit_def backed_simulation_def by auto
    from s(3,4) obtain el q v where chain: "structural_blockers w pl = []" "au_order_id a = dv_order_id v"
        "au_settlement_id a = pl_settlement_id pl" "au_authorized_by a = ''foundation''"
        "dget (au_receipt_gate a) ''release_allowed'' = PBool True"
        "row_by el_eligibility_id (pl_eligibility_id pl) (eligibilities edb) = Some el"
        "row_by qv_validation_id (el_quality_validation_id el) (quality_validations edb) = Some q"
        "row_by dv_validation_id (qv_delivery_validation_id q) (delivery_validations edb) = Some v"
        "qv_decision q = ''accepted_by_explicit_criteria''" "dv_decision v = ''verified_delivery_binding''"
      unfolding backed_authorization_def backed_plan_def backed_eligibility_def backed_quality_def by auto
    have p: "pm_settlement_id p = sid" "pm_order_id p = st_order_id st"
      and minor: "st_gross_minor st = Some (pm_gross_minor p)" "coalesce (st_commission_minor st) (Some 0) = Some (pm_commission_minor p)"
        "coalesce (st_payout_minor st) (Some 0) = Some (pm_payout_minor p)"
      using 1(2) sums(4) by (auto simp: permit_matches_def Let_def coalesce_def split: option.splits)
    show ?thesis
      by (intro exI [of _ st] exI [of _ p] exI [of _ s] exI [of _ a] exI [of _ pl] exI [of _ el] exI [of _ q] exI [of _ v]
          exI [of _ "pm_gross_minor p"] exI [of _ "pm_commission_minor p"] exI [of _ "pm_payout_minor p"] conjI)
        (use granted(4) 1(1,3) s(1,2,4) link sums chain p minor in simp_all)
  qed
qed

section \<open>Simulations that run out\<close>

abbreviation simulated_for :: "settlement_simulation \<Rightarrow> string" where
  "simulated_for s \<equiv> sf_authorization_id (sm_facts s)"

text \<open>There is one simulation of an authorisation, in every state of the run.\<close>

lemma simulations_unique_step:
  "unique_by simulated_for (simulations db) \<Longrightarrow> unique_by simulated_for (simulations (run_evidence_op w x snap db))"
proof -
  assume u: "unique_by simulated_for (simulations db)"
  let ?Q = "\<lambda>db'. unique_by simulated_for (simulations db')"
  show ?thesis
  proof (cases x)
    case (Publish q now)
    have "ends ?Q (publish_protocol_evidence w q now snap db)"
      unfolding publish_protocol_evidence_def by (intro ends_rules ends_pair) (use u in simp_all)
    then show ?thesis using Publish by (simp add: ends_def)
  next
    case (ValidateDelivery receipt_id now idb qdb ddb rdb)
    have "ends ?Q (validate_delivery_binding w receipt_id now idb qdb ddb rdb snap db)"
      unfolding validate_delivery_binding_def record_validation_def by (intro ends_rules ends_pair) (use u in simp_all)
    then show ?thesis using ValidateDelivery by (simp add: ends_def)
  next
    case (ValidateQuality aw validation_id now idb rdb)
    have "ends ?Q (validate_delivery_quality w aw validation_id now idb rdb snap db)"
      unfolding validate_delivery_quality_def by (intro ends_rules ends_pyval ends_pair) (use u in simp_all)
    then show ?thesis using ValidateQuality by (simp add: ends_def)
  next
    case (EvaluateEligibility quality_id now sdb)
    have "ends ?Q (evaluate_settlement_eligibility w quality_id now sdb snap db)"
      unfolding evaluate_settlement_eligibility_def record_eligibility_def by (intro ends_rules ends_pair) (use u in simp_all)
    then show ?thesis using EvaluateEligibility by (simp add: ends_def)
  next
    case (PlanExecution eligibility_id now sdb gdb)
    have "ends ?Q (plan_settlement_execution w eligibility_id now sdb gdb snap db)"
      unfolding plan_settlement_execution_def by (intro ends_rules ends_pair) (use u in simp_all)
    then show ?thesis using PlanExecution by (simp add: ends_def)
  next
    case (AuthorizePlan foundation plan_id now gdb)
    have "ends ?Q (authorize_settlement_plan w foundation plan_id now gdb snap db)"
      unfolding authorize_settlement_plan_def by (intro ends_rules ends_pair) (use u in simp_all)
    then show ?thesis using AuthorizePlan by (simp add: ends_def)
  next
    case (SimulateSettlement so getenv authorization_id now)
    have "ends ?Q (simulate_settlement w so getenv authorization_id now snap db)"
      unfolding simulate_settlement_def
      by (intro ends_rules ends_pair)
        (use u in \<open>auto simp: sql_insert_Some simulation_clash_def unique_by_snoc row_by_None_iff\<close>)
    then show ?thesis using SimulateSettlement by (simp add: ends_def)
  qed
qed

lemma simulations_unique_history: "protocol_history w hist \<Longrightarrow> unique_by simulated_for (simulations (fst (hd hist)))"
proof -
  have "continues w ok h0 hist \<Longrightarrow> unique_by simulated_for (simulations (fst (hd h0))) \<Longrightarrow>
      unique_by simulated_for (simulations (fst (hd hist)))" for ok h0
    by (induction rule: continues.induct) (simp_all add: simulations_unique_step)
  then show "protocol_history w hist \<Longrightarrow> ?thesis" unfolding protocol_history_def by (force simp: empty_evidence_def)
qed

definition run_out :: "settlement_simulation \<Rightarrow> (evidence_db \<times> pdb) list \<Rightarrow> bool" where
  "run_out s hist =
     (unique_by simulated_for (simulations (fst (hd hist))) \<and> s \<in> set (simulations (fst (hd hist))) \<and>
      list_all (\<lambda>p. pm_authorization_id p \<noteq> simulated_for s) (permits (snd (hd hist))) \<and>
      (\<forall>(e, d) \<in> set hist. set (simulations e) \<subseteq> set (simulations (fst (hd hist)))))"

lemma refused_permit:
  assumes "unique_by simulated_for (simulations edb)" and "s \<in> set (simulations edb)" and "set (simulations esnap) \<subseteq> set (simulations edb)"
    and "sm_simulated_at s + 300 < now" and "list_all (\<lambda>p. pm_authorization_id p \<noteq> simulated_for s) (permits db)"
  shows "list_all (\<lambda>p. pm_authorization_id p \<noteq> simulated_for s)
    (permits (snd (issue_settlement_execution_permit w postgres simulation_id now esnap snap db)))"
proof -
  have late: "simulated_for s' \<noteq> simulated_for s"
    if "row_by sm_simulation_id simulation_id (simulations esnap) = Some s'" and "\<not> sm_simulated_at s' < now - 300" for s'
  proof
    assume "simulated_for s' = simulated_for s"
    then have "s' = s" using row_by_SomeD [OF that(1)] assms(1-3) unique_by_inj [of simulated_for "simulations edb" s' s] by auto
    then show False using that(2) assms(4) by simp
  qed
  have "ends (\<lambda>db'. list_all (\<lambda>p. pm_authorization_id p \<noteq> simulated_for s) (permits db'))
      (issue_settlement_execution_permit w postgres simulation_id now esnap snap db)"
    unfolding issue_settlement_execution_permit_def
    by (intro ends_rules ends_pair) (use assms(5) in \<open>auto simp: sql_insert_Some dest: late\<close>)
  then show ?thesis by (simp add: ends_def)
qed

lemma same_permit_authorization: "same_permit p q \<Longrightarrow> pm_authorization_id q = pm_authorization_id p"
  unfolding same_permit_def by (cases p; cases q) simp

lemma settled_authorizations:
  assumes "settlements_wf db" and "list_all (\<lambda>p. pm_authorization_id p \<noteq> k) (permits db)"
  shows "list_all (\<lambda>p. pm_authorization_id p \<noteq> k) (permits (run_op sha x snap db))"
  using permits_step [OF assms(1), of sha x snap]
proof (elim disjE exE conjE)
  fix pid sid now f
  assume "permits (run_op sha x snap db) = fst (sql_update (permit_open pid sid now) f (permits db))"
    and f: "\<forall>r. pm_permit_id (f r) = pm_permit_id r \<and> pm_state (f r) = ''claimed'' \<and> same_permit r (f r)"
  moreover have "pm_authorization_id (f r) = pm_authorization_id r" for r using f same_permit_authorization by blast
  ultimately show ?thesis using assms(2) by (auto simp: list_all_iff set_sql_update)
qed (use assms(2) in simp)

lemma run_out_stays:
  "continues w (\<lambda>now. sm_simulated_at s + 300 < now) h0 hist \<Longrightarrow> settlements_wf (snd (hd h0)) \<Longrightarrow> history_ok w h0 \<Longrightarrow>
   run_out s h0 \<Longrightarrow> run_out s hist"
proof (induction rule: continues.induct)
  case (evidence edb sdb past snap x)
  let ?edb = "run_evidence_op w x (fst snap) edb"
  have "history_ok w ((edb, sdb) # past)" by (rule continues_ok [OF evidence.hyps(1) evidence.prems(1,2)])
  then have "evidence_ok w (fst snap)" using evidence.hyps(2) by (auto simp: history_ok_def)
  then have "extends edb ?edb" by (intro grown_extends [OF op_grows])
  then have "set (simulations edb) \<subseteq> set (simulations ?edb)" by (auto simp: extends_def)
  then show ?case using evidence.IH [OF evidence.prems] simulations_unique_step [of edb w x "fst snap"]
    by (fastforce simp: run_out_def)
next
  case (issue edb sdb past esnap psnap now postgres simulation_id)
  have "run_out s ((edb, sdb) # past)" by (rule issue.IH [OF issue.prems])
  then show ?case using refused_permit [of edb s "fst esnap" now sdb w postgres simulation_id "snd psnap"] issue.hyps(2,4)
    by (auto simp: run_out_def)
next
  case (settle edb sdb past x snap)
  then show ?case using settled_authorizations continues_wf [OF settle.hyps settle.prems(1)] by (auto simp: run_out_def)
qed simp

text \<open>
  C33: a simulation that runs out blocks its authorisation for ever: once a simulation is recorded and no permit has been issued
  for its authorisation within five minutes, no continuation of the run ever holds a permit for this
  authorisation: the simulation is not repeated, and the permit is refused.
\<close>

theorem expired_simulation_dead_end:
  assumes "protocol_history w ((edb, sdb) # past)" and "s \<in> set (simulations edb)"
    and "list_all (\<lambda>p. pm_authorization_id p \<noteq> sf_authorization_id (sm_facts s)) (permits sdb)"
    and "continues w (\<lambda>now. sm_simulated_at s + 300 < now) ((edb, sdb) # past) ((edb', sdb') # past')"
  shows "list_all (\<lambda>p. pm_authorization_id p \<noteq> sf_authorization_id (sm_facts s)) (permits sdb')"
proof -
  have ok: "history_ok w ((edb, sdb) # past)" "settlements_wf sdb" using evidence_history_inv history_wf assms(1) by force+
  have "unique_by simulated_for (simulations edb)" using simulations_unique_history assms(1) by force
  moreover have "set (simulations e) \<subseteq> set (simulations edb)" if "(e, d) \<in> set ((edb, sdb) # past)" for e d
    using ok(1) that by (auto simp: history_ok_def extends_def)
  ultimately have "run_out s ((edb, sdb) # past)" using assms(2,3) by (auto simp: run_out_def)
  then show ?thesis using run_out_stays [OF assms(4)] ok by (simp add: run_out_def)
qed

end
