(* ===== verification/EvidenceRun.thy ===== *)
theory EvidenceRun
  imports EvidenceFacts
begin

text \<open>
  One complete run of the registry, from the buyer's published evidence to the permit and to the
  broadcast that claims it. It shows that the histories of \<open>EvidenceFacts\<close> exist and that its statements
  speak about permits that are really issued.
\<close>

section \<open>A complete run\<close>

definition hash64 :: string where
  "hash64 = replicate 64 CHR ''a''"

definition run_world :: evidence_world where
  "run_world = \<lparr> ew_sha = (\<lambda>_. hash64), ew_pubkey = Some, ew_signature = (\<lambda>_. True), ew_verify = (\<lambda>_ _ _. True) \<rparr>"

definition run_wallet :: string where
  "run_wallet = replicate 32 CHR ''W''"

definition run_request :: evidence_request where
  "run_request = \<lparr> rq_type = ''buyer_job_journal'', rq_evidence_id = ''int1'', rq_sha256 = hash64, rq_observed_at = 90,
     rq_wallet = run_wallet, rq_signature = replicate 64 CHR ''s'' \<rparr>"

definition run_identity :: identity_db where
  "run_identity = \<lparr> challenges = [], wallet_sessions = [], policies = [], reservations = [],
     intents = [\<lparr> bi_decision_id = ''int1'', bi_wallet = run_wallet, bi_key = ''k'', bi_request_hash = ''h'',
       bi_request = [(''acceptance_criteria'', PDict [])], bi_selection = [], bi_seller_agent = None, bi_agent = None,
       bi_item = None, bi_unit_price = None, bi_currency = None, bi_created_at = 1, bi_expires_at = 900,
       bi_consumed_at = Some 2, bi_order_id = Some ''o1'' \<rparr>] \<rparr>"

definition run_receipt :: receipt where
  "run_receipt = \<lparr> rt_quote_id = ''q1'', rt_order_id = ''o1'', rt_channel = ''api_pull'', rt_destination = [],
     rt_state = ''accepted'', rt_payload_digest = Some hash64, rt_receipt_token = ''cdr'', rt_configured_at = 1,
     rt_payload_ready_at = Some 5, rt_dispatched_at = None, rt_accepted_at = Some 6, rt_disputed_at = None,
     rt_dispute_code = None, rt_buyer_message = None, rt_dispatch_attempts = 0, rt_dispatch_next = None,
     rt_dispatch_error = None, rt_dispatch_response = None, rt_dispatch_signature = None, rt_dispatch_signer = None,
     rt_provider_status = None, rt_provider_event_at = None, rt_provider_message_id = None,
     rt_sealed_payload = Some (PDict [(''summary'', PStr ''done'')]), rt_inbox_opened_at = Some 6,
     rt_inbox_signature = None, rt_inbox_signer = None, rt_updated_at = 6 \<rparr>"

definition run_checkout :: checkout_db where
  "run_checkout = empty_checkout \<lparr>
     quotes := [\<lparr> qt_quote_id = ''q1'', qt_order_id = ''o1'', qt_buyer_wallet = run_wallet, qt_route = ''direct'',
       qt_state = ''confirmed'', qt_payload = PNone, qt_created_at = 1, qt_tx_signature = Some ''tx'', qt_input_asset = ''USDC'', qt_required_iat = ''1'',
       qt_intent_hash = ''h'', qt_request_hash = ''h'', qt_key = ''k'', qt_expires_at = 60, qt_updated_at = 1, qt_evidence = None \<rparr>],
     deliveries := [\<lparr> dl_quote_id = ''q1'', dl_order_id = ''o1'', dl_tx_signature = ''tx'', dl_state = ''completed'',
       dl_attempt_count = 1, dl_next_attempt_at = 0, dl_lease_token = None, dl_lease_until = None,
       dl_last_error = None, dl_result = None, dl_settlement_state = ''completed'', dl_settlement_attempts = 1,
       dl_settlement_next = None, dl_settlement_error = None, dl_created_at = 0, dl_updated_at = 0,
       dl_completed_at = Some 4 \<rparr>], receipts := [run_receipt] \<rparr>"

definition run_acceptance :: acceptance_world where
  "run_acceptance = \<lparr> aw_parse = (\<lambda>_. Some \<lparr> cr_fields = [''summary''], cr_min_sources = 0, cr_min_confidence = None,
     cr_min_claims = 0, cr_decision = False, cr_signed = False \<rparr>), aw_confidence = (\<lambda>_ _. (True, PNone)), aw_int = (\<lambda>_. None) \<rparr>"

definition run_solana :: solana where
  "run_solana = \<lparr> so_pubkey = (\<lambda>_. Some ''K''), so_token_account = (\<lambda>_ _. ''A''),
     so_rpc = (\<lambda>m _. Inr (if m = ''getGenesisHash'' then PStr devnet_genesis
       else if m = ''getAccountInfo''
       then PDict [(''value'', PDict [(''owner'', PStr token_program), (''data'', PDict [(''parsed'', PDict [(''info'',
              PDict [(''decimals'', PInt 8), (''mint'', PStr ''K''), (''owner'', PStr ''K''),
                     (''tokenAmount'', PDict [(''amount'', PInt 900000000)])])])])])]
       else PDict [(''value'', PDict [])])),
     so_blockhash = (\<lambda>_. True), so_compile = (\<lambda>_ _ _. (''raw'', 1)), so_base64 = (\<lambda>s. s), so_sha = (\<lambda>_. hash64),
     so_int = (\<lambda>v. case v of PInt i \<Rightarrow> Some i | _ \<Rightarrow> None) \<rparr>"

definition run_evidence :: evidence where
  "run_evidence = new_evidence run_world run_request 100"

lemma run_texts [simp]:
  "length hash64 = 64" "hex64 hash64" "py_lower hash64 = hash64" "length run_wallet = 32"
  "list_all (\<lambda>c. (of_char c :: nat) < 128) run_wallet"
proof -
  show "length hash64 = 64" "length run_wallet = 32" by (simp_all add: hash64_def run_wallet_def)
  then show "hex64 hash64" by (simp add: hex64_def) (simp add: hash64_def list_all_iff)
  show "py_lower hash64 = hash64" by (simp add: py_lower_def hash64_def py_lower_char_def)
  show "list_all (\<lambda>c. (of_char c :: nat) < 128) run_wallet" by (simp add: run_wallet_def list_all_iff)
qed

lemma run_world_simps [simp]:
  "ew_sha run_world x = hash64" "ew_pubkey run_world y = Some y" "ew_signature run_world z" "ew_verify run_world a b c"
  by (simp_all add: run_world_def)

lemma publish_run:
  "run_evidence_op run_world (Publish run_request 100) empty_evidence empty_evidence = empty_evidence \<lparr> evidences := [run_evidence] \<rparr>"
proof -
  have "evidence_id_char c" if "c \<in> set ''int1''" for c using that by (auto simp: evidence_id_char_def)
  then show ?thesis
    by (simp add: publish_protocol_evidence_def valid_request_def run_request_def build_evidence_message_def Let_def
        find_evidence_def empty_evidence_def sql_insert_def run_evidence_def)
qed

definition run_validation :: delivery_validation where
  "run_validation = new_validation run_world run_evidence ''o1'' ''q1'' ''tx'' run_receipt ''verified_delivery_binding''
     ''protocol_checkout_execution_delivery_and_opening_bound'' 110"

lemma run_evidence_fields [simp]:
  "ev_receipt_id run_evidence = ''per_'' @ take 24 hash64" "ev_evidence_id run_evidence = ''int1''" "ev_wallet run_evidence = run_wallet"
  by (simp_all add: run_evidence_def new_evidence_def run_request_def Let_def)

lemma run_receipt_facts [simp]:
  "digest_valid run_world run_receipt" "validate_inbox_signature run_world run_receipt = ''not_configured''"
  "rt_quote_id run_receipt = ''q1''" "rt_order_id run_receipt = ''o1''" "rt_state run_receipt = ''accepted''"
  "rt_inbox_opened_at run_receipt = Some 6" "rt_sealed_payload run_receipt = Some (PDict [(''summary'', PStr ''done'')])"
  by (simp_all add: digest_valid_def sealed_text_def text_of_def run_receipt_def validate_inbox_signature_def)

definition evidence_1 :: evidence_db where "evidence_1 = empty_evidence \<lparr> evidences := [run_evidence] \<rparr>"
definition evidence_2 :: evidence_db where "evidence_2 = evidence_1 \<lparr> delivery_validations := [run_validation] \<rparr>"

lemma validate_run:
  "run_evidence_op run_world (ValidateDelivery (''per_'' @ take 24 hash64) 110 run_identity run_checkout run_checkout run_checkout)
     evidence_1 evidence_1 = evidence_2"
  by (simp add: validate_delivery_binding_def find_validation_def evidence_1_def evidence_2_def empty_evidence_def row_by_Cons
      lookup_journey_def run_identity_def run_checkout_def empty_checkout_def sql_order_limit_def text_of_def find_delivery_def
      get_delivery_receipt_def Let_def record_validation_def sql_insert_def run_validation_def)

definition run_criteria :: criteria where
  "run_criteria = \<lparr> cr_fields = [''summary''], cr_min_sources = 0, cr_min_confidence = None, cr_min_claims = 0,
     cr_decision = False, cr_signed = False \<rparr>"

definition run_quality :: quality_validation where
  "run_quality = new_quality_validation run_world run_validation run_criteria
     (evaluate_acceptance (\<lambda>_ _. (True, PNone)) (\<lambda>_. None) run_criteria [(''summary'', PStr ''done'')] ''not_configured'') 120"

lemma run_validation_fields [simp]:
  "dv_validation_id run_validation = ''pdv_'' @ take 24 hash64" "dv_decision run_validation = ''verified_delivery_binding''"
  "dv_evidence_id run_validation = ''int1''" "dv_quote_id run_validation = ''q1''" "dv_order_id run_validation = ''o1''"
  "dv_signature_status run_validation = ''not_configured''" "dv_receipt_id run_validation = ''per_'' @ take 24 hash64"
  by (simp_all add: run_validation_def new_validation_def Let_def)

lemma run_criteria_valid: "validate_contract run_criteria = Inr run_criteria"
  by (simp add: validate_contract_def run_criteria_def public_result_fields_def py_strip_def py_lstrip_def py_space_def)

definition evidence_3 :: evidence_db where "evidence_3 = evidence_2 \<lparr> quality_validations := [run_quality] \<rparr>"

lemmas run_tables = evidence_1_def evidence_2_def evidence_3_def empty_evidence_def

lemma quality_run:
  "run_evidence_op run_world (ValidateQuality run_acceptance (''pdv_'' @ take 24 hash64) 120 run_identity run_checkout)
     evidence_2 evidence_2 = evidence_3"
proof -
  have "declared_criteria (aw_parse run_acceptance) [(''acceptance_criteria'', PDict [])] = Inr run_criteria"
    using run_criteria_valid by (simp add: declared_criteria_def run_acceptance_def run_criteria_def [symmetric])
  then show ?thesis
    by (simp add: validate_delivery_quality_def find_quality_validation_def run_tables row_by_Cons run_identity_def
        run_checkout_def empty_checkout_def get_delivery_receipt_def Let_def sql_insert_def run_quality_def run_acceptance_def)
qed

lemma run_quality_fields [simp]:
  "qv_validation_id run_quality = ''pqv_'' @ take 24 hash64" "qv_delivery_validation_id run_quality = ''pdv_'' @ take 24 hash64"
  "qv_decision run_quality = ''accepted_by_explicit_criteria''"
  by (simp_all add: run_quality_def new_quality_validation_def Let_def evaluate_acceptance_def acceptance_checks_def
      run_criteria_def field_present_def)

definition run_eligibility :: eligibility where
  "run_eligibility = new_eligibility run_world run_quality run_validation (Some ''s1'') ''eligible_for_governed_release''
     ''explicit_quality_criteria_and_delivery_binding_passed'' 130"

definition evidence_4 :: evidence_db where "evidence_4 = evidence_3 \<lparr> eligibilities := [run_eligibility] \<rparr>"

lemma run_settlement: "get_settlement_by_order_id_db sample_pdb ''o1'' = Some sample_settlement"
  by (simp add: get_settlement_by_order_id_db_def sample_pdb_def sql_order_limit_def sample_settlement_def)

lemma eligibility_run:
  "run_evidence_op run_world (EvaluateEligibility (''pqv_'' @ take 24 hash64) 130 sample_pdb) evidence_3 evidence_3 = evidence_4"
proof -
  have "settlement_id_of (Some sample_settlement) = Some ''s1''" by (simp add: settlement_id_of_def sample_settlement_def)
  then show ?thesis
    by (simp add: evaluate_settlement_eligibility_def find_eligibility_def run_tables evidence_4_def row_by_Cons
        quality_with_delivery_def Let_def run_settlement record_eligibility_def sql_insert_def run_eligibility_def)
qed

lemma run_eligibility_fields [simp]:
  "el_eligibility_id run_eligibility = ''pse_'' @ take 24 hash64" "el_order_id run_eligibility = ''o1''"
  "el_decision run_eligibility = ''eligible_for_governed_release''"
  by (simp_all add: run_eligibility_def new_eligibility_def Let_def)

definition run_gate :: pydict where
  "run_gate = [(''release_allowed'', PBool True), (''reason'', PStr ''buyer_accepted_sealed_delivery''),
     (''receipt_state'', PStr ''accepted''), (''payload_digest'', PStr hash64)]"

lemma run_gate: "settlement_release_receipt_gate ''o1'' run_checkout = run_gate"
proof -
  have "rt_payload_digest run_receipt = Some hash64" by (simp add: run_receipt_def)
  then show ?thesis
    by (simp add: settlement_release_receipt_gate_def get_delivery_receipt_by_order_def run_checkout_def empty_checkout_def
        row_by_Cons Let_def run_gate_def pstr_opt_def)
qed

definition run_plan :: execution_plan where
  "run_plan = new_plan run_world run_eligibility sample_settlement (Some 500000000) (Some 100000000) (Some 400000000)
     [''foundation_release_authorization_not_evaluated''] run_gate 140"

definition evidence_5 :: evidence_db where "evidence_5 = evidence_4 \<lparr> plans := [run_plan] \<rparr>"

lemma plan_run:
  "run_evidence_op run_world (PlanExecution (''pse_'' @ take 24 hash64) 140 sample_pdb run_checkout) evidence_4 evidence_4 = evidence_5"
proof -
  have "wallet_blockers run_world (st_winner_wallet sample_settlement) (st_treasury_wallet sample_settlement) = []"
    by (simp add: wallet_blockers_def valid_wallet_def)
  moreover have "st_settlement_id sample_settlement \<noteq> []" by (simp add: sample_settlement_def)
  moreover have "minor_amount (st_gross_minor sample_settlement) (st_gross_amount_iat sample_settlement) = Inr (Some 500000000)"
    "minor_amount (st_commission_minor sample_settlement) (st_commission_amount_iat sample_settlement) = Inr (Some 100000000)"
    "minor_amount (st_payout_minor sample_settlement) (st_payout_amount_iat sample_settlement) = Inr (Some 400000000)"
    by (simp_all add: minor_amount_def sample_settlement_def)
  moreover have "gate_blockers run_gate = []" by (simp add: gate_blockers_def run_gate_def)
  ultimately show ?thesis
    by (simp add: plan_settlement_execution_def find_plan_def run_tables evidence_4_def evidence_5_def row_by_Cons run_settlement
        run_gate Let_def amount_blockers_def sql_insert_def run_plan_def)
qed

lemma run_plan_fields [simp]:
  "pl_plan_id run_plan = ''psp_'' @ take 24 hash64" "pl_order_id run_plan = ''o1''" "pl_gross_minor run_plan = Some 500000000"
  "pl_commission_minor run_plan = Some 100000000" "pl_payout_minor run_plan = Some 400000000" "pl_settlement_id run_plan = ''s1''"
  "pl_blockers run_plan = [''foundation_release_authorization_not_evaluated'']"
  by (simp_all add: run_plan_def new_plan_def Let_def sample_settlement_def)

definition run_answer :: pydict where
  "run_answer =
     [(''release_authorized'', PBool True), (''authorized_by'', PStr ''foundation''), (''authorization_reason'', PNone),
      (''authorization_mode'', PNone), (''release_block_reasons'', PNone), (''financial_risk'', PNone),
      (''order_id'', PStr ''o1''), (''financial_release_confidence'', PNone), (''final_delivery_receipt'', PDict run_gate)]"

definition run_authorization :: release_authorization where
  "run_authorization = new_authorization run_world run_plan run_answer 150"

definition evidence_6 :: evidence_db where "evidence_6 = evidence_5 \<lparr> authorizations := [run_authorization] \<rparr>"

lemma run_structural: "structural_blockers run_world run_plan = []"
proof -
  have "wallet_blockers run_world (pl_winner_wallet run_plan) (pl_treasury_wallet run_plan) = []"
    by (simp add: run_plan_def new_plan_def Let_def wallet_blockers_def valid_wallet_def)
  then show ?thesis by (simp add: structural_blockers_def plan_amount_blockers_def structural_def)
qed

lemma authorize_run:
  "run_evidence_op run_world (AuthorizePlan (\<lambda>_. Some [(''release_authorized'', PBool True)]) (''psp_'' @ take 24 hash64) 150 run_checkout)
     evidence_5 evidence_5 = evidence_6"
proof -
  have "authorize_settlement_release (\<lambda>_. Some [(''release_authorized'', PBool True)]) ''o1'' run_checkout = Some run_answer"
    by (simp add: authorize_settlement_release_def run_gate Let_def run_answer_def) (simp add: run_gate_def)
  then show ?thesis
    by (simp add: authorize_settlement_plan_def find_authorization_def run_tables evidence_4_def evidence_5_def evidence_6_def
        row_by_Cons run_structural run_answer_def run_gate_def Let_def sql_insert_def run_authorization_def)
qed

lemma run_authorization_fields [simp]:
  "au_authorization_id run_authorization = ''psa_'' @ take 24 hash64" "au_plan_id run_authorization = ''psp_'' @ take 24 hash64"
  "au_order_id run_authorization = ''o1''" "au_settlement_id run_authorization = ''s1''"
  by (simp_all add: run_authorization_def new_authorization_def Let_def)

definition run_facts :: simulation_facts where
  "run_facts =
     \<lparr> sf_authorization_id = ''psa_'' @ take 24 hash64, sf_cluster = ''solana-devnet'', sf_genesis_hash = devnet_genesis,
       sf_mint = ''K'', sf_escrow = ''K'', sf_source_account = ''A'', sf_treasury_account = ''A'', sf_winner_account = ''A'',
       sf_gross = 500000000, sf_commission = 100000000, sf_payout = 400000000, sf_instruction_count = 3,
       sf_signature_count = 1, sf_transaction_sha = hash64, sf_logs_sha = hash64, sf_units = PNone, sf_slot = PNone \<rparr>"

definition run_simulation :: settlement_simulation where
  "run_simulation = new_simulation run_world run_authorization run_facts 160"

definition evidence_7 :: evidence_db where "evidence_7 = evidence_6 \<lparr> simulations := [run_simulation] \<rparr>"

lemma run_solana_simps [simp]:
  "so_pubkey run_solana k = Some ''K''" "so_token_account run_solana k m = ''A''" "so_blockhash run_solana h"
  "so_compile run_solana x k m = (''raw'', 1)" "so_base64 run_solana k = k" "so_sha run_solana k = hash64"
  "so_int run_solana (PInt i) = Some i"
  "so_rpc run_solana ''getGenesisHash'' q = Inr (PStr devnet_genesis)"
  "so_rpc run_solana ''getLatestBlockhash'' q = Inr (PDict [(''value'', PDict [])])"
  "so_rpc run_solana ''simulateTransaction'' q = Inr (PDict [(''value'', PDict [])])"
  by (simp_all add: run_solana_def)

lemma run_account:
  "parsed_account run_solana k = Inr (Some [(''owner'', PStr token_program), (''data'', PDict [(''parsed'', PDict [(''info'',
     PDict [(''decimals'', PInt 8), (''mint'', PStr ''K''), (''owner'', PStr ''K''),
            (''tokenAmount'', PDict [(''amount'', PInt 900000000)])])])])])"
  by (simp add: parsed_account_def run_solana_def is_dict_def)

lemma run_settings:
  "\<exists>st. configured_simulation_context (\<lambda>_. None) = Inr st \<and> ss_cluster st = ''solana-devnet''"
  by (simp add: configured_simulation_context_def Let_def allowed_clusters_def py_strip_def py_lstrip_def py_space_def
      contains_text_def py_lower_def py_lower_char_def upt_rec)

lemma simulated_run:
  "simulate_authorized_settlement run_solana (\<lambda>_. None) (''psa_'' @ take 24 hash64) ''s1'' ''o1'' x y
     500000000 100000000 400000000 = Inr run_facts"
proof -
  obtain st where st: "configured_simulation_context (\<lambda>_. None) = Inr st" "ss_cluster st = ''solana-devnet''"
    using run_settings by blast
  have "check_genesis run_solana st = Inr devnet_genesis"
    by (simp add: check_genesis_def st(2) Let_def py_str_def) (simp add: devnet_genesis_def)
  moreover have "check_mint run_solana ''K'' = Inr ()"
    by (simp add: check_mint_def run_account parsed_info_def lift_code_def iat_decimals_def dget_or_def)
  moreover have "check_escrow_balance run_solana ''K'' ''K'' 500000000 = Inr ()"
    by (simp add: check_escrow_balance_def run_account parsed_info_def)
  moreover have "account_missing run_solana ''K'' ''K'' f = Inr False" for f
    by (simp add: account_missing_def run_account parsed_info_def)
  moreover have "simulate_transaction run_solana xs ''K'' = Inr (hash64, 1, [], [])" for xs
    by (simp add: simulate_transaction_def as_dict_def)
  ultimately show ?thesis
    by (simp add: simulate_authorized_settlement_def st lift_code_def lift_error_def read_key_def
        build_atomic_settlement_instructions_def transfer_to_def settlement_memo_def run_facts_def)
qed

lemma simulate_run:
  "run_evidence_op run_world (SimulateSettlement run_solana (\<lambda>_. None) (''psa_'' @ take 24 hash64) 160) evidence_6 evidence_6
     = evidence_7"
  by (simp add: simulate_settlement_def find_simulation_def run_tables evidence_4_def evidence_5_def evidence_6_def
      evidence_7_def authorized_plan_def row_by_Cons simulated_run [simplified] Let_def sql_insert_def run_simulation_def)

lemma run_simulation_fields [simp]:
  "sm_simulation_id run_simulation = ''pss_'' @ take 24 hash64" "sm_plan_id run_simulation = ''psp_'' @ take 24 hash64"
  "sm_facts run_simulation = run_facts" "sm_simulated_at run_simulation = 160" "sm_settlement_id run_simulation = ''s1''"
  "sm_order_id run_simulation = ''o1''"
  by (simp_all add: run_simulation_def new_simulation_def Let_def)

section \<open>The permit\<close>

definition run_permit :: permit where
  "run_permit = new_permit run_world run_simulation 500000000 100000000 400000000 170"

definition permitted_pdb :: pdb where
  "permitted_pdb = sample_pdb \<lparr> permits := [run_permit] \<rparr>"

lemma issue_run:
  "snd (issue_settlement_execution_permit run_world False (''pss_'' @ take 24 hash64) 170 evidence_7 sample_pdb sample_pdb)
     = permitted_pdb"
  by (simp add: issue_settlement_execution_permit_def find_permit_def sample_pdb_def permitted_pdb_def run_tables
      evidence_4_def evidence_5_def evidence_6_def evidence_7_def row_by_Cons run_facts_def allowed_clusters_def
      joined_amounts_def Let_def sql_insert_def run_permit_def)

abbreviation run_past :: "(evidence_db \<times> pdb) list" where
  "run_past \<equiv> map (\<lambda>e. (e, sample_pdb))
     [evidence_6, evidence_5, evidence_4, evidence_3, evidence_2, evidence_1, empty_evidence]"

lemma registry_step:
  "protocol_history w ((edb, sdb) # past) \<Longrightarrow> run_evidence_op w x edb edb = edb' \<Longrightarrow>
   protocol_history w ((edb', sdb) # (edb, sdb) # past)"
  unfolding protocol_history_def using continues.evidence [of w _ _ edb sdb past "(edb, sdb)" x] by auto

lemma run_history: "protocol_history run_world ((evidence_7, sample_pdb) # run_past)"
proof -
  have "settlements_wf sample_pdb" by (simp add: settlements_wf_def sample_pdb_def unique_by_def sample_settlement_def)
  then have "protocol_history run_world [(empty_evidence, sample_pdb)]"
    unfolding protocol_history_def by (intro exI [of _ sample_pdb] conjI continues.start) (simp_all add: sample_pdb_def)
  then show ?thesis
    unfolding list.map
    by (intro registry_step [OF _ simulate_run] registry_step [OF _ authorize_run] registry_step [OF _ plan_run]
        registry_step [OF _ eligibility_run] registry_step [OF _ quality_run] registry_step [OF _ validate_run]
        registry_step [OF _ publish_run [folded evidence_1_def]])
qed

lemma permitted_history: "protocol_history run_world ((evidence_7, permitted_pdb) # (evidence_7, sample_pdb) # run_past)"
  using run_history issue_run continues.issue [of run_world "\<lambda>_. True" _ evidence_7 sample_pdb run_past
      "(evidence_7, sample_pdb)" "(evidence_7, sample_pdb)" 170 False "''pss_'' @ take 24 hash64"]
  unfolding protocol_history_def by auto


lemma granted_claim_backed_witness:
  "\<exists>st (a :: release_authorization) (pl :: execution_plan) gross. find_settlement ''s1'' permitted_pdb = Some st \<and>
     au_authorized_by a = ''foundation'' \<and> st_order_id st = au_order_id a \<and> st_gross_minor st = Some gross \<and>
     pl_gross_minor pl = Some gross \<and>
     dget (fst (claim_settlement_execution_db (ew_sha run_world) ''t'' 200 (''pep_'' @ take 24 hash64) ''s1'' permitted_pdb permitted_pdb))
       ''broadcast_allowed'' = PBool True"
proof -
  let ?r = "claim_settlement_execution_db (ew_sha run_world) ''t'' 200 (''pep_'' @ take 24 hash64) ''s1'' permitted_pdb permitted_pdb"
  have "find_settlement ''s1'' permitted_pdb = Some sample_settlement"
    by (simp add: find_settlement_def permitted_pdb_def sample_pdb_def row_by_Cons) (simp add: sample_settlement_def)
  moreover have "permit_matches run_permit ''s1'' sample_settlement"
    by (simp add: permit_matches_def run_permit_def new_permit_def Let_def) (simp add: sample_settlement_def)
  moreover have "pm_permit_id run_permit = ''pep_'' @ take 24 hash64" "pm_state run_permit = ''issued''" "pm_expires_at run_permit = 470"
      "pm_settlement_id run_permit = ''s1''"
    by (simp_all add: run_permit_def new_permit_def Let_def)
  moreover have "claimable ''s1'' sample_settlement" "st_commission_tx sample_settlement = None"
      "st_payout_tx sample_settlement = None" "st_claim_status sample_settlement = Some ''unclaimed''"
    by (simp_all add: claimable_def sample_settlement_def coalesce_def)
  ultimately have *: "dget (fst ?r) ''broadcast_allowed'' = PBool True"
    by (simp add: claim_settlement_execution_db_def claim_permit_def permitted_pdb_def sample_pdb_def row_by_Cons Let_def
        or_text_def some_text_def sql_update_def)
  have 1: "(evidence_7, permitted_pdb) \<in> set ((evidence_7, permitted_pdb) # (evidence_7, sample_pdb) # run_past)" by simp
  have 2: "''pep_'' @ take 24 hash64 \<noteq> []" by simp
  have 3: "claim_settlement_execution_db (ew_sha run_world) ''t'' 200 (''pep_'' @ take 24 hash64) ''s1''
      (snd (evidence_7, permitted_pdb)) permitted_pdb = (fst ?r, snd ?r)" by simp
  from granted_claim_backed [OF permitted_history 1 2 3 *] * show ?thesis
    unfolding snd_conv by (elim exE conjE) (intro exI conjI, assumption+)
qed

lemma expired_simulation_dead_end_witness:
  "list_all (\<lambda>p. pm_authorization_id p \<noteq> ''psa_'' @ take 24 hash64)
     (permits (snd (issue_settlement_execution_permit run_world False (''pss_'' @ take 24 hash64) 461 evidence_7 sample_pdb sample_pdb)))"
proof -
  let ?db = "snd (issue_settlement_execution_permit run_world False (''pss_'' @ take 24 hash64) 461 evidence_7 sample_pdb sample_pdb)"
  have "continues run_world (\<lambda>now. sm_simulated_at run_simulation + 300 < now) ((evidence_7, sample_pdb) # run_past)
      ((evidence_7, ?db) # (evidence_7, sample_pdb) # run_past)"
    using continues.issue [OF continues.start, where esnap = "(evidence_7, sample_pdb)" and psnap = "(evidence_7, sample_pdb)"]
    by simp
  moreover have "run_simulation \<in> set (simulations evidence_7)" by (simp add: evidence_7_def)
  ultimately show ?thesis
    using expired_simulation_dead_end [OF run_history, of run_simulation] by (simp add: sample_pdb_def run_facts_def)
qed

end
