(* ===== verification/CheckoutQuoting.thy ===== *)
theory CheckoutQuoting
  imports DecimalText SettlementSimulation Ledger
begin

text \<open>
  Hybrid quotes of the universal checkout (\<open>iat/checkout.py\<close>) and the configuration they are computed
  from (\<open>iat/api/checkout_api.py\<close>). JSON text of the environment is an argument that is already decoded,
  \<open>int(v)\<close> of a decoded value is the argument \<open>to_int\<close> (\<open>None\<close>: it raises), so is SHA-256.
\<close>

text \<open>A \<open>CheckoutRejected\<close> with its details, an exception of \<open>int()\<close>, a signal of the decimal context.\<close>

datatype quote_error = Rejected string pydict | NotAnInteger | DecSignal dec_error

definition decimal :: "dec_error + 'a \<Rightarrow> quote_error + 'a" where
  "decimal m = (case m of Inl e \<Rightarrow> Inl (DecSignal e) | Inr x \<Rightarrow> Inr x)"

definition rejected :: "string \<Rightarrow> quote_error + 'a" where
  "rejected code = Inl (Rejected code [])"

definition integer :: "int option \<Rightarrow> quote_error + int" where
  "integer i = (case i of None \<Rightarrow> Inl NotAnInteger | Some n \<Rightarrow> Inr n)"

definition decimal_value :: "string \<Rightarrow> string \<Rightarrow> quote_error + fdec" where
  "decimal_value text name =
     (case dec_of_string text of Some (DFin d) \<Rightarrow> Inr d | _ \<Rightarrow> rejected (''invalid_'' @ name))"

section \<open>Snapshots and policy\<close>

record asset_snapshot =
  as_symbol :: string
  as_mint :: string
  as_decimals :: int
  as_usd_price :: fdec
  as_oracle :: string
  as_observed_at :: int

definition asset_from_mapping :: "(pyval \<Rightarrow> int option) \<Rightarrow> string \<Rightarrow> pydict \<Rightarrow> quote_error + asset_snapshot" where
  "asset_from_mapping to_int symbol value =
     (let normalized = py_upper (py_strip symbol);
          mint = py_strip (str_or_empty (dget value ''mint''));
          oracle = py_strip (str_or_empty (dget value ''oracle''))
      in sum_bind (integer (to_int (dget_or value ''decimals'' (PInt (- 1))))) (\<lambda>decimals.
         sum_bind (integer (to_int (dget_or value ''observed_at'' (PInt 0)))) (\<lambda>observed_at.
         sum_bind (decimal_value (py_str (dget value ''usd_price'')) ''asset_usd_price'') (\<lambda>usd_price.
           if normalized = [] \<or> mint = [] \<or> oracle = [] then rejected ''invalid_asset_snapshot''
           else if \<not> (0 \<le> decimals \<and> decimals \<le> 18) \<or> dec_le usd_price dec_zero \<or> observed_at \<le> 0
           then rejected ''invalid_asset_snapshot''
           else Inr \<lparr> as_symbol = normalized, as_mint = mint, as_decimals = decimals, as_usd_price = usd_price,
                      as_oracle = oracle, as_observed_at = observed_at \<rparr>))))"

record raydium_snapshot =
  ry_input :: fdec
  ry_output :: fdec
  ry_impact_bps :: int
  ry_liquidity_usd :: fdec
  ry_pool_id :: string
  ry_observed_at :: int

definition raydium_from_mapping :: "(pyval \<Rightarrow> int option) \<Rightarrow> pydict \<Rightarrow> quote_error + raydium_snapshot" where
  "raydium_from_mapping to_int value =
     sum_bind (decimal_value (py_str (dget value ''input_amount'')) ''raydium_input_amount'') (\<lambda>input.
     sum_bind (decimal_value (py_str (dget value ''output_iat'')) ''raydium_output_iat'') (\<lambda>output.
     sum_bind (integer (to_int (dget_or value ''price_impact_bps'' (PInt (- 1))))) (\<lambda>impact.
     sum_bind (decimal_value (py_str (dget value ''pool_liquidity_usd'')) ''raydium_pool_liquidity'') (\<lambda>liquidity.
     sum_bind (integer (to_int (dget_or value ''observed_at'' (PInt 0)))) (\<lambda>observed_at.
       Inr \<lparr> ry_input = input, ry_output = output, ry_impact_bps = impact, ry_liquidity_usd = liquidity,
             ry_pool_id = py_strip (str_or_empty (dget value ''pool_id'')), ry_observed_at = observed_at \<rparr>)))))"

record checkout_policy =
  po_treasury_enabled :: bool
  po_raydium_enabled :: bool
  po_ttl :: int
  po_oracle_max_age :: int
  po_spread_bps :: int
  po_max_order :: fdec
  po_wallet_cap :: fdec
  po_treasury_cap :: fdec
  po_inventory :: fdec
  po_reference_price :: fdec
  po_max_impact_bps :: int
  po_min_liquidity :: fdec
  po_max_deviation_bps :: int
  po_pools :: "string list"
  po_program_id :: string
  po_vault :: string

definition validate_policy :: "checkout_policy \<Rightarrow> quote_error + unit" where
  "validate_policy p =
     (if list_ex (\<lambda>v. v < 0) [po_ttl p, po_oracle_max_age p, po_spread_bps p, po_max_impact_bps p, po_max_deviation_bps p]
      then rejected ''invalid_checkout_policy''
      else if \<not> (10 \<le> po_ttl p \<and> po_ttl p \<le> 300) then rejected ''invalid_quote_ttl''
      else if po_treasury_enabled p \<and> (dec_le (po_reference_price p) dec_zero \<or> dec_le (po_inventory p) dec_zero)
      then rejected ''treasury_not_funded_or_priced''
      else Inr ())"

section \<open>Configuration\<close>

definition env_text :: "env \<Rightarrow> string \<Rightarrow> string \<Rightarrow> string" where
  "env_text getenv name fallback = (case getenv name of None \<Rightarrow> fallback | Some x \<Rightarrow> x)"

definition bool_env :: "env \<Rightarrow> string \<Rightarrow> bool" where
  "bool_env getenv name =
     (py_lower (py_strip (env_text getenv name ''False'')) \<in> {''1'', ''true'', ''yes'', ''on''})"

definition decimal_env :: "env \<Rightarrow> string \<Rightarrow> string \<Rightarrow> quote_error + fdec" where
  "decimal_env getenv name fallback = decimal_value (env_text getenv name fallback) (py_lower name)"

definition int_env :: "env \<Rightarrow> string \<Rightarrow> string \<Rightarrow> quote_error + int" where
  "int_env getenv name fallback = integer (py_int_of_string (env_text getenv name fallback))"

fun split_comma :: "string \<Rightarrow> string \<Rightarrow> string list" where
  "split_comma acc [] = [acc]"
| "split_comma acc (c # cs) = (if c = CHR '','' then acc # split_comma [] cs else split_comma (acc @ [c]) cs)"

definition load_checkout_policy :: "env \<Rightarrow> quote_error + checkout_policy" where
  "load_checkout_policy getenv =
     sum_bind (int_env getenv ''IAT_CHECKOUT_QUOTE_TTL_SECONDS'' ''60'') (\<lambda>ttl.
     sum_bind (int_env getenv ''IAT_CHECKOUT_ORACLE_MAX_AGE_SECONDS'' ''90'') (\<lambda>max_age.
     sum_bind (int_env getenv ''IAT_TREASURY_SPREAD_BPS'' ''50'') (\<lambda>spread.
     sum_bind (decimal_env getenv ''IAT_CHECKOUT_MAX_ORDER_IAT'' ''100'') (\<lambda>max_order.
     sum_bind (decimal_env getenv ''IAT_CHECKOUT_WALLET_DAILY_IAT_CAP'' ''250'') (\<lambda>wallet_cap.
     sum_bind (decimal_env getenv ''IAT_TREASURY_DAILY_IAT_CAP'' ''1000'') (\<lambda>treasury_cap.
     sum_bind (decimal_env getenv ''IAT_TREASURY_INVENTORY_IAT'' ''0'') (\<lambda>inventory.
     sum_bind (decimal_env getenv ''IAT_REFERENCE_PRICE_USD'' ''0'') (\<lambda>reference.
     sum_bind (int_env getenv ''IAT_RAYDIUM_MAX_PRICE_IMPACT_BPS'' ''300'') (\<lambda>impact.
     sum_bind (decimal_env getenv ''IAT_RAYDIUM_MIN_LIQUIDITY_USD'' ''10000'') (\<lambda>liquidity.
     sum_bind (int_env getenv ''IAT_CHECKOUT_MAX_REFERENCE_DEVIATION_BPS'' ''500'') (\<lambda>deviation.
       Inr \<lparr> po_treasury_enabled = bool_env getenv ''IAT_TREASURY_CHECKOUT_ENABLED'',
             po_raydium_enabled = bool_env getenv ''IAT_RAYDIUM_CHECKOUT_ENABLED'', po_ttl = ttl,
             po_oracle_max_age = max_age, po_spread_bps = spread, po_max_order = max_order,
             po_wallet_cap = wallet_cap, po_treasury_cap = treasury_cap, po_inventory = inventory,
             po_reference_price = reference, po_max_impact_bps = impact, po_min_liquidity = liquidity,
             po_max_deviation_bps = deviation,
             po_pools = filter (\<lambda>s. s \<noteq> []) (map py_strip (split_comma [] (env_text getenv ''IAT_RAYDIUM_ALLOWED_POOLS'' []))),
             po_program_id = py_strip (env_text getenv ''IAT_TREASURY_PROGRAM_ID'' []),
             po_vault = py_strip (env_text getenv ''IAT_TREASURY_IAT_VAULT'' []) \<rparr>)))))))))))"

definition quote_signer_compatible_policy :: "env \<Rightarrow> checkout_policy \<Rightarrow> checkout_policy" where
  "quote_signer_compatible_policy getenv p =
     (if bool_env getenv ''IAT_QUOTE_SIGNER_CLIENT_ENABLED'' then p \<lparr> po_ttl := min (po_ttl p) 120 \<rparr> else p)"

text \<open>
  \<open>_asset_snapshot\<close>: the registry of assets, and the pinned USDC price of the devnet, whose observation is
  always fresh.
\<close>

definition asset_snapshot_of ::
  "(pyval \<Rightarrow> int option) \<Rightarrow> env \<Rightarrow> quote_error + pydict \<Rightarrow> string \<Rightarrow> int \<Rightarrow> quote_error + asset_snapshot" where
  "asset_snapshot_of to_int getenv registry symbol clock =
     (let normalized = py_upper (py_strip symbol) in
      sum_bind registry (\<lambda>assets.
        case dget assets normalized of
          PDict value \<Rightarrow>
            if normalized = ''USDC'' \<and> bool_env getenv ''IAT_CHECKOUT_DEVNET_FIXED_USDC_ENABLED'' \<and>
               str_or_empty (dget value ''mint'') = ''4zMMC9srt5Ri5X14GAgXhaHii3GnPAEERYPJgZJDncDU'' \<and>
               str_or_empty (dget value ''oracle'') = ''circle_devnet_smoke''
            then sum_bind (decimal_value (py_str (dget value ''usd_price'')) ''asset_usd_price'') (\<lambda>usd.
                   asset_from_mapping to_int normalized
                     (if dec_cmp usd (dec_of_int 1) = 0 then dset value ''observed_at'' (PInt clock) else value))
            else asset_from_mapping to_int normalized value
        | _ \<Rightarrow> rejected ''unsupported_input_asset''))"

definition raydium_snapshot_of ::
  "(pyval \<Rightarrow> int option) \<Rightarrow> quote_error + pydict \<Rightarrow> string \<Rightarrow> quote_error + raydium_snapshot option" where
  "raydium_snapshot_of to_int registry symbol =
     sum_bind registry (\<lambda>snapshots.
       case dget snapshots (py_upper (py_strip symbol)) of
         PDict value \<Rightarrow> sum_bind (raydium_from_mapping to_int value) (\<lambda>r. Inr (Some r))
       | _ \<Rightarrow> Inr None)"

section \<open>Quotes\<close>

definition dec_pow10 :: "int \<Rightarrow> fdec" where
  "dec_pow10 n = Dec False (10 ^ nat n) 0"

definition minor_units_up :: "fdec \<Rightarrow> int \<Rightarrow> dec_error + int" where
  "minor_units_up amount decimals =
     sum_bind (dec_mul amount (dec_pow10 decimals)) (\<lambda>scaled.
     sum_bind (dec_quantize RoundUp scaled 0) (\<lambda>q. Inr (dec_to_int q)))"

definition deviation_bps :: "fdec \<Rightarrow> fdec \<Rightarrow> dec_error + int" where
  "deviation_bps left right =
     (if dec_le right dec_zero then Inr (10 ^ 9)
      else sum_bind (dec_sub left right) (\<lambda>d.
           sum_bind (dec_mul (dec_abs d) (dec_of_int 10000)) (\<lambda>m.
           sum_bind (dec_div m right) (\<lambda>q. Inr (dec_to_int q)))))"

definition terminal_order_states :: "string list" where
  "terminal_order_states = [''delivered'', ''completed'', ''settled'', ''refunded'', ''cancelled'']"

definition reason_if :: "bool \<Rightarrow> string \<Rightarrow> string list" where
  "reason_if b code = (if b then [code] else [])"

definition treasury_reasons :: "checkout_policy \<Rightarrow> fdec \<Rightarrow> fdec \<Rightarrow> fdec \<Rightarrow> quote_error + string list" where
  "treasury_reasons p wallet_today treasury_today required =
     sum_bind (decimal (dec_add wallet_today required)) (\<lambda>wallet_total.
     sum_bind (decimal (dec_add treasury_today required)) (\<lambda>treasury_total.
     sum_bind (decimal (dec_sub (po_inventory p) treasury_today)) (\<lambda>left.
       Inr (reason_if (\<not> po_treasury_enabled p) ''treasury_disabled'' @
            reason_if (dec_lt (po_max_order p) required) ''order_cap_exceeded'' @
            reason_if (dec_lt (po_wallet_cap p) wallet_total) ''wallet_daily_cap_exceeded'' @
            reason_if (dec_lt (po_treasury_cap p) treasury_total) ''treasury_daily_cap_exceeded'' @
            reason_if (dec_lt left required) ''treasury_inventory_insufficient'' @
            reason_if (po_program_id p = [] \<or> po_vault p = []) ''treasury_onchain_configuration_missing''))))"

definition treasury_input :: "checkout_policy \<Rightarrow> asset_snapshot \<Rightarrow> fdec \<Rightarrow> dec_error + fdec" where
  "treasury_input p asset required =
     sum_bind (dec_mul required (po_reference_price p)) (\<lambda>gross_usd.
     sum_bind (dec_div (dec_of_int (10000 + po_spread_bps p)) (dec_of_int 10000)) (\<lambda>ratio.
     sum_bind (dec_mul gross_usd ratio) (\<lambda>with_spread. dec_div with_spread (as_usd_price asset))))"

definition raydium_reasons ::
  "checkout_policy \<Rightarrow> asset_snapshot \<Rightarrow> fdec \<Rightarrow> int \<Rightarrow> raydium_snapshot \<Rightarrow> quote_error + string list \<times> pydict" where
  "raydium_reasons p asset required timestamp r =
     (let checks =
            reason_if (timestamp - ry_observed_at r > po_oracle_max_age p) ''raydium_quote_stale'' @
            reason_if (ry_pool_id r \<notin> set (po_pools p)) ''raydium_pool_not_allowlisted'' @
            reason_if (ry_impact_bps r > po_max_impact_bps p) ''raydium_price_impact_exceeded'' @
            reason_if (dec_lt (ry_liquidity_usd r) (po_min_liquidity p)) ''raydium_liquidity_insufficient'' @
            reason_if (dec_lt (ry_output r) required) ''raydium_output_insufficient''
      in if dec_le (ry_input r) dec_zero \<or> dec_le (ry_output r) dec_zero
         then Inr (checks @ [''raydium_quote_invalid''], [])
         else
           sum_bind (decimal (dec_mul (ry_input r) (as_usd_price asset))) (\<lambda>paid.
           sum_bind (decimal (dec_div paid (ry_output r))) (\<lambda>dex_price.
           sum_bind (decimal (deviation_bps dex_price (po_reference_price p))) (\<lambda>deviation.
             Inr (checks @ reason_if (deviation > po_max_deviation_bps p) ''raydium_reference_deviation_exceeded'',
                  [(''pool_id'', PStr (ry_pool_id r)), (''pool_liquidity_usd'', PStr (dec_str (ry_liquidity_usd r))),
                   (''price_impact_bps'', PInt (ry_impact_bps r)), (''reference_deviation_bps'', PInt deviation)])))))"

record checkout_offer =
  of_route :: string
  of_order_id :: string
  of_wallet :: string
  of_asset :: asset_snapshot
  of_input :: fdec
  of_input_text :: string
  of_input_minor :: int
  of_required :: fdec
  of_required_minor :: int
  of_iat_mint :: string
  of_evidence :: pydict
  of_program :: "string option"
  of_vault :: "string option"
  of_created_at :: int
  of_expires_at :: int
  of_intent_hash :: string

definition offer_intent :: "checkout_offer \<Rightarrow> pydict" where
  "offer_intent f =
     [(''buyer_wallet'', PStr (of_wallet f)), (''created_at'', PInt (of_created_at f)), (''expires_at'', PInt (of_expires_at f)),
      (''iat_mint'', PStr (of_iat_mint f)), (''input_amount_minor'', PInt (of_input_minor f)),
      (''input_asset'', PStr (as_symbol (of_asset f))), (''input_mint'', PStr (as_mint (of_asset f))),
      (''order_id'', PStr (of_order_id f)), (''required_iat_minor'', PInt (of_required_minor f)), (''route'', PStr (of_route f))]"

definition offer_dict :: "checkout_offer \<Rightarrow> pydict" where
  "offer_dict f =
     [(''status'', PStr ''quoted''), (''route'', PStr (of_route f)), (''order_id'', PStr (of_order_id f)),
      (''buyer_wallet'', PStr (of_wallet f)),
      (''input'', PDict
         [(''asset'', PStr (as_symbol (of_asset f))), (''mint'', PStr (as_mint (of_asset f))),
          (''amount'', PStr (of_input_text f)), (''amount_minor'', PInt (of_input_minor f)),
          (''amount_semantics'', PStr (if of_route f = ''treasury'' then ''exact'' else ''maximum'')),
          (''oracle'', PStr (as_oracle (of_asset f))), (''oracle_observed_at'', PInt (as_observed_at (of_asset f)))]),
      (''output'', PDict
         [(''asset'', PStr ''IAT''), (''mint'', PStr (of_iat_mint f)), (''amount'', PStr (dec_str (of_required f))),
          (''amount_minor'', PInt (of_required_minor f)), (''destination'', PStr ''order_settlement_escrow_only''),
          (''withdrawable_to_buyer'', PBool False)]),
      (''execution'', PDict
         [(''network'', PStr ''solana''), (''atomic'', PBool True), (''custodial'', PBool False),
          (''requires_buyer_wallet_signature'', PBool True), (''server_signs_for_buyer'', PBool False),
          (''treasury_program_id'', pstr_opt (of_program f)), (''treasury_vault'', pstr_opt (of_vault f))]),
      (''market_evidence'', PDict (of_evidence f)), (''created_at'', PInt (of_created_at f)),
      (''expires_at'', PInt (of_expires_at f)), (''intent_hash'', PStr (of_intent_hash f)),
      (''protections'', PList (map PStr
         [''existing_order_only'', ''wallet_bound'', ''exact_output_to_order_escrow'', ''short_lived_quote'',
          ''no_buyer_iat_withdrawal'', ''daily_and_inventory_caps'', ''oracle_freshness'', ''fixed_mint_and_pool_allowlists'']))]"

definition make_offer ::
  "(string \<Rightarrow> string) \<Rightarrow> string \<Rightarrow> string \<Rightarrow> string \<Rightarrow> string \<Rightarrow> asset_snapshot \<Rightarrow> checkout_policy \<Rightarrow> fdec \<Rightarrow> fdec \<Rightarrow>
   pydict \<Rightarrow> int \<Rightarrow> quote_error + checkout_offer" where
  "make_offer sha iat_mint route order_id wallet asset p input required evidence timestamp =
     sum_bind (decimal (minor_units_up input (as_decimals asset))) (\<lambda>input_minor.
     sum_bind (decimal (minor_units_up required iat_decimals)) (\<lambda>required_minor.
     sum_bind (decimal (dec_div (dec_of_int 1) (dec_pow10 (as_decimals asset)))) (\<lambda>unit.
     sum_bind (decimal (dec_quantize RoundUp input (dexp unit))) (\<lambda>shown.
       let treasury = (route = ''treasury'');
           f = \<lparr> of_route = route, of_order_id = order_id, of_wallet = wallet, of_asset = asset, of_input = input,
                 of_input_text = dec_str shown, of_input_minor = input_minor, of_required = required,
                 of_required_minor = required_minor, of_iat_mint = iat_mint, of_evidence = evidence,
                 of_program = (if treasury then Some (po_program_id p) else None),
                 of_vault = (if treasury then Some (po_vault p) else None),
                 of_created_at = timestamp, of_expires_at = timestamp + po_ttl p, of_intent_hash = [] \<rparr>
       in Inr (f \<lparr> of_intent_hash := canonical_hash sha (offer_intent f) \<rparr>)))))"

definition no_route :: "string list \<Rightarrow> string list \<Rightarrow> quote_error + 'a" where
  "no_route treasury raydium =
     Inl (Rejected ''no_safe_checkout_route''
       [(''treasury'', PList (map PStr treasury)), (''raydium'', PList (map PStr raydium))])"

text \<open>The checks that come before the choice of a route, and the price they read.\<close>

definition payable_order ::
  "pydict \<Rightarrow> string \<Rightarrow> asset_snapshot \<Rightarrow> checkout_policy \<Rightarrow> int \<Rightarrow> quote_error + fdec" where
  "payable_order order buyer_wallet asset p timestamp =
     sum_bind (decimal_value (py_str (dget order ''price'')) ''order_price'') (\<lambda>required.
       if py_strip (str_or_empty (dget order ''order_id'')) = [] \<or> py_strip buyer_wallet = [] \<or>
          py_strip buyer_wallet \<noteq> py_strip (str_or_empty (dget order ''buyer_wallet''))
       then rejected ''order_buyer_mismatch''
       else if py_lower (py_strip (str_or_empty (dget order ''status''))) \<in> set terminal_order_states \<or>
               truthy (dget order ''used'')
       then rejected ''order_not_payable''
       else if dec_le required dec_zero then rejected ''invalid_order_price''
       else if timestamp - as_observed_at asset > po_oracle_max_age p then rejected ''asset_oracle_stale''
       else Inr required)"

definition quote_hybrid_checkout ::
  "(string \<Rightarrow> string) \<Rightarrow> string \<Rightarrow> pydict \<Rightarrow> string \<Rightarrow> asset_snapshot \<Rightarrow> checkout_policy \<Rightarrow> fdec \<Rightarrow> fdec \<Rightarrow>
   raydium_snapshot option \<Rightarrow> int \<Rightarrow> quote_error + checkout_offer" where
  "quote_hybrid_checkout sha iat_mint order buyer_wallet asset p wallet_today treasury_today raydium timestamp =
     sum_bind (validate_policy p) (\<lambda>_.
     sum_bind (payable_order order buyer_wallet asset p timestamp) (\<lambda>required.
     sum_bind (treasury_reasons p wallet_today treasury_today required) (\<lambda>blocked.
       let offer = (\<lambda>route input evidence.
             make_offer sha iat_mint route (py_strip (str_or_empty (dget order ''order_id''))) (py_strip buyer_wallet)
               asset p input required evidence timestamp)
       in if blocked = []
          then sum_bind (decimal (treasury_input p asset required)) (\<lambda>input. offer ''treasury'' input [])
          else
            let disabled = reason_if (\<not> po_raydium_enabled p) ''raydium_disabled'' in
            (case raydium of
               None \<Rightarrow> no_route blocked (disabled @ [''raydium_quote_unavailable''])
             | Some r \<Rightarrow>
                 sum_bind (raydium_reasons p asset required timestamp r) (\<lambda>(reasons, evidence).
                   if disabled @ reasons = [] then offer ''raydium'' (ry_input r) evidence
                   else no_route blocked (disabled @ reasons))))))"

end
