(* ===== verification/CheckoutVerifier.thy ===== *)
theory CheckoutVerifier
  imports Json
begin

text \<open>
  Verification of checkout payments on the chain (\<open>iat/checkout_verifier.py\<close>). The node, base64, base58 and the
  reading of transactions are the fields of \<open>chain\<close>; bytes are numbers below 256. The message of a transaction is its
  account keys, the number of signers, its compiled instructions and the hash of its bytes.
\<close>

text \<open>A \<open>CheckoutVerificationError\<close> with its code and whether to retry, or another exception.\<close>

datatype verification_error = Verification string bool | Crash

definition wrong :: "string \<Rightarrow> verification_error + 'a" where
  "wrong code = Inl (Verification code False)"

definition retry :: "string \<Rightarrow> verification_error + 'a" where
  "retry code = Inl (Verification code True)"

record chain_instruction =
  ci_program :: nat
  ci_accounts :: "nat list"
  ci_data :: "nat list"

record chain_transaction =
  ct_signatures :: "string list"
  ct_keys :: "string list"
  ct_signers :: nat
  ct_instructions :: "chain_instruction list"
  ct_message_hash :: string

record chain =
  ch_post :: "string \<Rightarrow> pyval list \<Rightarrow> pyval option"
  ch_pubkey :: "string \<Rightarrow> string option"
  ch_signature :: "string \<Rightarrow> string option"
  ch_transaction :: "string \<Rightarrow> chain_transaction option"
  ch_base64 :: "string \<Rightarrow> nat list option"
  ch_key :: "nat list \<Rightarrow> string"
  ch_intent_tag :: "nat list"
  ch_purchase_tag :: "nat list"
  ch_int :: "pyval \<Rightarrow> int option"

section \<open>Payment intent accounts\<close>

record payment_intent =
  pi_config :: string
  pi_order_hash :: string
  pi_quote_hash :: string
  pi_buyer :: string
  pi_input_mint :: string
  pi_input_amount :: int
  pi_iat_amount :: int
  pi_nonce :: int
  pi_executed_at :: int
  pi_bump :: int

definition le_value :: "nat list \<Rightarrow> int" where
  "le_value bs = foldr (\<lambda>b v. int b + 256 * v) bs 0"

definition le_signed :: "nat list \<Rightarrow> int" where
  "le_signed bs = (let v = le_value bs in if v < 2 ^ 63 then v else v - 2 ^ 64)"

definition hex_text :: "nat list \<Rightarrow> string" where
  "hex_text bs = concat (map (\<lambda>b. [hex_digit (b div 16), hex_digit (b mod 16)]) bs)"

definition field :: "nat \<Rightarrow> nat \<Rightarrow> nat list \<Rightarrow> nat list" where
  "field from len data = take len (drop from data)"

definition decode_payment_intent :: "chain \<Rightarrow> nat list \<Rightarrow> verification_error + payment_intent" where
  "decode_payment_intent c data =
     (if length data \<noteq> 201 \<or> take 8 data \<noteq> ch_intent_tag c then wrong ''invalid_payment_intent_account''
      else Inr
        \<lparr> pi_config = ch_key c (field 8 32 data), pi_order_hash = hex_text (field 40 32 data),
          pi_quote_hash = hex_text (field 72 32 data), pi_buyer = ch_key c (field 104 32 data),
          pi_input_mint = ch_key c (field 136 32 data), pi_input_amount = le_value (field 168 8 data),
          pi_iat_amount = le_value (field 176 8 data), pi_nonce = le_value (field 184 8 data),
          pi_executed_at = le_signed (field 192 8 data), pi_bump = int (data ! 200) \<rparr>)"

section \<open>RPC answers\<close>

definition rpc_result :: "chain \<Rightarrow> string \<Rightarrow> pyval list \<Rightarrow> verification_error + pyval" where
  "rpc_result c method params =
     (case ch_post c method params of
        None \<Rightarrow> retry ''solana_rpc_unavailable''
      | Some (PDict d) \<Rightarrow> if dget d ''error'' \<noteq> PNone then retry ''solana_rpc_error'' else Inr (dget d ''result'')
      | Some _ \<Rightarrow> retry ''solana_rpc_error'')"

definition require_finalized :: "chain \<Rightarrow> string \<Rightarrow> verification_error + unit" where
  "require_finalized c sig =
     sum_bind (rpc_result c ''getSignatureStatuses'' [PList [PStr sig], PDict [(''searchTransactionHistory'', PBool True)]])
       (\<lambda>result.
          case dget (as_dict result) ''value'' of
            PList (PDict status # _) \<Rightarrow>
              if dget status ''err'' \<noteq> PNone then wrong ''transaction_failed''
              else if dget status ''confirmationStatus'' \<noteq> PStr ''finalized'' then retry ''transaction_not_finalized''
              else Inr ()
          | PList (PNone # _) \<Rightarrow> retry ''transaction_not_found''
          | PList (_ # _) \<Rightarrow> Inl Crash
          | _ \<Rightarrow> retry ''transaction_not_found'')"

definition fetch_transaction :: "chain \<Rightarrow> string \<Rightarrow> verification_error + string \<times> pyval" where
  "fetch_transaction c sig =
     sum_bind (rpc_result c ''getTransaction'' [PStr sig,
         PDict [(''encoding'', PStr ''base64''), (''commitment'', PStr ''finalized''), (''maxSupportedTransactionVersion'', PInt 0)]])
       (\<lambda>result.
          case result of
            PDict d \<Rightarrow>
              (case dget d ''transaction'' of
                 PList (encoded # PStr e # _) \<Rightarrow>
                   if e = ''base64'' then Inr (py_str encoded, dget d ''blockTime'') else wrong ''invalid_rpc_transaction''
               | _ \<Rightarrow> wrong ''invalid_rpc_transaction'')
          | _ \<Rightarrow> retry ''transaction_not_found'')"

definition fetch_account :: "chain \<Rightarrow> string \<Rightarrow> verification_error + pydict" where
  "fetch_account c address =
     sum_bind (rpc_result c ''getAccountInfo'' [PStr address,
         PDict [(''encoding'', PStr ''base64''), (''commitment'', PStr ''finalized'')]])
       (\<lambda>result. case dget (as_dict result) ''value'' of PDict d \<Rightarrow> Inr d | _ \<Rightarrow> wrong ''payment_intent_not_found'')"

section \<open>Verification\<close>

definition parse_key :: "chain \<Rightarrow> pyval \<Rightarrow> verification_error + string" where
  "parse_key c v = (case ch_pubkey c (str_or_empty v) of None \<Rightarrow> Inl Crash | Some k \<Rightarrow> Inr k)"

definition verify_raydium :: "chain_transaction \<Rightarrow> pydict \<Rightarrow> verification_error + unit" where
  "verify_raydium tx evidence =
     (let expected = str_or_empty (dget evidence ''message_hash'') in
      if length expected \<noteq> 64 \<or> ct_message_hash tx \<noteq> expected then wrong ''raydium_message_hash_mismatch'' else Inr ())"

text \<open>The purchase instruction of the program, for the buyer, the payment intent and the destination.\<close>

definition is_purchase :: "chain \<Rightarrow> string \<Rightarrow> string \<Rightarrow> string \<Rightarrow> string \<Rightarrow> string \<Rightarrow> string list \<Rightarrow> nat list \<Rightarrow> bool" where
  "is_purchase c program buyer intent destination key keys data =
     (key = program \<and> take (length (ch_purchase_tag c)) data = ch_purchase_tag c \<and> length keys = 16 \<and>
      keys ! 0 = buyer \<and> keys ! 5 = intent \<and> keys ! 11 = destination)"

fun find_purchase ::
  "chain \<Rightarrow> string \<Rightarrow> string \<Rightarrow> string \<Rightarrow> string \<Rightarrow> string list \<Rightarrow> chain_instruction list \<Rightarrow> verification_error + unit" where
  "find_purchase c program buyer intent destination keys [] = wrong ''direct_purchase_instruction_missing''"
| "find_purchase c program buyer intent destination keys (i # is) =
     (if \<not> list_all (\<lambda>k. k < length keys) (ci_program i # ci_accounts i) then wrong ''invalid_direct_purchase_instruction''
      else if is_purchase c program buyer intent destination (keys ! ci_program i) (map ((!) keys) (ci_accounts i)) (ci_data i)
      then Inr ()
      else find_purchase c program buyer intent destination keys is)"

text \<open>What the account must hold, from the evidence: order and quote hash, buyer, mint, amounts, nonce.\<close>

definition expected_intent :: "chain \<Rightarrow> pydict \<Rightarrow> verification_error + string list \<times> int list" where
  "expected_intent c evidence =
     (let number = (\<lambda>k. case ch_int c (py_or (dget evidence k) (PInt 0)) of None \<Rightarrow> Inl Crash | Some i \<Rightarrow> Inr i) in
      sum_bind (number ''input_amount'') (\<lambda>input.
      sum_bind (number ''iat_amount'') (\<lambda>iat.
      sum_bind (number ''nonce'') (\<lambda>nonce.
        Inr (map (\<lambda>k. str_or_empty (dget evidence k)) [''order_hash_hex'', ''quote_hash_hex'', ''buyer_wallet'', ''input_mint''],
             [input, iat, nonce])))))"

definition intent_matches :: "payment_intent \<Rightarrow> string list \<times> int list \<Rightarrow> bool" where
  "intent_matches p e =
     (([pi_order_hash p, pi_quote_hash p, pi_buyer p, pi_input_mint p], [pi_input_amount p, pi_iat_amount p, pi_nonce p]) = e)"

definition intent_data :: "chain \<Rightarrow> pydict \<Rightarrow> verification_error + nat list" where
  "intent_data c account =
     (case dget account ''data'' of
        PList (encoded # PStr e # _) \<Rightarrow>
          if e \<noteq> ''base64'' then wrong ''invalid_payment_intent_encoding''
          else (case encoded of
                  PStr s \<Rightarrow> (case ch_base64 c s of None \<Rightarrow> wrong ''invalid_payment_intent_encoding'' | Some bs \<Rightarrow> Inr bs)
                | _ \<Rightarrow> Inl Crash)
      | _ \<Rightarrow> wrong ''invalid_payment_intent_encoding'')"

definition verify_treasury :: "chain \<Rightarrow> chain_transaction \<Rightarrow> pydict \<Rightarrow> verification_error + unit" where
  "verify_treasury c tx evidence =
     sum_bind (parse_key c (dget evidence ''program_id'')) (\<lambda>program.
     sum_bind (parse_key c (dget evidence ''payment_intent'')) (\<lambda>intent.
       if program \<notin> set (ct_keys tx) \<or> intent \<notin> set (ct_keys tx) then wrong ''treasury_accounts_missing_from_transaction''
       else
         sum_bind (parse_key c (dget evidence ''quote_authority'')) (\<lambda>authority.
           if authority \<notin> set (take (ct_signers tx) (ct_keys tx)) then wrong ''treasury_accounts_missing_from_transaction''
           else
             sum_bind
               (if dget evidence ''delivery_mode'' \<noteq> PStr ''direct_to_buyer'' then Inr ()
                else sum_bind (parse_key c (dget evidence ''iat_destination'')) (\<lambda>destination.
                     sum_bind (parse_key c (dget evidence ''buyer_wallet'')) (\<lambda>buyer.
                       find_purchase c program buyer intent destination (ct_keys tx) (ct_instructions tx)))) (\<lambda>_.
             sum_bind (fetch_account c intent) (\<lambda>account.
               if dget account ''owner'' \<noteq> PStr program \<or> dget account ''executable'' = PBool True
               then wrong ''payment_intent_owner_mismatch''
               else
                 sum_bind (intent_data c account) (\<lambda>data.
                 sum_bind (decode_payment_intent c data) (\<lambda>p.
                 sum_bind (expected_intent c evidence) (\<lambda>e.
                   if intent_matches p e then Inr () else wrong ''payment_intent_evidence_mismatch'')))))))) "

definition verify_payment :: "chain \<Rightarrow> string \<Rightarrow> string \<Rightarrow> pydict \<Rightarrow> verification_error + pydict" where
  "verify_payment c sig route evidence =
     (case ch_signature c sig of
        None \<Rightarrow> wrong ''invalid_transaction_signature''
      | Some expected \<Rightarrow>
          sum_bind (require_finalized c sig) (\<lambda>_.
          sum_bind (fetch_transaction c sig) (\<lambda>(encoded, block_time).
            case ch_transaction c encoded of
              None \<Rightarrow> wrong ''invalid_rpc_transaction''
            | Some tx \<Rightarrow>
                if ct_signatures tx = [] \<or> hd (ct_signatures tx) \<noteq> expected then wrong ''rpc_signature_mismatch''
                else
                  sum_bind (parse_key c (dget evidence ''buyer_wallet'')) (\<lambda>buyer.
                    if ct_keys tx = [] \<or> hd (ct_keys tx) \<noteq> buyer then wrong ''transaction_buyer_mismatch''
                    else
                      sum_bind
                        (if py_lower route = ''raydium'' then verify_raydium tx evidence
                         else if py_lower route = ''treasury'' then verify_treasury c tx evidence
                         else wrong ''unsupported_checkout_route'') (\<lambda>_.
                        Inr [(''status'', PStr ''confirmed''), (''route'', PStr (py_lower route)), (''signature'', PStr sig),
                             (''block_time'', block_time), (''message_hash'', PStr (ct_message_hash tx)),
                             (''finalized'', PBool True)])))))"

definition finalized_signatures_for_address :: "chain \<Rightarrow> string \<Rightarrow> int \<Rightarrow> verification_error + string list" where
  "finalized_signatures_for_address c address limit =
     (case ch_pubkey c address of
        None \<Rightarrow> wrong ''invalid_reconciliation_address''
      | Some normalized \<Rightarrow>
          sum_bind (rpc_result c ''getSignaturesForAddress'' [PStr normalized,
              PDict [(''commitment'', PStr ''finalized''), (''limit'', PInt (max 1 (min limit 10)))]])
            (\<lambda>result. case result of
               PList items \<Rightarrow>
                 Inr (rev (remdups (rev (List.map_filter (\<lambda>item. case item of
                   PDict d \<Rightarrow> if dget d ''err'' \<noteq> PNone then None else ch_signature c (str_or_empty (dget d ''signature''))
                 | _ \<Rightarrow> None) items))))
             | _ \<Rightarrow> retry ''invalid_signature_history''))"

section \<open>What a verified payment is\<close>

lemmas verdicts = sum_bind_Inr wrong_def retry_def

lemma finalized_status:
  assumes "require_finalized c sig = Inr ()"
  obtains result status more where "rpc_result c ''getSignatureStatuses''
      [PList [PStr sig], PDict [(''searchTransactionHistory'', PBool True)]] = Inr result"
    "dget (as_dict result) ''value'' = PList (PDict status # more)" "dget status ''err'' = PNone"
    "dget status ''confirmationStatus'' = PStr ''finalized''"
proof -
  obtain result where r: "rpc_result c ''getSignatureStatuses''
      [PList [PStr sig], PDict [(''searchTransactionHistory'', PBool True)]] = Inr result"
    using assms by (auto simp: require_finalized_def verdicts)
  note ok = assms [unfolded require_finalized_def r sum_bind_simps]
  show thesis
  proof (cases "dget (as_dict result) ''value''")
    case (PList xs)
    obtain v more where xs: "xs = v # more" using ok PList by (cases xs) (auto simp: retry_def)
    obtain status where "v = PDict status" using ok PList xs by (cases v) (auto simp: retry_def)
    then show ?thesis using ok PList xs r that by (auto simp: wrong_def retry_def split: if_split_asm)
  qed (use ok in \<open>auto simp: retry_def\<close>)
qed

lemma found_purchase:
  "find_purchase c program buyer intent destination keys is = Inr () \<Longrightarrow>
   list_ex (\<lambda>i. list_all (\<lambda>k. k < length keys) (ci_program i # ci_accounts i) \<and>
     is_purchase c program buyer intent destination (keys ! ci_program i) (map ((!) keys) (ci_accounts i)) (ci_data i)) is"
  by (induction "is") (auto simp: wrong_def split: if_splits)

lemma treasury_verified:
  assumes "verify_treasury c tx evidence = Inr ()"
  obtains program intent authority account data p e where
    "ch_pubkey c (str_or_empty (dget evidence ''program_id'')) = Some program"
    "ch_pubkey c (str_or_empty (dget evidence ''payment_intent'')) = Some intent"
    "ch_pubkey c (str_or_empty (dget evidence ''quote_authority'')) = Some authority"
    "authority \<in> set (take (ct_signers tx) (ct_keys tx))" "intent \<in> set (ct_keys tx)"
    "fetch_account c intent = Inr account" "dget account ''owner'' = PStr program"
    "intent_data c account = Inr data" "decode_payment_intent c data = Inr p" "expected_intent c evidence = Inr e"
    "intent_matches p e"
  using assms by (auto simp: verify_treasury_def verdicts parse_key_def split: option.split_asm if_split_asm)

text \<open>
  C8: a payment that verifies is one: the node reported the signature as finalized and not failed, the transaction it
  returned starts with that signature and is paid by the buyer of the evidence; through Raydium it has exactly the
  prepared message; through the treasury the quote authority signed it, and the payment intent account of
  the program holds the order, quote, buyer, mint, amounts and nonce that were prepared.
\<close>

theorem verified_payment_matches:
  assumes "verify_payment c sig route evidence = Inr answer"
  shows "\<exists>status more encoded block_time tx result.
    rpc_result c ''getSignatureStatuses'' [PList [PStr sig], PDict [(''searchTransactionHistory'', PBool True)]] = Inr result \<and>
    dget (as_dict result) ''value'' = PList (PDict status # more) \<and> dget status ''err'' = PNone \<and>
    dget status ''confirmationStatus'' = PStr ''finalized'' \<and>
    fetch_transaction c sig = Inr (encoded, block_time) \<and> ch_transaction c encoded = Some tx \<and> ct_signatures tx \<noteq> [] \<and> ch_signature c sig = Some (hd (ct_signatures tx)) \<and>
    ct_keys tx \<noteq> [] \<and> ch_pubkey c (str_or_empty (dget evidence ''buyer_wallet'')) = Some (hd (ct_keys tx)) \<and>
    ((py_lower route = ''raydium'' \<and> ct_message_hash tx = str_or_empty (dget evidence ''message_hash'') \<and>
        length (ct_message_hash tx) = 64) \<or>
     (\<exists>program intent authority account data p e. py_lower route = ''treasury'' \<and>
        ch_pubkey c (str_or_empty (dget evidence ''quote_authority'')) = Some authority \<and>
        authority \<in> set (take (ct_signers tx) (ct_keys tx)) \<and>
        ch_pubkey c (str_or_empty (dget evidence ''program_id'')) = Some program \<and>
        ch_pubkey c (str_or_empty (dget evidence ''payment_intent'')) = Some intent \<and> intent \<in> set (ct_keys tx) \<and>
        fetch_account c intent = Inr account \<and> dget account ''owner'' = PStr program \<and>
        intent_data c account = Inr data \<and> decode_payment_intent c data = Inr p \<and>
        expected_intent c evidence = Inr e \<and> intent_matches p e))"
proof -
  obtain expected encoded block_time tx buyer where 1: "ch_signature c sig = Some expected" "require_finalized c sig = Inr ()"
      "fetch_transaction c sig = Inr (encoded, block_time)" "ch_transaction c encoded = Some tx"
      "ct_signatures tx \<noteq> []" "hd (ct_signatures tx) = expected" "ch_pubkey c (str_or_empty (dget evidence ''buyer_wallet'')) = Some buyer"
      "ct_keys tx \<noteq> []" "hd (ct_keys tx) = buyer"
      "(if py_lower route = ''raydium'' then verify_raydium tx evidence
        else if py_lower route = ''treasury'' then verify_treasury c tx evidence
        else wrong ''unsupported_checkout_route'') = Inr ()"
    using assms by (auto simp: verify_payment_def verdicts parse_key_def split: option.split_asm if_split_asm)
  from 1(2) obtain result status more where 2: "rpc_result c ''getSignatureStatuses''
        [PList [PStr sig], PDict [(''searchTransactionHistory'', PBool True)]] = Inr result"
      "dget (as_dict result) ''value'' = PList (PDict status # more)" "dget status ''err'' = PNone"
      "dget status ''confirmationStatus'' = PStr ''finalized''"
    by (rule finalized_status)
  show ?thesis
  proof (cases "py_lower route = ''raydium''")
    case True
    then have "ct_message_hash tx = str_or_empty (dget evidence ''message_hash'')" "length (ct_message_hash tx) = 64"
      using 1(10) by (auto simp: verify_raydium_def wrong_def Let_def split: if_split_asm)
    with 1 2 True show ?thesis by blast
  next
    case False
    then have route: "py_lower route = ''treasury''" and "verify_treasury c tx evidence = Inr ()"
      using 1(10) by (auto simp: wrong_def split: if_split_asm)
    from this(2) show ?thesis by (rule treasury_verified) (use 1 2 route in blast)
  qed
qed

section \<open>A verified payment\<close>

definition sample_hash :: string where
  "sample_hash = replicate 64 (CHR ''a'')"

definition sample_transaction :: chain_transaction where
  "sample_transaction = \<lparr> ct_signatures = [''sig''], ct_keys = [''B''], ct_signers = 1, ct_instructions = [],
     ct_message_hash = sample_hash \<rparr>"

definition sample_chain :: chain where
  "sample_chain =
     \<lparr> ch_post = (\<lambda>m _. Some (PDict [(''result'',
         if m = ''getSignatureStatuses''
         then PDict [(''value'', PList [PDict [(''confirmationStatus'', PStr ''finalized'')]])]
         else PDict [(''transaction'', PList [PStr ''tx'', PStr ''base64''])])])),
       ch_pubkey = Some, ch_signature = Some, ch_transaction = (\<lambda>_. Some sample_transaction), ch_base64 = (\<lambda>_. None),
       ch_key = (\<lambda>_. []), ch_intent_tag = [], ch_purchase_tag = [], ch_int = (\<lambda>_. None) \<rparr>"

definition sample_proof :: pydict where
  "sample_proof = [(''buyer_wallet'', PStr ''B''), (''message_hash'', PStr sample_hash)]"

lemma sample_verifies: "\<exists>answer. verify_payment sample_chain ''sig'' ''raydium'' sample_proof = Inr answer"
proof -
  have "rpc_result sample_chain ''getSignatureStatuses'' q =
      Inr (PDict [(''value'', PList [PDict [(''confirmationStatus'', PStr ''finalized'')]])])" for q
    by (simp add: rpc_result_def sample_chain_def)
  then have "require_finalized sample_chain ''sig'' = Inr ()" by (simp add: require_finalized_def)
  moreover have "fetch_transaction sample_chain ''sig'' = Inr (''tx'', PNone)"
    by (simp add: fetch_transaction_def rpc_result_def sample_chain_def py_str_def)
  moreover have "ch_pubkey sample_chain k = Some k" "ch_signature sample_chain k = Some k"
      "ch_transaction sample_chain k = Some sample_transaction" for k
    by (simp_all add: sample_chain_def)
  moreover have "length sample_hash = 64" by (simp add: sample_hash_def)
  moreover have "sample_hash \<noteq> []" by (simp add: sample_hash_def)
  ultimately show ?thesis
    by (simp add: verify_payment_def verify_raydium_def parse_key_def sample_transaction_def sample_proof_def str_or_empty_def
        py_str_def py_lower_def py_lower_char_def)
qed

theorem verified_payment_matches_witness:
  "\<exists>status. dget status ''err'' = PNone \<and> dget status ''confirmationStatus'' = PStr ''finalized'' \<and>
     ct_message_hash sample_transaction = sample_hash"
proof -
  obtain answer where "verify_payment sample_chain ''sig'' ''raydium'' sample_proof = Inr answer"
    using sample_verifies by blast
  then show ?thesis
    by (elim verified_payment_matches [THEN exE] exE conjE) (auto simp: sample_transaction_def)
qed

end
