(* ===== verification/QuoteLifecycle.thy ===== *)
theory QuoteLifecycle
  imports CheckoutQuoting CheckoutVerifier DeliveryWorker
begin

text \<open>
  The life of a universal checkout quote (\<open>iat/api/checkout_api.py\<close>): reserved amounts, creation, preparation, the
  claim of a transaction, confirmation, the reconciliation sweep and delivery. A handler's reads are from \<open>snap\<close>, its
  writes meet \<open>db\<close>. The Raydium client, the transaction plans, the verification of a payment on the chain, the clock
  and drawn identifiers are arguments.
\<close>

section \<open>Requests and lookups\<close>

record quote_request =
  qr_order_id :: string
  qr_wallet :: string
  qr_secret :: string
  qr_asset :: string

record quote_world =
  qw_sha :: "string \<Rightarrow> string"
  qw_env :: env
  qw_to_int :: "pyval \<Rightarrow> int option"
  qw_assets :: "quote_error + pydict"
  qw_raydium :: "quote_error + pydict"
  qw_live :: "pydict \<Rightarrow> asset_snapshot \<Rightarrow> checkout_policy \<Rightarrow> quote_error + raydium_snapshot \<times> pydict"

definition active_states :: "string list" where
  "active_states = [''quoted'', ''prepared'', ''submitted'']"

definition get_quote :: "string \<Rightarrow> checkout_db \<Rightarrow> quote_row option" where
  "get_quote quote_id db = row_by qt_quote_id quote_id (quotes db)"

definition get_by_idempotency :: "string \<Rightarrow> checkout_db \<Rightarrow> quote_row option" where
  "get_by_idempotency key db = row_by qt_key key (quotes db)"

definition active_quote_for_order :: "string \<Rightarrow> int \<Rightarrow> checkout_db \<Rightarrow> quote_row option" where
  "active_quote_for_order order_id now db =
     (case sql_order_limit (\<lambda>r. - qt_created_at r) 1
         (filter (\<lambda>r. qt_order_id r = order_id \<and> now \<le> qt_expires_at r \<and> qt_state r \<in> set active_states) (quotes db)) of
        [] \<Rightarrow> None | r # _ \<Rightarrow> Some r)"

definition latest_quote_for_order :: "string \<Rightarrow> checkout_db \<Rightarrow> quote_row option" where
  "latest_quote_for_order order_id db =
     (case sql_order_limit (\<lambda>r. - qt_created_at r) 1 (filter (\<lambda>r. qt_order_id r = order_id) (quotes db)) of
        [] \<Rightarrow> None | r # _ \<Rightarrow> Some r)"

definition submitted_quotes_for_wallet :: "string \<Rightarrow> int \<Rightarrow> checkout_db \<Rightarrow> quote_row list" where
  "submitted_quotes_for_wallet wallet limit db =
     sql_order_limit qt_updated_at (nat (max 1 (min limit 10)))
       (filter (\<lambda>r. qt_buyer_wallet r = wallet \<and> qt_state r = ''submitted'') (quotes db))"

definition public_quote :: "quote_row \<Rightarrow> pydict" where
  "public_quote r =
     fold (\<lambda>(k, v) d. dset d k v)
       [(''quote_id'', PStr (qt_quote_id r)), (''state'', PStr (qt_state r)), (''created_at'', PInt (qt_created_at r)),
        (''expires_at'', PInt (qt_expires_at r))]
       (filter (\<lambda>(k, v). k \<noteq> ''_provider_payload'') (as_dict (qt_payload r)))"

definition authorize_order :: "string \<Rightarrow> string \<Rightarrow> pydict \<Rightarrow> http_error + unit" where
  "authorize_order secret wallet order =
     (let expected_secret = str_or_empty (dget order ''buyer_secret'');
          expected_wallet = str_or_empty (dget order ''buyer_wallet'');
          matches = (\<lambda>given expected. if expected = [] then Inr False else compare_digest given expected)
      in sum_bind (matches secret expected_secret) (\<lambda>s.
           if \<not> s then refuse 403 ''invalid_order_credential''
           else sum_bind (matches wallet expected_wallet) (\<lambda>w.
             if \<not> w then refuse 403 ''invalid_order_credential'' else Inr ())))"

text \<open>The quote and its order, for a caller who holds the order's credentials.\<close>

definition owned_quote :: "string \<Rightarrow> string \<Rightarrow> string \<Rightarrow> checkout_db \<Rightarrow> http_error + quote_row \<times> pydict" where
  "owned_quote quote_id secret wallet db =
     (case get_quote quote_id db of
        None \<Rightarrow> refuse 404 ''quote_not_found''
      | Some r \<Rightarrow>
          (case find_order (qt_order_id r) db of
             None \<Rightarrow> refuse 404 ''order_not_found''
           | Some order \<Rightarrow> sum_bind (authorize_order secret wallet order) (\<lambda>_. Inr (r, order))))"

section \<open>Reserved amounts\<close>

definition utc_day_start :: "int \<Rightarrow> int" where
  "utc_day_start now = now - now mod 86400"

definition reserved_rows :: "string option \<Rightarrow> string option \<Rightarrow> int \<Rightarrow> checkout_db \<Rightarrow> quote_row list" where
  "reserved_rows wallet route now db =
     filter (\<lambda>r. utc_day_start now \<le> qt_created_at r \<and> now \<le> qt_expires_at r \<and> qt_state r \<in> set active_states \<and>
        (case wallet of None \<Rightarrow> True | Some w \<Rightarrow> w = [] \<or> qt_buyer_wallet r = w) \<and>
        (case route of None \<Rightarrow> True | Some x \<Rightarrow> x = [] \<or> qt_route r = x)) (quotes db)"

fun sum_decimals :: "fdec \<Rightarrow> string list \<Rightarrow> quote_error + fdec" where
  "sum_decimals acc [] = Inr acc"
| "sum_decimals acc (t # ts) =
     sum_bind (decimal_value t ''reserved_iat'') (\<lambda>d. sum_bind (decimal (dec_add acc d)) (\<lambda>s. sum_decimals s ts))"

definition reserved_iat :: "string option \<Rightarrow> string option \<Rightarrow> int \<Rightarrow> checkout_db \<Rightarrow> quote_error + fdec" where
  "reserved_iat wallet route now db = sum_decimals dec_zero (map qt_required_iat (reserved_rows wallet route now db))"

section \<open>Creation\<close>

text \<open>The quote under one policy, with what is reserved now.\<close>

definition priced_quote ::
  "quote_world \<Rightarrow> quote_request \<Rightarrow> pydict \<Rightarrow> asset_snapshot \<Rightarrow> checkout_policy \<Rightarrow> raydium_snapshot option \<Rightarrow> int \<Rightarrow>
   fdec \<Rightarrow> fdec \<Rightarrow> quote_error + checkout_offer" where
  "priced_quote w q order asset p raydium now wallet_today treasury_today =
     quote_hybrid_checkout (qw_sha w) (default_mint (qw_env w)) order (qr_wallet q) asset p wallet_today treasury_today raydium now"

definition first_quote :: "quote_world \<Rightarrow> quote_request \<Rightarrow> pydict \<Rightarrow> int \<Rightarrow> int \<Rightarrow> checkout_db \<Rightarrow> quote_error + checkout_offer" where
  "first_quote w q order now clock snap =
     sum_bind (asset_snapshot_of (qw_to_int w) (qw_env w) (qw_assets w) (qr_asset q) clock) (\<lambda>asset.
     sum_bind (load_checkout_policy (qw_env w)) (\<lambda>p.
     sum_bind (reserved_iat (Some (qr_wallet q)) None now snap) (\<lambda>wallet_today.
     sum_bind (reserved_iat None (Some ''treasury'') now snap) (\<lambda>treasury_today.
     sum_bind (raydium_snapshot_of (qw_to_int w) (qw_raydium w) (qr_asset q)) (\<lambda>raydium.
       priced_quote w q order asset (quote_signer_compatible_policy (qw_env w) p) raydium now wallet_today treasury_today)))))"

definition live_quote ::
  "quote_world \<Rightarrow> quote_request \<Rightarrow> pydict \<Rightarrow> asset_snapshot \<Rightarrow> checkout_policy \<Rightarrow> int \<Rightarrow> checkout_db \<Rightarrow>
   quote_error + checkout_offer \<times> pydict" where
  "live_quote w q order asset p now snap =
     sum_bind (qw_live w order asset p) (\<lambda>(snapshot, provider).
     sum_bind (reserved_iat (Some (qr_wallet q)) None now snap) (\<lambda>wallet_today.
     sum_bind (reserved_iat None (Some ''treasury'') now snap) (\<lambda>treasury_today.
     sum_bind (priced_quote w q order asset (p \<lparr> po_ttl := min (po_ttl p) 25 \<rparr>) (Some snapshot) now wallet_today treasury_today)
       (\<lambda>f. Inr (f, provider)))))"

definition quote_refusal :: "quote_error \<Rightarrow> http_error" where
  "quote_refusal e =
     (case e of Rejected code details \<Rightarrow> Http 422 (PDict [(''code'', PStr code), (''details'', PDict details)]) | _ \<Rightarrow> Unhandled)"

definition offered_quote ::
  "quote_world \<Rightarrow> quote_request \<Rightarrow> pydict \<Rightarrow> int \<Rightarrow> int \<Rightarrow> checkout_db \<Rightarrow> http_error + checkout_offer \<times> pydict option" where
  "offered_quote w q order now clock snap =
     (case first_quote w q order now clock snap of
        Inr f \<Rightarrow> Inr (f, None)
      | Inl e \<Rightarrow>
          (case (e, asset_snapshot_of (qw_to_int w) (qw_env w) (qw_assets w) (qr_asset q) clock,
                 load_checkout_policy (qw_env w)) of
             (Rejected code _, Inr asset, Inr p) \<Rightarrow>
               if code = ''no_safe_checkout_route'' \<and> bool_env (qw_env w) ''IAT_RAYDIUM_LIVE_ENABLED'' \<and> po_raydium_enabled p
               then (case live_quote w q order asset (quote_signer_compatible_policy (qw_env w) p) now snap of
                       Inl e' \<Rightarrow> Inl (quote_refusal e')
                     | Inr (f, provider) \<Rightarrow> Inr (f, Some provider))
               else Inl (quote_refusal e)
           | _ \<Rightarrow> Inl (quote_refusal e)))"

definition new_quote ::
  "quote_request \<Rightarrow> string \<Rightarrow> string \<Rightarrow> string \<Rightarrow> checkout_offer \<Rightarrow> pydict option \<Rightarrow> int \<Rightarrow> quote_row" where
  "new_quote q quote_id request_hash key f provider now =
     \<lparr> qt_quote_id = quote_id, qt_order_id = qr_order_id q, qt_buyer_wallet = qr_wallet q, qt_route = of_route f,
       qt_state = ''quoted'',
       qt_payload = PDict (offer_dict f @ (case provider of None \<Rightarrow> [] | Some d \<Rightarrow> [(''_provider_payload'', PDict d)]) @
         [(''quote_id'', PStr quote_id)]),
       qt_created_at = of_created_at f, qt_tx_signature = None, qt_input_asset = py_upper (qr_asset q),
       qt_required_iat = dec_str (of_required f), qt_intent_hash = of_intent_hash f, qt_request_hash = request_hash,
       qt_key = key, qt_expires_at = of_expires_at f, qt_updated_at = now, qt_evidence = None \<rparr>"

definition request_hash_of :: "quote_world \<Rightarrow> quote_request \<Rightarrow> string" where
  "request_hash_of w q = canonical_hash (qw_sha w)
     [(''buyer_wallet'', PStr (qr_wallet q)), (''input_asset'', PStr (py_upper (qr_asset q))), (''order_id'', PStr (qr_order_id q))]"

definition create_universal_quote ::
  "quote_world \<Rightarrow> quote_request \<Rightarrow> string option \<Rightarrow> string \<Rightarrow> int \<Rightarrow> int \<Rightarrow> checkout_db \<Rightarrow> checkout_db \<Rightarrow>
   (http_error + pydict) \<times> checkout_db" where
  "create_universal_quote w q key uuid now clock snap db =
     (case key of
        None \<Rightarrow> (refuse 400 ''valid_idempotency_key_required'', db)
      | Some k \<Rightarrow>
          if \<not> (16 \<le> length k \<and> length k \<le> 128) then (refuse 400 ''valid_idempotency_key_required'', db)
          else
            (case find_order (qr_order_id q) snap of
               None \<Rightarrow> (refuse 404 ''order_not_found'', db)
             | Some order \<Rightarrow>
                 (case authorize_order (qr_secret q) (qr_wallet q) order of
                    Inl e \<Rightarrow> (Inl e, db)
                  | Inr _ \<Rightarrow>
                      (case get_by_idempotency k snap of
                         Some previous \<Rightarrow>
                           if qt_request_hash previous \<noteq> request_hash_of w q then (refuse 409 ''idempotency_key_conflict'', db)
                           else (Inr (public_quote previous), db)
                       | None \<Rightarrow>
                           (case active_quote_for_order (qr_order_id q) now snap of
                              Some active \<Rightarrow>
                                (Inl (Http 409 (PDict [(''code'', PStr ''order_has_active_checkout_quote''),
                                   (''quote_id'', PStr (qt_quote_id active)), (''state'', PStr (qt_state active)),
                                   (''expires_at'', PInt (qt_expires_at active))])), db)
                            | None \<Rightarrow>
                                (case offered_quote w q order now clock snap of
                                   Inl e \<Rightarrow> (Inl e, db)
                                 | Inr (f, provider) \<Rightarrow>
                                     let r = new_quote q (''uq_'' @ uuid) (request_hash_of w q) k f provider now in
                                     (case sql_insert quote_clash r (quotes db) of
                                        Some t \<Rightarrow> (Inr (dset (offer_dict f) ''quote_id'' (PStr (''uq_'' @ uuid))), db \<lparr> quotes := t \<rparr>)
                                      | None \<Rightarrow>
                                          (case get_by_idempotency k db of
                                             Some previous \<Rightarrow>
                                               if qt_request_hash previous = request_hash_of w q
                                               then (Inr (public_quote previous), db) else (Inl Violation, db)
                                           | None \<Rightarrow> (Inl Violation, db)))))))))"

section \<open>Preparation\<close>

text \<open>
  The plans: \<open>pw_treasury\<close> answers the instruction plan of a treasury purchase, \<open>pw_raydium\<close> the transaction of a
  swap and the hash of its message; \<open>Inl\<close> is the text of a caught error. The plan's nonce is read with \<open>int\<close>.
\<close>

record plan_world =
  pw_treasury :: "pydict \<Rightarrow> string \<Rightarrow> string + pydict"
  pw_raydium :: "pydict \<Rightarrow> string + pydict \<times> (string + string)"
  pw_to_int :: "pyval \<Rightarrow> int option"

definition prepared_response :: "quote_row \<Rightarrow> string \<Rightarrow> string \<Rightarrow> pydict \<Rightarrow> pydict" where
  "prepared_response r plan_state transaction_state extra =
     (let payload = as_dict (qt_payload r) in
      [(''status'', PStr ''prepared''), (''quote_id'', PStr (qt_quote_id r)), (''intent_hash'', PStr (qt_intent_hash r)),
       (''route'', PStr (qt_route r)), (''expires_at'', PInt (qt_expires_at r)),
       (''transaction_contract'', PDict
          [(''network'', PStr ''solana''), (''buyer_signer'', PStr (qt_buyer_wallet r)), (''input'', dget payload ''input''),
           (''minimum_iat_output'', dget payload ''output''), (''iat_destination'', PStr ''buyer_associated_token_account''),
           (''order_id'', PStr (qt_order_id r)), (''atomic_execution_required'', PBool True),
           (''simulation_required_before_submission'', PBool True)]),
       (''readiness'', PDict
          [(''policy_and_reservation'', PStr ''ready''), (''instruction_plan'', PStr plan_state),
           (''serialized_transaction'', PStr transaction_state), (''server_custody'', PBool False)])] @ extra)"

definition treasury_proof :: "(pyval \<Rightarrow> int option) \<Rightarrow> quote_row \<Rightarrow> pydict \<Rightarrow> http_error + pydict" where
  "treasury_proof to_int r plan =
     (let payload = as_dict (qt_payload r); input = as_dict (dget payload ''input''); output = as_dict (dget payload ''output'');
          replay = as_dict (dget plan ''anti_replay'');
          read = (\<lambda>v. case to_int v of None \<Rightarrow> Inl Unhandled | Some i \<Rightarrow> Inr (PInt i))
      in sum_bind (read (dget input ''amount_minor'')) (\<lambda>input_amount.
         sum_bind (read (dget output ''amount_minor'')) (\<lambda>iat_amount.
         sum_bind (read (dget replay ''nonce'')) (\<lambda>nonce.
           Inr ([(''buyer_wallet'', PStr (qt_buyer_wallet r)), (''program_id'', dget plan ''program_id''),
                 (''payment_intent'', dget replay ''payment_intent''), (''order_hash_hex'', dget replay ''order_hash_hex''),
                 (''quote_hash_hex'', dget replay ''quote_hash_hex''), (''input_mint'', dget input ''mint''),
                 (''input_amount'', input_amount), (''iat_amount'', iat_amount), (''nonce'', nonce)] @
                (if dget plan ''delivery_mode'' = PStr ''direct_to_buyer''
                 then [(''delivery_mode'', PStr ''direct_to_buyer''),
                       (''iat_destination'', dget (as_dict (dget plan ''display'')) ''iat_destination'')] else []) @
                [(''quote_authority'', dget plan ''quote_authority'')])))))"

text \<open>The response, and the proof to be stored with it if there is a plan.\<close>

definition prepared_plan :: "plan_world \<Rightarrow> quote_row \<Rightarrow> http_error + pydict \<times> pydict option" where
  "prepared_plan pw r =
     (let payload = as_dict (qt_payload r); unsigned = ''buyer_wallet_must_add_blockhash_and_sign'' in
      if qt_route r = ''treasury''
      then (case pw_treasury pw payload (qt_order_id r) of
              Inl e \<Rightarrow> Inr (prepared_response r (''configuration_error:'' @ e) unsigned [], None)
            | Inr plan \<Rightarrow> sum_bind (treasury_proof (pw_to_int pw) r plan) (\<lambda>proof.
                Inr (prepared_response r ''ready'' unsigned [(''solana_instruction_plan'', PDict plan)], Some proof)))
      else (case pw_raydium pw payload of
              Inl e \<Rightarrow> Inr (prepared_response r (''configuration_error:'' @ e) unsigned [], None)
            | Inr (plan, hash) \<Rightarrow>
                let response = (\<lambda>state. prepared_response r state ''ready_for_buyer_simulation_and_signature''
                      [(''raydium_transaction'', PDict plan)]) in
                (case hash of
                   Inl e \<Rightarrow> Inr (response (''configuration_error:'' @ e), None)
                 | Inr message_hash \<Rightarrow>
                     Inr (response ''ready'',
                          Some [(''buyer_wallet'', PStr (qt_buyer_wallet r)), (''message_hash'', PStr message_hash)]))))"

definition has_evidence :: "quote_row \<Rightarrow> bool" where
  "has_evidence r = (qt_evidence r \<noteq> None)"

definition stored_response :: "quote_row \<Rightarrow> pydict" where
  "stored_response r = as_dict (dget (case qt_evidence r of None \<Rightarrow> [] | Some e \<Rightarrow> e) ''prepared_response'')"

definition prepared_row :: "pydict \<Rightarrow> int \<Rightarrow> quote_row \<Rightarrow> quote_row" where
  "prepared_row evidence now r = r \<lparr> qt_state := ''prepared'', qt_evidence := Some evidence, qt_updated_at := now \<rparr>"

definition prepare_universal_checkout ::
  "plan_world \<Rightarrow> string \<Rightarrow> string \<Rightarrow> string \<Rightarrow> int \<Rightarrow> checkout_db \<Rightarrow> checkout_db \<Rightarrow> (http_error + pydict) \<times> checkout_db" where
  "prepare_universal_checkout pw quote_id secret wallet now snap db =
     (case owned_quote quote_id secret wallet snap of
        Inl e \<Rightarrow> (Inl e, db)
      | Inr (r, _) \<Rightarrow>
          (case compare_digest wallet (qt_buyer_wallet r) of
             Inl e \<Rightarrow> (Inl e, db)
           | Inr same \<Rightarrow>
               if \<not> same then (refuse 403 ''invalid_order_credential'', db)
               else if qt_expires_at r \<le> now then (refuse 410 ''quote_expired'', db)
               else if qt_state r = ''prepared'' \<and> has_evidence r then (Inr (stored_response r), db)
               else if qt_state r \<noteq> ''quoted'' then (refuse 409 ''quote_not_preparable'', db)
               else
                 (case prepared_plan pw r of
                    Inl e \<Rightarrow> (Inl e, db)
                  | Inr (response, None) \<Rightarrow> (Inr response, db)
                  | Inr (response, Some proof) \<Rightarrow>
                      (case sql_update (\<lambda>x. qt_quote_id x = quote_id \<and> qt_state x = ''quoted'')
                              (prepared_row [(''proof'', PDict proof), (''prepared_response'', PDict response)] now) (quotes db) of
                         (t, n) \<Rightarrow>
                           if n \<noteq> 1
                           then (case get_quote quote_id db of
                                   Some winner \<Rightarrow> if has_evidence winner then (Inr (stored_response winner), db)
                                                  else (refuse 409 ''quote_prepare_conflict'', db)
                                 | None \<Rightarrow> (refuse 409 ''quote_prepare_conflict'', db))
                           else (Inr response, db \<lparr> quotes := t \<rparr>)))))"

text \<open>Authorisation hands the prepared plan to the quote signer (\<open>signer\<close>) and changes nothing.\<close>

definition authorize_universal_checkout ::
  "(string \<Rightarrow> pydict \<Rightarrow> int \<Rightarrow> http_error + pydict) \<Rightarrow> string \<Rightarrow> string \<Rightarrow> string \<Rightarrow> string \<Rightarrow> int \<Rightarrow> checkout_db \<Rightarrow> http_error + pydict" where
  "authorize_universal_checkout signer quote_id secret wallet transaction now snap =
     sum_bind (owned_quote quote_id secret wallet snap) (\<lambda>(r, _).
     sum_bind (compare_digest wallet (qt_buyer_wallet r)) (\<lambda>same.
       if \<not> same then refuse 403 ''invalid_order_credential''
       else if qt_state r \<noteq> ''prepared'' \<or> \<not> has_evidence r then refuse 409 ''quote_not_authorizable''
       else if qt_expires_at r \<le> now then refuse 410 ''quote_expired''
       else
         (case dget (stored_response r) ''solana_instruction_plan'' of
            PDict plan \<Rightarrow>
              if dget plan ''protocol_authorization_signature_required'' \<noteq> PBool True
              then refuse 409 ''quote_authorization_plan_unavailable''
              else sum_bind (signer transaction plan (qt_expires_at r)) (\<lambda>result.
                Inr [(''status'', PStr ''authorized''), (''quote_id'', PStr quote_id),
                     (''transaction_base64'', dget result ''transaction_base64''), (''message_hash'', dget result ''message_hash''),
                     (''quote_authority'', dget result ''quote_authority''), (''expires_at'', dget result ''expires_at''),
                     (''buyer_signature_required'', PBool True),
                     (''next_step'', PStr ''buyer_wallet_must_review_simulate_sign_and_submit''),
                     (''idempotent'', PBool (truthy (dget result ''idempotent'')))])
          | _ \<Rightarrow> refuse 409 ''quote_authorization_plan_unavailable'')))"

section \<open>Submission\<close>

text \<open>The unique index: another quote has the signature.\<close>

definition signature_taken :: "string \<Rightarrow> string \<Rightarrow> quote_row list \<Rightarrow> bool" where
  "signature_taken quote_id sig t = list_ex (\<lambda>x. qt_quote_id x \<noteq> quote_id \<and> qt_tx_signature x = Some sig) t"

definition submitted_row :: "string \<Rightarrow> int \<Rightarrow> quote_row \<Rightarrow> quote_row" where
  "submitted_row sig now r = r \<lparr> qt_state := ''submitted'', qt_tx_signature := Some sig, qt_updated_at := now \<rparr>"

definition submit_universal_checkout ::
  "(string \<Rightarrow> bool) \<Rightarrow> string \<Rightarrow> string \<Rightarrow> string \<Rightarrow> string \<Rightarrow> int \<Rightarrow> checkout_db \<Rightarrow> checkout_db \<Rightarrow>
   (http_error + pydict) \<times> checkout_db" where
  "submit_universal_checkout valid_signature quote_id secret wallet sig now snap db =
     (if \<not> valid_signature sig then (refuse 422 ''invalid_transaction_signature'', db)
      else
        (case owned_quote quote_id secret wallet snap of
           Inl e \<Rightarrow> (Inl e, db)
         | Inr (r, _) \<Rightarrow>
             if qt_state r = ''submitted''
             then (case compare_digest (case qt_tx_signature r of None \<Rightarrow> [] | Some x \<Rightarrow> x) sig of
                     Inl e \<Rightarrow> (Inl e, db)
                   | Inr same \<Rightarrow>
                       if same
                       then (Inr [(''status'', PStr ''submitted''), (''quote_id'', PStr quote_id), (''tx_signature'', PStr sig),
                                  (''idempotent'', PBool True)], db)
                       else (refuse 409 ''quote_already_submitted'', db))
             else if qt_state r \<noteq> ''prepared'' \<or> \<not> has_evidence r then (refuse 409 ''quote_not_submittable'', db)
             else
               (case sql_update (\<lambda>x. qt_quote_id x = quote_id \<and> qt_state x = ''prepared'') (submitted_row sig now) (quotes db) of
                  (t, n) \<Rightarrow>
                    if n > 0 \<and> signature_taken quote_id sig (quotes db)
                    then (refuse 409 ''transaction_signature_already_claimed'', db)
                    else if n \<noteq> 1 then (refuse 409 ''transaction_claim_conflict'', db)
                    else (Inr [(''status'', PStr ''submitted''), (''quote_id'', PStr quote_id), (''tx_signature'', PStr sig),
                               (''next_step'', PStr (''/payments/v1/universal/'' @ quote_id @ ''/confirm'')),
                               (''idempotent'', PBool False)], db \<lparr> quotes := t \<rparr>))))"

definition attach_reconciled_signature :: "string \<Rightarrow> string \<Rightarrow> int \<Rightarrow> checkout_db \<Rightarrow> bool \<times> checkout_db" where
  "attach_reconciled_signature quote_id sig now db =
     (case sql_update (\<lambda>x. qt_quote_id x = quote_id \<and> qt_state x = ''prepared'' \<and> qt_tx_signature x = None)
             (submitted_row sig now) (quotes db) of
        (t, n) \<Rightarrow> if n > 0 \<and> signature_taken quote_id sig (quotes db) then (False, db) else (n = 1, db \<lparr> quotes := t \<rparr>))"

section \<open>Confirmation\<close>

definition row_signature :: "quote_row \<Rightarrow> string" where
  "row_signature r = (case qt_tx_signature r of None \<Rightarrow> [] | Some s \<Rightarrow> s)"

definition row_proof :: "quote_row \<Rightarrow> pydict" where
  "row_proof r = as_dict (dget (case qt_evidence r of None \<Rightarrow> [] | Some e \<Rightarrow> e) ''proof'')"

definition paid_order :: "string \<Rightarrow> int \<Rightarrow> pydict \<Rightarrow> pydict" where
  "paid_order sig now ord = dset (dset (dset ord ''status'' (PStr ''paid'')) ''tx_signature'' (PStr sig)) ''updated_at'' (PInt now)"

definition confirmable :: "quote_row \<Rightarrow> quote_row \<Rightarrow> bool" where
  "confirmable r x =
     (qt_quote_id x = qt_quote_id r \<and> qt_state x = ''submitted'' \<and> qt_tx_signature x \<noteq> None \<and> qt_tx_signature x = qt_tx_signature r)"

text \<open>One transaction: claim the signature, confirm the quote, mark the order paid, enqueue the delivery.\<close>

definition finalize_checkout :: "bool \<Rightarrow> quote_row \<Rightarrow> int \<Rightarrow> checkout_db \<Rightarrow> (http_error + unit) \<times> checkout_db" where
  "finalize_checkout postgres r now db =
     (let sig = row_signature r in
      if sig \<in> set (processed db) then (refuse 409 ''transaction_already_processed'', db)
      else
        (case sql_update (confirmable r) (\<lambda>x. x \<lparr> qt_state := ''confirmed'', qt_updated_at := now \<rparr>) (quotes db) of
           (t, n) \<Rightarrow>
             if n \<noteq> 1 then (refuse 409 ''confirmation_state_conflict'', db)
             else
               let paid = fst (sql_update (\<lambda>x. dget x ''order_id'' = PStr (qt_order_id r) \<and> dget x ''used'' = PBool False)
                                 (paid_order sig now) (orders db))
               in (case enqueue_delivery_tx postgres (qt_quote_id r) (qt_order_id r) sig now
                          (db \<lparr> processed := processed db @ [sig], quotes := t, orders := paid \<rparr>) of
                     (Inl _, _) \<Rightarrow> (Inl Violation, db)
                   | (Inr _, db') \<Rightarrow> (Inr (), db'))))"

datatype payment_answer = AlreadyConfirmed quote_row | PaymentPending string | PaymentVerified quote_row pydict

definition confirm_payment ::
  "(string \<Rightarrow> string \<Rightarrow> pydict \<Rightarrow> verification_error + pydict) \<Rightarrow> bool \<Rightarrow> string \<Rightarrow> string \<Rightarrow> string \<Rightarrow> int \<Rightarrow>
   checkout_db \<Rightarrow> checkout_db \<Rightarrow> (http_error + payment_answer) \<times> checkout_db" where
  "confirm_payment verify postgres quote_id secret wallet now snap db =
     (case owned_quote quote_id secret wallet snap of
        Inl e \<Rightarrow> (Inl e, db)
      | Inr (r, _) \<Rightarrow>
          if qt_state r = ''confirmed'' then (Inr (AlreadyConfirmed r), db)
          else if qt_state r \<noteq> ''submitted'' \<or> \<not> has_evidence r then (refuse 409 ''quote_not_confirmable'', db)
          else
            (case verify (row_signature r) (qt_route r) (row_proof r) of
               Inl Crash \<Rightarrow> (Inl Unhandled, db)
             | Inl (Verification code True) \<Rightarrow> (Inr (PaymentPending code), db)
             | Inl (Verification code False) \<Rightarrow>
                 (Inl (Http 422 (PDict [(''code'', PStr code), (''retryable'', PBool False)])),
                  db \<lparr> quotes := fst (sql_update (\<lambda>x. qt_quote_id x = quote_id \<and> qt_state x = ''submitted'')
                         (\<lambda>x. x \<lparr> qt_state := ''failed'', qt_updated_at := now \<rparr>) (quotes db)) \<rparr>)
             | Inr proof \<Rightarrow>
                 (case finalize_checkout postgres r now db of
                    (Inl e, db') \<Rightarrow> (Inl e, db')
                  | (Inr _, db') \<Rightarrow> (Inr (PaymentVerified r proof), db'))))"

section \<open>Delivery\<close>

definition sync_delivery_receipt ::
  "worker_env \<Rightarrow> quote_row \<Rightarrow> pydict \<Rightarrow> int \<Rightarrow> checkout_db \<Rightarrow> (http_error + pydict) \<times> checkout_db" where
  "sync_delivery_receipt w r delivery now db =
     (let receipt = (\<lambda>db'. Inr (public_delivery_receipt (we_urlp w) (get_delivery_receipt (qt_quote_id r) db'))) in
      if dget delivery ''state'' \<noteq> PStr ''completed'' then (receipt db, db)
      else (case dget delivery ''result'' of
              PDict payload \<Rightarrow>
                (case publish_delivery_payload (we_sha w) (we_urlp w) (we_sign w) (we_receipt_token w) (qt_quote_id r)
                        (qt_order_id r) payload (we_clock w) now db db of
                   (Inl _, db') \<Rightarrow> (Inl Unhandled, db')
                 | (Inr _, db') \<Rightarrow> (receipt db', db'))
            | _ \<Rightarrow> (receipt db, db)))"

text \<open>Run the delivery of a paid quote and answer with its state and its receipt.\<close>

definition deliver_paid ::
  "worker_env \<Rightarrow> string \<Rightarrow> quote_row \<Rightarrow> pydict \<Rightarrow> int \<Rightarrow> checkout_db \<Rightarrow> (http_error + pydict) \<times> checkout_db" where
  "deliver_paid w token r answer now db =
     (case run_checkout_delivery w token (qt_quote_id r) now db of
        (delivery, db1) \<Rightarrow>
          (case sync_delivery_receipt w r delivery now db1 of
             (Inl e, db2) \<Rightarrow> (Inl e, db2)
           | (Inr receipt, db2) \<Rightarrow> (Inr (answer @ [(''delivery'', PDict delivery), (''final_receipt'', PDict receipt)]), db2)))"

definition confirm_universal_checkout ::
  "worker_env \<Rightarrow> string \<Rightarrow> (string \<Rightarrow> string \<Rightarrow> pydict \<Rightarrow> verification_error + pydict) \<Rightarrow> bool \<Rightarrow> string \<Rightarrow> string \<Rightarrow> string \<Rightarrow>
   int \<Rightarrow> checkout_db \<Rightarrow> checkout_db \<Rightarrow> (http_error + pydict) \<times> checkout_db" where
  "confirm_universal_checkout w token verify postgres quote_id secret wallet now snap db =
     (case confirm_payment verify postgres quote_id secret wallet now snap db of
        (Inl e, db1) \<Rightarrow> (Inl e, db1)
      | (Inr (PaymentPending code), db1) \<Rightarrow>
          (Inr [(''status'', PStr ''pending''), (''quote_id'', PStr quote_id), (''reason'', PStr code), (''retryable'', PBool True)], db1)
      | (Inr (AlreadyConfirmed r), db1) \<Rightarrow>
          deliver_paid w token r [(''status'', PStr ''confirmed''), (''quote_id'', PStr quote_id),
            (''tx_signature'', pstr_opt (qt_tx_signature r)), (''idempotent'', PBool True)] now db1
      | (Inr (PaymentVerified r proof), db1) \<Rightarrow>
          deliver_paid w token r (proof @ [(''quote_id'', PStr quote_id), (''order_id'', PStr (qt_order_id r)),
            (''payment_verified'', PBool True), (''idempotent'', PBool False)]) now db1)"

definition deliver_universal_checkout ::
  "worker_env \<Rightarrow> string \<Rightarrow> string \<Rightarrow> string \<Rightarrow> string \<Rightarrow> int \<Rightarrow> checkout_db \<Rightarrow> (http_error + pydict) \<times> checkout_db" where
  "deliver_universal_checkout w token quote_id secret wallet now db =
     (case owned_quote quote_id secret wallet db of
        Inl e \<Rightarrow> (Inl e, db)
      | Inr (r, _) \<Rightarrow>
          if qt_state r \<noteq> ''confirmed'' then (refuse 409 ''payment_not_confirmed'', db)
          else
            (case dget (public_delivery_status quote_id db) ''state'' of
               PStr state \<Rightarrow>
                 (case (if state = ''review_required'' then resume_review_required_delivery quote_id ''authenticated_buyer'' now db db
                        else if state = ''retryable_failure'' then accelerate_foundation_retry (we_env w) quote_id ''authenticated_buyer'' now db db
                        else (Inr [], db)) of
                    (Inl _, db1) \<Rightarrow> (Inl Unhandled, db1)
                  | (Inr _, db1) \<Rightarrow>
                      deliver_paid w token r [(''status'', PStr ''delivery_checked''), (''quote_id'', PStr quote_id),
                        (''payment_verified'', PBool True)] now db1)
             | _ \<Rightarrow> deliver_paid w token r [(''status'', PStr ''delivery_checked''), (''quote_id'', PStr quote_id),
                      (''payment_verified'', PBool True)] now db))"

section \<open>Reconciliation\<close>

definition reconcilable_treasury_quotes :: "env \<Rightarrow> int \<Rightarrow> int \<Rightarrow> checkout_db \<Rightarrow> http_error + quote_row list" where
  "reconcilable_treasury_quotes getenv now limit db =
     (case py_int_of_string (env_text getenv ''IAT_CHECKOUT_RECONCILIATION_LOOKBACK_SECONDS'' ''604800'') of
        None \<Rightarrow> Inl Unhandled
      | Some configured \<Rightarrow>
          let lookback = max 3600 (min configured 2592000);
              of_state = (\<lambda>s. sort_key qt_updated_at (filter (\<lambda>r. qt_route r = ''treasury'' \<and> qt_state r = s \<and> has_evidence r \<and>
                           (s = ''submitted'' \<or> now - lookback \<le> qt_created_at r)) (quotes db)))
          in Inr (take (nat (max 1 (min limit 50))) (of_state ''submitted'' @ of_state ''prepared'')))"

text \<open>How a quote of the sweep ended; the sweep counts these.\<close>

datatype sweep_outcome = Recovered | StillPending | SweepRejected

definition confirmed_outcome :: "(http_error + pydict) \<times> checkout_db \<Rightarrow> (http_error + sweep_outcome) \<times> checkout_db" where
  "confirmed_outcome m =
     (case m of
        (Inr result, db) \<Rightarrow> (Inr (if dget result ''status'' = PStr ''confirmed'' then Recovered else StillPending), db)
      | (Inl (Http code detail), db) \<Rightarrow> (Inr SweepRejected, db)
      | (Inl e, db) \<Rightarrow> (Inl e, db))"

text \<open>The first candidate that verifies is attached and confirmed; an exception other than a refusal is passed on.\<close>

fun try_candidates ::
  "(string \<Rightarrow> string \<Rightarrow> pydict \<Rightarrow> verification_error + pydict) \<Rightarrow> (checkout_db \<Rightarrow> (http_error + pydict) \<times> checkout_db) \<Rightarrow>
   quote_row \<Rightarrow> int \<Rightarrow> string list \<Rightarrow> checkout_db \<Rightarrow> (http_error + sweep_outcome) \<times> checkout_db" where
  "try_candidates verify confirm r now [] db = (Inr StillPending, db)"
| "try_candidates verify confirm r now (sig # sigs) db =
     (case verify sig ''treasury'' (row_proof r) of
        Inl (Verification _ _) \<Rightarrow> try_candidates verify confirm r now sigs db
      | Inl Crash \<Rightarrow> (Inl Unhandled, db)
      | Inr _ \<Rightarrow> confirmed_outcome (confirm (snd (attach_reconciled_signature (qt_quote_id r) sig now db))))"

definition reconcile_quote ::
  "worker_env \<Rightarrow> string \<Rightarrow> (string \<Rightarrow> string \<Rightarrow> pydict \<Rightarrow> verification_error + pydict) \<Rightarrow>
   (string \<Rightarrow> int \<Rightarrow> verification_error + string list) \<Rightarrow> bool \<Rightarrow> int \<Rightarrow> quote_row \<Rightarrow> checkout_db \<Rightarrow>
   (http_error + sweep_outcome) \<times> checkout_db" where
  "reconcile_quote w token verify discover postgres now r db =
     (case find_order (qt_order_id r) db of
        None \<Rightarrow> (Inr SweepRejected, db)
      | Some order \<Rightarrow>
          (case compare_digest (str_or_empty (dget order ''buyer_wallet'')) (qt_buyer_wallet r) of
             Inl e \<Rightarrow> (Inl e, db)
           | Inr same \<Rightarrow>
               if order = [] \<or> \<not> same then (Inr SweepRejected, db)
               else
                 let confirm = (\<lambda>db'. confirm_universal_checkout w token verify postgres (qt_quote_id r)
                       (str_or_empty (dget order ''buyer_secret'')) (qt_buyer_wallet r) now db' db') in
                 if qt_state r = ''submitted'' then confirmed_outcome (confirm db)
                 else
                   (case discover (str_or_empty (dget (row_proof r) ''payment_intent'')) 5 of
                      Inl (Verification _ _) \<Rightarrow> (Inr StillPending, db)
                    | Inl Crash \<Rightarrow> (Inl Unhandled, db)
                    | Inr candidates \<Rightarrow> try_candidates verify confirm r now candidates db)))"

text \<open>Quote \<open>i\<close> of a sweep has its own world, token and clock.\<close>

fun reconcile_each ::
  "(nat \<Rightarrow> quote_row \<Rightarrow> checkout_db \<Rightarrow> (http_error + sweep_outcome) \<times> checkout_db) \<Rightarrow> nat \<Rightarrow> quote_row list \<Rightarrow>
   sweep_outcome list \<Rightarrow> checkout_db \<Rightarrow> (http_error + sweep_outcome list) \<times> checkout_db" where
  "reconcile_each step i [] done db = (Inr done, db)"
| "reconcile_each step i (r # rs) done db =
     (case step i r db of
        (Inl e, db') \<Rightarrow> (Inl e, db')
      | (Inr x, db') \<Rightarrow> reconcile_each step (Suc i) rs (done @ [x]) db')"

definition run_checkout_reconciliation_sweep ::
  "env \<Rightarrow> (nat \<Rightarrow> quote_row \<Rightarrow> checkout_db \<Rightarrow> (http_error + sweep_outcome) \<times> checkout_db) \<Rightarrow> int \<Rightarrow> int \<Rightarrow> checkout_db \<Rightarrow>
   (http_error + (nat \<times> nat \<times> nat \<times> nat)) \<times> checkout_db" where
  "run_checkout_reconciliation_sweep getenv step now limit db =
     (case reconcilable_treasury_quotes getenv now limit db of
        Inl e \<Rightarrow> (Inl e, db)
      | Inr selected \<Rightarrow>
          (case reconcile_each step 0 selected [] db of
             (Inl e, db') \<Rightarrow> (Inl e, db')
           | (Inr xs, db') \<Rightarrow>
               (Inr (length selected, length (filter ((=) Recovered) xs), length (filter ((=) StillPending) xs),
                     length (filter ((=) SweepRejected) xs)), db')))"

end
