(* ===== verification/QuoteFacts.thy ===== *)
theory QuoteFacts
  imports CheckoutQuoting
begin

text \<open>
  What a quote promises: the order is payable and bound to the buyer's wallet, the quote is short-lived,
  the minor units it asks for are the price rounded up, and the route's own conditions hold.
\<close>

section \<open>Rounding up\<close>

lemma dec_fix_zeros:
  assumes "dec_fix (Dec s (c * 10 ^ k) e) = Inr r" and "ndigits c \<le> 28" and "- 1000000 \<le> e"
  shows "dec_val r = dec_val (Dec s (c * 10 ^ k) e) \<and> dsign r = s"
proof (cases "c = 0")
  case False
  let ?n = "ndigits c + k"
  have nd: "ndigits (c * 10 ^ k) = ?n" using False by (rule ndigits_times)
  have c: "c * 10 ^ k \<noteq> 0" using False by simp
  show ?thesis
  proof (cases "?n \<le> 28")
    case True
    have "e \<le> 999972 \<or> dec_fix (Dec s (c * 10 ^ k) e) = Inl DecOverflow \<or> dec_fix (Dec s (c * 10 ^ k) e) = Inr (Dec s (c * 10 ^ k) e)"
      using True c by (auto simp: dec_fix_def dec_limits nd Let_def)
    then have "r = Dec s (c * 10 ^ k) e"
      using dec_fix_exact [of "Dec s (c * 10 ^ k) e"] True nd assms(1,3) by auto
    then show ?thesis by simp
  next
    case big: False
    obtain d where d: "28 = ndigits c + d" using assms(2) le_Suc_ex by blast
    then obtain j where j: "k = d + j" using big le_Suc_ex [of d k] by fastforce
    let ?m = "c * 10 ^ k"
    have m: "?m = (c * 10 ^ d) * 10 ^ j" by (simp add: j power_add)
    have quot: "round_quot HalfEven ?m j = c * 10 ^ d" unfolding m by (simp add: round_quot_exact)
    have digits: "ndigits ?m = 28 + j" "ndigits (c * 10 ^ d) = 28" using False d by (simp_all add: nd j ndigits_times)
    have "0 < j" using big d j by simp
    have "?m \<noteq> 0" by (rule c)
    then have "Dec s (c * 10 ^ d) (int j + e) = r"
      using assms(1,3) quot digits \<open>0 < j\<close>
      by (simp add: dec_fix_def dec_limits Let_def max_def del: mult_eq_0_iff split: if_splits)
    moreover have "(10::rat) powi (int j + e) = 10 ^ j * 10 powi e"
      using powi_split [of e "int j + e"] by simp
    moreover have "(10::rat) ^ k = 10 ^ d * 10 ^ j" by (simp add: j power_add)
    ultimately show ?thesis by (auto simp: dec_val_def)
  qed
next
  case True
  then show ?thesis using assms(1) by (auto simp: dec_fix_def dec_val_def Let_def)
qed

lemma round_up_ceiling: "int (round_quot RoundUp n k) = \<lceil>of_nat n / (10::rat) ^ k\<rceil>"
proof (rule ceiling_unique [symmetric])
  let ?p = "10 ^ k :: nat"
  have n: "n = n div ?p * ?p + n mod ?p" by (rule div_mult_mod_eq [symmetric])
  have less: "n mod ?p < ?p" by simp
  have q: "round_quot RoundUp n k = (if n mod ?p > 0 then n div ?p + 1 else n div ?p)" by (simp add: round_quot_def Let_def)
  have "n \<le> round_quot RoundUp n k * ?p" by (rule round_up_ge)
  then have "of_nat n \<le> (of_nat (round_quot RoundUp n k * ?p) :: rat)" by (simp only: of_nat_le_iff)
  then show "of_nat n / (10::rat) ^ k \<le> of_int (int (round_quot RoundUp n k))" by (simp add: field_simps)
  have "round_quot RoundUp n k * ?p < n + ?p"
  proof (cases "n mod ?p > 0")
    case True
    then have "round_quot RoundUp n k * ?p = n div ?p * ?p + ?p" by (simp add: q)
    then show ?thesis using n True by linarith
  next
    case False
    then show ?thesis using n by (simp add: q)
  qed
  then have "of_nat (round_quot RoundUp n k * ?p) < (of_nat (n + ?p) :: rat)" by (simp only: of_nat_less_iff)
  then show "of_int (int (round_quot RoundUp n k)) - 1 < of_nat n / (10::rat) ^ k" by (simp add: field_simps)
qed

lemma round_quot_zero [simp]: "round_quot m 0 k = 0"
  by (cases m) (simp_all add: round_quot_def)

lemma minor_units_up_ceiling:
  assumes "minor_units_up a n = Inr u" and "\<not> dsign a" and "ndigits (dcoef a) \<le> 28" and "- 1000000 \<le> dexp a"
  shows "u = \<lceil>dec_val a * 10 ^ nat n\<rceil>"
proof -
  obtain m q where m: "dec_fix (Dec False (dcoef a * 10 ^ nat n) (dexp a)) = Inr m" and q: "dec_quantize RoundUp m 0 = Inr q"
    and u: "u = dec_to_int q"
    using assms(1,2) by (auto simp: minor_units_up_def dec_mul_def dec_pow10_def sum_bind_Inr)
  have val: "dec_val m = dec_val a * 10 ^ nat n" and pos: "\<not> dsign m"
    using dec_fix_zeros [OF m assms(3,4)] assms(2) by (auto simp: dec_val_def mult_ac)
  have "u = \<lceil>dec_val m\<rceil>"
  proof (cases "0 \<le> dexp m")
    case True
    then have "dec_val m = of_int (int (dcoef m * 10 ^ nat (dexp m)))" using pos by (simp add: dec_val_def power_int_def)
    moreover have "u = int (dcoef m * 10 ^ nat (dexp m))"
      using pos True by (simp add: u quantize_whole [OF q] dec_rescale_def dec_to_int_def)
    ultimately show ?thesis by (simp only: ceiling_of_int)
  next
    case False
    then have "dec_val m = of_nat (dcoef m) / 10 ^ nat (- dexp m)" using pos by (simp add: dec_val_def power_int_def field_simps)
    moreover have "u = int (round_quot RoundUp (dcoef m) (nat (- dexp m)))"
      using pos False by (simp add: u quantize_whole [OF q] dec_rescale_def dec_to_int_def)
    ultimately show ?thesis by (simp only: round_up_ceiling)
  qed
  then show ?thesis by (simp add: val)
qed

section \<open>What a quote promises\<close>

text \<open>A positive number that the context represents without rounding.\<close>

definition ordinary :: "fdec \<Rightarrow> bool" where
  "ordinary d = (\<not> dsign d \<and> ndigits (dcoef d) \<le> 28 \<and> - 1000000 \<le> dexp d)"

lemma reason_if_simps [simp]: "reason_if b c = [] \<longleftrightarrow> \<not> b" "[] = reason_if b c \<longleftrightarrow> \<not> b"
  by (simp_all add: reason_if_def)

lemmas quote_monad = sum_bind_Inr decimal_def rejected_def integer_def

lemma make_offer_fields:
  assumes "make_offer sha iat_mint route order_id wallet asset p input required evidence now = Inr f"
  shows "of_route f = route" "of_order_id f = order_id" "of_wallet f = wallet" "of_input f = input"
    "of_required f = required" "of_created_at f = now" "of_expires_at f = now + po_ttl p"
    "minor_units_up input (as_decimals asset) = Inr (of_input_minor f)" "minor_units_up required iat_decimals = Inr (of_required_minor f)"
  using assms by (auto simp: make_offer_def Let_def quote_monad split: sum.splits)

lemma treasury_open:
  assumes "treasury_reasons p wallet_today treasury_today required = Inr []"
  obtains w t l where "dec_add wallet_today required = Inr w" "dec_add treasury_today required = Inr t"
    "dec_sub (po_inventory p) treasury_today = Inr l" "po_treasury_enabled p" "\<not> dec_lt (po_max_order p) required"
    "\<not> dec_lt (po_wallet_cap p) w" "\<not> dec_lt (po_treasury_cap p) t" "\<not> dec_lt l required"
    "po_program_id p \<noteq> []" "po_vault p \<noteq> []"
  using assms by (auto simp: treasury_reasons_def quote_monad split: sum.splits)

text \<open>The price of a pool, and how far it is from the reference price.\<close>

definition pool_deviation :: "checkout_policy \<Rightarrow> asset_snapshot \<Rightarrow> raydium_snapshot \<Rightarrow> dec_error + int" where
  "pool_deviation p asset r =
     sum_bind (dec_mul (ry_input r) (as_usd_price asset)) (\<lambda>paid.
     sum_bind (dec_div paid (ry_output r)) (\<lambda>price. deviation_bps price (po_reference_price p)))"

lemma raydium_open:
  assumes "raydium_reasons p asset required now r = Inr ([], evidence)"
  shows "now - ry_observed_at r \<le> po_oracle_max_age p \<and> ry_pool_id r \<in> set (po_pools p) \<and>
    ry_impact_bps r \<le> po_max_impact_bps p \<and> \<not> dec_lt (ry_liquidity_usd r) (po_min_liquidity p) \<and>
    \<not> dec_lt (ry_output r) required \<and> \<not> dec_le (ry_input r) dec_zero \<and>
    (\<exists>d. pool_deviation p asset r = Inr d \<and> d \<le> po_max_deviation_bps p)"
  using assms by (auto simp: raydium_reasons_def pool_deviation_def Let_def quote_monad split: sum.splits if_splits)

lemma payable_cases:
  assumes "payable_order order buyer_wallet asset p now = Inr required"
  shows "dec_of_string (py_str (dget order ''price'')) = Some (DFin required)"
    "py_strip buyer_wallet = py_strip (str_or_empty (dget order ''buyer_wallet''))" "\<not> truthy (dget order ''used'')"
    "py_lower (py_strip (str_or_empty (dget order ''status''))) \<notin> set terminal_order_states"
    "\<not> dec_le required dec_zero" "now - as_observed_at asset \<le> po_oracle_max_age p"
    "py_strip (str_or_empty (dget order ''order_id'')) \<noteq> []" "py_strip buyer_wallet \<noteq> []"
  using assms
  by (auto simp: payable_order_def quote_monad decimal_value_def split: if_splits option.splits pydec.splits)

lemma quote_cases:
  assumes "quote_hybrid_checkout sha iat_mint order buyer_wallet asset p wallet_today treasury_today raydium now = Inr f"
  obtains (treasury) required input where "payable_order order buyer_wallet asset p now = Inr required" "validate_policy p = Inr ()"
      "treasury_reasons p wallet_today treasury_today required = Inr []"
      "make_offer sha iat_mint ''treasury'' (py_strip (str_or_empty (dget order ''order_id''))) (py_strip buyer_wallet) asset p
         input required [] now = Inr f"
  | (raydium) required evidence r where "payable_order order buyer_wallet asset p now = Inr required" "validate_policy p = Inr ()"
      "raydium = Some r" "raydium_reasons p asset required now r = Inr ([], evidence)" "po_raydium_enabled p"
      "make_offer sha iat_mint ''raydium'' (py_strip (str_or_empty (dget order ''order_id''))) (py_strip buyer_wallet) asset p
         (ry_input r) required evidence now = Inr f"
  using assms unfolding quote_hybrid_checkout_def
  by (auto simp: quote_monad Let_def no_route_def split: if_splits option.splits sum.splits)

text \<open>
  C7: a quote is safe: it is for an order that is not in a closed state and not used, with the order's price, its
  identifier and its buyer wallet, at an asset price that is fresh; it lives between ten seconds and five minutes; it
  delivers the price rounded up to minor units and asks for its input rounded up, if both amounts have at most 28
  digits (\<open>ordinary\<close>). It goes through the enabled and configured
  treasury with the price within the limit of an order, the daily limits of the wallet and of the treasury and the
  inventory that is left; or through an allowed pool of an enabled Raydium route, whose fresh offer gives at least the
  price, within the limits of price impact, of liquidity and of deviation from the reference price.
\<close>

theorem quote_is_safe:
  assumes quote: "quote_hybrid_checkout sha iat_mint order buyer_wallet asset p wallet_today treasury_today raydium now = Inr f"
    and "ordinary (of_required f)" and "ordinary (of_input f)"
  shows "dec_of_string (py_str (dget order ''price'')) = Some (DFin (of_required f)) \<and> 0 < dec_val (of_required f) \<and>
    of_required_minor f = \<lceil>dec_val (of_required f) * 10 ^ 8\<rceil> \<and>
    of_input_minor f = \<lceil>dec_val (of_input f) * 10 ^ nat (as_decimals asset)\<rceil> \<and>
    of_wallet f = py_strip (str_or_empty (dget order ''buyer_wallet'')) \<and> of_wallet f = py_strip buyer_wallet \<and>
    of_wallet f \<noteq> [] \<and> of_order_id f = py_strip (str_or_empty (dget order ''order_id'')) \<and> of_order_id f \<noteq> [] \<and>
    \<not> truthy (dget order ''used'') \<and>
    py_lower (py_strip (str_or_empty (dget order ''status''))) \<notin>
      {''delivered'', ''completed'', ''settled'', ''refunded'', ''cancelled''} \<and>
    10 \<le> of_expires_at f - now \<and> of_expires_at f - now \<le> 300 \<and> now - as_observed_at asset \<le> po_oracle_max_age p \<and>
    ((\<exists>w t l. of_route f = ''treasury'' \<and> po_treasury_enabled p \<and> po_program_id p \<noteq> [] \<and> po_vault p \<noteq> [] \<and>
        dec_val (of_required f) \<le> dec_val (po_max_order p) \<and>
        dec_add wallet_today (of_required f) = Inr w \<and> dec_val w \<le> dec_val (po_wallet_cap p) \<and>
        dec_add treasury_today (of_required f) = Inr t \<and> dec_val t \<le> dec_val (po_treasury_cap p) \<and>
        dec_sub (po_inventory p) treasury_today = Inr l \<and> dec_val (of_required f) \<le> dec_val l) \<or>
     (\<exists>r d. of_route f = ''raydium'' \<and> po_raydium_enabled p \<and> raydium = Some r \<and> of_input f = ry_input r \<and>
        ry_pool_id r \<in> set (po_pools p) \<and> dec_val (of_required f) \<le> dec_val (ry_output r) \<and> 0 < dec_val (ry_input r) \<and>
        ry_impact_bps r \<le> po_max_impact_bps p \<and> dec_val (po_min_liquidity p) \<le> dec_val (ry_liquidity_usd r) \<and>
        pool_deviation p asset r = Inr d \<and> d \<le> po_max_deviation_bps p \<and>
        now - ry_observed_at r \<le> po_oracle_max_age p))"
proof -
  have ttl: "validate_policy p = Inr () \<Longrightarrow> 10 \<le> po_ttl p \<and> po_ttl p \<le> 300"
    by (auto simp: validate_policy_def rejected_def split: if_splits)
  have minor: "minor_units_up a n = Inr u \<Longrightarrow> ordinary a \<Longrightarrow> u = \<lceil>dec_val a * 10 ^ nat n\<rceil>" for a n u
    unfolding ordinary_def using minor_units_up_ceiling by blast
  have iat: "minor_units_up a 8 = Inr u \<Longrightarrow> ordinary a \<Longrightarrow> u = \<lceil>dec_val a * 100000000\<rceil>" for a u
    using minor [of a 8 u] by simp
  note facts = make_offer_fields payable_cases
  from quote show ?thesis
  proof (cases rule: quote_cases)
    case (treasury required input)
    then show ?thesis
      using ttl minor iat facts(8,9) [OF treasury(4)] assms(2,3) facts(1-7) [OF treasury(4)] payable_cases [OF treasury(1)]
      by (elim treasury_open) (simp add: dec_lt_iff dec_le_iff not_less not_le iat_decimals_def terminal_order_states_def)
  next
    case (raydium required evidence r)
    then show ?thesis
      using ttl minor iat facts(8,9) [OF raydium(6)] assms(2,3) facts(1-7) [OF raydium(6)] payable_cases [OF raydium(1)]
        raydium_open [OF raydium(4)] raydium(3,5)
      by (simp add: dec_lt_iff dec_le_iff not_less not_le iat_decimals_def terminal_order_states_def)
  qed
qed

definition quote_policy :: checkout_policy where
  "quote_policy =
     \<lparr> po_treasury_enabled = True, po_raydium_enabled = False, po_ttl = 60, po_oracle_max_age = 90, po_spread_bps = 50,
       po_max_order = dec_of_int 100, po_wallet_cap = dec_of_int 250, po_treasury_cap = dec_of_int 4,
       po_inventory = dec_of_int 1000, po_reference_price = dec_of_int 2, po_max_impact_bps = 300,
       po_min_liquidity = dec_of_int 10000, po_max_deviation_bps = 500, po_pools = [], po_program_id = ''P'', po_vault = ''V'' \<rparr>"

definition sample_asset :: asset_snapshot where
  "sample_asset = \<lparr> as_symbol = ''USDC'', as_mint = ''M'', as_decimals = 6, as_usd_price = dec_of_int 1,
     as_oracle = ''pyth'', as_observed_at = 1000 \<rparr>"

text \<open>Rules that compute with decimals.\<close>

lemma strip_numeral:
  "strip_zeros (numeral k) c e = (if c mod 10 = 0 then strip_zeros (pred_numeral k) (c div 10) (e + 1) else (c, e))"
  by (simp only: numeral_eq_Suc strip_zeros.simps)

lemma ndigits_numeral:
  "ndigits (numeral k) = (if numeral k < (10 :: nat) then 1 else Suc (ndigits (numeral k div 10)))" "ndigits 0 = 1" "ndigits (Suc 0) = 1"
  by (subst ndigits.simps, simp)+

lemmas dec_compute = dec_mul_def dec_add_def dec_sub_def dec_neg_def dec_div_def dec_fix_def dec_limits dec_at_def
  dec_of_int_def dec_zero_def dec_lt_def dec_le_def dec_cmp_def Let_def ndigits_numeral strip_numeral

definition sample_required :: fdec where "sample_required = Dec False 25 (- 1)"

lemma sample_reasons: "treasury_reasons quote_policy dec_zero dec_zero sample_required = Inr []"
  by (simp add: treasury_reasons_def quote_policy_def sample_required_def dec_compute decimal_def)

lemma sample_input: "treasury_input quote_policy sample_asset sample_required = Inr (Dec False 50250 (- 4))"
  by (simp add: treasury_input_def quote_policy_def sample_asset_def sample_required_def dec_compute)

lemmas quantize_compute = dec_compute dec_quantize_def dec_rescale_def dec_adjusted_def round_quot_def dec_to_int_def dec_pow10_def

lemma sample_minor:
  "minor_units_up (Dec False 50250 (- 4)) 6 = Inr 5025000" "minor_units_up sample_required 8 = Inr 250000000"
  "dec_div (dec_of_int 1) (dec_pow10 6) = Inr (Dec False 1 (- 6))"
  "dec_quantize RoundUp (Dec False 50250 (- 4)) (- 6) = Inr (Dec False 5025000 (- 6))"
  by (simp_all add: minor_units_up_def sample_required_def quantize_compute)

definition sale_order :: "string \<Rightarrow> pydict" where
  "sale_order i = [(''order_id'', PStr i), (''buyer_wallet'', PStr ''B''), (''price'', PStr ''2.5''), (''buyer_secret'', PStr ''S''),
     (''used'', PBool False)]"

lemma sample_price: "decimal_value ''2.5'' ''order_price'' = Inr sample_required"
  by (simp add: decimal_value_def dec_of_string_def py_strip_def py_lstrip_def py_space_def take_sign_def is_digit_def
      parse_exponent_def nat_of_digits_def digit_val_def sample_required_def)

lemmas sample_text = py_str_def str_or_empty_def py_strip_def py_lstrip_def py_space_def py_lower_def py_lower_char_def

lemma sample_payable:
  assumes "dget order ''price'' = PStr ''2.5''" and "dget order ''buyer_wallet'' = PStr ''B''" and "dget order ''order_id'' = PStr i"
    and "py_strip i \<noteq> []" and "dget order ''used'' = PBool False" and "dget order ''status'' \<in> {PNone, PStr ''paid''}" and "now \<le> 1090"
  shows "payable_order order ''B'' sample_asset quote_policy now = Inr sample_required"
proof -
  have "\<not> dec_le sample_required dec_zero" by (simp add: sample_required_def dec_compute)
  moreover have "i \<noteq> []" using assms(4) by (auto simp: py_strip_def py_lstrip_def)
  moreover have "py_lower (py_strip (str_or_empty (dget order ''status''))) \<notin> set terminal_order_states"
    using assms(6) by (auto simp: sample_text terminal_order_states_def)
  ultimately show ?thesis
    using assms(1-5,7) sample_price
    by (simp add: payable_order_def py_str_def str_or_empty_def sample_asset_def quote_policy_def)
      (simp add: py_strip_def py_lstrip_def py_space_def)
qed

lemma sample_offered:
  assumes "payable_order order ''B'' sample_asset quote_policy now = Inr sample_required"
  shows "\<exists>f. quote_hybrid_checkout sha mint order ''B'' sample_asset quote_policy dec_zero dec_zero raydium now = Inr f \<and>
    of_input f = Dec False 50250 (- 4) \<and> of_required f = sample_required \<and> of_input_minor f = 5025000 \<and>
    of_route f = ''treasury'' \<and> of_created_at f = now \<and> of_expires_at f = now + 60"
proof -
  have "validate_policy quote_policy = Inr ()"
    by (simp add: validate_policy_def quote_policy_def dec_compute)
  moreover have "as_decimals sample_asset = 6" by (simp add: sample_asset_def)
  moreover have "po_ttl quote_policy = 60" by (simp add: quote_policy_def)
  ultimately show ?thesis
    by (simp add: quote_hybrid_checkout_def assms sample_reasons sample_input decimal_def make_offer_def
        sample_minor iat_decimals_def Let_def)
qed

definition sample_offer :: "quote_error + checkout_offer" where
  "sample_offer = quote_hybrid_checkout (\<lambda>_. ''h'') ''I'' (sale_order ''o1'') ''B'' sample_asset quote_policy dec_zero dec_zero None 1010"

theorem quote_is_safe_witness:
  "\<exists>f. sample_offer = Inr f \<and> of_required_minor f = \<lceil>dec_val (of_required f) * 10 ^ 8\<rceil> \<and>
     5025000 = \<lceil>dec_val (of_input f) * 10 ^ 6\<rceil> \<and> of_wallet f = ''B''"
proof -
  have "payable_order (sale_order ''o1'') ''B'' sample_asset quote_policy 1010 = Inr sample_required"
    by (rule sample_payable [of _ "''o1''"]) (simp_all add: sale_order_def py_strip_def py_lstrip_def py_space_def)
  from sample_offered [OF this] obtain f where f: "sample_offer = Inr f" "of_input f = Dec False 50250 (- 4)" "of_required f = sample_required"
      "of_input_minor f = 5025000"
    unfolding sample_offer_def by blast
  have "ordinary (of_required f)" "ordinary (of_input f)"
    by (simp_all add: f ordinary_def sample_required_def ndigits_numeral)
  then show ?thesis
    using quote_is_safe [OF f(1) [unfolded sample_offer_def]] f(1,4)
    by (intro exI [of _ f]) (simp add: sample_asset_def sale_order_def str_or_empty_def py_str_def py_strip_def py_lstrip_def py_space_def)
qed

end
