(* ===== verification/QuoteHistory.thy ===== *)
theory QuoteHistory
  imports QuoteLifecycle QuoteFacts DeliveryQueue
begin

text \<open>
  What holds along any history of the quotes, with handlers acting on reads of any age: every delivery in the queue is
  paid for by a verified transaction of its own, and the treasury's reservations stay within its limits.
\<close>

section \<open>How a quote changes\<close>

definition later :: "quote_row \<Rightarrow> quote_row \<Rightarrow> bool" where
  "later r r' =
     (qt_quote_id r' = qt_quote_id r \<and> qt_order_id r' = qt_order_id r \<and> qt_route r' = qt_route r \<and>
      qt_created_at r' = qt_created_at r \<and> qt_expires_at r' = qt_expires_at r \<and> qt_required_iat r' = qt_required_iat r \<and>
      qt_key r' = qt_key r \<and>
      (qt_tx_signature r \<noteq> None \<longrightarrow> qt_tx_signature r' = qt_tx_signature r) \<and>
      (qt_evidence r \<noteq> None \<longrightarrow> qt_evidence r' = qt_evidence r) \<and>
      (qt_state r \<notin> set active_states \<longrightarrow> qt_state r' = qt_state r))"

lemma later_refl [simp]: "later r r"
  by (simp add: later_def)

lemma later_trans: "later a b \<Longrightarrow> later b c \<Longrightarrow> later a c"
  unfolding later_def by (metis option.distinct(1))

definition quotes_later :: "quote_row list \<Rightarrow> quote_row list \<Rightarrow> bool" where
  "quotes_later t t' = (\<exists>u v. t' = u @ v \<and> list_all2 later t u)"

lemma quotes_later_refl [simp]: "quotes_later t t"
  unfolding quotes_later_def by (intro exI [of _ t] exI [of _ "[]"]) (simp add: list.rel_refl)

lemma quotes_later_trans: "quotes_later a b \<Longrightarrow> quotes_later b c \<Longrightarrow> quotes_later a c"
proof -
  assume "quotes_later a b" "quotes_later b c"
  then obtain u v x y where b: "b = u @ v" "list_all2 later a u" and c: "c = x @ y" "list_all2 later b x"
    unfolding quotes_later_def by blast
  from c(2) obtain x1 x2 where x: "x = x1 @ x2" "list_all2 later u x1" unfolding b(1) by (auto simp: list_all2_append1)
  then have "list_all2 later a x1" using b(2) list_all2_trans [of later later later a u x1] later_trans by blast
  then show ?thesis unfolding quotes_later_def c(1) x(1) by (intro exI [of _ x1] exI [of _ "x2 @ y"]) simp
qed

lemma quotes_later_row: "quotes_later t t' \<Longrightarrow> r \<in> set t \<Longrightarrow> \<exists>r' \<in> set t'. later r r'"
  unfolding quotes_later_def by (auto simp: list_all2_conv_all_nth in_set_conv_nth intro!: bexI)

lemma quotes_later_update: "(\<And>r. r \<in> set t \<Longrightarrow> P r \<Longrightarrow> later r (f r)) \<Longrightarrow> quotes_later t (fst (sql_update P f t))"
  unfolding quotes_later_def sql_update_def
  by (intro exI [of _ "map (\<lambda>r. if P r then f r else r) t"] exI [of _ "[]"]) (simp add: list_all2_map2 list.rel_refl_strong)

definition promoted :: "quote_row \<Rightarrow> quote_row \<Rightarrow> bool" where
  "promoted r r' =
     ((\<exists>e n. qt_state r = ''quoted'' \<and> r' = prepared_row e n r) \<or>
      (\<exists>s n. qt_state r = ''prepared'' \<and> r' = submitted_row s n r) \<or>
      (\<exists>n. qt_state r = ''submitted'' \<and> r' = r \<lparr> qt_state := ''failed'', qt_updated_at := n \<rparr>))"

text \<open>The price of a row, and what a row of the table is like.\<close>

definition row_price :: "quote_row \<Rightarrow> rat" where
  "row_price r = (case dec_of_string (qt_required_iat r) of Some (DFin d) \<Rightarrow> dec_val d | _ \<Rightarrow> 0)"

definition row_ok :: "(string \<Rightarrow> string \<Rightarrow> pydict \<Rightarrow> bool) \<Rightarrow> string list \<Rightarrow> quote_row \<Rightarrow> bool" where
  "row_ok paid done r =
     ((qt_state r = ''quoted'' \<and> qt_tx_signature r = None \<and> qt_evidence r = None \<or>
       qt_state r = ''prepared'' \<and> qt_tx_signature r = None \<and> qt_evidence r \<noteq> None \<or>
       qt_state r \<in> {''submitted'', ''failed'', ''confirmed''} \<and> qt_tx_signature r \<noteq> None \<and> qt_evidence r \<noteq> None) \<and>
      (qt_state r = ''confirmed'' \<longrightarrow>
         row_signature r \<in> set done \<and> paid (row_signature r) (qt_route r) (row_proof r)) \<and> 0 \<le> row_price r)"

lemma promoted_fields:
  assumes "promoted r r'" and "row_ok paid done r"
  shows "later r r' \<and> row_ok paid done r'"
  using assms unfolding promoted_def row_ok_def later_def prepared_row_def submitted_row_def active_states_def row_price_def
  by (elim disjE exE conjE) simp_all

definition paid_delivery :: "quote_row list \<Rightarrow> delivery \<Rightarrow> bool" where
  "paid_delivery t d =
     (\<exists>r \<in> set t. qt_quote_id r = dl_quote_id d \<and> qt_order_id r = dl_order_id d \<and>
        qt_tx_signature r = Some (dl_tx_signature d) \<and> qt_state r = ''confirmed'')"

definition one_signature :: "quote_row list \<Rightarrow> bool" where
  "one_signature t = (\<forall>r \<in> set t. \<forall>x \<in> set t. qt_tx_signature r \<noteq> None \<and> qt_tx_signature r = qt_tx_signature x \<longrightarrow>
     qt_quote_id r = qt_quote_id x)"

definition quotes_ok :: "(string \<Rightarrow> string \<Rightarrow> pydict \<Rightarrow> bool) \<Rightarrow> checkout_db \<Rightarrow> bool" where
  "quotes_ok paid db =
     (unique_by qt_quote_id (quotes db) \<and> one_signature (quotes db) \<and> list_all (row_ok paid (processed db)) (quotes db) \<and>
      list_all (paid_delivery (quotes db)) (deliveries db))"

section \<open>What a handler does\<close>

inductive quote_change :: "(string \<Rightarrow> string \<Rightarrow> pydict \<Rightarrow> bool) \<Rightarrow> checkout_db \<Rightarrow> checkout_db \<Rightarrow> bool"
  for paid :: "string \<Rightarrow> string \<Rightarrow> pydict \<Rightarrow> bool" and db :: checkout_db where
  untouched: "quotes db' = quotes db \<Longrightarrow> processed db' = processed db \<Longrightarrow> deliveries db' = deliveries db \<Longrightarrow> quote_change paid db db'"
| added: "quotes db' = quotes db @ [r] \<Longrightarrow> list_all (\<lambda>x. \<not> quote_clash r x) (quotes db) \<Longrightarrow> qt_state r = ''quoted'' \<Longrightarrow>
    qt_tx_signature r = None \<Longrightarrow> qt_evidence r = None \<Longrightarrow> 0 \<le> row_price r \<Longrightarrow> processed db' = processed db \<Longrightarrow>
    deliveries db' = deliveries db \<Longrightarrow> quote_change paid db db'"
| moved: "quotes db' = fst (sql_update P f (quotes db)) \<Longrightarrow> (\<And>r. P r \<Longrightarrow> qt_quote_id r = q \<and> promoted r (f r)) \<Longrightarrow>
    (\<And>r s. P r \<Longrightarrow> qt_tx_signature (f r) = Some s \<Longrightarrow> qt_tx_signature r = Some s \<or> \<not> signature_taken q s (quotes db)) \<Longrightarrow>
    processed db' = processed db \<Longrightarrow> deliveries db' = deliveries db \<Longrightarrow> quote_change paid db db'"
| confirmed: "x \<in> set (quotes db) \<Longrightarrow> later r x \<Longrightarrow> quotes db' = fst (sql_update (confirmable r) (\<lambda>x. x \<lparr> qt_state := ''confirmed'', qt_updated_at := now \<rparr>) (quotes db)) \<Longrightarrow>
    length (filter (confirmable r) (quotes db)) = 1 \<Longrightarrow> processed db' = processed db @ [row_signature r] \<Longrightarrow>
    paid (row_signature r) (qt_route r) (row_proof r) \<Longrightarrow> qt_evidence r \<noteq> None \<Longrightarrow>
    deliveries db' = deliveries db \<or>
      deliveries db' = deliveries db @ [new_delivery (qt_quote_id r) (qt_order_id r) (row_signature r) now] \<Longrightarrow>
    quote_change paid db db'"

lemma row_ok_grows: "row_ok paid done r \<Longrightarrow> set done \<subseteq> set done' \<Longrightarrow> row_ok paid done' r"
  by (auto simp: row_ok_def)

lemma paid_later: "quotes_later t t' \<Longrightarrow> paid_delivery t d \<Longrightarrow> paid_delivery t' d"
  unfolding paid_delivery_def by (fastforce dest: quotes_later_row simp: later_def active_states_def)

lemma one_signature_kept:
  assumes "one_signature t" and "\<And>r. P r \<Longrightarrow> qt_quote_id r = q \<and> qt_quote_id (f r) = q"
    and "\<And>r s. P r \<Longrightarrow> qt_tx_signature (f r) = Some s \<Longrightarrow> qt_tx_signature r = Some s \<or> \<not> signature_taken q s t"
  shows "one_signature (fst (sql_update P f t))"
proof -
  let ?g = "\<lambda>r. if P r then f r else r"
  have id: "qt_quote_id (?g r) = qt_quote_id r" for r using assms(2) by (cases "P r") auto
  have taken: "qt_tx_signature x \<noteq> Some s" if "\<not> signature_taken q s t" "x \<in> set t" "qt_quote_id x \<noteq> q" for x s
    using that by (auto simp: signature_taken_def list_ex_iff)
  have "qt_quote_id r = qt_quote_id x"
    if rx: "r \<in> set t" "x \<in> set t" and s: "qt_tx_signature (?g r) = Some s" "qt_tx_signature (?g x) = Some s" for r x s
  proof (rule ccontr)
    assume ne: "qt_quote_id r \<noteq> qt_quote_id x"
    then have "\<not> (qt_tx_signature r = Some s \<and> qt_tx_signature x = Some s)"
      using assms(1) rx unfolding one_signature_def by (metis option.distinct(1))
    then show False
      using s taken [OF _ rx(1)] taken [OF _ rx(2)] assms(2) [of r] assms(2) [of x] assms(3) [of r s] assms(3) [of x s] ne
      by (cases "P r"; cases "P x") auto
  qed
  then show ?thesis unfolding one_signature_def set_sql_update using id by fastforce
qed

lemma one_signature_snoc: "qt_tx_signature r = None \<Longrightarrow> one_signature (t @ [r]) = one_signature t"
  unfolding one_signature_def by (auto simp del: not_None_eq)

lemma row_ok_update:
  assumes "list_all (row_ok paid done) t" and "set done \<subseteq> set done'"
    and "\<And>r. r \<in> set t \<Longrightarrow> P r \<Longrightarrow> row_ok paid done r \<Longrightarrow> row_ok paid done' (f r)"
  shows "list_all (row_ok paid done') (fst (sql_update P f t))"
  using assms row_ok_grows by (fastforce simp: list_all_iff set_sql_update)

lemma confirmed_row:
  assumes "row_ok paid done x" and "later r x" and "confirmable r x" and "qt_evidence r \<noteq> None"
    and "paid (row_signature r) (qt_route r) (row_proof r)"
  shows "row_ok paid (done @ [row_signature r]) (x \<lparr> qt_state := ''confirmed'', qt_updated_at := now \<rparr>)"
proof -
  have "qt_evidence x = qt_evidence r" "qt_route x = qt_route r" "qt_tx_signature x = qt_tx_signature r" "qt_state x = ''submitted''"
    using assms(2-4) by (auto simp: later_def confirmable_def)
  moreover have "qt_tx_signature x \<noteq> None" "0 \<le> row_price x"
    using assms(1,3) by (auto simp: confirmable_def row_ok_def)
  moreover have "paid (row_signature x) (qt_route x) (row_proof x)" "row_signature x = row_signature r"
    using calculation assms(5) by (simp_all add: row_signature_def row_proof_def)
  ultimately show ?thesis using assms(4) by (simp add: row_ok_def row_signature_def row_proof_def row_price_def)
qed

lemma change_kept:
  assumes "quote_change paid db db'" and "quotes_ok paid db"
  shows "quotes_ok paid db' \<and> quotes_later (quotes db) (quotes db')"
  using assms(1)
proof cases
  case untouched
  with assms(2) show ?thesis by (simp add: quotes_ok_def)
next
  case (added r)
  have "quotes_later (quotes db) (quotes db')"
    unfolding quotes_later_def added by (intro exI [of _ "quotes db"] exI [of _ "[r]"]) (simp add: list.rel_refl)
  moreover have "unique_by qt_quote_id (quotes db')"
    using added assms(2) by (auto simp: quotes_ok_def unique_by_snoc row_by_None_iff list_all_iff quote_clash_def)
  moreover have "one_signature (quotes db')"
    using added(1,4) assms(2) by (simp add: quotes_ok_def one_signature_snoc)
  moreover have "list_all (row_ok paid (processed db')) (quotes db')"
    using added assms(2) by (simp add: quotes_ok_def row_ok_def)
  moreover have "list_all (paid_delivery (quotes db')) (deliveries db')"
    using added assms(2) calculation(1) paid_later by (auto simp: quotes_ok_def list_all_iff)
  ultimately show ?thesis by (simp add: quotes_ok_def)
next
  case (moved P f q)
  have ok: "list_all (row_ok paid (processed db)) (quotes db)" using assms(2) by (simp add: quotes_ok_def)
  have step: "later r (f r) \<and> row_ok paid (processed db) (f r)" if "r \<in> set (quotes db)" "P r" for r
    using promoted_fields [of r "f r"] moved(2) [OF that(2)] ok that(1) by (auto simp: list_all_iff)
  have id: "qt_quote_id (f r) = qt_quote_id r" if "P r" for r
    using moved(2) [OF that] by (auto simp: promoted_def prepared_row_def submitted_row_def)
  have later: "quotes_later (quotes db) (quotes db')" unfolding moved(1) using step by (intro quotes_later_update) blast
  moreover have "unique_by qt_quote_id (quotes db')"
    using assms(2) id by (simp add: quotes_ok_def moved(1) unique_by_update)
  moreover have "one_signature (quotes db')"
    unfolding moved(1)
    by (rule one_signature_kept [of _ _ q]) (use assms(2) moved id in \<open>auto simp: quotes_ok_def\<close>)
  moreover have "list_all (row_ok paid (processed db')) (quotes db')"
    unfolding moved(1) by (rule row_ok_update [OF ok]) (use moved step in auto)
  moreover have "list_all (paid_delivery (quotes db')) (deliveries db')"
    using assms(2) moved later paid_later by (auto simp: quotes_ok_def list_all_iff)
  ultimately show ?thesis by (simp add: quotes_ok_def)
next
  case (confirmed x r now)
  let ?f = "\<lambda>x. x \<lparr> qt_state := ''confirmed'', qt_updated_at := now \<rparr>"
  have ok: "list_all (row_ok paid (processed db)) (quotes db)" and uniq: "unique_by qt_quote_id (quotes db)"
    using assms(2) by (simp_all add: quotes_ok_def)
  have only: "y = x" if "y \<in> set (quotes db)" "confirmable r y" for y
    using unique_by_inj [OF uniq that(1) confirmed(1)] that(2) confirmed(2) by (simp add: confirmable_def later_def)
  have "filter (confirmable r) (quotes db) \<noteq> []" using confirmed(4) by auto
  then obtain y where "y \<in> set (quotes db)" "confirmable r y" by (auto simp: filter_empty_conv)
  then have x: "confirmable r x" using only by simp
  have later: "quotes_later (quotes db) (quotes db')" unfolding confirmed(3)
    by (rule quotes_later_update) (auto simp: confirmable_def later_def active_states_def)
  have new: "?f x \<in> set (quotes db')" using confirmed(1) x by (force simp: confirmed(3) set_sql_update)
  moreover have "unique_by qt_quote_id (quotes db')" using uniq by (simp add: confirmed(3) unique_by_update)
  moreover have "one_signature (quotes db')"
    unfolding confirmed(3)
    by (rule one_signature_kept [of _ _ "qt_quote_id r"]) (use assms(2) in \<open>auto simp: quotes_ok_def confirmable_def\<close>)
  moreover have "list_all (row_ok paid (processed db')) (quotes db')"
    unfolding confirmed(3,5)
    by (rule row_ok_update [OF ok]) (use only confirmed confirmed_row in auto)
  moreover have "list_all (paid_delivery (quotes db')) (deliveries db')"
  proof -
    have old: "list_all (paid_delivery (quotes db')) (deliveries db)"
      using assms(2) later paid_later by (auto simp: quotes_ok_def list_all_iff)
    have "paid_delivery (quotes db') (new_delivery (qt_quote_id r) (qt_order_id r) (row_signature r) now)"
      unfolding paid_delivery_def
    proof (intro bexI [OF _ new])
      have "qt_tx_signature x = Some (row_signature r)" using x by (cases "qt_tx_signature r") (auto simp: confirmable_def row_signature_def)
      then show "qt_quote_id (?f x) = dl_quote_id (new_delivery (qt_quote_id r) (qt_order_id r) (row_signature r) now) \<and>
          qt_order_id (?f x) = dl_order_id (new_delivery (qt_quote_id r) (qt_order_id r) (row_signature r) now) \<and>
          qt_tx_signature (?f x) = Some (dl_tx_signature (new_delivery (qt_quote_id r) (qt_order_id r) (row_signature r) now)) \<and>
          qt_state (?f x) = ''confirmed''"
        using confirmed(2) by (simp add: new_delivery_def later_def)
    qed
    with old confirmed(8) show ?thesis by auto
  qed
  ultimately show ?thesis using later by (simp add: quotes_ok_def)
qed

text \<open>Every handler makes such a change.\<close>

lemma ends_verification:
  "(v = Crash \<Longrightarrow> ends Q m) \<Longrightarrow> (\<And>code b. v = Verification code b \<Longrightarrow> ends Q (f code b)) \<Longrightarrow>
   ends Q (case v of Crash \<Rightarrow> m | Verification code b \<Rightarrow> f code b)"
  by (cases v) simp_all

lemma moved_change:
  assumes "sql_update P f (quotes db) = (t, n)" and "\<And>r. P r \<Longrightarrow> qt_quote_id r = q \<and> promoted r (f r)"
    and "\<And>r s. P r \<Longrightarrow> qt_tx_signature (f r) = Some s \<Longrightarrow> qt_tx_signature r = Some s \<or> \<not> signature_taken q s (quotes db)"
  shows "quote_change paid db (db \<lparr> quotes := t \<rparr>)"
  using assms by (intro quote_change.moved [of _ P f _ q]) (auto simp: fst_def)

lemma promoted_rows:
  "qt_state r = ''quoted'' \<Longrightarrow> promoted r (prepared_row e n r)" "qt_state r = ''prepared'' \<Longrightarrow> promoted r (submitted_row s n r)"
  "qt_state r = ''submitted'' \<Longrightarrow> promoted r (r \<lparr> qt_state := ''failed'', qt_updated_at := n \<rparr>)"
  unfolding promoted_def by blast+

lemma claimed_change:
  assumes "sql_update (\<lambda>x. qt_quote_id x = q \<and> Q x) (submitted_row sig now) (quotes db) = (t, n)" and "\<And>x. Q x \<Longrightarrow> qt_state x = ''prepared''"
    and "\<not> (n > 0 \<and> signature_taken q sig (quotes db))"
  shows "quote_change paid db (db \<lparr> quotes := t \<rparr>)"
proof (cases "n = 0")
  case True
  then have "t = quotes db" using rowcount_0_same assms(1) by (metis fst_conv snd_conv)
  then show ?thesis by (intro quote_change.untouched) simp_all
next
  case False
  then show ?thesis
    by (intro moved_change [OF assms(1), of q]) (use assms(2,3) promoted_rows(2) in \<open>auto simp: submitted_row_def\<close>)
qed

lemma unchanged: "quote_change paid db db"
  by (rule quote_change.untouched) simp_all

lemma prepare_change: "quote_change paid db (snd (prepare_universal_checkout pw q secret wallet now snap db))"
proof -
  have "ends (quote_change paid db) (prepare_universal_checkout pw q secret wallet now snap db)"
    unfolding prepare_universal_checkout_def refuse_def
    by (intro ends_rules ends_pair unchanged moved_change [where q = q], assumption)
      (simp_all add: promoted_rows(1), simp add: prepared_row_def)
  then show ?thesis by (simp add: ends_def)
qed

lemma submit_change: "quote_change paid db (snd (submit_universal_checkout valid q secret wallet sig now snap db))"
proof -
  have "ends (quote_change paid db) (submit_universal_checkout valid q secret wallet sig now snap db)"
    unfolding submit_universal_checkout_def refuse_def
    by (intro ends_rules ends_pair unchanged claimed_change [of q "\<lambda>x. qt_state x = ''prepared''" sig now], assumption)
  then show ?thesis by (simp add: ends_def)
qed

lemma attach_change: "quote_change paid db (snd (attach_reconciled_signature q sig now db))"
proof -
  have "ends (quote_change paid db) (attach_reconciled_signature q sig now db)"
    unfolding attach_reconciled_signature_def
    by (intro ends_rules ends_pair unchanged
        claimed_change [of q "\<lambda>x. qt_state x = ''prepared'' \<and> qt_tx_signature x = None" sig now], assumption) simp_all
  then show ?thesis by (simp add: ends_def)
qed

lemma finalize_change:
  assumes "x \<in> set (quotes db)" and "later r x" and "paid (row_signature r) (qt_route r) (row_proof r)"
    and "qt_evidence r \<noteq> None"
  shows "quote_change paid db (snd (finalize_checkout postgres r now db))"
proof -
  have "ends (quote_change paid db) (finalize_checkout postgres r now db)"
    unfolding finalize_checkout_def refuse_def Let_def
  proof (intro ends_rules ends_pair unchanged)
    fix t n p db' y
    assume u: "sql_update (confirmable r) (\<lambda>x. x \<lparr> qt_state := ''confirmed'', qt_updated_at := now \<rparr>) (quotes db) = (t, n)" "\<not> n \<noteq> 1"
      and e: "enqueue_delivery_tx postgres (qt_quote_id r) (qt_order_id r) (row_signature r) now
        (db \<lparr> processed := processed db @ [row_signature r], quotes := t,
          orders := fst (sql_update (\<lambda>x. dget x ''order_id'' = PStr (qt_order_id r) \<and> dget x ''used'' = PBool False)
            (paid_order (row_signature r) now) (orders db)) \<rparr>) = (p, db')" "p = Inr y"
    have new: "quotes db' = t" "processed db' = processed db @ [row_signature r]"
      "deliveries db' = deliveries db \<or> deliveries db' = deliveries db @ [new_delivery (qt_quote_id r) (qt_order_id r) (row_signature r) now]"
      using e by (auto simp: enqueue_delivery_tx_def sql_insert_Some split: if_splits option.splits)
    show "quote_change paid db db'"
      by (rule quote_change.confirmed [of x db r db' now])
        (use u new assms snd_sql_update [of "confirmable r" _ "quotes db"] in \<open>simp_all, metis snd_conv\<close>)
  qed
  then show ?thesis by (simp add: ends_def)
qed

lemma owned_quote_row:
  "owned_quote q secret wallet db = Inr (r, order) \<Longrightarrow> r \<in> set (quotes db) \<and> qt_quote_id r = q"
  by (auto simp: owned_quote_def get_quote_def refuse_def sum_bind_Inr dest: row_by_SomeD split: option.splits)

lemma confirm_change:
  assumes "quotes_later (quotes snap) (quotes db)" and "\<And>s route p answer. verify s route p = Inr answer \<Longrightarrow> paid s route p"
  shows "quote_change paid db (snd (confirm_payment verify postgres q secret wallet now snap db))"
proof -
  have final: "quote_change paid db db'"
    if r: "owned_quote q secret wallet snap = Inr (r, ord)" "verify (row_signature r) (qt_route r) (row_proof r) = Inr answer"
      "has_evidence r" "finalize_checkout postgres r now db = (z, db')" for r ord answer z db'
  proof -
    obtain x where "x \<in> set (quotes db)" "later r x" using owned_quote_row [OF r(1)] quotes_later_row [OF assms(1)] by blast
    then show ?thesis using finalize_change [of x db r paid postgres now] assms(2) r(2-4) unfolding has_evidence_def by simp
  qed
  have fail: "quote_change paid db (db \<lparr> quotes := fst (sql_update (\<lambda>x. qt_quote_id x = q \<and> qt_state x = ''submitted'')
      (\<lambda>x. x \<lparr> qt_state := ''failed'', qt_updated_at := now \<rparr>) (quotes db)) \<rparr>)"
    by (rule moved_change [OF surjective_pairing, where q = q])
      (use promoted_rows(3) in auto)
  have "ends (quote_change paid db) (confirm_payment verify postgres q secret wallet now snap db)"
    unfolding confirm_payment_def refuse_def
    by (intro ends_rules ends_pair unchanged fail ends_verification)
      (auto intro: final simp: ends_pair fail unchanged split: bool.split)
  then show ?thesis by (simp add: ends_def)
qed

lemma offered_price:
  assumes "offered_quote w q order now clock snap = Inr (f, provider)"
  shows "0 < dec_val (of_required f)"
proof -
  have priced: "0 < dec_val (of_required f)" if "priced_quote w q order asset p raydium now a b = Inr f" for asset p raydium a b
    using that unfolding priced_quote_def
    by (rule quote_cases) (auto simp: dec_le_iff dest!: payable_cases(5) make_offer_fields(5))
  show ?thesis
    using assms unfolding offered_quote_def first_quote_def live_quote_def
    by (auto simp: sum_bind_Inr intro: priced split: sum.splits quote_error.splits if_splits prod.splits)
qed

lemma create_change: "quote_change paid db (snd (create_universal_quote w q key uuid now clock snap db))"
proof -
  have new: "quote_change paid db (db \<lparr> quotes := t \<rparr>)"
    if "offered_quote w q order now clock snap = Inr x" "x = (f, provider)"
      "sql_insert quote_clash (new_quote q i h k f provider n) (quotes db) = Some t" for order x f provider i h k n t
  proof (rule quote_change.added [of _ _ "new_quote q i h k f provider n"])
    show "0 \<le> row_price (new_quote q i h k f provider n)"
      using offered_price [OF that(1) [unfolded that(2)]] by (simp add: row_price_def new_quote_def dec_text_parses)
  qed (use that(3) in \<open>auto simp: sql_insert_Some list_all_iff new_quote_def\<close>)
  have "ends (quote_change paid db) (create_universal_quote w q key uuid now clock snap db)"
    unfolding create_universal_quote_def refuse_def Let_def
    by (intro ends_rules ends_pair unchanged, rule new)
  then show ?thesis by (simp add: ends_def)
qed

text \<open>What other modules do: they leave the quotes, keep processed signatures, and add no delivery.\<close>

definition elsewhere :: "checkout_db \<Rightarrow> checkout_db \<Rightarrow> bool" where
  "elsewhere db db' =
     (quotes db' = quotes db \<and> set (processed db) \<subseteq> set (processed db') \<and>
      list_all (\<lambda>d'. list_ex (\<lambda>d. same_identity d d') (deliveries db)) (deliveries db'))"

lemma elsewhere_kept:
  assumes "elsewhere db db'" and "quotes_ok paid db"
  shows "quotes_ok paid db'"
proof -
  have "paid_delivery t d'" if "same_identity d d'" "paid_delivery t d" for t d d'
    using that by (simp add: same_identity_def paid_delivery_def)
  then show ?thesis using assms row_ok_grows unfolding quotes_ok_def elsewhere_def list_all_iff list_ex_iff by metis
qed

lemma rows_change_identity:
  assumes "rows_change t u"
  shows "length t \<le> length u \<and> (length u = length t \<longrightarrow> list_all2 same_identity t u)"
  using assms
proof (induction rule: rows_change.induct)
  case (updated P f t u)
  then show ?case
    by (auto simp: sql_update_def list_all2_map2 completion_kept_def same_identity_def elim!: list_all2_mono)
qed (simp_all add: list.rel_refl)

lemma queue_elsewhere:
  assumes "\<And>pg q k tx now. x \<noteq> EnqueueDelivery pg q k tx now"
  shows "elsewhere db (run_delivery_op x db)"
proof -
  have same: "quotes (run_delivery_op x db) = quotes db \<and> processed (run_delivery_op x db) = processed db \<and>
      length (deliveries (run_delivery_op x db)) = length (deliveries db)"
  proof (cases x)
    case EnqueueDelivery
    then show ?thesis using assms by blast
  qed (auto simp: claim_delivery_def finish_delivery_def redrive_exhausted_delivery_def resume_review_required_delivery_def
      accelerate_foundation_retry_def reopen_delivery_def sweep_settlement_def sql_update_def Let_def
      case_prod_beta split: option.splits pyval.splits)
  then have "list_all2 same_identity (deliveries db) (deliveries (run_delivery_op x db))"
    using rows_change_identity [OF op_change] by blast
  then show ?thesis using same
    by (auto simp: elsewhere_def list_all_length list_ex_length list_all2_conv_all_nth)
qed

section \<open>Histories\<close>

lemma one_row:
  assumes "unique_by key t" and "r \<in> set t" and "P r" and "\<And>x. x \<in> set t \<Longrightarrow> P x \<Longrightarrow> key x = key r"
  shows "filter P t = [r]"
proof -
  have "filter P t = filter (\<lambda>x. x = r) t"
    using unique_by_inj [OF assms(1) _ assms(2)] assms(3,4) by (intro filter_cong) auto
  moreover have "distinct t" using assms(1) by (simp add: unique_by_def distinct_map)
  moreover have "distinct u \<Longrightarrow> r \<in> set u \<Longrightarrow> filter (\<lambda>x. x = r) u = [r]" for u
    by (induction u) (auto simp: filter_empty_conv)
  ultimately show ?thesis using assms(2) by simp
qed

text \<open>
  Databases, the newest first. A confirmation reads the quotes of any earlier moment; the other handlers may have read
  anything. \<open>paid sig route proof\<close> holds whenever a confirmation's verification has accepted the three.
\<close>

inductive quote_history :: "(string \<Rightarrow> string \<Rightarrow> pydict \<Rightarrow> bool) \<Rightarrow> checkout_db list \<Rightarrow> bool"
  for paid :: "string \<Rightarrow> string \<Rightarrow> pydict \<Rightarrow> bool" where
  start: "quotes db = [] \<Longrightarrow> deliveries db = [] \<Longrightarrow> quote_history paid [db]"
| create: "quote_history paid (db # hist) \<Longrightarrow>
    quote_history paid (snd (create_universal_quote w q key uuid now clock snap db) # db # hist)"
| prepare: "quote_history paid (db # hist) \<Longrightarrow>
    quote_history paid (snd (prepare_universal_checkout pw quote_id secret wallet now snap db) # db # hist)"
| submit: "quote_history paid (db # hist) \<Longrightarrow>
    quote_history paid (snd (submit_universal_checkout valid quote_id secret wallet sig now snap db) # db # hist)"
| attach: "quote_history paid (db # hist) \<Longrightarrow>
    quote_history paid (snd (attach_reconciled_signature quote_id sig now db) # db # hist)"
| confirm: "quote_history paid (db # hist) \<Longrightarrow> quotes snap \<in> quotes ` set (db # hist) \<Longrightarrow>
    (\<And>s route p answer. verify s route p = Inr answer \<Longrightarrow> paid s route p) \<Longrightarrow>
    quote_history paid (snd (confirm_payment verify postgres quote_id secret wallet now snap db) # db # hist)"
| others: "quote_history paid (db # hist) \<Longrightarrow> elsewhere db db' \<Longrightarrow> quote_history paid (db' # db # hist)"

definition quote_history_ok :: "(string \<Rightarrow> string \<Rightarrow> pydict \<Rightarrow> bool) \<Rightarrow> checkout_db list \<Rightarrow> bool" where
  "quote_history_ok paid hist = (quotes_ok paid (hd hist) \<and> (\<forall>s \<in> set hist. quotes_later (quotes s) (quotes (hd hist))))"

lemma history_step:
  assumes "quote_history_ok paid (db # hist)" and "quote_change paid db db'"
  shows "quote_history_ok paid (db' # db # hist)"
proof -
  have "quotes_ok paid db' \<and> quotes_later (quotes db) (quotes db')"
    using change_kept [OF assms(2)] assms(1) by (simp add: quote_history_ok_def)
  then show ?thesis using assms(1) by (auto simp: quote_history_ok_def intro: quotes_later_trans)
qed

lemma history_holds: "quote_history paid hist \<Longrightarrow> quote_history_ok paid hist"
proof (induction rule: quote_history.induct)
  case (start db)
  then show ?case by (simp add: quote_history_ok_def quotes_ok_def one_signature_def)
next
  case (confirm db hist snap verify postgres quote_id secret wallet now)
  then have "quotes_later (quotes snap) (quotes db)" by (auto simp: quote_history_ok_def)
  then show ?case by (rule history_step [OF confirm.IH confirm_change]) (rule confirm.hyps(3))
next
  case (others db hist db')
  then show ?case using elsewhere_kept [of db db' paid] by (auto simp: quote_history_ok_def elsewhere_def)
qed (simp_all only: history_step create_change prepare_change submit_change attach_change)

text \<open>
  C4: whatever the interleaving of the handlers, every delivery in the queue belongs to a confirmed quote for the same
  order, whose transaction is the delivery's, is spent, has been verified for the quote's route and stored plan, and is
  claimed by no other quote.
\<close>

theorem delivery_is_paid:
  assumes "quote_history paid (db # hist)" and "d \<in> set (deliveries db)"
  shows "\<exists>r. get_quote (dl_quote_id d) db = Some r \<and> qt_order_id r = dl_order_id d \<and> qt_state r = ''confirmed'' \<and>
    qt_tx_signature r = Some (dl_tx_signature d) \<and> dl_tx_signature d \<in> set (processed db) \<and>
    paid (dl_tx_signature d) (qt_route r) (row_proof r) \<and>
    filter (\<lambda>x. qt_tx_signature x = Some (dl_tx_signature d)) (quotes db) = [r]"
proof -
  have ok: "quotes_ok paid db" using history_holds [OF assms(1)] by (simp add: quote_history_ok_def)
  then obtain r where r: "r \<in> set (quotes db)" "qt_quote_id r = dl_quote_id d" "qt_order_id r = dl_order_id d"
      "qt_tx_signature r = Some (dl_tx_signature d)" "qt_state r = ''confirmed''"
    using assms(2) unfolding quotes_ok_def list_all_iff paid_delivery_def by blast
  have uniq: "unique_by qt_quote_id (quotes db)" and one: "one_signature (quotes db)"
    using ok by (simp_all add: quotes_ok_def)
  have "row_ok paid (processed db) r" using ok r(1) by (simp add: quotes_ok_def list_all_iff)
  then have "dl_tx_signature d \<in> set (processed db)" "paid (dl_tx_signature d) (qt_route r) (row_proof r)"
    using r(4,5) by (simp_all add: row_ok_def row_signature_def)
  moreover have "get_quote (dl_quote_id d) db = Some r"
    unfolding get_quote_def r(2) [symmetric] by (rule row_by_memI [OF uniq r(1)])
  moreover have "filter (\<lambda>x. qt_tx_signature x = Some (dl_tx_signature d)) (quotes db) = [r]"
  proof (rule one_row [OF uniq r(1)])
    show "qt_tx_signature r = Some (dl_tx_signature d)" by (rule r(4))
    fix x
    assume x: "x \<in> set (quotes db)" "qt_tx_signature x = Some (dl_tx_signature d)"
    then have "qt_tx_signature x \<noteq> None \<and> qt_tx_signature x = qt_tx_signature r" using r(4) by simp
    then show "qt_quote_id x = qt_quote_id r" using one x(1) r(1) unfolding one_signature_def by blast
  qed
  ultimately show ?thesis using r by blast
qed

end
