(* ===== verification/QuoteRun.thy ===== *)
theory QuoteRun
  imports QuoteHistory
begin

text \<open>
  A run of the quotes from an empty table to a paid delivery and a second payment, and the limits of what is reserved.
\<close>

section \<open>What is reserved\<close>

text \<open>How a creation got its row: the reservations it read, the policy whose caps it kept, and the offer.\<close>

lemma offered_cases:
  assumes "offered_quote w q order now clock snap = Inr (f, provider)" and "load_checkout_policy (qw_env w) = Inr p"
  obtains p' asset raydium a b where "reserved_iat (Some (qr_wallet q)) None now snap = Inr a"
    "reserved_iat None (Some ''treasury'') now snap = Inr b" "priced_quote w q order asset p' raydium now a b = Inr f"
    "po_wallet_cap p' = po_wallet_cap p" "po_treasury_cap p' = po_treasury_cap p"
proof -
  have caps: "po_wallet_cap (quote_signer_compatible_policy e p) = po_wallet_cap p"
    "po_treasury_cap (quote_signer_compatible_policy e p) = po_treasury_cap p" for e
    by (simp_all add: quote_signer_compatible_policy_def)
  consider "first_quote w q order now clock snap = Inr f"
    | asset where "live_quote w q order asset (quote_signer_compatible_policy (qw_env w) p) now snap = Inr (f, the provider)"
    using assms unfolding offered_quote_def
    by (auto split: sum.split_asm quote_error.split_asm if_split_asm prod.split_asm)
  then show ?thesis
  proof cases
    case 1
    then show ?thesis using assms(2) that caps unfolding first_quote_def by (auto simp: sum_bind_Inr)
  next
    case (2 asset)
    then show ?thesis using that caps unfolding live_quote_def by (auto simp: sum_bind_Inr split: prod.split_asm)
  qed
qed

lemma treasury_offer:
  assumes "priced_quote w q order asset p raydium now a b = Inr f" and "of_route f = ''treasury''"
  obtains x y where "dec_add a (of_required f) = Inr x" "dec_val x \<le> dec_val (po_wallet_cap p)"
    "dec_add b (of_required f) = Inr y" "dec_val y \<le> dec_val (po_treasury_cap p)"
    "of_created_at f = now" "now + 10 \<le> of_expires_at f"
  using assms(1) unfolding priced_quote_def
proof (cases rule: quote_cases)
  case (treasury required input)
  have "10 \<le> po_ttl p" using treasury(2) by (auto simp: validate_policy_def rejected_def split: if_splits)
  moreover obtain x y l where "dec_add a required = Inr x" "dec_add b required = Inr y"
      "\<not> dec_lt (po_wallet_cap p) x" "\<not> dec_lt (po_treasury_cap p) y"
    by (rule treasury_open [OF treasury(3)])
  ultimately show ?thesis using make_offer_fields [OF treasury(4)] that by (simp add: dec_lt_iff not_less)
next
  case (raydium required evidence r)
  then show ?thesis using make_offer_fields(1) [OF raydium(6)] assms(2) by simp
qed

lemma sum_decimals_snoc:
  "sum_decimals acc ts = Inr s \<Longrightarrow> dec_add s d = Inr u \<Longrightarrow> sum_decimals acc (ts @ [dec_str d]) = Inr u"
  by (induction ts arbitrary: acc) (auto simp: sum_bind_Inr decimal_value_def dec_text_parses decimal_def)

lemma reserved_new_quote:
  assumes "reserved_iat wallet route now snap = Inr s" and "quotes snap = quotes db"
    and "quotes db' = quotes db @ [r]" and "qt_required_iat r = dec_str d" and "dec_add s d = Inr u"
    and "qt_created_at r = now" and "now \<le> qt_expires_at r" and "qt_state r = ''quoted''"
    and "wallet \<in> {None, Some (qt_buyer_wallet r)}" and "route \<in> {None, Some (qt_route r)}"
  shows "reserved_iat wallet route now db' = Inr u"
proof -
  have "reserved_rows wallet route now db' = reserved_rows wallet route now snap @ [r]"
    using assms(2,3,6-10) by (auto simp: reserved_rows_def utc_day_start_def active_states_def)
  then show ?thesis using assms(1,4,5) by (simp add: reserved_iat_def sum_decimals_snoc)
qed

lemma create_cases:
  assumes "create_universal_quote w q key uuid now clock snap db = (m, db')" and "quotes db' \<noteq> quotes db"
  obtains order f provider k where "offered_quote w q order now clock snap = Inr (f, provider)"
    "quotes db' = quotes db @ [new_quote q (''uq_'' @ uuid) (request_hash_of w q) k f provider now]"
  using assms unfolding create_universal_quote_def refuse_def
  by (auto simp: Let_def sql_insert_Some split: option.split_asm if_split_asm sum.split_asm prod.split_asm)

text \<open>
  C35: a creation that saw all the quotes there are, as creations under the reservation guard do, and that ends in a
  treasury quote leaves the treasury's and the wallet's reservations within their caps.
\<close>

theorem quote_within_caps:
  assumes "create_universal_quote w q key uuid now clock snap db = (m, db')" and "quotes snap = quotes db"
    and "quotes db' \<noteq> quotes db" and "qt_route (last (quotes db')) = ''treasury''" and "load_checkout_policy (qw_env w) = Inr p"
  shows "\<exists>x y. reserved_iat (Some (qr_wallet q)) None now db' = Inr x \<and> dec_val x \<le> dec_val (po_wallet_cap p) \<and>
    reserved_iat None (Some ''treasury'') now db' = Inr y \<and> dec_val y \<le> dec_val (po_treasury_cap p)"
proof -
  obtain order f provider k where f: "offered_quote w q order now clock snap = Inr (f, provider)"
      and db': "quotes db' = quotes db @ [new_quote q (''uq_'' @ uuid) (request_hash_of w q) k f provider now]"
    using create_cases [OF assms(1,3)] .
  let ?r = "new_quote q (''uq_'' @ uuid) (request_hash_of w q) k f provider now"
  obtain p' asset raydium a b where ab: "reserved_iat (Some (qr_wallet q)) None now snap = Inr a"
      "reserved_iat None (Some ''treasury'') now snap = Inr b" "priced_quote w q order asset p' raydium now a b = Inr f"
      and caps: "po_wallet_cap p' = po_wallet_cap p" "po_treasury_cap p' = po_treasury_cap p"
    using offered_cases [OF f assms(5)] .
  have route: "of_route f = ''treasury''" using assms(4) by (simp add: db' new_quote_def)
  obtain x y where xy: "dec_add a (of_required f) = Inr x" "dec_val x \<le> dec_val (po_wallet_cap p')"
      "dec_add b (of_required f) = Inr y" "dec_val y \<le> dec_val (po_treasury_cap p')" "of_created_at f = now" "now + 10 \<le> of_expires_at f"
    using treasury_offer [OF ab(3) route] .
  have "reserved_iat (Some (qr_wallet q)) None now db' = Inr x"
    by (rule reserved_new_quote [OF ab(1) assms(2) db' _ xy(1)]) (use xy in \<open>simp_all add: new_quote_def\<close>)
  moreover have "reserved_iat None (Some ''treasury'') now db' = Inr y"
    by (rule reserved_new_quote [OF ab(2) assms(2) db' _ xy(3)]) (use xy route in \<open>simp_all add: new_quote_def\<close>)
  ultimately show ?thesis using xy(2,4) caps by auto
qed

section \<open>A run\<close>

definition quote_env :: env where
  "quote_env = map_of
     [(''IAT_TREASURY_CHECKOUT_ENABLED'', ''1''), (''IAT_TREASURY_DAILY_IAT_CAP'', ''4''), (''IAT_TREASURY_INVENTORY_IAT'', ''1000''),
      (''IAT_REFERENCE_PRICE_USD'', ''2''), (''IAT_TREASURY_PROGRAM_ID'', ''P''), (''IAT_TREASURY_IAT_VAULT'', ''V'')]"

definition sample_int :: "pyval \<Rightarrow> int option" where
  "sample_int v = (case v of PInt i \<Rightarrow> Some i | _ \<Rightarrow> None)"

definition sample_world :: quote_world where
  "sample_world =
     \<lparr> qw_sha = (\<lambda>_. ''h''), qw_env = quote_env, qw_to_int = sample_int,
       qw_assets = Inr [(''USDC'', PDict [(''mint'', PStr ''M''), (''oracle'', PStr ''pyth''), (''decimals'', PInt 6),
         (''usd_price'', PStr ''1''), (''observed_at'', PInt 1000)])],
       qw_raydium = Inr [], qw_live = (\<lambda>_ _ _. rejected ''unavailable'') \<rparr>"

definition sample_request :: "string \<Rightarrow> quote_request" where
  "sample_request i = \<lparr> qr_order_id = i, qr_wallet = ''B'', qr_secret = ''S'', qr_asset = ''USDC'' \<rparr>"

lemmas number_text = py_int_of_string_def decimal_value_def dec_of_string_def py_strip_def py_lstrip_def py_space_def
  take_sign_def is_digit_def parse_exponent_def nat_of_digits_def digit_val_def

lemma sample_loaded: "load_checkout_policy quote_env = Inr quote_policy"
proof -
  have ints: "int_env quote_env ''IAT_CHECKOUT_QUOTE_TTL_SECONDS'' ''60'' = Inr 60"
    "int_env quote_env ''IAT_CHECKOUT_ORACLE_MAX_AGE_SECONDS'' ''90'' = Inr 90"
    "int_env quote_env ''IAT_TREASURY_SPREAD_BPS'' ''50'' = Inr 50"
    "int_env quote_env ''IAT_RAYDIUM_MAX_PRICE_IMPACT_BPS'' ''300'' = Inr 300"
    "int_env quote_env ''IAT_CHECKOUT_MAX_REFERENCE_DEVIATION_BPS'' ''500'' = Inr 500"
    by (simp_all add: int_env_def env_text_def quote_env_def integer_def number_text)
  have decimals: "decimal_env quote_env ''IAT_CHECKOUT_MAX_ORDER_IAT'' ''100'' = Inr (dec_of_int 100)"
    "decimal_env quote_env ''IAT_CHECKOUT_WALLET_DAILY_IAT_CAP'' ''250'' = Inr (dec_of_int 250)"
    "decimal_env quote_env ''IAT_TREASURY_DAILY_IAT_CAP'' ''1000'' = Inr (dec_of_int 4)"
    "decimal_env quote_env ''IAT_TREASURY_INVENTORY_IAT'' ''0'' = Inr (dec_of_int 1000)"
    "decimal_env quote_env ''IAT_REFERENCE_PRICE_USD'' ''0'' = Inr (dec_of_int 2)"
    "decimal_env quote_env ''IAT_RAYDIUM_MIN_LIQUIDITY_USD'' ''10000'' = Inr (dec_of_int 10000)"
    by (simp_all add: decimal_env_def env_text_def quote_env_def number_text dec_of_int_def)
  show ?thesis
    unfolding load_checkout_policy_def ints decimals sum_bind_simps
    by (simp add: quote_policy_def bool_env_def env_text_def quote_env_def sample_text)
qed

lemma sample_snapshot:
  "asset_snapshot_of (qw_to_int sample_world) (qw_env sample_world) (qw_assets sample_world) ''USDC'' clock = Inr sample_asset"
  "raydium_snapshot_of (qw_to_int sample_world) (qw_raydium sample_world) ''USDC'' = Inr None"
proof -
  have "decimal_value ''1'' ''asset_usd_price'' = Inr (dec_of_int 1)" by (simp add: number_text dec_of_int_def)
  moreover have "\<not> dec_le (dec_of_int 1) dec_zero" by (simp add: dec_compute)
  ultimately show "asset_snapshot_of (qw_to_int sample_world) (qw_env sample_world) (qw_assets sample_world) ''USDC'' clock = Inr sample_asset"
    by (simp add: asset_snapshot_of_def sample_world_def sample_text py_upper_def py_upper_char_def asset_from_mapping_def
        sample_int_def integer_def sample_asset_def dget_or_def)
qed (simp_all add: raydium_snapshot_of_def sample_world_def)

lemma sample_first:
  assumes "payable_order order ''B'' sample_asset quote_policy now = Inr sample_required"
    and "reserved_iat (Some ''B'') None now snap = Inr dec_zero" and "reserved_iat None (Some ''treasury'') now snap = Inr dec_zero"
  obtains f where "offered_quote sample_world (sample_request i) order now clock snap = Inr (f, None)"
    "of_route f = ''treasury''" "of_required f = sample_required" "of_created_at f = now" "of_expires_at f = now + 60"
proof -
  obtain f where f: "priced_quote sample_world (sample_request i) order sample_asset quote_policy None now dec_zero dec_zero = Inr f"
      "of_route f = ''treasury''" "of_required f = sample_required" "of_created_at f = now" "of_expires_at f = now + 60"
    using sample_offered [OF assms(1), of "qw_sha sample_world" "default_mint (qw_env sample_world)" None]
    unfolding priced_quote_def sample_request_def by auto
  have "quote_signer_compatible_policy (qw_env sample_world) quote_policy = quote_policy"
    by (simp add: quote_signer_compatible_policy_def bool_env_def env_text_def sample_world_def quote_env_def sample_text)
  moreover have "load_checkout_policy (qw_env sample_world) = Inr quote_policy" by (simp add: sample_world_def sample_loaded)
  ultimately have "first_quote sample_world (sample_request i) order now clock snap = Inr f"
    using f(1) assms(2,3) sample_snapshot by (simp add: first_quote_def sample_request_def)
  then show ?thesis using that f by (simp add: offered_quote_def)
qed

lemma sample_created:
  assumes "find_order i db = Some order" and "dget order ''buyer_secret'' = PStr ''S''" and "dget order ''buyer_wallet'' = PStr ''B''"
    and "payable_order order ''B'' sample_asset quote_policy now = Inr sample_required"
    and "active_quote_for_order i now snap = None" and "orders snap = orders db" and "get_by_idempotency key snap = None"
    and "16 \<le> length key \<and> length key \<le> 128"
    and "reserved_iat (Some ''B'') None now snap = Inr dec_zero" and "reserved_iat None (Some ''treasury'') now snap = Inr dec_zero"
    and "list_all (\<lambda>x. qt_quote_id x \<noteq> ''uq_'' @ uuid \<and> qt_key x \<noteq> key) (quotes db)"
  obtains r where
    "snd (create_universal_quote sample_world (sample_request i) (Some key) uuid now clock snap db) = db \<lparr> quotes := quotes db @ [r] \<rparr>"
    "qt_quote_id r = ''uq_'' @ uuid" "qt_order_id r = i" "qt_buyer_wallet r = ''B''" "qt_state r = ''quoted''" "qt_route r = ''treasury''"
    "qt_required_iat r = dec_str sample_required" "qt_key r = key" "qt_created_at r = now" "qt_expires_at r = now + 60"
    "qt_tx_signature r = None"
proof -
  obtain f where f: "offered_quote sample_world (sample_request i) order now clock snap = Inr (f, None)"
    "of_route f = ''treasury''" "of_required f = sample_required" "of_created_at f = now" "of_expires_at f = now + 60"
    using sample_first [OF assms(4,9,10)] .
  let ?r = "new_quote (sample_request i) (''uq_'' @ uuid) (request_hash_of sample_world (sample_request i)) key f None now"
  have "find_order i snap = Some order" using assms(1,6) by (simp add: find_order_def)
  moreover have "authorize_order ''S'' ''B'' order = Inr ()"
    using assms(2,3) by (simp add: authorize_order_def str_or_empty_def py_str_def compare_digest_def is_ascii_def)
  moreover have "sql_insert quote_clash ?r (quotes db) = Some (quotes db @ [?r])"
    using assms(11) by (auto simp: sql_insert_Some quote_clash_def new_quote_def list_all_iff)
  ultimately have "snd (create_universal_quote sample_world (sample_request i) (Some key) uuid now clock snap db) =
      db \<lparr> quotes := quotes db @ [?r] \<rparr>"
    using assms(5,7,8) f(1) by (simp add: create_universal_quote_def Let_def) (simp add: sample_request_def)
  then show ?thesis by (rule that) (use f in \<open>simp_all add: new_quote_def sample_request_def\<close>)
qed

text \<open>A quoted row at the end of the table is prepared, submitted and confirmed.\<close>

definition sample_plans :: plan_world where
  "sample_plans = \<lparr> pw_treasury = (\<lambda>_ _. Inr []), pw_raydium = (\<lambda>_. Inl ''off''), pw_to_int = (\<lambda>_. Some 0) \<rparr>"

definition sample_verifier :: "string \<Rightarrow> string \<Rightarrow> pydict \<Rightarrow> verification_error + pydict" where
  "sample_verifier sig route p = (if sig \<in> {''sig1'', ''sig2''} then Inr [] else Inl (Verification ''invalid_transaction_signature'' False))"

definition pay_steps :: "string \<Rightarrow> string \<Rightarrow> int \<Rightarrow> checkout_db \<Rightarrow> checkout_db list" where
  "pay_steps q sig now db =
     (let db1 = snd (prepare_universal_checkout sample_plans q ''S'' ''B'' now db db);
          db2 = snd (submit_universal_checkout (\<lambda>_. True) q ''S'' ''B'' sig now db1 db1)
      in [snd (confirm_payment sample_verifier False q ''S'' ''B'' now db2 db2), db2, db1])"

lemma pay_steps_history:
  assumes "quote_history (\<lambda>s route p. s \<in> {''sig1'', ''sig2''}) (db # hist)"
  shows "quote_history (\<lambda>s route p. s \<in> {''sig1'', ''sig2''}) (pay_steps q sig now db @ db # hist)"
  using assms
  by (auto simp: pay_steps_def Let_def sample_verifier_def split: if_split_asm
      intro!: quote_history.confirm quote_history.submit quote_history.prepare)

lemma last_row:
  assumes "quotes db = xs @ [r]" and "qt_quote_id r = q" and "q \<notin> qt_quote_id ` set xs"
    and "find_order (qt_order_id r) db = Some order" and "dget order ''buyer_secret'' = PStr ''S''" and "dget order ''buyer_wallet'' = PStr ''B''"
  shows "owned_quote q ''S'' ''B'' db = Inr (r, order)"
proof -
  have "row_by qt_quote_id q xs = None" using assms(3) by (simp add: row_by_None_iff)
  then have "get_quote q db = Some r" using assms(1,2) by (simp add: get_quote_def row_by_append row_by_Cons)
  then show ?thesis using assms(4-6)
    by (simp add: owned_quote_def authorize_order_def str_or_empty_def py_str_def compare_digest_def is_ascii_def)
qed

lemma update_last:
  "q \<notin> qt_quote_id ` set xs \<Longrightarrow> qt_quote_id r = q \<Longrightarrow> Q r \<Longrightarrow>
   sql_update (\<lambda>x. qt_quote_id x = q \<and> Q x) f (xs @ [r]) = (xs @ [f r], 1)"
  by (induction xs) (auto simp: sql_update_def)

lemma pay_last:
  assumes "quotes db = xs @ [r]" and "qt_quote_id r = q" and "q \<notin> qt_quote_id ` set xs"
    and "find_order (qt_order_id r) db = Some order" and "dget order ''buyer_secret'' = PStr ''S''" and "dget order ''buyer_wallet'' = PStr ''B''"
    and "qt_state r = ''quoted''" and "qt_route r = ''treasury''" and "now < qt_expires_at r" and "qt_buyer_wallet r = ''B''"
    and "sig \<in> {''sig1'', ''sig2''}" and "list_all (\<lambda>x. qt_tx_signature x \<noteq> Some sig) xs"
  obtains e where "hd (tl (pay_steps q sig now db)) = db \<lparr> quotes := xs @ [submitted_row sig now (prepared_row e now r)] \<rparr>"
    "hd (pay_steps q sig now db) =
       snd (finalize_checkout False (submitted_row sig now (prepared_row e now r)) now
         (db \<lparr> quotes := xs @ [submitted_row sig now (prepared_row e now r)] \<rparr>))"
proof -
  obtain response proof1 where plan: "prepared_plan sample_plans r = Inr (response, Some proof1)"
    using assms(8) by (simp add: prepared_plan_def sample_plans_def treasury_proof_def Let_def)
  define e where "e = [(''proof'', PDict proof1), (''prepared_response'', PDict response)]"
  let ?p = "prepared_row e now r" let ?s = "submitted_row sig now ?p"
  let ?db1 = "db \<lparr> quotes := xs @ [?p] \<rparr>" let ?db2 = "db \<lparr> quotes := xs @ [?s] \<rparr>"
  have ids: "qt_quote_id ?p = q" "qt_quote_id ?s = q" "qt_order_id ?p = qt_order_id r" "qt_order_id ?s = qt_order_id r"
    "has_evidence ?p" "has_evidence ?s" "qt_state ?p = ''prepared''" "qt_state ?s = ''submitted''"
    using assms(2) by (simp_all add: prepared_row_def submitted_row_def has_evidence_def)
  have own: "owned_quote q ''S'' ''B'' db = Inr (r, order)" "owned_quote q ''S'' ''B'' ?db1 = Inr (?p, order)"
    "owned_quote q ''S'' ''B'' ?db2 = Inr (?s, order)"
    using last_row [OF assms(1-6)] last_row [of ?db1 xs ?p q order] last_row [of ?db2 xs ?s q order] ids assms(3-6)
    by (simp_all add: find_order_def)
  have free: "\<not> signature_taken q sig (xs @ [?p])"
    using assms(12) ids by (simp add: signature_taken_def list_ex_iff list_all_iff prepared_row_def)
  have one: "snd (prepare_universal_checkout sample_plans q ''S'' ''B'' now db db) = ?db1"
    using assms(7,9,10) plan update_last [OF assms(3,2), of "\<lambda>x. qt_state x = ''quoted''"]
    by (simp add: prepare_universal_checkout_def own compare_digest_def is_ascii_def assms(1) e_def)
  have two: "snd (submit_universal_checkout (\<lambda>_. True) q ''S'' ''B'' sig now ?db1 ?db1) = ?db2"
    using free ids update_last [OF assms(3) ids(1), of "\<lambda>x. qt_state x = ''prepared''"]
    by (simp add: submit_universal_checkout_def own)
  have "row_signature ?s = sig" by (simp add: row_signature_def submitted_row_def)
  then have three: "snd (confirm_payment sample_verifier False q ''S'' ''B'' now ?db2 ?db2) = snd (finalize_checkout False ?s now ?db2)"
    using ids assms(11)
    by (auto simp: confirm_payment_def own sample_verifier_def case_prod_beta split: sum.split)
  show ?thesis by (rule that [of e]) (simp_all only: pay_steps_def Let_def one two three list.sel)
qed

definition sample_start :: checkout_db where
  "sample_start = empty_checkout \<lparr> orders := [sale_order ''o1'', sale_order ''o2''] \<rparr>"

definition sample_key :: "string \<Rightarrow> string" where
  "sample_key i = ''idempotency-key-'' @ i"

lemma sample_start_facts:
  "find_order ''o1'' sample_start = Some (sale_order ''o1'')" "find_order ''o2'' sample_start = Some (sale_order ''o2'')"
  "quotes sample_start = []" "deliveries sample_start = []" "processed sample_start = []"
  by (simp_all add: sample_start_def find_order_def empty_checkout_def row_by_Cons sale_order_def)

lemma sale_order_facts:
  "dget (sale_order i) ''buyer_secret'' = PStr ''S''" "dget (sale_order i) ''buyer_wallet'' = PStr ''B''"
  "payable_order (sale_order ''o1'') ''B'' sample_asset quote_policy 1010 = Inr sample_required"
  "payable_order (sale_order ''o2'') ''B'' sample_asset quote_policy 1010 = Inr sample_required"
  by (simp_all add: sale_order_def)
    (rule sample_payable [of _ "''o1''"] sample_payable [of _ "''o2''"], simp_all add: py_strip_def py_lstrip_def py_space_def)+

lemma start_reads:
  "active_quote_for_order i now sample_start = None" "get_by_idempotency k sample_start = None"
  "reserved_iat w route now sample_start = Inr dec_zero"
  by (simp_all add: active_quote_for_order_def get_by_idempotency_def reserved_iat_def reserved_rows_def sample_start_facts
      sql_order_limit_def)

lemma first_quoted:
  obtains r where
    "snd (create_universal_quote sample_world (sample_request ''o1'') (Some (sample_key ''1'')) ''1'' 1010 1010 sample_start sample_start) =
       sample_start \<lparr> quotes := [r] \<rparr>"
    "qt_quote_id r = ''uq_1''" "qt_order_id r = ''o1''" "qt_buyer_wallet r = ''B''" "qt_state r = ''quoted''" "qt_route r = ''treasury''"
    "qt_required_iat r = dec_str sample_required" "qt_key r = sample_key ''1''" "qt_created_at r = 1010" "qt_expires_at r = 1070"
    "qt_tx_signature r = None"
proof -
  show ?thesis
    by (rule sample_created [OF sample_start_facts(1) sale_order_facts(1,2,3) start_reads(1) refl start_reads(2) _ start_reads(3,3),
          of "sample_key ''1''" "''1''"])
      (use that in \<open>simp_all add: sample_start_facts sample_key_def\<close>)
qed

text \<open>
  C36: a second quote for an order that already has a delivery is confirmed on SQLite, and its transaction spent, without
  a delivery: running it finds nothing enqueued. On PostgreSQL the confirmation fails and changes nothing.
\<close>

theorem second_payment_undelivered:
  assumes "d \<in> set (deliveries db)" and "dl_order_id d = qt_order_id r" and "find_delivery (qt_quote_id r) db = None"
    and "row_signature r \<notin> set (processed db)" and "length (filter (confirmable r) (quotes db)) = 1"
  shows "finalize_checkout True r now db = (Inl Violation, db) \<and>
    (\<exists>db'. finalize_checkout False r now db = (Inr (), db') \<and> row_signature r \<in> set (processed db') \<and>
       filter (confirmable r) (quotes db') = [] \<and> deliveries db' = deliveries db \<and>
       run_checkout_delivery w token (qt_quote_id r) later_now db' =
         ([(''state'', PStr ''not_enqueued''), (''payment_verified'', PBool False)], db'))"
proof -
  let ?f = "\<lambda>x. x \<lparr> qt_state := ''confirmed'', qt_updated_at := now \<rparr>"
  obtain t where t: "sql_update (confirmable r) ?f (quotes db) = (t, 1)"
    using assms(5) by (metis prod.collapse snd_sql_update)
  let ?o = "fst (sql_update (\<lambda>x. dget x ''order_id'' = PStr (qt_order_id r) \<and> dget x ''used'' = PBool False)
      (paid_order (row_signature r) now) (orders db))"
  let ?db = "db \<lparr> processed := processed db @ [row_signature r], quotes := t, orders := ?o \<rparr>"
  have none: "sql_insert delivery_clash (new_delivery (qt_quote_id r) (qt_order_id r) (row_signature r) now) (deliveries db) = None"
    unfolding sql_insert_None by (rule bexI [OF _ assms(1)]) (use assms(2) in \<open>simp add: delivery_clash_def new_delivery_def\<close>)
  have out: "finalize_checkout False r now db = (Inr (), ?db)" "finalize_checkout True r now db = (Inl Violation, db)"
    using assms(3,4) t none by (simp_all add: finalize_checkout_def Let_def enqueue_delivery_tx_def find_delivery_def)
  have "t = map (\<lambda>x. if confirmable r x then ?f x else x) (quotes db)" using t by (simp add: sql_update_def)
  then have "filter (confirmable r) t = []" by (auto simp: filter_empty_conv confirmable_def)
  moreover have missing: "find_delivery (qt_quote_id r) ?db = None" using assms(3) by (simp add: find_delivery_def)
  then have "sql_update (\<lambda>d. dl_quote_id d = qt_quote_id r \<and> P d) g (deliveries ?db) = (deliveries ?db, 0)" for P g
    by (intro sql_update_none) (auto simp: find_delivery_def row_by_None_iff image_iff)
  then have "run_checkout_delivery w token (qt_quote_id r) later_now ?db =
      ([(''state'', PStr ''not_enqueued''), (''payment_verified'', PBool False)], ?db)"
    using missing by (simp add: run_checkout_delivery_def claim_delivery_def Let_def)
  ultimately show ?thesis using out by simp
qed

text \<open>The first payment.\<close>

definition sample_paid :: "string \<Rightarrow> string \<Rightarrow> pydict \<Rightarrow> bool" where
  "sample_paid sig route p = (sig \<in> {''sig1'', ''sig2''})"

lemma pay_history: "quote_history sample_paid (db # hist) \<Longrightarrow> quote_history sample_paid (pay_steps q sig now db @ db # hist)"
  using pay_steps_history unfolding sample_paid_def by blast

definition after_payment :: "quote_row \<Rightarrow> checkout_db" where
  "after_payment s = sample_start
     \<lparr> quotes := [s \<lparr> qt_state := ''confirmed'', qt_updated_at := 1020 \<rparr>], processed := [''sig1''],
       deliveries := [new_delivery ''uq_1'' ''o1'' ''sig1'' 1020],
       delivery_events := [delivery_event ''uq_1'' ''o1'' ''payment_confirmed_delivery_enqueued'' None ''pending'' ''protocol'' None 1020],
       orders := [paid_order ''sig1'' 1020 (sale_order ''o1''), sale_order ''o2''] \<rparr>"

lemma first_finalized:
  assumes "qt_quote_id s = ''uq_1''" and "qt_order_id s = ''o1''" and "qt_state s = ''submitted''" and "qt_tx_signature s = Some ''sig1''"
  shows "finalize_checkout False s 1020 (sample_start \<lparr> quotes := [s] \<rparr>) = (Inr (), after_payment s)"
  using assms by (simp add: finalize_checkout_def Let_def confirmable_def sql_update_def after_payment_def
      row_signature_def enqueue_delivery_tx_def sql_insert_def sample_start_def empty_checkout_def sale_order_def)

lemma first_paid:
  obtains db hist r where "quote_history sample_paid (db # hist)" "quotes db = [r]" "qt_state r = ''confirmed''"
    "qt_quote_id r = ''uq_1''" "qt_tx_signature r = Some ''sig1''" "qt_key r = sample_key ''1''" "processed db = [''sig1'']"
    "deliveries db = [new_delivery ''uq_1'' ''o1'' ''sig1'' 1020]"
    "orders db = [paid_order ''sig1'' 1020 (sale_order ''o1''), sale_order ''o2'']"
proof -
  let ?db0 = sample_start
  obtain r where r: "snd (create_universal_quote sample_world (sample_request ''o1'') (Some (sample_key ''1'')) ''1'' 1010 1010 ?db0 ?db0) =
       ?db0 \<lparr> quotes := [r] \<rparr>"
    "qt_quote_id r = ''uq_1''" "qt_order_id r = ''o1''" "qt_buyer_wallet r = ''B''" "qt_state r = ''quoted''" "qt_route r = ''treasury''"
    "qt_key r = sample_key ''1''" "qt_expires_at r = 1070"
    using first_quoted by metis
  let ?db1 = "?db0 \<lparr> quotes := [r] \<rparr>"
  have "quote_history sample_paid [?db1, ?db0]"
    using quote_history.create [OF quote_history.start [of ?db0 sample_paid]] r(1) by (metis sample_start_facts(3,4))
  then have hist: "quote_history sample_paid (pay_steps ''uq_1'' ''sig1'' 1020 ?db1 @ [?db1, ?db0])" by (rule pay_history)
  obtain e where paid: "hd (pay_steps ''uq_1'' ''sig1'' 1020 ?db1) =
      snd (finalize_checkout False (submitted_row ''sig1'' 1020 (prepared_row e 1020 r)) 1020
        (?db1 \<lparr> quotes := [] @ [submitted_row ''sig1'' 1020 (prepared_row e 1020 r)] \<rparr>))"
    by (rule pay_last [of ?db1 "[]" r "''uq_1''" "sale_order ''o1''" 1020 "''sig1''"])
      (use r sample_start_facts sale_order_facts in \<open>simp_all add: find_order_def\<close>)
  let ?s = "submitted_row ''sig1'' 1020 (prepared_row e 1020 r)"
  have "snd (finalize_checkout False ?s 1020 (?db1 \<lparr> quotes := [] @ [?s] \<rparr>)) = after_payment ?s"
    using first_finalized [of ?s] r by (simp add: submitted_row_def prepared_row_def)
  moreover obtain tail where "pay_steps ''uq_1'' ''sig1'' 1020 ?db1 = hd (pay_steps ''uq_1'' ''sig1'' 1020 ?db1) # tail"
    by (simp add: pay_steps_def Let_def)
  ultimately show ?thesis
    using that [of _ "tail @ [?db1, ?db0]" "?s \<lparr> qt_state := ''confirmed'', qt_updated_at := 1020 \<rparr>"] hist paid r
    by (simp add: submitted_row_def prepared_row_def after_payment_def)
qed

theorem delivery_is_paid_witness:
  "\<exists>db d r. deliveries db = [d] \<and> get_quote (dl_quote_id d) db = Some r \<and> qt_state r = ''confirmed'' \<and>
     dl_tx_signature d = ''sig1'' \<and> sample_paid ''sig1'' (qt_route r) (row_proof r)"
proof -
  obtain db hist r where db: "quote_history sample_paid (db # hist)" "deliveries db = [new_delivery ''uq_1'' ''o1'' ''sig1'' 1020]"
    using first_paid by metis
  let ?d = "new_delivery ''uq_1'' ''o1'' ''sig1'' 1020"
  have "?d \<in> set (deliveries db)" "dl_tx_signature ?d = ''sig1''" by (simp_all add: db(2) new_delivery_def)
  then show ?thesis using delivery_is_paid [OF db(1), of ?d] db(2) by metis
qed

text \<open>The paid order is quoted and paid a second time.\<close>

lemma paid_order_payable:
  "payable_order (paid_order ''sig1'' 1020 (sale_order ''o1'')) ''B'' sample_asset quote_policy 1030 = Inr sample_required"
  by (rule sample_payable [of _ "''o1''"]) (simp_all add: paid_order_def sale_order_def py_strip_def py_lstrip_def py_space_def)

theorem second_payment_undelivered_witness:
  "\<exists>db hist r. quote_history sample_paid (db # hist) \<and> length (deliveries db) = 1 \<and>
     snd (finalize_checkout True r 1040 db) = db \<and>
     (\<exists>db'. finalize_checkout False r 1040 db = (Inr (), db') \<and> deliveries db' = deliveries db \<and> ''sig2'' \<in> set (processed db'))"
proof -
  obtain db hist r1 where db: "quote_history sample_paid (db # hist)" "quotes db = [r1]" "qt_state r1 = ''confirmed''"
    "qt_quote_id r1 = ''uq_1''" "qt_tx_signature r1 = Some ''sig1''" "qt_key r1 = sample_key ''1''" "processed db = [''sig1'']"
    "deliveries db = [new_delivery ''uq_1'' ''o1'' ''sig1'' 1020]"
    "orders db = [paid_order ''sig1'' 1020 (sale_order ''o1''), sale_order ''o2'']"
    using first_paid .
  let ?o = "paid_order ''sig1'' 1020 (sale_order ''o1'')"
  have order: "find_order ''o1'' db = Some ?o" "dget ?o ''buyer_secret'' = PStr ''S''" "dget ?o ''buyer_wallet'' = PStr ''B''"
    by (simp_all add: find_order_def db(9) row_by_Cons paid_order_def sale_order_def)
  have reads: "active_quote_for_order ''o1'' 1030 db = None" "get_by_idempotency (sample_key ''2'') db = None"
    "reserved_iat w route 1030 db = Inr dec_zero" for w route
    by (simp_all add: active_quote_for_order_def get_by_idempotency_def reserved_iat_def reserved_rows_def active_states_def
        sql_order_limit_def db row_by_Cons sample_key_def)
  obtain r where new: "snd (create_universal_quote sample_world (sample_request ''o1'') (Some (sample_key ''2'')) ''2'' 1030 1030 db db) =
      db \<lparr> quotes := quotes db @ [r] \<rparr>"
    "qt_quote_id r = ''uq_2''" "qt_order_id r = ''o1''" "qt_buyer_wallet r = ''B''" "qt_state r = ''quoted''" "qt_route r = ''treasury''"
    "qt_expires_at r = 1090"
    by (rule sample_created [OF order paid_order_payable reads(1) refl reads(2) _ reads(3,3), of "''2''" 1030])
      (simp_all add: sample_key_def db)
  let ?db1 = "db \<lparr> quotes := quotes db @ [r] \<rparr>"
  have hist: "quote_history sample_paid (pay_steps ''uq_2'' ''sig2'' 1040 ?db1 @ ?db1 # db # hist)"
    using pay_history quote_history.create [OF db(1)] new(1) by metis
  obtain e where paid: "hd (tl (pay_steps ''uq_2'' ''sig2'' 1040 ?db1)) =
      ?db1 \<lparr> quotes := [r1] @ [submitted_row ''sig2'' 1040 (prepared_row e 1040 r)] \<rparr>"
    by (rule pay_last [of ?db1 "[r1]" r "''uq_2''" ?o 1040 "''sig2''"])
      (use new db order in \<open>simp_all add: find_order_def\<close>)
  let ?s = "submitted_row ''sig2'' 1040 (prepared_row e 1040 r)"
  let ?db2 = "?db1 \<lparr> quotes := [r1] @ [?s] \<rparr>"
  have "\<exists>tail. quote_history sample_paid (?db2 # tail)"
    using hist unfolding paid [symmetric] by (auto simp: pay_steps_def Let_def elim: quote_history.cases)
  then obtain tail where past: "quote_history sample_paid (?db2 # tail)" ..
  have "row_signature ?s = ''sig2''" "qt_quote_id ?s = ''uq_2''" "qt_order_id ?s = ''o1''"
    by (simp_all add: row_signature_def submitted_row_def prepared_row_def new)
  then have "finalize_checkout True ?s 1040 ?db2 = (Inl Violation, ?db2) \<and>
    (\<exists>db'. finalize_checkout False ?s 1040 ?db2 = (Inr (), db') \<and> row_signature ?s \<in> set (processed db') \<and>
       filter (confirmable ?s) (quotes db') = [] \<and> deliveries db' = deliveries ?db2 \<and>
       run_checkout_delivery w [] (qt_quote_id ?s) 0 db' = ([(''state'', PStr ''not_enqueued''), (''payment_verified'', PBool False)], db'))" for w
    by (intro second_payment_undelivered [of "new_delivery ''uq_1'' ''o1'' ''sig1'' 1020"])
      (simp_all add: db new find_delivery_def row_by_Cons new_delivery_def confirmable_def submitted_row_def prepared_row_def)
  then show ?thesis using past db(8) \<open>row_signature ?s = ''sig2''\<close>
    by (intro exI [of _ ?db2] exI [of _ tail] exI [of _ ?s]) auto
qed

section \<open>The caps\<close>

theorem quote_within_caps_witness:
  "\<exists>y. reserved_iat None (Some ''treasury'') 1010
         (snd (create_universal_quote sample_world (sample_request ''o1'') (Some (sample_key ''1'')) ''1'' 1010 1010 sample_start sample_start)) =
       Inr y \<and> dec_val y \<le> 4"
proof -
  obtain r where r: "snd (create_universal_quote sample_world (sample_request ''o1'') (Some (sample_key ''1'')) ''1'' 1010 1010 sample_start sample_start) =
       sample_start \<lparr> quotes := [r] \<rparr>" "qt_route r = ''treasury''"
    using first_quoted by metis
  obtain m where created: "create_universal_quote sample_world (sample_request ''o1'') (Some (sample_key ''1'')) ''1'' 1010 1010
      sample_start sample_start = (m, sample_start \<lparr> quotes := [r] \<rparr>)"
    using r(1) by (metis prod.collapse)
  have "load_checkout_policy (qw_env sample_world) = Inr quote_policy" by (simp add: sample_world_def sample_loaded)
  then obtain y where "reserved_iat None (Some ''treasury'') 1010 (sample_start \<lparr> quotes := [r] \<rparr>) = Inr y"
      "dec_val y \<le> dec_val (po_treasury_cap quote_policy)"
    using quote_within_caps [OF created refl] r(2) by (auto simp: sample_start_facts)
  then show ?thesis unfolding r(1) by (auto simp: quote_policy_def)
qed

text \<open>
  What the reservation guard around a creation is for: two creations for two orders that read the same empty table
  both succeed and reserve 5 IAT of a treasury cap of 4.
\<close>

lemma unguarded_creations_overshoot:
  "\<exists>db1 db2. snd (create_universal_quote sample_world (sample_request ''o1'') (Some (sample_key ''1'')) ''1'' 1010 1010
         sample_start sample_start) = db1 \<and>
     snd (create_universal_quote sample_world (sample_request ''o2'') (Some (sample_key ''2'')) ''2'' 1010 1010
         sample_start db1) = db2 \<and>
     reserved_iat None (Some ''treasury'') 1010 db2 = Inr (Dec False 50 (- 1)) \<and>
     load_checkout_policy (qw_env sample_world) = Inr quote_policy \<and> po_treasury_cap quote_policy = dec_of_int 4 \<and>
     dec_val (dec_of_int 4) < dec_val (Dec False 50 (- 1))"
proof -
  obtain r where r: "snd (create_universal_quote sample_world (sample_request ''o1'') (Some (sample_key ''1'')) ''1'' 1010 1010 sample_start sample_start) =
       sample_start \<lparr> quotes := [r] \<rparr>" "qt_quote_id r = ''uq_1''" "qt_state r = ''quoted''" "qt_route r = ''treasury''"
      "qt_required_iat r = dec_str sample_required" "qt_key r = sample_key ''1''" "qt_created_at r = 1010" "qt_expires_at r = 1070"
    using first_quoted by metis
  let ?db1 = "sample_start \<lparr> quotes := [r] \<rparr>"
  have order: "find_order ''o2'' ?db1 = Some (sale_order ''o2'')" "orders sample_start = orders ?db1"
    using sample_start_facts(2) by (simp_all add: find_order_def)
  obtain x where x: "snd (create_universal_quote sample_world (sample_request ''o2'') (Some (sample_key ''2'')) ''2'' 1010 1010 sample_start ?db1) =
       ?db1 \<lparr> quotes := quotes ?db1 @ [x] \<rparr>" "qt_state x = ''quoted''" "qt_route x = ''treasury''"
      "qt_required_iat x = dec_str sample_required" "qt_created_at x = 1010" "qt_expires_at x = 1070"
    by (rule sample_created [OF order(1) sale_order_facts(1,2,4) start_reads(1) order(2) start_reads(2) _ start_reads(3,3),
          of "sample_key ''2''" "''2''"])
      (use r in \<open>simp_all add: sample_key_def\<close>)
  have "reserved_rows None (Some ''treasury'') 1010 (?db1 \<lparr> quotes := [r, x] \<rparr>) = [r, x]"
    using r x by (simp add: reserved_rows_def active_states_def utc_day_start_def)
  moreover have "dec_add dec_zero sample_required = Inr sample_required" "dec_add sample_required sample_required = Inr (Dec False 50 (- 1))"
    by (simp_all add: sample_required_def dec_compute)
  ultimately have "reserved_iat None (Some ''treasury'') 1010 (?db1 \<lparr> quotes := [r, x] \<rparr>) = Inr (Dec False 50 (- 1))"
    using r(5) x(4) by (simp add: reserved_iat_def decimal_value_def dec_text_parses decimal_def)
  moreover have "dec_val (dec_of_int 4) < dec_val (Dec False 50 (- 1))" by (simp add: dec_val_def power_int_def dec_of_int_def)
  ultimately show ?thesis
    unfolding r(1) using x(1) by (simp add: sample_world_def sample_loaded quote_policy_def)
qed

lemma finalized_quotes:
  "outcome (\<lambda>m. fst m = Inr () \<longrightarrow> quotes (snd m) =
     fst (sql_update (confirmable r) (\<lambda>x. x \<lparr> qt_state := ''confirmed'', qt_updated_at := now \<rparr>) (quotes db)))
     (finalize_checkout postgres r now db)"
  unfolding finalize_checkout_def refuse_def Let_def
  by (intro outcome_rules outcomeI)
    (auto simp: enqueue_delivery_tx_def sql_insert_Some split: if_split_asm option.split_asm)

text \<open>
  C37: a confirmed payment gives its reservation back: the daily caps of wallet and treasury count the open quotes of the
  day and none of its sales.
\<close>

theorem confirmation_frees_reservation:
  assumes "finalize_checkout postgres r now db = (Inr (), db')"
  shows "reserved_rows wallet route time db' = filter (\<lambda>x. \<not> confirmable r x) (reserved_rows wallet route time db)"
proof -
  let ?f = "\<lambda>x. x \<lparr> qt_state := ''confirmed'', qt_updated_at := now \<rparr>"
  have "quotes db' = fst (sql_update (confirmable r) ?f (quotes db))"
    using finalized_quotes [of r now db postgres] assms by (simp add: outcome_def)
  then have "quotes db' = map (\<lambda>x. if confirmable r x then ?f x else x) (quotes db)" by (simp add: sql_update_def)
  moreover have "filter P (map (\<lambda>x. if confirmable r x then ?f x else x) t) = filter (\<lambda>x. \<not> confirmable r x) (filter P t)"
    if "\<And>x. confirmable r x \<Longrightarrow> \<not> P (?f x)" for P t
    using that by (induction t) auto
  ultimately show ?thesis unfolding reserved_rows_def by (simp add: active_states_def)
qed

theorem confirmation_frees_reservation_witness:
  "\<exists>s. reserved_rows (Some ''B'') None 1020 (sample_start \<lparr> quotes := [s] \<rparr>) = [s] \<and>
     reserved_rows (Some ''B'') None 1020 (after_payment s) = []"
proof -
  obtain r where "snd (create_universal_quote sample_world (sample_request ''o1'') (Some (sample_key ''1'')) ''1'' 1010 1010 sample_start sample_start) =
       sample_start \<lparr> quotes := [r] \<rparr>"
    and r: "qt_quote_id r = ''uq_1''" "qt_order_id r = ''o1''" "qt_buyer_wallet r = ''B''" "qt_state r = ''quoted''" "qt_route r = ''treasury''"
    "qt_required_iat r = dec_str sample_required" "qt_key r = sample_key ''1''" "qt_created_at r = 1010" "qt_expires_at r = 1070"
    "qt_tx_signature r = None"
    by (rule first_quoted)
  let ?s = "submitted_row ''sig1'' 1020 r"
  have "reserved_rows (Some ''B'') None 1020 (sample_start \<lparr> quotes := [?s] \<rparr>) = [?s]"
    by (simp add: reserved_rows_def submitted_row_def r active_states_def utc_day_start_def)
  moreover have "finalize_checkout False ?s 1020 (sample_start \<lparr> quotes := [?s] \<rparr>) = (Inr (), after_payment ?s)"
    by (rule first_finalized) (simp_all add: submitted_row_def r)
  moreover have "confirmable ?s ?s" by (simp add: confirmable_def submitted_row_def)
  ultimately show ?thesis using confirmation_frees_reservation by (intro exI [of _ ?s]) simp
qed

end
