(* ===== verification/QuoteSigner.thy ===== *)
theory QuoteSigner
  imports CheckoutQuoting CheckoutVerifier
begin

text \<open>
  The quote signer (\<open>iat/quote_signer.py\<close>, its service in \<open>iat/quote_signer_service.py\<close>, its client in
  \<open>iat/api/checkout_api.py\<close>): it signs a transaction only if its instructions are those of the plan, and the client
  accepts the answer only if nothing else was changed. The Solana library is the record \<open>signing_library\<close>: reading and
  writing of base64 transactions, keys, instruction data, signatures and the hash of a message.
\<close>

section \<open>Transactions\<close>

record solana_message =
  so_keys :: "string list"
  so_signers :: nat
  so_instructions :: "chain_instruction list"
  so_lookups :: bool
  so_blank_blockhash :: bool

record solana_transaction =
  sx_signatures :: "string list"
  sx_message :: solana_message

record signing_library =
  sl_decode :: "string \<Rightarrow> solana_transaction option"
  sl_encode :: "solana_transaction \<Rightarrow> string"
  sl_pubkey :: "string \<Rightarrow> string option"
  sl_data :: "string \<Rightarrow> nat list option"
  sl_sign :: "string \<Rightarrow> solana_message \<Rightarrow> string"
  sl_verify :: "string \<Rightarrow> string \<Rightarrow> solana_message \<Rightarrow> bool"
  sl_hash :: "solana_message \<Rightarrow> string"
  sl_int :: "pyval \<Rightarrow> int option"

text \<open>The keys that have to sign, and the slot of a key.\<close>

definition signer_keys :: "solana_transaction \<Rightarrow> string list" where
  "signer_keys tx = take (so_signers (sx_message tx)) (so_keys (sx_message tx))"

definition slot :: "string \<Rightarrow> solana_transaction \<Rightarrow> nat" where
  "slot key tx = length (takeWhile (\<lambda>k. k \<noteq> key) (signer_keys tx))"

lemma slot_found: "key \<in> set (signer_keys tx) \<Longrightarrow> slot key tx < length (signer_keys tx) \<and> signer_keys tx ! slot key tx = key"
proof -
  have "k \<in> set xs \<Longrightarrow> length (takeWhile (\<lambda>x. x \<noteq> k) xs) < length xs \<and> xs ! length (takeWhile (\<lambda>x. x \<noteq> k) xs) = k" for k and xs :: "string list"
    by (induction xs) auto
  then show "key \<in> set (signer_keys tx) \<Longrightarrow> slot key tx < length (signer_keys tx) \<and> signer_keys tx ! slot key tx = key"
    unfolding slot_def by blast
qed

section \<open>The plan\<close>

text \<open>A \<open>QuoteSigningRejected\<close> with its code, or another exception.\<close>

datatype signing_error = Refusal string | SigningCrash

definition denied :: "string \<Rightarrow> signing_error + 'a" where
  "denied code = Inl (Refusal code)"

definition plan_key :: "signing_library \<Rightarrow> pyval \<Rightarrow> string \<Rightarrow> signing_error + string" where
  "plan_key l v label =
     (case sl_pubkey l (str_or_empty v) of None \<Rightarrow> denied (''invalid_'' @ label) | Some k \<Rightarrow> Inr k)"

type_synonym fingerprint = "string \<times> string list \<times> nat list"

definition bad_instruction :: "string \<Rightarrow> signing_error + 'a" where
  "bad_instruction label = denied (''invalid_'' @ label @ ''_instruction'')"

definition required :: "string \<Rightarrow> pydict \<Rightarrow> string \<Rightarrow> signing_error + pyval" where
  "required label d k = (case map_of d k of None \<Rightarrow> bad_instruction label | Some v \<Rightarrow> Inr v)"

definition account_items :: "string \<Rightarrow> pyval \<Rightarrow> signing_error + pyval list" where
  "account_items label v =
     (case v of PList xs \<Rightarrow> Inr xs | _ \<Rightarrow> if v = PStr [] \<or> v = PDict [] then Inr [] else bad_instruction label)"

fun plan_accounts :: "signing_library \<Rightarrow> string \<Rightarrow> pyval list \<Rightarrow> signing_error + string list" where
  "plan_accounts l label [] = Inr []"
| "plan_accounts l label (v # vs) =
     (case v of
        PDict d \<Rightarrow>
          sum_bind (required label d ''address'') (\<lambda>a.
          sum_bind (plan_key l a (label @ ''_account'')) (\<lambda>k.
          sum_bind (plan_accounts l label vs) (\<lambda>ks. Inr (k # ks))))
      | _ \<Rightarrow> bad_instruction label)"

definition expected_instruction :: "signing_library \<Rightarrow> string \<Rightarrow> pydict \<Rightarrow> signing_error + fingerprint" where
  "expected_instruction l label d =
     sum_bind (required label d ''program_id'') (\<lambda>p.
     sum_bind (plan_key l p (label @ ''_program'')) (\<lambda>program.
     sum_bind (required label d ''accounts'') (\<lambda>v.
     sum_bind (account_items label v) (\<lambda>items.
     sum_bind (plan_accounts l label items) (\<lambda>accounts.
     sum_bind (required label d ''data_base64'') (\<lambda>t.
       case sl_data l (py_str t) of None \<Rightarrow> bad_instruction label | Some bytes \<Rightarrow> Inr (program, accounts, bytes)))))))"

definition plan_fields :: "(string \<times> string) list" where
  "plan_fields =
     [(''wallet_usage_prerequisite'', ''wallet_usage''), (''buyer_iat_account_prerequisite'', ''buyer_iat_account''),
      (''execute'', ''execute'')]"

fun allowed_instructions ::
  "signing_library \<Rightarrow> pydict \<Rightarrow> (string \<times> string) list \<Rightarrow> (fingerprint \<times> string) list \<Rightarrow>
   signing_error + (fingerprint \<times> string) list" where
  "allowed_instructions l plan [] acc = Inr acc"
| "allowed_instructions l plan ((name, label) # rest) acc =
     (case dget plan name of
        PDict d \<Rightarrow>
          sum_bind (expected_instruction l label d) (\<lambda>fp.
            if fp \<in> fst ` set acc then denied ''duplicate_expected_instruction''
            else allowed_instructions l plan rest (acc @ [(fp, label)]))
      | _ \<Rightarrow> allowed_instructions l plan rest acc)"

definition resolved :: "string list \<Rightarrow> chain_instruction \<Rightarrow> fingerprint option" where
  "resolved keys i =
     (if ci_program i < length keys \<and> list_all (\<lambda>a. a < length keys) (ci_accounts i)
      then Some (keys ! ci_program i, map ((!) keys) (ci_accounts i), ci_data i) else None)"

fun observed_labels ::
  "string list \<Rightarrow> (fingerprint \<times> string) list \<Rightarrow> chain_instruction list \<Rightarrow> string list \<Rightarrow> signing_error + string list" where
  "observed_labels keys allowed [] seen = Inr seen"
| "observed_labels keys allowed (i # rest) seen =
     (case resolved keys i of
        None \<Rightarrow> denied ''invalid_compiled_instruction''
      | Some fp \<Rightarrow>
          (case map_of allowed fp of
             None \<Rightarrow> denied ''unapproved_instruction''
           | Some label \<Rightarrow>
               if label \<in> set seen then denied ''duplicate_instruction''
               else observed_labels keys allowed rest (seen @ [label])))"

section \<open>Signing\<close>

record signing_result =
  sr_transaction :: string
  sr_message_hash :: string
  sr_authority :: string
  sr_expires_at :: int

text \<open>The checks of the plan's own fields, with the quote authority.\<close>

definition plan_authority :: "signing_library \<Rightarrow> string \<Rightarrow> pydict \<Rightarrow> solana_transaction \<Rightarrow> signing_error + string" where
  "plan_authority l own plan tx =
     sum_bind (plan_key l (dget plan ''fee_payer'') ''fee_payer'') (\<lambda>payer.
     sum_bind (plan_key l (dget plan ''quote_authority'') ''quote_authority'') (\<lambda>authority.
       if so_keys (sx_message tx) = [] \<or> hd (so_keys (sx_message tx)) \<noteq> payer then denied ''fee_payer_mismatch''
       else if authority \<noteq> own \<or> authority \<notin> set (signer_keys tx) then denied ''quote_authority_signer_mismatch''
       else if dget plan ''protocol_authorization_signature_required'' \<noteq> PBool True then denied ''protocol_authorization_not_required''
       else if dget plan ''buyer_signature_required'' \<noteq> PBool True then denied ''buyer_signature_not_required''
       else if dget plan ''network'' \<noteq> PStr ''solana'' then denied ''invalid_network''
       else Inr authority))"

definition sign_quote ::
  "signing_library \<Rightarrow> string \<Rightarrow> string \<Rightarrow> pydict \<Rightarrow> int \<Rightarrow> int \<Rightarrow> signing_error + signing_result" where
  "sign_quote l own encoded plan expires_at now =
     (if expires_at \<le> now then denied ''quote_expired''
      else if expires_at > now + 120 then denied ''quote_lifetime_too_long''
      else
        (case sl_int l (dget (as_dict (dget plan ''display'')) ''expires_at'') of
           None \<Rightarrow> denied ''plan_expiration_missing''
         | Some planned_end \<Rightarrow>
             if planned_end \<noteq> expires_at then denied ''plan_expiration_mismatch''
             else
               (case sl_decode l encoded of
                  None \<Rightarrow> denied ''invalid_serialized_transaction''
                | Some tx \<Rightarrow>
                    let m = sx_message tx in
                    if so_lookups m then denied ''address_lookup_tables_forbidden''
                    else if so_blank_blockhash m then denied ''recent_blockhash_required''
                    else
                      sum_bind (plan_authority l own plan tx) (\<lambda>authority.
                      sum_bind (allowed_instructions l plan plan_fields []) (\<lambda>allowed.
                        if ''execute'' \<notin> snd ` set allowed then denied ''execute_instruction_missing''
                        else
                          sum_bind (observed_labels (so_keys m) allowed (so_instructions m) []) (\<lambda>observed.
                            if observed = [] \<or> last observed \<noteq> ''execute'' \<or> length (filter ((=) ''execute'') observed) \<noteq> 1
                            then denied ''execute_instruction_order_invalid''
                            else if length (sx_signatures tx) \<noteq> so_signers m then denied ''signature_slot_mismatch''
                            else
                              let signature = sl_sign l own m;
                                  signed = tx \<lparr> sx_signatures := (sx_signatures tx)[slot authority tx := signature] \<rparr>
                              in if \<not> sl_verify l signature authority m then denied ''quote_signature_verification_failed''
                                 else Inr \<lparr> sr_transaction = sl_encode l signed, sr_message_hash = sl_hash l m,
                                            sr_authority = authority, sr_expires_at = expires_at \<rparr>))))))"

definition verify_quote_authorization ::
  "signing_library \<Rightarrow> string \<Rightarrow> string \<Rightarrow> string \<Rightarrow> signing_error + string" where
  "verify_quote_authorization l original authorized quote_authority =
     (case (sl_decode l original, sl_decode l authorized) of
        (Some before, Some after) \<Rightarrow>
          if sx_message after \<noteq> sx_message before then denied ''authorized_message_mismatch''
          else
            sum_bind (plan_key l (PStr quote_authority) ''quote_authority'') (\<lambda>authority.
              if authority \<notin> set (signer_keys before) then denied ''quote_authority_signer_mismatch''
              else if length (sx_signatures before) \<noteq> length (sx_signatures after) then denied ''signature_slot_mismatch''
              else if list_ex (\<lambda>i. i \<noteq> slot authority before \<and> sx_signatures before ! i \<noteq> sx_signatures after ! i)
                        [0..<length (sx_signatures before)]
              then denied ''non_authority_signature_modified''
              else if length (sx_signatures after) \<le> slot authority before then Inl SigningCrash
              else if \<not> sl_verify l (sx_signatures after ! slot authority before) authority (sx_message before)
              then denied ''quote_signature_verification_failed''
              else Inr (sl_hash l (sx_message before)))
      | _ \<Rightarrow> denied ''invalid_authorized_transaction'')"

section \<open>The service\<close>

text \<open>UTF-8 length of a text of 8-bit characters.\<close>

definition utf8_length :: "string \<Rightarrow> nat" where
  "utf8_length s = length s + length (filter (\<lambda>c. (of_char c :: nat) \<ge> 128) s)"

record sign_request =
  sq_request_id :: string
  sq_quote_id :: string
  sq_expires_at :: int
  sq_transaction :: string
  sq_plan :: pydict

definition request_char :: "char \<Rightarrow> bool" where
  "request_char c =
     (let n = (of_char c :: nat) in
      (65 \<le> n \<and> n \<le> 90) \<or> (97 \<le> n \<and> n \<le> 122) \<or> (48 \<le> n \<and> n \<le> 57) \<or> c = CHR ''_'' \<or> c = CHR ''-'')"

definition valid_sign_request :: "sign_request \<Rightarrow> bool" where
  "valid_sign_request q =
     (16 \<le> length (sq_request_id q) \<and> length (sq_request_id q) \<le> 96 \<and> list_all request_char (sq_request_id q) \<and>
      take 3 (sq_quote_id q) = ''uq_'' \<and> length (sq_quote_id q) = 35 \<and>
      list_all (\<lambda>c. let n = (of_char c :: nat) in (48 \<le> n \<and> n \<le> 57) \<or> (97 \<le> n \<and> n \<le> 102)) (drop 3 (sq_quote_id q)) \<and>
      64 \<le> length (sq_transaction q) \<and> length (sq_transaction q) \<le> 20000)"

text \<open>
  The service's world: HMAC and SHA-256 in hexadecimal, the environment, the reading of a request body (\<open>None\<close>: it is
  not the JSON of a request), and the key file (\<open>None\<close>: not readable as a key pair).
\<close>

record signer_world =
  sw_library :: signing_library
  sw_hmac :: "string \<Rightarrow> string \<Rightarrow> string"
  sw_sha :: "string \<Rightarrow> string"
  sw_env :: env
  sw_request :: "string \<Rightarrow> sign_request option"
  sw_keypair :: "string \<Rightarrow> string option"

type_synonym signed_requests = "string \<Rightarrow> (string \<times> pydict) option"

definition authenticate_signer :: "signer_world \<Rightarrow> string \<Rightarrow> string \<Rightarrow> string \<Rightarrow> int \<Rightarrow> http_error + unit" where
  "authenticate_signer w raw timestamp signature now =
     (case py_int_of_string timestamp of
        None \<Rightarrow> refuse 403 ''invalid_auth_timestamp''
      | Some observed_at \<Rightarrow>
          if \<bar>now - observed_at\<bar> > 30 then refuse 403 ''auth_timestamp_outside_window''
          else
            let secret = env_text (sw_env w) ''IAT_QUOTE_SIGNER_SHARED_SECRET'' [] in
            if utf8_length secret < 32 then refuse 403 ''shared_secret_unavailable''
            else sum_bind (compare_digest (sw_hmac w secret (timestamp @ ''.'' @ raw)) signature) (\<lambda>same.
              if same then Inr () else refuse 403 ''invalid_auth_signature''))"

definition local_signer :: "signer_world \<Rightarrow> http_error + string" where
  "local_signer w =
     (if py_lower (env_text (sw_env w) ''IAT_QUOTE_SIGNER_ENABLED'' ''false'') \<noteq> ''true'' then refuse 403 ''quote_signer_disabled''
      else if py_lower (env_text (sw_env w) ''IAT_QUOTE_SIGNER_ALLOW_LOCAL_KEYPAIR'' ''false'') \<noteq> ''true''
      then refuse 403 ''local_keypair_backend_disabled''
      else
        (case sw_keypair w (env_text (sw_env w) ''IAT_QUOTE_SIGNER_KEYPAIR_PATH'' []) of
           None \<Rightarrow> refuse 403 ''quote_signer_keypair_unavailable''
         | Some own \<Rightarrow>
             if env_text (sw_env w) ''IAT_QUOTE_SIGNER_CLUSTER'' ''devnet'' \<noteq> ''devnet''
             then refuse 403 ''local_keypair_backend_devnet_only'' else Inr own))"

definition signed_response :: "sign_request \<Rightarrow> signing_result \<Rightarrow> pydict" where
  "signed_response q r =
     [(''status'', PStr ''signed''), (''request_id'', PStr (sq_request_id q)), (''quote_id'', PStr (sq_quote_id q)),
      (''transaction_base64'', PStr (sr_transaction r)), (''message_hash'', PStr (sr_message_hash r)),
      (''quote_authority'', PStr (sr_authority r)), (''expires_at'', PInt (sr_expires_at r)), (''idempotent'', PBool False)]"

definition sign_endpoint ::
  "signer_world \<Rightarrow> string \<Rightarrow> string \<Rightarrow> string \<Rightarrow> int \<Rightarrow> int \<Rightarrow> signed_requests \<Rightarrow> (http_error + pydict) \<times> signed_requests" where
  "sign_endpoint w raw timestamp signature now later_now done =
     (case authenticate_signer w raw timestamp signature now of
        Inl e \<Rightarrow> (Inl e, done)
      | Inr _ \<Rightarrow>
          (case sw_request w raw of
             None \<Rightarrow> (refuse 422 ''invalid_signing_request'', done)
           | Some q \<Rightarrow>
               if \<not> valid_sign_request q then (refuse 422 ''invalid_signing_request'', done)
               else
                 (case done (sq_request_id q) of
                    Some (hash, response) \<Rightarrow>
                      if hash \<noteq> sw_sha w raw then (refuse 403 ''request_id_reused'', done)
                      else (Inr (dset response ''idempotent'' (PBool True)), done)
                  | None \<Rightarrow>
                      (case local_signer w of
                         Inl e \<Rightarrow> (Inl e, done)
                       | Inr own \<Rightarrow>
                           (case sign_quote (sw_library w) own (sq_transaction q) (sq_plan q) (sq_expires_at q) later_now of
                              Inl (Refusal code) \<Rightarrow> (refuse 403 code, done)
                            | Inl SigningCrash \<Rightarrow> (Inl Unhandled, done)
                            | Inr r \<Rightarrow> (Inr (signed_response q r),
                                done(sq_request_id q \<mapsto> (sw_sha w raw, signed_response q r))))))))"

section \<open>The client\<close>

definition rstrip_slash :: "string \<Rightarrow> string" where
  "rstrip_slash s = rev (dropWhile (\<lambda>c. c = CHR ''/'') (rev s))"

text \<open>\<open>post url raw timestamp signature\<close> is the decoded answer of the service, \<open>None\<close> if there is none.\<close>

definition signer_answer ::
  "signing_library \<Rightarrow> string \<Rightarrow> string \<Rightarrow> pydict \<Rightarrow> int \<Rightarrow> pyval \<Rightarrow> http_error + pydict" where
  "signer_answer l quote_id encoded plan expires_at answer =
     (let invalid = refuse 503 ''quote_signer_response_invalid'' in
      case answer of
        PDict result \<Rightarrow>
          if dget result ''status'' \<noteq> PStr ''signed'' \<or> dget result ''quote_id'' \<noteq> PStr quote_id \<or>
             dget result ''quote_authority'' \<noteq> dget plan ''quote_authority''
          then invalid
          else
            (case sl_int l (py_or (dget result ''expires_at'') (PInt 0)) of
               None \<Rightarrow> Inl Unhandled
             | Some e \<Rightarrow>
                 (case (e = expires_at, dget result ''transaction_base64'', map_of plan ''quote_authority'') of
                    (True, PStr authorized, Some authority) \<Rightarrow>
                      (case verify_quote_authorization l encoded authorized (py_str authority) of
                         Inl (Refusal _) \<Rightarrow> invalid
                       | Inl SigningCrash \<Rightarrow> Inl Unhandled
                       | Inr hash \<Rightarrow> if dget result ''message_hash'' \<noteq> PStr hash then invalid else Inr result)
                  | _ \<Rightarrow> invalid))
      | _ \<Rightarrow> invalid)"

definition authorize_with_quote_signer ::
  "signer_world \<Rightarrow> (string \<Rightarrow> string \<Rightarrow> string \<Rightarrow> string \<Rightarrow> pyval option) \<Rightarrow> int \<Rightarrow> string \<Rightarrow> string \<Rightarrow> pydict \<Rightarrow> int \<Rightarrow>
   http_error + pydict" where
  "authorize_with_quote_signer w post now quote_id encoded plan expires_at =
     (let env = sw_env w; url = rstrip_slash (py_strip (env_text env ''IAT_QUOTE_SIGNER_URL'' []));
          secret = env_text env ''IAT_QUOTE_SIGNER_SHARED_SECRET'' []
      in if \<not> bool_env env ''IAT_QUOTE_SIGNER_CLIENT_ENABLED'' then refuse 503 ''quote_signer_disabled''
         else if \<not> py_startswith url ''https://'' \<and>
           \<not> (bool_env env ''IAT_QUOTE_SIGNER_ALLOW_HTTP_PRIVATE'' \<and> py_startswith url ''http://'')
         then refuse 503 ''quote_signer_url_invalid''
         else if utf8_length secret < 32 then refuse 503 ''quote_signer_secret_unavailable''
         else
           let request_id = ''sign_'' @ take 40 (sw_sha w (quote_id @ '':'' @ sw_sha w encoded));
               raw = json_dumps True (PDict
                 [(''request_id'', PStr request_id), (''quote_id'', PStr quote_id), (''expires_at'', PInt expires_at),
                  (''transaction_base64'', PStr encoded), (''instruction_plan'', PDict plan)]);
               timestamp = string_of_int now
           in (case post (url @ ''/v1/sign'') raw timestamp (sw_hmac w secret (timestamp @ ''.'' @ raw)) of
                 None \<Rightarrow> refuse 503 ''quote_signer_unavailable''
               | Some answer \<Rightarrow> signer_answer (sw_library w) quote_id encoded plan expires_at answer))"

section \<open>What is signed\<close>

text \<open>The instruction is the one that the plan has under this label.\<close>

definition planned :: "signing_library \<Rightarrow> pydict \<Rightarrow> string list \<Rightarrow> chain_instruction \<Rightarrow> string \<Rightarrow> bool" where
  "planned l plan keys i label =
     (\<exists>name d fp. (name, label) \<in> set plan_fields \<and> dget plan name = PDict d \<and> expected_instruction l label d = Inr fp \<and>
        resolved keys i = Some fp)"

lemma allowed_from_plan:
  assumes "allowed_instructions l plan names acc = Inr allowed" and "(fp, label) \<in> set allowed" and "(fp, label) \<notin> set acc"
  shows "\<exists>name d. (name, label) \<in> set names \<and> dget plan name = PDict d \<and> expected_instruction l label d = Inr fp"
  using assms
proof (induction names arbitrary: acc)
  case Nil
  then show ?case by simp
next
  case (Cons p rest)
  obtain name label' where p: "p = (name, label')" by (cases p)
  show ?case
  proof (cases "\<exists>d. dget plan name = PDict d")
    case True
    then obtain d where d: "dget plan name = PDict d" ..
    with Cons.prems(1) obtain fp' where fp': "expected_instruction l label' d = Inr fp'"
        "allowed_instructions l plan rest (acc @ [(fp', label')]) = Inr allowed"
      by (auto simp: sum_bind_Inr denied_def p split: if_split_asm)
    show ?thesis
    proof (cases "(fp, label) = (fp', label')")
      case True
      then show ?thesis using d fp'(1) p by auto
    next
      case False
      then have "(fp, label) \<notin> set (acc @ [(fp', label')])" using Cons.prems(3) by simp
      then show ?thesis using Cons.IH [OF fp'(2) Cons.prems(2)] by (meson list.set_intros(2))
    qed
  next
    case False
    then have "allowed_instructions l plan rest acc = Inr allowed" using Cons.prems(1) by (cases "dget plan name") (auto simp: p)
    then show ?thesis using Cons.IH Cons.prems(2,3) by (meson list.set_intros(2))
  qed
qed

lemma observed_follow:
  assumes "observed_labels keys allowed is seen = Inr out" and "distinct seen"
  shows "\<exists>labels. out = seen @ labels \<and> distinct out \<and>
    list_all2 (\<lambda>i label. \<exists>fp. resolved keys i = Some fp \<and> map_of allowed fp = Some label) is labels"
  using assms
proof (induction keys allowed "is" seen rule: observed_labels.induct)
  case (2 keys allowed i rest seen)
  then obtain fp label where i: "resolved keys i = Some fp" "map_of allowed fp = Some label" "label \<notin> set seen"
      "observed_labels keys allowed rest (seen @ [label]) = Inr out"
    by (auto simp: denied_def split: option.split_asm if_split_asm)
  obtain labels where "out = (seen @ [label]) @ labels" "distinct out"
      "list_all2 (\<lambda>i label. \<exists>fp. resolved keys i = Some fp \<and> map_of allowed fp = Some label) rest labels"
    using 2(1) [OF i(1,2,3,4)] 2(3) i(3) by auto
  then show ?case using i by (intro exI [of _ "label # labels"]) (auto simp del: split_paired_Ex)
qed simp

lemma plan_authority_facts:
  assumes "plan_authority l own plan tx = Inr authority"
  shows "authority = own \<and> own \<in> set (signer_keys tx) \<and> so_keys (sx_message tx) \<noteq> [] \<and>
    sl_pubkey l (str_or_empty (dget plan ''fee_payer'')) = Some (hd (so_keys (sx_message tx))) \<and>
    sl_pubkey l (str_or_empty (dget plan ''quote_authority'')) = Some own"
  using assms by (auto simp: plan_authority_def sum_bind_Inr plan_key_def denied_def split: if_split_asm option.split_asm)

lemma signed_cases:
  assumes "sign_quote l own encoded plan expires_at now = Inr r"
  obtains tx labels where "now < expires_at" "expires_at \<le> now + 120" "sl_decode l encoded = Some tx"
    "plan_authority l own plan tx = Inr own" "\<not> so_lookups (sx_message tx)" "length (sx_signatures tx) = so_signers (sx_message tx)"
    "list_all2 (planned l plan (so_keys (sx_message tx))) (so_instructions (sx_message tx)) labels" "distinct labels"
    "labels \<noteq> []" "last labels = ''execute''" "sl_verify l (sl_sign l own (sx_message tx)) own (sx_message tx)"
    "r = \<lparr> sr_transaction = sl_encode l (tx \<lparr> sx_signatures := (sx_signatures tx)[slot own tx := sl_sign l own (sx_message tx)] \<rparr>),
           sr_message_hash = sl_hash l (sx_message tx), sr_authority = own, sr_expires_at = expires_at \<rparr>"
proof -
  obtain tx authority allowed observed where 1: "now < expires_at" "expires_at \<le> now + 120" "sl_decode l encoded = Some tx"
      "\<not> so_lookups (sx_message tx)" "plan_authority l own plan tx = Inr authority"
      "allowed_instructions l plan plan_fields [] = Inr allowed"
      "observed_labels (so_keys (sx_message tx)) allowed (so_instructions (sx_message tx)) [] = Inr observed"
      "observed \<noteq> []" "last observed = ''execute''" "length (sx_signatures tx) = so_signers (sx_message tx)"
      "sl_verify l (sl_sign l own (sx_message tx)) authority (sx_message tx)"
      "r = \<lparr> sr_transaction = sl_encode l (tx \<lparr> sx_signatures := (sx_signatures tx)[slot authority tx := sl_sign l own (sx_message tx)] \<rparr>),
           sr_message_hash = sl_hash l (sx_message tx), sr_authority = authority, sr_expires_at = expires_at \<rparr>"
    using assms by (auto simp: sign_quote_def sum_bind_Inr denied_def Let_def split: if_split_asm option.split_asm)
  have own: "authority = own" using plan_authority_facts [OF 1(5)] by simp
  obtain labels where labels: "observed = labels" "distinct observed"
      "list_all2 (\<lambda>i label. \<exists>fp. resolved (so_keys (sx_message tx)) i = Some fp \<and> map_of allowed fp = Some label)
         (so_instructions (sx_message tx)) labels"
    using observed_follow [OF 1(7)] by auto
  have "planned l plan keys i label" if "resolved keys i = Some fp" "map_of allowed fp = Some label" for keys i label fp
    using allowed_from_plan [OF 1(6), of fp label] that map_of_SomeD [OF that(2)] unfolding planned_def by (auto simp del: split_paired_Ex)
  then have "list_all2 (planned l plan (so_keys (sx_message tx))) (so_instructions (sx_message tx)) labels"
    using labels(3) by (auto elim!: list_all2_mono)
  then show ?thesis using that 1 own labels by blast
qed

text \<open>
  C38: what the signer signs is the plan: the transaction is paid by the plan's payer, its instructions are, each once, those
  of the plan, the purchase last, it expires within two minutes, and only the signer's own signature is new.
\<close>

theorem signed_follows_plan:
  assumes "sign_quote l own encoded plan expires_at now = Inr r"
  shows "\<exists>tx labels signed. sl_decode l encoded = Some tx \<and> now < expires_at \<and> expires_at \<le> now + 120 \<and>
    list_all2 (planned l plan (so_keys (sx_message tx))) (so_instructions (sx_message tx)) labels \<and> distinct labels \<and>
    labels \<noteq> [] \<and> last labels = ''execute'' \<and>
    sl_pubkey l (str_or_empty (dget plan ''fee_payer'')) = Some (hd (so_keys (sx_message tx))) \<and>
    sr_transaction r = sl_encode l signed \<and> sx_message signed = sx_message tx \<and>
    slot own tx < length (sx_signatures tx) \<and> signer_keys tx ! slot own tx = own \<and>
    sx_signatures signed = (sx_signatures tx)[slot own tx := sl_sign l own (sx_message tx)] \<and>
    sl_verify l (sx_signatures signed ! slot own tx) own (sx_message tx)"
  using assms
proof (cases rule: signed_cases)
  case (1 tx labels)
  note facts = plan_authority_facts [OF 1(4)]
  have "slot own tx < length (signer_keys tx)" "signer_keys tx ! slot own tx = own" using slot_found facts by blast+
  moreover have "length (signer_keys tx) \<le> so_signers (sx_message tx)" by (simp add: signer_keys_def)
  ultimately have "slot own tx < length (sx_signatures tx)" using 1(6) by simp
  then show ?thesis using 1 facts \<open>signer_keys tx ! slot own tx = own\<close>
    by (intro exI [of _ tx] exI [of _ labels]
        exI [of _ "tx \<lparr> sx_signatures := (sx_signatures tx)[slot own tx := sl_sign l own (sx_message tx)] \<rparr>"]) simp
qed

text \<open>
  C39: whatever the signer answers, an authorised transaction has the buyer's message, signatures that differ from the
  buyer's at the slot of the plan's quote authority only, and there a valid signature of that authority.
\<close>

theorem authorized_changes_one_slot:
  assumes "authorize_with_quote_signer w post now quote_id encoded plan expires_at = Inr result"
  shows "\<exists>authorized before after authority. dget result ''transaction_base64'' = PStr authorized \<and>
    sl_decode (sw_library w) encoded = Some before \<and> sl_decode (sw_library w) authorized = Some after \<and>
    sl_pubkey (sw_library w) (str_or_empty (PStr (py_str (dget plan ''quote_authority'')))) = Some authority \<and>
    authority \<in> set (signer_keys before) \<and> sx_message after = sx_message before \<and>
    sx_signatures after = (sx_signatures before)[slot authority before := sx_signatures after ! slot authority before] \<and>
    sl_verify (sw_library w) (sx_signatures after ! slot authority before) authority (sx_message before) \<and>
    dget result ''message_hash'' = PStr (sl_hash (sw_library w) (sx_message before))"
proof -
  let ?l = "sw_library w"
  obtain answer where "signer_answer ?l quote_id encoded plan expires_at answer = Inr result"
    using assms by (auto simp: authorize_with_quote_signer_def refuse_def Let_def split: if_split_asm option.split_asm)
  then obtain authorized hash authority where 1: "dget result ''transaction_base64'' = PStr authorized"
      "map_of plan ''quote_authority'' = Some authority"
      "verify_quote_authorization ?l encoded authorized (py_str authority) = Inr hash" "dget result ''message_hash'' = PStr hash"
    by (auto simp: signer_answer_def refuse_def Let_def
        split: pyval.split_asm if_split_asm option.split_asm bool.split_asm sum.split_asm signing_error.split_asm)
  from 1(3) obtain before after key where 2: "sl_decode ?l encoded = Some before" "sl_decode ?l authorized = Some after"
      "sl_pubkey ?l (str_or_empty (PStr (py_str authority))) = Some key" "key \<in> set (signer_keys before)"
      "sx_message after = sx_message before" "length (sx_signatures before) = length (sx_signatures after)"
      "\<not> list_ex (\<lambda>i. i \<noteq> slot key before \<and> sx_signatures before ! i \<noteq> sx_signatures after ! i) [0..<length (sx_signatures before)]"
      "sl_verify ?l (sx_signatures after ! slot key before) key (sx_message before)" "hash = sl_hash ?l (sx_message before)"
    by (auto simp: verify_quote_authorization_def plan_key_def sum_bind_Inr denied_def
        split: option.split_asm if_split_asm prod.split_asm)
  have "sx_signatures after = (sx_signatures before)[slot key before := sx_signatures after ! slot key before]"
  proof (rule nth_equalityI)
    fix i
    assume "i < length (sx_signatures after)"
    then show "sx_signatures after ! i = (sx_signatures before)[slot key before := sx_signatures after ! slot key before] ! i"
      using 2(6,7) by (cases "i = slot key before") (auto simp: list_ex_iff)
  qed (simp add: 2(6))
  then show ?thesis using 1 2 by (intro exI [of _ authorized] exI [of _ before] exI [of _ after] exI [of _ key]) (simp add: dget_def)
qed

text \<open>
  C40: the client accepts what the signer signs: if the library reads back the transaction that it writes with new
  signatures, and the signer's key, the check of a fresh authorisation succeeds with the hash that the signer answered.
\<close>

theorem signed_is_accepted:
  assumes "sign_quote l own encoded plan expires_at now = Inr r"
    and "\<And>tx sigs. sl_decode l encoded = Some tx \<Longrightarrow> length sigs = length (sx_signatures tx) \<Longrightarrow>
      sl_decode l (sl_encode l (tx \<lparr> sx_signatures := sigs \<rparr>)) = Some (tx \<lparr> sx_signatures := sigs \<rparr>)" and "sl_pubkey l own = Some own" and "own \<noteq> []"
  shows "verify_quote_authorization l encoded (sr_transaction r) (sr_authority r) = Inr (sr_message_hash r)"
  using assms(1)
proof (cases rule: signed_cases)
  case (1 tx labels)
  have own: "own \<in> set (signer_keys tx)" using plan_authority_facts [OF 1(4)] by simp
  have "length (signer_keys tx) \<le> so_signers (sx_message tx)" by (simp add: signer_keys_def)
  then have "slot own tx < length (sx_signatures tx)" using slot_found [OF own] 1(6) by simp
  then show ?thesis using 1 own assms(2-4)
    by (auto simp: verify_quote_authorization_def plan_key_def str_or_empty_def py_str_def list_ex_iff)
qed

section \<open>A signature\<close>

definition unsigned_purchase :: solana_transaction where
  "unsigned_purchase = \<lparr> sx_signatures = [''1''], sx_message =
     \<lparr> so_keys = [''Q'', ''P''], so_signers = 1, so_instructions = [\<lparr> ci_program = 1, ci_accounts = [0], ci_data = [1] \<rparr>],
       so_lookups = False, so_blank_blockhash = False \<rparr> \<rparr>"

definition sample_library :: signing_library where
  "sample_library =
     \<lparr> sl_decode = (\<lambda>s. if s = ''A'' then Some unsigned_purchase
         else if take 1 s = ''S'' then Some (unsigned_purchase \<lparr> sx_signatures := [drop 1 s] \<rparr>) else None),
       sl_encode = (\<lambda>tx. ''S'' @ hd (sx_signatures tx)), sl_pubkey = (\<lambda>k. if k = [] then None else Some k), sl_data = (\<lambda>_. Some [1]),
       sl_sign = (\<lambda>k m. ''q''), sl_verify = (\<lambda>s k m. s = ''q''), sl_hash = (\<lambda>_. ''h''),
       sl_int = (\<lambda>v. case v of PInt i \<Rightarrow> Some i | _ \<Rightarrow> None) \<rparr>"

definition purchase_plan :: pydict where
  "purchase_plan =
     [(''display'', PDict [(''expires_at'', PInt 150)]), (''fee_payer'', PStr ''Q''), (''quote_authority'', PStr ''Q''),
      (''protocol_authorization_signature_required'', PBool True), (''buyer_signature_required'', PBool True),
      (''network'', PStr ''solana''),
      (''execute'', PDict [(''program_id'', PStr ''P''), (''accounts'', PList [PDict [(''address'', PStr ''Q'')]]), (''data_base64'', PStr ''AQ'')])]"

lemmas sample_signing = sample_library_def unsigned_purchase_def purchase_plan_def plan_authority_def plan_key_def denied_def
  str_or_empty_def py_str_def signer_keys_def slot_def plan_fields_def expected_instruction_def required_def account_items_def resolved_def

definition sample_signed :: signing_result where
  "sample_signed = \<lparr> sr_transaction = ''Sq'', sr_message_hash = ''h'', sr_authority = ''Q'', sr_expires_at = 150 \<rparr>"

lemma sample_signs: "sign_quote sample_library ''Q'' ''A'' purchase_plan 150 100 = Inr sample_signed"
  by (simp add: sign_quote_def sample_signing Let_def sample_signed_def)

theorem signed_follows_plan_witness:
  "\<exists>label. planned sample_library purchase_plan [''Q'', ''P''] \<lparr> ci_program = 1, ci_accounts = [0], ci_data = [1] \<rparr> label \<and>
     label = ''execute'' \<and> ''Sq'' = sl_encode sample_library (unsigned_purchase \<lparr> sx_signatures := [''q''] \<rparr>)"
proof -
  have "sl_decode sample_library ''A'' = Some unsigned_purchase" by (simp add: sample_library_def)
  then obtain labels where "list_all2 (planned sample_library purchase_plan (so_keys (sx_message unsigned_purchase)))
      (so_instructions (sx_message unsigned_purchase)) labels" "last labels = ''execute''"
    using signed_follows_plan [OF sample_signs] by auto
  then show ?thesis by (auto simp: unsigned_purchase_def list_all2_Cons1 sample_library_def)
qed

theorem signed_is_accepted_witness:
  "verify_quote_authorization sample_library ''A'' ''Sq'' ''Q'' = Inr ''h''"
proof -
  have "length sigs = 1 \<Longrightarrow> \<exists>x. sigs = [x]" for sigs :: "string list" by (cases sigs) auto
  then show ?thesis
    using signed_is_accepted [OF sample_signs] by (fastforce simp: sample_signed_def sample_library_def unsigned_purchase_def)
qed

definition sample_signer :: signer_world where
  "sample_signer =
     \<lparr> sw_library = sample_library, sw_hmac = (\<lambda>_ _. ''m''), sw_sha = (\<lambda>_. ''d''),
       sw_env = map_of [(''IAT_QUOTE_SIGNER_CLIENT_ENABLED'', ''true''), (''IAT_QUOTE_SIGNER_URL'', ''https://s''),
         (''IAT_QUOTE_SIGNER_SHARED_SECRET'', replicate 32 CHR ''x'')],
       sw_request = (\<lambda>_. None), sw_keypair = (\<lambda>_. None) \<rparr>"

definition signer_reply :: pydict where
  "signer_reply =
     [(''status'', PStr ''signed''), (''quote_id'', PStr ''uq_1''), (''transaction_base64'', PStr ''Sq''), (''message_hash'', PStr ''h''),
      (''quote_authority'', PStr ''Q''), (''expires_at'', PInt 150)]"

lemma sample_int_150: "sl_int sample_library (PInt 150) = Some 150"
  by (simp add: sample_library_def)

lemma sample_authorized:
  "authorize_with_quote_signer sample_signer (\<lambda>_ _ _ _. Some (PDict signer_reply)) 100 ''uq_1'' ''A'' purchase_plan 150 = Inr signer_reply"
proof -
  have "verify_quote_authorization sample_library ''A'' ''Sq'' ''Q'' = Inr ''h''"
    by (simp add: verify_quote_authorization_def sample_signing)
  then have "signer_answer sample_library ''uq_1'' ''A'' purchase_plan 150 (PDict signer_reply) = Inr signer_reply"
    using sample_int_150 by (simp add: signer_answer_def signer_reply_def purchase_plan_def py_str_def py_or_def Let_def)
  moreover have "utf8_length (replicate 32 CHR ''x'') = 32" by (simp add: utf8_length_def)
  moreover have "sw_library sample_signer = sample_library" by (simp add: sample_signer_def)
  ultimately show ?thesis
    by (simp add: authorize_with_quote_signer_def Let_def)
      (simp add: sample_signer_def env_text_def bool_env_def py_strip_def py_lstrip_def py_space_def py_lower_def py_lower_char_def
        rstrip_slash_def py_startswith_def)
qed

theorem authorized_changes_one_slot_witness:
  "\<exists>after. sl_decode sample_library ''Sq'' = Some after \<and> sx_message after = sx_message unsigned_purchase \<and>
     sx_signatures after = [''q'']"
proof -
  have "sl_decode (sw_library sample_signer) ''A'' = Some unsigned_purchase" "dget signer_reply ''transaction_base64'' = PStr ''Sq''"
    by (simp_all add: sample_signer_def sample_library_def signer_reply_def)
  then obtain after where "sl_decode (sw_library sample_signer) ''Sq'' = Some after" "sx_message after = sx_message unsigned_purchase"
    using authorized_changes_one_slot [OF sample_authorized] by auto
  then show ?thesis by (auto simp: sample_signer_def sample_library_def)
qed

end
