(* ===== verification/WalletSidecar.thy ===== *)
theory WalletSidecar
  imports QuoteSigner
begin

text \<open>
  The wallet sidecar that signs and broadcasts settlements: the approval policy (\<open>iat/settlement_signing_policy.py\<close>),
  the escrow signer (\<open>iat/settlement_sidecar.py\<close>), the backend that checks the signer and broadcasts
  (\<open>iat/solana_wallet_backend.py\<close>), the HTTP handler (\<open>iat/wallet_sidecar.py\<close>) and its client
  (\<open>iat/wallet_adapters.py\<close>). The Solana library, the node and the clock are arguments.
\<close>

section \<open>The approval policy\<close>

text \<open>\<open>hmac.compare_digest\<close> on all pairs, in order; it raises on text that is not ASCII.\<close>

fun compare_all :: "(string \<times> string) list \<Rightarrow> http_error + bool" where
  "compare_all [] = Inr True"
| "compare_all ((a, b) # rest) =
     sum_bind (compare_digest a b) (\<lambda>same. sum_bind (compare_all rest) (\<lambda>others. Inr (same \<and> others)))"

record bounded_approval =
  ba_escrow :: string
  ba_treasury :: string
  ba_maximum :: int
  ba_cluster :: string

definition valid_approval :: "signing_library \<Rightarrow> bounded_approval \<Rightarrow> string + unit" where
  "valid_approval l b =
     (if sl_pubkey l (ba_escrow b) = None \<or> sl_pubkey l (ba_treasury b) = None then Inl ''settlement_policy_wallet_invalid''
      else if \<not> (1 \<le> ba_maximum b \<and> ba_maximum b \<le> 10 ^ 18) then Inl ''settlement_policy_limit_out_of_bounds''
      else if ba_cluster b \<noteq> ''solana:devnet'' then Inl ''settlement_policy_devnet_only''
      else Inr ())"

definition text_at :: "pydict \<Rightarrow> string \<Rightarrow> string" where
  "text_at d k = str_or_empty (dget d k)"

text \<open>A final simulation, if there is one, has the status and the digest of the first.\<close>

definition simulations_agree :: "pyval \<Rightarrow> pydict \<Rightarrow> http_error + bool" where
  "simulations_agree audit simulation =
     (case audit of
        PNone \<Rightarrow> Inr True
      | PDict d \<Rightarrow>
          if dget d ''status'' \<noteq> dget simulation ''status'' then Inr False
          else compare_digest (text_at d ''transaction_sha256'') (text_at simulation ''transaction_sha256'')
      | _ \<Rightarrow> Inr False)"

definition amounts_allowed :: "int \<Rightarrow> int \<Rightarrow> int \<Rightarrow> int \<Rightarrow> bool" where
  "amounts_allowed maximum gross commission payout =
     (0 < gross \<and> gross \<le> maximum \<and> 0 \<le> commission \<and> 0 \<le> payout \<and> commission + payout = gross)"

definition approve :: "signing_library \<Rightarrow> bounded_approval \<Rightarrow> pydict \<Rightarrow> int \<Rightarrow> http_error + bool" where
  "approve l b review now =
     (case (dget review ''settlement'', dget review ''execution_permit'', dget review ''simulation'') of
        (PDict payment, PDict permit, PDict simulation) \<Rightarrow>
          sum_bind (simulations_agree (dget review ''final_simulation'') simulation) (\<lambda>agree.
            if \<not> agree then Inr False
            else
              (case (sl_int l (dget payment ''gross_amount_minor''), sl_int l (dget payment ''protocol_commission_amount_minor''),
                     sl_int l (dget payment ''seller_payout_amount_minor''), sl_int l (dget review ''expires_at'')) of
                 (Some gross, Some commission, Some payout, Some expires_at) \<Rightarrow>
                   let sha256 = text_at review ''transaction_sha256'';
                       settlement_id = text_at payment ''settlement_id''; order_id = text_at payment ''order_id''
                   in sum_bind (compare_all
                        [(text_at review ''fee_payer'', ba_escrow b), (text_at payment ''treasury_wallet'', ba_treasury b),
                         (text_at permit ''settlement_id'', settlement_id), (text_at permit ''order_id'', order_id),
                         (sha256, text_at simulation ''transaction_sha256'')]) (\<lambda>same.
                        Inr (same \<and> dget review ''policy_version'' = PStr ''settlement_signing_policy_v1'' \<and>
                          dget review ''cluster'' = PStr (ba_cluster b) \<and> py_upper (text_at payment ''asset'') = ''IAT'' \<and>
                          amounts_allowed (ba_maximum b) gross commission payout \<and> settlement_id \<noteq> [] \<and> order_id \<noteq> [] \<and>
                          py_startswith (text_at permit ''permit_id'') ''pep_'' \<and>
                          py_startswith (text_at permit ''claim_id'') ''pec_'' \<and> dget permit ''state'' = PStr ''claimed'' \<and>
                          dget simulation ''status'' = PStr ''succeeded'' \<and> hex64 sha256 \<and>
                          now < expires_at \<and> expires_at \<le> now + 300))
               | _ \<Rightarrow> Inr False))
      | _ \<Rightarrow> Inr False)"

section \<open>The escrow signer\<close>

definition empty_signature :: string where
  "empty_signature = ''1111111111111111111111111111111111111111111111111111111111111111''"

text \<open>The signer raises \<open>RuntimeError\<close>; \<open>None\<close> stands for any exception of it.\<close>

definition escrow_sign :: "signing_library \<Rightarrow> string \<Rightarrow> string \<Rightarrow> string option" where
  "escrow_sign l own encoded =
     (case sl_decode l encoded of
        None \<Rightarrow> None
      | Some tx \<Rightarrow>
          if own \<notin> set (signer_keys tx) \<or> length (sx_signatures tx) \<le> slot own tx then None
          else if sx_signatures tx ! slot own tx \<noteq> empty_signature then None
          else Some (sl_encode l (tx \<lparr> sx_signatures := (sx_signatures tx)[slot own tx := sl_sign l own (sx_message tx)] \<rparr>)))"

section \<open>The backend\<close>

text \<open>A \<open>SolanaWalletBackendError\<close> with its code, or another exception.\<close>

datatype backend_error = BackendError string | BackendCrash

definition failed :: "string \<Rightarrow> backend_error + 'a" where
  "failed code = Inl (BackendError code)"

definition crashing :: "http_error + 'a \<Rightarrow> backend_error + 'a" where
  "crashing m = (case m of Inl _ \<Rightarrow> Inl BackendCrash | Inr x \<Rightarrow> Inr x)"

record wallet_backend =
  wb_library :: signing_library
  wb_wallet :: string
  wb_cluster :: string
  wb_approve :: "pydict \<Rightarrow> http_error + bool"
  wb_sign :: "string \<Rightarrow> pydict \<Rightarrow> string option"
  wb_send :: "string \<Rightarrow> pyval option"

text \<open>The signer's transaction, if it differs from the prepared one in the wallet's signature only.\<close>

definition check_signed :: "wallet_backend \<Rightarrow> solana_transaction \<Rightarrow> string \<Rightarrow> backend_error + solana_transaction" where
  "check_signed b prepared signed_text =
     (let i = slot (wb_wallet b) prepared in
      case sl_decode (wb_library b) signed_text of
        None \<Rightarrow> failed ''signed_transaction_invalid''
      | Some signed \<Rightarrow>
          if sx_message signed \<noteq> sx_message prepared then failed ''signer_changed_transaction_message''
          else if length (sx_signatures signed) \<noteq> length (sx_signatures prepared) then failed ''signer_changed_signature_layout''
          else if list_ex (\<lambda>j. j \<noteq> i \<and> sx_signatures signed ! j \<noteq> sx_signatures prepared ! j) [0..<length (sx_signatures prepared)]
          then failed ''signer_changed_existing_signature''
          else if sx_signatures signed ! i = empty_signature \<or>
            \<not> sl_verify (wb_library b) (sx_signatures signed ! i) (wb_wallet b) (sx_message signed)
          then failed ''buyer_signature_invalid''
          else Inr signed)"

definition broadcast :: "wallet_backend \<Rightarrow> string \<Rightarrow> solana_transaction \<Rightarrow> backend_error + string" where
  "broadcast b signed_text signed =
     (case wb_send b signed_text of
        None \<Rightarrow> failed ''solana_rpc_unavailable''
      | Some (PDict d) \<Rightarrow>
          if truthy (dget d ''error'') \<or> \<not> truthy (dget d ''result'') then failed ''solana_rpc_rejected''
          else
            let rpc_signature = py_str (dget d ''result'') in
            sum_bind (crashing (compare_digest rpc_signature (hd (sx_signatures signed)))) (\<lambda>same.
              if same then Inr rpc_signature else failed ''solana_rpc_signature_mismatch'')
      | Some _ \<Rightarrow> failed ''solana_rpc_rejected'')"

definition approve_sign_and_broadcast :: "wallet_backend \<Rightarrow> string \<Rightarrow> pydict \<Rightarrow> backend_error + string" where
  "approve_sign_and_broadcast b encoded review =
     (if dget review ''cluster'' \<noteq> PStr (wb_cluster b) then failed ''backend_cluster_mismatch''
      else
        sum_bind (crashing (compare_digest (text_at review ''fee_payer'') (wb_wallet b))) (\<lambda>same.
        if \<not> same then failed ''backend_fee_payer_mismatch''
        else
          sum_bind (crashing (wb_approve b review)) (\<lambda>approved.
          if \<not> approved then failed ''transaction_not_approved''
          else
            (case sl_decode (wb_library b) encoded of
               None \<Rightarrow> failed ''prepared_transaction_invalid''
             | Some prepared \<Rightarrow>
                 let i = slot (wb_wallet b) prepared in
                 if signer_keys prepared = [] \<or> hd (signer_keys prepared) \<noteq> wb_wallet b then failed ''buyer_not_transaction_fee_payer''
                 else if length (sx_signatures prepared) \<le> i then Inl BackendCrash
                 else if sx_signatures prepared ! i \<noteq> empty_signature then failed ''buyer_signature_slot_not_empty''
                 else
                   (case wb_sign b encoded review of
                      None \<Rightarrow> Inl BackendCrash
                    | Some signed_text \<Rightarrow>
                        sum_bind (check_signed b prepared signed_text) (\<lambda>signed. broadcast b signed_text signed))))))"

section \<open>The handler\<close>

record wallet_sidecar =
  wc_backend :: wallet_backend
  wc_token :: string
  wc_clusters :: "string list"
  wc_ttl :: int
  wc_signature :: "string \<Rightarrow> bool"
  wc_digest :: "string \<Rightarrow> string"

definition sidecar_ttl :: "int \<Rightarrow> int" where
  "sidecar_ttl configured = max 30 (min configured 300)"

definition bearer :: "string \<Rightarrow> string \<times> bool \<times> string" where
  "bearer s =
     (let scheme = takeWhile (\<lambda>c. c \<noteq> CHR '' '') s; rest = drop (length scheme) s in (scheme, rest \<noteq> [], drop 1 rest))"

definition authenticate_sidecar :: "wallet_sidecar \<Rightarrow> string option \<Rightarrow> http_error + unit" where
  "authenticate_sidecar w authorization =
     (case bearer (case authorization of None \<Rightarrow> [] | Some s \<Rightarrow> s) of
        (scheme, separated, supplied) \<Rightarrow>
          if \<not> separated \<or> py_lower scheme \<noteq> ''bearer'' then refuse 401 ''invalid_sidecar_token''
          else sum_bind (compare_digest supplied (wc_token w)) (\<lambda>same.
            if same then Inr () else refuse 401 ''invalid_sidecar_token''))"

definition sidecar_answer :: "wallet_sidecar \<Rightarrow> string \<Rightarrow> bool \<Rightarrow> pydict" where
  "sidecar_answer w signature idempotent =
     [(''approved'', PBool True), (''wallet_address'', PStr (wb_wallet (wc_backend w))), (''tx_signature'', PStr signature),
      (''idempotent'', PBool idempotent)]"

text \<open>The checks before the backend: identity, review, lifetime, and who signs the transaction.\<close>

definition sidecar_checks :: "wallet_sidecar \<Rightarrow> string \<Rightarrow> string \<Rightarrow> pydict \<Rightarrow> int \<Rightarrow> http_error + unit" where
  "sidecar_checks w wallet_address encoded review now =
     (let l = wb_library (wc_backend w); wallet = wb_wallet (wc_backend w) in
      sum_bind (compare_digest wallet_address wallet) (\<lambda>same.
      if \<not> same then refuse 409 ''wallet_identity_mismatch''
      else
        sum_bind (compare_digest (text_at review ''fee_payer'') wallet) (\<lambda>payer.
        if \<not> payer then refuse 409 ''review_fee_payer_mismatch''
        else if text_at review ''cluster'' \<notin> set (wc_clusters w) then refuse 403 ''cluster_not_allowed''
        else if dget (as_dict (dget review ''simulation'')) ''status'' \<noteq> PStr ''succeeded'' then refuse 409 ''simulation_not_succeeded''
        else
          (case sl_int l (dget review ''expires_at'') of
             None \<Rightarrow> refuse 422 ''transaction_expiry_invalid''
           | Some expires_at \<Rightarrow>
               if expires_at \<le> now then refuse 410 ''transaction_expired''
               else if expires_at > now + wc_ttl w then refuse 422 ''transaction_expiry_too_distant''
               else
                 (case sl_decode l encoded of
                    None \<Rightarrow> refuse 422 ''transaction_encoding_invalid''
                  | Some tx \<Rightarrow>
                      if so_keys (sx_message tx) = [] then refuse 422 ''transaction_encoding_invalid''
                      else sum_bind (compare_digest (hd (so_keys (sx_message tx))) wallet) (\<lambda>signs.
                        if \<not> signs \<or> wallet \<notin> set (signer_keys tx) then refuse 409 ''transaction_signer_mismatch''
                        else Inr ()))))))"

definition sign_and_broadcast ::
  "wallet_sidecar \<Rightarrow> string option \<Rightarrow> string \<Rightarrow> string \<Rightarrow> pydict \<Rightarrow> int \<Rightarrow> (string \<Rightarrow> string option) \<Rightarrow>
   (http_error + pydict) \<times> (string \<Rightarrow> string option)" where
  "sign_and_broadcast w authorization wallet_address encoded review now completed =
     (case sum_bind (authenticate_sidecar w authorization) (\<lambda>_. sidecar_checks w wallet_address encoded review now) of
        Inl e \<Rightarrow> (Inl e, completed)
      | Inr _ \<Rightarrow>
          (case completed (wc_digest w encoded) of
             Some existing \<Rightarrow>
               (Inr (sidecar_answer w existing True), completed)
           | None \<Rightarrow>
               (case approve_sign_and_broadcast (wc_backend w) encoded review of
                  Inl _ \<Rightarrow> (refuse 502 ''wallet_backend_failed'', completed)
                | Inr signature \<Rightarrow>
                    if \<not> wc_signature w signature then (refuse 502 ''wallet_backend_failed'', completed)
                    else (Inr (sidecar_answer w signature False), completed(wc_digest w encoded \<mapsto> signature)))))"

section \<open>The client\<close>

datatype sidecar_reply = NoReply | Reply int "pyval option"

text \<open>A \<open>WalletAdapterError\<close> with its code, or another exception; the digest of text that is not base64 is \<open>None\<close>.\<close>

record wallet_adapter =
  wa_wallet :: string
  wa_digest :: "string \<Rightarrow> string option"
  wa_signature :: "string \<Rightarrow> bool"
  wa_post :: "string \<Rightarrow> pydict \<Rightarrow> sidecar_reply"

definition read_reply :: "wallet_adapter \<Rightarrow> sidecar_reply \<Rightarrow> backend_error + string" where
  "read_reply w reply =
     (case reply of
        NoReply \<Rightarrow> failed ''wallet_sidecar_unavailable''
      | Reply status body \<Rightarrow>
          if 300 \<le> status \<and> status < 400 then failed ''wallet_sidecar_redirect_rejected''
          else
            (case body of
               None \<Rightarrow> failed ''wallet_sidecar_response_invalid''
             | Some v \<Rightarrow>
                 if \<not> (200 \<le> status \<and> status < 300) then failed ''wallet_sidecar_rejected''
                 else if \<not> is_dict v \<or> dget (as_dict v) ''approved'' \<noteq> PBool True then failed ''wallet_sidecar_did_not_approve''
                 else
                   sum_bind (crashing (compare_digest (text_at (as_dict v) ''wallet_address'') (wa_wallet w))) (\<lambda>same.
                     if \<not> same then failed ''wallet_sidecar_identity_mismatch''
                     else if \<not> wa_signature w (text_at (as_dict v) ''tx_signature'') then failed ''wallet_sidecar_signature_invalid''
                     else Inr (text_at (as_dict v) ''tx_signature''))))"

definition adapter_sign_and_broadcast :: "wallet_adapter \<Rightarrow> string \<Rightarrow> pydict \<Rightarrow> backend_error + string" where
  "adapter_sign_and_broadcast w encoded review =
     (case wa_digest w encoded of
        None \<Rightarrow> failed ''wallet_transaction_encoding_invalid''
      | Some sha256 \<Rightarrow>
          let supplied = text_at review ''transaction_sha256'' in
          sum_bind (if supplied = [] then Inr True else crashing (compare_digest supplied sha256)) (\<lambda>bound.
            if \<not> bound then failed ''wallet_transaction_review_mismatch''
            else
              sum_bind (crashing (compare_digest (text_at review ''fee_payer'') (wa_wallet w))) (\<lambda>payer.
                if \<not> payer then failed ''wallet_review_fee_payer_mismatch''
                else read_reply w (wa_post w encoded (dset review ''transaction_sha256'' (PStr sha256))))))"

section \<open>What is broadcast\<close>

lemma crashing_Inr [simp]: "crashing m = Inr x \<longleftrightarrow> m = Inr x"
  by (cases m) (simp_all add: crashing_def)

lemma crashing_run [simp]: "crashing (Inr x) = Inr x"
  by (simp add: crashing_def)

lemma compared: "compare_digest a b = Inr same \<longleftrightarrow> is_ascii a \<and> is_ascii b \<and> same = (a = b)"
  by (auto simp: compare_digest_def)

lemma approved_payment:
  assumes "approve l b review now = Inr True"
  obtains payment permit simulation gross commission payout expires_at where "dget review ''settlement'' = PDict payment"
    "dget review ''execution_permit'' = PDict permit" "dget review ''simulation'' = PDict simulation"
    "sl_int l (dget payment ''gross_amount_minor'') = Some gross"
    "sl_int l (dget payment ''protocol_commission_amount_minor'') = Some commission"
    "sl_int l (dget payment ''seller_payout_amount_minor'') = Some payout" "amounts_allowed (ba_maximum b) gross commission payout"
    "text_at payment ''treasury_wallet'' = ba_treasury b" "text_at permit ''settlement_id'' = text_at payment ''settlement_id''"
    "text_at permit ''order_id'' = text_at payment ''order_id''" "dget permit ''state'' = PStr ''claimed''"
    "text_at review ''transaction_sha256'' = text_at simulation ''transaction_sha256''" "dget simulation ''status'' = PStr ''succeeded''"
    "sl_int l (dget review ''expires_at'') = Some expires_at" "now < expires_at" "expires_at \<le> now + 300"
proof -
  obtain payment permit simulation where 1: "dget review ''settlement'' = PDict payment"
      "dget review ''execution_permit'' = PDict permit" "dget review ''simulation'' = PDict simulation"
    using assms by (auto simp: approve_def split: pyval.split_asm)
  obtain gross commission payout expires_at where 2: "sl_int l (dget payment ''gross_amount_minor'') = Some gross"
    "sl_int l (dget payment ''protocol_commission_amount_minor'') = Some commission"
    "sl_int l (dget payment ''seller_payout_amount_minor'') = Some payout" "sl_int l (dget review ''expires_at'') = Some expires_at"
    using assms by (auto simp: approve_def 1 sum_bind_Inr split: option.split_asm if_split_asm)
  show ?thesis
    by (rule that [OF 1 2(1,2,3) _ _ _ _ _ _ _ 2(4)])
      (use assms in \<open>auto simp: approve_def 1 2 sum_bind_Inr Let_def compared split: if_split_asm\<close>)
qed

lemma backend_accepts:
  assumes "approve_sign_and_broadcast b encoded review = Inr signature"
  obtains prepared signed signed_text where "wb_approve b review = Inr True" "sl_decode (wb_library b) encoded = Some prepared"
    "signer_keys prepared \<noteq> []" "hd (signer_keys prepared) = wb_wallet b" "sx_signatures prepared \<noteq> []"
    "hd (sx_signatures prepared) = empty_signature" "wb_sign b encoded review = Some signed_text"
    "sl_decode (wb_library b) signed_text = Some signed" "sx_message signed = sx_message prepared"
    "sx_signatures signed = signature # tl (sx_signatures prepared)"
    "sl_verify (wb_library b) signature (wb_wallet b) (sx_message prepared)" "\<exists>answer. wb_send b signed_text = Some answer"
proof -
  obtain prepared signed_text signed where 1: "wb_approve b review = Inr True" "sl_decode (wb_library b) encoded = Some prepared"
    "signer_keys prepared \<noteq> []" "hd (signer_keys prepared) = wb_wallet b"
    "slot (wb_wallet b) prepared < length (sx_signatures prepared)"
    "sx_signatures prepared ! slot (wb_wallet b) prepared = empty_signature" "wb_sign b encoded review = Some signed_text"
    "check_signed b prepared signed_text = Inr signed" "broadcast b signed_text signed = Inr signature"
    using assms
    by (auto simp: approve_sign_and_broadcast_def failed_def sum_bind_Inr Let_def not_le split: if_split_asm option.split_asm)
  have "slot (wb_wallet b) prepared = 0"
    using 1(3,4) by (cases "signer_keys prepared") (simp_all add: slot_def)
  note 2 = 1(5,6) [unfolded this]
  have 3: "sl_decode (wb_library b) signed_text = Some signed" "sx_message signed = sx_message prepared"
    "length (sx_signatures signed) = length (sx_signatures prepared)"
    "list_all (\<lambda>j. j = 0 \<or> sx_signatures signed ! j = sx_signatures prepared ! j) [0..<length (sx_signatures prepared)]"
    "sl_verify (wb_library b) (sx_signatures signed ! 0) (wb_wallet b) (sx_message prepared)"
    using 1(8) unfolding check_signed_def \<open>slot (wb_wallet b) prepared = 0\<close>
    by (auto simp: failed_def Let_def list_ex_iff list_all_iff split: if_split_asm option.split_asm)
  have 4: "signature = hd (sx_signatures signed)" "\<exists>answer. wb_send b signed_text = Some answer"
    using 1(9) by (auto simp: broadcast_def failed_def sum_bind_Inr Let_def compared split: if_split_asm option.split_asm pyval.split_asm)
  obtain x xs y ys where xy: "sx_signatures signed = x # xs" "sx_signatures prepared = y # ys"
    using 2(1) 3(3) by (cases "sx_signatures signed"; cases "sx_signatures prepared") auto
  have "xs ! j = ys ! j" if "j < length ys" for j
  proof -
    have "Suc j \<in> set [0..<length (sx_signatures prepared)]" using that by (simp add: xy, arith)
    then have "Suc j = 0 \<or> sx_signatures signed ! Suc j = sx_signatures prepared ! Suc j"
      using 3(4) unfolding list_all_iff by blast
    then show ?thesis by (simp add: xy)
  qed
  then have "xs = ys" using 3(3) by (intro nth_equalityI) (simp_all add: xy)
  then show ?thesis using 1(1-4,7) 2 3(1,2,5) 4 xy by (intro that [of prepared signed_text signed]) simp_all
qed

text \<open>
  C9: a new answer of the settlement sidecar is a broadcast of exactly the given transaction with the wallet's
  signature in the slot that was empty, for a review whose amounts add up within the limit, with a claimed permit for
  the same settlement and order and a successful simulation, before it expires.
\<close>

theorem broadcast_is_approved:
  assumes "sign_and_broadcast w authorization wallet_address encoded review now completed = (Inr answer, completed')"
    and "completed (wc_digest w encoded) = None"
    and "wb_approve (wc_backend w) = (\<lambda>review. approve (wb_library (wc_backend w)) policy review later_now)"
  shows "\<exists>prepared signed signed_text signature payment permit gross commission payout.
    sl_decode (wb_library (wc_backend w)) encoded = Some prepared \<and> hd (signer_keys prepared) = wb_wallet (wc_backend w) \<and>
    sl_decode (wb_library (wc_backend w)) signed_text = Some signed \<and> sx_message signed = sx_message prepared \<and>
    sx_signatures prepared = empty_signature # tl (sx_signatures prepared) \<and>
    sx_signatures signed = signature # tl (sx_signatures prepared) \<and>
    sl_verify (wb_library (wc_backend w)) signature (wb_wallet (wc_backend w)) (sx_message prepared) \<and>
    wb_send (wc_backend w) signed_text \<noteq> None \<and> answer = sidecar_answer w signature False \<and>
    completed' (wc_digest w encoded) = Some signature \<and>
    dget review ''settlement'' = PDict payment \<and> dget review ''execution_permit'' = PDict permit \<and>
    sl_int (wb_library (wc_backend w)) (dget payment ''gross_amount_minor'') = Some gross \<and>
    sl_int (wb_library (wc_backend w)) (dget payment ''protocol_commission_amount_minor'') = Some commission \<and>
    sl_int (wb_library (wc_backend w)) (dget payment ''seller_payout_amount_minor'') = Some payout \<and>
    commission + payout = gross \<and> 0 < gross \<and> gross \<le> ba_maximum policy \<and>
    text_at payment ''treasury_wallet'' = ba_treasury policy \<and> dget permit ''state'' = PStr ''claimed'' \<and>
    text_at permit ''settlement_id'' = text_at payment ''settlement_id'' \<and> text_at permit ''order_id'' = text_at payment ''order_id''"
proof -
  obtain signature where s: "approve_sign_and_broadcast (wc_backend w) encoded review = Inr signature"
      "answer = sidecar_answer w signature False" "completed' = completed(wc_digest w encoded \<mapsto> signature)"
    using assms(1,2) by (auto simp: sign_and_broadcast_def refuse_def split: sum.split_asm if_split_asm)
  from s(1) show ?thesis
  proof (rule backend_accepts)
    fix prepared signed signed_text
    assume 1: "wb_approve (wc_backend w) review = Inr True" "sl_decode (wb_library (wc_backend w)) encoded = Some prepared"
      "hd (signer_keys prepared) = wb_wallet (wc_backend w)" "sx_signatures prepared \<noteq> []" "hd (sx_signatures prepared) = empty_signature"
      "sl_decode (wb_library (wc_backend w)) signed_text = Some signed" "sx_message signed = sx_message prepared"
      "sx_signatures signed = signature # tl (sx_signatures prepared)"
      "sl_verify (wb_library (wc_backend w)) signature (wb_wallet (wc_backend w)) (sx_message prepared)"
      "\<exists>answer. wb_send (wc_backend w) signed_text = Some answer"
    then have prepared: "sx_signatures prepared = empty_signature # tl (sx_signatures prepared)" by (metis list.collapse)
    have "approve (wb_library (wc_backend w)) policy review later_now = Inr True" using 1(1) by (simp add: assms(3))
    then show ?thesis
    proof (rule approved_payment)
      fix payment permit simulation gross commission payout expires_at
      assume "dget review ''settlement'' = PDict payment" "dget review ''execution_permit'' = PDict permit"
        "sl_int (wb_library (wc_backend w)) (dget payment ''gross_amount_minor'') = Some gross"
        "sl_int (wb_library (wc_backend w)) (dget payment ''protocol_commission_amount_minor'') = Some commission"
        "sl_int (wb_library (wc_backend w)) (dget payment ''seller_payout_amount_minor'') = Some payout"
        "amounts_allowed (ba_maximum policy) gross commission payout" "text_at payment ''treasury_wallet'' = ba_treasury policy"
        "text_at permit ''settlement_id'' = text_at payment ''settlement_id''"
        "text_at permit ''order_id'' = text_at payment ''order_id''" "dget permit ''state'' = PStr ''claimed''"
      moreover have "completed' (wc_digest w encoded) = Some signature" "wb_send (wc_backend w) signed_text \<noteq> None"
        using s(3) 1(10) by auto
      ultimately show ?thesis using 1(2,3,6-9) s(2) prepared unfolding amounts_allowed_def
        by (intro exI [of _ prepared] exI [of _ signed] exI [of _ signed_text] exI [of _ signature] exI [of _ payment]
            exI [of _ permit] exI [of _ gross] exI [of _ commission] exI [of _ payout] conjI) (elim conjE, assumption)+
    qed
  qed
qed

text \<open>
  C10: the review does not bind the transaction: with a review that the sidecar has accepted for one transaction, it
  signs and broadcasts every other transaction with the escrow as its only signer, whatever the instructions are. The
  digest in the review is compared with the digest in the simulation, and never with the transaction.
\<close>

theorem review_not_bound:
  assumes "sign_and_broadcast w authorization wallet_address encoded review now completed = (Inr answer, completed')"
    and "completed (wc_digest w encoded) = None" and "wb_sign (wc_backend w) = (\<lambda>text _. escrow_sign l own text)"
    and "wb_library (wc_backend w) = l" and "wb_wallet (wc_backend w) = own"
    and "sl_decode l other = Some tx" and "so_keys (sx_message tx) = own # keys" and "so_signers (sx_message tx) = 1"
    and "sx_signatures tx = [empty_signature]" and "signature = sl_sign l own (sx_message tx)" and "signature \<noteq> empty_signature"
    and "sl_verify l signature own (sx_message tx)" and "wc_signature w signature" and "is_ascii signature \<and> signature \<noteq> []"
    and "sl_decode l (sl_encode l (tx \<lparr> sx_signatures := [signature] \<rparr>)) = Some (tx \<lparr> sx_signatures := [signature] \<rparr>)"
    and "wb_send (wc_backend w) (sl_encode l (tx \<lparr> sx_signatures := [signature] \<rparr>)) = Some (PDict [(''result'', PStr signature)])"
    and "completed (wc_digest w other) = None"
  shows "sign_and_broadcast w authorization wallet_address other review now completed =
    (Inr (sidecar_answer w signature False), completed(wc_digest w other \<mapsto> signature))"
proof -
  obtain old where old: "approve_sign_and_broadcast (wc_backend w) encoded review = Inr old"
    using assms(1,2) by (auto simp: sign_and_broadcast_def refuse_def split: sum.split_asm if_split_asm)
  have checked: "sum_bind (authenticate_sidecar w authorization) (\<lambda>_. sidecar_checks w wallet_address encoded review now) = Inr ()"
    using assms(1) by (auto simp: sign_and_broadcast_def split: sum.split_asm)
  then have "compare_digest own own = Inr True"
    by (auto simp: sidecar_checks_def sum_bind_Inr Let_def refuse_def compare_digest_def assms(5) split: if_split_asm)
  then have "sidecar_checks w wallet_address other review now = Inr ()"
    using checked assms(4-8)
    by (auto simp: sidecar_checks_def sum_bind_Inr Let_def refuse_def signer_keys_def split: if_split_asm option.split_asm)
  then have "sum_bind (authenticate_sidecar w authorization) (\<lambda>_. sidecar_checks w wallet_address other review now) = Inr ()"
    using checked by (auto simp: sum_bind_Inr)
  moreover have "approve_sign_and_broadcast (wc_backend w) other review = Inr signature"
  proof -
    have slot0: "slot own tx = 0" "signer_keys tx = [own]" using assms(7,8) by (simp_all add: slot_def signer_keys_def)
    have signed: "escrow_sign l own other = Some (sl_encode l (tx \<lparr> sx_signatures := [signature] \<rparr>))"
      using assms(6,9,10) slot0 by (simp add: escrow_sign_def)
    have "check_signed (wc_backend w) tx (sl_encode l (tx \<lparr> sx_signatures := [signature] \<rparr>)) = Inr (tx \<lparr> sx_signatures := [signature] \<rparr>)"
      using assms(4,5,9,11,12,15) slot0 by (simp add: check_signed_def Let_def)
    moreover have "broadcast (wc_backend w) (sl_encode l (tx \<lparr> sx_signatures := [signature] \<rparr>)) (tx \<lparr> sx_signatures := [signature] \<rparr>) = Inr signature"
      using assms(14,16) by (simp add: broadcast_def py_str_def compare_digest_def Let_def)
    ultimately show ?thesis
      using old assms(3-6,9) slot0 signed
      by (auto simp: approve_sign_and_broadcast_def failed_def sum_bind_Inr Let_def split: if_split_asm)
  qed
  ultimately show ?thesis using assms(13,17) by (simp add: sign_and_broadcast_def)
qed

section \<open>A settlement\<close>

definition escrow_message :: "nat list \<Rightarrow> solana_message" where
  "escrow_message data = \<lparr> so_keys = [''E'', ''P''], so_signers = 1,
     so_instructions = [\<lparr> ci_program = 1, ci_accounts = [0], ci_data = data \<rparr>], so_lookups = False, so_blank_blockhash = False \<rparr>"

definition escrow_transaction :: "string \<Rightarrow> nat list \<Rightarrow> solana_transaction" where
  "escrow_transaction sig data = \<lparr> sx_signatures = [sig], sx_message = escrow_message data \<rparr>"

definition escrow_library :: signing_library where
  "escrow_library =
     \<lparr> sl_decode = map_of [(''A'', escrow_transaction empty_signature [5]), (''B'', escrow_transaction empty_signature [9]),
         (''SA'', escrow_transaction ''q'' [5]), (''SB'', escrow_transaction ''q'' [9])],
       sl_encode = (\<lambda>tx. if sx_message tx = escrow_message [5] then ''SA'' else ''SB''),
       sl_pubkey = Some, sl_data = (\<lambda>_. None), sl_sign = (\<lambda>k m. ''q''), sl_verify = (\<lambda>s k m. s = ''q''), sl_hash = (\<lambda>_. ''h''),
       sl_int = (\<lambda>v. case v of PInt i \<Rightarrow> Some i | _ \<Rightarrow> None) \<rparr>"

definition escrow_policy :: bounded_approval where
  "escrow_policy = \<lparr> ba_escrow = ''E'', ba_treasury = ''T'', ba_maximum = 100, ba_cluster = ''solana:devnet'' \<rparr>"

definition escrow_sidecar :: wallet_sidecar where
  "escrow_sidecar =
     \<lparr> wc_backend = \<lparr> wb_library = escrow_library, wb_wallet = ''E'', wb_cluster = ''solana:devnet'',
         wb_approve = (\<lambda>review. approve escrow_library escrow_policy review 100), wb_sign = (\<lambda>text _. escrow_sign escrow_library ''E'' text),
         wb_send = (\<lambda>_. Some (PDict [(''result'', PStr ''q'')])) \<rparr>,
       wc_token = ''sidecar-token-01'', wc_clusters = [''solana:devnet''], wc_ttl = 180, wc_signature = (\<lambda>s. s = ''q''),
       wc_digest = (\<lambda>s. s) \<rparr>"

definition reviewed_digest :: string where
  "reviewed_digest = replicate 64 CHR ''a''"

definition escrow_review :: pydict where
  "escrow_review =
     [(''policy_version'', PStr ''settlement_signing_policy_v1''), (''cluster'', PStr ''solana:devnet''), (''fee_payer'', PStr ''E''),
      (''expires_at'', PInt 150), (''transaction_sha256'', PStr reviewed_digest),
      (''settlement'', PDict [(''settlement_id'', PStr ''s''), (''order_id'', PStr ''o''), (''asset'', PStr ''IAT''),
         (''treasury_wallet'', PStr ''T''), (''gross_amount_minor'', PInt 5), (''protocol_commission_amount_minor'', PInt 1),
         (''seller_payout_amount_minor'', PInt 4)]),
      (''execution_permit'', PDict [(''permit_id'', PStr ''pep_1''), (''claim_id'', PStr ''pec_1''), (''state'', PStr ''claimed''),
         (''settlement_id'', PStr ''s''), (''order_id'', PStr ''o'')]),
      (''simulation'', PDict [(''status'', PStr ''succeeded''), (''transaction_sha256'', PStr reviewed_digest)])]"

lemma reviewed_digest_ok: "hex64 reviewed_digest" "is_ascii reviewed_digest" "reviewed_digest \<noteq> []"
  by (auto simp: reviewed_digest_def hex64_def is_ascii_def list_all_iff)

lemma escrow_approved: "approve escrow_library escrow_policy escrow_review 100 = Inr True"
proof -
  have int: "sl_int escrow_library (PInt i) = Some i" for i by (simp add: escrow_library_def)
  show ?thesis
    using reviewed_digest_ok
    by (simp add: approve_def escrow_review_def escrow_policy_def text_at_def str_or_empty_def py_str_def simulations_agree_def int
        compare_digest_def is_ascii_def amounts_allowed_def py_upper_def py_upper_char_def py_startswith_def Let_def)
qed

lemma escrow_facts:
  "wb_library (wc_backend escrow_sidecar) = escrow_library" "wb_wallet (wc_backend escrow_sidecar) = ''E''"
  "wb_approve (wc_backend escrow_sidecar) = (\<lambda>review. approve (wb_library (wc_backend escrow_sidecar)) escrow_policy review 100)"
  "wb_sign (wc_backend escrow_sidecar) = (\<lambda>text _. escrow_sign escrow_library ''E'' text)"
  "wb_send (wc_backend escrow_sidecar) t = Some (PDict [(''result'', PStr ''q'')])" "wc_signature escrow_sidecar ''q''"
  "wb_cluster (wc_backend escrow_sidecar) = ''solana:devnet''"
  "sl_decode escrow_library ''A'' = Some (escrow_transaction empty_signature [5])"
  "sl_decode escrow_library ''B'' = Some (escrow_transaction empty_signature [9])"
  "sl_decode escrow_library ''SA'' = Some (escrow_transaction ''q'' [5])" "sl_decode escrow_library ''SB'' = Some (escrow_transaction ''q'' [9])"
  by (simp_all add: escrow_sidecar_def escrow_library_def)

lemma escrow_run:
  "sign_and_broadcast escrow_sidecar (Some ''bearer sidecar-token-01'') ''E'' ''A'' escrow_review 100 Map.empty =
     (Inr (sidecar_answer escrow_sidecar ''q'' False), [wc_digest escrow_sidecar ''A'' \<mapsto> ''q''])"
proof -
  have "authenticate_sidecar escrow_sidecar (Some ''bearer sidecar-token-01'') = Inr ()"
    by (simp add: authenticate_sidecar_def bearer_def py_lower_def py_lower_char_def compare_digest_def is_ascii_def escrow_sidecar_def)
  moreover have "sl_int escrow_library (PInt 150) = Some 150" by (simp add: escrow_library_def)
  then have "sidecar_checks escrow_sidecar ''E'' ''A'' escrow_review 100 = Inr ()"
    by (simp add: sidecar_checks_def escrow_facts escrow_transaction_def escrow_message_def signer_keys_def compare_digest_def
        is_ascii_def text_at_def str_or_empty_def py_str_def Let_def escrow_review_def) (simp add: escrow_sidecar_def)
  moreover have "escrow_sign escrow_library ''E'' ''A'' = Some ''SA''"
    by (simp add: escrow_sign_def escrow_facts escrow_transaction_def escrow_message_def signer_keys_def slot_def)
      (simp add: escrow_library_def escrow_message_def)
  then have "approve_sign_and_broadcast (wc_backend escrow_sidecar) ''A'' escrow_review = Inr ''q''"
    using escrow_approved
    by (simp add: approve_sign_and_broadcast_def escrow_facts compare_digest_def is_ascii_def check_signed_def broadcast_def
        escrow_transaction_def escrow_message_def signer_keys_def slot_def Let_def py_str_def empty_signature_def)
      (simp add: escrow_review_def text_at_def str_or_empty_def py_str_def escrow_library_def)
  ultimately show ?thesis by (simp add: sign_and_broadcast_def escrow_facts)
qed

theorem broadcast_is_approved_witness:
  "\<exists>(signed :: solana_transaction) payment gross. sx_message signed = escrow_message [5] \<and> sx_signatures signed = [''q''] \<and>
     dget escrow_review ''settlement'' = PDict payment \<and> sl_int escrow_library (dget payment ''gross_amount_minor'') = Some gross \<and>
     0 < gross \<and> gross \<le> 100"
  using broadcast_is_approved [OF escrow_run _ escrow_facts(3)]
  by (auto simp: escrow_facts escrow_transaction_def escrow_policy_def sidecar_answer_def)

theorem review_not_bound_witness:
  "sign_and_broadcast escrow_sidecar (Some ''bearer sidecar-token-01'') ''E'' ''B'' escrow_review 100 Map.empty =
     (Inr (sidecar_answer escrow_sidecar ''q'' False), [wc_digest escrow_sidecar ''B'' \<mapsto> ''q''])"
proof -
  have "sl_decode escrow_library (sl_encode escrow_library (escrow_transaction empty_signature [9] \<lparr> sx_signatures := [''q''] \<rparr>)) =
      Some (escrow_transaction empty_signature [9] \<lparr> sx_signatures := [''q''] \<rparr>)"
    by (simp add: escrow_library_def escrow_transaction_def escrow_message_def)
  moreover have "sl_sign escrow_library k m = ''q''" "sl_verify escrow_library ''q'' k m" for k m
    by (simp_all add: escrow_library_def)
  ultimately show ?thesis
    by (intro review_not_bound [OF escrow_run _ escrow_facts(4,1,2,9)])
      (simp_all add: escrow_facts escrow_transaction_def escrow_message_def empty_signature_def is_ascii_def)
qed

end
