(* ===== verification/Spec2Isabelle.thy ===== *)
theory Spec2Isabelle
  imports ReceiptHistory CheckoutBooks DeliveryRefinement ActionFacts BuyerFacts HostedFacts EvidenceRun QuoteRun WalletSidecar
begin

text \<open>
  The IAT protocol server (\<open>src/iat\<close>): agents buy services, pay in IAT through a universal checkout, the
  server delivers the service, allocates the price between seller and protocol and releases it from
  escrow. This development models the money path of the server (exact amounts and the double-entry
  ledger, the settlement state machine and its execution guard, the checkout's delivery queue, the
  delivery receipts and the compensations), the action engine that runs deferred work, and the
  identity of buyers: wallet sessions, spend limits, intents, and the queue of hosted buyers.

  \<^bold>\<open>Conventions.\<close> A SQL table is a list of rows (records with the columns of the CREATE TABLE
  statement); a uniqueness constraint is a clash test used by \<open>sql_insert\<close>, an UPDATE is \<open>sql_update\<close>, which
  also returns the rowcount. A handler that reads in one statement and writes in another takes two
  databases: \<open>snap\<close>, what its SELECT saw, and \<open>db\<close>, what its UPDATE meets; interleavings of sessions are
  lists of operations whose snapshots are arbitrary, or earlier states of the run where the property needs
  that. Clocks, drawn identifiers, SHA-256, the wallet check of the Solana library, signature checks, URL
  parsing, HTTP answers and \<open>float()\<close> are arguments. Exceptions are \<open>Inl\<close>; a rollback is the unchanged
  database. JSON columns hold the decoded value (\<open>pyval\<close>), a dict is an association list.

  \<^bold>\<open>Theories.\<close>
  \<^item> \<open>Prelude\<close>: lists, options, SQL updates and inserts, and the rules \<open>ends\<close> and \<open>outcome\<close> that walk
    through a handler branch by branch. \<open>Json\<close>: Python values, truthiness, dicts, text functions, the
    printing of JSON and its injectivity. \<open>PyDecimal\<close>, \<open>DecimalText\<close>: \<open>decimal.Decimal\<close> with the default
    context (28 digits, half even, its signals), reading and printing; printing reads back.
  \<^item> \<open>Ledger\<close> (\<open>iat/ledger.py\<close>): minor units, allocation journals, the journal validator.
    \<open>LedgerDb\<close> (\<open>iat/api/ledger_db.py\<close>): posting, lookup, reconciliation, backfill over the tables of
    \<open>SettlementTables\<close>. The lemmas show that posting keeps the ledger balanced, is idempotent, refuses other
    amounts, and that reconciliation decides exactly the consistency of the books.
  \<^item> \<open>Settlements\<close> (the settlements table of \<open>iat/api/db.py\<close>, and the permit row of
    \<open>iat/api/protocol_evidence.py\<close>): recording, the transition table and status updates, wallet recovery,
    payload updates, the execution claim and guard, broadcast, errors and recovery. \<open>SettlementBooks\<close> shows
    what recording does to settlements and ledger together. \<open>SettlementAction\<close>
    (\<open>iat/action_engine/adapters/settlement_atomic.py\<close>): the release of a settlement around the broadcast,
    which is an argument; it sends at most once, whatever runs beside it, but the amounts of its payload,
    which nothing compares with the permit.
  \<^item> \<open>Interfaces\<close>: the contracts that several components share. \<open>idempotent_recorder\<close>: the first entry
    of a key stays (interpreted on settlements per order, compensations, enqueued payments and intent
    decisions); \<open>lease_store\<close>: a claim hands out a token, only its holder finishes, and only once (interpreted
    on the execution guard and on the delivery lease). \<open>receipt_relation\<close> in \<open>ReceiptHistory\<close>: what every
    update of a receipt keeps, every run keeps (interpreted on seals, decisions and unaccepted receipts).
  \<^item> \<open>CheckoutTables\<close>: the checkout's tables. \<open>CheckoutCompensation\<close> (\<open>iat/checkout_compensation.py\<close>):
    requests, decisions, views. \<open>CheckoutReceipt\<close> (\<open>iat/checkout_receipt.py\<close>): configuration, sealing,
    inbox, decisions, webhook and e-mail notification, provider events, the release gate;
    \<open>ReceiptHistory\<close> proves what holds along any run of these operations.
  \<^item> \<open>CheckoutSettlement\<close> (\<open>iat/checkout_settlement.py\<close>): commission split and allocation.
    \<open>CheckoutDelivery\<close> and \<open>DeliveryWorker\<close> (\<open>iat/checkout_delivery.py\<close>): the queue, leases, one attempt, the
    sweeps. \<open>DeliveryQueue\<close>, \<open>DeliveryOutcome\<close> and \<open>CheckoutBooks\<close> prove the queue's safety, the outcome of
    an attempt, that the worker keeps the books, and what a worker still does that has lost its lease. \<open>DeliveryRefinement\<close> states the queue as an abstract
    machine over the phases of a delivery, which the handlers refine, and shows that failing deliveries end.
  \<^item> The action engine (\<open>iat/action_engine\<close>, its tables in \<open>iat/api/db.py\<close>). \<open>ActionStore\<close>: queue, history,
    dead letters, workers, claims, circuit breakers. \<open>ActionContext\<close>: normalisation and validation.
    \<open>ActionPipeline\<close>: scheduler, registry, router, dispatcher, pipeline and core. \<open>ActionRecovery\<close>: workers,
    retries, recovery plans, heartbeats, the circuit breaker hook. \<open>ActionFacts\<close>: the
    order of the queue, the states of a breaker, that racing claims are both granted (and serialised ones
    exclude each other), and three ways in which actions and workers get lost.
    \<open>DependencyResolver\<close> (\<open>dependency_resolver.py\<close>): the cycle search is total, finds a cycle exactly if there is
    one, and what an accepted plan can wait for: an action that is ready, or an unknown identifier.
  \<^item> \<open>BuyerIdentity\<close> (\<open>iat/buyer_identity.py\<close>): challenges, sessions, purchase policies, spend reservations,
    intent decisions. \<open>BuyerFacts\<close>: sessions are paid for by signed challenges, the daily limit holds for
    spends reported in time, an intent gets one order.
  \<^item> \<open>HostedJobs\<close> (\<open>iat/hosted_buyer_registry.py\<close>, \<open>iat/hosted_buyer_jobs.py\<close>, \<open>iat/hosted_buyer_worker.py\<close>):
    registry, leased queue, the hash-chained event log and its verification, the worker's transition.
    \<open>HostedFacts\<close>: what a verified head hash commits to, when a log verifies, how a chain forks within a
    second, and that waiting jobs are never claimed.

  \<^item> \<open>Acceptance\<close> (\<open>iat/acceptance.py\<close>): declared criteria and their evaluation.
    \<open>SettlementSimulation\<close> (\<open>iat/settlement_transaction.py\<close>, \<open>iat/settlement_simulation.py\<close>): the instructions
    of a settlement and the simulation of the unsigned transaction; the Solana library and node are the
    fields of \<open>solana\<close>. \<open>ProtocolEvidence\<close> (\<open>iat/api/protocol_evidence.py\<close>): signed evidence, validation of
    delivery and quality, eligibility, plan, authorisation, simulation, permit; the foundation's evaluation
    of a release (\<open>iat/api/agent_b_api.py\<close>) is an argument. \<open>EvidenceFacts\<close>: every permit, and every execution
    claim that is granted with one, is backed by the whole chain; a simulation that runs out blocks its authorisation.
    \<open>EvidenceRun\<close>: a complete run, from evidence to broadcast.
  \<^item> \<open>CheckoutQuoting\<close> (\<open>iat/checkout.py\<close> and the configuration in \<open>iat/api/checkout_api.py\<close>): the choice
    between treasury and pool, prices, caps, offers. \<open>CheckoutVerifier\<close> (\<open>iat/checkout_verifier.py\<close>): the
    verification of a payment on the chain; the node and the Solana library are the fields of \<open>chain\<close>.
    \<open>QuoteLifecycle\<close> (\<open>iat/api/checkout_api.py\<close>): the quotes table and the handlers that create, prepare,
    authorise, submit, confirm and deliver a quote, with the reconciliation sweep. \<open>QuoteFacts\<close>: what a
    quote promises. \<open>QuoteHistory\<close>: in any interleaving of the handlers every delivery is paid by a verified
    transaction of its own. \<open>QuoteRun\<close>: reservations stay within the caps, what a confirmed and a second
    payment do, and a complete run.
  \<^item> \<open>QuoteSigner\<close> (\<open>iat/quote_signer.py\<close>, \<open>iat/quote_signer_service.py\<close>, and its client in
    \<open>iat/api/checkout_api.py\<close>): only the plan's instructions are signed, and only the signer's own slot
    changes. \<open>WalletSidecar\<close> (\<open>iat/settlement_signing_policy.py\<close>, \<open>iat/settlement_sidecar.py\<close>,
    \<open>iat/solana_wallet_backend.py\<close>, \<open>iat/wallet_sidecar.py\<close>, \<open>iat/wallet_adapters.py\<close>): what a broadcast
    of the escrow rests on, and that its review is not bound to its transaction.

  \<^bold>\<open>Bounds.\<close> Python integers are \<open>int\<close>; the BIGINT columns are guarded by the code itself
    (\<open>max_iat_minor\<close>). No definition needs fuel: the loops run over lists, the cycle search recurses over the
    unvisited actions (Python's recursion limit is not modelled), the chain of a job log over the remaining
    rows. Floating-point numbers are carried as their printed form; where the code computes with them (the
    choice among idle workers) the result is an argument. The hosted buyers' queue is modelled for SQLite,
    whose writers exclude each other.

  \<^bold>\<open>Not modelled.\<close> Table creation and migrations, connection handling, threads and polling loops, SMTP and
  HTTP transport, the Solana RPC client and library, the language model calls, the agent directory and
  growth engines, the SDK and demos: they are I/O around the modelled operations, or compute with
  floating-point scores (decision engine, intelligence, governance). Of the FastAPI routes only the
  universal checkout's and the evidence registry's are modelled; those for wallets, inbox and buyers call
  modelled operations. Of the action engine the runtime of a protocol order and the reporting hooks are
  left out.
\<close>

end
